(* ===== verification/Rector_Prelude.thy ===== *)
theory Rector_Prelude
  imports Complex_Main "HOL-Library.AList" "HOL-Library.Sublist"
    "HOL-Library.List_Lexorder" "HOL-Library.Char_ord"
begin

text \<open>
  Shared vocabulary of the development: the collections of simplification facts the component
  theories extend, the parts of the JavaScript standard library the sources use (strings, \<open>Map\<close>,
  \<open>Set\<close>, numbers, JSON-shaped values) and the generic lemmas about them.

  \<^item> Strings are lists of 8-bit code units (\<^typ>\<open>string\<close>); case mapping and whitespace follow
    ECMAScript on the Latin-1 range.
  \<^item> A \<open>Map\<close> is an association list in insertion order with distinct keys: \<open>get\<close> is
    \<^const>\<open>map_of\<close>, \<open>set\<close> is \<open>AList.update\<close> (in place when the key is present, else appended at
    the end, which is the iteration order ECMAScript prescribes), \<open>delete\<close> is \<open>AList.delete\<close>.
  \<^item> A \<open>Set\<close> is a list in insertion order without repetitions.
  \<^item> A number is a finite rational or one of the three non-finite doubles.
\<close>

named_theorems rector_simps \<open>unfolding equations of the model's operations\<close>
named_theorems rector_invs \<open>facts that an operation keeps an invariant\<close>

section \<open>Results\<close>

text \<open>A call that may throw returns \<open>Inl\<close> of the error or \<open>Inr\<close> of the value.\<close>

type_synonym ('e, 'a) result = "'e + 'a"

definition bind_result :: "('e, 'a) result \<Rightarrow> ('a \<Rightarrow> ('e, 'b) result) \<Rightarrow> ('e, 'b) result" where
  "bind_result r f = (case r of Inl e \<Rightarrow> Inl e | Inr a \<Rightarrow> f a)"

lemma bind_result_simps [simp]:
  "bind_result (Inl e) f = Inl e"
  "bind_result (Inr a) f = f a"
  by (simp_all add: bind_result_def)

lemma bind_result_eq_Inr [simp]:
  "bind_result r f = Inr b \<longleftrightarrow> (\<exists>a. r = Inr a \<and> f a = Inr b)"
  by (cases r) auto

section \<open>Strings\<close>

definition js_lower_char :: "char \<Rightarrow> char" where
  "js_lower_char c =
     (let n = (of_char c :: nat)
      in if (65 \<le> n \<and> n \<le> 90) \<or> (192 \<le> n \<and> n \<le> 222 \<and> n \<noteq> 215)
         then char_of (n + 32) else c)"

definition toLowerCase :: "string \<Rightarrow> string" where
  "toLowerCase = map js_lower_char"

definition js_space :: "char \<Rightarrow> bool" where
  "js_space c = (let n = (of_char c :: nat) in (9 \<le> n \<and> n \<le> 13) \<or> n = 32 \<or> n = 160)"

text \<open>Equations over binary integers, with which the kernel evaluates these functions.\<close>

lemma of_char_int: "(of_char c :: int) = int (of_char c)"
  by (simp add: of_nat_of_char)

lemma js_lower_char_code [code]:
  "js_lower_char c =
     (let n = (of_char c :: int)
      in if (65 \<le> n \<and> n \<le> 90) \<or> (192 \<le> n \<and> n \<le> 222 \<and> n \<noteq> 215) then char_of (n + 32) else c)"
proof -
  have "char_of (int n + 32) = (char_of (n + 32) :: char)" for n
    using char_of_nat [where 'a = int, of "n + 32"] by simp
  then show ?thesis unfolding js_lower_char_def Let_def of_char_int by auto
qed

lemma js_space_code [code]:
  "js_space c = (let n = (of_char c :: int) in (9 \<le> n \<and> n \<le> 13) \<or> n = 32 \<or> n = 160)"
  unfolding js_space_def Let_def of_char_int by auto

definition js_trim :: "string \<Rightarrow> string" where
  "js_trim s = rev (dropWhile js_space (rev (dropWhile js_space s)))"

definition startsWith :: "string \<Rightarrow> string \<Rightarrow> bool" where
  "startsWith s p = prefix p s"

fun js_includes :: "string \<Rightarrow> string \<Rightarrow> bool" where
  "js_includes [] needle = (needle = [])"
| "js_includes (c # cs) needle = (prefix needle (c # cs) \<or> js_includes cs needle)"

lemma length_toLowerCase [simp]: "length (toLowerCase s) = length s"
  by (simp add: toLowerCase_def)

lemma js_includes_iff: "js_includes s needle \<longleftrightarrow> (\<exists>a b. s = a @ needle @ b)"
proof (induction s)
  case Nil
  then show ?case by simp
next
  case (Cons c cs)
  show ?case
  proof
    assume "js_includes (c # cs) needle"
    then consider "prefix needle (c # cs)" | "js_includes cs needle" by auto
    then show "\<exists>a b. c # cs = a @ needle @ b"
    proof cases
      case 1
      then show ?thesis by (metis append_Nil prefixE)
    next
      case 2
      then obtain a b where "cs = a @ needle @ b" using Cons.IH by blast
      then have "c # cs = (c # a) @ needle @ b" by simp
      then show ?thesis by blast
    qed
  next
    assume "\<exists>a b. c # cs = a @ needle @ b"
    then obtain a b where *: "c # cs = a @ needle @ b" by blast
    show "js_includes (c # cs) needle"
    proof (cases a)
      case Nil
      with * have "prefix needle (c # cs)" by (metis append_Nil prefixI)
      then show ?thesis by simp
    next
      case (Cons x xs)
      with * have "cs = xs @ needle @ b" by simp
      then show ?thesis using Cons.IH by auto
    qed
  qed
qed

text \<open>The decimal rendering of a non-negative integer in a template literal.\<close>

fun show_nat :: "nat \<Rightarrow> string" where
  "show_nat n = (if n < 10 then [char_of (48 + n)] else show_nat (n div 10) @ [char_of (48 + n mod 10)])"

declare show_nat.simps [simp del]

fun read_nat :: "string \<Rightarrow> nat" where
  "read_nat s = foldl (\<lambda>acc c. acc * 10 + (of_char c - 48)) 0 s"

lemma read_show_nat: "read_nat (show_nat n) = n"
proof (induction n rule: show_nat.induct)
  case (1 n)
  show ?case
  proof (cases "n < 10")
    case True
    then show ?thesis by (simp add: show_nat.simps [of n])
  next
    case False
    have digit: "n mod 10 < 10" by simp
    then have "(48 + n mod 10) mod 256 = 48 + n mod 10" by simp
    with False "1" show ?thesis by (simp add: show_nat.simps [of n])
  qed
qed

lemma show_nat_inject [simp]: "show_nat m = show_nat n \<longleftrightarrow> m = n"
  by (metis read_show_nat)

section \<open>Insertion-ordered maps\<close>

type_synonym ('k, 'v) js_map = "('k \<times> 'v) list"

abbreviation js_get :: "('k, 'v) js_map \<Rightarrow> 'k \<Rightarrow> 'v option" where
  "js_get \<equiv> map_of"

abbreviation js_set :: "'k \<Rightarrow> 'v \<Rightarrow> ('k, 'v) js_map \<Rightarrow> ('k, 'v) js_map" where
  "js_set \<equiv> AList.update"

abbreviation js_delete :: "'k \<Rightarrow> ('k, 'v) js_map \<Rightarrow> ('k, 'v) js_map" where
  "js_delete \<equiv> AList.delete"

definition js_has :: "('k, 'v) js_map \<Rightarrow> 'k \<Rightarrow> bool" where
  "js_has m k = (map_of m k \<noteq> None)"

abbreviation js_values :: "('k, 'v) js_map \<Rightarrow> 'v list" where
  "js_values m \<equiv> map snd m"

abbreviation js_keys :: "('k, 'v) js_map \<Rightarrow> 'k list" where
  "js_keys m \<equiv> map fst m"

definition js_map_of_list :: "('k \<times> 'v) list \<Rightarrow> ('k, 'v) js_map" where
  "js_map_of_list ps = fold (\<lambda>(k, v) m. js_set k v m) ps []"

lemma js_has_iff: "js_has m k \<longleftrightarrow> k \<in> fst ` set m"
  by (simp add: js_has_def map_of_eq_None_iff)

lemma js_set_get [simp]: "js_get (js_set k v m) k' = (if k' = k then Some v else js_get m k')"
  by (simp add: update_conv')

lemma js_delete_get [simp]: "js_get (js_delete k m) k' = (if k' = k then None else js_get m k')"
  by (simp add: delete_conv')

lemma js_keys_set_dom: "fst ` set (js_set k v m) = insert k (fst ` set m)"
  using dom_update [of k v m] by (simp add: dom_map_of_conv_image_fst)

lemma js_keys_set_fresh: "k \<notin> fst ` set m \<Longrightarrow> js_set k v m = m @ [(k, v)]"
  by (induction m) auto

lemma js_values_set_fresh: "js_get m k = None \<Longrightarrow> js_values (js_set k v m) = js_values m @ [v]"
  by (simp add: map_of_eq_None_iff js_keys_set_fresh)

lemma js_keys_set_present: "k \<in> fst ` set m \<Longrightarrow> js_keys (js_set k v m) = js_keys m"
  by (induction m) auto

lemma js_keys_set: "js_keys (js_set k v m) = (if k \<in> fst ` set m then js_keys m else js_keys m @ [k])"
  by (simp add: js_keys_set_present js_keys_set_fresh)

lemma distinct_js_set: "distinct (js_keys m) \<Longrightarrow> distinct (js_keys (js_set k v m))"
  by (auto simp: js_keys_set)

lemma js_keys_delete: "js_keys (js_delete k m) = filter (\<lambda>x. x \<noteq> k) (js_keys m)"
  by (induction m) (auto simp: AList.delete_eq)

lemma distinct_js_delete: "distinct (js_keys m) \<Longrightarrow> distinct (js_keys (js_delete k m))"
  by (simp add: js_keys_delete)

lemma in_js_values_set:
  "v' \<in> set (js_values (js_set k v m)) \<Longrightarrow> v' = v \<or> v' \<in> set (js_values m)"
  by (induction m) (auto split: if_splits)

lemma list_all_js_set:
  "list_all P (js_values m) \<Longrightarrow> P v \<Longrightarrow> list_all P (js_values (js_set k v m))"
  by (induction m) auto

lemma distinct_keys_get:
  "distinct (js_keys m) \<Longrightarrow> (k, v) \<in> set m \<longleftrightarrow> js_get m k = Some v"
  by (simp add: map_of_eq_Some_iff)

text \<open>
  The interface of \<open>Map\<close> that the stores and registries are written against, and the facts they
  use, proved once from its laws.
\<close>

locale map_interface =
  fixes lookup :: "'m \<Rightarrow> 'k \<Rightarrow> 'v option"
    and insert_at :: "'k \<Rightarrow> 'v \<Rightarrow> 'm \<Rightarrow> 'm"
    and remove :: "'k \<Rightarrow> 'm \<Rightarrow> 'm"
    and keys :: "'m \<Rightarrow> 'k list"
    and invar :: "'m \<Rightarrow> bool"
  assumes lookup_insert: "lookup (insert_at k v m) k' = (if k' = k then Some v else lookup m k')"
    and lookup_remove: "lookup (remove k m) k' = (if k' = k then None else lookup m k')"
    and keys_lookup: "invar m \<Longrightarrow> set (keys m) = {k. lookup m k \<noteq> None}"
    and keys_distinct: "invar m \<Longrightarrow> distinct (keys m)"
    and keys_insert: "invar m \<Longrightarrow> keys (insert_at k v m) = (if lookup m k = None then keys m @ [k] else keys m)"
    and invar_insert: "invar m \<Longrightarrow> invar (insert_at k v m)"
    and invar_remove: "invar m \<Longrightarrow> invar (remove k m)"
begin

lemma insert_fresh_keeps:
  assumes "lookup m k = None" and "lookup m k' = Some v'"
  shows "lookup (insert_at k v m) k' = Some v'"
  using assms by (auto simp: lookup_insert)

lemma insert_appends_key:
  assumes "invar m" and "lookup m k = None"
  shows "keys (insert_at k v m) = keys m @ [k]"
  using assms by (simp add: keys_insert)

lemma length_keys_insert:
  assumes "invar m"
  shows "length (keys (insert_at k v m)) \<le> Suc (length (keys m))"
  using assms by (simp add: keys_insert)

lemma remove_insert_lookup:
  assumes "lookup m k = None"
  shows "lookup (remove k (insert_at k v m)) = lookup m"
  using assms by (auto simp: lookup_insert lookup_remove fun_eq_iff)

end

interpretation jsm: map_interface map_of AList.update AList.delete "map fst" "\<lambda>m. distinct (map fst m)"
proof unfold_locales
  fix m :: "('a \<times> 'b) list" and k :: 'a and v :: 'b
  assume "distinct (js_keys m)"
  show "set (js_keys m) = {k. js_get m k \<noteq> None}"
    by (auto simp: map_of_eq_None_iff)
  show "js_keys (js_set k v m) = (if js_get m k = None then js_keys m @ [k] else js_keys m)"
    by (simp add: js_keys_set map_of_eq_None_iff)
qed (simp_all add: distinct_js_set distinct_js_delete)

section \<open>Insertion-ordered sets\<close>

type_synonym 'a js_set = "'a list"

definition js_add :: "'a \<Rightarrow> 'a js_set \<Rightarrow> 'a js_set" where
  "js_add x s = (if x \<in> set s then s else s @ [x])"

definition js_set_of :: "'a list \<Rightarrow> 'a js_set" where
  "js_set_of xs = fold js_add xs []"

lemma set_js_add [simp]: "set (js_add x s) = insert x (set s)"
  by (auto simp: js_add_def)

lemma distinct_js_add [simp]: "distinct s \<Longrightarrow> distinct (js_add x s)"
  by (simp add: js_add_def)

lemma set_fold_js_add: "set (fold js_add xs s) = set s \<union> set xs"
  by (induction xs arbitrary: s) auto

lemma distinct_fold_js_add: "distinct s \<Longrightarrow> distinct (fold js_add xs s)"
  by (induction xs arbitrary: s) auto

lemma set_js_set_of [simp]: "set (js_set_of xs) = set xs"
  by (simp add: js_set_of_def set_fold_js_add)

lemma distinct_js_set_of [simp]: "distinct (js_set_of xs)"
  by (simp add: js_set_of_def distinct_fold_js_add)

lemma js_map_of_list_get_fold:
  "js_get (fold (\<lambda>(k, v) m. js_set k v m) ps m0) k
     = (case map_of (rev ps) k of None \<Rightarrow> js_get m0 k | Some v \<Rightarrow> Some v)"
  by (induction ps arbitrary: m0) (auto simp: map_add_def split: option.splits prod.splits)

lemma js_map_of_list_get: "js_get (js_map_of_list ps) k = map_of (rev ps) k"
  by (simp add: js_map_of_list_def js_map_of_list_get_fold split: option.splits)

lemma js_map_of_list_keys_fold:
  "js_keys (fold (\<lambda>(k, v) m. js_set k v m) ps m0) = fold js_add (map fst ps) (js_keys m0)"
  by (induction ps arbitrary: m0) (auto simp: js_add_def js_keys_set image_iff split: prod.splits)

lemma js_map_of_list_keys: "js_keys (js_map_of_list ps) = js_set_of (map fst ps)"
  by (simp add: js_map_of_list_def js_map_of_list_keys_fold js_set_of_def)

text \<open>With distinct keys a map or set built from a list is the list.\<close>

lemma js_map_of_list_distinct:
  assumes "distinct (map fst ps)"
  shows "js_map_of_list ps = ps"
proof -
  have "fold (\<lambda>(k, v) m. js_set k v m) ps acc = acc @ ps"
    if "distinct (map fst ps)" "fst ` set ps \<inter> fst ` set acc = {}" for acc
    using that
  proof (induction ps arbitrary: acc)
    case Nil
    then show ?case by simp
  next
    case (Cons p ps)
    obtain k v where p: "p = (k, v)" by force
    with Cons.prems have "js_set k v acc = acc @ [p]" by (intro trans [OF js_keys_set_fresh]) auto
    moreover from Cons.prems p have "fst ` set ps \<inter> fst ` set (acc @ [p]) = {}" by auto
    ultimately show ?case using Cons.IH [of "acc @ [p]"] Cons.prems p by simp
  qed
  from this [of "[]"] assms show ?thesis by (simp add: js_map_of_list_def)
qed

section \<open>Sorting with a comparator\<close>

text \<open>\<open>Array.prototype.sort(compare)\<close>, a stable sort.\<close>

fun insort_by :: "('a \<Rightarrow> 'a \<Rightarrow> int) \<Rightarrow> 'a \<Rightarrow> 'a list \<Rightarrow> 'a list" where
  "insort_by cmp x [] = [x]"
| "insort_by cmp x (y # ys) = (if cmp x y \<le> 0 then x # y # ys else y # insort_by cmp x ys)"

definition sort_by :: "('a \<Rightarrow> 'a \<Rightarrow> int) \<Rightarrow> 'a list \<Rightarrow> 'a list" where
  "sort_by cmp xs = foldr (insort_by cmp) xs []"

lemma set_insort_by [simp]: "set (insort_by cmp x xs) = insert x (set xs)"
  by (induction xs) auto

lemma length_insort_by [simp]: "length (insort_by cmp x xs) = Suc (length xs)"
  by (induction xs) auto

lemma distinct_map_insort_by:
  "distinct (map f (insort_by cmp x xs)) \<longleftrightarrow> distinct (map f (x # xs))"
  by (induction xs) auto

lemma set_sort_by [simp]: "set (sort_by cmp xs) = set xs"
  by (induction xs) (simp_all add: sort_by_def)

lemma length_sort_by [simp]: "length (sort_by cmp xs) = length xs"
  by (induction xs) (simp_all add: sort_by_def)

lemma distinct_map_sort_by: "distinct (map f (sort_by cmp xs)) \<longleftrightarrow> distinct (map f xs)"
proof (induction xs)
  case Nil
  then show ?case by (simp add: sort_by_def)
next
  case (Cons x xs)
  have "sort_by cmp (x # xs) = insort_by cmp x (sort_by cmp xs)" by (simp add: sort_by_def)
  with Cons show ?case by (simp add: distinct_map_insort_by)
qed

text \<open>
  A comparator that agrees with a key, whatever it does on equal keys, sorts by that key.
\<close>

lemma sorted_insort_by:
  assumes "\<And>x y. cmp x y \<le> 0 \<Longrightarrow> (f x :: 'b :: linorder) \<le> f y" and "\<And>x y. 0 < cmp x y \<Longrightarrow> f y \<le> f x"
    and "sorted (map f ys)"
  shows "sorted (map f (insort_by cmp x ys))"
  using assms(3)
proof (induction ys)
  case Nil
  then show ?case by simp
next
  case (Cons y ys)
  show ?case
  proof (cases "cmp x y \<le> 0")
    case True
    with assms(1) [OF True] Cons.prems show ?thesis by auto
  next
    case False
    then have "f y \<le> f x" by (intro assms(2)) simp
    with False Cons show ?thesis by auto
  qed
qed

lemma sorted_sort_by:
  assumes "\<And>x y. cmp x y \<le> 0 \<Longrightarrow> (f x :: 'b :: linorder) \<le> f y" and "\<And>x y. 0 < cmp x y \<Longrightarrow> f y \<le> f x"
  shows "sorted (map f (sort_by cmp xs))"
proof (induction xs)
  case Nil
  then show ?case by (simp add: sort_by_def)
next
  case (Cons x xs)
  have "sort_by cmp (x # xs) = insort_by cmp x (sort_by cmp xs)" by (simp add: sort_by_def)
  with sorted_insort_by [of cmp f, OF assms Cons] show ?case by simp
qed

section \<open>Numbers and JSON-shaped values\<close>

text \<open>The order of finite and infinite doubles; every comparison with \<open>NaN\<close> is false.\<close>

datatype jsnum = Fin rat | PosInf | NegInf | NaN

fun num_less :: "jsnum \<Rightarrow> jsnum \<Rightarrow> bool" where
  "num_less (Fin a) (Fin b) = (a < b)"
| "num_less (Fin a) PosInf = True"
| "num_less NegInf (Fin b) = True"
| "num_less NegInf PosInf = True"
| "num_less _ _ = False"

definition num_gt :: "jsnum \<Rightarrow> jsnum \<Rightarrow> bool" where
  "num_gt a b = num_less b a"

fun isFinite :: "jsnum \<Rightarrow> bool" where
  "isFinite (Fin _) = True"
| "isFinite _ = False"

text \<open>\<open>Math.trunc\<close> and \<open>Math.floor\<close> on the finite doubles.\<close>

definition math_trunc :: "rat \<Rightarrow> int" where
  "math_trunc q = (if 0 \<le> q then \<lfloor>q\<rfloor> else \<lceil>q\<rceil>)"

lemma math_trunc_of_int [simp]: "math_trunc (of_int n) = n"
  by (simp add: math_trunc_def)

lemma math_trunc_nonneg: "0 \<le> q \<Longrightarrow> 0 \<le> math_trunc q \<and> of_int (math_trunc q) \<le> q"
  by (simp add: math_trunc_def)

text \<open>
  A value of type \<open>unknown\<close>: what an open record (\<open>Record<string, unknown>\<close>) can hold when it is
  a tree, that is, without shared or cyclic references. \<open>JUndef\<close> is \<open>undefined\<close>.
\<close>

datatype json =
    JUndef
  | JNull
  | JBool bool
  | JNum jsnum
  | JStr string
  | JArr "json list"
  | JObj "(string \<times> json) list"

type_synonym json_record = "(string \<times> json) list"

text \<open>Property access on an open record: a missing key reads as \<open>undefined\<close>.\<close>

definition jfield :: "json_record \<Rightarrow> string \<Rightarrow> json" where
  "jfield r k = (case map_of r k of None \<Rightarrow> JUndef | Some v \<Rightarrow> v)"

text \<open>\<open>recordFrom(value)\<close>: the value when it is a plain object, else \<open>undefined\<close>.\<close>

definition recordFrom :: "json \<Rightarrow> json_record option" where
  "recordFrom v = (case v of JObj r \<Rightarrow> Some r | _ \<Rightarrow> None)"

text \<open>Optional chaining \<open>record?.key\<close>.\<close>

definition optField :: "json_record option \<Rightarrow> string \<Rightarrow> json" where
  "optField r k = (case r of None \<Rightarrow> JUndef | Some r \<Rightarrow> jfield r k)"

text \<open>Object spread \<open>{ ...a, ...b }\<close>: the keys of \<open>a\<close> keep their place, \<open>b\<close> overrides.\<close>

definition spread :: "json_record \<Rightarrow> json_record \<Rightarrow> json_record" where
  "spread a b = fold (\<lambda>(k, v) m. js_set k v m) b a"

lemma spread_get:
  "js_get (spread a b) k = (case map_of (rev b) k of None \<Rightarrow> js_get a k | Some v \<Rightarrow> Some v)"
  by (simp add: spread_def js_map_of_list_get_fold)

lemma jfield_set [simp]: "jfield (js_set k v r) k' = (if k' = k then v else jfield r k')"
  by (simp add: jfield_def)

end
