(* ===== verification/Run_Phases.thy ===== *)
theory Run_Phases
  imports Rector_Prelude
begin

text \<open>
  The protocol enumerations, \<open>src/protocol/phases.ts\<close> and \<open>src/protocol/events.ts\<close>: run phases,
  the terminal set, the status labels of the chat view and the event types of the run log.
\<close>

datatype run_phase =
    CHAT_RECEIVED | TRIAGE | CONTEXT_BUILDING | PLANNING | SKEPTIC_REVIEW | CRUCIBLE
  | DAG_COMPILATION | EXECUTING | VALIDATING | HEALING | SYNTHESIZING | DONE
  | NEEDS_DECISION | FAILED | ABORTED

definition RUN_PHASES :: "run_phase list" where
  "RUN_PHASES = [CHAT_RECEIVED, TRIAGE, CONTEXT_BUILDING, PLANNING, SKEPTIC_REVIEW, CRUCIBLE,
     DAG_COMPILATION, EXECUTING, VALIDATING, HEALING, SYNTHESIZING, DONE, NEEDS_DECISION, FAILED,
     ABORTED]"

definition TERMINAL_RUN_PHASES :: "run_phase list" where
  "TERMINAL_RUN_PHASES = [DONE, NEEDS_DECISION, FAILED, ABORTED]"

definition isTerminalRunPhase :: "run_phase \<Rightarrow> bool" where
  "isTerminalRunPhase phase = (phase \<in> set TERMINAL_RUN_PHASES)"

fun RUN_PHASE_STATUS_LABELS :: "run_phase \<Rightarrow> string" where
  "RUN_PHASE_STATUS_LABELS CHAT_RECEIVED = ''Thinking''"
| "RUN_PHASE_STATUS_LABELS TRIAGE = ''Thinking''"
| "RUN_PHASE_STATUS_LABELS CONTEXT_BUILDING = ''Thinking''"
| "RUN_PHASE_STATUS_LABELS PLANNING = ''Planning''"
| "RUN_PHASE_STATUS_LABELS SKEPTIC_REVIEW = ''Planning''"
| "RUN_PHASE_STATUS_LABELS CRUCIBLE = ''Planning''"
| "RUN_PHASE_STATUS_LABELS DAG_COMPILATION = ''Planning''"
| "RUN_PHASE_STATUS_LABELS EXECUTING = ''Executing''"
| "RUN_PHASE_STATUS_LABELS VALIDATING = ''Validating''"
| "RUN_PHASE_STATUS_LABELS HEALING = ''Repairing''"
| "RUN_PHASE_STATUS_LABELS SYNTHESIZING = ''Thinking''"
| "RUN_PHASE_STATUS_LABELS DONE = ''Done''"
| "RUN_PHASE_STATUS_LABELS NEEDS_DECISION = ''Needs decision''"
| "RUN_PHASE_STATUS_LABELS FAILED = ''Failed''"
| "RUN_PHASE_STATUS_LABELS ABORTED = ''Failed''"

text \<open>The string the enumeration stands for.\<close>

fun phaseName :: "run_phase \<Rightarrow> string" where
  "phaseName CHAT_RECEIVED = ''CHAT_RECEIVED''"
| "phaseName TRIAGE = ''TRIAGE''"
| "phaseName CONTEXT_BUILDING = ''CONTEXT_BUILDING''"
| "phaseName PLANNING = ''PLANNING''"
| "phaseName SKEPTIC_REVIEW = ''SKEPTIC_REVIEW''"
| "phaseName CRUCIBLE = ''CRUCIBLE''"
| "phaseName DAG_COMPILATION = ''DAG_COMPILATION''"
| "phaseName EXECUTING = ''EXECUTING''"
| "phaseName VALIDATING = ''VALIDATING''"
| "phaseName HEALING = ''HEALING''"
| "phaseName SYNTHESIZING = ''SYNTHESIZING''"
| "phaseName DONE = ''DONE''"
| "phaseName NEEDS_DECISION = ''NEEDS_DECISION''"
| "phaseName FAILED = ''FAILED''"
| "phaseName ABORTED = ''ABORTED''"

datatype run_event_type =
    RUN_CREATED | PHASE_CHANGED | ENVELOPE_SENT | DAG_COMPILED | DAG_NODE_STARTED
  | DAG_NODE_COMPLETED | DAG_NODE_FAILED | VALIDATION_PASSED | VALIDATION_FAILED
  | HEALING_STARTED | HEALING_APPLIED | DECISION_REQUESTED | RUN_COMPLETED | RUN_FAILED
  | RUN_ABORTED | BUDGET_CHECKED | ARTIFACT_CREATED | CONTEXT_BUDGET_EVALUATED
  | CONTEXT_COMPRESSED | STABLE_TIER_MUTATION_BLOCKED | SKILL_ACTIVATION_DECIDED
  | TOOL_INVOKED | TOOL_COMPLETED | RUN_INTERRUPT_REQUESTED | RUN_STEER_ENQUEUED
  | RUN_BUDGET_EXHAUSTED | PROVIDER_RETRY | PROVIDER_SUBSTITUTED | CREDENTIAL_ROTATED
  | BUDGET_APPROVAL_REQUESTED

text \<open>
  \<open>RunEventSchema\<close>. What the schema reads from the validation library and from
  \<open>JSON.stringify\<close> is a parameter: \<open>isDatetime\<close> is the format check of \<open>z.string().datetime()\<close> and
  \<open>jsonLength\<close> the length of the serialised payload.
\<close>

record schema_env =
  isDatetime :: "string \<Rightarrow> bool"
  jsonLength :: "json_record \<Rightarrow> nat"

record run_event =
  ev_id :: string
  ev_runId :: string
  ev_type :: run_event_type
  ev_phase :: run_phase
  ev_payload :: json_record
  ev_traceId :: "string option"
  ev_redactionState :: "string option"
  ev_createdAt :: string

definition optNonEmpty :: "string option \<Rightarrow> bool" where
  "optNonEmpty s = (s \<noteq> Some [])"

definition cleanPayload :: "json_record \<Rightarrow> json_record" where
  "cleanPayload p = filter (\<lambda>(k, v). v \<noteq> JUndef) p"

definition RunEventSchema_parse :: "schema_env \<Rightarrow> run_event \<Rightarrow> run_event option" where
  "RunEventSchema_parse E e =
     (if ev_id e \<noteq> [] \<and> ev_runId e \<noteq> [] \<and> length (ev_payload e) \<le> 50
        \<and> list_all (\<lambda>(k, v). length k \<le> 128) (ev_payload e)
        \<and> jsonLength E (cleanPayload (ev_payload e)) \<le> 100000
        \<and> optNonEmpty (ev_traceId e) \<and> optNonEmpty (ev_redactionState e)
        \<and> isDatetime E (ev_createdAt e)
      then Some (e\<lparr>ev_payload := cleanPayload (ev_payload e)\<rparr>) else None)"

text \<open>An equation with binary numerals for evaluation.\<close>

lemma RunEventSchema_parse_code [code]:
  "RunEventSchema_parse E e =
     (if ev_id e \<noteq> [] \<and> ev_runId e \<noteq> [] \<and> int (length (ev_payload e)) \<le> 50
        \<and> list_all (\<lambda>(k, v). int (length k) \<le> 128) (ev_payload e)
        \<and> int (jsonLength E (cleanPayload (ev_payload e))) \<le> 100000
        \<and> optNonEmpty (ev_traceId e) \<and> optNonEmpty (ev_redactionState e)
        \<and> isDatetime E (ev_createdAt e)
      then Some (e\<lparr>ev_payload := cleanPayload (ev_payload e)\<rparr>) else None)"
  by (simp add: RunEventSchema_parse_def)

lemma set_RUN_PHASES: "set RUN_PHASES = UNIV"
proof -
  have "p \<in> set RUN_PHASES" for p by (cases p) (simp_all add: RUN_PHASES_def)
  then show ?thesis by blast
qed

lemma isTerminalRunPhase_simps [simp]:
  "isTerminalRunPhase DONE" "isTerminalRunPhase NEEDS_DECISION" "isTerminalRunPhase FAILED"
  "isTerminalRunPhase ABORTED" "\<not> isTerminalRunPhase CHAT_RECEIVED" "\<not> isTerminalRunPhase TRIAGE"
  "\<not> isTerminalRunPhase CONTEXT_BUILDING" "\<not> isTerminalRunPhase PLANNING"
  "\<not> isTerminalRunPhase SKEPTIC_REVIEW" "\<not> isTerminalRunPhase CRUCIBLE"
  "\<not> isTerminalRunPhase DAG_COMPILATION" "\<not> isTerminalRunPhase EXECUTING"
  "\<not> isTerminalRunPhase VALIDATING" "\<not> isTerminalRunPhase HEALING"
  "\<not> isTerminalRunPhase SYNTHESIZING"
  by (simp_all add: isTerminalRunPhase_def TERMINAL_RUN_PHASES_def)

lemma RunEventSchema_parse_id:
  "RunEventSchema_parse E e = Some e' \<Longrightarrow> ev_id e' = ev_id e \<and> ev_runId e' = ev_runId e
     \<and> ev_phase e' = ev_phase e \<and> ev_type e' = ev_type e"
  by (auto simp: RunEventSchema_parse_def split: if_splits)

instantiation run_phase :: linorder
begin

definition less_eq_run_phase :: "run_phase \<Rightarrow> run_phase \<Rightarrow> bool" where
  "less_eq_run_phase p q = (length (takeWhile (\<lambda>x. x \<noteq> p) RUN_PHASES) \<le> length (takeWhile (\<lambda>x. x \<noteq> q) RUN_PHASES))"

definition less_run_phase :: "run_phase \<Rightarrow> run_phase \<Rightarrow> bool" where
  "less_run_phase p q = (length (takeWhile (\<lambda>x. x \<noteq> p) RUN_PHASES) < length (takeWhile (\<lambda>x. x \<noteq> q) RUN_PHASES))"

instance
proof
  fix x y :: run_phase
  assume "x \<le> y" and "y \<le> x"
  then have "length (takeWhile (\<lambda>a. a \<noteq> x) RUN_PHASES) = length (takeWhile (\<lambda>a. a \<noteq> y) RUN_PHASES)"
    by (simp add: less_eq_run_phase_def)
  then show "x = y" by (cases x; cases y) (simp_all add: RUN_PHASES_def)
qed (auto simp: less_eq_run_phase_def less_run_phase_def)

end

end
