(* ===== verification/Redaction.thy ===== *)
theory Redaction
  imports Rector_Prelude
begin

text \<open>
  The redaction layer, \<open>src/security/redaction.ts\<close>. The four regular expressions are global and
  case-insensitive; each is deterministic (no class of one part contains the first character of
  the next), so a match is a left-to-right scan: a matcher looks at the text from a position and
  returns the replacement and how many characters after the first one it consumes, and
  \<open>replaceAll\<close> is the loop of \<open>String.prototype.replace\<close>. The leading \<open>\b\<close> of every pattern stands
  before a letter, so it holds exactly when the previous character is no word character.
  Open values are trees, so the \<open>WeakSet\<close> of visited objects never meets an object twice.
\<close>

section \<open>The scanner\<close>

definition char_in :: "nat \<Rightarrow> nat \<Rightarrow> char \<Rightarrow> bool" where
  "char_in lo hi c = (lo \<le> (of_char c :: nat) \<and> (of_char c :: nat) \<le> hi)"

lemma char_in_int [code_unfold]:
  "char_in (numeral a) (numeral b) c \<longleftrightarrow> numeral a \<le> (of_char c :: int) \<and> (of_char c :: int) \<le> numeral b"
  unfolding char_in_def of_char_int by auto

definition is_letter :: "char \<Rightarrow> bool" where
  "is_letter c = (char_in 65 90 c \<or> char_in 97 122 c)"

definition is_word :: "char \<Rightarrow> bool" where
  "is_word c = (is_letter c \<or> char_in 48 57 c \<or> c = CHR ''_'')"

function replaceAll :: "(string \<Rightarrow> (string \<times> nat) option) \<Rightarrow> bool \<Rightarrow> string \<Rightarrow> string" where
  "replaceAll m pw [] = []"
| "replaceAll m pw (c # cs) =
     (case (if pw then None else m (c # cs)) of
        None \<Rightarrow> c # replaceAll m (is_word c) cs
      | Some (rep, n) \<Rightarrow> rep @ replaceAll m (is_word (last (c # take n cs))) (drop n cs))"
  by pat_completeness auto
termination
  by (relation "measure (\<lambda>(m, pw, s). length s)") auto

definition REDACTED :: string where
  "REDACTED = ''[REDACTED]''"

text \<open>\<open>/\b([a-z][a-z0-9+.-]*:\/\/)([^\s/@]*@)/gi\<close>\<close>

definition scheme_char :: "char \<Rightarrow> bool" where
  "scheme_char c = (is_letter c \<or> char_in 48 57 c \<or> c \<in> {CHR ''+'', CHR ''.'', CHR ''-''})"

definition user_char :: "char \<Rightarrow> bool" where
  "user_char c = (\<not> js_space c \<and> c \<noteq> CHR ''/'' \<and> c \<noteq> CHR ''@'')"

definition CREDENTIAL_URI :: "string \<Rightarrow> (string \<times> nat) option" where
  "CREDENTIAL_URI s =
     (case s of
        [] \<Rightarrow> None
      | c # cs \<Rightarrow>
          if \<not> is_letter c then None
          else let sch = takeWhile scheme_char cs; r1 = dropWhile scheme_char cs
               in if \<not> prefix ''://'' r1 then None
                  else let r2 = drop 3 r1; user = takeWhile user_char r2; r3 = dropWhile user_char r2
                       in if prefix ''@'' r3
                          then Some (c # sch @ ''://'' @ REDACTED @ ''@'', length sch + 3 + length user + 1)
                          else None)"

text \<open>\<open>/\bBearer\s+[^\s,;]+/gi\<close> and \<open>/\bBasic\s+[^\s,;]+/gi\<close>\<close>

definition token_char :: "char \<Rightarrow> bool" where
  "token_char c = (\<not> js_space c \<and> c \<noteq> CHR '','' \<and> c \<noteq> CHR '';'')"

definition SCHEME_TOKEN :: "string \<Rightarrow> string \<Rightarrow> (string \<times> nat) option" where
  "SCHEME_TOKEN word s =
     (if \<not> prefix (toLowerCase word) (toLowerCase s) then None
      else let r1 = drop (length word) s; sp = takeWhile js_space r1; r2 = dropWhile js_space r1;
               tok = takeWhile token_char r2
           in if sp = [] \<or> tok = [] then None
              else Some (word @ '' '' @ REDACTED, length word + length sp + length tok - 1))"

text \<open>\<open>/\b(api[_-]?key|token|secret|password)=([^\s,;&]+)/gi\<close>\<close>

definition inline_char :: "char \<Rightarrow> bool" where
  "inline_char c = (token_char c \<and> c \<noteq> CHR ''&'')"

definition INLINE_KEYS :: "string list" where
  "INLINE_KEYS = [''api_key='', ''api-key='', ''apikey='', ''token='', ''secret='', ''password='']"

definition INLINE_SECRET :: "string \<Rightarrow> (string \<times> nat) option" where
  "INLINE_SECRET s =
     (case find (\<lambda>k. prefix k (toLowerCase s)) INLINE_KEYS of
        None \<Rightarrow> None
      | Some k \<Rightarrow>
          let v = takeWhile inline_char (drop (length k) s)
          in if v = [] then None
             else Some (take (length k) s @ REDACTED, length k + length v - 1))"

definition redactString :: "string \<Rightarrow> string" where
  "redactString value =
     replaceAll INLINE_SECRET False
       (replaceAll (SCHEME_TOKEN ''Basic'') False
         (replaceAll (SCHEME_TOKEN ''Bearer'') False
           (replaceAll CREDENTIAL_URI False value)))"

section \<open>Structured values\<close>

definition SECRET_KEYWORDS :: "string list" where
  "SECRET_KEYWORDS = [''apikey'', ''token'', ''secret'', ''password'', ''authorization'', ''cookie'',
     ''connectionstring'']"

definition URI_KEYWORDS :: "string list" where
  "URI_KEYWORDS = [''uri'', ''url'', ''dsn'']"

definition compactKeyName :: "string \<Rightarrow> string" where
  "compactKeyName key = filter (\<lambda>c. char_in 97 122 c \<or> char_in 48 57 c) (toLowerCase key)"

definition isSensitiveKey :: "string \<Rightarrow> bool" where
  "isSensitiveKey key = list_ex (js_includes (compactKeyName key)) SECRET_KEYWORDS"

definition isUriKey :: "string \<Rightarrow> bool" where
  "isUriKey key = list_ex (js_includes (compactKeyName key)) URI_KEYWORDS"

fun redactValue :: "string option \<Rightarrow> json \<Rightarrow> json"
  and redactEntry :: "string \<Rightarrow> json \<Rightarrow> json" where
  "redactValue key (JStr s) =
     (if (case key of None \<Rightarrow> False | Some k \<Rightarrow> k \<noteq> [] \<and> isSensitiveKey k) then JStr REDACTED
      else JStr (redactString s))"
| "redactValue key (JArr xs) = JArr (map (redactValue None) xs)"
| "redactValue key (JObj r) = JObj (map (\<lambda>(k, v). (k, redactEntry k v)) r)"
| "redactValue key v = v"
| "redactEntry k v =
     (if isSensitiveKey k then JStr REDACTED
      else case v of
             JStr s \<Rightarrow> if isUriKey k then JStr (redactString s) else redactValue (Some k) (JStr s)
           | _ \<Rightarrow> redactValue (Some k) v)"

definition redactSecrets :: "json \<Rightarrow> json" where
  "redactSecrets value = redactValue None value"

definition redactRecord :: "json_record \<Rightarrow> json_record" where
  "redactRecord r = (case redactSecrets (JObj r) of JObj r' \<Rightarrow> r' | _ \<Rightarrow> [])"

text \<open>
  \<open>redactStringOrSuppress\<close>: \<open>redactString\<close> is total on strings, so the suppressing \<open>catch\<close> branch
  is never taken.
\<close>

definition redactStringOrSuppress :: "string \<Rightarrow> string" where
  "redactStringOrSuppress value = redactString value"

section \<open>What redaction guarantees\<close>

text \<open>Every entry under a sensitive key, at any depth, holds the placeholder.\<close>

fun keys_redacted :: "json \<Rightarrow> bool" where
  "keys_redacted (JArr xs) = list_all keys_redacted xs"
| "keys_redacted (JObj r) =
     list_all (\<lambda>(k, v). (if isSensitiveKey k then v = JStr REDACTED else True) \<and> keys_redacted v) r"
| "keys_redacted _ = True"

lemma redactValue_keys_redacted:
  "keys_redacted (redactValue key v)"
  "keys_redacted (redactEntry k v)"
  by (induction key v and k v rule: redactValue_redactEntry.induct)
    (auto simp: list_all_iff split: json.splits)

lemma redactRecord_eq: "redactRecord r = map (\<lambda>(k, v). (k, redactEntry k v)) r"
  by (simp add: redactRecord_def redactSecrets_def)

lemma redactRecord_keys [simp]: "map fst (redactRecord r) = map fst r"
  by (simp add: redactRecord_eq comp_def split_beta)

lemma redactRecord_get: "map_of (redactRecord r) k = map_option (redactEntry k) (map_of r k)"
  by (induction r) (auto simp: redactRecord_eq simp del: redactEntry.simps)

lemma length_redactRecord [simp]: "length (redactRecord r) = length r"
  by (simp add: redactRecord_eq)

text \<open>A matcher that never erases a match keeps a non-empty text non-empty.\<close>

definition keeps_text :: "(string \<Rightarrow> (string \<times> nat) option) \<Rightarrow> bool" where
  "keeps_text m = (\<forall>s rep n. m s = Some (rep, n) \<longrightarrow> rep \<noteq> [])"

lemma replaceAll_eq_Nil:
  assumes "keeps_text m"
  shows "replaceAll m pw s = [] \<longleftrightarrow> s = []"
  using assms by (cases s) (auto simp: keeps_text_def split: option.splits)

lemma keeps_text_matchers:
  "keeps_text CREDENTIAL_URI" "keeps_text (SCHEME_TOKEN w)" "keeps_text INLINE_SECRET"
  by (auto simp: keeps_text_def CREDENTIAL_URI_def SCHEME_TOKEN_def INLINE_SECRET_def REDACTED_def Let_def
      split: list.splits if_splits option.splits)

lemma redactString_eq_Nil [simp]: "redactString s = [] \<longleftrightarrow> s = []"
  by (simp add: redactString_def replaceAll_eq_Nil keeps_text_matchers)

end
