(* ===== verification/Store_Schemas.thy ===== *)
theory Store_Schemas
  imports Run_Phases Redaction
begin

text \<open>
  The entities of \<open>src/store/schemas.ts\<close>: one record per schema, the inputs of the create
  operations, the partial records of the update operations (an outer \<open>None\<close> is an absent key, and
  for an optional field \<open>Some None\<close> is a key explicitly set to \<open>undefined\<close>), and the checks the
  schemas make. Fields declared as non-negative integers are \<^typ>\<open>nat\<close>.
\<close>

section \<open>Conversations and messages\<close>

record conversation =
  conv_id :: string
  conv_title :: string
  conv_workspaceId :: string
  conv_parentConversationId :: "string option"
  conv_compressionGeneration :: "nat option"
  conv_compressionSummaryArtifactId :: "string option"
  conv_createdAt :: string
  conv_updatedAt :: string
  conv_retentionPolicy :: string

definition ConversationSchema :: "schema_env \<Rightarrow> conversation \<Rightarrow> bool" where
  "ConversationSchema E c =
     (conv_id c \<noteq> [] \<and> conv_title c \<noteq> [] \<and> conv_workspaceId c \<noteq> []
      \<and> optNonEmpty (conv_parentConversationId c)
      \<and> optNonEmpty (conv_compressionSummaryArtifactId c)
      \<and> isDatetime E (conv_createdAt c) \<and> isDatetime E (conv_updatedAt c)
      \<and> conv_retentionPolicy c \<noteq> [])"

record conversation_input =
  ci_title :: string
  ci_workspaceId :: string
  ci_parentConversationId :: "string option"
  ci_compressionGeneration :: "nat option"
  ci_compressionSummaryArtifactId :: "string option"
  ci_retentionPolicy :: string

record conversation_patch =
  cp_title :: "string option"
  cp_workspaceId :: "string option"
  cp_parentConversationId :: "string option option"
  cp_compressionGeneration :: "nat option option"
  cp_compressionSummaryArtifactId :: "string option option"
  cp_retentionPolicy :: "string option"

text \<open>Override of one field by a partial record.\<close>

definition over :: "'a option \<Rightarrow> 'a \<Rightarrow> 'a" where
  "over p d = (case p of None \<Rightarrow> d | Some v \<Rightarrow> v)"

lemma over_simps [simp]: "over None d = d" "over (Some v) d = v"
  by (simp_all add: over_def)

definition MAX_MESSAGE_CONTENT_LENGTH :: nat where
  "MAX_MESSAGE_CONTENT_LENGTH = 100000"

record message =
  msg_id :: string
  msg_conversationId :: string
  msg_role :: string
  msg_content :: string
  msg_status :: string
  msg_runId :: "string option"
  msg_redactionState :: string
  msg_createdAt :: string
  msg_source :: "string option"

definition MessageSchema :: "schema_env \<Rightarrow> message \<Rightarrow> bool" where
  "MessageSchema E m =
     (msg_id m \<noteq> [] \<and> msg_conversationId m \<noteq> [] \<and> msg_role m \<noteq> []
      \<and> length (msg_content m) \<le> MAX_MESSAGE_CONTENT_LENGTH \<and> msg_status m \<noteq> []
      \<and> optNonEmpty (msg_runId m) \<and> msg_redactionState m \<noteq> [] \<and> isDatetime E (msg_createdAt m))"

record message_patch =
  mp_conversationId :: "string option"
  mp_role :: "string option"
  mp_content :: "string option"
  mp_status :: "string option"
  mp_runId :: "string option option"
  mp_redactionState :: "string option"
  mp_source :: "string option option"

section \<open>Runs\<close>

record budget =
  maxUsd :: jsnum
  maxInputTokens :: nat
  maxOutputTokens :: nat
  maxModelCalls :: nat
  maxRuntimeMs :: nat
  maxHealingAttempts :: nat
  allowedProviders :: "string list"
  approvalRequiredAboveUsd :: jsnum

fun nonNegative :: "jsnum \<Rightarrow> bool" where
  "nonNegative (Fin q) = (0 \<le> q)"
| "nonNegative PosInf = True"
| "nonNegative _ = False"

definition BudgetSchema :: "budget \<Rightarrow> bool" where
  "BudgetSchema b =
     (nonNegative (maxUsd b) \<and> list_all (\<lambda>p. p \<noteq> []) (allowedProviders b)
      \<and> nonNegative (approvalRequiredAboveUsd b))"

record run =
  run_id :: string
  run_conversationId :: string
  run_userMessageId :: string
  run_status :: string
  run_phase :: run_phase
  run_route :: string
  run_complexity :: string
  run_budget :: budget
  run_costEstimate :: json_record
  run_actualCost :: "json_record option"
  run_tokenEstimate :: json_record
  run_actualTokens :: "json_record option"
  run_traceId :: string
  run_dagId :: "string option"
  run_attempts :: nat
  run_healingAttempts :: nat
  run_validationAttempts :: nat
  run_contextCompressionApplied :: "bool option"
  run_parentRunId :: "string option"
  run_lastError :: "string option"
  run_decisionRequest :: "json_record option"
  run_version :: nat
  run_createdAt :: string
  run_updatedAt :: string

definition RunSchema :: "schema_env \<Rightarrow> run \<Rightarrow> bool" where
  "RunSchema E r =
     (run_id r \<noteq> [] \<and> run_conversationId r \<noteq> [] \<and> run_userMessageId r \<noteq> [] \<and> run_status r \<noteq> []
      \<and> run_route r \<noteq> [] \<and> run_complexity r \<noteq> [] \<and> BudgetSchema (run_budget r)
      \<and> run_traceId r \<noteq> [] \<and> optNonEmpty (run_dagId r) \<and> optNonEmpty (run_parentRunId r)
      \<and> isDatetime E (run_createdAt r) \<and> isDatetime E (run_updatedAt r))"

text \<open>
  \<open>UpdateRunInput\<close>: every field of a run but the identifier and the two timestamps, each of which
  may be absent.
\<close>

record run_patch =
  rp_conversationId :: "string option"
  rp_userMessageId :: "string option"
  rp_status :: "string option"
  rp_phase :: "run_phase option"
  rp_route :: "string option"
  rp_complexity :: "string option"
  rp_budget :: "budget option"
  rp_costEstimate :: "json_record option"
  rp_actualCost :: "json_record option option"
  rp_tokenEstimate :: "json_record option"
  rp_actualTokens :: "json_record option option"
  rp_traceId :: "string option"
  rp_dagId :: "string option option"
  rp_attempts :: "nat option"
  rp_healingAttempts :: "nat option"
  rp_validationAttempts :: "nat option"
  rp_contextCompressionApplied :: "bool option option"
  rp_parentRunId :: "string option option"
  rp_lastError :: "string option option"
  rp_decisionRequest :: "json_record option option"
  rp_version :: "nat option"

definition empty_run_patch :: run_patch where
  "empty_run_patch = \<lparr>rp_conversationId = None, rp_userMessageId = None, rp_status = None,
     rp_phase = None, rp_route = None, rp_complexity = None, rp_budget = None,
     rp_costEstimate = None, rp_actualCost = None, rp_tokenEstimate = None, rp_actualTokens = None,
     rp_traceId = None, rp_dagId = None, rp_attempts = None, rp_healingAttempts = None,
     rp_validationAttempts = None, rp_contextCompressionApplied = None, rp_parentRunId = None,
     rp_lastError = None, rp_decisionRequest = None, rp_version = None\<rparr>"

text \<open>The merge \<open>{ ...current, ...patch, id, createdAt, updatedAt: now }\<close>.\<close>

definition merge_run :: "run \<Rightarrow> run_patch \<Rightarrow> string \<Rightarrow> run" where
  "merge_run r p now =
     \<lparr>run_id = run_id r,
      run_conversationId = over (rp_conversationId p) (run_conversationId r),
      run_userMessageId = over (rp_userMessageId p) (run_userMessageId r),
      run_status = over (rp_status p) (run_status r),
      run_phase = over (rp_phase p) (run_phase r),
      run_route = over (rp_route p) (run_route r),
      run_complexity = over (rp_complexity p) (run_complexity r),
      run_budget = over (rp_budget p) (run_budget r),
      run_costEstimate = over (rp_costEstimate p) (run_costEstimate r),
      run_actualCost = over (rp_actualCost p) (run_actualCost r),
      run_tokenEstimate = over (rp_tokenEstimate p) (run_tokenEstimate r),
      run_actualTokens = over (rp_actualTokens p) (run_actualTokens r),
      run_traceId = over (rp_traceId p) (run_traceId r),
      run_dagId = over (rp_dagId p) (run_dagId r),
      run_attempts = over (rp_attempts p) (run_attempts r),
      run_healingAttempts = over (rp_healingAttempts p) (run_healingAttempts r),
      run_validationAttempts = over (rp_validationAttempts p) (run_validationAttempts r),
      run_contextCompressionApplied = over (rp_contextCompressionApplied p) (run_contextCompressionApplied r),
      run_parentRunId = over (rp_parentRunId p) (run_parentRunId r),
      run_lastError = over (rp_lastError p) (run_lastError r),
      run_decisionRequest = over (rp_decisionRequest p) (run_decisionRequest r),
      run_version = over (rp_version p) (run_version r),
      run_createdAt = run_createdAt r,
      run_updatedAt = now\<rparr>"

lemma merge_run_fields [simp]:
  "run_id (merge_run r p now) = run_id r"
  "run_phase (merge_run r p now) = over (rp_phase p) (run_phase r)"
  "run_version (merge_run r p now) = over (rp_version p) (run_version r)"
  "run_status (merge_run r p now) = over (rp_status p) (run_status r)"
  "run_decisionRequest (merge_run r p now) = over (rp_decisionRequest p) (run_decisionRequest r)"
  "run_budget (merge_run r p now) = over (rp_budget p) (run_budget r)"
  "run_createdAt (merge_run r p now) = run_createdAt r"
  by (simp_all add: merge_run_def)

section \<open>Artifacts and memory entries\<close>

record artifact =
  art_id :: string
  art_kind :: string
  art_uri :: string
  art_summary :: string
  art_hash :: string
  art_sizeBytes :: nat
  art_piiState :: string
  art_retentionPolicy :: string
  art_metadata :: json_record
  art_createdAt :: string

definition ArtifactSchema :: "schema_env \<Rightarrow> artifact \<Rightarrow> bool" where
  "ArtifactSchema E a =
     (art_id a \<noteq> [] \<and> art_kind a \<noteq> [] \<and> art_uri a \<noteq> [] \<and> art_hash a \<noteq> [] \<and> art_piiState a \<noteq> []
      \<and> art_retentionPolicy a \<noteq> [] \<and> isDatetime E (art_createdAt a))"

record artifact_patch =
  ap_kind :: "string option"
  ap_uri :: "string option"
  ap_summary :: "string option"
  ap_hash :: "string option"
  ap_sizeBytes :: "nat option"
  ap_piiState :: "string option"
  ap_retentionPolicy :: "string option"
  ap_metadata :: "json_record option"

datatype memory_layer = Working | Episodic | Core

record memory_entry =
  mem_id :: string
  mem_layer :: memory_layer
  mem_content :: string
  mem_timestamp :: string
  mem_lastMentioned :: string
  mem_accessCount :: nat
  mem_tags :: "string list"
  mem_source :: "string option"
  mem_metadata :: json_record

definition MemoryEntrySchema :: "schema_env \<Rightarrow> memory_entry \<Rightarrow> bool" where
  "MemoryEntrySchema E e =
     (mem_id e \<noteq> [] \<and> isDatetime E (mem_timestamp e) \<and> isDatetime E (mem_lastMentioned e)
      \<and> list_all (\<lambda>t. t \<noteq> []) (mem_tags e))"

record memory_input =
  mi_layer :: memory_layer
  mi_content :: string
  mi_timestamp :: string
  mi_lastMentioned :: "string option"
  mi_accessCount :: "nat option"
  mi_tags :: "string list"
  mi_source :: "string option"
  mi_metadata :: json_record

record memory_patch =
  mmp_layer :: "memory_layer option"
  mmp_content :: "string option"
  mmp_timestamp :: "string option"
  mmp_lastMentioned :: "string option"
  mmp_accessCount :: "nat option"
  mmp_tags :: "string list option"
  mmp_source :: "string option option"
  mmp_metadata :: "json_record option"

end
