(* ===== verification/Conversation_Lineage.thy ===== *)
theory Conversation_Lineage
  imports Store_Schemas
begin

text \<open>
  \<open>src/store/lineage.ts\<close>: the walk over parent links that guards every reparenting and the read of
  a lineage. Both loops stop because a depth counter is compared with \<open>maxDepth\<close>. The store is the
  argument \<open>get\<close>, the operation \<open>getConversation\<close> of \<open>Pick<RectorStore, "getConversation">\<close>.
\<close>

datatype lineage_error =
    ParentNotFound string
  | ParentWorkspaceMismatch
  | LineageCycle
  | LineageTooDeep nat
  | LineageMissingParent
  | LineageCrossesWorkspace

definition MAX_CONVERSATION_LINEAGE_DEPTH :: nat where
  "MAX_CONVERSATION_LINEAGE_DEPTH = 10"

type_synonym conv_get = "string \<Rightarrow> conversation option"

text \<open>A parent identifier that is absent or empty is falsy: the walk ends there.\<close>

definition parent_of :: "conversation \<Rightarrow> string option" where
  "parent_of c = (case conv_parentConversationId c of
       None \<Rightarrow> None | Some p \<Rightarrow> if p = [] then None else Some p)"

function validate_walk ::
  "conv_get \<Rightarrow> string \<Rightarrow> string \<Rightarrow> nat \<Rightarrow> nat \<Rightarrow> string list \<Rightarrow> conversation \<Rightarrow> lineage_error option" where
  "validate_walk get childId ws maxDepth depth seen current =
     (if conv_id current = childId \<or> conv_id current \<in> set seen then Some LineageCycle
      else if maxDepth \<le> Suc depth then Some (LineageTooDeep maxDepth)
      else case parent_of current of
             None \<Rightarrow> None
           | Some p \<Rightarrow>
               (case get p of
                  None \<Rightarrow> Some LineageMissingParent
                | Some next \<Rightarrow>
                    if ws \<noteq> [] \<and> conv_workspaceId next \<noteq> ws then Some LineageCrossesWorkspace
                    else validate_walk get childId ws maxDepth (Suc depth) (conv_id current # seen) next))"
  by pat_completeness auto
termination
  by (relation "measure (\<lambda>(get, childId, ws, maxDepth, depth, seen, current). maxDepth - depth)") auto

declare validate_walk.simps [simp del]

definition validateParentConversation ::
  "conv_get \<Rightarrow> string \<Rightarrow> string \<Rightarrow> string \<Rightarrow> nat \<Rightarrow> lineage_error option" where
  "validateParentConversation get childId parentId ws maxDepth =
     (case get parentId of
        None \<Rightarrow> Some (ParentNotFound (redactString parentId))
      | Some current \<Rightarrow>
          if ws \<noteq> [] \<and> conv_workspaceId current \<noteq> ws then Some ParentWorkspaceMismatch
          else validate_walk get childId ws maxDepth 0 [] current)"

function lineage_walk ::
  "conv_get \<Rightarrow> nat \<Rightarrow> conversation list \<Rightarrow> conversation \<Rightarrow> (lineage_error, conversation list) result" where
  "lineage_walk get maxDepth lineage current =
     (if conv_id current \<in> conv_id ` set lineage then Inl LineageCycle
      else let lineage' = current # lineage
           in if maxDepth < length lineage' then Inl (LineageTooDeep maxDepth)
              else case parent_of current of
                     None \<Rightarrow> Inr lineage'
                   | Some p \<Rightarrow> (case get p of
                                  None \<Rightarrow> Inl LineageMissingParent
                                | Some next \<Rightarrow> lineage_walk get maxDepth lineage' next))"
  by pat_completeness auto
termination
  by (relation "measure (\<lambda>(get, maxDepth, lineage, current). Suc maxDepth - length lineage)") auto

declare lineage_walk.simps [simp del]

text \<open>
  \<open>lineage\<close> is kept youngest first, that is, already reversed: the code pushes and reverses at the
  end. \<open>seen\<close> always holds the identifiers of \<open>lineage\<close>.
\<close>

definition getConversationLineage ::
  "conv_get \<Rightarrow> string \<Rightarrow> nat \<Rightarrow> (lineage_error, conversation list) result" where
  "getConversationLineage get conversationId maxDepth =
     (case get conversationId of
        None \<Rightarrow> Inr []
      | Some current \<Rightarrow> lineage_walk get maxDepth [] current)"

section \<open>The parent relation\<close>

text \<open>The edges \<open>child \<rightarrow> parent\<close> a store holds.\<close>

definition parent_rel :: "conv_get \<Rightarrow> (string \<times> string) set" where
  "parent_rel get = {(c, p). \<exists>conv. get c = Some conv \<and> parent_of conv = Some p}"

definition keyed :: "conv_get \<Rightarrow> bool" where
  "keyed get = (\<forall>k conv. get k = Some conv \<longrightarrow> conv_id conv = k)"

lemma parent_relI: "get c = Some conv \<Longrightarrow> parent_of conv = Some p \<Longrightarrow> (c, p) \<in> parent_rel get"
  by (auto simp: parent_rel_def)

lemma parent_rel_unique: "(c, p) \<in> parent_rel get \<Longrightarrow> (c, q) \<in> parent_rel get \<Longrightarrow> p = q"
  by (auto simp: parent_rel_def)

lemma validate_walk_avoids_child:
  assumes "validate_walk get childId ws maxDepth depth seen current = None"
    and "get (conv_id current) = Some current" and "keyed get"
    and "(conv_id current, x) \<in> (parent_rel get)\<^sup>*"
  shows "x \<noteq> childId \<and> get x \<noteq> None"
  using assms
proof (induction get childId ws maxDepth depth seen current rule: validate_walk.induct)
  case (1 get childId ws maxDepth depth seen current)
  have no: "conv_id current \<noteq> childId"
    using "1.prems"(1) by (subst (asm) validate_walk.simps) (auto split: if_splits)
  from "1.prems"(4) show ?case
  proof (cases rule: converse_rtranclE)
    case base
    with no "1.prems"(2) show ?thesis by simp
  next
    case (step p)
    then have par: "parent_of current = Some p"
      using "1.prems"(2) by (auto simp: parent_rel_def)
    obtain nxt where nxt: "get p = Some nxt" and
      rec: "validate_walk get childId ws maxDepth (Suc depth) (conv_id current # seen) nxt = None"
      and guards: "\<not> (conv_id current = childId \<or> conv_id current \<in> set seen)" "\<not> maxDepth \<le> Suc depth"
        "\<not> (ws \<noteq> [] \<and> conv_workspaceId nxt \<noteq> ws)"
      using "1.prems"(1) par
      by (subst (asm) validate_walk.simps) (auto split: if_splits option.splits)
    have id: "conv_id nxt = p" using "1.prems"(3) nxt by (auto simp: keyed_def)
    show ?thesis
      using "1.IH" [OF guards(1,2) par nxt guards(3) rec] nxt id "1.prems"(3) step(2) by simp
  qed
qed

lemma validateParent_avoids_child:
  assumes "validateParentConversation get childId parentId ws maxDepth = None" and "keyed get"
    and "(parentId, x) \<in> (parent_rel get)\<^sup>*"
  shows "x \<noteq> childId \<and> get x \<noteq> None"
proof -
  obtain cur where cur: "get parentId = Some cur"
    and walk: "validate_walk get childId ws maxDepth 0 [] cur = None"
    using assms(1) by (auto simp: validateParentConversation_def split: option.splits if_splits)
  have id: "conv_id cur = parentId" using assms(2) cur by (auto simp: keyed_def)
  show ?thesis
    using validate_walk_avoids_child [OF walk _ assms(2)] cur id assms(3) by simp
qed

text \<open>
  Installing a record under \<open>k\<close> whose parent passed the check keeps the parent relation acyclic.
\<close>

lemma parent_rel_upd:
  "parent_rel (get(k := Some conv)) \<subseteq>
     (case parent_of conv of None \<Rightarrow> {} | Some p \<Rightarrow> {(k, p)}) \<union> {(c, q) \<in> parent_rel get. c \<noteq> k}"
  by (auto simp: parent_rel_def split: if_splits option.splits)

lemma acyclic_reparent:
  assumes acyc: "acyclic (parent_rel get)" and keyed: "keyed get"
    and check: "\<And>p. parent_of conv = Some p \<Longrightarrow> validateParentConversation get k p ws maxDepth = None"
  shows "acyclic (parent_rel (get(k := Some conv)))"
proof -
  let ?old = "{(c, q) \<in> parent_rel get. c \<noteq> k}"
  have old: "acyclic ?old" using acyc by (rule acyclic_subset) auto
  show ?thesis
  proof (cases "parent_of conv")
    case None
    then have "parent_rel (get(k := Some conv)) \<subseteq> ?old"
      using parent_rel_upd [of get k conv] by simp
    with old show ?thesis by (rule acyclic_subset)
  next
    case (Some p)
    have "?old\<^sup>* \<subseteq> (parent_rel get)\<^sup>*" by (rule rtrancl_mono) auto
    then have "(p, k) \<notin> ?old\<^sup>*"
      using validateParent_avoids_child [OF check [OF Some] keyed, of k] by auto
    then have "acyclic (insert (k, p) ?old)" using old by (simp add: acyclic_insert)
    moreover have "parent_rel (get(k := Some conv)) \<subseteq> insert (k, p) ?old"
      using parent_rel_upd [of get k conv] Some by simp
    ultimately show ?thesis by (rule acyclic_subset)
  qed
qed

lemma acyclic_remove: "acyclic (parent_rel get) \<Longrightarrow> acyclic (parent_rel (get(k := None)))"
  by (erule acyclic_subset) (auto simp: parent_rel_def split: if_splits)

section \<open>Reading a lineage\<close>

text \<open>What a lineage is: consecutive entries are parent and child, oldest first.\<close>

fun chained :: "conversation list \<Rightarrow> bool" where
  "chained (a # b # rest) = (parent_of b = Some (conv_id a) \<and> chained (b # rest))"
| "chained _ = True"

lemma lineage_walk_sound:
  assumes "lineage_walk get maxDepth lineage current = Inr res" and "keyed get"
    and "chained (current # lineage)" and "distinct (map conv_id lineage)"
    and "\<forall>c \<in> set lineage. get (conv_id c) = Some c" and "get (conv_id current) = Some current"
  shows "chained res \<and> distinct (map conv_id res) \<and> length res \<le> maxDepth
     \<and> (\<exists>older. res = older @ current # lineage) \<and> res \<noteq> [] \<and> parent_of (hd res) = None
     \<and> (\<forall>c \<in> set res. get (conv_id c) = Some c)"
  using assms
proof (induction get maxDepth lineage current rule: lineage_walk.induct)
  case (1 get maxDepth lineage current)
  have notin: "conv_id current \<notin> conv_id ` set lineage" and len: "length (current # lineage) \<le> maxDepth"
    using "1.prems"(1) by (auto simp: lineage_walk.simps [of get maxDepth lineage current] Let_def split: if_splits)
  show ?case
  proof (cases "parent_of current")
    case None
    with "1.prems" notin len have "res = current # lineage"
      by (simp add: lineage_walk.simps [of get maxDepth lineage current])
    with "1.prems" None notin len show ?thesis by auto
  next
    case (Some p)
    then obtain nxt where nxt: "get p = Some nxt"
      and rec: "lineage_walk get maxDepth (current # lineage) nxt = Inr res"
      using "1.prems"(1) notin len
      by (auto simp: lineage_walk.simps [of get maxDepth lineage current] Let_def split: option.splits if_splits)
    have id: "conv_id nxt = p" using "1.prems"(2) nxt by (auto simp: keyed_def)
    have "chained res \<and> distinct (map conv_id res) \<and> length res \<le> maxDepth
       \<and> (\<exists>older. res = older @ nxt # current # lineage) \<and> res \<noteq> [] \<and> parent_of (hd res) = None
       \<and> (\<forall>c \<in> set res. get (conv_id c) = Some c)"
      using "1.IH" [OF notin refl _ Some nxt rec] len "1.prems" notin id Some nxt by auto
    then show ?thesis by (metis append.assoc append_Cons append_Nil)
  qed
qed

text \<open>On an acyclic parent relation the walk never reports a cycle.\<close>

lemma lineage_walk_no_cycle:
  assumes "acyclic (parent_rel get)" and "keyed get" and "get (conv_id current) = Some current"
    and "\<forall>c \<in> set lineage. (conv_id c, conv_id current) \<in> (parent_rel get)\<^sup>+"
  shows "lineage_walk get maxDepth lineage current \<noteq> Inl LineageCycle"
  using assms
proof (induction get maxDepth lineage current rule: lineage_walk.induct)
  case (1 get maxDepth lineage current)
  have notin: "conv_id current \<notin> conv_id ` set lineage"
    using "1.prems"(1,4) by (auto simp: acyclic_def)
  show ?case
  proof (cases "parent_of current")
    case None
    with notin show ?thesis by (simp add: lineage_walk.simps [of get maxDepth lineage current] Let_def)
  next
    case (Some p)
    then have edge: "(conv_id current, p) \<in> parent_rel get"
      using "1.prems"(3) by (simp add: parent_relI)
    have "lineage_walk get maxDepth (current # lineage) nxt \<noteq> Inl LineageCycle"
      if nxt: "get p = Some nxt" and len: "\<not> maxDepth < length (current # lineage)" for nxt
    proof (rule "1.IH" [OF notin refl len Some nxt "1.prems"(1,2)])
      have id: "conv_id nxt = p" using "1.prems"(2) nxt by (auto simp: keyed_def)
      with nxt show "get (conv_id nxt) = Some nxt" by simp
      show "\<forall>c \<in> set (current # lineage). (conv_id c, conv_id nxt) \<in> (parent_rel get)\<^sup>+"
        using "1.prems"(4) edge id by (auto intro: trancl_into_trancl)
    qed
    with notin Some show ?thesis
      by (auto simp: lineage_walk.simps [of get maxDepth lineage current] Let_def split: option.splits)
  qed
qed

end
