(* ===== verification/Rector_Store.thy ===== *)
theory Rector_Store
  imports Conversation_Lineage
begin

text \<open>
  The in-memory store, \<open>src/store/inMemoryRectorStore.ts\<close>, with the memory helpers of
  \<open>src/memory/entryUtils.ts\<close> it calls. A method is a function from the store to the new store and
  its outcome (\<open>Inl\<close> of what it throws). \<open>structuredClone\<close> disappears: model values are not shared.
  \<open>now\<close> is what \<open>this.now()\<close> returns during the call; \<open>Date.parse\<close> and \<open>localeCompare\<close> are the
  parameters of \<open>text_env\<close>.
\<close>

datatype store_error =
    ZodError string
  | RunNotFound string
  | DuplicateEventId string
  | ConcurrentTransitionError string int nat
  | LineageError lineage_error

record text_env =
  dateParse :: "string \<Rightarrow> int option"
  localeCompare :: "string \<Rightarrow> string \<Rightarrow> int"

record store =
  conversations :: "(string, conversation) js_map"
  messages :: "(string, message) js_map"
  runs :: "(string, run) js_map"
  events :: "(string, run_event) js_map"
  artifacts :: "(string, artifact) js_map"
  memories :: "(string, memory_entry) js_map"
  cnt_conv :: nat
  cnt_msg :: nat
  cnt_run :: nat
  cnt_art :: nat
  cnt_mem :: nat

definition empty_store :: store where
  "empty_store = \<lparr>conversations = [], messages = [], runs = [], events = [], artifacts = [],
     memories = [], cnt_conv = 0, cnt_msg = 0, cnt_run = 0, cnt_art = 0, cnt_mem = 0\<rparr>"

type_synonym 'a store_op = "store \<Rightarrow> store \<times> (store_error, 'a) result"

definition mk_id :: "string \<Rightarrow> nat \<Rightarrow> string" where
  "mk_id pre n = pre @ ''-'' @ show_nat n"

lemma mk_id_inject [simp]: "mk_id p m = mk_id p n \<longleftrightarrow> m = n"
  by (simp add: mk_id_def)

lemma mk_id_not_Nil [simp]: "mk_id p n \<noteq> []"
  by (simp add: mk_id_def)

section \<open>Conversations\<close>

abbreviation getConversation :: "store \<Rightarrow> string \<Rightarrow> conversation option" where
  "getConversation S \<equiv> js_get (conversations S)"

text \<open>The guard both writers share: a truthy parent identifier has to pass the lineage check.\<close>

definition parent_check :: "store \<Rightarrow> string \<Rightarrow> string \<Rightarrow> string option \<Rightarrow> lineage_error option" where
  "parent_check S childId ws parent =
     (case parent of
        None \<Rightarrow> None
      | Some p \<Rightarrow> if p = [] then None
                   else validateParentConversation (getConversation S) childId p ws
                          MAX_CONVERSATION_LINEAGE_DEPTH)"

definition new_conversation :: "string \<Rightarrow> string \<Rightarrow> conversation_input \<Rightarrow> conversation" where
  "new_conversation ident now input =
     \<lparr>conv_id = ident, conv_title = ci_title input, conv_workspaceId = ci_workspaceId input,
      conv_parentConversationId = ci_parentConversationId input,
      conv_compressionGeneration = Some (over (ci_compressionGeneration input) 0),
      conv_compressionSummaryArtifactId = ci_compressionSummaryArtifactId input,
      conv_createdAt = now, conv_updatedAt = now, conv_retentionPolicy = ci_retentionPolicy input\<rparr>"

text \<open>
  Both writers of conversations \<open>await\<close> the lineage check. What follows that \<open>await\<close> is a definition of
  its own (\<open>createConversation_install\<close>, \<open>updateConversation_install\<close>), so that the sequential method is
  the check and the installation with nothing in between, and an interleaving can put other work
  there. All other methods run without an \<open>await\<close> between their first read and last write, except
  \<open>pruneMemory\<close>, which awaits \<open>createMemoryEntry\<close> and is modelled as running alone.
\<close>

definition peekNextId :: "string \<Rightarrow> nat \<Rightarrow> string" where
  "peekNextId pre counter = mk_id pre (counter + 1)"

definition createConversation_install ::
  "schema_env \<Rightarrow> string \<Rightarrow> string \<Rightarrow> conversation_input \<Rightarrow> conversation store_op" where
  "createConversation_install E now ident input S =
     (let S1 = S\<lparr>cnt_conv := cnt_conv S + 1\<rparr>; c = new_conversation ident now input
      in if ConversationSchema E c
         then (S1\<lparr>conversations := js_set ident c (conversations S1)\<rparr>, Inr c)
         else (S1, Inl (ZodError ''Conversation'')))"

definition createConversation :: "schema_env \<Rightarrow> string \<Rightarrow> conversation_input \<Rightarrow> conversation store_op" where
  "createConversation E now input S =
     (let ident = peekNextId ''conv'' (cnt_conv S)
      in case parent_check S ident (ci_workspaceId input) (ci_parentConversationId input) of
           Some e \<Rightarrow> (S, Inl (LineageError e))
         | None \<Rightarrow> createConversation_install E now ident input S)"

definition listConversations :: "store \<Rightarrow> string option \<Rightarrow> conversation list" where
  "listConversations S ws = filter (\<lambda>c. ws = None \<or> ws = Some (conv_workspaceId c)) (js_values (conversations S))"

definition merge_conversation :: "conversation \<Rightarrow> conversation_patch \<Rightarrow> string \<Rightarrow> conversation" where
  "merge_conversation c p now =
     \<lparr>conv_id = conv_id c,
      conv_title = over (cp_title p) (conv_title c),
      conv_workspaceId = over (cp_workspaceId p) (conv_workspaceId c),
      conv_parentConversationId = over (cp_parentConversationId p) (conv_parentConversationId c),
      conv_compressionGeneration = over (cp_compressionGeneration p) (conv_compressionGeneration c),
      conv_compressionSummaryArtifactId =
        over (cp_compressionSummaryArtifactId p) (conv_compressionSummaryArtifactId c),
      conv_createdAt = conv_createdAt c,
      conv_updatedAt = now,
      conv_retentionPolicy = over (cp_retentionPolicy p) (conv_retentionPolicy c)\<rparr>"

definition updateConversation_install ::
  "schema_env \<Rightarrow> string \<Rightarrow> string \<Rightarrow> conversation \<Rightarrow> conversation_patch \<Rightarrow> conversation option store_op" where
  "updateConversation_install E now ident current patch S =
     (let updated = merge_conversation current patch now
      in if ConversationSchema E updated
         then (S\<lparr>conversations := js_set ident updated (conversations S)\<rparr>, Inr (Some updated))
         else (S, Inl (ZodError ''Conversation'')))"

definition updateConversation_check ::
  "conversation \<Rightarrow> conversation_patch \<Rightarrow> store \<Rightarrow> lineage_error option" where
  "updateConversation_check current patch S =
     (let nextWorkspaceId = over (cp_workspaceId patch) (conv_workspaceId current);
          nextParent = over (cp_parentConversationId patch) (conv_parentConversationId current)
      in parent_check S (conv_id current) nextWorkspaceId nextParent)"

definition updateConversation ::
  "schema_env \<Rightarrow> string \<Rightarrow> string \<Rightarrow> conversation_patch \<Rightarrow> conversation option store_op" where
  "updateConversation E now ident patch S =
     (case getConversation S ident of
        None \<Rightarrow> (S, Inr None)
      | Some current \<Rightarrow>
          (case updateConversation_check current patch S of
             Some e \<Rightarrow> (S, Inl (LineageError e))
           | None \<Rightarrow> updateConversation_install E now ident current patch S))"

definition deleteConversation :: "string \<Rightarrow> store \<Rightarrow> store \<times> bool" where
  "deleteConversation ident S =
     (S\<lparr>conversations := js_delete ident (conversations S)\<rparr>, js_has (conversations S) ident)"

section \<open>Messages\<close>

text \<open>
  \<open>CreateMessageInput\<close> is a message without \<open>id\<close> and \<open>createdAt\<close>; the model takes a message and
  overwrites the two fields.
\<close>

definition createMessage :: "schema_env \<Rightarrow> string \<Rightarrow> message \<Rightarrow> message store_op" where
  "createMessage E now input S =
     (let S1 = S\<lparr>cnt_msg := cnt_msg S + 1\<rparr>;
          m = input\<lparr>msg_id := mk_id ''msg'' (cnt_msg S1), msg_createdAt := now\<rparr>
      in if MessageSchema E m then (S1\<lparr>messages := js_set (msg_id m) m (messages S1)\<rparr>, Inr m)
         else (S1, Inl (ZodError ''Message'')))"

definition listMessages :: "store \<Rightarrow> string option \<Rightarrow> message list" where
  "listMessages S conversationId =
     filter (\<lambda>m. conversationId = None \<or> conversationId = Some (msg_conversationId m)) (js_values (messages S))"

definition merge_message :: "message \<Rightarrow> message_patch \<Rightarrow> message" where
  "merge_message m p =
     m\<lparr>msg_conversationId := over (mp_conversationId p) (msg_conversationId m),
       msg_role := over (mp_role p) (msg_role m),
       msg_content := over (mp_content p) (msg_content m),
       msg_status := over (mp_status p) (msg_status m),
       msg_runId := over (mp_runId p) (msg_runId m),
       msg_redactionState := over (mp_redactionState p) (msg_redactionState m),
       msg_source := over (mp_source p) (msg_source m)\<rparr>"

definition updateMessage :: "schema_env \<Rightarrow> string \<Rightarrow> message_patch \<Rightarrow> message option store_op" where
  "updateMessage E ident patch S =
     (case js_get (messages S) ident of
        None \<Rightarrow> (S, Inr None)
      | Some current \<Rightarrow>
          let updated = merge_message current patch
          in if MessageSchema E updated
             then (S\<lparr>messages := js_set ident updated (messages S)\<rparr>, Inr (Some updated))
             else (S, Inl (ZodError ''Message'')))"

definition deleteMessage :: "string \<Rightarrow> store \<Rightarrow> store \<times> bool" where
  "deleteMessage ident S = (S\<lparr>messages := js_delete ident (messages S)\<rparr>, js_has (messages S) ident)"

section \<open>Runs and the event log\<close>

text \<open>\<open>CreateRunInput\<close> is a run whose \<open>id\<close> and timestamps are overwritten.\<close>

definition createRun :: "schema_env \<Rightarrow> string \<Rightarrow> run \<Rightarrow> run store_op" where
  "createRun E now input S =
     (let S1 = S\<lparr>cnt_run := cnt_run S + 1\<rparr>;
          r = input\<lparr>run_id := mk_id ''run'' (cnt_run S1), run_createdAt := now, run_updatedAt := now\<rparr>
      in if RunSchema E r then (S1\<lparr>runs := js_set (run_id r) r (runs S1)\<rparr>, Inr r)
         else (S1, Inl (ZodError ''Run'')))"

definition getRun :: "string \<Rightarrow> store \<Rightarrow> run option" where
  "getRun ident S = js_get (runs S) ident"

definition listRuns :: "store \<Rightarrow> string option \<Rightarrow> run list" where
  "listRuns S conversationId =
     filter (\<lambda>r. conversationId = None \<or> conversationId = Some (run_conversationId r)) (js_values (runs S))"

definition updateRun :: "schema_env \<Rightarrow> string \<Rightarrow> string \<Rightarrow> run_patch \<Rightarrow> run option store_op" where
  "updateRun E now ident patch S =
     (case js_get (runs S) ident of
        None \<Rightarrow> (S, Inr None)
      | Some current \<Rightarrow>
          let updated = merge_run current patch now
          in if RunSchema E updated
             then (S\<lparr>runs := js_set ident updated (runs S)\<rparr>, Inr (Some updated))
             else (S, Inl (ZodError ''Run'')))"

definition deleteRun :: "string \<Rightarrow> store \<Rightarrow> store \<times> bool" where
  "deleteRun ident S = (S\<lparr>runs := js_delete ident (runs S)\<rparr>, js_has (runs S) ident)"

definition commitRunTransition ::
  "schema_env \<Rightarrow> string \<Rightarrow> string \<Rightarrow> run_patch \<Rightarrow> run_event \<Rightarrow> (run \<times> run_event) store_op" where
  "commitRunTransition E now runId patch event S =
     (case js_get (runs S) runId of
        None \<Rightarrow> (S, Inl (RunNotFound runId))
      | Some current \<Rightarrow>
          let conflict = (case rp_version patch of
                 Some v \<Rightarrow> if int (run_version current) \<noteq> int v - 1 then Some (int v - 1) else None
               | None \<Rightarrow> None)
          in case conflict of
               Some expected \<Rightarrow> (S, Inl (ConcurrentTransitionError runId expected (run_version current)))
             | None \<Rightarrow>
                 let updated = merge_run current patch now
                 in if \<not> RunSchema E updated then (S, Inl (ZodError ''Run''))
                    else case RunEventSchema_parse E event of
                           None \<Rightarrow> (S, Inl (ZodError ''RunEvent''))
                         | Some parsed \<Rightarrow>
                             if js_has (events S) (ev_id parsed)
                             then (S, Inl (DuplicateEventId (ev_id parsed)))
                             else (S\<lparr>runs := js_set runId updated (runs S),
                                     events := js_set (ev_id parsed) parsed (events S)\<rparr>,
                                   Inr (updated, parsed)))"

definition appendEvent :: "schema_env \<Rightarrow> run_event \<Rightarrow> run_event store_op" where
  "appendEvent E event S =
     (case RunEventSchema_parse E event of
        None \<Rightarrow> (S, Inl (ZodError ''RunEvent''))
      | Some parsed \<Rightarrow>
          if js_has (events S) (ev_id parsed) then (S, Inl (DuplicateEventId (ev_id parsed)))
          else (S\<lparr>events := js_set (ev_id parsed) parsed (events S)\<rparr>, Inr parsed))"

definition listEvents :: "store \<Rightarrow> string option \<Rightarrow> run_event list" where
  "listEvents S runId = filter (\<lambda>e. runId = None \<or> runId = Some (ev_runId e)) (js_values (events S))"

definition deleteEvent :: "string \<Rightarrow> store \<Rightarrow> store \<times> bool" where
  "deleteEvent ident S = (S\<lparr>events := js_delete ident (events S)\<rparr>, js_has (events S) ident)"

section \<open>Artifacts\<close>

definition createArtifact :: "schema_env \<Rightarrow> string \<Rightarrow> artifact \<Rightarrow> artifact store_op" where
  "createArtifact E now input S =
     (let S1 = S\<lparr>cnt_art := cnt_art S + 1\<rparr>;
          a = input\<lparr>art_id := mk_id ''art'' (cnt_art S1), art_createdAt := now\<rparr>
      in if ArtifactSchema E a then (S1\<lparr>artifacts := js_set (art_id a) a (artifacts S1)\<rparr>, Inr a)
         else (S1, Inl (ZodError ''Artifact'')))"

definition listArtifacts :: "store \<Rightarrow> string option \<Rightarrow> artifact list" where
  "listArtifacts S kind = filter (\<lambda>a. kind = None \<or> kind = Some (art_kind a)) (js_values (artifacts S))"

definition merge_artifact :: "artifact \<Rightarrow> artifact_patch \<Rightarrow> artifact" where
  "merge_artifact a p =
     a\<lparr>art_kind := over (ap_kind p) (art_kind a), art_uri := over (ap_uri p) (art_uri a),
       art_summary := over (ap_summary p) (art_summary a), art_hash := over (ap_hash p) (art_hash a),
       art_sizeBytes := over (ap_sizeBytes p) (art_sizeBytes a),
       art_piiState := over (ap_piiState p) (art_piiState a),
       art_retentionPolicy := over (ap_retentionPolicy p) (art_retentionPolicy a),
       art_metadata := over (ap_metadata p) (art_metadata a)\<rparr>"

definition updateArtifact :: "schema_env \<Rightarrow> string \<Rightarrow> artifact_patch \<Rightarrow> artifact option store_op" where
  "updateArtifact E ident patch S =
     (case js_get (artifacts S) ident of
        None \<Rightarrow> (S, Inr None)
      | Some current \<Rightarrow>
          let updated = merge_artifact current patch
          in if ArtifactSchema E updated
             then (S\<lparr>artifacts := js_set ident updated (artifacts S)\<rparr>, Inr (Some updated))
             else (S, Inl (ZodError ''Artifact'')))"

definition deleteArtifact :: "string \<Rightarrow> store \<Rightarrow> store \<times> bool" where
  "deleteArtifact ident S = (S\<lparr>artifacts := js_delete ident (artifacts S)\<rparr>, js_has (artifacts S) ident)"

section \<open>Memory entries\<close>

definition sanitizeCreateMemoryEntryInput :: "memory_input \<Rightarrow> memory_input" where
  "sanitizeCreateMemoryEntryInput i =
     i\<lparr>mi_content := redactStringOrSuppress (mi_content i),
       mi_tags := map redactStringOrSuppress (mi_tags i),
       mi_source := map_option redactStringOrSuppress (mi_source i),
       mi_metadata := redactRecord (mi_metadata i)\<rparr>"

definition sanitizeUpdateMemoryEntryInput :: "memory_patch \<Rightarrow> memory_patch" where
  "sanitizeUpdateMemoryEntryInput p =
     p\<lparr>mmp_content := map_option redactStringOrSuppress (mmp_content p),
       mmp_tags := map_option (map redactStringOrSuppress) (mmp_tags p),
       mmp_source := map_option (map_option redactStringOrSuppress) (mmp_source p),
       mmp_metadata := map_option redactRecord (mmp_metadata p)\<rparr>"

definition createMemoryEntry :: "schema_env \<Rightarrow> string \<Rightarrow> memory_input \<Rightarrow> memory_entry store_op" where
  "createMemoryEntry E now input S =
     (let sanitized = sanitizeCreateMemoryEntryInput input;
          S1 = S\<lparr>cnt_mem := cnt_mem S + 1\<rparr>;
          e = \<lparr>mem_id = mk_id ''mem'' (cnt_mem S1), mem_layer = mi_layer sanitized,
               mem_content = mi_content sanitized, mem_timestamp = mi_timestamp sanitized,
               mem_lastMentioned = over (mi_lastMentioned sanitized) now,
               mem_accessCount = over (mi_accessCount sanitized) 0, mem_tags = mi_tags sanitized,
               mem_source = mi_source sanitized, mem_metadata = mi_metadata sanitized\<rparr>
      in if MemoryEntrySchema E e then (S1\<lparr>memories := js_set (mem_id e) e (memories S1)\<rparr>, Inr e)
         else (S1, Inl (ZodError ''MemoryEntry'')))"

definition listMemoryEntries :: "store \<Rightarrow> memory_layer option \<Rightarrow> memory_entry list" where
  "listMemoryEntries S layer = filter (\<lambda>e. layer = None \<or> layer = Some (mem_layer e)) (js_values (memories S))"

definition merge_memory :: "memory_entry \<Rightarrow> memory_patch \<Rightarrow> memory_entry" where
  "merge_memory e p =
     e\<lparr>mem_layer := over (mmp_layer p) (mem_layer e), mem_content := over (mmp_content p) (mem_content e),
       mem_timestamp := over (mmp_timestamp p) (mem_timestamp e),
       mem_lastMentioned := over (mmp_lastMentioned p) (mem_lastMentioned e),
       mem_accessCount := over (mmp_accessCount p) (mem_accessCount e),
       mem_tags := over (mmp_tags p) (mem_tags e), mem_source := over (mmp_source p) (mem_source e),
       mem_metadata := over (mmp_metadata p) (mem_metadata e)\<rparr>"

definition updateMemoryEntry :: "schema_env \<Rightarrow> string \<Rightarrow> memory_patch \<Rightarrow> memory_entry option store_op" where
  "updateMemoryEntry E ident patch S =
     (case js_get (memories S) ident of
        None \<Rightarrow> (S, Inr None)
      | Some current \<Rightarrow>
          let updated = merge_memory current (sanitizeUpdateMemoryEntryInput patch)
          in if MemoryEntrySchema E updated
             then (S\<lparr>memories := js_set ident updated (memories S)\<rparr>, Inr (Some updated))
             else (S, Inl (ZodError ''MemoryEntry'')))"

definition deleteMemoryEntry :: "string \<Rightarrow> store \<Rightarrow> store \<times> bool" where
  "deleteMemoryEntry ident S = (S\<lparr>memories := js_delete ident (memories S)\<rparr>, js_has (memories S) ident)"

definition normalizeMemorySearchLimit :: "jsnum option \<Rightarrow> int" where
  "normalizeMemorySearchLimit limit =
     (case limit of Some (Fin q) \<Rightarrow> max 1 (min 100 \<lfloor>q\<rfloor>) | _ \<Rightarrow> 20)"

definition memoryRelevanceScore :: "text_env \<Rightarrow> memory_entry \<Rightarrow> int" where
  "memoryRelevanceScore X e =
     int (mem_accessCount e) * 2 + (case dateParse X (mem_lastMentioned e) of None \<Rightarrow> 0 | Some ms \<Rightarrow> ms)"

definition compareMemorySearchResults :: "text_env \<Rightarrow> memory_entry \<Rightarrow> memory_entry \<Rightarrow> int" where
  "compareMemorySearchResults X left right =
     (let scoreDelta = memoryRelevanceScore X right - memoryRelevanceScore X left
      in if scoreDelta \<noteq> 0 then scoreDelta
         else let timestampDelta = localeCompare X (mem_timestamp right) (mem_timestamp left)
              in if timestampDelta \<noteq> 0 then timestampDelta
                 else localeCompare X (mem_id left) (mem_id right))"

definition searchMemory ::
  "text_env \<Rightarrow> string option \<Rightarrow> memory_layer option \<Rightarrow> jsnum option \<Rightarrow> store \<Rightarrow> memory_entry list" where
  "searchMemory X query layer limit S =
     (let results = js_values (memories S);
          r1 = (case layer of None \<Rightarrow> results | Some l \<Rightarrow> filter (\<lambda>e. mem_layer e = l) results);
          r2 = (case query of
                  None \<Rightarrow> r1
                | Some q0 \<Rightarrow>
                    if js_trim q0 = [] then r1
                    else let q = toLowerCase q0
                         in filter (\<lambda>e. js_includes (toLowerCase (mem_content e)) q
                              \<or> list_ex (\<lambda>t. js_includes (toLowerCase t) q) (mem_tags e)
                              \<or> (case mem_source e of None \<Rightarrow> False
                                 | Some s \<Rightarrow> s \<noteq> [] \<and> js_includes (toLowerCase s) q)) r1)
      in take (nat (normalizeMemorySearchLimit limit)) (sort_by (compareMemorySearchResults X) r2))"

definition DAY_MS :: int where
  "DAY_MS = 24 * 60 * 60 * 1000"

definition memoryPruneScore :: "text_env \<Rightarrow> memory_entry \<Rightarrow> string \<Rightarrow> int" where
  "memoryPruneScore X e nowIso =
     (let nowMs = (case dateParse X nowIso of None \<Rightarrow> 0 | Some ms \<Rightarrow> ms);
          timestampMs = (case dateParse X (mem_timestamp e) of None \<Rightarrow> nowMs | Some ms \<Rightarrow> ms);
          ageMs = max 0 (nowMs - timestampMs);
          recency = max 0 (100 - ageMs div DAY_MS);
          accessBonus = min (int (mem_accessCount e) * 3) 50;
          noteBonus = (if mem_source e = Some ''user-note'' \<or> ''note'' \<in> set (mem_tags e) then 30 else 0)
      in recency + accessBonus + noteBonus)"

definition compareMemoryPruneCandidates ::
  "text_env \<Rightarrow> memory_entry \<times> int \<Rightarrow> memory_entry \<times> int \<Rightarrow> int" where
  "compareMemoryPruneCandidates X left right =
     (if snd left \<noteq> snd right then snd left - snd right
      else let timestampDelta = localeCompare X (mem_timestamp (fst left)) (mem_timestamp (fst right))
           in if timestampDelta \<noteq> 0 then timestampDelta
              else localeCompare X (mem_id (fst left)) (mem_id (fst right)))"

text \<open>One turn of the pruning loop, then the loop over the victims.\<close>

definition prune_summary :: "string \<Rightarrow> memory_entry \<Rightarrow> memory_input" where
  "prune_summary now e =
     \<lparr>mi_layer = Core,
      mi_content = ''[summary] '' @ take 120 (mem_content e) @ ''... (from '' @ mem_timestamp e @ '')'',
      mi_timestamp = now, mi_lastMentioned = None, mi_accessCount = None,
      mi_tags = mem_tags e @ [''auto-summary''], mi_source = Some ''prune'',
      mi_metadata = [(''originalId'', JStr (mem_id e)), (''originalLayer'', JStr ''episodic'')]\<rparr>"

fun prune_loop ::
  "schema_env \<Rightarrow> string \<Rightarrow> memory_entry list \<Rightarrow> nat \<Rightarrow> nat \<Rightarrow> (nat \<times> nat) store_op" where
  "prune_loop E now [] pruned summarized S = (S, Inr (pruned, summarized))"
| "prune_loop E now (e # es) pruned summarized S =
     (if 2 < mem_accessCount e \<and> mem_layer e = Episodic
      then case createMemoryEntry E now (prune_summary now e) S of
             (S1, Inl err) \<Rightarrow> (S1, Inl err)
           | (S1, Inr _) \<Rightarrow>
               prune_loop E now es (pruned + 1) (summarized + 1)
                 (S1\<lparr>memories := js_delete (mem_id e) (memories S1)\<rparr>)
      else prune_loop E now es (pruned + 1) summarized
             (S\<lparr>memories := js_delete (mem_id e) (memories S)\<rparr>))"

definition pruneMemory ::
  "schema_env \<Rightarrow> text_env \<Rightarrow> string \<Rightarrow> memory_layer option \<Rightarrow> nat option \<Rightarrow> (nat \<times> nat) store_op" where
  "pruneMemory E X now targetLayer maxEntries S =
     (let layer = over targetLayer Episodic; limit = over maxEntries 100;
          layerEntries = filter (\<lambda>e. mem_layer e = layer) (js_values (memories S))
      in if length layerEntries \<le> limit then (S, Inr (0, 0))
         else let scored = map (\<lambda>e. (e, memoryPruneScore X e now)) layerEntries;
                  ranked = sort_by (compareMemoryPruneCandidates X) scored;
                  toPrune = take (length layerEntries - limit) ranked
              in prune_loop E now (map fst toPrune) 0 0 S)"

end
