(* ===== verification/Store_Invariants.thy ===== *)
theory Store_Invariants
  imports Rector_Store
begin

text \<open>
  What every sequence of store operations keeps: each table holds records under their own
  identifier, identifiers are the counter's, every record satisfies its schema, and the parent
  links of conversations form no cycle. \<open>store_step\<close> has one rule per operation of the class.
\<close>

section \<open>Tables of records with generated identifiers\<close>

definition table_ok ::
  "('v \<Rightarrow> bool) \<Rightarrow> ('v \<Rightarrow> string) \<Rightarrow> (string \<Rightarrow> bool) \<Rightarrow> (string, 'v) js_map \<Rightarrow> bool" where
  "table_ok ok idf known m \<longleftrightarrow>
     distinct (js_keys m) \<and> (\<forall>(k, v) \<in> set m. idf v = k \<and> ok v \<and> known k)"

definition issued :: "string \<Rightarrow> nat \<Rightarrow> string \<Rightarrow> bool" where
  "issued pre cnt k = (\<exists>n \<le> cnt. k = mk_id pre n)"

lemma issued_mono: "issued pre cnt k \<Longrightarrow> cnt \<le> cnt' \<Longrightarrow> issued pre cnt' k"
  by (auto simp: issued_def intro: le_trans)

lemma not_issued_next: "\<not> issued pre cnt (mk_id pre (Suc cnt))"
  by (auto simp: issued_def)

lemma table_ok_empty [simp]: "table_ok ok idf known []"
  by (simp add: table_ok_def)

lemma table_ok_known_mono:
  "table_ok ok idf known m \<Longrightarrow> (\<And>k. known k \<Longrightarrow> known' k) \<Longrightarrow> table_ok ok idf known' m"
  by (auto simp: table_ok_def)

lemma table_ok_set:
  assumes "table_ok ok idf known m" and "idf v = k" and "ok v" and "known k"
  shows "table_ok ok idf known (js_set k v m)"
proof -
  have "set (js_set k v m) \<subseteq> insert (k, v) (set m)"
    by (induction m) auto
  with assms show ?thesis by (auto simp: table_ok_def distinct_js_set)
qed

lemma table_ok_delete:
  assumes "table_ok ok idf known m"
  shows "table_ok ok idf known (js_delete k m)"
proof -
  have "set (js_delete k m) \<subseteq> set m" by (auto simp: AList.delete_eq)
  with assms show ?thesis by (auto simp: table_ok_def distinct_js_delete)
qed

lemma table_ok_get:
  "table_ok ok idf known m \<Longrightarrow> js_get m k = Some v \<Longrightarrow> idf v = k \<and> ok v \<and> known k"
  by (auto simp: table_ok_def dest!: map_of_SomeD)

lemma table_ok_fresh:
  "table_ok ok idf (issued pre cnt) m \<Longrightarrow> js_get m (mk_id pre (Suc cnt)) = None"
  using not_issued_next table_ok_get by (metis not_None_eq)

lemma table_ok_create:
  assumes "table_ok ok idf (issued pre cnt) m" and "idf v = mk_id pre (Suc cnt)" and "ok v"
  shows "table_ok ok idf (issued pre (Suc cnt)) (js_set (mk_id pre (Suc cnt)) v m)"
proof (rule table_ok_set [OF table_ok_known_mono [OF assms(1)]])
  show "\<And>k. issued pre cnt k \<Longrightarrow> issued pre (Suc cnt) k" by (erule issued_mono) simp
  show "issued pre (Suc cnt) (mk_id pre (Suc cnt))" by (auto simp: issued_def)
qed (use assms in simp_all)

lemma table_ok_skip:
  "table_ok ok idf (issued pre cnt) m \<Longrightarrow> table_ok ok idf (issued pre (Suc cnt)) m"
  by (erule table_ok_known_mono) (erule issued_mono, simp)

lemmas table_ok_rules = table_ok_set table_ok_delete table_ok_create table_ok_skip

section \<open>The invariant\<close>

definition event_valid :: "schema_env \<Rightarrow> run_event \<Rightarrow> bool" where
  "event_valid E e = (\<exists>e0. RunEventSchema_parse E e0 = Some e)"

definition store_inv :: "schema_env \<Rightarrow> store \<Rightarrow> bool" where
  "store_inv E S \<longleftrightarrow>
     table_ok (ConversationSchema E) conv_id (issued ''conv'' (cnt_conv S)) (conversations S)
   \<and> table_ok (MessageSchema E) msg_id (issued ''msg'' (cnt_msg S)) (messages S)
   \<and> table_ok (RunSchema E) run_id (issued ''run'' (cnt_run S)) (runs S)
   \<and> table_ok (event_valid E) ev_id (\<lambda>_. True) (events S)
   \<and> table_ok (ArtifactSchema E) art_id (issued ''art'' (cnt_art S)) (artifacts S)
   \<and> table_ok (MemoryEntrySchema E) mem_id (issued ''mem'' (cnt_mem S)) (memories S)
   \<and> acyclic (parent_rel (getConversation S))"

lemma store_inv_empty: "store_inv E empty_store"
  by (simp add: store_inv_def empty_store_def parent_rel_def acyclic_def)

lemma store_inv_keyed: "store_inv E S \<Longrightarrow> keyed (getConversation S)"
  by (auto simp: store_inv_def keyed_def dest: table_ok_get)

lemma getConversation_upd:
  "map_of (js_set k c (conversations S)) = (getConversation S)(k \<mapsto> c)"
  "map_of (js_delete k (conversations S)) = (getConversation S)(k := None)"
  by (simp_all add: update_conv' delete_conv')

subsection \<open>Conversations\<close>

lemma conversation_set_inv:
  assumes inv: "store_inv E S" and check: "parent_check S k ws (conv_parentConversationId c) = None"
    and ok: "ConversationSchema E c" and k: "conv_id c = k"
    and tbl: "issued ''conv'' n k" "cnt_conv S \<le> n"
  shows "store_inv E (S\<lparr>cnt_conv := n, conversations := js_set k c (conversations S)\<rparr>)"
proof -
  have "acyclic (parent_rel ((getConversation S)(k \<mapsto> c)))"
  proof (rule acyclic_reparent)
    show "acyclic (parent_rel (getConversation S))" using inv by (simp add: store_inv_def)
    show "keyed (getConversation S)" using inv by (rule store_inv_keyed)
    show "validateParentConversation (getConversation S) k p ws MAX_CONVERSATION_LINEAGE_DEPTH = None"
      if "parent_of c = Some p" for p
      using that check by (auto simp: parent_of_def parent_check_def split: option.splits if_splits)
  qed
  moreover have "table_ok (ConversationSchema E) conv_id (issued ''conv'' n) (conversations S)"
    using inv tbl(2) by (auto simp: store_inv_def elim!: table_ok_known_mono intro: issued_mono)
  then have "table_ok (ConversationSchema E) conv_id (issued ''conv'' n) (js_set k c (conversations S))"
    using ok k tbl(1) by (simp add: table_ok_set)
  ultimately show ?thesis using inv by (simp add: store_inv_def getConversation_upd)
qed

lemma createConversation_inv [rector_invs]:
  assumes "store_inv E S"
  shows "store_inv E (fst (createConversation E now input S))"
proof -
  let ?id = "mk_id ''conv'' (cnt_conv S + 1)"
  have skip: "store_inv E (S\<lparr>cnt_conv := cnt_conv S + 1\<rparr>)"
    using assms by (simp add: store_inv_def table_ok_skip)
  have add: "store_inv E (S\<lparr>cnt_conv := cnt_conv S + 1,
        conversations := js_set ?id (new_conversation ?id now input) (conversations S)\<rparr>)"
    if "parent_check S ?id (ci_workspaceId input) (ci_parentConversationId input) = None"
      and "ConversationSchema E (new_conversation ?id now input)"
    using that by (intro conversation_set_inv [OF assms]) (auto simp: new_conversation_def issued_def)
  show ?thesis
    using assms skip add
    by (simp add: createConversation_def createConversation_install_def peekNextId_def Let_def split: option.splits)
qed

lemma updateConversation_inv [rector_invs]:
  assumes "store_inv E S"
  shows "store_inv E (fst (updateConversation E now ident patch S))"
proof (cases "getConversation S ident")
  case None
  with assms show ?thesis by (simp add: updateConversation_def)
next
  case (Some cur)
  have cur: "conv_id cur = ident" "issued ''conv'' (cnt_conv S) ident"
    using assms Some by (auto simp: store_inv_def dest: table_ok_get)
  have "store_inv E (S\<lparr>cnt_conv := cnt_conv S,
      conversations := js_set ident (merge_conversation cur patch now) (conversations S)\<rparr>)"
    if "parent_check S ident ws (over (cp_parentConversationId patch) (conv_parentConversationId cur)) = None"
      and "ConversationSchema E (merge_conversation cur patch now)" for ws
    using that cur by (intro conversation_set_inv [OF assms]) (auto simp: merge_conversation_def)
  with Some assms cur show ?thesis
    by (simp add: updateConversation_def updateConversation_check_def updateConversation_install_def Let_def
        split: option.splits)
qed

lemma deleteConversation_inv [rector_invs]:
  "store_inv E S \<Longrightarrow> store_inv E (fst (deleteConversation ident S))"
  by (simp add: store_inv_def deleteConversation_def table_ok_delete getConversation_upd acyclic_remove)

subsection \<open>Messages, runs, events, artifacts\<close>

lemma message_ops_inv [rector_invs]:
  assumes "store_inv E S"
  shows "store_inv E (fst (createMessage E now input S))"
    and "store_inv E (fst (updateMessage E ident patch S))"
    and "store_inv E (fst (deleteMessage ident S))"
proof -
  show "store_inv E (fst (createMessage E now input S))"
    using assms by (simp add: store_inv_def createMessage_def Let_def table_ok_create table_ok_skip)
  show "store_inv E (fst (updateMessage E ident patch S))"
    using assms
    by (auto simp: store_inv_def updateMessage_def Let_def merge_message_def split: option.splits
        intro!: table_ok_set dest: table_ok_get)
  show "store_inv E (fst (deleteMessage ident S))"
    using assms by (simp add: store_inv_def deleteMessage_def table_ok_delete)
qed

lemma run_set_inv:
  assumes "store_inv E S" and "js_get (runs S) ident = Some cur" and "RunSchema E (merge_run cur patch now)"
  shows "store_inv E (S\<lparr>runs := js_set ident (merge_run cur patch now) (runs S)\<rparr>)"
  using assms by (auto simp: store_inv_def intro!: table_ok_set dest: table_ok_get)

lemma event_set_inv:
  assumes "store_inv E S" and "RunEventSchema_parse E e = Some e'"
  shows "store_inv E (S\<lparr>events := js_set (ev_id e') e' (events S)\<rparr>)"
  using assms by (auto simp: store_inv_def event_valid_def intro!: table_ok_set)

lemma run_ops_inv [rector_invs]:
  assumes "store_inv E S"
  shows "store_inv E (fst (createRun E now r S))"
    and "store_inv E (fst (updateRun E now ident patch S))"
    and "store_inv E (fst (deleteRun ident S))"
proof -
  show "store_inv E (fst (createRun E now r S))"
    using assms by (simp add: store_inv_def createRun_def Let_def table_ok_create table_ok_skip)
  show "store_inv E (fst (updateRun E now ident patch S))"
    using assms by (auto simp: updateRun_def Let_def run_set_inv split: option.splits)
  show "store_inv E (fst (deleteRun ident S))"
    using assms by (simp add: store_inv_def deleteRun_def table_ok_delete)
qed

lemma commitRunTransition_inv [rector_invs]:
  assumes "store_inv E S"
  shows "store_inv E (fst (commitRunTransition E now ident patch e S))"
proof -
  have "store_inv E (S\<lparr>runs := js_set ident (merge_run cur patch now) (runs S),
      events := js_set (ev_id e') e' (events S)\<rparr>)"
    if "js_get (runs S) ident = Some cur" "RunSchema E (merge_run cur patch now)"
      "RunEventSchema_parse E e = Some e'" for cur e'
    using event_set_inv [OF run_set_inv [OF assms that(1,2)] that(3)] by simp
  with assms show ?thesis
    by (auto simp: commitRunTransition_def Let_def split: option.splits)
qed

lemma event_ops_inv [rector_invs]:
  assumes "store_inv E S"
  shows "store_inv E (fst (appendEvent E e S))"
    and "store_inv E (fst (deleteEvent ident S))"
proof -
  show "store_inv E (fst (appendEvent E e S))"
    using assms by (auto simp: appendEvent_def event_set_inv split: option.splits)
  show "store_inv E (fst (deleteEvent ident S))"
    using assms by (simp add: store_inv_def deleteEvent_def table_ok_delete)
qed

lemma artifact_ops_inv [rector_invs]:
  assumes "store_inv E S"
  shows "store_inv E (fst (createArtifact E now a S))"
    and "store_inv E (fst (updateArtifact E ident p S))"
    and "store_inv E (fst (deleteArtifact ident S))"
proof -
  show "store_inv E (fst (createArtifact E now a S))"
    using assms by (simp add: store_inv_def createArtifact_def Let_def table_ok_create table_ok_skip)
  show "store_inv E (fst (updateArtifact E ident p S))"
    using assms
    by (auto simp: store_inv_def updateArtifact_def Let_def merge_artifact_def split: option.splits
        intro!: table_ok_set dest: table_ok_get)
  show "store_inv E (fst (deleteArtifact ident S))"
    using assms by (simp add: store_inv_def deleteArtifact_def table_ok_delete)
qed

subsection \<open>Memory\<close>

lemma memory_delete_inv:
  "store_inv E S \<Longrightarrow> store_inv E (S\<lparr>memories := js_delete k (memories S)\<rparr>)"
  by (simp add: store_inv_def table_ok_delete)

lemma createMemoryEntry_inv [rector_invs]:
  "store_inv E S \<Longrightarrow> store_inv E (fst (createMemoryEntry E now input S))"
  by (simp add: store_inv_def createMemoryEntry_def Let_def table_ok_create table_ok_skip)

lemma prune_loop_inv:
  "store_inv E S \<Longrightarrow> store_inv E (fst (prune_loop E now es p s S))"
proof (induction E now es p s S rule: prune_loop.induct)
  case (1 E now pruned summarized S)
  then show ?case by simp
next
  case (2 E now e es pruned summarized S)
  show ?case
  proof (cases "2 < mem_accessCount e \<and> mem_layer e = Episodic")
    case True
    obtain S1 r where cr: "createMemoryEntry E now (prune_summary now e) S = (S1, r)" by force
    with createMemoryEntry_inv [OF "2.prems", of now "prune_summary now e"]
    have inv: "store_inv E S1" by simp
    show ?thesis
    proof (cases r)
      case (Inl err)
      with True cr inv show ?thesis by simp
    next
      case (Inr a)
      with True cr inv "2.IH"(1) memory_delete_inv [OF inv] show ?thesis by simp
    qed
  next
    case False
    then have step: "prune_loop E now (e # es) pruned summarized S =
        prune_loop E now es (pruned + 1) summarized (S\<lparr>memories := js_delete (mem_id e) (memories S)\<rparr>)"
      by auto
    show ?thesis
      unfolding step using False "2.IH"(2) memory_delete_inv [OF "2.prems"] by blast
  qed
qed

lemma memory_ops_inv [rector_invs]:
  assumes "store_inv E S"
  shows "store_inv E (fst (updateMemoryEntry E ident p S))"
    and "store_inv E (fst (deleteMemoryEntry ident S))"
    and "store_inv E (fst (pruneMemory E X now layer limit S))"
proof -
  show "store_inv E (fst (updateMemoryEntry E ident p S))"
    using assms
    by (auto simp: store_inv_def updateMemoryEntry_def Let_def merge_memory_def split: option.splits
        intro!: table_ok_set dest: table_ok_get)
  show "store_inv E (fst (deleteMemoryEntry ident S))"
    using assms by (simp add: deleteMemoryEntry_def memory_delete_inv)
  show "store_inv E (fst (pruneMemory E X now layer limit S))"
    using assms by (simp add: pruneMemory_def Let_def prune_loop_inv)
qed

section \<open>Reachable stores\<close>

inductive store_step :: "schema_env \<Rightarrow> text_env \<Rightarrow> store \<Rightarrow> store \<Rightarrow> bool" for E X where
  "store_step E X S (fst (createConversation E now ci S))"
| "store_step E X S (fst (updateConversation E now ident cp S))"
| "store_step E X S (fst (deleteConversation ident S))"
| "store_step E X S (fst (createMessage E now m S))"
| "store_step E X S (fst (updateMessage E ident mp S))"
| "store_step E X S (fst (deleteMessage ident S))"
| "store_step E X S (fst (createRun E now r S))"
| "store_step E X S (fst (updateRun E now ident rp S))"
| "store_step E X S (fst (deleteRun ident S))"
| "store_step E X S (fst (commitRunTransition E now ident rp e S))"
| "store_step E X S (fst (appendEvent E e S))"
| "store_step E X S (fst (deleteEvent ident S))"
| "store_step E X S (fst (createArtifact E now a S))"
| "store_step E X S (fst (updateArtifact E ident ap S))"
| "store_step E X S (fst (deleteArtifact ident S))"
| "store_step E X S (fst (createMemoryEntry E now mi S))"
| "store_step E X S (fst (updateMemoryEntry E ident mmp S))"
| "store_step E X S (fst (deleteMemoryEntry ident S))"
| "store_step E X S (fst (pruneMemory E X now layer limit S))"

inductive store_reachable :: "schema_env \<Rightarrow> text_env \<Rightarrow> store \<Rightarrow> bool" for E X where
  initial: "store_reachable E X empty_store"
| step: "store_reachable E X S \<Longrightarrow> store_step E X S S' \<Longrightarrow> store_reachable E X S'"

lemma store_step_inv: "store_step E X S S' \<Longrightarrow> store_inv E S \<Longrightarrow> store_inv E S'"
  by (induction rule: store_step.induct) (simp_all only: rector_invs)

lemma store_reachable_inv: "store_reachable E X S \<Longrightarrow> store_inv E S"
  by (induction rule: store_reachable.induct) (blast intro: store_inv_empty store_step_inv)+

end
