(* ===== verification/Run_Machine.thy ===== *)
theory Run_Machine
  imports Store_Invariants
begin

text \<open>
  The run state machine, \<open>src/orchestration/runStateMachine.ts\<close>. The functions take the two store
  operations they call as arguments (\<open>RunStateMachineStore\<close>). An \<open>await\<close> lets other work run: \<open>env\<close>
  is what it does to the store, \<open>env (2 * i)\<close> before attempt \<open>i\<close> reads the run and
  \<open>env (2 * i + 1)\<close> between that read and the commit. The store contract is the locale
  \<open>versioned_runs\<close>, interpreted on the in-memory store.
\<close>

section \<open>Phases\<close>

fun ALLOWED_RUN_PHASE_TRANSITIONS :: "run_phase \<Rightarrow> run_phase list" where
  "ALLOWED_RUN_PHASE_TRANSITIONS CHAT_RECEIVED = [TRIAGE]"
| "ALLOWED_RUN_PHASE_TRANSITIONS TRIAGE = [CONTEXT_BUILDING, NEEDS_DECISION, FAILED, ABORTED]"
| "ALLOWED_RUN_PHASE_TRANSITIONS CONTEXT_BUILDING = [PLANNING, NEEDS_DECISION, FAILED, ABORTED]"
| "ALLOWED_RUN_PHASE_TRANSITIONS PLANNING = [SKEPTIC_REVIEW, NEEDS_DECISION, FAILED, ABORTED]"
| "ALLOWED_RUN_PHASE_TRANSITIONS SKEPTIC_REVIEW = [CRUCIBLE, PLANNING, NEEDS_DECISION, FAILED, ABORTED]"
| "ALLOWED_RUN_PHASE_TRANSITIONS CRUCIBLE = [DAG_COMPILATION, PLANNING, NEEDS_DECISION, FAILED, ABORTED]"
| "ALLOWED_RUN_PHASE_TRANSITIONS DAG_COMPILATION = [EXECUTING, NEEDS_DECISION, FAILED, ABORTED]"
| "ALLOWED_RUN_PHASE_TRANSITIONS EXECUTING = [VALIDATING, HEALING, NEEDS_DECISION, FAILED, ABORTED]"
| "ALLOWED_RUN_PHASE_TRANSITIONS VALIDATING = [SYNTHESIZING, HEALING, NEEDS_DECISION, FAILED, ABORTED]"
| "ALLOWED_RUN_PHASE_TRANSITIONS HEALING = [VALIDATING, NEEDS_DECISION, FAILED, ABORTED]"
| "ALLOWED_RUN_PHASE_TRANSITIONS SYNTHESIZING = [DONE, NEEDS_DECISION, FAILED, ABORTED]"
| "ALLOWED_RUN_PHASE_TRANSITIONS NEEDS_DECISION = [EXECUTING, SYNTHESIZING, PLANNING, FAILED, ABORTED]"
| "ALLOWED_RUN_PHASE_TRANSITIONS DONE = []"
| "ALLOWED_RUN_PHASE_TRANSITIONS FAILED = []"
| "ALLOWED_RUN_PHASE_TRANSITIONS ABORTED = []"

definition isAllowedRunPhaseTransition :: "run_phase \<Rightarrow> run_phase \<Rightarrow> bool" where
  "isAllowedRunPhaseTransition fromPhase toPhase = (toPhase \<in> set (ALLOWED_RUN_PHASE_TRANSITIONS fromPhase))"

fun eventTypeForTargetPhase :: "run_phase \<Rightarrow> run_event_type" where
  "eventTypeForTargetPhase NEEDS_DECISION = DECISION_REQUESTED"
| "eventTypeForTargetPhase DONE = RUN_COMPLETED"
| "eventTypeForTargetPhase FAILED = RUN_FAILED"
| "eventTypeForTargetPhase ABORTED = RUN_ABORTED"
| "eventTypeForTargetPhase _ = PHASE_CHANGED"

fun statusForPhase :: "run_phase \<Rightarrow> string" where
  "statusForPhase DONE = ''completed''"
| "statusForPhase FAILED = ''failed''"
| "statusForPhase ABORTED = ''aborted''"
| "statusForPhase NEEDS_DECISION = ''needs_decision''"
| "statusForPhase _ = ''running''"

section \<open>Transitions\<close>

text \<open>
  \<open>RunTransitionOptions\<close>. \<open>now\<close> and \<open>eventId\<close> are called once per attempt: \<open>to_now i\<close> and
  \<open>to_eventId i\<close> are what they return on attempt \<open>i\<close> (when the caller passes none, the clock and
  \<open>nextEventId\<close>). \<open>to_decision\<close> is \<open>JUndef\<close> when no decision is given.
\<close>

record transition_options =
  to_now :: "nat \<Rightarrow> string"
  to_eventId :: "nat \<Rightarrow> string"
  to_payload :: "json_record option"
  to_traceId :: "string option"
  to_attempts :: "nat option"
  to_healingAttempts :: "nat option"
  to_validationAttempts :: "nat option"
  to_lastError :: "string option"
  to_decisionRequest :: "json_record option"
  to_decision :: json

datatype machine_error =
    MissingRun string
  | InvalidTransition run_phase run_phase
  | DecisionRequired
  | StoreFailure store_error
  | ThrownUndefined

definition maxTransitionRetries :: nat where
  "maxTransitionRetries = 3"

definition validateTransition :: "run_phase \<Rightarrow> run_phase \<Rightarrow> transition_options \<Rightarrow> machine_error option" where
  "validateTransition fromPhase targetPhase options =
     (if \<not> isAllowedRunPhaseTransition fromPhase targetPhase then Some (InvalidTransition fromPhase targetPhase)
      else if fromPhase = NEEDS_DECISION \<and> to_decision options = JUndef then Some DecisionRequired
      else None)"

definition buildRunPatch :: "run_phase \<Rightarrow> transition_options \<Rightarrow> run_patch" where
  "buildRunPatch targetPhase options =
     empty_run_patch\<lparr>rp_phase := Some targetPhase, rp_status := Some (statusForPhase targetPhase),
       rp_attempts := to_attempts options, rp_healingAttempts := to_healingAttempts options,
       rp_validationAttempts := to_validationAttempts options,
       rp_lastError := map_option Some (to_lastError options),
       rp_decisionRequest :=
         (if targetPhase = NEEDS_DECISION
          then Some (Some (redactRecord (case to_decisionRequest options of None \<Rightarrow> [] | Some d \<Rightarrow> d)))
          else if to_decision options \<noteq> JUndef then Some None else None)\<rparr>"

definition transition_payload :: "run_phase \<Rightarrow> run_phase \<Rightarrow> transition_options \<Rightarrow> json_record" where
  "transition_payload fromPhase targetPhase options =
     (let p0 = spread [(''fromPhase'', JStr (phaseName fromPhase)), (''toPhase'', JStr (phaseName targetPhase))]
                 (case to_payload options of None \<Rightarrow> [] | Some p \<Rightarrow> p);
          p1 = (if targetPhase = NEEDS_DECISION
                then js_set ''decisionRequest''
                       (JObj (case to_decisionRequest options of None \<Rightarrow> [] | Some d \<Rightarrow> d)) p0
                else p0);
          p2 = (if to_decision options \<noteq> JUndef then js_set ''decision'' (to_decision options) p1 else p1)
      in case to_lastError options of None \<Rightarrow> p2 | Some e \<Rightarrow> js_set ''lastError'' (JStr e) p2)"

definition buildRunEvent :: "run \<Rightarrow> run_phase \<Rightarrow> run_phase \<Rightarrow> transition_options \<Rightarrow> nat \<Rightarrow> run_event" where
  "buildRunEvent run fromPhase targetPhase options attempt =
     \<lparr>ev_id = to_eventId options attempt, ev_runId = run_id run,
      ev_type = eventTypeForTargetPhase targetPhase, ev_phase = targetPhase,
      ev_payload = redactRecord (transition_payload fromPhase targetPhase options),
      ev_traceId = Some (over (to_traceId options) (run_traceId run)),
      ev_redactionState = None, ev_createdAt = to_now options attempt\<rparr>"

type_synonym 'st get_run = "string \<Rightarrow> 'st \<Rightarrow> run option"
type_synonym 'st commit_run =
  "string \<Rightarrow> run_patch \<Rightarrow> run_event \<Rightarrow> 'st \<Rightarrow> 'st \<times> (store_error, run \<times> run_event) result"

definition attempt_patch :: "run_phase \<Rightarrow> transition_options \<Rightarrow> run \<Rightarrow> run_patch" where
  "attempt_patch targetPhase options run =
     (buildRunPatch targetPhase options)\<lparr>rp_version := Some (run_version run + 1)\<rparr>"

fun transition_loop ::
  "'st get_run \<Rightarrow> 'st commit_run \<Rightarrow> (nat \<Rightarrow> 'st \<Rightarrow> 'st) \<Rightarrow> string \<Rightarrow> run_phase \<Rightarrow> transition_options \<Rightarrow>
   nat \<Rightarrow> nat \<Rightarrow> store_error option \<Rightarrow> 'st \<Rightarrow> 'st \<times> (machine_error, run \<times> run_event) result" where
  "transition_loop get commit env runId target options 0 attempt lastError st =
     (st, Inl (case lastError of None \<Rightarrow> ThrownUndefined | Some e \<Rightarrow> StoreFailure e))"
| "transition_loop get commit env runId target options (Suc left) attempt lastError st =
     (let st1 = env (2 * attempt) st
      in case get runId st1 of
           None \<Rightarrow> (st1, Inl (MissingRun runId))
         | Some run \<Rightarrow>
             (case validateTransition (run_phase run) target options of
                Some e \<Rightarrow> (st1, Inl e)
              | None \<Rightarrow>
                  (case commit runId (attempt_patch target options run)
                          (buildRunEvent run (run_phase run) target options attempt)
                          (env (2 * attempt + 1) st1) of
                     (st3, Inr r) \<Rightarrow> (st3, Inr r)
                   | (st3, Inl (ConcurrentTransitionError a b c)) \<Rightarrow>
                       transition_loop get commit env runId target options left (Suc attempt)
                         (Some (ConcurrentTransitionError a b c)) st3
                   | (st3, Inl e) \<Rightarrow> (st3, Inl (StoreFailure e)))))"

definition transitionRun ::
  "'st get_run \<Rightarrow> 'st commit_run \<Rightarrow> (nat \<Rightarrow> 'st \<Rightarrow> 'st) \<Rightarrow> string \<Rightarrow> run_phase \<Rightarrow> transition_options \<Rightarrow>
   'st \<Rightarrow> 'st \<times> (machine_error, run \<times> run_event) result" where
  "transitionRun get commit env runId targetPhase options st =
     transition_loop get commit env runId targetPhase options (maxTransitionRetries + 1) 0 None st"

definition createDecisionRequest ::
  "'st get_run \<Rightarrow> 'st commit_run \<Rightarrow> (nat \<Rightarrow> 'st \<Rightarrow> 'st) \<Rightarrow> string \<Rightarrow> json_record \<Rightarrow> transition_options \<Rightarrow>
   'st \<Rightarrow> 'st \<times> (machine_error, run \<times> run_event) result" where
  "createDecisionRequest get commit env runId decisionRequest options st =
     transitionRun get commit env runId NEEDS_DECISION (options\<lparr>to_decisionRequest := Some decisionRequest\<rparr>) st"

definition abortRun ::
  "'st get_run \<Rightarrow> 'st commit_run \<Rightarrow> (nat \<Rightarrow> 'st \<Rightarrow> 'st) \<Rightarrow> string \<Rightarrow> transition_options \<Rightarrow>
   'st \<Rightarrow> 'st \<times> (machine_error, run \<times> run_event) result" where
  "abortRun get commit env runId options st =
     transitionRun get commit env runId ABORTED
       (options\<lparr>to_lastError := Some (redactString (over (to_lastError options) ''Run interrupted by request''))\<rparr>) st"

definition resumeFromDecision ::
  "'st get_run \<Rightarrow> 'st commit_run \<Rightarrow> (nat \<Rightarrow> 'st \<Rightarrow> 'st) \<Rightarrow> string \<Rightarrow> run_phase \<Rightarrow> json \<Rightarrow> transition_options \<Rightarrow>
   'st \<Rightarrow> 'st \<times> (machine_error, run \<times> run_event) result" where
  "resumeFromDecision get commit env runId targetPhase decision options st =
     (if decision = JUndef then (st, Inl DecisionRequired)
      else transitionRun get commit env runId targetPhase (options\<lparr>to_decision := decision\<rparr>) st)"

section \<open>The store contract\<close>

text \<open>One step of the surrounding work.\<close>

definition env_step :: "(nat \<Rightarrow> 'st \<Rightarrow> 'st) \<Rightarrow> 'st \<Rightarrow> 'st \<Rightarrow> bool" where
  "env_step env s s' = (\<exists>i. s' = env i s)"

lemma env_stepI: "env_step env s (env i s)"
  by (auto simp: env_step_def)

locale versioned_runs =
  fixes get :: "'st get_run" and commit :: "'st commit_run"
  assumes commit_ok: "commit rid p e st = (st', Inr (r, e')) \<Longrightarrow>
      \<exists>cur. get rid st = Some cur \<and> get rid st' = Some r
        \<and> (\<forall>v. rp_version p = Some v \<longrightarrow> v = run_version cur + 1)
        \<and> run_phase r = over (rp_phase p) (run_phase cur)
        \<and> run_version r = over (rp_version p) (run_version cur)
        \<and> run_status r = over (rp_status p) (run_status cur)
        \<and> run_decisionRequest r = over (rp_decisionRequest p) (run_decisionRequest cur)
        \<and> ev_phase e' = ev_phase e \<and> ev_type e' = ev_type e \<and> ev_id e' = ev_id e"
    and commit_error: "commit rid p e st = (st', Inl err) \<Longrightarrow> st' = st"
    and commit_frame: "commit rid p e st = (st', Inr x) \<Longrightarrow> rid' \<noteq> rid \<Longrightarrow> get rid' st' = get rid' st"
    and commit_conflict: "commit rid p e st = (st', Inl (ConcurrentTransitionError a b c)) \<Longrightarrow>
      \<exists>cur v. get rid st = Some cur \<and> rp_version p = Some v \<and> v \<noteq> run_version cur + 1"
begin

text \<open>
  What a successful transition did, whatever the environment did meanwhile: some attempt read the
  run, and its commit met the version it had read.
\<close>

lemma transition_loop_success:
  assumes "transition_loop get commit env rid target opts left att le st = (st', Inr (r, e))"
  shows "\<exists>i read cur s1 s2. (env_step env)\<^sup>*\<^sup>* st s1 \<and> get rid s1 = Some read \<and> s2 = env (2 * i + 1) s1
     \<and> validateTransition (run_phase read) target opts = None
     \<and> get rid s2 = Some cur \<and> run_version cur = run_version read
     \<and> commit rid (attempt_patch target opts read) (buildRunEvent read (run_phase read) target opts i) s2
         = (st', Inr (r, e))"
  using assms
proof (induction left arbitrary: att le st)
  case 0
  then show ?case by simp
next
  case (Suc left)
  let ?s1 = "env (2 * att) st" and ?s2 = "env (2 * att + 1) (env (2 * att) st)"
  from Suc.prems obtain read where read: "get rid ?s1 = Some read"
    and ok: "validateTransition (run_phase read) target opts = None"
    by (auto simp: Let_def split: option.splits)
  let ?c = "commit rid (attempt_patch target opts read)
      (buildRunEvent read (run_phase read) target opts att) ?s2"
  obtain s3 o1 where c: "?c = (s3, o1)" by force
  show ?case
  proof (cases o1)
    case (Inr x)
    with Suc.prems read ok c have "s3 = st'" "x = (r, e)" by (simp_all add: Let_def)
    with c Inr have com: "?c = (st', Inr (r, e))" by simp
    from commit_ok [OF this] obtain cur where cur: "get rid ?s2 = Some cur"
      and v: "\<forall>v. rp_version (attempt_patch target opts read) = Some v \<longrightarrow> v = run_version cur + 1"
      by blast
    from v have "run_version cur = run_version read" by (simp add: attempt_patch_def)
    with read ok cur com env_stepI [of env st "2 * att"] show ?thesis
      by (intro exI [of _ att] exI [of _ read] exI [of _ cur] exI [of _ ?s1] exI [of _ ?s2])
        (simp add: r_into_rtranclp)
  next
    case (Inl err)
    with Suc.prems read ok c obtain a b d where "err = ConcurrentTransitionError a b d"
      by (cases err) (simp_all add: Let_def)
    with Suc.prems read ok c Inl
    have "transition_loop get commit env rid target opts left (Suc att) (Some err) s3 = (st', Inr (r, e))"
      by (simp add: Let_def)
    from Suc.IH [OF this] have "\<exists>i read cur s1 s2. (env_step env)\<^sup>*\<^sup>* s3 s1 \<and> get rid s1 = Some read
        \<and> s2 = env (2 * i + 1) s1 \<and> validateTransition (run_phase read) target opts = None
        \<and> get rid s2 = Some cur \<and> run_version cur = run_version read
        \<and> commit rid (attempt_patch target opts read) (buildRunEvent read (run_phase read) target opts i) s2
            = (st', Inr (r, e))" .
    moreover have "s3 = ?s2" using c Inl commit_error by blast
    moreover have "(env_step env)\<^sup>*\<^sup>* st ?s2"
      by (meson env_stepI r_into_rtranclp rtranclp.rtrancl_into_rtrancl)
    ultimately show ?thesis by (meson rtranclp_trans)
  qed
qed

text \<open>
  Rely and guarantee: a relation that contains the steps of the environment and the commits of
  this call relates the store before the call to the store after it, however the call ends.
\<close>

lemma transition_loop_guarantee:
  assumes rely: "\<And>i s. R\<^sup>*\<^sup>* s (env i s)"
    and own: "\<And>read i s s' x. commit rid (attempt_patch target opts read)
        (buildRunEvent read (run_phase read) target opts i) s = (s', Inr x) \<Longrightarrow> R s s'"
    and run: "transition_loop get commit env rid target opts left att le st = (st', res)"
  shows "R\<^sup>*\<^sup>* st st'"
  using run
proof (induction left arbitrary: att le st)
  case 0
  then show ?case by simp
next
  case (Suc left)
  let ?s1 = "env (2 * att) st" and ?s2 = "env (2 * att + 1) (env (2 * att) st)"
  have s1: "R\<^sup>*\<^sup>* st ?s1" by (rule rely)
  have s2: "R\<^sup>*\<^sup>* st ?s2" by (rule rtranclp_trans [OF s1 rely])
  show ?case
  proof (cases "get rid ?s1")
    case None
    with Suc.prems s1 show ?thesis by (simp add: Let_def)
  next
    case (Some read)
    let ?ev = "buildRunEvent read (run_phase read) target opts att"
    obtain s3 o1 where c: "commit rid (attempt_patch target opts read) ?ev ?s2 = (s3, o1)" by force
    show ?thesis
    proof (cases "validateTransition (run_phase read) target opts")
      case (Some e)
      with Suc.prems s1 \<open>get rid ?s1 = Some read\<close> show ?thesis by (simp add: Let_def)
    next
      case None
      show ?thesis
      proof (cases o1)
        case (Inr x)
        with Suc.prems c None Some have "st' = s3" by (simp add: Let_def)
        moreover have "R ?s2 s3" using own c Inr by blast
        ultimately show ?thesis using s2 by simp
      next
        case (Inl e2)
        with c have "s3 = ?s2" using commit_error by blast
        then have "R\<^sup>*\<^sup>* s3 st'" using Suc.prems c None Some Inl Suc.IH
          by (cases e2) (simp_all add: Let_def)
        with s2 \<open>s3 = ?s2\<close> show ?thesis by (metis rtranclp_trans)
      qed
    qed
  qed
qed

text \<open>A failed transition leaves no trace: only the environment changed the store.\<close>

lemma transition_loop_failure:
  assumes "transition_loop get commit env rid target opts left att le st = (st', Inl err)"
    and "\<And>i s. env i s = s"
  shows "st' = st"
  using assms(1)
proof (induction left arbitrary: att le st)
  case 0
  then show ?case by simp
next
  case (Suc left)
  show ?case
  proof (cases "get rid st")
    case None
    with Suc.prems assms(2) show ?thesis by (simp add: Let_def)
  next
    case (Some read)
    show ?thesis
    proof (cases "validateTransition (run_phase read) target opts")
      case (Some e)
      with Suc.prems assms(2) \<open>get rid st = Some read\<close> show ?thesis by (simp add: Let_def)
    next
      case None
      obtain s3 o1 where c: "commit rid (attempt_patch target opts read)
          (buildRunEvent read (run_phase read) target opts att) st = (s3, o1)" by force
      show ?thesis
      proof (cases o1)
        case (Inr x)
        with Suc.prems c None Some assms(2) show ?thesis by (simp add: Let_def)
      next
        case (Inl e2)
        from c Inl have "s3 = st" using commit_error by blast
        with Suc.prems c None Some assms(2) Inl Suc.IH show ?thesis
          by (cases e2) (auto simp: Let_def)
      qed
    qed
  qed
qed

text \<open>Without interference the first attempt decides.\<close>

lemma transition_loop_quiet:
  assumes "\<And>i s. env i s = s" and "get rid st = Some read"
    and "validateTransition (run_phase read) target opts = None"
    and "commit rid (attempt_patch target opts read) (buildRunEvent read (run_phase read) target opts att) st
       = (st', Inr x)"
  shows "transition_loop get commit env rid target opts (Suc left) att le st = (st', Inr x)"
  using assms by (simp add: Let_def)

end

lemma commitRunTransition_Inr:
  assumes "commitRunTransition E now rid p e S = (S', Inr (r, e'))"
  obtains cur where "js_get (runs S) rid = Some cur"
    and "\<forall>v. rp_version p = Some v \<longrightarrow> v = run_version cur + 1"
    and "r = merge_run cur p now" and "RunSchema E r" and "RunEventSchema_parse E e = Some e'"
    and "js_get (events S) (ev_id e') = None"
    and "S' = S\<lparr>runs := js_set rid r (runs S), events := js_set (ev_id e') e' (events S)\<rparr>"
  using assms by (auto simp: commitRunTransition_def Let_def js_has_def split: option.splits if_splits)

interpretation mem_runs: versioned_runs getRun "commitRunTransition E now" for E now
proof unfold_locales
  fix rid p e st st' r e'
  assume "commitRunTransition E now rid p e st = (st', Inr (r, e'))"
  then show "\<exists>cur. getRun rid st = Some cur \<and> getRun rid st' = Some r
      \<and> (\<forall>v. rp_version p = Some v \<longrightarrow> v = run_version cur + 1)
      \<and> run_phase r = over (rp_phase p) (run_phase cur)
      \<and> run_version r = over (rp_version p) (run_version cur)
      \<and> run_status r = over (rp_status p) (run_status cur)
      \<and> run_decisionRequest r = over (rp_decisionRequest p) (run_decisionRequest cur)
      \<and> ev_phase e' = ev_phase e \<and> ev_type e' = ev_type e \<and> ev_id e' = ev_id e"
    by (rule commitRunTransition_Inr) (auto simp: getRun_def dest: RunEventSchema_parse_id)
next
  fix rid p e st st' err
  assume "commitRunTransition E now rid p e st = (st', Inl err)"
  then show "st' = st"
    by (auto simp: commitRunTransition_def Let_def split: option.splits if_splits)
next
  fix rid p e st st' x rid'
  assume "commitRunTransition E now rid p e st = (st', Inr x)" and "rid' \<noteq> rid"
  then show "getRun rid' st' = getRun rid' st"
    by (auto simp: commitRunTransition_def getRun_def Let_def split: option.splits if_splits)
next
  fix rid p e st st' a b c
  assume "commitRunTransition E now rid p e st = (st', Inl (ConcurrentTransitionError a b c))"
  then show "\<exists>cur v. getRun rid st = Some cur \<and> rp_version p = Some v \<and> v \<noteq> run_version cur + 1"
    by (auto simp: commitRunTransition_def getRun_def Let_def split: option.splits if_splits)
qed

end
