(* ===== verification/Sample_Data.thy ===== *)
theory Sample_Data
  imports Store_Invariants
begin

text \<open>
  Concrete records on which the properties of the store and of the run state machine are evaluated:
  a schema environment that accepts every non-empty timestamp, one conversation, one run and the
  stores that hold them.
\<close>

definition sample_env :: schema_env where
  "sample_env = \<lparr>isDatetime = (\<lambda>s. s \<noteq> []), jsonLength = (\<lambda>p. length p)\<rparr>"

definition sample_text :: text_env where
  "sample_text = \<lparr>dateParse = (\<lambda>s. Some (int (length s))),
     localeCompare = (\<lambda>a b. if a < b then - 1 else if b < a then 1 else 0)\<rparr>"

definition sample_budget :: budget where
  "sample_budget = \<lparr>maxUsd = Fin 1, maxInputTokens = 1000, maxOutputTokens = 1000, maxModelCalls = 10,
     maxRuntimeMs = 1000, maxHealingAttempts = 2, allowedProviders = [''local''],
     approvalRequiredAboveUsd = Fin 1\<rparr>"

definition sample_run :: run where
  "sample_run = \<lparr>run_id = ''run-1'', run_conversationId = ''conv-1'', run_userMessageId = ''msg-1'',
     run_status = ''running'', run_phase = CHAT_RECEIVED, run_route = ''local'',
     run_complexity = ''simple'', run_budget = sample_budget, run_costEstimate = [],
     run_actualCost = None, run_tokenEstimate = [], run_actualTokens = None, run_traceId = ''t'',
     run_dagId = None, run_attempts = 0, run_healingAttempts = 0, run_validationAttempts = 0,
     run_contextCompressionApplied = None, run_parentRunId = None, run_lastError = None,
     run_decisionRequest = None, run_version = 0, run_createdAt = ''now'', run_updatedAt = ''now''\<rparr>"

definition sample_store :: store where
  "sample_store = empty_store\<lparr>runs := [(''run-1'', sample_run)], cnt_run := 1\<rparr>"

lemma show_nat_1 [simp]: "show_nat (Suc 0) = ''1''"
  by code_simp

lemma sample_store_eq: "sample_store = fst (createRun sample_env ''now'' sample_run empty_store)"
  by (simp add: sample_store_def createRun_def Let_def empty_store_def sample_run_def mk_id_def
      RunSchema_def BudgetSchema_def sample_env_def sample_budget_def optNonEmpty_def)

lemma sample_store_reachable: "store_reachable sample_env sample_text sample_store"
  unfolding sample_store_eq by (rule store_reachable.step [OF store_reachable.initial]) (rule store_step.intros)

lemma sample_store_inv: "store_inv sample_env sample_store"
  using sample_store_reachable by (rule store_reachable_inv)

lemma sample_store_run: "getRun ''run-1'' sample_store = Some sample_run"
  by (simp add: getRun_def sample_store_def empty_store_def)

end
