(* ===== verification/Run_Safety.thy ===== *)
theory Run_Safety
  imports Run_Machine Sample_Data
begin

text \<open>
  Safety of the run state machine under interleaving. \<open>background_step\<close> is what the code does to the
  store besides transitions: every store operation, with \<open>updateRun\<close> restricted to patches that
  touch neither phase nor version, as its two callers (\<open>chatRunner.ts\<close>, \<open>externalRunSupport.ts\<close>)
  do. \<open>machine_step\<close> interleaves any number of \<open>transitionRun\<close> calls with it at their \<open>await\<close>s.
\<close>

section \<open>Background work\<close>

inductive background_step :: "schema_env \<Rightarrow> text_env \<Rightarrow> store \<Rightarrow> store \<Rightarrow> bool" for E X where
  other: "store_step E X S S' \<Longrightarrow> runs S' = runs S \<Longrightarrow> cnt_run S' = cnt_run S \<Longrightarrow> background_step E X S S'"
| create: "background_step E X S (fst (createRun E now r S))"
| delete: "background_step E X S (fst (deleteRun ident S))"
| update: "rp_phase p = None \<Longrightarrow> rp_version p = None \<Longrightarrow> background_step E X S (fst (updateRun E now ident p S))"

inductive disciplined_step :: "schema_env \<Rightarrow> text_env \<Rightarrow> store \<Rightarrow> store \<Rightarrow> bool" for E X where
  background: "background_step E X S S' \<Longrightarrow> disciplined_step E X S S'"
| commit: "rp_version p \<noteq> None \<Longrightarrow> disciplined_step E X S (fst (commitRunTransition E now rid p e S))"

inductive_cases background_stepE: "background_step E X S S'"
inductive_cases disciplined_stepE: "disciplined_step E X S S'"

lemma background_store_step: "background_step E X S S' \<Longrightarrow> store_step E X S S'"
  by (erule background_stepE) (auto intro: store_step.intros)

lemma disciplined_store_step: "disciplined_step E X S S' \<Longrightarrow> store_step E X S S'"
  by (erule disciplined_stepE) (auto intro: store_step.intros background_store_step)

lemma disciplined_reachable:
  assumes "(disciplined_step E X)\<^sup>*\<^sup>* S S'" and "store_reachable E X S"
  shows "store_reachable E X S'"
  using assms by (induction rule: rtranclp_induct) (blast intro: store_reachable.step disciplined_store_step)+

text \<open>
  A run known before is, if it is still there, at a later version or unchanged in phase. Runs made
  since then carry identifiers that were not issued before.
\<close>

definition run_evolves :: "store \<Rightarrow> store \<Rightarrow> bool" where
  "run_evolves S S' \<longleftrightarrow> cnt_run S \<le> cnt_run S'
     \<and> (\<forall>rid r'. issued ''run'' (cnt_run S) rid \<longrightarrow> getRun rid S' = Some r' \<longrightarrow>
          (\<exists>r. getRun rid S = Some r \<and> run_version r \<le> run_version r'
             \<and> (run_version r = run_version r' \<longrightarrow> run_phase r = run_phase r')))"

lemma run_evolves_refl [simp]: "run_evolves S S"
  by (simp add: run_evolves_def)

lemma run_evolves_trans:
  assumes "run_evolves S S'" and "run_evolves S' S''"
  shows "run_evolves S S''"
  unfolding run_evolves_def
proof (intro conjI allI impI)
  show "cnt_run S \<le> cnt_run S''" using assms by (auto simp: run_evolves_def)
next
  fix rid r2
  assume iss: "issued ''run'' (cnt_run S) rid" and r2: "getRun rid S'' = Some r2"
  then have "issued ''run'' (cnt_run S') rid"
    using assms(1) by (auto simp: run_evolves_def elim: issued_mono)
  then obtain r1 where r1: "getRun rid S' = Some r1" "run_version r1 \<le> run_version r2"
    "run_version r1 = run_version r2 \<longrightarrow> run_phase r1 = run_phase r2"
    using assms(2) r2 by (auto simp: run_evolves_def)
  then obtain r where "getRun rid S = Some r" "run_version r \<le> run_version r1"
    "run_version r = run_version r1 \<longrightarrow> run_phase r = run_phase r1"
    using assms(1) iss by (auto simp: run_evolves_def)
  with r1 show "\<exists>r. getRun rid S = Some r \<and> run_version r \<le> run_version r2
      \<and> (run_version r = run_version r2 \<longrightarrow> run_phase r = run_phase r2)"
    by auto
qed

lemma run_evolves_same: "runs S' = runs S \<Longrightarrow> cnt_run S' = cnt_run S \<Longrightarrow> run_evolves S S'"
  by (simp add: run_evolves_def getRun_def)

lemma background_evolves: "background_step E X S S' \<Longrightarrow> run_evolves S S'"
proof (erule background_stepE)
  assume "store_step E X S S'" "runs S' = runs S" "cnt_run S' = cnt_run S"
  then show ?thesis by (rule_tac run_evolves_same)
next
  fix now r
  assume "S' = fst (createRun E now r S)"
  then show ?thesis
    using not_issued_next [of "''run''" "cnt_run S"]
    by (auto simp: createRun_def Let_def run_evolves_def getRun_def split: if_splits)
next
  fix ident
  assume "S' = fst (deleteRun ident S)"
  then show ?thesis by (auto simp: deleteRun_def run_evolves_def getRun_def split: if_splits)
next
  fix p now ident
  assume "S' = fst (updateRun E now ident p S)" "rp_phase p = None" "rp_version p = None"
  then show ?thesis
    by (auto simp: updateRun_def Let_def run_evolves_def getRun_def split: if_splits option.splits)
qed

lemma commit_evolves:
  assumes "rp_version p \<noteq> None"
  shows "run_evolves S (fst (commitRunTransition E now rid p e S))"
proof (cases "commitRunTransition E now rid p e S")
  case (Pair S' res)
  show ?thesis
  proof (cases res)
    case (Inl err)
    with Pair have "S' = S" using mem_runs.commit_error by blast
    with Pair show ?thesis by simp
  next
    case (Inr x)
    with Pair have "commitRunTransition E now rid p e S = (S', Inr (fst x, snd x))" by simp
    with Pair assms show ?thesis
      by (elim commitRunTransition_Inr) (auto simp: run_evolves_def getRun_def)
  qed
qed

lemma disciplined_evolves: "disciplined_step E X S S' \<Longrightarrow> run_evolves S S'"
  by (erule disciplined_stepE) (auto intro: background_evolves commit_evolves)

lemma disciplined_star_evolves: "(disciplined_step E X)\<^sup>*\<^sup>* S S' \<Longrightarrow> run_evolves S S'"
  by (induction rule: rtranclp_induct) (auto intro: run_evolves_trans disciplined_evolves)

lemma reachable_run_issued:
  "store_reachable E X S \<Longrightarrow> getRun rid S = Some r \<Longrightarrow> issued ''run'' (cnt_run S) rid"
  using store_reachable_inv [of E X S] by (auto simp: store_inv_def getRun_def dest: table_ok_get)

text \<open>The heart of optimistic concurrency: an unchanged version means an unchanged phase.\<close>

lemma same_version_same_phase:
  assumes "store_reachable E X S1" and "(disciplined_step E X)\<^sup>*\<^sup>* S1 S2"
    and "getRun rid S1 = Some read" and "getRun rid S2 = Some cur" and "run_version cur = run_version read"
  shows "run_phase cur = run_phase read"
  using disciplined_star_evolves [OF assms(2)] reachable_run_issued [OF assms(1,3)] assms(3-5)
  by (auto simp: run_evolves_def)

definition disciplined_env :: "schema_env \<Rightarrow> text_env \<Rightarrow> (nat \<Rightarrow> store \<Rightarrow> store) \<Rightarrow> bool" where
  "disciplined_env E X env = (\<forall>i S. (disciplined_step E X)\<^sup>*\<^sup>* S (env i S))"

lemma env_steps_disciplined:
  assumes "disciplined_env E X env" and "(env_step env)\<^sup>*\<^sup>* S S'"
  shows "(disciplined_step E X)\<^sup>*\<^sup>* S S'"
  using assms(2,1)
  by (induction rule: rtranclp_induct) (auto simp: env_step_def disciplined_env_def intro: rtranclp_trans)

section \<open>Interleaved transitions\<close>

text \<open>
  A configuration is the store with, for each call that has read its run and not committed yet,
  the identifier, target, options and the run it read. A call whose commit fails with a conflict
  reads again, which is a new \<open>read\<close> step.
\<close>

record pending =
  pn_runId :: string
  pn_target :: run_phase
  pn_options :: transition_options
  pn_read :: run
  pn_attempt :: nat

type_synonym config = "store \<times> (nat \<rightharpoonup> pending)"

definition pending_commit :: "schema_env \<Rightarrow> string \<Rightarrow> pending \<Rightarrow> store \<Rightarrow> store \<times> (store_error, run \<times> run_event) result" where
  "pending_commit E now q S =
     commitRunTransition E now (pn_runId q) (attempt_patch (pn_target q) (pn_options q) (pn_read q))
       (buildRunEvent (pn_read q) (run_phase (pn_read q)) (pn_target q) (pn_options q) (pn_attempt q)) S"

inductive machine_step :: "schema_env \<Rightarrow> text_env \<Rightarrow> config \<Rightarrow> config \<Rightarrow> bool" for E X where
  background: "background_step E X S S' \<Longrightarrow> machine_step E X (S, L) (S', L)"
| read: "getRun (pn_runId q) S = Some (pn_read q) \<Longrightarrow>
    validateTransition (run_phase (pn_read q)) (pn_target q) (pn_options q) = None \<Longrightarrow>
    machine_step E X (S, L) (S, L(t \<mapsto> q))"
| commit: "L t = Some q \<Longrightarrow> machine_step E X (S, L) (fst (pending_commit E now q S), L(t := None))"

inductive machine_reachable :: "schema_env \<Rightarrow> text_env \<Rightarrow> config \<Rightarrow> bool" for E X where
  initial: "machine_reachable E X (empty_store, \<lambda>_. None)"
| step: "machine_reachable E X c \<Longrightarrow> machine_step E X c c' \<Longrightarrow> machine_reachable E X c'"

inductive_cases machine_stepE: "machine_step E X (S, L) (S', L')"

text \<open>What a call read is still a valid basis for its commit when the version has not moved.\<close>

definition read_sound :: "store \<Rightarrow> pending \<Rightarrow> bool" where
  "read_sound S q \<longleftrightarrow> issued ''run'' (cnt_run S) (pn_runId q)
     \<and> validateTransition (run_phase (pn_read q)) (pn_target q) (pn_options q) = None
     \<and> (\<forall>cur. getRun (pn_runId q) S = Some cur \<longrightarrow> run_version (pn_read q) \<le> run_version cur
          \<and> (run_version cur = run_version (pn_read q) \<longrightarrow> run_phase cur = run_phase (pn_read q)))"

definition config_inv :: "schema_env \<Rightarrow> text_env \<Rightarrow> config \<Rightarrow> bool" where
  "config_inv E X c \<longleftrightarrow> store_reachable E X (fst c) \<and> (\<forall>t q. snd c t = Some q \<longrightarrow> read_sound (fst c) q)"

lemma read_sound_evolves:
  assumes "read_sound S q" and "run_evolves S S'"
  shows "read_sound S' q"
proof -
  have iss: "issued ''run'' (cnt_run S) (pn_runId q)" using assms(1) by (simp add: read_sound_def)
  have "run_version (pn_read q) \<le> run_version cur
      \<and> (run_version cur = run_version (pn_read q) \<longrightarrow> run_phase cur = run_phase (pn_read q))"
    if cur: "getRun (pn_runId q) S' = Some cur" for cur
  proof -
    obtain r where "getRun (pn_runId q) S = Some r" "run_version r \<le> run_version cur"
      "run_version r = run_version cur \<longrightarrow> run_phase r = run_phase cur"
      using assms(2) iss cur by (auto simp: run_evolves_def)
    then show ?thesis using assms(1) by (auto simp: read_sound_def)
  qed
  moreover have "issued ''run'' (cnt_run S') (pn_runId q)"
    using iss assms(2) by (auto simp: run_evolves_def elim: issued_mono)
  ultimately show ?thesis using assms(1) by (auto simp: read_sound_def)
qed

lemma pending_commit_step: "disciplined_step E X S (fst (pending_commit E now q S))"
  unfolding pending_commit_def by (rule disciplined_step.commit) (simp add: attempt_patch_def)

lemma config_inv_disciplined:
  assumes "config_inv E X (S, L)" and "disciplined_step E X S S'" and "\<And>t q. L' t = Some q \<Longrightarrow> L t = Some q"
  shows "config_inv E X (S', L')"
proof -
  have "read_sound S' q" if "L' t = Some q" for t q
  proof (rule read_sound_evolves)
    show "read_sound S q" using assms(1) assms(3) [OF that] by (simp add: config_inv_def)
    show "run_evolves S S'" using assms(2) by (rule disciplined_evolves)
  qed
  moreover have "store_reachable E X S'"
    using assms(1,2) by (auto simp: config_inv_def intro: store_reachable.step disciplined_store_step)
  ultimately show ?thesis by (simp add: config_inv_def)
qed

lemma machine_step_inv:
  assumes "machine_step E X c c'" and "config_inv E X c"
  shows "config_inv E X c'"
  using assms
proof (induction rule: machine_step.induct)
  case (background S S' L)
  then show ?case by (blast intro: config_inv_disciplined disciplined_step.background)
next
  case (read q S L t)
  then have "read_sound S q"
    by (auto simp: read_sound_def config_inv_def intro: reachable_run_issued)
  with read show ?case by (simp add: config_inv_def)
next
  case (commit L t q S now)
  show ?case
    by (rule config_inv_disciplined [OF \<open>config_inv E X (S, L)\<close> pending_commit_step]) (auto split: if_splits)
qed

lemma machine_reachable_inv: "machine_reachable E X c \<Longrightarrow> config_inv E X c"
proof (induction rule: machine_reachable.induct)
  case initial
  then show ?case by (simp add: config_inv_def store_reachable.initial)
qed (rule machine_step_inv)

lemma pending_commit_phase:
  assumes "read_sound S q" and "getRun rid S = Some r"
    and "getRun rid (fst (pending_commit E now q S)) = Some r'" and "r' \<noteq> r"
  shows "isAllowedRunPhaseTransition (run_phase r) (run_phase r') \<and> run_version r' = Suc (run_version r)
     \<and> (run_phase r = NEEDS_DECISION \<longrightarrow> to_decision (pn_options q) \<noteq> JUndef)"
proof (cases "pending_commit E now q S")
  case (Pair S' res)
  show ?thesis
  proof (cases res)
    case (Inl err)
    with Pair have "S' = S" unfolding pending_commit_def using mem_runs.commit_error by blast
    with Pair assms show ?thesis by simp
  next
    case (Inr x)
    with Pair have "pending_commit E now q S = (S', Inr (fst x, snd x))" by simp
    then obtain cur where cur: "getRun (pn_runId q) S = Some cur" "run_version cur = run_version (pn_read q)"
      and x: "fst x = merge_run cur (attempt_patch (pn_target q) (pn_options q) (pn_read q)) now"
      and S': "runs S' = js_set (pn_runId q) (fst x) (runs S)"
      unfolding pending_commit_def
      by (elim commitRunTransition_Inr) (auto simp: getRun_def attempt_patch_def)
    from assms S' Pair have rid: "rid = pn_runId q" by (auto simp: getRun_def split: if_splits)
    with assms S' Pair cur x have "r = cur" "run_phase r' = pn_target q" "run_version r' = Suc (run_version cur)"
      by (auto simp: getRun_def attempt_patch_def buildRunPatch_def)
    moreover have "run_phase cur = run_phase (pn_read q)"
      using assms(1) cur by (auto simp: read_sound_def)
    ultimately show ?thesis
      using assms(1) by (auto simp: read_sound_def validateTransition_def split: if_splits)
  qed
qed

lemma background_phase:
  assumes "background_step E X S S'" and "store_reachable E X S"
    and "getRun rid S = Some r" and "getRun rid S' = Some r'"
  shows "run_phase r' = run_phase r \<and> run_version r' = run_version r"
  using assms(1)
proof (cases rule: background_step.cases)
  case other
  with assms show ?thesis by (simp add: getRun_def)
next
  case (create now r0)
  have "rid \<noteq> mk_id ''run'' (Suc (cnt_run S))"
    using reachable_run_issued [OF assms(2,3)] not_issued_next by blast
  with create assms show ?thesis by (auto simp: createRun_def Let_def getRun_def split: if_splits)
next
  case (delete ident)
  with assms show ?thesis by (auto simp: deleteRun_def getRun_def split: if_splits)
next
  case (update p now ident)
  with assms show ?thesis
    by (auto simp: updateRun_def Let_def getRun_def split: if_splits option.splits)
qed

lemma machine_step_phase:
  assumes "config_inv E X (S, L)" and "machine_step E X (S, L) (S', L')"
    and "getRun rid S = Some r" and "getRun rid S' = Some r'"
  shows "run_phase r' = run_phase r
     \<or> isAllowedRunPhaseTransition (run_phase r) (run_phase r') \<and> run_version r' = Suc (run_version r)"
  using assms(2)
proof (cases rule: machine_step.cases)
  case background
  with background_phase assms show ?thesis by (auto simp: config_inv_def)
next
  case (read q t)
  with assms show ?thesis by simp
next
  case (commit t q now)
  have "read_sound S q" using assms(1) commit by (simp add: config_inv_def)
  then show ?thesis using pending_commit_phase assms commit by blast
qed

lemma machine_step_evolves: "machine_step E X c c' \<Longrightarrow> run_evolves (fst c) (fst c')"
  by (induction rule: machine_step.induct)
    (auto intro: background_evolves disciplined_evolves pending_commit_step)

lemma machine_steps_phase_closed:
  assumes "(machine_step E X)\<^sup>*\<^sup>* c c'" and "machine_reachable E X c"
    and "getRun rid (fst c) = Some r" and "run_phase r \<in> P"
    and closed: "\<And>p q. p \<in> P \<Longrightarrow> isAllowedRunPhaseTransition p q \<Longrightarrow> q \<in> P"
  shows "machine_reachable E X c' \<and> run_evolves (fst c) (fst c')
     \<and> (\<forall>r'. getRun rid (fst c') = Some r' \<longrightarrow> run_phase r' \<in> P)"
  using assms(1)
proof (induction rule: rtranclp_induct)
  case base
  with assms show ?case by simp
next
  case (step y z)
  have evo: "run_evolves (fst y) (fst z)" using step.hyps(2) by (rule machine_step_evolves)
  have "issued ''run'' (cnt_run (fst c)) rid"
    using machine_reachable_inv [OF assms(2)] assms(3) reachable_run_issued by (auto simp: config_inv_def)
  then have iss: "issued ''run'' (cnt_run (fst y)) rid"
    using step.IH by (auto simp: run_evolves_def elim: issued_mono)
  have "run_phase r' \<in> P" if r': "getRun rid (fst z) = Some r'" for r'
  proof -
    obtain ry where ry: "getRun rid (fst y) = Some ry" using evo iss r' by (auto simp: run_evolves_def)
    have "config_inv E X y" using step.IH machine_reachable_inv by blast
    then have "run_phase r' = run_phase ry \<or> isAllowedRunPhaseTransition (run_phase ry) (run_phase r')"
      using machine_step_phase [of E X "fst y" "snd y" "fst z" "snd z"] step.hyps(2) ry r' by auto
    then show ?thesis using closed ry step.IH by auto
  qed
  then show ?case
    using step evo by (blast intro: machine_reachable.step run_evolves_trans)
qed

section \<open>Paths through the transition table\<close>

fun allowed_path :: "run_phase list \<Rightarrow> bool" where
  "allowed_path (p # q # ps) = (isAllowedRunPhaseTransition p q \<and> allowed_path (q # ps))"
| "allowed_path _ = True"

text \<open>A set whose only exits lead through a cut forces every path that leaves it through the cut.\<close>

lemma allowed_path_cut:
  assumes "allowed_path (p # ps)" and "p \<in> A" and "g \<in> set ps" and "g \<notin> A" and "g \<notin> C"
    and exits: "\<And>a b. a \<in> A \<Longrightarrow> isAllowedRunPhaseTransition a b \<Longrightarrow> b \<in> A \<union> C"
  shows "\<exists>c \<in> C. c \<in> set (takeWhile (\<lambda>x. x \<noteq> g) ps)"
  using assms(1-3)
proof (induction ps arbitrary: p)
  case Nil
  then show ?case by simp
next
  case (Cons q qs)
  from Cons.prems have q: "q \<in> A \<union> C" using exits by auto
  with assms(4,5) have "q \<noteq> g" by auto
  show ?case
  proof (cases "q \<in> C")
    case True
    with \<open>q \<noteq> g\<close> show ?thesis by auto
  next
    case False
    with q have "q \<in> A" by simp
    with Cons.IH [of q] Cons.prems \<open>q \<noteq> g\<close> show ?thesis by auto
  qed
qed

end
