(* ===== verification/Run_Properties.thy ===== *)
theory Run_Properties
  imports Run_Safety
begin

text \<open>
  The properties of the run state machine: what a transition does, what it leaves alone when it
  fails, and which phase histories are possible.
\<close>

section \<open>Transitions under interleaving\<close>

definition sample_options :: transition_options where
  "sample_options = \<lparr>to_now = (\<lambda>_. ''now''), to_eventId = mk_id ''evt'', to_payload = None,
     to_traceId = None, to_attempts = None, to_healingAttempts = None, to_validationAttempts = None,
     to_lastError = None, to_decisionRequest = None, to_decision = JUndef\<rparr>"

definition sample_event :: run_event where
  "sample_event = \<lparr>ev_id = ''evt-0'', ev_runId = ''run-1'', ev_type = PHASE_CHANGED, ev_phase = TRIAGE,
     ev_payload = [(''fromPhase'', JStr ''CHAT_RECEIVED''), (''toPhase'', JStr ''TRIAGE'')],
     ev_traceId = Some ''t'', ev_redactionState = None, ev_createdAt = ''now''\<rparr>"

definition sample_triaged :: run where
  "sample_triaged = sample_run\<lparr>run_phase := TRIAGE, run_version := 1\<rparr>"

lemma sample_build: "buildRunEvent sample_run CHAT_RECEIVED TRIAGE sample_options 0 = sample_event"
  by code_simp

lemma sample_parse: "RunEventSchema_parse sample_env sample_event = Some sample_event"
  by (simp add: RunEventSchema_parse_def sample_env_def sample_event_def cleanPayload_def optNonEmpty_def)

lemma sample_phase: "run_phase sample_run = CHAT_RECEIVED"
  by (simp add: sample_run_def)

lemma transitionRun_Suc:
  "transitionRun get commit env rid target opts st
     = transition_loop get commit env rid target opts (Suc maxTransitionRetries) 0 None st"
  by (simp add: transitionRun_def)

lemma sample_commit:
  "commitRunTransition sample_env ''now'' ''run-1'' (attempt_patch TRIAGE sample_options sample_run)
      sample_event sample_store
    = (sample_store\<lparr>runs := [(''run-1'', sample_triaged)], events := [(''evt-0'', sample_event)]\<rparr>,
       Inr (sample_triaged, sample_event))"
proof -
  have "merge_run sample_run (attempt_patch TRIAGE sample_options sample_run) ''now'' = sample_triaged"
    and "RunSchema sample_env sample_triaged"
    by code_simp+
  then show ?thesis
    using sample_store_run sample_parse
    by (simp add: commitRunTransition_def getRun_def Let_def attempt_patch_def sample_store_def
        empty_store_def js_has_def sample_event_def)
qed

lemma sample_transition:
  "transitionRun getRun (commitRunTransition sample_env ''now'') (\<lambda>_ s. s) ''run-1'' TRIAGE sample_options
     sample_store
   = (sample_store\<lparr>runs := [(''run-1'', sample_triaged)], events := [(''evt-0'', sample_event)]\<rparr>,
      Inr (sample_triaged, sample_event))"
  unfolding transitionRun_Suc using sample_store_run sample_build sample_commit
  by (simp add: Let_def validateTransition_def isAllowedRunPhaseTransition_def sample_phase)

lemma quiet_disciplined: "disciplined_env E X (\<lambda>_ s. s)"
  by (simp add: disciplined_env_def)

text \<open>
  C1: A transition that succeeds while other calls interleave with it was allowed from the phase the
  run had at the moment of the commit, not only from the phase that was read; a run that waits for a
  decision was left only with a decision; and the commit changed exactly this run and added exactly
  one event.
\<close>

theorem transitionRun_safe:
  assumes "store_reachable E X S" and "disciplined_env E X env"
    and "transitionRun getRun (commitRunTransition E now) env rid target opts S = (S', Inr (r, e))"
  shows "\<exists>S2 cur. (disciplined_step E X)\<^sup>*\<^sup>* S S2 \<and> getRun rid S2 = Some cur
     \<and> isAllowedRunPhaseTransition (run_phase cur) target
     \<and> (run_phase cur = NEEDS_DECISION \<longrightarrow> to_decision opts \<noteq> JUndef)
     \<and> run_phase r = target \<and> run_status r = statusForPhase target \<and> run_version r = run_version cur + 1
     \<and> ev_phase e = target \<and> js_get (events S2) (ev_id e) = None
     \<and> S' = S2\<lparr>runs := js_set rid r (runs S2), events := js_set (ev_id e) e (events S2)\<rparr>"
proof -
  from mem_runs.transition_loop_success [OF assms(3) [unfolded transitionRun_def]]
  obtain i read cur s1 s2 where s1: "(env_step env)\<^sup>*\<^sup>* S s1" and read: "getRun rid s1 = Some read"
    and s2: "s2 = env (2 * i + 1) s1" and ok: "validateTransition (run_phase read) target opts = None"
    and cur: "getRun rid s2 = Some cur" and v: "run_version cur = run_version read"
    and com: "commitRunTransition E now rid (attempt_patch target opts read)
        (buildRunEvent read (run_phase read) target opts i) s2 = (S', Inr (r, e))"
    by blast
  have d1: "(disciplined_step E X)\<^sup>*\<^sup>* S s1" using env_steps_disciplined [OF assms(2) s1] .
  have d2: "(disciplined_step E X)\<^sup>*\<^sup>* s1 s2" using assms(2) s2 by (simp add: disciplined_env_def)
  have "run_phase cur = run_phase read"
    using same_version_same_phase [OF disciplined_reachable [OF d1 assms(1)] d2 read cur v] .
  with ok cur v com rtranclp_trans [OF d1 d2] show ?thesis
    by (elim commitRunTransition_Inr)
      (auto simp: validateTransition_def getRun_def attempt_patch_def buildRunPatch_def
        dest!: RunEventSchema_parse_id simp: buildRunEvent_def split: if_splits)
qed

theorem transitionRun_safe_witness:
  "\<exists>S2 cur. (disciplined_step sample_env sample_text)\<^sup>*\<^sup>* sample_store S2 \<and> getRun ''run-1'' S2 = Some cur
     \<and> isAllowedRunPhaseTransition (run_phase cur) TRIAGE"
  using transitionRun_safe [OF sample_store_reachable quiet_disciplined sample_transition] by blast

lemma transition_disciplined:
  assumes "disciplined_env E X env"
    and "transitionRun getRun (commitRunTransition E now) env rid target opts S = (S', res)"
  shows "(disciplined_step E X)\<^sup>*\<^sup>* S S'"
proof -
  have own: "disciplined_step E X s s'"
    if "commitRunTransition E now rid (attempt_patch target opts read) ev s = (s', Inr x)" for read ev s s' x
    using disciplined_step.commit [of "attempt_patch target opts read" E X s now rid ev] that
    by (simp add: attempt_patch_def)
  show ?thesis
    using mem_runs.transition_loop_guarantee [OF _ _ assms(2) [unfolded transitionRun_def], of "disciplined_step E X"]
      assms(1) own by (simp add: disciplined_env_def)
qed

text \<open>
  C2: However a transition ends (success, rejection, missing run, conflict on every attempt, store
  error), the store after it is reached from the store before it by background work and versioned
  commits alone, so it satisfies the store invariant and calls may be interleaved at will.
\<close>

theorem transitionRun_guarantee:
  assumes "store_reachable E X S" and "disciplined_env E X env"
    and "transitionRun getRun (commitRunTransition E now) env rid target opts S = (S', res)"
  shows "(disciplined_step E X)\<^sup>*\<^sup>* S S' \<and> store_inv E S' \<and> run_evolves S S'"
  using transition_disciplined [OF assms(2,3)] store_reachable_inv [OF disciplined_reachable] assms(1)
    disciplined_star_evolves by blast

theorem transitionRun_guarantee_witness:
  "store_inv sample_env
     (sample_store\<lparr>runs := [(''run-1'', sample_triaged)], events := [(''evt-0'', sample_event)]\<rparr>)"
  using transitionRun_guarantee [OF sample_store_reachable quiet_disciplined sample_transition] by simp

text \<open>
  A transition that fails without interference leaves the store as it was: neither the run nor
  the event log is touched.
\<close>

lemma transitionRun_failure_atomic:
  assumes "transitionRun getRun (commitRunTransition E now) (\<lambda>_ s. s) rid target opts S = (S', Inl err)"
  shows "S' = S"
  using mem_runs.transition_loop_failure [OF assms [unfolded transitionRun_def]] by simp

lemma statusForPhase_not_Nil [simp]: "statusForPhase p \<noteq> []"
  by (cases p) simp_all

lemma RunSchema_attempt:
  assumes "RunSchema E r" and "isDatetime E now"
  shows "RunSchema E (merge_run r (attempt_patch target opts read) now)"
  using assms by (simp add: RunSchema_def attempt_patch_def buildRunPatch_def empty_run_patch_def merge_run_def)

text \<open>A legal transition that meets the store still at its first commit is that one commit.\<close>

lemma first_attempt_transition:
  assumes "env 0 S0 = S" and "env (Suc 0) S = S"
    and "RunSchema E r" and "getRun rid S = Some r"
    and "isAllowedRunPhaseTransition (run_phase r) target"
    and "run_phase r = NEEDS_DECISION \<longrightarrow> to_decision opts \<noteq> JUndef"
    and "isDatetime E now"
    and "RunEventSchema_parse E (buildRunEvent r (run_phase r) target opts 0) = Some e"
    and "\<not> js_has (events S) (ev_id e)"
  shows "transitionRun getRun (commitRunTransition E now) env rid target opts S0
    = (S\<lparr>runs := js_set rid (merge_run r (attempt_patch target opts r) now) (runs S),
         events := js_set (ev_id e) e (events S)\<rparr>, Inr (merge_run r (attempt_patch target opts r) now, e))"
proof -
  let ?r' = "merge_run r (attempt_patch target opts r) now"
  have "RunSchema E ?r'" using assms(3,7) by (rule RunSchema_attempt)
  then have com: "commitRunTransition E now rid (attempt_patch target opts r)
      (buildRunEvent r (run_phase r) target opts 0) S
    = (S\<lparr>runs := js_set rid ?r' (runs S), events := js_set (ev_id e) e (events S)\<rparr>, Inr (?r', e))"
    using assms(4,8,9) by (simp add: commitRunTransition_def getRun_def Let_def attempt_patch_def)
  have "validateTransition (run_phase r) target opts = None"
    using assms(5,6) by (simp add: validateTransition_def)
  with assms(1,2,4) com show ?thesis unfolding transitionRun_Suc by (simp add: Let_def)
qed

lemmas quiet_transition = first_attempt_transition [of "\<lambda>_ s. s", OF refl refl]

lemma stored_run_schema: "store_inv E S \<Longrightarrow> getRun rid S = Some r \<Longrightarrow> RunSchema E r"
  by (auto simp: store_inv_def getRun_def dest: table_ok_get)

text \<open>
  A legal transition goes through. When the target is allowed, a decision is present where one is
  needed, the clock gives valid timestamps, the event passes its schema and its identifier is new, the
  call returns the run in the target phase with the next version and the persisted event, at once.
\<close>

lemma transitionRun_live:
  assumes "store_inv E S" and "getRun rid S = Some r"
    and "isAllowedRunPhaseTransition (run_phase r) target"
    and "run_phase r = NEEDS_DECISION \<longrightarrow> to_decision opts \<noteq> JUndef"
    and "isDatetime E now"
    and "RunEventSchema_parse E (buildRunEvent r (run_phase r) target opts 0) = Some e"
    and "\<not> js_has (events S) (ev_id e)"
  shows "\<exists>r'. transitionRun getRun (commitRunTransition E now) (\<lambda>_ s. s) rid target opts S
        = (S\<lparr>runs := js_set rid r' (runs S), events := js_set (ev_id e) e (events S)\<rparr>, Inr (r', e))
     \<and> run_phase r' = target \<and> run_version r' = run_version r + 1 \<and> run_status r' = statusForPhase target
     \<and> run_budget r' = run_budget r
     \<and> (target = NEEDS_DECISION \<longrightarrow>
          run_decisionRequest r' = Some (redactRecord (over (to_decisionRequest opts) [])))
     \<and> (run_phase r = NEEDS_DECISION \<longrightarrow> run_decisionRequest r' = None)"
proof -
  let ?r' = "merge_run r (attempt_patch target opts r) now"
  note run = quiet_transition [OF stored_run_schema [OF assms(1,2)] assms(2-7)]
  have ne: "run_phase r = NEEDS_DECISION \<Longrightarrow> target \<noteq> NEEDS_DECISION"
    using assms(3) by (auto simp: isAllowedRunPhaseTransition_def)
  have "run_phase r = NEEDS_DECISION \<longrightarrow> run_decisionRequest ?r' = None"
    using assms(4) ne by (auto simp: attempt_patch_def buildRunPatch_def)
  with run show ?thesis
    by (intro exI [of _ ?r'])
      (simp add: attempt_patch_def buildRunPatch_def empty_run_patch_def over_def)
qed

section \<open>Phase histories\<close>

definition sample_pending :: pending where
  "sample_pending = \<lparr>pn_runId = ''run-1'', pn_target = TRIAGE, pn_options = sample_options,
     pn_read = sample_run, pn_attempt = 0\<rparr>"

definition sample_triaged_store :: store where
  "sample_triaged_store = sample_store\<lparr>runs := [(''run-1'', sample_triaged)], events := [(''evt-0'', sample_event)]\<rparr>"

lemma sample_store_machine: "machine_reachable sample_env sample_text (sample_store, \<lambda>_. None)"
  unfolding sample_store_eq
  by (rule machine_reachable.step [OF machine_reachable.initial])
    (rule machine_step.background, rule background_step.create)

lemma sample_reads: "machine_reachable sample_env sample_text (sample_store, [0 \<mapsto> sample_pending])"
  by (rule machine_reachable.step [OF sample_store_machine])
    (auto intro!: machine_step.read simp: sample_pending_def sample_store_run sample_phase
      validateTransition_def isAllowedRunPhaseTransition_def)

lemma sample_commits:
  "machine_step sample_env sample_text (sample_store, [0 \<mapsto> sample_pending])
     (sample_triaged_store, [0 \<mapsto> sample_pending](0 := None))"
proof -
  have "fst (pending_commit sample_env ''now'' sample_pending sample_store) = sample_triaged_store"
    using sample_commit by (simp add: pending_commit_def sample_pending_def sample_phase sample_build
        sample_triaged_store_def)
  then show ?thesis by (metis fun_upd_same machine_step.commit)
qed

lemma sample_triaged_run: "getRun ''run-1'' sample_triaged_store = Some sample_triaged"
  by (simp add: getRun_def sample_triaged_store_def sample_store_def empty_store_def)

text \<open>A run that is created in a final phase, which the schema permits.\<close>

definition sample_failed :: run where
  "sample_failed = sample_run\<lparr>run_phase := FAILED\<rparr>"

definition sample_failed_store :: store where
  "sample_failed_store = empty_store\<lparr>runs := [(''run-1'', sample_failed)], cnt_run := 1\<rparr>"

lemma sample_failed_reachable: "machine_reachable sample_env sample_text (sample_failed_store, \<lambda>_. None)"
proof -
  have "sample_failed_store = fst (createRun sample_env ''now'' sample_failed empty_store)" by code_simp
  then show ?thesis
    by (metis background_step.create machine_reachable.initial machine_reachable.step machine_step.background)
qed

text \<open>
  In every interleaving of any number of transition calls with background work, one step changes
  the phase of a run only along an edge of the transition table and with the next version number.
\<close>

lemma interleaved_phase_change_allowed:
  assumes "machine_reachable E X (S, L)" and "machine_step E X (S, L) (S', L')"
    and "getRun rid S = Some r" and "getRun rid S' = Some r'" and "run_phase r' \<noteq> run_phase r"
  shows "isAllowedRunPhaseTransition (run_phase r) (run_phase r') \<and> run_version r' = Suc (run_version r)"
  using machine_step_phase [OF machine_reachable_inv [OF assms(1)] assms(2-4)] assms(5) by blast

text \<open>
  A run that is done, failed or aborted stays so: no later interleaving of transition calls and
  background work ever moves it to another phase.
\<close>

lemma finished_run_stays_finished:
  assumes "machine_reachable E X c" and "(machine_step E X)\<^sup>*\<^sup>* c c'"
    and "getRun rid (fst c) = Some r" and "run_phase r \<in> {DONE, FAILED, ABORTED}"
    and "getRun rid (fst c') = Some r'"
  shows "run_phase r' = run_phase r"
  using machine_steps_phase_closed [OF assms(2,1,3), of "{run_phase r}"] assms(4,5)
  by (auto simp: isAllowedRunPhaseTransition_def)

text \<open>
  C3: No run executes unreviewed. On a path of the transition table from the reception of a chat
  message to execution, without a human decision in between, planning, skeptic review, crucible and
  DAG compilation all come before the first execution phase.
\<close>

theorem execution_needs_review:
  assumes "allowed_path (CHAT_RECEIVED # ps)" and "EXECUTING \<in> set ps"
    and "NEEDS_DECISION \<notin> set (takeWhile (\<lambda>p. p \<noteq> EXECUTING) ps)"
  shows "{PLANNING, SKEPTIC_REVIEW, CRUCIBLE, DAG_COMPILATION} \<subseteq> set (takeWhile (\<lambda>p. p \<noteq> EXECUTING) ps)"
proof -
  let ?before = "set (takeWhile (\<lambda>p. p \<noteq> EXECUTING) ps)" and ?final = "{DONE, FAILED, ABORTED}"
  have cut: "c \<in> ?before"
    if "CHAT_RECEIVED \<in> A" "EXECUTING \<notin> A" "c \<noteq> EXECUTING"
      "\<And>a b. a \<in> A \<Longrightarrow> isAllowedRunPhaseTransition a b \<Longrightarrow> b \<in> A \<union> {c, NEEDS_DECISION}" for A c
    using allowed_path_cut [OF assms(1) that(1) assms(2) that(2), of "{c, NEEDS_DECISION}"] that(3,4) assms(3)
    by auto
  have "PLANNING \<in> ?before"
    by (rule cut [of "{CHAT_RECEIVED, TRIAGE, CONTEXT_BUILDING} \<union> ?final"])
      (auto simp: isAllowedRunPhaseTransition_def)
  moreover have "SKEPTIC_REVIEW \<in> ?before"
    by (rule cut [of "{CHAT_RECEIVED, TRIAGE, CONTEXT_BUILDING, PLANNING} \<union> ?final"])
      (auto simp: isAllowedRunPhaseTransition_def)
  moreover have "CRUCIBLE \<in> ?before"
    by (rule cut [of "{CHAT_RECEIVED, TRIAGE, CONTEXT_BUILDING, PLANNING, SKEPTIC_REVIEW} \<union> ?final"])
      (auto simp: isAllowedRunPhaseTransition_def)
  moreover have "DAG_COMPILATION \<in> ?before"
    by (rule cut [of "{CHAT_RECEIVED, TRIAGE, CONTEXT_BUILDING, PLANNING, SKEPTIC_REVIEW, CRUCIBLE} \<union> ?final"])
      (auto simp: isAllowedRunPhaseTransition_def)
  ultimately show ?thesis by blast
qed

theorem execution_needs_review_witness:
  "{PLANNING, SKEPTIC_REVIEW, CRUCIBLE, DAG_COMPILATION}
     \<subseteq> {TRIAGE, CONTEXT_BUILDING, PLANNING, SKEPTIC_REVIEW, CRUCIBLE, DAG_COMPILATION}"
  using execution_needs_review
    [of "[TRIAGE, CONTEXT_BUILDING, PLANNING, SKEPTIC_REVIEW, CRUCIBLE, DAG_COMPILATION, EXECUTING]"]
  by (simp add: isAllowedRunPhaseTransition_def)

end
