(* ===== verification/Store_Properties.thy ===== *)
theory Store_Properties
  imports Sample_Data
begin

text \<open>
  The properties of the in-memory store: what every reachable store satisfies, what creating,
  reading a lineage and pruning do, and what interleaving at the two \<open>await\<close>s of the conversation
  writers can break.
\<close>

section \<open>Reachable stores\<close>

text \<open>
  C4: Whatever sequence of store operations has run, failing ones included, every record sits under
  its own identifier, identifiers were issued by the counter, all records satisfy their schemas, and
  the parent links between conversations form no cycle.
\<close>

theorem reachable_store_invariant:
  assumes "store_reachable E X S"
  shows "store_inv E S"
  using assms by (rule store_reachable_inv)

theorem reachable_store_invariant_witness: "store_inv sample_env sample_store"
  by (rule reachable_store_invariant [OF sample_store_reachable])

text \<open>
  Creating a run on a reachable store succeeds exactly when the record passes the schema, uses an
  identifier no run has, and leaves every run that was there as it was.
\<close>

lemma createRun_fresh:
  assumes "store_reachable E X S"
  shows "case createRun E now input S of
      (S', Inr r) \<Rightarrow> getRun (run_id r) S = None \<and> getRun (run_id r) S' = Some r \<and> RunSchema E r
         \<and> run_phase r = run_phase input \<and> listRuns S' None = listRuns S None @ [r]
         \<and> (\<forall>k. k \<noteq> run_id r \<longrightarrow> getRun k S' = getRun k S)
    | (S', Inl e) \<Rightarrow> runs S' = runs S \<and> events S' = events S"
proof -
  have tbl: "table_ok (RunSchema E) run_id (issued ''run'' (cnt_run S)) (runs S)"
    using store_reachable_inv [OF assms] by (simp add: store_inv_def)
  have "js_get (runs S) (mk_id ''run'' (Suc (cnt_run S))) = None"
    using table_ok_fresh [OF tbl] .
  then show ?thesis
    by (auto simp: createRun_def Let_def getRun_def listRuns_def js_values_set_fresh)
qed

section \<open>Lineages\<close>

text \<open>
  On a reachable store, reading a lineage never reports a cycle, and when it returns a list it is
  the ancestor chain of the conversation: oldest first, consecutive entries parent and child, no
  repetition, at most the depth bound long, starting at a root and ending with the conversation.
\<close>

lemma lineage_read_correct:
  assumes "store_reachable E X S"
  shows "case getConversationLineage (getConversation S) cid MAX_CONVERSATION_LINEAGE_DEPTH of
      Inl e \<Rightarrow> e \<noteq> LineageCycle
    | Inr l \<Rightarrow> (getConversation S cid = None \<and> l = [])
        \<or> (\<exists>c older. getConversation S cid = Some c \<and> l = older @ [c] \<and> chained l \<and> distinct (map conv_id l)
             \<and> length l \<le> 10 \<and> parent_of (hd l) = None \<and> (\<forall>x \<in> set l. getConversation S (conv_id x) = Some x))"
proof (cases "getConversation S cid")
  case None
  then show ?thesis by (simp add: getConversationLineage_def)
next
  case (Some c)
  have inv: "store_inv E S" using assms by (rule store_reachable_inv)
  then have keyed: "keyed (getConversation S)" by (rule store_inv_keyed)
  then have "conv_id c = cid" using Some by (auto simp: keyed_def)
  then have c: "getConversation S (conv_id c) = Some c" using Some by simp
  have acyc: "acyclic (parent_rel (getConversation S))" using inv by (simp add: store_inv_def)
  show ?thesis
    using lineage_walk_no_cycle [OF acyc keyed c, of "[]"]
      lineage_walk_sound [OF _ keyed, of MAX_CONVERSATION_LINEAGE_DEPTH "[]" c] c Some
    by (fastforce simp: getConversationLineage_def MAX_CONVERSATION_LINEAGE_DEPTH_def split: sum.splits)
qed

definition sample_input :: "string option \<Rightarrow> conversation_input" where
  "sample_input parent = \<lparr>ci_title = ''t'', ci_workspaceId = ''w'', ci_parentConversationId = parent,
     ci_compressionGeneration = None, ci_compressionSummaryArtifactId = None, ci_retentionPolicy = ''keep''\<rparr>"

definition sample_lineage_store :: store where
  "sample_lineage_store =
     fst (createConversation sample_env ''now'' (sample_input (Some ''conv-1''))
       (fst (createConversation sample_env ''now'' (sample_input None) empty_store)))"

lemma sample_lineage_reachable: "store_reachable sample_env sample_text sample_lineage_store"
  unfolding sample_lineage_store_def
  by (rule store_reachable.step [OF store_reachable.step [OF store_reachable.initial]]; rule store_step.intros)

lemma sample_lineage:
  "getConversationLineage (getConversation sample_lineage_store) ''conv-2'' MAX_CONVERSATION_LINEAGE_DEPTH
     = Inr [new_conversation ''conv-1'' ''now'' (sample_input None),
            new_conversation ''conv-2'' ''now'' (sample_input (Some ''conv-1''))]"
  by code_simp

section \<open>Interleaving at the lineage check\<close>

text \<open>
  C6: Two calls that create a child conversation and wait for their lineage checks at the same time
  peek the same identifier: both report success, the second record replaces the first, and the counter
  still advances by two. The first conversation is lost.
\<close>

theorem concurrent_creates_collide:
  assumes "ident = peekNextId ''conv'' (cnt_conv S)"
    and "ConversationSchema E (new_conversation ident n1 i1)"
    and "ConversationSchema E (new_conversation ident n2 i2)"
    and "createConversation_install E n1 ident i1 S = (S1, r1)"
    and "createConversation_install E n2 ident i2 S1 = (S2, r2)"
  shows "r1 = Inr (new_conversation ident n1 i1) \<and> r2 = Inr (new_conversation ident n2 i2)
     \<and> getConversation S2 ident = Some (new_conversation ident n2 i2)
     \<and> length (conversations S2) = length (conversations S1) \<and> cnt_conv S2 = cnt_conv S + 2"
proof -
  from assms have S1: "S1 = S\<lparr>cnt_conv := cnt_conv S + 1,
      conversations := js_set ident (new_conversation ident n1 i1) (conversations S)\<rparr>"
    by (simp add: createConversation_install_def Let_def)
  then have "ident \<in> fst ` set (conversations S1)" by (simp add: js_keys_set_dom)
  then have "length (js_set ident c (conversations S1)) = length (conversations S1)" for c
    using js_keys_set_present by (metis length_map)
  with assms S1 show ?thesis by (auto simp: createConversation_install_def Let_def)
qed

definition sample_parent_store :: store where
  "sample_parent_store = fst (createConversation sample_env ''now'' (sample_input None) empty_store)"

theorem concurrent_creates_collide_witness:
  "let ident = peekNextId ''conv'' (cnt_conv sample_parent_store); i = sample_input (Some ''conv-1'');
       S1 = fst (createConversation_install sample_env ''a'' ident i sample_parent_store);
       S2 = fst (createConversation_install sample_env ''b'' ident i S1)
   in parent_check sample_parent_store ident ''w'' (Some ''conv-1'') = None
     \<and> getConversation S2 ident = Some (new_conversation ident ''b'' i)"
proof -
  let ?id = "peekNextId ''conv'' (cnt_conv sample_parent_store)" and ?i = "sample_input (Some ''conv-1'')"
  have ok: "ConversationSchema sample_env (new_conversation ?id ''a'' ?i)"
    "ConversationSchema sample_env (new_conversation ?id ''b'' ?i)"
    "parent_check sample_parent_store ?id ''w'' (Some ''conv-1'') = None"
    by code_simp+
  show ?thesis
    using concurrent_creates_collide [OF refl ok(1,2) prod.collapse [symmetric] prod.collapse [symmetric]] ok(3)
    by (simp add: Let_def)
qed

end
