(* ===== verification/Memory_Pruning.thy ===== *)
theory Memory_Pruning
  imports Sample_Data
begin

text \<open>
  What \<open>pruneMemory\<close> leaves in the table and what memory writers put there: the layer is cut to its
  limit, the entries that go are the lowest scored ones, summaries of frequently used episodic
  entries land in the core layer, and nothing with a sensitive key is stored.
\<close>

section \<open>The loop\<close>

definition layer_entries :: "memory_layer \<Rightarrow> store \<Rightarrow> memory_entry list" where
  "layer_entries layer S = filter (\<lambda>e. mem_layer e = layer) (js_values (memories S))"

abbreviation mem_table :: "schema_env \<Rightarrow> store \<Rightarrow> bool" where
  "mem_table E S \<equiv> table_ok (MemoryEntrySchema E) mem_id (issued ''mem'' (cnt_mem S)) (memories S)"

lemma js_values_delete:
  assumes "\<forall>(k', v) \<in> set m. idf v = k'"
  shows "js_values (js_delete k m) = filter (\<lambda>v. idf v \<noteq> k) (js_values m)"
  using assms by (induction m) auto

lemma layer_entries_delete:
  assumes "mem_table E S"
  shows "layer_entries layer (S\<lparr>memories := js_delete k (memories S)\<rparr>)
     = filter (\<lambda>e. mem_id e \<noteq> k) (layer_entries layer S)"
proof -
  have "js_values (js_delete k (memories S)) = filter (\<lambda>e. mem_id e \<noteq> k) (js_values (memories S))"
    using assms by (intro js_values_delete) (auto simp: table_ok_def)
  then show ?thesis by (simp add: layer_entries_def conj_commute)
qed

lemma createMemoryEntry_layer:
  assumes "mem_table E S" and "createMemoryEntry E now i S = (S', Inr e)"
  shows "layer_entries layer S' = layer_entries layer S @ (if mi_layer i = layer then [e] else [])"
    and "mem_layer e = mi_layer i"
  using assms(2) table_ok_fresh [OF assms(1)]
  by (auto simp: createMemoryEntry_def Let_def layer_entries_def js_values_set_fresh
      sanitizeCreateMemoryEntryInput_def split: if_splits)

lemma createMemoryEntry_table:
  assumes "store_inv E S" and "createMemoryEntry E now i S = (S', r)"
  shows "store_inv E S'"
  using createMemoryEntry_inv [OF assms(1), of now i] assms(2) by simp

lemma store_inv_mem_table: "store_inv E S \<Longrightarrow> mem_table E S"
  by (simp add: store_inv_def)

text \<open>An entry is summarised into the core layer when it is episodic and was read more than twice.\<close>

definition summarised :: "memory_entry \<Rightarrow> bool" where
  "summarised e \<longleftrightarrow> 2 < mem_accessCount e \<and> mem_layer e = Episodic"

lemma prune_loop_effect:
  assumes "prune_loop E now es p s S = (S', Inr (p', s'))" and "store_inv E S" and "layer \<noteq> Core \<or> list_all (\<lambda>e. mem_layer e = Core) es"
  shows "layer_entries layer S' = filter (\<lambda>e. mem_id e \<notin> mem_id ` set es) (layer_entries layer S)
     \<and> p' = p + length es \<and> s' = s + length (filter summarised es)"
  using assms
proof (induction es arbitrary: p s S)
  case Nil
  then show ?case by simp
next
  case (Cons e es)
  let ?del = "\<lambda>S. S\<lparr>memories := js_delete (mem_id e) (memories S)\<rparr>"
  have rest: "layer \<noteq> Core \<or> list_all (\<lambda>e. mem_layer e = Core) es" using Cons.prems(3) by auto
  show ?case
  proof (cases "summarised e")
    case True
    then have core: "layer \<noteq> Core" using Cons.prems(3) by (auto simp: summarised_def)
    obtain S1 r where cr: "createMemoryEntry E now (prune_summary now e) S = (S1, r)" by force
    from True Cons.prems(1) cr obtain a where a: "r = Inr a"
      and rec: "prune_loop E now es (p + 1) (s + 1) (?del S1) = (S', Inr (p', s'))"
      by (cases r) (auto simp: summarised_def)
    have inv: "store_inv E S1" using createMemoryEntry_table [OF Cons.prems(2) cr] .
    have "layer_entries layer S1 = layer_entries layer S"
      using createMemoryEntry_layer(1) [OF store_inv_mem_table [OF Cons.prems(2)] cr [unfolded a]] core
      by (simp add: prune_summary_def)
    then have "layer_entries layer (?del S1) = filter (\<lambda>x. mem_id x \<noteq> mem_id e) (layer_entries layer S)"
      using layer_entries_delete [OF store_inv_mem_table [OF inv]] by simp
    then show ?thesis
      using Cons.IH [OF rec memory_delete_inv [OF inv] rest] True by (simp add: conj_commute)
  next
    case False
    then have rec: "prune_loop E now es (p + 1) s (?del S) = (S', Inr (p', s'))"
      using Cons.prems(1) by (auto simp: summarised_def split: if_splits)
    have "layer_entries layer (?del S) = filter (\<lambda>x. mem_id x \<noteq> mem_id e) (layer_entries layer S)"
      using layer_entries_delete [OF store_inv_mem_table [OF Cons.prems(2)]] .
    then show ?thesis
      using Cons.IH [OF rec memory_delete_inv [OF Cons.prems(2)] rest] False by (simp add: conj_commute)
  qed
qed

section \<open>The victims\<close>

definition prune_victims :: "text_env \<Rightarrow> string \<Rightarrow> memory_layer \<Rightarrow> nat \<Rightarrow> store \<Rightarrow> memory_entry list" where
  "prune_victims X now layer limit S =
     map fst (take (length (layer_entries layer S) - limit)
       (sort_by (compareMemoryPruneCandidates X)
          (map (\<lambda>e. (e, memoryPruneScore X e now)) (layer_entries layer S))))"

lemma pruneMemory_loop:
  "pruneMemory E X now (Some layer) (Some limit) S =
     (if length (layer_entries layer S) \<le> limit then (S, Inr (0, 0))
      else prune_loop E now (prune_victims X now layer limit S) 0 0 S)"
  by (simp add: pruneMemory_def Let_def prune_victims_def layer_entries_def)

lemma distinct_layer_ids:
  assumes "mem_table E S"
  shows "distinct (map mem_id (layer_entries layer S))"
proof -
  have "map (mem_id \<circ> snd) (memories S) = js_keys (memories S)"
    using assms by (auto simp: table_ok_def)
  moreover have "distinct (js_keys (memories S))" using assms by (simp add: table_ok_def)
  ultimately have "distinct (map mem_id (js_values (memories S)))" by (metis map_map)
  then show ?thesis by (simp add: layer_entries_def distinct_map_filter)
qed

lemma length_remove_ids:
  assumes "distinct (map f xs)" and "distinct (map f ys)" and "set ys \<subseteq> set xs"
  shows "length (filter (\<lambda>x. f x \<notin> f ` set ys) xs) = length xs - length ys"
proof -
  have inj: "inj_on f (set xs)" using assms(1) by (simp add: distinct_map)
  have dx: "distinct xs" and dy: "distinct ys" using assms(1,2) by (simp_all add: distinct_map)
  have "set (filter (\<lambda>x. f x \<notin> f ` set ys) xs) = set xs - set ys"
    using inj assms(3) by (auto simp: inj_on_def)
  then have "length (filter (\<lambda>x. f x \<notin> f ` set ys) xs) = card (set xs - set ys)"
    using distinct_card [OF distinct_filter [OF dx]] by metis
  also have "\<dots> = length xs - length ys"
    using assms(3) dx dy by (simp add: card_Diff_subset distinct_card)
  finally show ?thesis .
qed

lemma prune_victims_facts:
  assumes "mem_table E S"
  shows "set (prune_victims X now layer limit S) \<subseteq> set (layer_entries layer S)"
    and "distinct (map mem_id (prune_victims X now layer limit S))"
    and "length (prune_victims X now layer limit S) = length (layer_entries layer S) - limit"
proof -
  let ?scored = "map (\<lambda>e. (e, memoryPruneScore X e now)) (layer_entries layer S)"
  let ?ranked = "sort_by (compareMemoryPruneCandidates X) ?scored"
  have "fst ` set (take n ?ranked) \<subseteq> fst ` set ?ranked" for n
    using set_take_subset by (intro image_mono)
  moreover have "fst ` set ?ranked = set (layer_entries layer S)" by force
  ultimately show "set (prune_victims X now layer limit S) \<subseteq> set (layer_entries layer S)"
    by (auto simp: prune_victims_def)
  have "distinct (map (\<lambda>x. mem_id (fst x)) ?ranked)"
    using distinct_layer_ids [OF assms, of layer] by (simp add: distinct_map_sort_by comp_def)
  then have "distinct (take n (map (\<lambda>x. mem_id (fst x)) ?ranked))" for n by (rule distinct_take)
  then show "distinct (map mem_id (prune_victims X now layer limit S))"
    by (simp add: prune_victims_def comp_def take_map)
  show "length (prune_victims X now layer limit S) = length (layer_entries layer S) - limit"
    by (simp add: prune_victims_def)
qed

lemma compareMemoryPruneCandidates_key:
  "compareMemoryPruneCandidates X a b \<le> 0 \<Longrightarrow> snd a \<le> snd b"
  "0 < compareMemoryPruneCandidates X a b \<Longrightarrow> snd b \<le> snd a"
  by (auto simp: compareMemoryPruneCandidates_def split: if_splits)

lemma sorted_take_le:
  assumes "sorted (map f xs)" and "distinct xs" and "a \<in> set (take n xs)" and "b \<in> set xs" and "b \<notin> set (take n xs)"
  shows "f a \<le> f b"
proof -
  have "b \<in> set (drop n xs)" using assms(4,5) by (metis Un_iff append_take_drop_id set_append)
  moreover have "sorted (map f (take n xs) @ map f (drop n xs))"
    using assms(1) by (metis append_take_drop_id map_append)
  ultimately show ?thesis using assms(3) by (auto simp: sorted_append)
qed

lemma prune_victims_lowest:
  assumes "mem_table E S" and "a \<in> set (prune_victims X now layer limit S)"
    and "b \<in> set (layer_entries layer S)" and "b \<notin> set (prune_victims X now layer limit S)"
  shows "memoryPruneScore X a now \<le> memoryPruneScore X b now"
proof -
  let ?scored = "map (\<lambda>e. (e, memoryPruneScore X e now)) (layer_entries layer S)"
  let ?ranked = "sort_by (compareMemoryPruneCandidates X) ?scored"
  let ?n = "length (layer_entries layer S) - limit"
  have sorted: "sorted (map snd ?ranked)"
    by (rule sorted_sort_by) (fact compareMemoryPruneCandidates_key)+
  have "distinct (map (\<lambda>x. mem_id (fst x)) ?ranked)"
    using distinct_layer_ids [OF assms(1), of layer] by (simp add: distinct_map_sort_by comp_def)
  then have dist: "distinct ?ranked" by (simp add: distinct_map)
  have score: "snd x = memoryPruneScore X (fst x) now" if "x \<in> set ?ranked" for x using that by auto
  from assms(2) obtain xa where xa: "xa \<in> set (take ?n ?ranked)" "fst xa = a"
    by (auto simp: prune_victims_def)
  have xb: "(b, memoryPruneScore X b now) \<in> set ?ranked" using assms(3) by auto
  moreover have "(b, memoryPruneScore X b now) \<notin> set (take ?n ?ranked)"
    using assms(4) by (force simp: prune_victims_def)
  ultimately have "snd xa \<le> snd (b, memoryPruneScore X b now)"
    using sorted_take_le [OF sorted dist xa(1)] by blast
  then show ?thesis using score [OF in_set_takeD [OF xa(1)]] xa(2) by simp
qed

section \<open>Properties\<close>

text \<open>
  C5: Pruning a layer that holds more entries than the limit removes exactly the surplus, reports
  that number, and every entry it removes scores at most as much as every entry it keeps; the
  entries kept stay in their order, and a layer within its limit is not touched.
\<close>

theorem pruneMemory_exact:
  assumes "store_reachable E X S" and "pruneMemory E X now (Some layer) (Some limit) S = (S', Inr (pruned, summarized))"
  shows "length (layer_entries layer S') = min (length (layer_entries layer S)) limit
     \<and> pruned = length (layer_entries layer S) - limit
     \<and> summarized = length (filter summarised (prune_victims X now layer limit S))
     \<and> (\<exists>keep. layer_entries layer S' = filter keep (layer_entries layer S)
          \<and> (\<forall>a b. a \<in> set (layer_entries layer S) \<and> b \<in> set (layer_entries layer S) \<and> \<not> keep a \<and> keep b \<longrightarrow>
               memoryPruneScore X a now \<le> memoryPruneScore X b now))"
proof -
  have inv: "store_inv E S" using assms(1) by (rule store_reachable_inv)
  note tbl = store_inv_mem_table [OF inv]
  let ?V = "prune_victims X now layer limit S" and ?L = "layer_entries layer S"
  let ?keep = "\<lambda>e. mem_id e \<notin> mem_id ` set ?V"
  have layers: "layer \<noteq> Core \<or> list_all (\<lambda>e. mem_layer e = Core) ?V"
    using prune_victims_facts(1) [OF tbl, of X now layer limit] by (auto simp: list_all_iff layer_entries_def)
  have V0: "?V = []" if "length ?L \<le> limit" using that prune_victims_facts(3) [OF tbl, of X now layer limit] by simp
  have res: "layer_entries layer S' = filter ?keep ?L \<and> pruned = length ?V \<and> summarized = length (filter summarised ?V)"
  proof (cases "length ?L \<le> limit")
    case True
    with assms(2) V0 show ?thesis by (simp add: pruneMemory_loop)
  next
    case False
    with assms(2) have "prune_loop E now ?V 0 0 S = (S', Inr (pruned, summarized))"
      by (simp add: pruneMemory_loop)
    from prune_loop_effect [OF this inv layers] show ?thesis by simp
  qed
  have len: "length (filter ?keep ?L) = length ?L - length ?V"
    by (rule length_remove_ids [OF distinct_layer_ids [OF tbl] prune_victims_facts(2,1) [OF tbl]])
  have victim: "a \<in> set ?V" if "a \<in> set ?L" "\<not> ?keep a" for a
  proof -
    from that obtain v where "v \<in> set ?V" "mem_id v = mem_id a" by force
    then show ?thesis
      using that(1) prune_victims_facts(1) [OF tbl] distinct_layer_ids [OF tbl, of layer]
      by (metis distinct_map inj_on_def subsetD)
  qed
  have "memoryPruneScore X a now \<le> memoryPruneScore X b now"
    if "a \<in> set ?L" "b \<in> set ?L" "\<not> ?keep a" "?keep b" for a b
    using prune_victims_lowest [OF tbl victim [OF that(1,3)] that(2)] that(4) by auto
  then show ?thesis
    using res len prune_victims_facts(3) [OF tbl, of X now layer limit] by (auto intro!: exI [of _ ?keep])
qed

definition sample_memory :: "nat \<Rightarrow> memory_entry" where
  "sample_memory n = \<lparr>mem_id = mk_id ''mem'' n, mem_layer = Working, mem_content = ''c'', mem_timestamp = ''now'',
     mem_lastMentioned = ''now'', mem_accessCount = n, mem_tags = [], mem_source = None, mem_metadata = []\<rparr>"

definition sample_memory_input :: "nat \<Rightarrow> memory_input" where
  "sample_memory_input n = \<lparr>mi_layer = Working, mi_content = ''c'', mi_timestamp = ''now'',
     mi_lastMentioned = Some ''now'', mi_accessCount = Some n, mi_tags = [], mi_source = None, mi_metadata = []\<rparr>"

definition sample_memory_store :: store where
  "sample_memory_store =
     fst (createMemoryEntry sample_env ''now'' (sample_memory_input 1)
       (fst (createMemoryEntry sample_env ''now'' (sample_memory_input 5) empty_store)))"

lemma sample_memory_reachable: "store_reachable sample_env sample_text sample_memory_store"
  unfolding sample_memory_store_def
  by (rule store_reachable.step [OF store_reachable.step [OF store_reachable.initial]]; rule store_step.intros)

lemma sample_memory_layer: "length (layer_entries Working sample_memory_store) = 2"
  by code_simp

theorem pruneMemory_exact_witness:
  "length (layer_entries Working
      (fst (pruneMemory sample_env sample_text ''now'' (Some Working) (Some 1) sample_memory_store))) = 1"
proof -
  have run: "snd (pruneMemory sample_env sample_text ''now'' (Some Working) (Some 1) sample_memory_store) = Inr (1, 0)"
    by code_simp
  then have "pruneMemory sample_env sample_text ''now'' (Some Working) (Some 1) sample_memory_store
      = (fst (pruneMemory sample_env sample_text ''now'' (Some Working) (Some 1) sample_memory_store), Inr (1, 0))"
    by (metis prod.collapse)
  from pruneMemory_exact [OF sample_memory_reachable this] show ?thesis by (simp add: sample_memory_layer)
qed

definition entry_clean :: "memory_entry \<Rightarrow> bool" where
  "entry_clean e = keys_redacted (JObj (mem_metadata e))"

definition memory_clean :: "store \<Rightarrow> bool" where
  "memory_clean S = list_all entry_clean (js_values (memories S))"

lemma redactRecord_clean: "keys_redacted (JObj (redactRecord r))"
proof -
  have "redactSecrets (JObj r) = JObj (redactRecord r)"
    by (simp add: redactRecord_def redactSecrets_def)
  then show ?thesis using redactValue_keys_redacted(1) [of None "JObj r"] by (simp add: redactSecrets_def)
qed

text \<open>
  No memory writer stores a secret under a telling key: after creating or updating an entry on a
  store whose entries are clean, every key that names a secret holds the redaction mark, at any depth
  of the metadata of any entry.
\<close>

lemma memory_writers_redact:
  assumes "memory_clean S"
  shows "memory_clean (fst (createMemoryEntry E now i S)) \<and> memory_clean (fst (updateMemoryEntry E ident p S))"
proof
  show "memory_clean (fst (createMemoryEntry E now i S))"
    using assms by (simp add: createMemoryEntry_def Let_def sanitizeCreateMemoryEntryInput_def memory_clean_def
        list_all_js_set entry_clean_def redactRecord_clean del: keys_redacted.simps)
  show "memory_clean (fst (updateMemoryEntry E ident p S))"
  proof (cases "js_get (memories S) ident")
    case None
    with assms show ?thesis by (simp add: updateMemoryEntry_def)
  next
    case (Some e)
    then have "entry_clean e"
      using assms by (auto simp: memory_clean_def list_all_iff dest!: map_of_SomeD)
    then have "entry_clean (merge_memory e (sanitizeUpdateMemoryEntryInput p))"
      by (cases "mmp_metadata p") (simp_all add: entry_clean_def merge_memory_def sanitizeUpdateMemoryEntryInput_def
          redactRecord_clean del: keys_redacted.simps)
    with Some assms show ?thesis
      by (simp add: updateMemoryEntry_def Let_def memory_clean_def list_all_js_set)
  qed
qed

end
