(* ===== verification/Dag_Protocol.thy ===== *)
theory Dag_Protocol
  imports Run_Phases
begin

text \<open>
  The execution graph, \<open>src/protocol/dag.ts\<close>: its records, the checks of its schemas, and
  \<open>validateDag\<close> with the depth-first search for cycles. The messages of a failed schema check come
  from the validation library and are the argument \<open>issues\<close>. The main result is that the search is
  right in both directions, so that \<open>validateDag\<close> decides well-formedness.
\<close>

section \<open>Records and schemas\<close>

datatype dag_node_type =
    LLM_EXECUTION | VALIDATION | FILE_OPERATION | SHELL_COMMAND | MERGE | CONDITIONAL

record retry_policy =
  rt_maxAttempts :: int
  rt_backoffMs :: int
  rt_maxBackoffMs :: "int option"

record dag_edge =
  edge_from :: string
  edge_to :: string

record dag_node =
  nd_id :: string
  nd_type :: dag_node_type
  nd_label :: "string option"
  nd_dependsOn :: "string list"
  nd_provider :: "string option"
  nd_toolPermissions :: "string list"
  nd_input :: "json_record option"
  nd_expectedOutputs :: "string list"
  nd_retryPolicy :: "retry_policy option"
  nd_timeoutMs :: "int option"
  nd_metadata :: "json_record option"

record dag =
  dag_id :: string
  dag_runId :: string
  dag_version :: string
  dag_nodes :: "dag_node list"
  dag_edges :: "dag_edge list"
  dag_validationPolicy :: "json_record option"
  dag_budgetPolicy :: "json_record option"
  dag_metadata :: "json_record option"
  dag_createdAt :: string

definition RetryPolicySchema :: "retry_policy \<Rightarrow> bool" where
  "RetryPolicySchema p =
     (1 \<le> rt_maxAttempts p \<and> 0 \<le> rt_backoffMs p
      \<and> (case rt_maxBackoffMs p of None \<Rightarrow> True | Some m \<Rightarrow> 0 \<le> m))"

definition DagEdgeSchema :: "dag_edge \<Rightarrow> bool" where
  "DagEdgeSchema e = (edge_from e \<noteq> [] \<and> edge_to e \<noteq> [])"

definition nonEmptyAll :: "string list \<Rightarrow> bool" where
  "nonEmptyAll xs = list_all (\<lambda>s. s \<noteq> []) xs"

definition DagNodeSchema :: "dag_node \<Rightarrow> bool" where
  "DagNodeSchema n =
     (nd_id n \<noteq> [] \<and> optNonEmpty (nd_label n) \<and> nonEmptyAll (nd_dependsOn n) \<and> optNonEmpty (nd_provider n)
      \<and> nonEmptyAll (nd_toolPermissions n) \<and> nonEmptyAll (nd_expectedOutputs n)
      \<and> (case nd_retryPolicy n of None \<Rightarrow> True | Some p \<Rightarrow> RetryPolicySchema p)
      \<and> (case nd_timeoutMs n of None \<Rightarrow> True | Some t \<Rightarrow> 0 < t))"

definition DagSchema :: "schema_env \<Rightarrow> dag \<Rightarrow> bool" where
  "DagSchema E g =
     (dag_id g \<noteq> [] \<and> dag_runId g \<noteq> [] \<and> dag_version g \<noteq> [] \<and> list_all DagNodeSchema (dag_nodes g)
      \<and> list_all DagEdgeSchema (dag_edges g) \<and> isDatetime E (dag_createdAt g))"

section \<open>The search for cycles\<close>

text \<open>
  \<open>visit\<close> as a function: \<open>visiting\<close> is the stack of open calls (the code removes a node from the set
  when its call returns), \<open>visited\<close> is threaded through; the second function is the loop over the
  dependencies of a node.
\<close>

type_synonym deps_map = "(string, string list) js_map"

definition depsOf :: "deps_map \<Rightarrow> string \<Rightarrow> string list" where
  "depsOf g n = (case js_get g n of None \<Rightarrow> [] | Some ds \<Rightarrow> ds)"

text \<open>A call either opens a new key or visits a node that has no dependencies.\<close>

definition unopened :: "('k, 'v) js_map \<Rightarrow> 'k list \<Rightarrow> nat" where
  "unopened g visiting = card (fst ` set g - set visiting)"

lemma unopened_Cons:
  "n \<notin> set visiting \<Longrightarrow> js_has g n \<Longrightarrow> unopened g (n # visiting) < unopened g visiting"
  unfolding unopened_def js_has_iff by (rule psubset_card_mono) auto

lemma unopened_other: "\<not> js_has g n \<Longrightarrow> unopened g (n # visiting) = unopened g visiting"
  unfolding unopened_def js_has_iff by (rule arg_cong [where f = card]) auto

function visit :: "deps_map \<Rightarrow> string list \<Rightarrow> string list \<Rightarrow> string \<Rightarrow> bool \<times> string list"
  and visit_deps :: "deps_map \<Rightarrow> string list \<Rightarrow> string list \<Rightarrow> string list \<Rightarrow> bool \<times> string list" where
  "visit g visiting visited n =
     (if n \<in> set visited then (False, visited)
      else if n \<in> set visiting then (True, visited)
      else case visit_deps g (n # visiting) visited (depsOf g n) of
             (True, v) \<Rightarrow> (True, v)
           | (False, v) \<Rightarrow> (False, js_add n v))"
| "visit_deps g visiting visited [] = (False, visited)"
| "visit_deps g visiting visited (d # ds) =
     (if \<not> js_has g d then visit_deps g visiting visited ds
      else case visit g visiting visited d of
             (True, v) \<Rightarrow> (True, v)
           | (False, v) \<Rightarrow> visit_deps g visiting v ds)"
  by pat_completeness auto

termination
proof (relation "inv_image (less_than <*lex*> less_than)
    (case_sum (\<lambda>(g, visiting, visited, n). (unopened g visiting, 1))
       (\<lambda>(g, visiting, visited, ds). (unopened g visiting, 2 * length ds)))")
  fix g :: deps_map and visiting visited :: "string list" and n :: string
  assume "n \<notin> set visiting"
  then show "(Inr (g, n # visiting, visited, depsOf g n), Inl (g, visiting, visited, n))
      \<in> inv_image (less_than <*lex*> less_than)
          (case_sum (\<lambda>(g, visiting, visited, n). (unopened g visiting, 1))
             (\<lambda>(g, visiting, visited, ds). (unopened g visiting, 2 * length ds)))"
    by (cases "js_has g n") (auto simp: unopened_Cons unopened_other depsOf_def js_has_def)
qed auto

declare visit.simps [simp del]

definition hasCycle :: "deps_map \<Rightarrow> bool" where
  "hasCycle g = fst (visit_deps g [] [] (js_keys g))"

subsection \<open>Correctness of the search\<close>

definition dep_rel :: "deps_map \<Rightarrow> (string \<times> string) set" where
  "dep_rel g = {(n, d). d \<in> set (depsOf g n) \<and> js_has g d}"

lemma visit_True_cycle:
  "fst (visit g visiting visited n) \<Longrightarrow> \<forall>m \<in> set visiting. (m, n) \<in> (dep_rel g)\<^sup>+ \<Longrightarrow> \<not> acyclic (dep_rel g)"
  "fst (visit_deps g visiting visited ds) \<Longrightarrow>
     \<forall>m \<in> set visiting. \<forall>d \<in> set ds. js_has g d \<longrightarrow> (m, d) \<in> (dep_rel g)\<^sup>+ \<Longrightarrow> \<not> acyclic (dep_rel g)"
proof (induction g visiting visited n and g visiting visited ds rule: visit_visit_deps.induct)
  case (1 g visiting visited n)
  show ?case
  proof (cases "n \<in> set visiting")
    case True
    with "1.prems"(2) show ?thesis by (auto simp: acyclic_def)
  next
    case False
    from "1.prems"(1) False have nv: "n \<notin> set visited"
      and deep: "fst (visit_deps g (n # visiting) visited (depsOf g n))"
      by (auto simp: visit.simps [of g visiting visited n] split: if_splits prod.splits bool.splits)
    have "\<forall>m \<in> set (n # visiting). \<forall>d \<in> set (depsOf g n). js_has g d \<longrightarrow> (m, d) \<in> (dep_rel g)\<^sup>+"
      using "1.prems"(2) by (auto simp: dep_rel_def intro: trancl_into_trancl)
    with "1.IH" nv False deep show ?thesis by blast
  qed
next
  case (2 g visiting visited)
  then show ?case by simp
next
  case (3 g visiting visited d ds)
  show ?case
  proof (cases "js_has g d")
    case False
    with 3 show ?thesis by simp
  next
    case True
    obtain b v where v: "visit g visiting visited d = (b, v)" by force
    show ?thesis
    proof (cases b)
      case True
      with "3.IH"(2) \<open>js_has g d\<close> v "3.prems"(2) show ?thesis by simp
    next
      case False
      with "3.IH"(3) [OF _ v [symmetric]] \<open>js_has g d\<close> v "3.prems" show ?thesis by simp
    qed
  qed
qed

text \<open>What the finished nodes satisfy: closed under dependencies and on no cycle.\<close>

definition finished :: "deps_map \<Rightarrow> string list \<Rightarrow> bool" where
  "finished g v \<longleftrightarrow> (\<forall>x \<in> set v. (\<forall>d. (x, d) \<in> dep_rel g \<longrightarrow> d \<in> set v) \<and> (x, x) \<notin> (dep_rel g)\<^sup>+)"

lemma finished_closed:
  assumes "finished g v" and "x \<in> set v" and "(x, y) \<in> (dep_rel g)\<^sup>*"
  shows "y \<in> set v"
  using assms(3,2) by (induction rule: rtrancl_induct) (use assms(1) in \<open>auto simp: finished_def\<close>)

lemma finished_add:
  assumes "finished g v" and "\<And>d. (n, d) \<in> dep_rel g \<Longrightarrow> d \<in> set v"
  shows "finished g (js_add n v)"
proof (cases "n \<in> set v")
  case True
  with assms(1) show ?thesis by (simp add: js_add_def)
next
  case False
  have "(n, n) \<notin> (dep_rel g)\<^sup>+"
  proof
    assume "(n, n) \<in> (dep_rel g)\<^sup>+"
    then obtain d where "(n, d) \<in> dep_rel g" "(d, n) \<in> (dep_rel g)\<^sup>*" by (auto dest: tranclD)
    with finished_closed [OF assms(1)] assms(2) False show False by blast
  qed
  with assms show ?thesis by (auto simp: finished_def)
qed

lemma visit_False_finished:
  "visit g visiting visited n = (False, v) \<Longrightarrow> finished g visited \<Longrightarrow>
     finished g v \<and> set visited \<subseteq> set v \<and> n \<in> set v"
  "visit_deps g visiting visited ds = (False, v) \<Longrightarrow> finished g visited \<Longrightarrow>
     finished g v \<and> set visited \<subseteq> set v \<and> (\<forall>d \<in> set ds. js_has g d \<longrightarrow> d \<in> set v)"
proof (induction g visiting visited n and g visiting visited ds arbitrary: v and v rule: visit_visit_deps.induct)
  case (1 g visiting visited n)
  show ?case
  proof (cases "n \<in> set visited")
    case True
    with 1 show ?thesis by (simp add: visit.simps [of g visiting visited n])
  next
    case False
    from "1.prems"(1) False obtain w where nv: "n \<notin> set visiting"
      and deep: "visit_deps g (n # visiting) visited (depsOf g n) = (False, w)" and v: "v = js_add n w"
      by (auto simp: visit.simps [of g visiting visited n] split: if_splits prod.splits bool.splits)
    from "1.IH" [OF False nv deep "1.prems"(2)]
    have w: "finished g w" "set visited \<subseteq> set w" "\<forall>d \<in> set (depsOf g n). js_has g d \<longrightarrow> d \<in> set w"
      by blast+
    then have "finished g v" unfolding v by (intro finished_add) (auto simp: dep_rel_def)
    with w v show ?thesis by auto
  qed
next
  case (2 g visiting visited)
  then show ?case by simp
next
  case (3 g visiting visited d ds)
  show ?case
  proof (cases "js_has g d")
    case False
    with 3 show ?thesis by auto
  next
    case True
    from "3.prems"(1) True obtain w where w: "visit g visiting visited d = (False, w)"
      and rest: "visit_deps g visiting w ds = (False, v)"
      by (auto split: prod.splits bool.splits)
    from True have has: "\<not> \<not> js_has g d" by simp
    from "3.IH"(2) [OF has w "3.prems"(2)] have fw: "finished g w" "set visited \<subseteq> set w" "d \<in> set w" by blast+
    from "3.IH"(3) [OF has w [symmetric] refl rest fw(1)] fw show ?thesis by auto
  qed
qed

lemma hasCycle_iff: "hasCycle g \<longleftrightarrow> \<not> acyclic (dep_rel g)"
proof
  assume "hasCycle g"
  then show "\<not> acyclic (dep_rel g)"
    using visit_True_cycle(2) [of g "[]" "[]" "js_keys g"] by (simp add: hasCycle_def)
next
  assume cyc: "\<not> acyclic (dep_rel g)"
  show "hasCycle g"
  proof (rule ccontr)
    assume "\<not> hasCycle g"
    then obtain v where "visit_deps g [] [] (js_keys g) = (False, v)"
      by (cases "visit_deps g [] [] (js_keys g)") (simp add: hasCycle_def)
    from visit_False_finished(2) [OF this] have fin: "finished g v" and all: "\<forall>d \<in> set (js_keys g). js_has g d \<longrightarrow> d \<in> set v"
      by (simp_all add: finished_def)
    from cyc obtain x where x: "(x, x) \<in> (dep_rel g)\<^sup>+" by (auto simp: acyclic_def)
    then obtain y where "(y, x) \<in> dep_rel g" by (meson tranclD2)
    then have "js_has g x" by (simp add: dep_rel_def)
    with all have "x \<in> set v" by (auto simp: js_has_iff)
    with fin x show False by (auto simp: finished_def)
  qed
qed

section \<open>Validation\<close>

definition validateNodeRuntimePolicy :: "dag_node \<Rightarrow> string list" where
  "validateNodeRuntimePolicy node =
     (case nd_timeoutMs node of
        None \<Rightarrow> []
      | Some t \<Rightarrow> if t \<le> 0 then [''Node '' @ nd_id node @ '' timeoutMs must be a positive integer''] else [])
     @ (case nd_retryPolicy node of
          None \<Rightarrow> []
        | Some p \<Rightarrow>
            (if rt_maxAttempts p \<le> 0
             then [''Node '' @ nd_id node @ '' retryPolicy.maxAttempts must be a positive integer''] else [])
            @ (if rt_backoffMs p < 0
               then [''Node '' @ nd_id node @ '' retryPolicy.backoffMs must be a non-negative integer''] else [])
            @ (case rt_maxBackoffMs p of
                 None \<Rightarrow> []
               | Some m \<Rightarrow>
                   (if m < 0
                    then [''Node '' @ nd_id node @ '' retryPolicy.maxBackoffMs must be a non-negative integer'']
                    else [])
                   @ (if m < rt_backoffMs p
                      then [''Node '' @ nd_id node
                              @ '' retryPolicy.maxBackoffMs must be greater than or equal to backoffMs'']
                      else [])))"

text \<open>The loop over the nodes: the identifiers seen and those seen twice.\<close>

fun collectIds :: "dag_node list \<Rightarrow> string list \<Rightarrow> string list \<Rightarrow> string list \<times> string list" where
  "collectIds [] nodeIds duplicateIds = (nodeIds, duplicateIds)"
| "collectIds (n # ns) nodeIds duplicateIds =
     collectIds ns (js_add (nd_id n) nodeIds)
       (if nd_id n \<in> set nodeIds then js_add (nd_id n) duplicateIds else duplicateIds)"

definition initialDeps :: "dag_node list \<Rightarrow> deps_map" where
  "initialDeps nodes = js_map_of_list (map (\<lambda>n. (nd_id n, js_set_of (nd_dependsOn n))) nodes)"

text \<open>One edge: the error it causes, or the dependency it adds.\<close>

definition addEdge :: "string list \<Rightarrow> dag_edge \<Rightarrow> string list \<times> deps_map \<Rightarrow> string list \<times> deps_map" where
  "addEdge nodeIds e acc =
     (case acc of (errors, deps) \<Rightarrow>
        if edge_from e = edge_to e
        then (errors @ [''Edge cannot be a self-loop: '' @ edge_from e @ '' -> '' @ edge_to e], deps)
        else if edge_from e \<notin> set nodeIds
        then (errors @ [''Edge references missing dependency: '' @ edge_from e], deps)
        else if edge_to e \<notin> set nodeIds
        then (errors @ [''Edge references missing node: '' @ edge_to e], deps)
        else (errors, case js_get deps (edge_to e) of
                        None \<Rightarrow> deps
                      | Some ds \<Rightarrow> js_set (edge_to e) (js_add (edge_from e) ds) deps))"

definition missingDeps :: "string list \<Rightarrow> deps_map \<Rightarrow> string list" where
  "missingDeps nodeIds deps =
     concat (map (\<lambda>(n, ds). map (\<lambda>d. ''Node '' @ n @ '' has missing dependency: '' @ d)
                              (filter (\<lambda>d. d \<notin> set nodeIds) ds)) deps)"

definition validateDag :: "schema_env \<Rightarrow> (dag \<Rightarrow> string list) \<Rightarrow> dag \<Rightarrow> bool \<times> string list" where
  "validateDag E issues g =
     (if \<not> DagSchema E g then (False, issues g)
      else let (nodeIds, duplicateIds) = collectIds (dag_nodes g) [] [];
               policyErrors = concat (map validateNodeRuntimePolicy (dag_nodes g));
               duplicateErrors = map (\<lambda>d. ''Duplicate node id: '' @ d) duplicateIds;
               (edgeErrors, deps) = fold (addEdge nodeIds) (dag_edges g) ([], initialDeps (dag_nodes g));
               errors = policyErrors @ duplicateErrors @ edgeErrors @ missingDeps nodeIds deps
                        @ (if hasCycle deps then [''Cycle detected in DAG dependencies''] else [])
           in (errors = [], errors))"

subsection \<open>What validation decides\<close>

definition dag_ids :: "dag \<Rightarrow> string list" where
  "dag_ids g = map nd_id (dag_nodes g)"

text \<open>The dependency relation of a graph: a declared dependency or an edge.\<close>

definition dag_dep :: "dag \<Rightarrow> (string \<times> string) set" where
  "dag_dep g = {(nd_id n, d) | n d. n \<in> set (dag_nodes g) \<and> d \<in> set (nd_dependsOn n)}
     \<union> {(edge_to e, edge_from e) | e. e \<in> set (dag_edges g)}"

definition backoff_ordered :: "dag_node \<Rightarrow> bool" where
  "backoff_ordered n =
     (case nd_retryPolicy n of None \<Rightarrow> True
      | Some p \<Rightarrow> (case rt_maxBackoffMs p of None \<Rightarrow> True | Some m \<Rightarrow> rt_backoffMs p \<le> m))"

definition dag_well_formed :: "dag \<Rightarrow> bool" where
  "dag_well_formed g \<longleftrightarrow> distinct (dag_ids g)
     \<and> (\<forall>n d. (n, d) \<in> dag_dep g \<longrightarrow> n \<in> set (dag_ids g) \<and> d \<in> set (dag_ids g))
     \<and> acyclic (dag_dep g) \<and> list_all backoff_ordered (dag_nodes g)"

lemma validateNodeRuntimePolicy_Nil:
  "DagNodeSchema n \<Longrightarrow> validateNodeRuntimePolicy n = [] \<longleftrightarrow> backoff_ordered n"
  by (auto simp: validateNodeRuntimePolicy_def DagNodeSchema_def RetryPolicySchema_def backoff_ordered_def
      split: option.splits)

lemma collectIds_eq:
  "set (fst (collectIds ns ids dup)) = set ids \<union> nd_id ` set ns"
  "snd (collectIds ns ids dup) = [] \<longleftrightarrow> dup = [] \<and> distinct (map nd_id ns) \<and> nd_id ` set ns \<inter> set ids = {}"
  by (induction ns arbitrary: ids dup) (auto simp: js_add_def)

lemma js_has_initialDeps [simp]: "js_has (initialDeps ns) k \<longleftrightarrow> k \<in> nd_id ` set ns"
  by (simp add: js_has_iff initialDeps_def flip: set_map)
    (simp add: js_map_of_list_keys comp_def)

lemma depsOf_initialDeps:
  assumes "distinct (map nd_id ns)" and "n \<in> set ns"
  shows "depsOf (initialDeps ns) (nd_id n) = js_set_of (nd_dependsOn n)"
proof -
  let ?ps = "map (\<lambda>n. (nd_id n, js_set_of (nd_dependsOn n))) ns"
  have "map_of (rev ?ps) (nd_id n) = Some (js_set_of (nd_dependsOn n))"
    using assms by (intro map_of_is_SomeI) (auto simp: rev_map comp_def simp flip: rev_map)
  then show ?thesis by (simp add: depsOf_def initialDeps_def js_map_of_list_get)
qed

text \<open>The loop over the edges keeps the keys and adds exactly the edges that raise no error.\<close>

lemma addEdge_fold:
  assumes "fold (addEdge ids) es (errs, deps) = (errs', deps')"
    and "set ids = {k. js_has deps k}"
  shows "(\<forall>k. js_has deps' k \<longleftrightarrow> js_has deps k)
     \<and> (errs' = [] \<longleftrightarrow> errs = [] \<and> (\<forall>e \<in> set es. edge_from e \<noteq> edge_to e \<and> edge_from e \<in> set ids \<and> edge_to e \<in> set ids))
     \<and> (errs' = [] \<longrightarrow>
          (\<forall>n. set (depsOf deps' n) = set (depsOf deps n) \<union> {edge_from e | e. e \<in> set es \<and> edge_to e = n}))"
  using assms
proof (induction es arbitrary: errs deps)
  case Nil
  then show ?case by simp
next
  case (Cons e es)
  obtain errs1 deps1 where step: "addEdge ids e (errs, deps) = (errs1, deps1)" by force
  let ?ok = "edge_from e \<noteq> edge_to e \<and> edge_from e \<in> set ids \<and> edge_to e \<in> set ids"
  have has: "js_has deps1 k \<longleftrightarrow> js_has deps k" for k
    using step by (auto simp: addEdge_def js_has_def split: if_splits option.splits)
  have bad: "errs1 \<noteq> []" if "\<not> ?ok" using step that by (auto simp: addEdge_def split: if_splits)
  have good: "errs1 = errs \<and> (\<forall>n. set (depsOf deps1 n) = set (depsOf deps n) \<union> (if n = edge_to e then {edge_from e} else {}))"
    if ?ok
  proof -
    have "js_has deps (edge_to e)" using that Cons.prems(2) by auto
    then obtain ds where "js_get deps (edge_to e) = Some ds" by (auto simp: js_has_def)
    with step that show ?thesis by (auto simp: addEdge_def depsOf_def)
  qed
  have "fold (addEdge ids) es (errs1, deps1) = (errs', deps')" using Cons.prems(1) step by simp
  from Cons.IH [OF this] Cons.prems(2) has
  have IH: "\<forall>k. js_has deps' k \<longleftrightarrow> js_has deps1 k"
    "errs' = [] \<longleftrightarrow> errs1 = [] \<and> (\<forall>e \<in> set es. edge_from e \<noteq> edge_to e \<and> edge_from e \<in> set ids \<and> edge_to e \<in> set ids)"
    "errs' = [] \<longrightarrow> (\<forall>n. set (depsOf deps' n) = set (depsOf deps1 n) \<union> {edge_from e | e. e \<in> set es \<and> edge_to e = n})"
    by auto
  show ?case
  proof (cases ?ok)
    case True
    with good IH has show ?thesis by auto
  next
    case False
    have "errs' \<noteq> []" using IH(2) bad [OF False] by simp
    with False IH(1) has show ?thesis by auto
  qed
qed

lemma addEdge_keys: "js_keys (snd (fold (addEdge ids) es acc)) = js_keys (snd acc)"
proof (induction es arbitrary: acc)
  case Nil
  then show ?case by simp
next
  case (Cons e es)
  have "js_keys (snd (addEdge ids e acc)) = js_keys (snd acc)"
    by (cases acc) (auto simp: addEdge_def js_keys_set map_of_eq_None_iff split: option.splits dest: map_of_SomeD
        intro!: rev_image_eqI)
  with Cons show ?case by simp
qed

lemma depsOf_subset: "set (depsOf deps n) \<subseteq> A \<longleftrightarrow> (\<forall>ds. js_get deps n = Some ds \<longrightarrow> set ds \<subseteq> A)"
  by (cases "js_get deps n") (simp_all add: depsOf_def)

lemma missingDeps_Nil:
  assumes "distinct (js_keys deps)"
  shows "missingDeps ids deps = [] \<longleftrightarrow> (\<forall>n. set (depsOf deps n) \<subseteq> set ids)"
proof -
  have "missingDeps ids deps = [] \<longleftrightarrow> (\<forall>n ds. (n, ds) \<in> set deps \<longrightarrow> set ds \<subseteq> set ids)"
    by (fastforce simp: missingDeps_def filter_empty_conv)
  also have "\<dots> \<longleftrightarrow> (\<forall>n ds. js_get deps n = Some ds \<longrightarrow> set ds \<subseteq> set ids)"
    by (simp only: distinct_keys_get [OF assms])
  finally show ?thesis
    using depsOf_subset by blast
qed

lemma depsOf_spec:
  assumes "distinct (dag_ids g)" and "\<forall>n. set (depsOf deps n) = set (depsOf (initialDeps (dag_nodes g)) n)
      \<union> {edge_from e | e. e \<in> set (dag_edges g) \<and> edge_to e = n}"
  shows "(n, d) \<in> dag_dep g \<longleftrightarrow> d \<in> set (depsOf deps n)"
proof -
  have "d \<in> set (depsOf (initialDeps (dag_nodes g)) n)
      \<longleftrightarrow> (\<exists>m \<in> set (dag_nodes g). nd_id m = n \<and> d \<in> set (nd_dependsOn m))"
  proof (cases "n \<in> nd_id ` set (dag_nodes g)")
    case True
    then obtain m where m: "m \<in> set (dag_nodes g)" "n = nd_id m" by blast
    with assms(1) have uniq: "m' = m" if "m' \<in> set (dag_nodes g)" "nd_id m' = n" for m'
      using that by (auto simp: dag_ids_def distinct_map inj_on_def)
    from m assms(1) have "set (depsOf (initialDeps (dag_nodes g)) n) = set (nd_dependsOn m)"
      by (simp add: depsOf_initialDeps dag_ids_def)
    with m uniq show ?thesis by blast
  next
    case False
    then have "\<not> js_has (initialDeps (dag_nodes g)) n" by simp
    then have "depsOf (initialDeps (dag_nodes g)) n = []" by (simp add: depsOf_def js_has_def)
    with False show ?thesis by auto
  qed
  with assms(2) show ?thesis by (auto simp: dag_dep_def)
qed

lemma validateDag_accepts:
  "fst (validateDag E issues g) \<longleftrightarrow> DagSchema E g \<and> dag_well_formed g"
proof (cases "DagSchema E g")
  case False
  then show ?thesis by (simp add: validateDag_def)
next
  case True
  obtain ids dup where c: "collectIds (dag_nodes g) [] [] = (ids, dup)" by force
  obtain errs deps where f: "fold (addEdge ids) (dag_edges g) ([], initialDeps (dag_nodes g)) = (errs, deps)" by force
  have ids: "set ids = set (dag_ids g)" and dup: "dup = [] \<longleftrightarrow> distinct (dag_ids g)"
    using collectIds_eq [of "dag_nodes g" "[]" "[]"] c by (simp_all add: dag_ids_def)
  have "set ids = {k. js_has (initialDeps (dag_nodes g)) k}" using ids by (auto simp: dag_ids_def)
  note fold = addEdge_fold [OF f this]
  have keys: "js_keys deps = js_keys (initialDeps (dag_nodes g))"
    using addEdge_keys [of ids "dag_edges g" "([], initialDeps (dag_nodes g))"] f by simp
  then have dist: "distinct (js_keys deps)" by (simp add: initialDeps_def js_map_of_list_keys)
  have has: "js_has deps k \<longleftrightarrow> k \<in> set (dag_ids g)" for k using fold by (simp add: dag_ids_def)
  have pol: "concat (map validateNodeRuntimePolicy (dag_nodes g)) = [] \<longleftrightarrow> list_all backoff_ordered (dag_nodes g)"
    using True validateNodeRuntimePolicy_Nil by (auto simp: DagSchema_def list_all_iff)
  have valid: "fst (validateDag E issues g) \<longleftrightarrow> list_all backoff_ordered (dag_nodes g) \<and> distinct (dag_ids g)
      \<and> errs = [] \<and> missingDeps ids deps = [] \<and> \<not> hasCycle deps"
    using True c f pol dup by (auto simp: validateDag_def Let_def)
  show ?thesis
  proof (cases "distinct (dag_ids g) \<and> errs = []")
    case False
    have "\<not> dag_well_formed g" if "distinct (dag_ids g)" "errs \<noteq> []"
    proof -
      from that fold ids obtain e where e: "e \<in> set (dag_edges g)"
        "edge_from e = edge_to e \<or> edge_from e \<notin> set (dag_ids g) \<or> edge_to e \<notin> set (dag_ids g)" by auto
      then have "(edge_to e, edge_from e) \<in> dag_dep g" by (auto simp: dag_dep_def)
      with e(2) show ?thesis by (fastforce simp: dag_well_formed_def acyclic_def)
    qed
    with False valid show ?thesis by (auto simp: dag_well_formed_def)
  next
    case ok: True
    have spec: "(n, d) \<in> dag_dep g \<longleftrightarrow> d \<in> set (depsOf deps n)" for n d
      using depsOf_spec [of g deps] ok fold by simp
    have miss: "missingDeps ids deps = [] \<longleftrightarrow> (\<forall>n d. (n, d) \<in> dag_dep g \<longrightarrow> d \<in> set (dag_ids g))"
      unfolding missingDeps_Nil [OF dist] spec ids by blast
    have src: "n \<in> set (dag_ids g)" if "(n, d) \<in> dag_dep g" for n d
    proof -
      have "depsOf deps n \<noteq> []" using that spec by auto
      then have "js_has deps n" by (auto simp: depsOf_def js_has_def split: option.splits)
      then show ?thesis by (simp add: has)
    qed
    have "dep_rel deps = dag_dep g" if "\<forall>n d. (n, d) \<in> dag_dep g \<longrightarrow> d \<in> set (dag_ids g)"
      using that spec has by (auto simp: dep_rel_def)
    then show ?thesis
      using valid ok miss src True hasCycle_iff [of deps] by (auto simp: dag_well_formed_def)
  qed
qed

lemma validateDag_errors: "DagSchema E g \<Longrightarrow> snd (validateDag E issues g) = [] \<longleftrightarrow> fst (validateDag E issues g)"
  by (simp add: validateDag_def Let_def case_prod_beta)

text \<open>
  C7: Validation of an execution graph accepts exactly the well-formed ones: those that pass the
  schema, have distinct node identifiers, whose dependencies and edges all point to nodes of the
  graph, whose dependency relation has no cycle, and whose retry policies have ordered backoffs.
\<close>

theorem validateDag_iff:
  "fst (validateDag E issues g) \<longleftrightarrow> DagSchema E g \<and> dag_well_formed g"
  by (rule validateDag_accepts)

end
