(* ===== verification/Topological_Order.thy ===== *)
theory Topological_Order
  imports Dag_Protocol
begin

text \<open>
  The layered topological sort that \<open>topologicalTasks\<close> (\<open>dagCompiler.ts\<close>) and \<open>topologicalNodes\<close>
  (\<open>executorSimulator.ts\<close>) share: while nodes remain, the nodes without open dependencies are taken in
  string order, removed, and struck from the dependency sets of the rest. \<open>None\<close> is the exit with no
  node ready. The loop ends because every round removes a node, it returns exactly when the graph is
  acyclic and closed, and then every node comes after its dependencies.
\<close>

section \<open>The loop\<close>

definition readyIds :: "deps_map \<Rightarrow> string list" where
  "readyIds remaining = sort (map fst (filter (\<lambda>(k, ds). ds = []) remaining))"

definition strike :: "string \<Rightarrow> deps_map \<Rightarrow> deps_map" where
  "strike k remaining = map (\<lambda>(k', ds). (k', removeAll k ds)) (js_delete k remaining)"

lemma length_strike_le: "length (strike k m) \<le> length m"
  by (simp add: strike_def AList.delete_eq)

lemma length_fold_strike_le: "length (fold strike ks m) \<le> length m"
  by (induction ks arbitrary: m) (auto intro: le_trans length_strike_le)

lemma length_strike_less: "k \<in> fst ` set m \<Longrightarrow> length (strike k m) < length m"
  by (auto simp: strike_def AList.delete_eq intro: length_filter_less)

lemma set_readyIds: "set (readyIds m) = {k. (k, []) \<in> set m}"
  by (force simp: readyIds_def)

lemma length_fold_strike_less:
  assumes "readyIds m \<noteq> []"
  shows "length (fold strike (readyIds m) m) < length m"
proof -
  obtain k ks where r: "readyIds m = k # ks" using assms by (cases "readyIds m") auto
  then have "k \<in> set (readyIds m)" by simp
  then have "(k, []) \<in> set m" unfolding set_readyIds by blast
  then have "k \<in> fst ` set m" by (rule rev_image_eqI) simp
  then have "length (strike k m) < length m" by (rule length_strike_less)
  with r length_fold_strike_le [of ks "strike k m"] show ?thesis by simp
qed

function topo_loop :: "deps_map \<Rightarrow> string list \<Rightarrow> string list option" where
  "topo_loop remaining ordered =
     (if remaining = [] then Some ordered
      else if readyIds remaining = [] then None
      else topo_loop (fold strike (readyIds remaining) remaining) (ordered @ readyIds remaining))"
  by pat_completeness auto
termination
  by (relation "measure (\<lambda>(remaining, ordered). length remaining)") (auto intro: length_fold_strike_less)

declare topo_loop.simps [simp del]

section \<open>Correctness\<close>

text \<open>What remains of a graph after the nodes \<open>pre\<close> were struck.\<close>

definition residual :: "deps_map \<Rightarrow> string list \<Rightarrow> deps_map" where
  "residual g pre = map (\<lambda>(k, ds). (k, filter (\<lambda>d. d \<notin> set pre) ds)) (filter (\<lambda>(k, ds). k \<notin> set pre) g)"

lemma residual_Nil: "residual g [] = g"
  by (simp add: residual_def case_prod_beta)

lemma removeAll_filter: "removeAll k (filter (\<lambda>d. d \<notin> set pre) ds) = filter (\<lambda>d. d \<noteq> k \<and> d \<notin> set pre) ds"
  by (induction ds) auto

lemma strike_residual: "strike k (residual g pre) = residual g (pre @ [k])"
  by (induction g) (auto simp: strike_def residual_def removeAll_filter)

lemma fold_strike_residual: "fold strike ks (residual g pre) = residual g (pre @ ks)"
  by (induction ks arbitrary: pre) (simp_all add: strike_residual)

lemma residual_eq_Nil: "residual g pre = [] \<longleftrightarrow> fst ` set g \<subseteq> set pre"
  by (force simp: residual_def filter_empty_conv)

definition edge_rel :: "deps_map \<Rightarrow> (string \<times> string) set" where
  "edge_rel g = {(k, d). \<exists>ds. (k, ds) \<in> set g \<and> d \<in> set ds}"

lemma ready_residual:
  "k \<in> set (readyIds (residual g pre)) \<longleftrightarrow> k \<notin> set pre \<and> (\<exists>ds. (k, ds) \<in> set g \<and> set ds \<subseteq> set pre)"
proof -
  have "(k, []) \<in> set (residual g pre) \<longleftrightarrow> (\<exists>ds. (k, ds) \<in> set g \<and> k \<notin> set pre \<and> filter (\<lambda>d. d \<notin> set pre) ds = [])"
    by (force simp: residual_def)
  then show ?thesis by (auto simp: set_readyIds filter_empty_conv)
qed

lemma distinct_readyIds: "distinct (map fst g) \<Longrightarrow> distinct (readyIds (residual g pre))"
  by (auto simp: readyIds_def residual_def filter_map comp_def case_prod_beta distinct_map inj_on_def)

text \<open>Every node once, after all its dependencies.\<close>

definition dep_closed_order :: "deps_map \<Rightarrow> string list \<Rightarrow> bool" where
  "dep_closed_order g xs \<longleftrightarrow> distinct xs
     \<and> (\<forall>i < length xs. xs ! i \<in> fst ` set g \<and> (\<forall>d. (xs ! i, d) \<in> edge_rel g \<longrightarrow> d \<in> set (take i xs)))"

lemma dep_closed_order_append:
  assumes "dep_closed_order g xs" and "distinct ys" and "set xs \<inter> set ys = {}"
    and "\<And>y. y \<in> set ys \<Longrightarrow> y \<in> fst ` set g \<and> (\<forall>d. (y, d) \<in> edge_rel g \<longrightarrow> d \<in> set xs)"
  shows "dep_closed_order g (xs @ ys)"
  unfolding dep_closed_order_def
proof (intro conjI allI impI)
  show "distinct (xs @ ys)" using assms(1-3) by (simp add: dep_closed_order_def)
  fix i assume i: "i < length (xs @ ys)"
  show "(xs @ ys) ! i \<in> fst ` set g"
    using i assms(1,4) by (cases "i < length xs") (auto simp: dep_closed_order_def nth_append)
  fix d assume d: "((xs @ ys) ! i, d) \<in> edge_rel g"
  show "d \<in> set (take i (xs @ ys))"
  proof (cases "i < length xs")
    case True
    with d assms(1) show ?thesis by (auto simp: dep_closed_order_def nth_append)
  next
    case False
    with i have "(xs @ ys) ! i \<in> set ys" by (auto simp: nth_append)
    with assms(4) d False show ?thesis by auto
  qed
qed

lemma topo_loop_sound:
  assumes "topo_loop (residual g pre) pre = Some xs" and "distinct (map fst g)" and "dep_closed_order g pre"
  shows "dep_closed_order g xs \<and> fst ` set g \<subseteq> set xs"
  using assms
proof (induction "residual g pre" pre arbitrary: rule: topo_loop.induct)
  case (1 pre)
  show ?case
  proof (cases "residual g pre = []")
    case True
    with "1.prems" have "xs = pre" by (simp add: topo_loop.simps [of "[]"])
    with "1.prems" True show ?thesis by (simp add: residual_eq_Nil)
  next
    case False
    let ?r = "readyIds (residual g pre)"
    from False "1.prems"(1) have r: "?r \<noteq> []"
      and rec: "topo_loop (residual g (pre @ ?r)) (pre @ ?r) = Some xs"
      by (auto simp: topo_loop.simps [of "residual g pre"] fold_strike_residual split: if_splits)
    have "dep_closed_order g (pre @ ?r)"
    proof (rule dep_closed_order_append)
      show "distinct ?r" using "1.prems"(2) by (rule distinct_readyIds)
      show "set pre \<inter> set ?r = {}" by (auto simp: ready_residual)
      fix y assume "y \<in> set ?r"
      then obtain ds where ds: "(y, ds) \<in> set g" "set ds \<subseteq> set pre" by (auto simp: ready_residual)
      have "d \<in> set pre" if d: "(y, d) \<in> edge_rel g" for d
      proof -
        from d obtain ds' where ds': "(y, ds') \<in> set g" "d \<in> set ds'" by (auto simp: edge_rel_def)
        then have "ds' = ds" using "1.prems"(2) ds(1) by (meson eq_key_imp_eq_value)
        with ds' ds(2) show ?thesis by auto
      qed
      moreover have "y \<in> fst ` set g" using ds(1) by (rule rev_image_eqI) simp
      ultimately show "y \<in> fst ` set g \<and> (\<forall>d. (y, d) \<in> edge_rel g \<longrightarrow> d \<in> set pre)" by blast
    qed (fact "1.prems"(3))
    with "1.hyps" [OF False r] "1.prems"(2) rec show ?thesis by (simp add: fold_strike_residual)
  qed
qed

lemma topo_loop_complete:
  assumes "acyclic (edge_rel g)" and "\<And>k d. (k, d) \<in> edge_rel g \<Longrightarrow> d \<in> fst ` set g"
  shows "\<exists>xs. topo_loop (residual g pre) pre = Some xs"
proof (induction "residual g pre" pre rule: topo_loop.induct)
  case (1 pre)
  let ?r = "readyIds (residual g pre)"
  have "?r \<noteq> []" if ne: "residual g pre \<noteq> []"
  proof -
    let ?Q = "fst ` set g - set pre"
    have "edge_rel g \<subseteq> (fst ` set g) \<times> (fst ` set g)" using assms(2) by (force simp: edge_rel_def)
    then have "finite (edge_rel g)" by (rule finite_subset) simp
    then have wf: "wf ((edge_rel g)\<inverse>)" using assms(1) by (simp add: finite_acyclic_wf_converse)
    from ne obtain x where "x \<in> ?Q" by (auto simp: residual_eq_Nil)
    with wf obtain z where z: "z \<in> ?Q" "\<And>y. (y, z) \<in> (edge_rel g)\<inverse> \<Longrightarrow> y \<notin> ?Q" by (rule wfE_min) blast
    then obtain ds where ds: "(z, ds) \<in> set g" by auto
    have "set ds \<subseteq> set pre"
    proof
      fix d assume "d \<in> set ds"
      then have e: "(z, d) \<in> edge_rel g" using ds by (auto simp: edge_rel_def)
      with z(2) [of d] assms(2) [OF e] show "d \<in> set pre" by auto
    qed
    with z ds have "z \<in> set ?r" by (auto simp: ready_residual)
    then show ?thesis by (metis empty_iff empty_set)
  qed
  with 1 show ?case
    by (cases "residual g pre = []")
      (simp_all add: topo_loop.simps [of "residual g pre"] topo_loop.simps [of "[]"] fold_strike_residual)
qed

lemma dep_closed_order_acyclic:
  assumes "dep_closed_order g xs" and "fst ` set g \<subseteq> set xs"
  shows "acyclic (edge_rel g)"
proof -
  define pos where "pos x = (LEAST i. i < length xs \<and> xs ! i = x)" for x
  have pos_nth: "pos (xs ! i) = i" if "i < length xs" for i
    unfolding pos_def using assms(1) that
    by (intro Least_equality) (auto simp: dep_closed_order_def nth_eq_iff_index_eq)
  have "pos d < pos k" if "(k, d) \<in> edge_rel g" for k d
  proof -
    have "k \<in> set xs" using that assms(2) by (force simp: edge_rel_def)
    then obtain i where i: "i < length xs" "xs ! i = k" by (auto simp: in_set_conv_nth)
    with assms(1) that have "d \<in> set (take i xs)" by (auto simp: dep_closed_order_def)
    then obtain j where "j < i" "xs ! j = d" using i by (auto simp: in_set_conv_nth)
    with pos_nth [of i] pos_nth [of j] i show ?thesis by simp
  qed
  then have "(edge_rel g)\<inverse> \<subseteq> measure pos" by auto
  then have "wf ((edge_rel g)\<inverse>)" by (metis wf_measure wf_subset)
  then show ?thesis by (metis acyclic_converse wf_acyclic)
qed

section \<open>Sorting keyed records\<close>

text \<open>
  Both callers look the identifiers of the order up in a map from key to record. With distinct keys
  this is a permutation of the records, dependencies first.
\<close>

lemma map_of_keyed:
  "distinct (map key xs) \<Longrightarrow> x \<in> set xs \<Longrightarrow> map_of (map (\<lambda>x. (key x, f x)) xs) (key x) = Some (f x)"
  by (rule map_of_is_SomeI) (auto simp: comp_def)

lemma map_filter_keyed:
  assumes "distinct (map key xs)" and "set order \<subseteq> key ` set xs"
  shows "map key (List.map_filter (map_of (map (\<lambda>x. (key x, x)) xs)) order) = order
     \<and> set (List.map_filter (map_of (map (\<lambda>x. (key x, x)) xs)) order) \<subseteq> set xs"
  using assms(2)
proof (induction order)
  case Nil
  then show ?case by (simp add: map_filter_def)
next
  case (Cons k ks)
  then obtain x where "x \<in> set xs" "k = key x" by auto
  with Cons map_of_keyed [OF assms(1), of x "\<lambda>x. x"] show ?case
    by (simp add: map_filter_def)
qed

lemma topo_sort_keyed:
  assumes dist: "distinct (map key xs)" and keys: "map fst g = map key xs" and acyc: "acyclic (edge_rel g)"
    and closed: "\<And>k d. (k, d) \<in> edge_rel g \<Longrightarrow> d \<in> fst ` set g"
  obtains ys where "topo_loop g [] = Some (map key ys)"
    and "List.map_filter (map_of (map (\<lambda>x. (key x, x)) xs)) (map key ys) = ys"
    and "set ys = set xs" and "distinct (map key ys)" and "dep_closed_order g (map key ys)"
proof -
  have dom: "fst ` set g = key ` set xs" using keys by (metis set_map)
  obtain order where loop: "topo_loop (residual g []) [] = Some order"
    using topo_loop_complete [of g "[]"] acyc closed by blast
  have order: "dep_closed_order g order" "key ` set xs \<subseteq> set order"
    using topo_loop_sound [OF loop] dist keys dom by (simp_all add: dep_closed_order_def)
  have sub: "set order \<subseteq> key ` set xs"
    using order(1) dom by (force simp: dep_closed_order_def in_set_conv_nth)
  define ys where "ys = List.map_filter (map_of (map (\<lambda>x. (key x, x)) xs)) order"
  have ids: "map key ys = order" and ys: "set ys \<subseteq> set xs"
    using map_filter_keyed [OF dist sub] by (simp_all add: ys_def)
  have "x \<in> set ys" if x: "x \<in> set xs" for x
  proof -
    have "key x \<in> key ` set ys" using x order(2) ids by (metis image_eqI list.set_map subsetD)
    then obtain y where y: "y \<in> set ys" "key y = key x" by auto
    with ys x dist have "y = x" by (auto simp: distinct_map dest: inj_onD)
    with y show ?thesis by simp
  qed
  with ys have "set ys = set xs" by blast
  moreover have "distinct order" using order(1) by (simp add: dep_closed_order_def)
  ultimately show thesis
    using that [of ys] loop ids ys_def order(1) by (simp add: residual_Nil)
qed

end
