(* ===== verification/Planner_Schema.thy ===== *)
theory Planner_Schema
  imports Run_Phases
begin

text \<open>
  The plan and its review as data: the schemas of \<open>src/orchestration/planner.ts\<close> (with the
  cross-field checks of \<open>PlannerOutputSchema\<close>), of \<open>src/orchestration/skeptic.ts\<close> and of
  \<open>src/memory/skillSchema.ts\<close>. Producing plans and reviews with a model is not part of this theory.
\<close>

section \<open>Plans\<close>

datatype risk_level = RiskLow | RiskMedium | RiskHigh | RiskDestructive

fun riskName :: "risk_level \<Rightarrow> string" where
  "riskName RiskLow = ''low''"
| "riskName RiskMedium = ''medium''"
| "riskName RiskHigh = ''high''"
| "riskName RiskDestructive = ''destructive''"

definition isHighRisk :: "risk_level \<Rightarrow> bool" where
  "isHighRisk r = (r = RiskHigh \<or> r = RiskDestructive)"

record planner_dependency =
  pd_from :: string
  pd_to :: string
  pd_reason :: "string option"

record planner_task =
  pt_id :: string
  pt_title :: string
  pt_description :: string
  pt_dependencies :: "string list"
  pt_expectedArtifacts :: "string list"
  pt_validation :: "string list"
  pt_risk :: risk_level
  pt_approvalRequired :: bool

datatype gate_type = GateApproval | GateCheckpoint | GateClarification

record approval_gate =
  ag_id :: string
  ag_type :: gate_type
  ag_reason :: string
  ag_required :: bool
  ag_taskIds :: "string list"

record planner_validation =
  pv_summary :: string
  pv_checks :: "string list"

record planner_output =
  po_goal :: string
  po_assumptions :: "string list"
  po_tasks :: "planner_task list"
  po_dependencies :: "planner_dependency list"
  po_validation :: planner_validation
  po_riskLevel :: risk_level
  po_approvalGates :: "approval_gate list"
  po_requestedSkills :: "string list option"

definition allNonEmpty :: "string list \<Rightarrow> bool" where
  "allNonEmpty xs = list_all (\<lambda>s. s \<noteq> []) xs"

definition PlannerDependencySchema :: "planner_dependency \<Rightarrow> bool" where
  "PlannerDependencySchema d = (pd_from d \<noteq> [] \<and> pd_to d \<noteq> [] \<and> optNonEmpty (pd_reason d))"

definition PlannerTaskSchema :: "planner_task \<Rightarrow> bool" where
  "PlannerTaskSchema t =
     (pt_id t \<noteq> [] \<and> pt_title t \<noteq> [] \<and> pt_description t \<noteq> [] \<and> allNonEmpty (pt_dependencies t)
      \<and> allNonEmpty (pt_expectedArtifacts t) \<and> allNonEmpty (pt_validation t) \<and> pt_validation t \<noteq> [])"

definition ApprovalGateSchema :: "approval_gate \<Rightarrow> bool" where
  "ApprovalGateSchema g = (ag_id g \<noteq> [] \<and> ag_reason g \<noteq> [] \<and> allNonEmpty (ag_taskIds g))"

definition PlannerValidationSchema :: "planner_validation \<Rightarrow> bool" where
  "PlannerValidationSchema v = (pv_summary v \<noteq> [] \<and> allNonEmpty (pv_checks v) \<and> pv_checks v \<noteq> [])"

text \<open>The \<open>superRefine\<close> step: one definition per loop of the code, then their conjunction.\<close>

definition taskIds :: "planner_output \<Rightarrow> string list" where
  "taskIds p = js_set_of (map pt_id (po_tasks p))"

definition dependenciesResolve :: "planner_output \<Rightarrow> bool" where
  "dependenciesResolve p =
     (list_all (\<lambda>d. pd_from d \<in> set (taskIds p) \<and> pd_to d \<in> set (taskIds p)) (po_dependencies p)
      \<and> list_all (\<lambda>t. list_all (\<lambda>d. d \<in> set (taskIds p)) (pt_dependencies t)) (po_tasks p))"

definition riskyTasksApproved :: "planner_output \<Rightarrow> bool" where
  "riskyTasksApproved p = list_all (\<lambda>t. isHighRisk (pt_risk t) \<longrightarrow> pt_approvalRequired t) (po_tasks p)"

definition gatesResolve :: "planner_output \<Rightarrow> bool" where
  "gatesResolve p = list_all (\<lambda>g. list_all (\<lambda>t. t \<in> set (taskIds p)) (ag_taskIds g)) (po_approvalGates p)"

definition unsafeTaskIds :: "planner_output \<Rightarrow> string list" where
  "unsafeTaskIds p = map pt_id (filter (\<lambda>t. pt_approvalRequired t \<or> isHighRisk (pt_risk t)) (po_tasks p))"

definition unsafeGated :: "planner_output \<Rightarrow> bool" where
  "unsafeGated p =
     (let unsafePlan = (isHighRisk (po_riskLevel p) \<or> unsafeTaskIds p \<noteq> []);
          requiredGates = filter ag_required (po_approvalGates p);
          hasPlanLevelGate = list_ex (\<lambda>g. ag_taskIds g = []) requiredGates;
          gatedTaskIds = js_set_of (concat (map ag_taskIds requiredGates));
          allUnsafeTasksGated = list_all (\<lambda>t. t \<in> set gatedTaskIds) (unsafeTaskIds p);
          planRiskCovered = (if isHighRisk (po_riskLevel p) then hasPlanLevelGate \<or> unsafeTaskIds p \<noteq> [] else True)
      in unsafePlan \<longrightarrow> (hasPlanLevelGate \<or> allUnsafeTasksGated) \<and> planRiskCovered)"

definition PlannerOutputSchema :: "planner_output \<Rightarrow> bool" where
  "PlannerOutputSchema p =
     (po_goal p \<noteq> [] \<and> allNonEmpty (po_assumptions p) \<and> list_all PlannerTaskSchema (po_tasks p)
      \<and> list_all PlannerDependencySchema (po_dependencies p) \<and> PlannerValidationSchema (po_validation p)
      \<and> list_all ApprovalGateSchema (po_approvalGates p)
      \<and> (case po_requestedSkills p of None \<Rightarrow> True | Some s \<Rightarrow> allNonEmpty s)
      \<and> distinct (map pt_id (po_tasks p)) \<and> dependenciesResolve p \<and> riskyTasksApproved p \<and> gatesResolve p
      \<and> unsafeGated p)"

section \<open>Reviews\<close>

datatype finding_severity = BLOCKER | MAJOR | MINOR | INFO

record skeptic_finding =
  sf_id :: string
  sf_severity :: finding_severity
  sf_taskId :: "string option"
  sf_category :: string
  sf_message :: string
  sf_evidence :: string
  sf_recommendation :: string

datatype review_verdict = REVIEW_SOUND | REVIEW_NEEDS_REVISION | REVIEW_BLOCKED

record skeptic_review =
  sr_verdict :: review_verdict
  sr_findings :: "skeptic_finding list"
  sr_reviewedPlanId :: "string option"
  sr_planGoal :: "string option"
  sr_createdAt :: string

definition SkepticFindingSchema :: "skeptic_finding \<Rightarrow> bool" where
  "SkepticFindingSchema f =
     (sf_id f \<noteq> [] \<and> optNonEmpty (sf_taskId f) \<and> sf_category f \<noteq> [] \<and> sf_message f \<noteq> []
      \<and> sf_evidence f \<noteq> [] \<and> sf_recommendation f \<noteq> [])"

definition SkepticReviewSchema :: "schema_env \<Rightarrow> skeptic_review \<Rightarrow> bool" where
  "SkepticReviewSchema E r =
     (list_all SkepticFindingSchema (sr_findings r) \<and> optNonEmpty (sr_reviewedPlanId r) \<and> optNonEmpty (sr_planGoal r)
      \<and> isDatetime E (sr_createdAt r) \<and> (sr_reviewedPlanId r \<noteq> None \<or> sr_planGoal r \<noteq> None))"

section \<open>Skills\<close>

datatype skill_risk = SkillLow | SkillMedium | SkillHigh

record skill_prerequisites =
  sp_commands :: "string list option"
  sp_env_vars :: "string list option"
  sp_platforms :: "string list option"

record skill_manifest =
  sk_id :: string
  sk_name :: string
  sk_description :: string
  sk_prerequisites :: "skill_prerequisites option"
  sk_risk :: "skill_risk option"
  sk_bundled :: bool

definition skillRiskOf :: "skill_manifest \<Rightarrow> skill_risk" where
  "skillRiskOf m = (case sk_risk m of None \<Rightarrow> SkillLow | Some r \<Rightarrow> r)"

datatype activation = Approved | Denied | Deferred

record skill_activation =
  sa_skillId :: string
  sa_decision :: activation
  sa_reason :: string

section \<open>What the plan schema promises\<close>

text \<open>
  Every task that is high risk or asks for approval is covered by a required gate: its own, or one
  for the whole plan.
\<close>

lemma PlannerOutputSchema_gated:
  assumes "PlannerOutputSchema p" and "t \<in> set (po_tasks p)" and "pt_approvalRequired t \<or> isHighRisk (pt_risk t)"
  shows "pt_approvalRequired t \<and> (\<exists>g \<in> set (po_approvalGates p). ag_required g \<and> (ag_taskIds g = [] \<or> pt_id t \<in> set (ag_taskIds g)))"
proof -
  have "pt_approvalRequired t"
    using assms by (auto simp: PlannerOutputSchema_def riskyTasksApproved_def list_all_iff)
  moreover have t: "pt_id t \<in> set (unsafeTaskIds p)" using assms by (auto simp: unsafeTaskIds_def)
  moreover have "unsafeGated p" using assms(1) by (simp add: PlannerOutputSchema_def)
  ultimately show ?thesis
    by (auto simp: unsafeGated_def Let_def list_ex_iff list_all_iff)
qed

lemma taskIds_set [simp]: "set (taskIds p) = pt_id ` set (po_tasks p)"
  by (simp add: taskIds_def)

end
