(* ===== verification/Crucible_Review.thy ===== *)
theory Crucible_Review
  imports Planner_Schema Sample_Data
begin

text \<open>
  The arbiter between planner and skeptic, \<open>src/orchestration/crucible.ts\<close>: the skill policy and the
  decision procedure, with the schema checks it runs on its inputs and on its own result. \<open>platform\<close> is
  \<open>context.platform ?? process.platform\<close>.
\<close>

section \<open>Records\<close>

definition CRUCIBLE_MAX_ROUNDS :: nat where
  "CRUCIBLE_MAX_ROUNDS = 2"

definition DEFAULT_MAX_SKILLS_PER_RUN :: nat where
  "DEFAULT_MAX_SKILLS_PER_RUN = 5"

datatype crucible_verdict = VACCEPTED | VNEEDS_REVISION | VESCALATED | VBLOCKED

datatype crucible_reason =
    NO_FINDINGS_ACCEPTED | SOUND_REVIEW_ACCEPTED | BLOCKER_FINDINGS_BLOCKED | SKEPTIC_BLOCKED
  | REPAIRABLE_FINDINGS_REVISION | HUMAN_DECISION_ESCALATED | MAX_ROUNDS_ESCALATED | SKILL_POLICY_REVISION

record crucible_revision =
  cr_targetedFindings :: "skeptic_finding list"
  cr_requiredChanges :: "string list"

record crucible_escalation =
  ce_reason :: string
  ce_findings :: "skeptic_finding list"
  ce_exhaustedRounds :: bool

record crucible_trace =
  ct_reasonCode :: crucible_reason
  ct_policy :: string
  ct_targetedFindingIds :: "string list"
  ct_repairable :: bool
  ct_humanDecisionRequired :: bool
  ct_exhaustedRounds :: bool
  ct_skillActivation :: "skill_activation list"

record crucible_decision =
  cd_verdict :: crucible_verdict
  cd_reason :: string
  cd_acceptedPlan :: "planner_output option"
  cd_revisionRequest :: "crucible_revision option"
  cd_escalation :: "crucible_escalation option"
  cd_blockerFindings :: "skeptic_finding list"
  cd_round :: nat
  cd_maxRounds :: nat
  cd_createdAt :: string
  cd_trace :: "crucible_trace option"

record skill_context =
  sc_catalog :: "(string \<Rightarrow> skill_manifest option) option"
  sc_maxSkills :: "jsnum option"
  sc_allowlistedCommands :: "string list option"
  sc_availableEnvVars :: "string list option"
  sc_platform :: string

record crucible_input =
  cin_plannerOutput :: planner_output
  cin_skepticReview :: skeptic_review
  cin_round :: "jsnum option"
  cin_priorRounds :: "jsnum option"
  cin_now :: string
  cin_skills :: skill_context

definition CrucibleRevisionRequestSchema :: "crucible_revision \<Rightarrow> bool" where
  "CrucibleRevisionRequestSchema r =
     (list_all SkepticFindingSchema (cr_targetedFindings r) \<and> cr_targetedFindings r \<noteq> []
      \<and> allNonEmpty (cr_requiredChanges r) \<and> cr_requiredChanges r \<noteq> [])"

definition CrucibleEscalationSchema :: "crucible_escalation \<Rightarrow> bool" where
  "CrucibleEscalationSchema e = (ce_reason e \<noteq> [] \<and> list_all SkepticFindingSchema (ce_findings e))"

definition SkillActivationDecisionSchema :: "skill_activation \<Rightarrow> bool" where
  "SkillActivationDecisionSchema a = (sa_skillId a \<noteq> [] \<and> sa_reason a \<noteq> [])"

definition CrucibleDecisionTraceSchema :: "crucible_trace \<Rightarrow> bool" where
  "CrucibleDecisionTraceSchema t =
     (ct_policy t \<noteq> [] \<and> allNonEmpty (ct_targetedFindingIds t)
      \<and> list_all SkillActivationDecisionSchema (ct_skillActivation t))"

definition CrucibleDecisionSchema :: "schema_env \<Rightarrow> crucible_decision \<Rightarrow> bool" where
  "CrucibleDecisionSchema E d =
     (cd_reason d \<noteq> []
      \<and> (case cd_acceptedPlan d of None \<Rightarrow> True | Some p \<Rightarrow> PlannerOutputSchema p)
      \<and> (case cd_revisionRequest d of None \<Rightarrow> True | Some r \<Rightarrow> CrucibleRevisionRequestSchema r)
      \<and> (case cd_escalation d of None \<Rightarrow> True | Some e \<Rightarrow> CrucibleEscalationSchema e)
      \<and> list_all SkepticFindingSchema (cd_blockerFindings d)
      \<and> 1 \<le> cd_round d \<and> cd_round d \<le> CRUCIBLE_MAX_ROUNDS \<and> cd_maxRounds d = CRUCIBLE_MAX_ROUNDS
      \<and> isDatetime E (cd_createdAt d)
      \<and> (case cd_trace d of None \<Rightarrow> True | Some t \<Rightarrow> CrucibleDecisionTraceSchema t)
      \<and> (cd_verdict d = VACCEPTED \<longrightarrow> cd_acceptedPlan d \<noteq> None)
      \<and> (cd_verdict d = VNEEDS_REVISION \<longrightarrow> cd_revisionRequest d \<noteq> None)
      \<and> (cd_verdict d = VESCALATED \<longrightarrow> cd_escalation d \<noteq> None)
      \<and> (cd_verdict d = VBLOCKED \<longrightarrow> cd_reason d \<noteq> []))"

section \<open>The skill policy\<close>

definition joinWith :: "string \<Rightarrow> string list \<Rightarrow> string" where
  "joinWith sep xs = concat (case xs of [] \<Rightarrow> [] | y # ys \<Rightarrow> y # concat (map (\<lambda>z. [sep, z]) ys))"

definition uniqueRequestedSkillIds :: "string list \<Rightarrow> string list" where
  "uniqueRequestedSkillIds values = js_set_of (filter (\<lambda>s. s \<noteq> []) (map js_trim values))"

definition planHasRequiredApprovalGate :: "planner_output \<Rightarrow> bool" where
  "planHasRequiredApprovalGate plan =
     (list_ex ag_required (po_approvalGates plan) \<or> list_ex pt_approvalRequired (po_tasks plan))"

definition commandAllowed :: "string \<Rightarrow> string list \<Rightarrow> bool" where
  "commandAllowed command allowlisted =
     (let firstToken = takeWhile (\<lambda>c. \<not> js_space c) (js_trim command)
      in command \<in> set allowlisted \<or> firstToken \<in> set allowlisted)"

definition platformMatches :: "string \<Rightarrow> string \<Rightarrow> bool" where
  "platformMatches candidate current =
     (let normalized = toLowerCase (js_trim candidate); platform = toLowerCase current
      in normalized = platform \<or> (normalized = ''windows'' \<and> platform = ''win32'')
         \<or> (normalized = ''macos'' \<and> platform = ''darwin'')
         \<or> (normalized = ''linux'' \<and> platform = ''linux''))"

definition evaluatePrerequisites :: "skill_manifest \<Rightarrow> skill_context \<Rightarrow> (activation \<times> string) option" where
  "evaluatePrerequisites manifest ctx =
     (case sk_prerequisites manifest of
        None \<Rightarrow> None
      | Some pre \<Rightarrow>
          let platforms = (case sp_platforms pre of None \<Rightarrow> [] | Some ps \<Rightarrow> ps);
              commands = (case sp_commands pre of None \<Rightarrow> [] | Some cs \<Rightarrow> cs);
              envVars = (case sp_env_vars pre of None \<Rightarrow> [] | Some vs \<Rightarrow> vs);
              allowed = (case sc_allowlistedCommands ctx of None \<Rightarrow> [] | Some a \<Rightarrow> a);
              available = (case sc_availableEnvVars ctx of None \<Rightarrow> [] | Some a \<Rightarrow> a);
              missingCommands = filter (\<lambda>c. \<not> commandAllowed c allowed) commands;
              missingVars = filter (\<lambda>v. v \<notin> set available) envVars
          in if platforms \<noteq> [] \<and> \<not> list_ex (\<lambda>c. platformMatches c (sc_platform ctx)) platforms
             then Some (Denied, ''Skill platform prerequisite is not satisfied for '' @ sc_platform ctx @ ''.'')
             else if commands \<noteq> [] \<and> sc_allowlistedCommands ctx = None
             then Some (Deferred, ''Command prerequisites require sandbox allowlist data that is not available for this run.'')
             else if commands \<noteq> [] \<and> missingCommands \<noteq> []
             then Some (Denied, ''Command prerequisites are not allowed by sandbox policy: ''
                         @ joinWith '', '' missingCommands @ ''.'')
             else if envVars \<noteq> [] \<and> sc_availableEnvVars ctx = None
             then Some (Deferred, ''Environment prerequisites require UI-managed readiness data that is not available for this run.'')
             else if envVars \<noteq> [] \<and> missingVars \<noteq> []
             then Some (Denied, ''Environment prerequisites are not marked ready: '' @ joinWith '', '' missingVars @ ''.'')
             else None)"

definition skillDecision :: "string \<Rightarrow> activation \<Rightarrow> string \<Rightarrow> skill_activation" where
  "skillDecision skillId decision reason =
     \<lparr>sa_skillId = redactString skillId, sa_decision = decision, sa_reason = redactString reason\<rparr>"

text \<open>\<open>Math.max(1, Math.trunc(maxSkills))\<close>; with \<open>NaN\<close> or \<open>Infinity\<close> no index reaches the cap.\<close>

definition skillCap :: "jsnum option \<Rightarrow> nat option" where
  "skillCap m = (case m of
       None \<Rightarrow> Some DEFAULT_MAX_SKILLS_PER_RUN
     | Some (Fin q) \<Rightarrow> Some (nat (max 1 (math_trunc q)))
     | Some NegInf \<Rightarrow> Some 1
     | Some _ \<Rightarrow> None)"

definition evaluateSkill :: "planner_output \<Rightarrow> skill_context \<Rightarrow> nat \<Rightarrow> string \<Rightarrow> skill_activation" where
  "evaluateSkill plan ctx index skillId =
     (if (case skillCap (sc_maxSkills ctx) of None \<Rightarrow> False | Some cap \<Rightarrow> cap \<le> index)
      then skillDecision skillId Denied
             (''Skill cap exceeded: at most '' @ show_nat (the (skillCap (sc_maxSkills ctx)))
              @ '' skill(s) may be activated per run.'')
      else case (case sc_catalog ctx of None \<Rightarrow> None | Some get \<Rightarrow> get skillId) of
             None \<Rightarrow> skillDecision skillId Denied ''Unknown skill id requested by planner.''
           | Some manifest \<Rightarrow>
               if skillRiskOf manifest = SkillHigh \<and> \<not> planHasRequiredApprovalGate plan
               then skillDecision skillId Denied
                      ''High-risk skill requires an explicit required approval gate in the plan.''
               else (case evaluatePrerequisites manifest ctx of
                       Some (d, reason) \<Rightarrow> skillDecision skillId d reason
                     | None \<Rightarrow> skillDecision skillId Approved ''Skill exists and policy prerequisites are satisfied.''))"

definition evaluateSkillActivations :: "planner_output \<Rightarrow> skill_context \<Rightarrow> skill_activation list" where
  "evaluateSkillActivations plan ctx =
     (let requested = uniqueRequestedSkillIds (case po_requestedSkills plan of None \<Rightarrow> [] | Some s \<Rightarrow> s)
      in map (\<lambda>(i, s). evaluateSkill plan ctx i s) (enumerate 0 requested))"

definition skillFinding :: "nat \<Rightarrow> skill_activation \<Rightarrow> skeptic_finding" where
  "skillFinding index d =
     \<lparr>sf_id = ''skill.policy.'' @ show_nat (index + 1), sf_severity = MAJOR, sf_taskId = None,
      sf_category = ''skill'',
      sf_message = redactString (''Requested skill '' @ sa_skillId d @ '' was denied by crucible skill policy.''),
      sf_evidence = redactString (''requestedSkills included '' @ sa_skillId d @ ''; policy reason: '' @ sa_reason d),
      sf_recommendation = ''Remove the skill request, request a known lower-risk skill, or satisfy the required approval/prerequisite gate.''\<rparr>"

definition skillFindingsFor :: "skill_activation list \<Rightarrow> skeptic_finding list" where
  "skillFindingsFor decisions =
     map (\<lambda>(i, d). skillFinding i d) (enumerate 0 (filter (\<lambda>d. sa_decision d = Denied) decisions))"

section \<open>The decision\<close>

definition boundedRound :: "jsnum option \<Rightarrow> jsnum option \<Rightarrow> nat" where
  "boundedRound rnd priorRounds =
     (let requested = (case rnd of
            Some r \<Rightarrow> r
          | None \<Rightarrow> (case priorRounds of
                       None \<Rightarrow> Fin 1
                     | Some (Fin q) \<Rightarrow> Fin (q + 1)
                     | Some r \<Rightarrow> r))
      in case requested of
           Fin q \<Rightarrow> nat (min (int CRUCIBLE_MAX_ROUNDS) (max 1 (math_trunc q)))
         | _ \<Rightarrow> 1)"

definition requiredChangesFor :: "skeptic_finding list \<Rightarrow> string list" where
  "requiredChangesFor findings = js_set_of (filter (\<lambda>s. s \<noteq> []) (map (\<lambda>f. js_trim (sf_recommendation f)) findings))"

definition requiresHumanDecision :: "skeptic_finding \<Rightarrow> bool" where
  "requiresHumanDecision f =
     (let category = toLowerCase (sf_category f);
          text = toLowerCase (sf_message f @ '' '' @ sf_recommendation f)
      in category = ''approval'' \<or> category = ''clarification''
         \<or> list_ex (js_includes text) [''human'', ''operator'', ''approval'', ''decision''])"

definition traceDecision ::
  "crucible_reason \<Rightarrow> skeptic_finding list \<Rightarrow> bool \<Rightarrow> bool \<Rightarrow> bool \<Rightarrow> skill_activation list \<Rightarrow> crucible_trace" where
  "traceDecision code findings repairable human exhausted skills =
     \<lparr>ct_reasonCode = code,
      ct_policy = ''accepted only without blockers; skill policy denials revise; repairable findings revise before max rounds; human decisions escalate; exhausted rounds escalate'',
      ct_targetedFindingIds = map sf_id findings, ct_repairable = repairable,
      ct_humanDecisionRequired = human, ct_exhaustedRounds = exhausted, ct_skillActivation = skills\<rparr>"

text \<open>The five shapes of decision the code builds.\<close>

definition base_decision ::
  "crucible_verdict \<Rightarrow> string \<Rightarrow> nat \<Rightarrow> string \<Rightarrow> crucible_trace \<Rightarrow> crucible_decision" where
  "base_decision verdict reason rnd createdAt trace =
     \<lparr>cd_verdict = verdict, cd_reason = reason, cd_acceptedPlan = None, cd_revisionRequest = None,
      cd_escalation = None, cd_blockerFindings = [], cd_round = rnd, cd_maxRounds = CRUCIBLE_MAX_ROUNDS,
      cd_createdAt = createdAt, cd_trace = Some trace\<rparr>"

definition escalate ::
  "string \<Rightarrow> crucible_reason \<Rightarrow> skeptic_finding list \<Rightarrow> bool \<Rightarrow> bool \<Rightarrow> nat \<Rightarrow> string \<Rightarrow> skill_activation list \<Rightarrow> crucible_decision" where
  "escalate reason code findings human exhausted rnd createdAt skills =
     (base_decision VESCALATED reason rnd createdAt (traceDecision code findings False human exhausted skills))
       \<lparr>cd_escalation := Some \<lparr>ce_reason = reason, ce_findings = findings, ce_exhaustedRounds = exhausted\<rparr>\<rparr>"

definition crucible_draft :: "crucible_input \<Rightarrow> crucible_decision" where
  "crucible_draft input =
     (let plan = cin_plannerOutput input; review = cin_skepticReview input;
          rnd = boundedRound (cin_round input) (cin_priorRounds input); createdAt = cin_now input;
          skillActivation = evaluateSkillActivations plan (cin_skills input);
          skillRevisionFindings = skillFindingsFor skillActivation;
          blockerFindings = filter (\<lambda>f. sf_severity f = BLOCKER) (sr_findings review);
          skepticRevisionFindings = filter (\<lambda>f. sf_severity f = MAJOR \<or> sf_severity f = MINOR) (sr_findings review);
          revisionFindings = skillRevisionFindings @ skepticRevisionFindings;
          humanDecisionFindings = filter requiresHumanDecision skepticRevisionFindings
      in if sr_verdict review = REVIEW_BLOCKED \<or> blockerFindings \<noteq> []
         then (base_decision VBLOCKED
                (if blockerFindings \<noteq> []
                 then ''Crucible blocked execution because '' @ show_nat (length blockerFindings)
                      @ '' BLOCKER finding(s) must be resolved before planning can continue.''
                 else ''Crucible blocked execution because the skeptic review verdict is BLOCKED.'')
                rnd createdAt
                (traceDecision (if blockerFindings \<noteq> [] then BLOCKER_FINDINGS_BLOCKED else SKEPTIC_BLOCKED)
                   blockerFindings False False (CRUCIBLE_MAX_ROUNDS \<le> rnd) skillActivation))
              \<lparr>cd_blockerFindings := blockerFindings\<rparr>
         else if sr_verdict review = REVIEW_SOUND \<and> skillRevisionFindings = []
         then (base_decision VACCEPTED
                ''Crucible accepted the plan because the skeptic review found it SOUND.'' rnd createdAt
                (traceDecision SOUND_REVIEW_ACCEPTED [] False False False skillActivation))
              \<lparr>cd_acceptedPlan := Some plan\<rparr>
         else if humanDecisionFindings \<noteq> []
         then escalate (''Crucible escalated because '' @ show_nat (length humanDecisionFindings)
                  @ '' finding(s) require an explicit human/operator decision.'')
                HUMAN_DECISION_ESCALATED humanDecisionFindings True False rnd createdAt skillActivation
         else if revisionFindings \<noteq> [] \<and> rnd < CRUCIBLE_MAX_ROUNDS
         then (base_decision VNEEDS_REVISION
                (''Crucible requests targeted planner revision for '' @ show_nat (length revisionFindings)
                  @ '' MAJOR/MINOR finding(s).'') rnd createdAt
                (traceDecision (if skillRevisionFindings \<noteq> [] then SKILL_POLICY_REVISION else REPAIRABLE_FINDINGS_REVISION)
                   revisionFindings True False False skillActivation))
              \<lparr>cd_revisionRequest := Some \<lparr>cr_targetedFindings = revisionFindings,
                 cr_requiredChanges = requiredChangesFor revisionFindings\<rparr>\<rparr>
         else if revisionFindings \<noteq> []
         then escalate (''Crucible escalated because max revision rounds ('' @ show_nat CRUCIBLE_MAX_ROUNDS
                  @ '') were exhausted with unresolved MAJOR/MINOR finding(s).'')
                MAX_ROUNDS_ESCALATED revisionFindings False True rnd createdAt skillActivation
         else (base_decision VACCEPTED
                ''Crucible accepted the plan because there are no blocker, major, or minor findings.'' rnd createdAt
                (traceDecision NO_FINDINGS_ACCEPTED [] False False False skillActivation))
              \<lparr>cd_acceptedPlan := Some plan\<rparr>)"

datatype crucible_error = InvalidPlan | InvalidReview | InvalidDecision

definition arbitratePlanWithCrucible :: "schema_env \<Rightarrow> crucible_input \<Rightarrow> (crucible_error, crucible_decision) result" where
  "arbitratePlanWithCrucible E input =
     (if \<not> PlannerOutputSchema (cin_plannerOutput input) then Inl InvalidPlan
      else if \<not> SkepticReviewSchema E (cin_skepticReview input) then Inl InvalidReview
      else if CrucibleDecisionSchema E (crucible_draft input) then Inr (crucible_draft input)
      else Inl InvalidDecision)"

definition approvedSkillIdsFromDecision :: "crucible_decision \<Rightarrow> string list" where
  "approvedSkillIdsFromDecision d =
     map sa_skillId (filter (\<lambda>a. sa_decision a = Approved)
       (case cd_trace d of None \<Rightarrow> [] | Some t \<Rightarrow> ct_skillActivation t))"

section \<open>Lemmas\<close>

lemma boundedRound_range: "1 \<le> boundedRound r q \<and> boundedRound r q \<le> CRUCIBLE_MAX_ROUNDS"
  by (auto simp: boundedRound_def CRUCIBLE_MAX_ROUNDS_def Let_def split: jsnum.splits option.splits)

lemma boundedRound_prior:
  assumes "1 \<le> q"
  shows "boundedRound None (Some (Fin q)) = CRUCIBLE_MAX_ROUNDS"
proof -
  have "2 \<le> math_trunc (q + 1)" using assms by (simp add: math_trunc_def le_floor_iff)
  then show ?thesis by (simp add: boundedRound_def CRUCIBLE_MAX_ROUNDS_def)
qed

lemma in_enumerate: "(i, x) \<in> set (enumerate n xs) \<Longrightarrow> x \<in> set xs"
  by (auto simp: in_set_enumerate_eq)

lemma enumerate_eq_Nil [simp]: "enumerate n xs = [] \<longleftrightarrow> xs = []"
  by (cases xs) simp_all

lemma uniqueRequestedSkillIds_not_Nil: "s \<in> set (uniqueRequestedSkillIds xs) \<Longrightarrow> s \<noteq> []"
  by (auto simp: uniqueRequestedSkillIds_def)

lemma evaluatePrerequisites_reason: "evaluatePrerequisites m c = Some (d, r) \<Longrightarrow> r \<noteq> []"
  by (auto simp: evaluatePrerequisites_def Let_def split: option.splits if_splits)

lemma skillDecision_schema:
  "s \<noteq> [] \<Longrightarrow> r \<noteq> [] \<Longrightarrow> SkillActivationDecisionSchema (skillDecision s d r)"
  by (simp add: SkillActivationDecisionSchema_def skillDecision_def)

lemma evaluateSkill_schema:
  assumes "s \<noteq> []"
  shows "SkillActivationDecisionSchema (evaluateSkill plan ctx i s)"
  using assms
  by (auto simp: evaluateSkill_def dest: evaluatePrerequisites_reason intro!: skillDecision_schema
      split: option.splits)

lemma evaluateSkillActivations_schema:
  "list_all SkillActivationDecisionSchema (evaluateSkillActivations plan ctx)"
  by (auto simp: evaluateSkillActivations_def Let_def list_all_iff
      dest!: in_enumerate uniqueRequestedSkillIds_not_Nil intro!: evaluateSkill_schema)

lemma skillFinding_schema: "SkepticFindingSchema (skillFinding i d)"
  by (simp add: SkepticFindingSchema_def skillFinding_def optNonEmpty_def)

lemma skillFindingsFor_schema: "list_all SkepticFindingSchema (skillFindingsFor ds)"
  by (auto simp: skillFindingsFor_def list_all_iff skillFinding_schema)

lemma skillFindingsFor_mem: "f \<in> set (skillFindingsFor ds) \<Longrightarrow> \<exists>i d. f = skillFinding i d"
  by (auto simp: skillFindingsFor_def)

lemma skillFindingsFor_Nil: "skillFindingsFor ds = [] \<longleftrightarrow> (\<forall>d \<in> set ds. sa_decision d \<noteq> Denied)"
  by (auto simp: skillFindingsFor_def filter_empty_conv)

lemma js_trim_hd: "c # cs = s \<Longrightarrow> \<not> js_space c \<Longrightarrow> js_trim s \<noteq> []"
  by (auto simp: js_trim_def dropWhile_eq_Nil_conv)

lemma skillFinding_recommendation: "js_trim (sf_recommendation (skillFinding i d)) \<noteq> []"
  by (rule js_trim_hd) (auto simp: skillFinding_def js_space_def Let_def)

lemma requiredChangesFor_facts:
  "allNonEmpty (requiredChangesFor fs)"
  "requiredChangesFor fs = [] \<longleftrightarrow> (\<forall>f \<in> set fs. js_trim (sf_recommendation f) = [])"
proof -
  have set: "set (requiredChangesFor fs) = {s. s \<noteq> [] \<and> (\<exists>f \<in> set fs. s = js_trim (sf_recommendation f))}"
    by (auto simp: requiredChangesFor_def)
  then show "allNonEmpty (requiredChangesFor fs)" by (simp add: allNonEmpty_def list_all_iff)
  have "requiredChangesFor fs = [] \<longleftrightarrow> set (requiredChangesFor fs) = {}" by simp
  then show "requiredChangesFor fs = [] \<longleftrightarrow> (\<forall>f \<in> set fs. js_trim (sf_recommendation f) = [])"
    unfolding set by auto
qed

text \<open>Each shape of decision passes the result schema.\<close>

lemma trace_schema:
  assumes "list_all SkepticFindingSchema fs"
  shows "CrucibleDecisionTraceSchema (traceDecision c fs a b e (evaluateSkillActivations plan ctx))"
  using assms evaluateSkillActivations_schema [of plan ctx]
  by (auto simp: CrucibleDecisionTraceSchema_def traceDecision_def allNonEmpty_def list_all_iff SkepticFindingSchema_def)

lemma base_decision_fields [simp]:
  "cd_verdict (base_decision v r n c t) = v" "cd_reason (base_decision v r n c t) = r"
  "cd_acceptedPlan (base_decision v r n c t) = None" "cd_revisionRequest (base_decision v r n c t) = None"
  "cd_escalation (base_decision v r n c t) = None" "cd_blockerFindings (base_decision v r n c t) = []"
  "cd_round (base_decision v r n c t) = n" "cd_maxRounds (base_decision v r n c t) = CRUCIBLE_MAX_ROUNDS"
  "cd_createdAt (base_decision v r n c t) = c" "cd_trace (base_decision v r n c t) = Some t"
  by (simp_all add: base_decision_def)

lemma escalate_schema:
  assumes "reason \<noteq> []" and "list_all SkepticFindingSchema fs" and "isDatetime E c"
  shows "CrucibleDecisionSchema E
     (escalate reason code fs human exhausted (boundedRound r q) c (evaluateSkillActivations plan ctx))"
  using assms trace_schema [OF assms(2)] boundedRound_range [of r q]
  by (simp add: CrucibleDecisionSchema_def escalate_def CrucibleEscalationSchema_def)

lemma escalate_verdict [simp]: "cd_verdict (escalate reason code fs human exhausted n c sk) = VESCALATED"
  by (simp add: escalate_def)

lemma crucible_draft_cases:
  obtains
    (blocked) "cd_verdict (crucible_draft i) = VBLOCKED"
  | (accepted) "cd_verdict (crucible_draft i) = VACCEPTED" "sr_verdict (cin_skepticReview i) \<noteq> REVIEW_BLOCKED"
      "\<forall>f \<in> set (sr_findings (cin_skepticReview i)). sf_severity f \<noteq> BLOCKER"
      "cd_acceptedPlan (crucible_draft i) = Some (cin_plannerOutput i)"
      "skillFindingsFor (evaluateSkillActivations (cin_plannerOutput i) (cin_skills i)) = []"
      "sr_verdict (cin_skepticReview i) = REVIEW_SOUND
        \<or> (\<forall>f \<in> set (sr_findings (cin_skepticReview i)). sf_severity f = INFO)"
  | (escalated) "cd_verdict (crucible_draft i) = VESCALATED"
  | (revision) "cd_verdict (crucible_draft i) = VNEEDS_REVISION"
      "boundedRound (cin_round i) (cin_priorRounds i) < CRUCIBLE_MAX_ROUNDS"
proof -
  let ?rv = "cin_skepticReview i"
  let ?sk = "skillFindingsFor (evaluateSkillActivations (cin_plannerOutput i) (cin_skills i))"
  let ?bl = "filter (\<lambda>f. sf_severity f = BLOCKER) (sr_findings ?rv)"
  let ?mm = "filter (\<lambda>f. sf_severity f = MAJOR \<or> sf_severity f = MINOR) (sr_findings ?rv)"
  let ?n = "boundedRound (cin_round i) (cin_priorRounds i)"
  let ?b = "sr_verdict ?rv = REVIEW_BLOCKED \<or> ?bl \<noteq> []" and ?s = "sr_verdict ?rv = REVIEW_SOUND \<and> ?sk = []"
  let ?h = "filter requiresHumanDecision ?mm \<noteq> []" and ?r = "?sk @ ?mm \<noteq> []"
  have no_blocker: "\<forall>f \<in> set (sr_findings ?rv). sf_severity f \<noteq> BLOCKER" if "\<not> ?b"
    using that by (simp add: filter_empty_conv)
  consider (1) ?b | (2) "\<not> ?b" ?s | (3) "\<not> ?b" "\<not> ?s" ?h | (4) "\<not> ?b" "\<not> ?s" "\<not> ?h" ?r "?n < CRUCIBLE_MAX_ROUNDS"
    | (5) "\<not> ?b" "\<not> ?s" "\<not> ?h" ?r "\<not> ?n < CRUCIBLE_MAX_ROUNDS" | (6) "\<not> ?b" "\<not> ?s" "\<not> ?h" "\<not> ?r"
    by blast
  then show thesis
  proof cases
    case 1
    then show ?thesis by (intro blocked) (simp only: crucible_draft_def Let_def if_True, simp)
  next
    case 2
    then have "crucible_draft i = (base_decision VACCEPTED
          ''Crucible accepted the plan because the skeptic review found it SOUND.'' ?n (cin_now i)
          (traceDecision SOUND_REVIEW_ACCEPTED [] False False False
             (evaluateSkillActivations (cin_plannerOutput i) (cin_skills i))))
        \<lparr>cd_acceptedPlan := Some (cin_plannerOutput i)\<rparr>"
      by (simp only: crucible_draft_def Let_def if_True if_False simp_thms)
    then have "cd_verdict (crucible_draft i) = VACCEPTED" "cd_acceptedPlan (crucible_draft i) = Some (cin_plannerOutput i)"
      by simp_all
    then show ?thesis using no_blocker [OF 2(1)] 2 by (intro accepted) (assumption | blast)+
  next
    case 3
    then show ?thesis
      by (intro escalated) (simp only: crucible_draft_def Let_def if_True if_False simp_thms escalate_verdict)
  next
    case 4
    then show ?thesis
      by (intro revision) (simp only: crucible_draft_def Let_def if_True if_False simp_thms, simp)
  next
    case 5
    then show ?thesis
      by (intro escalated) (simp only: crucible_draft_def Let_def if_True if_False simp_thms escalate_verdict)
  next
    case 6
    have "crucible_draft i = (base_decision VACCEPTED
          ''Crucible accepted the plan because there are no blocker, major, or minor findings.'' ?n (cin_now i)
          (traceDecision NO_FINDINGS_ACCEPTED [] False False False
             (evaluateSkillActivations (cin_plannerOutput i) (cin_skills i))))
        \<lparr>cd_acceptedPlan := Some (cin_plannerOutput i)\<rparr>"
      using 6 by (simp only: crucible_draft_def Let_def if_True if_False simp_thms)
    moreover have "sf_severity f = INFO" if "f \<in> set (sr_findings ?rv)" for f
    proof -
      have "?mm = []" using 6(4) by simp
      with that have "\<not> (sf_severity f = MAJOR \<or> sf_severity f = MINOR)" unfolding filter_empty_conv by blast
      moreover have "sf_severity f \<noteq> BLOCKER" using no_blocker [OF 6(1)] that by (rule bspec)
      ultimately show ?thesis by (cases "sf_severity f") simp_all
    qed
    moreover from calculation(1) have "cd_verdict (crucible_draft i) = VACCEPTED"
      "cd_acceptedPlan (crucible_draft i) = Some (cin_plannerOutput i)" by simp_all
    moreover have "?sk = []" using 6(4) by simp
    ultimately show ?thesis using no_blocker [OF 6(1)] 6(1) by (intro accepted) (assumption | blast)+
  qed
qed

lemma CrucibleDecisionSchema_if:
  "(c \<Longrightarrow> CrucibleDecisionSchema E a) \<Longrightarrow> (\<not> c \<Longrightarrow> CrucibleDecisionSchema E b) \<Longrightarrow>
     CrucibleDecisionSchema E (if c then a else b)"
  by simp

lemma crucible_draft_schema:
  assumes plan: "PlannerOutputSchema (cin_plannerOutput i)" and review: "SkepticReviewSchema E (cin_skepticReview i)"
    and now: "isDatetime E (cin_now i)"
    and recs: "\<forall>f \<in> set (sr_findings (cin_skepticReview i)). js_trim (sf_recommendation f) \<noteq> []"
  shows "CrucibleDecisionSchema E (crucible_draft i)"
proof -
  let ?rv = "cin_skepticReview i"
  let ?acts = "evaluateSkillActivations (cin_plannerOutput i) (cin_skills i)"
  let ?sk = "skillFindingsFor ?acts"
  let ?mm = "filter (\<lambda>f. sf_severity f = MAJOR \<or> sf_severity f = MINOR) (sr_findings ?rv)"
  let ?n = "boundedRound (cin_round i) (cin_priorRounds i)"
  have fs: "list_all SkepticFindingSchema (sr_findings ?rv)" using review by (simp add: SkepticReviewSchema_def)
  then have sub: "list_all SkepticFindingSchema (filter P (sr_findings ?rv))" for P by (auto simp: list_all_iff)
  then have hum: "list_all SkepticFindingSchema (filter requiresHumanDecision ?mm)" by (auto simp: list_all_iff)
  have rev: "list_all SkepticFindingSchema (?sk @ ?mm)" using sub skillFindingsFor_schema by simp
  have changes: "requiredChangesFor (?sk @ ?mm) \<noteq> []" if "?sk @ ?mm \<noteq> []"
  proof -
    from that obtain f fs where "?sk @ ?mm = f # fs" by (meson neq_Nil_conv)
    then have f: "f \<in> set (?sk @ ?mm)" by (simp only: list.set_intros)
    have "js_trim (sf_recommendation f) \<noteq> []"
    proof (cases "f \<in> set ?sk")
      case True
      then obtain k a where "f = skillFinding k a" using skillFindingsFor_mem by blast
      then show ?thesis by (simp only: skillFinding_recommendation not_False_eq_True)
    next
      case False
      with f have "f \<in> set (sr_findings ?rv)" by simp
      with recs show ?thesis by (rule bspec)
    qed
    with f show ?thesis unfolding requiredChangesFor_facts(2) by blast
  qed
  note parts = CrucibleDecisionSchema_def CrucibleRevisionRequestSchema_def
  have blocked: "CrucibleDecisionSchema E ((base_decision VBLOCKED r ?n (cin_now i) (traceDecision c (filter P (sr_findings ?rv)) x y z ?acts))
      \<lparr>cd_blockerFindings := filter P (sr_findings ?rv)\<rparr>)" if "r \<noteq> []" for r c x y z P
    using that sub [of P] now trace_schema [OF sub] boundedRound_range by (simp add: parts)
  have accepted: "CrucibleDecisionSchema E ((base_decision VACCEPTED r ?n (cin_now i) (traceDecision c [] x y z ?acts))
      \<lparr>cd_acceptedPlan := Some (cin_plannerOutput i)\<rparr>)" if "r \<noteq> []" for r c x y z
    using that now plan trace_schema [of "[]"] boundedRound_range by (simp add: parts)
  have revision: "CrucibleDecisionSchema E ((base_decision VNEEDS_REVISION r ?n (cin_now i) (traceDecision c (?sk @ ?mm) x y z ?acts))
      \<lparr>cd_revisionRequest := Some \<lparr>cr_targetedFindings = ?sk @ ?mm, cr_requiredChanges = requiredChangesFor (?sk @ ?mm)\<rparr>\<rparr>)"
    if "r \<noteq> []" "?sk @ ?mm \<noteq> []" for r c x y z
    using that now rev changes [OF that(2)] requiredChangesFor_facts(1) trace_schema [OF rev] boundedRound_range
    by (simp add: parts)
  show ?thesis
    unfolding crucible_draft_def Let_def
    by (intro CrucibleDecisionSchema_if blocked accepted revision escalate_schema hum rev now) simp_all
qed

lemma evaluateSkill_Approved:
  assumes "sa_decision (evaluateSkill plan ctx n s) = Approved"
  shows "sa_skillId (evaluateSkill plan ctx n s) = redactString s
     \<and> (\<exists>get m. sc_catalog ctx = Some get \<and> get s = Some m
          \<and> (skillRiskOf m = SkillHigh \<longrightarrow> planHasRequiredApprovalGate plan) \<and> evaluatePrerequisites m ctx = None)
     \<and> (\<forall>cap. skillCap (sc_maxSkills ctx) = Some cap \<longrightarrow> n < cap)"
proof -
  have pre: "evaluatePrerequisites m ctx \<noteq> Some (Approved, r)" for m r
    by (auto simp: evaluatePrerequisites_def Let_def split: option.splits if_splits)
  with assms show ?thesis
    unfolding evaluateSkill_def by (auto simp: skillDecision_def pre split: option.splits if_splits)
qed

section \<open>Properties\<close>

definition sample_task :: "string \<Rightarrow> string list \<Rightarrow> planner_task" where
  "sample_task ident deps = \<lparr>pt_id = ident, pt_title = ''t'', pt_description = ''d'', pt_dependencies = deps,
     pt_expectedArtifacts = [''a''], pt_validation = [''v''], pt_risk = RiskLow, pt_approvalRequired = False\<rparr>"

definition sample_plan :: planner_output where
  "sample_plan = \<lparr>po_goal = ''g'', po_assumptions = [], po_tasks = [sample_task ''b'' [''a''], sample_task ''a'' []],
     po_dependencies = [], po_validation = \<lparr>pv_summary = ''s'', pv_checks = [''c'']\<rparr>, po_riskLevel = RiskLow,
     po_approvalGates = [], po_requestedSkills = Some [''k'']\<rparr>"

definition sample_finding :: skeptic_finding where
  "sample_finding = \<lparr>sf_id = ''f'', sf_severity = MINOR, sf_taskId = None, sf_category = ''c'', sf_message = ''m'',
     sf_evidence = ''e'', sf_recommendation = ''r''\<rparr>"

definition sample_review :: "review_verdict \<Rightarrow> skeptic_review" where
  "sample_review v = \<lparr>sr_verdict = v, sr_findings = [sample_finding], sr_reviewedPlanId = Some ''p'',
     sr_planGoal = None, sr_createdAt = ''now''\<rparr>"

definition sample_skill :: skill_manifest where
  "sample_skill = \<lparr>sk_id = ''k'', sk_name = ''k'', sk_description = ''d'', sk_prerequisites = None, sk_risk = None,
     sk_bundled = True\<rparr>"

definition sample_skills :: skill_context where
  "sample_skills = \<lparr>sc_catalog = Some (\<lambda>s. if s = ''k'' then Some sample_skill else None), sc_maxSkills = None,
     sc_allowlistedCommands = None, sc_availableEnvVars = None, sc_platform = ''linux''\<rparr>"

definition sample_crucible :: "review_verdict \<Rightarrow> crucible_input" where
  "sample_crucible v = \<lparr>cin_plannerOutput = sample_plan, cin_skepticReview = sample_review v, cin_round = None,
     cin_priorRounds = Some (Fin 1), cin_now = ''now'', cin_skills = sample_skills\<rparr>"

lemma sample_plan_schema: "PlannerOutputSchema sample_plan"
  by code_simp

lemma sample_crucible_ok:
  "PlannerOutputSchema (cin_plannerOutput (sample_crucible v))"
  "SkepticReviewSchema sample_env (cin_skepticReview (sample_crucible v))"
  "isDatetime sample_env (cin_now (sample_crucible v))"
  "\<forall>f \<in> set (sr_findings (cin_skepticReview (sample_crucible v))). js_trim (sf_recommendation f) \<noteq> []"
  by (simp_all add: sample_crucible_def sample_plan_schema sample_review_def sample_finding_def sample_env_def
      SkepticReviewSchema_def SkepticFindingSchema_def optNonEmpty_def js_trim_def js_space_def)

lemma sample_crucible_run:
  "arbitratePlanWithCrucible sample_env (sample_crucible v) = Inr (crucible_draft (sample_crucible v))"
  using sample_crucible_ok crucible_draft_schema [OF sample_crucible_ok] by (simp add: arbitratePlanWithCrucible_def)

text \<open>
  C8: The arbiter accepts a plan only when it satisfies the plan schema, the skeptic neither blocked it
  nor raised a BLOCKER, no requested skill was denied, and every finding is informational unless the
  skeptic called the plan sound; the accepted plan is the one submitted.
\<close>

theorem crucible_accepts_only_reviewed:
  assumes "arbitratePlanWithCrucible E i = Inr d" and "cd_verdict d = VACCEPTED"
  shows "cd_acceptedPlan d = Some (cin_plannerOutput i) \<and> PlannerOutputSchema (cin_plannerOutput i)
     \<and> sr_verdict (cin_skepticReview i) \<noteq> REVIEW_BLOCKED
     \<and> (\<forall>f \<in> set (sr_findings (cin_skepticReview i)). sf_severity f \<noteq> BLOCKER)
     \<and> (\<forall>a \<in> set (evaluateSkillActivations (cin_plannerOutput i) (cin_skills i)). sa_decision a \<noteq> Denied)
     \<and> (sr_verdict (cin_skepticReview i) = REVIEW_SOUND
         \<or> (\<forall>f \<in> set (sr_findings (cin_skepticReview i)). sf_severity f = INFO))"
proof -
  from assms(1) have plan: "PlannerOutputSchema (cin_plannerOutput i)" and d: "d = crucible_draft i"
    by (auto simp: arbitratePlanWithCrucible_def split: if_splits)
  show ?thesis
    by (cases i rule: crucible_draft_cases)
      (use assms(2) plan in \<open>simp_all add: d skillFindingsFor_Nil\<close>)
qed

theorem crucible_accepts_only_reviewed_witness:
  "cd_acceptedPlan (crucible_draft (sample_crucible REVIEW_SOUND)) = Some sample_plan"
proof -
  have "cd_verdict (crucible_draft (sample_crucible REVIEW_SOUND)) = VACCEPTED" by code_simp
  from crucible_accepts_only_reviewed [OF sample_crucible_run this] show ?thesis by (simp add: sample_crucible_def)
qed

text \<open>
  The arbiter always decides: on a plan and a review that satisfy their schemas, with a valid
  timestamp and recommendations that are not blank, it returns a decision that satisfies the decision
  schema, and never throws.
\<close>

lemma crucible_always_decides:
  assumes "PlannerOutputSchema (cin_plannerOutput i)" and "SkepticReviewSchema E (cin_skepticReview i)"
    and "isDatetime E (cin_now i)"
    and "\<forall>f \<in> set (sr_findings (cin_skepticReview i)). js_trim (sf_recommendation f) \<noteq> []"
  shows "\<exists>d. arbitratePlanWithCrucible E i = Inr d \<and> CrucibleDecisionSchema E d"
  using assms crucible_draft_schema [OF assms] by (simp add: arbitratePlanWithCrucible_def)

text \<open>
  Revision rounds are bounded: once a round has been played, the arbiter no longer asks for a
  revision; it accepts, blocks or escalates.
\<close>

lemma crucible_revisions_bounded:
  assumes "cin_round i = None" and "cin_priorRounds i = Some (Fin q)" and "1 \<le> q"
    and "arbitratePlanWithCrucible E i = Inr d"
  shows "cd_verdict d \<in> {VACCEPTED, VESCALATED, VBLOCKED} \<and> cd_round d = CRUCIBLE_MAX_ROUNDS"
proof -
  from assms(4) have d: "d = crucible_draft i" by (auto simp: arbitratePlanWithCrucible_def split: if_splits)
  have n: "boundedRound (cin_round i) (cin_priorRounds i) = CRUCIBLE_MAX_ROUNDS"
    using boundedRound_prior [OF assms(3)] assms(1,2) by simp
  have "cd_round (crucible_draft i) = boundedRound (cin_round i) (cin_priorRounds i)"
    by (simp add: crucible_draft_def Let_def escalate_def)
  with d n show ?thesis
    by (cases i rule: crucible_draft_cases) simp_all
qed

text \<open>
  Skills are activated by policy only: every approved skill was requested, is in the catalog, is not
  high risk unless the plan has a required approval, meets its prerequisites, and came before the cap.
\<close>

lemma approved_skills_lawful:
  assumes "a \<in> set (evaluateSkillActivations plan ctx)" and "sa_decision a = Approved"
  shows "\<exists>n s get m. sa_skillId a = redactString s \<and> s \<in> js_trim ` set (over (po_requestedSkills plan) [])
     \<and> sc_catalog ctx = Some get \<and> get s = Some m
     \<and> (skillRiskOf m = SkillHigh \<longrightarrow> planHasRequiredApprovalGate plan)
     \<and> evaluatePrerequisites m ctx = None
     \<and> n < length (uniqueRequestedSkillIds (over (po_requestedSkills plan) []))
     \<and> (\<forall>cap. skillCap (sc_maxSkills ctx) = Some cap \<longrightarrow> n < cap)"
proof -
  let ?req = "uniqueRequestedSkillIds (over (po_requestedSkills plan) [])"
  from assms(1) obtain n s where ns: "(n, s) \<in> set (enumerate 0 ?req)" and a: "a = evaluateSkill plan ctx n s"
    by (auto simp: evaluateSkillActivations_def Let_def over_def)
  have n: "n < length ?req" using ns by (simp add: in_set_enumerate_eq)
  have s: "s \<in> js_trim ` set (over (po_requestedSkills plan) [])"
    using in_enumerate [OF ns] by (auto simp: uniqueRequestedSkillIds_def)
  from evaluateSkill_Approved [OF assms(2) [unfolded a]] n s a show ?thesis by blast
qed

end
