(* ===== verification/Dag_Compiler.thy ===== *)
theory Dag_Compiler
  imports Topological_Order Crucible_Review
begin

text \<open>
  The compiler from an accepted plan to an execution graph, \<open>src/orchestration/dagCompiler.ts\<close>, and the
  stricter validation it asserts on its own output. Plain objects are association lists in insertion
  order (identifiers that are array indices, which JavaScript enumerates first, are not reordered). \<open>numStr\<close> is the text JavaScript gives a number; it occurs only in the conversion of
  foreign values to strings.
\<close>

section \<open>Constants and JSON helpers\<close>

definition COMPILER_VERSION :: string where
  "COMPILER_VERSION = ''0.2.0-chunk-042a''"

definition UNSAFE_SHELL_PERMISSION :: string where
  "UNSAFE_SHELL_PERMISSION = ''unsafe.shell''"

definition DENIED_TOOL_PERMISSIONS :: "string list" where
  "DENIED_TOOL_PERMISSIONS = [UNSAFE_SHELL_PERMISSION, ''shell'', ''shell.command'']"

definition SAFE_FAKE_PERMISSION :: string where
  "SAFE_FAKE_PERMISSION = ''fake.local''"

text \<open>\<open>String(value)\<close>: an array joins its elements, absent ones as empty text.\<close>

fun js_String :: "(jsnum \<Rightarrow> string) \<Rightarrow> json \<Rightarrow> string" where
  "js_String numStr JUndef = ''undefined''"
| "js_String numStr JNull = ''null''"
| "js_String numStr (JBool b) = (if b then ''true'' else ''false'')"
| "js_String numStr (JNum n) = numStr n"
| "js_String numStr (JStr s) = s"
| "js_String numStr (JArr xs) = joinWith '','' (map (\<lambda>x. if x = JUndef \<or> x = JNull then [] else js_String numStr x) xs)"
| "js_String numStr (JObj r) = ''[object Object]''"

definition jnat :: "nat \<Rightarrow> json" where
  "jnat n = JNum (Fin (of_nat n))"

definition jstrs :: "string list \<Rightarrow> json" where
  "jstrs xs = JArr (map JStr xs)"

definition jmap :: "(string \<times> string) list \<Rightarrow> json" where
  "jmap m = JObj (map (\<lambda>(k, v). (k, JStr v)) m)"

fun nodeTypeName :: "dag_node_type \<Rightarrow> string" where
  "nodeTypeName LLM_EXECUTION = ''LLM_EXECUTION''"
| "nodeTypeName VALIDATION = ''VALIDATION''"
| "nodeTypeName FILE_OPERATION = ''FILE_OPERATION''"
| "nodeTypeName SHELL_COMMAND = ''SHELL_COMMAND''"
| "nodeTypeName MERGE = ''MERGE''"
| "nodeTypeName CONDITIONAL = ''CONDITIONAL''"

section \<open>Policies of a task\<close>

definition nodeTypeForTask :: "planner_task \<Rightarrow> dag_node_type" where
  "nodeTypeForTask task =
     (let text = toLowerCase (pt_id task @ '' '' @ pt_title task @ '' '' @ pt_description task)
      in if js_includes text ''edit'' \<or> js_includes text ''file'' \<or> js_includes text ''code change''
         then FILE_OPERATION else LLM_EXECUTION)"

fun toolPermissionsFor :: "dag_node_type \<Rightarrow> string list" where
  "toolPermissionsFor FILE_OPERATION = [SAFE_FAKE_PERMISSION, ''local.file.proposed-write'']"
| "toolPermissionsFor VALIDATION = [SAFE_FAKE_PERMISSION, ''local.validation'']"
| "toolPermissionsFor _ = [SAFE_FAKE_PERMISSION]"

definition capabilityPolicyFor :: "dag_node_type \<Rightarrow> planner_task \<Rightarrow> json_record" where
  "capabilityPolicyFor type task =
     [(''default'', JStr ''deny''), (''nodeType'', JStr (nodeTypeName type)), (''plannerTaskId'', JStr (pt_id task)),
      (''allowFileWrite'', JBool (type = FILE_OPERATION \<and> \<not> pt_approvalRequired task)),
      (''allowProposedPatch'', JBool (type = FILE_OPERATION)), (''allowShell'', JBool False),
      (''approvalRequired'', JBool (pt_approvalRequired task)), (''risk'', JStr (riskName (pt_risk task)))]"

definition rollbackHintFor :: "planner_task \<Rightarrow> string option" where
  "rollbackHintFor task =
     (if pt_risk task = RiskHigh \<or> pt_risk task = RiskDestructive \<or> pt_approvalRequired task
      then Some (''Capture pre-change artifact handles and require explicit cleanup/rollback notes for planner task ''
                 @ pt_id task @ ''.'')
      else None)"

definition retryPolicyFor :: "risk_level \<Rightarrow> retry_policy" where
  "retryPolicyFor risk =
     (if risk = RiskHigh \<or> risk = RiskDestructive
      then \<lparr>rt_maxAttempts = 1, rt_backoffMs = 0, rt_maxBackoffMs = None\<rparr>
      else if risk = RiskMedium then \<lparr>rt_maxAttempts = 2, rt_backoffMs = 100, rt_maxBackoffMs = Some 500\<rparr>
      else \<lparr>rt_maxAttempts = 2, rt_backoffMs = 50, rt_maxBackoffMs = Some 250\<rparr>)"

fun timeoutForRisk :: "risk_level \<Rightarrow> nat" where
  "timeoutForRisk RiskDestructive = 120000"
| "timeoutForRisk RiskHigh = 120000"
| "timeoutForRisk RiskMedium = 60000"
| "timeoutForRisk RiskLow = 30000"

definition timeoutForPlan :: "planner_output \<Rightarrow> nat" where
  "timeoutForPlan plan = max 1000 (fold (\<lambda>t acc. acc + timeoutForRisk (pt_risk t) + 15000) (po_tasks plan) 0)"

definition safeToolPolicy :: json_record where
  "safeToolPolicy =
     [(''default'', JStr ''deny''),
      (''allowed'', jstrs [SAFE_FAKE_PERMISSION, ''local.file.proposed-write'', ''local.validation'']),
      (''denied'', jstrs DENIED_TOOL_PERMISSIONS), (''allowUnsafeShell'', JBool False)]"

definition jretry :: "retry_policy \<Rightarrow> json" where
  "jretry p = JObj ([(''maxAttempts'', JNum (Fin (of_int (rt_maxAttempts p)))),
                     (''backoffMs'', JNum (Fin (of_int (rt_backoffMs p))))]
     @ (case rt_maxBackoffMs p of None \<Rightarrow> [] | Some m \<Rightarrow> [(''maxBackoffMs'', JNum (Fin (of_int m)))]))"

section \<open>Nodes\<close>

definition taskDagNode :: "planner_task \<Rightarrow> string \<Rightarrow> string list \<Rightarrow> dag_node" where
  "taskDagNode task ident dependsOn =
     (let type = nodeTypeForTask task
      in \<lparr>nd_id = ident, nd_type = type, nd_label = Some (pt_title task), nd_dependsOn = dependsOn,
          nd_provider = None, nd_toolPermissions = toolPermissionsFor type,
          nd_input = Some [(''plannerTaskId'', JStr (pt_id task)), (''title'', JStr (pt_title task)),
            (''description'', JStr (pt_description task)), (''expectedArtifacts'', jstrs (pt_expectedArtifacts task)),
            (''approvalRequired'', JBool (pt_approvalRequired task)), (''risk'', JStr (riskName (pt_risk task)))],
          nd_expectedOutputs = pt_expectedArtifacts task,
          nd_retryPolicy = Some (retryPolicyFor (pt_risk task)),
          nd_timeoutMs = Some (int (timeoutForRisk (pt_risk task))),
          nd_metadata = Some [(''kind'', JStr ''planner-task''), (''plannerTaskId'', JStr (pt_id task)),
            (''risk'', JStr (riskName (pt_risk task))), (''approvalRequired'', JBool (pt_approvalRequired task)),
            (''toolPolicy'', JObj safeToolPolicy), (''capabilityPolicy'', JObj (capabilityPolicyFor type task)),
            (''timeoutPolicy'', JObj [(''timeoutMs'', jnat (timeoutForRisk (pt_risk task))),
                                      (''retryPolicy'', jretry (retryPolicyFor (pt_risk task)))]),
            (''rollbackHint'', case rollbackHintFor task of None \<Rightarrow> JUndef | Some h \<Rightarrow> JStr h),
            (''validationContract'', JObj [(''required'', JBool True), (''checks'', jstrs (pt_validation task)),
                                           (''expectedArtifacts'', jstrs (pt_expectedArtifacts task))])]\<rparr>)"

definition once_retry :: retry_policy where
  "once_retry = \<lparr>rt_maxAttempts = 1, rt_backoffMs = 0, rt_maxBackoffMs = None\<rparr>"

definition validationDagNode :: "planner_task \<Rightarrow> string \<Rightarrow> string \<Rightarrow> dag_node" where
  "validationDagNode task ident taskNodeId =
     \<lparr>nd_id = ident, nd_type = VALIDATION, nd_label = Some (''Validate '' @ pt_title task),
      nd_dependsOn = [taskNodeId], nd_provider = None,
      nd_toolPermissions = [SAFE_FAKE_PERMISSION, ''local.validation''],
      nd_input = Some [(''plannerTaskId'', JStr (pt_id task)), (''targetNodeId'', JStr taskNodeId),
        (''checks'', jstrs (pt_validation task)), (''expectedArtifacts'', jstrs (pt_expectedArtifacts task))],
      nd_expectedOutputs = [''Validation result for '' @ pt_id task],
      nd_retryPolicy = Some once_retry, nd_timeoutMs = Some 15000,
      nd_metadata = Some [(''kind'', JStr ''task-validation''), (''plannerTaskId'', JStr (pt_id task)),
        (''targetNodeId'', JStr taskNodeId), (''toolPolicy'', JObj safeToolPolicy),
        (''validationContract'', JObj [(''required'', JBool True), (''targetNodeId'', JStr taskNodeId),
           (''checks'', jstrs (pt_validation task)), (''expectedArtifacts'', jstrs (pt_expectedArtifacts task))]),
        (''timeoutPolicy'', JObj [(''timeoutMs'', jnat 15000), (''retryPolicy'', jretry once_retry)])]\<rparr>"

section \<open>Validation of a compiled graph\<close>

text \<open>The parts of the validation context; each check returns the errors it pushes.\<close>

definition edgeCoverageMap :: "dag_edge list \<Rightarrow> (string, string list) js_map" where
  "edgeCoverageMap edges =
     fold (\<lambda>e m. js_set (edge_from e)
              (js_add (edge_to e) (case js_get m (edge_from e) of None \<Rightarrow> [] | Some s \<Rightarrow> s)) m) edges []"

definition covers :: "(string, string list) js_map \<Rightarrow> string \<Rightarrow> string \<Rightarrow> bool" where
  "covers m a b = (case js_get m a of None \<Rightarrow> False | Some s \<Rightarrow> b \<in> set s)"

definition nodeOrder :: "dag_node list \<Rightarrow> (string, nat) js_map" where
  "nodeOrder nodes = js_map_of_list (map (\<lambda>(i, n). (nd_id n, i)) (enumerate 0 nodes))"

definition isPlannerTaskNode :: "dag_node \<Rightarrow> bool" where
  "isPlannerTaskNode n = (optField (nd_metadata n) ''kind'' = JStr ''planner-task'')"

definition validateUnsafeShellDenied :: "(jsnum \<Rightarrow> string) \<Rightarrow> dag_node \<Rightarrow> string list" where
  "validateUnsafeShellDenied numStr node =
     (let permissions = map toLowerCase (nd_toolPermissions node);
          toolPolicy = recordFrom (optField (nd_metadata node) ''toolPolicy'');
          denied = (case optField toolPolicy ''denied'' of
                      JArr xs \<Rightarrow> map (\<lambda>x. toLowerCase (js_String numStr x)) xs
                    | _ \<Rightarrow> []);
          allowUnsafeShell = (optField toolPolicy ''allowUnsafeShell'' = JBool True)
      in (if nd_type node = SHELL_COMMAND \<or> list_ex (\<lambda>p. js_includes p ''shell'') permissions \<or> allowUnsafeShell
          then [''Node '' @ nd_id node @ '' unsafe shell permission is denied by default''] else [])
         @ (if UNSAFE_SHELL_PERMISSION \<notin> set denied
            then [''Node '' @ nd_id node @ '' must explicitly deny unsafe shell permission by default''] else []))"

definition positiveNumber :: "json \<Rightarrow> bool" where
  "positiveNumber v = (case v of JNum n \<Rightarrow> \<not> (n = NegInf \<or> (case n of Fin q \<Rightarrow> q \<le> 0 | _ \<Rightarrow> False)) | _ \<Rightarrow> False)"

definition contractMissing :: "json \<Rightarrow> bool" where
  "contractMissing v =
     (let contract = recordFrom v;
          checks = (case optField contract ''checks'' of JArr xs \<Rightarrow> xs | _ \<Rightarrow> [])
      in contract = None \<or> optField contract ''required'' \<noteq> JBool True \<or> checks = [])"

definition validateNodePolicyMetadata :: "dag_node \<Rightarrow> string list" where
  "validateNodePolicyMetadata node =
     (case nd_metadata node of
        None \<Rightarrow> [''Node '' @ nd_id node @ '' missing policy metadata'']
      | Some metadata \<Rightarrow>
          let timeoutPolicy = recordFrom (jfield metadata ''timeoutPolicy'');
              contract = jfield metadata ''validationContract'';
              risk = (case optField (nd_input node) ''risk'' of JStr r \<Rightarrow> JStr r | _ \<Rightarrow> jfield metadata ''risk'');
              approvalRequired = (optField (nd_input node) ''approvalRequired'' = JBool True);
              capabilityPolicy = recordFrom (jfield metadata ''capabilityPolicy'')
          in (if timeoutPolicy = None \<or> \<not> positiveNumber (optField timeoutPolicy ''timeoutMs'')
              then [''Node '' @ nd_id node @ '' missing executable timeout policy''] else [])
             @ (if nd_type node = VALIDATION \<and> contractMissing contract
                then [''Validation node '' @ nd_id node @ '' missing executable validation contract''] else [])
             @ (if isPlannerTaskNode node
                then (if contractMissing contract
                      then [''Task node '' @ nd_id node @ '' missing validation contract metadata''] else [])
                     @ (if (risk = JStr ''high'' \<or> risk = JStr ''destructive'' \<or> approvalRequired)
                           \<and> (case jfield metadata ''rollbackHint'' of JStr _ \<Rightarrow> False | _ \<Rightarrow> True)
                        then [''Risky task node '' @ nd_id node @ '' missing rollback/cleanup hint''] else [])
                     @ (if capabilityPolicy = None \<or> optField capabilityPolicy ''default'' \<noteq> JStr ''deny''
                           \<or> optField capabilityPolicy ''allowShell'' \<noteq> JBool False
                        then [''Task node '' @ nd_id node @ '' missing default-deny capability policy''] else [])
                else []))"

definition validateExplicitDependencyEdges ::
  "(string, string list) js_map \<Rightarrow> (string, nat) js_map \<Rightarrow> dag_node \<Rightarrow> string list" where
  "validateExplicitDependencyEdges coverage order node =
     concat (map (\<lambda>d.
       (if \<not> covers coverage d (nd_id node)
        then [''Node '' @ nd_id node @ '' dependency '' @ d @ '' lacks an explicit edge''] else [])
       @ (case (js_get order d, js_get order (nd_id node)) of
            (Some i, Some j) \<Rightarrow>
              if j < i then [''Node '' @ nd_id node @ '' appears before dependency '' @ d @ ''; topological order violated'']
              else []
          | _ \<Rightarrow> [])) (nd_dependsOn node))"

definition hasValidationCoverage :: "dag_node list \<Rightarrow> (string, string list) js_map \<Rightarrow> dag_node \<Rightarrow> bool" where
  "hasValidationCoverage validationNodes coverage node =
     list_ex (\<lambda>v. nd_id node \<in> set (nd_dependsOn v) \<or> covers coverage (nd_id node) (nd_id v)) validationNodes"

definition validatePlannerTaskCoverage ::
  "dag_node list \<Rightarrow> (string, string list) js_map \<Rightarrow> dag_node \<Rightarrow> string list" where
  "validatePlannerTaskCoverage validationNodes coverage node =
     (if isPlannerTaskNode node \<and> \<not> hasValidationCoverage validationNodes coverage node
      then [''Task node '' @ nd_id node @ '' lacks validation coverage''] else [])"

definition validateCompiledDagNode :: "(jsnum \<Rightarrow> string) \<Rightarrow> dag \<Rightarrow> dag_node \<Rightarrow> string list" where
  "validateCompiledDagNode numStr g node =
     (let validationNodes = filter (\<lambda>n. nd_type n = VALIDATION) (dag_nodes g);
          coverage = edgeCoverageMap (dag_edges g)
      in validateUnsafeShellDenied numStr node @ validateNodePolicyMetadata node
         @ validateExplicitDependencyEdges coverage (nodeOrder (dag_nodes g)) node
         @ validatePlannerTaskCoverage validationNodes coverage node)"

definition validateCompiledDag ::
  "schema_env \<Rightarrow> (dag \<Rightarrow> string list) \<Rightarrow> (jsnum \<Rightarrow> string) \<Rightarrow> dag \<Rightarrow> bool \<times> string list" where
  "validateCompiledDag E issues numStr g =
     (let baseErrors = snd (validateDag E issues g);
          errors = (if DagSchema E g
                    then baseErrors @ concat (map (validateCompiledDagNode numStr g) (dag_nodes g))
                    else baseErrors)
      in (errors = [], errors))"

section \<open>Compilation\<close>

definition taskNodeMap :: "planner_output \<Rightarrow> (string, string) js_map" where
  "taskNodeMap plan = js_map_of_list (map (\<lambda>t. (pt_id t, ''task:'' @ pt_id t)) (po_tasks plan))"

definition validationNodeMap :: "planner_output \<Rightarrow> (string, string) js_map" where
  "validationNodeMap plan = js_map_of_list (map (\<lambda>t. (pt_id t, ''validate:'' @ pt_id t)) (po_tasks plan))"

text \<open>Reading an identifier from such an object; every identifier the compiler reads is a key.\<close>

definition nodeIdOf :: "(string, string) js_map \<Rightarrow> string \<Rightarrow> string" where
  "nodeIdOf m k = (case js_get m k of None \<Rightarrow> [] | Some v \<Rightarrow> v)"

datatype compiler_error =
    InvalidCompilerInput
  | NotAccepted crucible_verdict
  | NoAcceptedPlan
  | InvalidAcceptedPlan
  | PlannerMissingDependency string string
  | PlannerDependencyCycle
  | InvalidCompiledDag "string list"

definition rawTaskDeps :: "planner_output \<Rightarrow> deps_map" where
  "rawTaskDeps plan =
     fold (\<lambda>d m. let m1 = (if js_has m (pd_to d) then m else js_set (pd_to d) [] m)
                  in js_set (pd_to d) (js_add (pd_from d) (depsOf m1 (pd_to d))) m1)
       (po_dependencies plan)
       (js_map_of_list (map (\<lambda>t. (pt_id t, js_set_of (pt_dependencies t))) (po_tasks plan)))"

definition dependencyTaskMap :: "planner_output \<Rightarrow> (compiler_error, deps_map) result" where
  "dependencyTaskMap plan =
     (let ids = js_set_of (map pt_id (po_tasks plan)); deps = rawTaskDeps plan
      in case concat (map (\<lambda>(t, ds). map (\<lambda>d. (t, d)) (filter (\<lambda>d. d \<notin> set ids) ds)) deps) of
           [] \<Rightarrow> Inr deps
         | (t, d) # _ \<Rightarrow> Inl (PlannerMissingDependency t d))"

definition topologicalTasks :: "planner_task list \<Rightarrow> deps_map \<Rightarrow> (compiler_error, planner_task list) result" where
  "topologicalTasks tasks deps =
     (let byId = js_map_of_list (map (\<lambda>t. (pt_id t, t)) tasks);
          remaining = js_map_of_list (map (\<lambda>t. (pt_id t, js_set_of (depsOf deps (pt_id t)))) tasks)
      in case topo_loop remaining [] of
           None \<Rightarrow> Inl PlannerDependencyCycle
         | Some order \<Rightarrow> Inr (List.map_filter (js_get byId) order))"

definition uniqueEdges :: "dag_edge list \<Rightarrow> dag_edge list" where
  "uniqueEdges edges = js_set_of edges"

text \<open>
  The key \<open>from + U+0000 + to\<close> identifies an edge as long as identifiers contain no NUL character;
  the model compares the pair.
\<close>

record compiler_input =
  ki_runId :: string
  ki_decision :: crucible_decision
  ki_budgetPolicy :: "json_record option"
  ki_now :: string

definition taskNodes :: "planner_output \<Rightarrow> deps_map \<Rightarrow> planner_task list \<Rightarrow> dag_node list" where
  "taskNodes plan deps tasks =
     map (\<lambda>t. taskDagNode t (nodeIdOf (taskNodeMap plan) (pt_id t))
                (map (nodeIdOf (taskNodeMap plan)) (depsOf deps (pt_id t)))) tasks"

definition taskEdges :: "planner_output \<Rightarrow> deps_map \<Rightarrow> planner_task list \<Rightarrow> dag_edge list" where
  "taskEdges plan deps tasks =
     concat (map (\<lambda>t. map (\<lambda>d. \<lparr>edge_from = nodeIdOf (taskNodeMap plan) d,
                               edge_to = nodeIdOf (taskNodeMap plan) (pt_id t)\<rparr>) (depsOf deps (pt_id t))) tasks)"

definition validationNodes :: "planner_output \<Rightarrow> planner_task list \<Rightarrow> dag_node list" where
  "validationNodes plan tasks =
     map (\<lambda>t. validationDagNode t (nodeIdOf (validationNodeMap plan) (pt_id t))
                (nodeIdOf (taskNodeMap plan) (pt_id t))) tasks"

definition validationEdges :: "planner_output \<Rightarrow> planner_task list \<Rightarrow> dag_edge list" where
  "validationEdges plan tasks =
     map (\<lambda>t. \<lparr>edge_from = nodeIdOf (taskNodeMap plan) (pt_id t),
               edge_to = nodeIdOf (validationNodeMap plan) (pt_id t)\<rparr>) tasks"

fun verdictName :: "crucible_verdict \<Rightarrow> string" where
  "verdictName VACCEPTED = ''ACCEPTED''"
| "verdictName VNEEDS_REVISION = ''NEEDS_REVISION''"
| "verdictName VESCALATED = ''ESCALATED''"
| "verdictName VBLOCKED = ''BLOCKED''"

definition compiledDag :: "compiler_input \<Rightarrow> planner_output \<Rightarrow> deps_map \<Rightarrow> planner_task list \<Rightarrow> dag" where
  "compiledDag input plan deps tasks =
     \<lparr>dag_id = ''dag-'' @ ki_runId input, dag_runId = ki_runId input, dag_version = ''0.1.0'',
      dag_nodes = taskNodes plan deps tasks @ validationNodes plan tasks,
      dag_edges = uniqueEdges (taskEdges plan deps tasks @ validationEdges plan tasks),
      dag_validationPolicy = Some [(''mode'', JStr ''per-task-validation''),
        (''requiredValidationNodeIds'', jstrs (js_values (validationNodeMap plan))),
        (''taskValidationCoverage'', jmap (js_map_of_list (map (\<lambda>t. (nodeIdOf (taskNodeMap plan) (pt_id t),
            nodeIdOf (validationNodeMap plan) (pt_id t))) (po_tasks plan)))),
        (''planLevelChecks'', jstrs (pv_checks (po_validation plan)))],
      dag_budgetPolicy = Some (spread [(''mode'', JStr ''local-fake''), (''maxUsd'', jnat 0), (''maxModelCalls'', jnat 0),
        (''maxRuntimeMs'', jnat (timeoutForPlan plan)), (''approvalRequiredAboveUsd'', jnat 0),
        (''riskLevel'', JStr (riskName (po_riskLevel plan))),
        (''approvalGateIds'', jstrs (map ag_id (po_approvalGates plan)))]
        (case ki_budgetPolicy input of None \<Rightarrow> [] | Some b \<Rightarrow> b)),
      dag_metadata = Some [(''compiler'', JStr ''dagCompiler''), (''compilerVersion'', JStr COMPILER_VERSION),
        (''crucibleVerdict'', JStr (verdictName (cd_verdict (ki_decision input)))),
        (''crucibleRound'', jnat (cd_round (ki_decision input))),
        (''plannerTaskToDagNode'', jmap (taskNodeMap plan)),
        (''validationNodeByPlannerTask'', jmap (validationNodeMap plan)),
        (''toolPolicy'', JObj safeToolPolicy)],
      dag_createdAt = ki_now input\<rparr>"

definition compileAcceptedPlanToDag ::
  "schema_env \<Rightarrow> (dag \<Rightarrow> string list) \<Rightarrow> (jsnum \<Rightarrow> string) \<Rightarrow> compiler_input \<Rightarrow> (compiler_error, dag) result" where
  "compileAcceptedPlanToDag E issues numStr input =
     (if ki_runId input = [] \<or> \<not> CrucibleDecisionSchema E (ki_decision input) then Inl InvalidCompilerInput
      else if cd_verdict (ki_decision input) \<noteq> VACCEPTED then Inl (NotAccepted (cd_verdict (ki_decision input)))
      else case cd_acceptedPlan (ki_decision input) of
             None \<Rightarrow> Inl NoAcceptedPlan
           | Some plan \<Rightarrow>
               if \<not> PlannerOutputSchema plan then Inl InvalidAcceptedPlan
               else bind_result (dependencyTaskMap plan) (\<lambda>deps.
                    bind_result (topologicalTasks (po_tasks plan) deps) (\<lambda>tasks.
                    let g = compiledDag input plan deps tasks; (valid, errors) = validateCompiledDag E issues numStr g
                    in if valid then Inr g else Inl (InvalidCompiledDag errors))))"

end
