(* ===== verification/Dag_Compiler_Correct.thy ===== *)
theory Dag_Compiler_Correct
  imports Dag_Compiler
begin

text \<open>
  The compiler does its work: an accepted plan without circular dependencies compiles, a circular one
  is rejected as such, and the compiled graph runs every task after its dependencies and validates
  every task.
\<close>

section \<open>The dependency map\<close>

definition plan_dep :: "planner_output \<Rightarrow> (string \<times> string) set" where
  "plan_dep plan = {(pt_id t, d) | t d. t \<in> set (po_tasks plan) \<and> d \<in> set (pt_dependencies t)}
     \<union> {(pd_to d, pd_from d) | d. d \<in> set (po_dependencies plan)}"

abbreviation plan_ids :: "planner_output \<Rightarrow> string list" where
  "plan_ids plan \<equiv> map pt_id (po_tasks plan)"

definition addDependency :: "planner_dependency \<Rightarrow> deps_map \<Rightarrow> deps_map" where
  "addDependency d m =
     (let m1 = (if js_has m (pd_to d) then m else js_set (pd_to d) [] m)
      in js_set (pd_to d) (js_add (pd_from d) (depsOf m1 (pd_to d))) m1)"

definition initialTaskDeps :: "planner_output \<Rightarrow> deps_map" where
  "initialTaskDeps plan = js_map_of_list (map (\<lambda>t. (pt_id t, js_set_of (pt_dependencies t))) (po_tasks plan))"

lemma rawTaskDeps_fold: "rawTaskDeps plan = fold addDependency (po_dependencies plan) (initialTaskDeps plan)"
  by (simp add: rawTaskDeps_def addDependency_def [abs_def] initialTaskDeps_def)

lemma fold_addDependency:
  assumes "\<forall>d \<in> set ds. js_has m (pd_to d)"
  shows "js_keys (fold addDependency ds m) = js_keys m
     \<and> (\<forall>k. set (depsOf (fold addDependency ds m) k) = set (depsOf m k) \<union> {pd_from d | d. d \<in> set ds \<and> pd_to d = k})"
  using assms
proof (induction ds arbitrary: m)
  case Nil
  then show ?case by simp
next
  case (Cons d ds)
  let ?m = "addDependency d m"
  have m: "?m = js_set (pd_to d) (js_add (pd_from d) (depsOf m (pd_to d))) m"
    using Cons.prems by (simp add: addDependency_def)
  have keys: "js_keys ?m = js_keys m"
    unfolding m using Cons.prems by (simp add: js_keys_set js_has_iff)
  then have "\<forall>d \<in> set ds. js_has ?m (pd_to d)"
    using Cons.prems by (metis js_has_iff list.set_intros(2) set_map)
  from Cons.IH [OF this] keys show ?case
    by (auto simp: m depsOf_def split: if_splits)
qed

lemma plan_schema_facts:
  assumes "PlannerOutputSchema plan"
  shows "distinct (plan_ids plan)" and "\<And>t. t \<in> set (po_tasks plan) \<Longrightarrow> PlannerTaskSchema t"
    and "\<And>a b. (a, b) \<in> plan_dep plan \<Longrightarrow> a \<in> set (plan_ids plan) \<and> b \<in> set (plan_ids plan)"
  using assms by (auto simp: PlannerOutputSchema_def plan_dep_def dependenciesResolve_def list_all_iff)

lemma js_task_list:
  assumes "distinct (map pt_id ts)"
  shows "js_map_of_list (map (\<lambda>t. (pt_id t, f t)) ts) = map (\<lambda>t. (pt_id t, f t)) ts"
  using assms by (intro js_map_of_list_distinct) (simp add: comp_def)

lemma initialTaskDeps_eq:
  assumes "distinct (plan_ids plan)"
  shows "initialTaskDeps plan = map (\<lambda>t. (pt_id t, js_set_of (pt_dependencies t))) (po_tasks plan)"
  unfolding initialTaskDeps_def using assms by (rule js_task_list)

lemma map_of_task_mem:
  assumes "distinct (map pt_id ts)" and "t \<in> set ts"
  shows "map_of (map (\<lambda>t. (pt_id t, f t)) ts) (pt_id t) = Some (f t)"
  using assms by (intro map_of_is_SomeI) (auto simp: comp_def)

lemma rawTaskDeps_spec:
  assumes "PlannerOutputSchema plan"
  shows "js_keys (rawTaskDeps plan) = plan_ids plan"
    and "d \<in> set (depsOf (rawTaskDeps plan) k) \<longleftrightarrow> (k, d) \<in> plan_dep plan"
proof -
  note dist = plan_schema_facts(1) [OF assms]
  let ?init = "initialTaskDeps plan"
  have keys: "js_keys ?init = plan_ids plan" by (simp add: initialTaskDeps_eq [OF dist] comp_def)
  have "\<forall>d \<in> set (po_dependencies plan). js_has ?init (pd_to d)"
  proof
    fix d assume "d \<in> set (po_dependencies plan)"
    then have "(pd_to d, pd_from d) \<in> plan_dep plan" by (auto simp: plan_dep_def)
    then have "pd_to d \<in> set (plan_ids plan)" using plan_schema_facts(3) [OF assms] by blast
    then show "js_has ?init (pd_to d)" unfolding js_has_iff by (metis keys set_map)
  qed
  note f = fold_addDependency [OF this]
  show "js_keys (rawTaskDeps plan) = plan_ids plan" using f keys by (simp add: rawTaskDeps_fold)
  have "d \<in> set (depsOf ?init k) \<longleftrightarrow> (\<exists>t \<in> set (po_tasks plan). pt_id t = k \<and> d \<in> set (pt_dependencies t))"
  proof (cases "k \<in> set (plan_ids plan)")
    case True
    then obtain t where t: "t \<in> set (po_tasks plan)" "pt_id t = k" by auto
    then have "depsOf ?init k = js_set_of (pt_dependencies t)"
      using map_of_task_mem [OF dist t(1), of "\<lambda>t. js_set_of (pt_dependencies t)"]
      by (simp add: depsOf_def initialTaskDeps_eq [OF dist])
    moreover have "(\<exists>t' \<in> set (po_tasks plan). pt_id t' = k \<and> d \<in> set (pt_dependencies t')) \<longleftrightarrow> d \<in> set (pt_dependencies t)"
      using t dist by (auto simp: distinct_map dest: inj_onD)
    ultimately show ?thesis by simp
  next
    case False
    then have "\<not> js_has ?init k" unfolding js_has_iff by (metis keys set_map)
    with False show ?thesis by (auto simp: depsOf_def js_has_def)
  qed
  with f show "d \<in> set (depsOf (rawTaskDeps plan) k) \<longleftrightarrow> (k, d) \<in> plan_dep plan"
    by (auto simp: rawTaskDeps_fold plan_dep_def)
qed

lemma dependencyTaskMap_Inr:
  assumes "PlannerOutputSchema plan"
  shows "dependencyTaskMap plan = Inr (rawTaskDeps plan)"
proof -
  let ?d = "rawTaskDeps plan"
  have "filter (\<lambda>d. d \<notin> set (js_set_of (plan_ids plan))) ds = []" if "(t, ds) \<in> set ?d" for t ds
  proof -
    have "distinct (js_keys ?d)" using rawTaskDeps_spec(1) [OF assms] plan_schema_facts(1) [OF assms] by simp
    with that have "js_get ?d t = Some ds" by (simp add: distinct_keys_get [symmetric])
    then have "d \<in> set (plan_ids plan)" if "d \<in> set ds" for d
      using that rawTaskDeps_spec(2) [OF assms, of d t] plan_schema_facts(3) [OF assms] by (auto simp: depsOf_def)
    then show ?thesis by (simp add: filter_empty_conv)
  qed
  then have none: "concat (map (\<lambda>(t, ds). map (\<lambda>d. (t, d)) (filter (\<lambda>d. d \<notin> set (js_set_of (plan_ids plan))) ds)) ?d) = []"
    by (auto simp del: set_js_set_of)
  show ?thesis by (simp only: dependencyTaskMap_def Let_def none list.case)
qed

section \<open>The order of the tasks\<close>

definition task_graph :: "planner_output \<Rightarrow> deps_map" where
  "task_graph plan = map (\<lambda>t. (pt_id t, js_set_of (depsOf (rawTaskDeps plan) (pt_id t)))) (po_tasks plan)"

lemma task_graph_facts:
  assumes "PlannerOutputSchema plan"
  shows "map fst (task_graph plan) = plan_ids plan" and "edge_rel (task_graph plan) = plan_dep plan"
proof -
  show "map fst (task_graph plan) = plan_ids plan" by (simp add: task_graph_def comp_def)
  have "(a, b) \<in> edge_rel (task_graph plan) \<longleftrightarrow> a \<in> set (plan_ids plan) \<and> b \<in> set (depsOf (rawTaskDeps plan) a)" for a b
    by (auto simp: edge_rel_def task_graph_def)
  then show "edge_rel (task_graph plan) = plan_dep plan"
    using rawTaskDeps_spec(2) [OF assms] plan_schema_facts(3) [OF assms] by auto
qed

lemma topologicalTasks_eq:
  assumes "PlannerOutputSchema plan"
  shows "topologicalTasks (po_tasks plan) (rawTaskDeps plan) =
     (case topo_loop (task_graph plan) [] of
        None \<Rightarrow> Inl PlannerDependencyCycle
      | Some order \<Rightarrow> Inr (List.map_filter (map_of (map (\<lambda>t. (pt_id t, t)) (po_tasks plan))) order))"
proof -
  note dist = plan_schema_facts(1) [OF assms]
  show ?thesis by (simp add: topologicalTasks_def Let_def task_graph_def js_task_list [OF dist])
qed

lemma topologicalTasks_order:
  assumes plan: "PlannerOutputSchema plan" and acyc: "acyclic (plan_dep plan)"
  obtains tasks where "topologicalTasks (po_tasks plan) (rawTaskDeps plan) = Inr tasks"
    and "set tasks = set (po_tasks plan)" and "distinct (map pt_id tasks)"
    and "dep_closed_order (task_graph plan) (map pt_id tasks)"
proof -
  note gf = task_graph_facts [OF plan]
  have "d \<in> fst ` set (task_graph plan)" if "(k, d) \<in> edge_rel (task_graph plan)" for k d
    using that gf plan_schema_facts(3) [OF plan] by (metis set_map)
  then obtain tasks where t: "topo_loop (task_graph plan) [] = Some (map pt_id tasks)"
    "List.map_filter (map_of (map (\<lambda>t. (pt_id t, t)) (po_tasks plan))) (map pt_id tasks) = tasks"
    "set tasks = set (po_tasks plan)" "distinct (map pt_id tasks)" "dep_closed_order (task_graph plan) (map pt_id tasks)"
    using acyc gf(2) by (auto intro: topo_sort_keyed [OF plan_schema_facts(1) [OF plan] gf(1)])
  show thesis
    by (rule that [OF _ t(3-5)]) (simp only: topologicalTasks_eq [OF plan] t(1,2) option.case)
qed

section \<open>The checks on single nodes\<close>

lemma task_permissions_safe:
  "\<not> list_ex (\<lambda>p. js_includes p ''shell'') (map toLowerCase (toolPermissionsFor t))"
proof -
  have "list_all (\<lambda>t. \<not> list_ex (\<lambda>p. js_includes p ''shell'') (map toLowerCase (toolPermissionsFor t)))
      [LLM_EXECUTION, VALIDATION, FILE_OPERATION, SHELL_COMMAND, MERGE, CONDITIONAL]"
    by code_simp
  then show ?thesis by (cases t) (simp_all only: list.pred_inject not_False_eq_True)
qed

lemma nodeTypeForTask_cases: "nodeTypeForTask t = FILE_OPERATION \<or> nodeTypeForTask t = LLM_EXECUTION"
  by (simp add: nodeTypeForTask_def Let_def)

lemma safe_denied:
  "UNSAFE_SHELL_PERMISSION \<in> (\<lambda>x. toLowerCase (js_String numStr x)) ` set (map JStr DENIED_TOOL_PERMISSIONS)"
proof -
  have "toLowerCase UNSAFE_SHELL_PERMISSION = UNSAFE_SHELL_PERMISSION" by code_simp
  then show ?thesis by (auto simp: DENIED_TOOL_PERMISSIONS_def)
qed

lemma safeToolPolicy_fields [simp]:
  "jfield safeToolPolicy ''denied'' = JArr (map JStr DENIED_TOOL_PERMISSIONS)"
  "jfield safeToolPolicy ''allowUnsafeShell'' = JBool False"
  by (simp_all add: safeToolPolicy_def jfield_def jstrs_def)

lemma task_node_shell_ok: "validateUnsafeShellDenied numStr (taskDagNode t i ds) = []"
proof -
  let ?n = "taskDagNode t i ds"
  have "nd_type ?n \<noteq> SHELL_COMMAND" using nodeTypeForTask_cases [of t] by (auto simp: taskDagNode_def Let_def)
  moreover have "nd_toolPermissions ?n = toolPermissionsFor (nodeTypeForTask t)" by (simp add: taskDagNode_def Let_def)
  moreover have "recordFrom (optField (nd_metadata ?n) ''toolPolicy'') = Some safeToolPolicy"
    by (simp add: taskDagNode_def Let_def optField_def jfield_def recordFrom_def)
  ultimately show ?thesis
    using task_permissions_safe [of "nodeTypeForTask t"] safe_denied [of numStr]
    by (simp add: validateUnsafeShellDenied_def Let_def optField_def image_image)
qed

lemma validation_node_shell_ok: "validateUnsafeShellDenied numStr (validationDagNode t i n) = []"
proof -
  let ?n = "validationDagNode t i n"
  have "nd_toolPermissions ?n = toolPermissionsFor VALIDATION" "nd_type ?n = VALIDATION" by (simp_all add: validationDagNode_def)
  moreover have "recordFrom (optField (nd_metadata ?n) ''toolPolicy'') = Some safeToolPolicy"
    by (simp add: validationDagNode_def optField_def jfield_def recordFrom_def)
  ultimately show ?thesis
    using task_permissions_safe [of VALIDATION] safe_denied [of numStr]
    by (simp add: validateUnsafeShellDenied_def Let_def optField_def image_image del: toolPermissionsFor.simps)
qed

lemma timeoutForRisk_pos: "0 < timeoutForRisk r"
  by (cases r) simp_all

lemma task_node_policy_ok:
  assumes "PlannerTaskSchema t"
  shows "validateNodePolicyMetadata (taskDagNode t i ds) = []"
  using assms nodeTypeForTask_cases [of t] timeoutForRisk_pos [of "pt_risk t"]
  by (cases "pt_risk t")
    (auto simp: validateNodePolicyMetadata_def taskDagNode_def Let_def jfield_def optField_def recordFrom_def
      jnat_def positiveNumber_def contractMissing_def jstrs_def isPlannerTaskNode_def rollbackHintFor_def
      capabilityPolicyFor_def PlannerTaskSchema_def)

lemma validation_node_policy_ok:
  assumes "PlannerTaskSchema t"
  shows "validateNodePolicyMetadata (validationDagNode t i n) = []"
  using assms
  by (simp add: validateNodePolicyMetadata_def validationDagNode_def Let_def jfield_def optField_def recordFrom_def
      jnat_def positiveNumber_def contractMissing_def jstrs_def isPlannerTaskNode_def PlannerTaskSchema_def)

lemma task_node_schema:
  assumes "PlannerTaskSchema t" and "i \<noteq> []" and "nonEmptyAll ds"
  shows "DagNodeSchema (taskDagNode t i ds)"
proof -
  have "nonEmptyAll (toolPermissionsFor ty)" for ty
    by (cases ty) (simp_all add: nonEmptyAll_def SAFE_FAKE_PERMISSION_def)
  moreover have "RetryPolicySchema (retryPolicyFor r)" for r
    by (simp add: RetryPolicySchema_def retryPolicyFor_def)
  ultimately show ?thesis
    using assms timeoutForRisk_pos
    by (simp add: DagNodeSchema_def taskDagNode_def Let_def optNonEmpty_def PlannerTaskSchema_def nonEmptyAll_def allNonEmpty_def)
qed

lemma validation_node_schema: "i \<noteq> [] \<Longrightarrow> n \<noteq> [] \<Longrightarrow> DagNodeSchema (validationDagNode t i n)"
  by (simp add: DagNodeSchema_def validationDagNode_def optNonEmpty_def nonEmptyAll_def
      SAFE_FAKE_PERMISSION_def once_retry_def RetryPolicySchema_def)

lemma node_backoff [simp]:
  "backoff_ordered (taskDagNode t i ds)" "backoff_ordered (validationDagNode t i n)"
  by (simp_all add: backoff_ordered_def taskDagNode_def validationDagNode_def once_retry_def Let_def retryPolicyFor_def)

section \<open>The checks on edges and order\<close>

lemma covers_edgeCoverageMap_fold:
  "covers (fold (\<lambda>e m. js_set (edge_from e)
              (js_add (edge_to e) (case js_get m (edge_from e) of None \<Rightarrow> [] | Some s \<Rightarrow> s)) m) es m) a b
     \<longleftrightarrow> covers m a b \<or> (\<exists>e \<in> set es. edge_from e = a \<and> edge_to e = b)"
  by (induction es arbitrary: m) (auto simp: covers_def split: option.splits)

lemma covers_edgeCoverageMap: "covers (edgeCoverageMap es) a b \<longleftrightarrow> (\<exists>e \<in> set es. edge_from e = a \<and> edge_to e = b)"
  by (simp add: edgeCoverageMap_def covers_edgeCoverageMap_fold) (simp add: covers_def)

lemma nodeOrder_nth:
  assumes "distinct (map nd_id nodes)" and "i < length nodes"
  shows "js_get (nodeOrder nodes) (nd_id (nodes ! i)) = Some i"
proof -
  let ?ps = "map (\<lambda>(i, n). (nd_id n, i)) (enumerate 0 nodes)"
  have fst: "map fst ?ps = map nd_id nodes"
  proof -
    have "map fst ?ps = map nd_id (map snd (enumerate 0 nodes))"
      by (simp only: map_map) (simp add: comp_def case_prod_beta)
    then show ?thesis by (simp only: map_snd_enumerate)
  qed
  have "(nd_id (nodes ! i), i) \<in> set ?ps"
    using assms(2) by (force simp: in_set_enumerate_eq)
  with assms fst show ?thesis
    by (simp add: nodeOrder_def js_map_of_list_distinct map_of_eq_Some_iff)
qed

lemma acyclic_by_order:
  assumes "distinct zs" and "\<And>a b. (a, b) \<in> R \<Longrightarrow> \<exists>i j. j < i \<and> i < length zs \<and> zs ! i = a \<and> zs ! j = b"
  shows "acyclic R"
proof -
  define pos where "pos x = (LEAST i. i < length zs \<and> zs ! i = x)" for x
  have pos_nth: "pos (zs ! i) = i" if "i < length zs" for i
    unfolding pos_def using assms(1) that by (intro Least_equality) (auto simp: nth_eq_iff_index_eq)
  have "R\<inverse> \<subseteq> measure pos"
  proof
    fix p assume "p \<in> R\<inverse>"
    then obtain a b where ab: "p = (b, a)" "(a, b) \<in> R" by auto
    from assms(2) [OF ab(2)] obtain i j where "j < i" "i < length zs" "zs ! i = a" "zs ! j = b" by blast
    with pos_nth [of i] pos_nth [of j] ab show "p \<in> measure pos" by simp
  qed
  then have "wf (R\<inverse>)" by (metis wf_measure wf_subset)
  then show ?thesis by (metis acyclic_converse wf_acyclic)
qed

section \<open>The compiled graph\<close>

definition tnode :: "string \<Rightarrow> string" where
  "tnode k = ''task:'' @ k"

definition vnode :: "string \<Rightarrow> string" where
  "vnode k = ''validate:'' @ k"

lemma tnode_vnode [simp]:
  "tnode a = tnode b \<longleftrightarrow> a = b" "vnode a = vnode b \<longleftrightarrow> a = b" "tnode a \<noteq> vnode b" "vnode b \<noteq> tnode a"
  "tnode a \<noteq> []" "vnode a \<noteq> []" "[] \<noteq> tnode a" "[] \<noteq> vnode a"
  by (simp_all add: tnode_def vnode_def)

lemma nodeIdOf_maps:
  assumes "PlannerOutputSchema plan" and "k \<in> set (plan_ids plan)"
  shows "nodeIdOf (taskNodeMap plan) k = tnode k" and "nodeIdOf (validationNodeMap plan) k = vnode k"
proof -
  note dist = plan_schema_facts(1) [OF assms(1)]
  from assms(2) obtain t where t: "t \<in> set (po_tasks plan)" "k = pt_id t" by auto
  have get: "map_of (map (\<lambda>t. (pt_id t, f t)) (po_tasks plan)) k = Some (f t)" for f :: "planner_task \<Rightarrow> string"
    using map_of_task_mem [OF dist t(1)] t(2) by simp
  show "nodeIdOf (taskNodeMap plan) k = tnode k"
    using get [of "\<lambda>t. ''task:'' @ pt_id t"] t(2)
    by (simp add: nodeIdOf_def taskNodeMap_def js_task_list [OF dist] tnode_def)
  show "nodeIdOf (validationNodeMap plan) k = vnode k"
    using get [of "\<lambda>t. ''validate:'' @ pt_id t"] t(2)
    by (simp add: nodeIdOf_def validationNodeMap_def js_task_list [OF dist] vnode_def)
qed

text \<open>
  What the compiler relies on: the sorter returns the tasks of the plan, each once, dependencies
  first. Everything below follows from that contract alone.
\<close>

locale task_sorter =
  fixes sorted_tasks :: "planner_output \<Rightarrow> planner_task list option"
  assumes sorter: "PlannerOutputSchema plan \<Longrightarrow> sorted_tasks plan = Some tasks \<Longrightarrow>
      set tasks = set (po_tasks plan) \<and> distinct (map pt_id tasks)
      \<and> dep_closed_order (task_graph plan) (map pt_id tasks)"
begin

abbreviation ok :: "planner_output \<Rightarrow> planner_task list \<Rightarrow> bool" where
  "ok plan tasks \<equiv> PlannerOutputSchema plan \<and> sorted_tasks plan = Some tasks"

abbreviation graph :: "compiler_input \<Rightarrow> planner_output \<Rightarrow> planner_task list \<Rightarrow> dag" where
  "graph input plan tasks \<equiv> compiledDag input plan (rawTaskDeps plan) tasks"

lemma ok_set: "ok plan tasks \<Longrightarrow> set tasks = set (po_tasks plan)"
  and ok_distinct: "ok plan tasks \<Longrightarrow> distinct (map pt_id tasks)"
  and ok_order: "ok plan tasks \<Longrightarrow> dep_closed_order (task_graph plan) (map pt_id tasks)"
  using sorter by blast+

lemma dep_ids:
  "ok plan tasks \<Longrightarrow> d \<in> set (depsOf (rawTaskDeps plan) k) \<Longrightarrow> k \<in> set (plan_ids plan) \<and> d \<in> set (plan_ids plan)"
  using rawTaskDeps_spec(2) plan_schema_facts(3) by blast

lemma task_schema: "ok plan tasks \<Longrightarrow> t \<in> set tasks \<Longrightarrow> PlannerTaskSchema t"
  using ok_set plan_schema_facts(2) by blast

lemma node_ids:
  assumes "ok plan tasks"
  shows "t \<in> set tasks \<Longrightarrow> nodeIdOf (taskNodeMap plan) (pt_id t) = tnode (pt_id t)"
    and "t \<in> set tasks \<Longrightarrow> nodeIdOf (validationNodeMap plan) (pt_id t) = vnode (pt_id t)"
    and "d \<in> set (depsOf (rawTaskDeps plan) k) \<Longrightarrow> nodeIdOf (taskNodeMap plan) d = tnode d"
  using nodeIdOf_maps [of plan] dep_ids [OF assms] assms ok_set [OF assms] by auto

lemma taskNodes_eq:
  assumes "ok plan tasks"
  shows "taskNodes plan (rawTaskDeps plan) tasks
     = map (\<lambda>t. taskDagNode t (tnode (pt_id t)) (map tnode (depsOf (rawTaskDeps plan) (pt_id t)))) tasks"
  unfolding taskNodes_def
proof (rule map_cong [OF refl])
  fix t assume "t \<in> set tasks"
  moreover have "map (nodeIdOf (taskNodeMap plan)) (depsOf (rawTaskDeps plan) (pt_id t))
      = map tnode (depsOf (rawTaskDeps plan) (pt_id t))"
    by (rule map_cong [OF refl]) (rule node_ids(3) [OF assms])
  ultimately show "taskDagNode t (nodeIdOf (taskNodeMap plan) (pt_id t))
        (map (nodeIdOf (taskNodeMap plan)) (depsOf (rawTaskDeps plan) (pt_id t)))
      = taskDagNode t (tnode (pt_id t)) (map tnode (depsOf (rawTaskDeps plan) (pt_id t)))"
    by (simp only: node_ids [OF assms])
qed

lemma nodes_eq:
  assumes "ok plan tasks"
  shows "dag_nodes (graph input plan tasks)
     = map (\<lambda>t. taskDagNode t (tnode (pt_id t)) (map tnode (depsOf (rawTaskDeps plan) (pt_id t)))) tasks
       @ map (\<lambda>t. validationDagNode t (vnode (pt_id t)) (tnode (pt_id t))) tasks"
proof -
  have "validationNodes plan tasks = map (\<lambda>t. validationDagNode t (vnode (pt_id t)) (tnode (pt_id t))) tasks"
    unfolding validationNodes_def by (rule map_cong [OF refl]) (simp only: node_ids [OF assms])
  then show ?thesis by (simp add: compiledDag_def taskNodes_eq [OF assms])
qed

definition compiled_dep :: "planner_output \<Rightarrow> planner_task list \<Rightarrow> string \<Rightarrow> string \<Rightarrow> bool" where
  "compiled_dep plan tasks a b \<longleftrightarrow> (\<exists>k d. (k, d) \<in> plan_dep plan \<and> a = tnode k \<and> b = tnode d)
     \<or> (\<exists>t \<in> set tasks. a = vnode (pt_id t) \<and> b = tnode (pt_id t))"

lemma task_edges_mem:
  assumes "ok plan tasks"
  shows "e \<in> set (taskEdges plan (rawTaskDeps plan) tasks) \<longleftrightarrow>
     (\<exists>k d. (k, d) \<in> plan_dep plan \<and> e = \<lparr>edge_from = tnode d, edge_to = tnode k\<rparr>)"
proof -
  have plan: "PlannerOutputSchema plan" using assms by blast
  have dep: "(\<exists>t \<in> set tasks. pt_id t = k \<and> d \<in> set (depsOf (rawTaskDeps plan) k)) \<longleftrightarrow> (k, d) \<in> plan_dep plan" for k d
    using rawTaskDeps_spec(2) [OF plan] plan_schema_facts(3) [OF plan] ok_set [OF assms] by fastforce
  have "e \<in> set (taskEdges plan (rawTaskDeps plan) tasks) \<longleftrightarrow>
      (\<exists>t \<in> set tasks. \<exists>d \<in> set (depsOf (rawTaskDeps plan) (pt_id t)). e = \<lparr>edge_from = tnode d, edge_to = tnode (pt_id t)\<rparr>)"
    by (auto simp: taskEdges_def node_ids [OF assms])
  also have "\<dots> \<longleftrightarrow> (\<exists>k d. (k, d) \<in> plan_dep plan \<and> e = \<lparr>edge_from = tnode d, edge_to = tnode k\<rparr>)"
    unfolding dep [symmetric] by blast
  finally show ?thesis .
qed

lemma edges_mem:
  assumes "ok plan tasks"
  shows "e \<in> set (dag_edges (graph input plan tasks)) \<longleftrightarrow> compiled_dep plan tasks (edge_to e) (edge_from e)"
proof -
  have val: "e \<in> set (validationEdges plan tasks)
      \<longleftrightarrow> (\<exists>t \<in> set tasks. e = \<lparr>edge_from = tnode (pt_id t), edge_to = vnode (pt_id t)\<rparr>)"
    by (auto simp: validationEdges_def node_ids [OF assms])
  have eq: "e = \<lparr>edge_from = a, edge_to = b\<rparr> \<longleftrightarrow> edge_from e = a \<and> edge_to e = b" for a b
    by (cases e) auto
  have "set (dag_edges (graph input plan tasks)) = set (taskEdges plan (rawTaskDeps plan) tasks) \<union> set (validationEdges plan tasks)"
    by (simp add: compiledDag_def uniqueEdges_def)
  then show ?thesis
    unfolding compiled_dep_def using task_edges_mem [OF assms] val eq by auto
qed

lemma node_fields [simp]:
  "nd_id (taskDagNode t i ds) = i" "nd_dependsOn (taskDagNode t i ds) = ds"
  "nd_id (validationDagNode t i n) = i" "nd_dependsOn (validationDagNode t i n) = [n]"
  "nd_type (validationDagNode t i n) = VALIDATION"
  by (simp_all add: taskDagNode_def validationDagNode_def Let_def)

lemma ids_eq:
  "ok plan tasks \<Longrightarrow> dag_ids (graph input plan tasks) = map (\<lambda>t. tnode (pt_id t)) tasks @ map (\<lambda>t. vnode (pt_id t)) tasks"
  by (simp add: dag_ids_def nodes_eq comp_def)

lemma distinct_ids: "ok plan tasks \<Longrightarrow> distinct (dag_ids (graph input plan tasks))"
  using ok_distinct [of plan tasks] by (auto simp: ids_eq distinct_map inj_on_def)

lemma declared_dep:
  assumes "ok plan tasks" and "n \<in> set (dag_nodes (graph input plan tasks))" and "d \<in> set (nd_dependsOn n)"
  shows "compiled_dep plan tasks (nd_id n) d"
  using assms(2,3) rawTaskDeps_spec(2) [of plan] assms(1) unfolding nodes_eq [OF assms(1)] compiled_dep_def by auto

lemma dag_dep_eq:
  assumes "ok plan tasks"
  shows "(a, b) \<in> dag_dep (graph input plan tasks) \<longleftrightarrow> compiled_dep plan tasks a b"
proof
  assume "(a, b) \<in> dag_dep (graph input plan tasks)"
  then show "compiled_dep plan tasks a b"
    unfolding dag_dep_def using declared_dep [OF assms] edges_mem [OF assms] by auto
next
  assume "compiled_dep plan tasks a b"
  then have "\<lparr>edge_from = b, edge_to = a\<rparr> \<in> set (dag_edges (graph input plan tasks))" by (simp add: edges_mem [OF assms])
  then show "(a, b) \<in> dag_dep (graph input plan tasks)" unfolding dag_dep_def by force
qed

text \<open>In the list of identifiers every dependency comes first.\<close>

lemma task_position:
  assumes "ok plan tasks" and "(k, d) \<in> plan_dep plan"
  shows "\<exists>i j. j < i \<and> i < length tasks \<and> pt_id (tasks ! i) = k \<and> pt_id (tasks ! j) = d"
proof -
  have plan: "PlannerOutputSchema plan" using assms(1) by blast
  have "k \<in> set (plan_ids plan)" using assms(2) plan_schema_facts(3) [OF plan] by blast
  then have "k \<in> set (map pt_id tasks)" using ok_set [OF assms(1)] by simp
  then obtain i where i: "i < length (map pt_id tasks)" "map pt_id tasks ! i = k" unfolding in_set_conv_nth by blast
  have "(map pt_id tasks ! i, d) \<in> edge_rel (task_graph plan)" using assms(2) i task_graph_facts(2) [OF plan] by simp
  then have "d \<in> set (take i (map pt_id tasks))" using ok_order [OF assms(1)] i(1) by (simp add: dep_closed_order_def)
  then obtain j where "j < i" "j < length tasks" "map pt_id tasks ! j = d" by (auto simp: in_set_conv_nth)
  with i show ?thesis by auto
qed

lemma position:
  assumes "ok plan tasks" and "(a, b) \<in> dag_dep (graph input plan tasks)"
  shows "\<exists>i j. j < i \<and> i < length (dag_ids (graph input plan tasks))
     \<and> dag_ids (graph input plan tasks) ! i = a \<and> dag_ids (graph input plan tasks) ! j = b"
  using assms(2) unfolding dag_dep_eq [OF assms(1)] compiled_dep_def
proof (elim disjE exE bexE conjE)
  fix k d assume kd: "(k, d) \<in> plan_dep plan" "a = tnode k" "b = tnode d"
  from task_position [OF assms(1) kd(1)] obtain i j
    where "j < i" "i < length tasks" "pt_id (tasks ! i) = k" "pt_id (tasks ! j) = d" by blast
  with kd show ?thesis by (rule_tac exI [of _ i], rule_tac exI [of _ j]) (simp add: ids_eq [OF assms(1)] nth_append)
next
  fix t assume t: "t \<in> set tasks" "a = vnode (pt_id t)" "b = tnode (pt_id t)"
  then obtain j where "j < length tasks" "tasks ! j = t" by (auto simp: in_set_conv_nth)
  with t show ?thesis
    by (rule_tac exI [of _ "length tasks + j"], rule_tac exI [of _ j]) (auto simp: ids_eq [OF assms(1)] nth_append)
qed

lemma well_formed:
  assumes "ok plan tasks"
  shows "dag_well_formed (graph input plan tasks)"
proof -
  let ?g = "graph input plan tasks"
  have "acyclic (dag_dep ?g)" using acyclic_by_order [OF distinct_ids [OF assms] position [OF assms]] by blast
  moreover have "n \<in> set (dag_ids ?g) \<and> d \<in> set (dag_ids ?g)" if "(n, d) \<in> dag_dep ?g" for n d
    using position [OF assms that] by (metis in_set_conv_nth order.strict_trans)
  moreover have "list_all backoff_ordered (dag_nodes ?g)" by (auto simp: nodes_eq [OF assms] list_all_iff)
  ultimately show ?thesis using distinct_ids [OF assms] by (simp add: dag_well_formed_def)
qed

lemma schema:
  assumes "ok plan tasks" and "ki_runId input \<noteq> []" and "isDatetime E (ki_now input)"
  shows "DagSchema E (graph input plan tasks)"
proof -
  have "list_all DagNodeSchema (dag_nodes (graph input plan tasks))"
    unfolding nodes_eq [OF assms(1)] list_all_iff using task_schema [OF assms(1)]
    by (auto simp: nonEmptyAll_def list_all_iff intro!: task_node_schema validation_node_schema)
  moreover have "list_all DagEdgeSchema (dag_edges (graph input plan tasks))"
    by (auto simp: list_all_iff edges_mem [OF assms(1)] DagEdgeSchema_def compiled_dep_def)
  ultimately show ?thesis using assms(2,3) by (simp add: DagSchema_def) (simp add: compiledDag_def)
qed

lemma edges_explicit:
  assumes "ok plan tasks" and "n \<in> set (dag_nodes (graph input plan tasks))"
  shows "validateExplicitDependencyEdges (edgeCoverageMap (dag_edges (graph input plan tasks)))
     (nodeOrder (dag_nodes (graph input plan tasks))) n = []"
proof -
  let ?g = "graph input plan tasks" and ?o = "nodeOrder (dag_nodes (graph input plan tasks))"
  have dist: "distinct (map nd_id (dag_nodes ?g))" using distinct_ids [OF assms(1)] by (simp add: dag_ids_def)
  have one: "(if \<not> covers (edgeCoverageMap (dag_edges ?g)) d (nd_id n) then err1 else [])
      @ (case (js_get ?o d, js_get ?o (nd_id n)) of (Some i, Some j) \<Rightarrow> if j < i then err2 else [] | _ \<Rightarrow> []) = []"
    if d: "d \<in> set (nd_dependsOn n)" for d and err1 err2 :: "string list"
  proof -
    have dep: "(nd_id n, d) \<in> dag_dep ?g" using assms(2) d by (auto simp: dag_dep_def)
    then have "\<lparr>edge_from = d, edge_to = nd_id n\<rparr> \<in> set (dag_edges ?g)"
      by (simp add: dag_dep_eq [OF assms(1)] edges_mem [OF assms(1)])
    then have "covers (edgeCoverageMap (dag_edges ?g)) d (nd_id n)" unfolding covers_edgeCoverageMap by force
    moreover from position [OF assms(1) dep] obtain i j where "j < i" "i < length (dag_nodes ?g)"
      "nd_id (dag_nodes ?g ! i) = nd_id n" "nd_id (dag_nodes ?g ! j) = d" by (auto simp: dag_ids_def)
    ultimately show ?thesis using nodeOrder_nth [OF dist, of i] nodeOrder_nth [OF dist, of j] by simp
  qed
  show ?thesis
    unfolding validateExplicitDependencyEdges_def concat_eq_Nil_conv set_map using one by blast
qed

lemma task_covered:
  assumes "ok plan tasks" and "n \<in> set (dag_nodes (graph input plan tasks))"
  shows "validatePlannerTaskCoverage (filter (\<lambda>n. nd_type n = VALIDATION) (dag_nodes (graph input plan tasks)))
     (edgeCoverageMap (dag_edges (graph input plan tasks))) n = []"
proof (cases "isPlannerTaskNode n")
  case False
  then show ?thesis by (simp add: validatePlannerTaskCoverage_def)
next
  case True
  let ?vs = "filter (\<lambda>n. nd_type n = VALIDATION) (dag_nodes (graph input plan tasks))"
  have "\<not> isPlannerTaskNode (validationDagNode t i m)" for t i m
    by (simp add: isPlannerTaskNode_def validationDagNode_def optField_def jfield_def)
  with assms True obtain t where t: "t \<in> set tasks" "nd_id n = tnode (pt_id t)" by (auto simp: nodes_eq [OF assms(1)])
  then have "validationDagNode t (vnode (pt_id t)) (tnode (pt_id t)) \<in> set ?vs" by (simp add: nodes_eq [OF assms(1)])
  moreover have "nd_id n \<in> set (nd_dependsOn (validationDagNode t (vnode (pt_id t)) (tnode (pt_id t))))" using t(2) by simp
  ultimately have "hasValidationCoverage ?vs cov n" for cov unfolding hasValidationCoverage_def list_ex_iff by blast
  then show ?thesis by (simp add: validatePlannerTaskCoverage_def)
qed

lemma passes_validation:
  assumes "ok plan tasks" and "ki_runId input \<noteq> []" and "isDatetime E (ki_now input)"
  shows "fst (validateCompiledDag E issues numStr (graph input plan tasks))"
proof -
  let ?g = "graph input plan tasks"
  note sch = schema [OF assms]
  have "snd (validateDag E issues ?g) = []"
    using validateDag_errors [OF sch] validateDag_accepts sch well_formed [OF assms(1)] by blast
  moreover have "validateCompiledDagNode numStr ?g n = []" if n: "n \<in> set (dag_nodes ?g)" for n
  proof -
    have "validateUnsafeShellDenied numStr n = [] \<and> validateNodePolicyMetadata n = []"
      using n task_schema [OF assms(1)] unfolding nodes_eq [OF assms(1)]
      by (auto simp: task_node_shell_ok validation_node_shell_ok task_node_policy_ok validation_node_policy_ok)
    with edges_explicit [OF assms(1) n] task_covered [OF assms(1) n] show ?thesis
      by (simp add: validateCompiledDagNode_def Let_def)
  qed
  ultimately show ?thesis using sch by (simp add: validateCompiledDag_def Let_def)
qed

end

text \<open>The sorter of the code meets the contract, and fails exactly on circular plans.\<close>

definition sortedTasksOf :: "planner_output \<Rightarrow> planner_task list option" where
  "sortedTasksOf plan = (case topologicalTasks (po_tasks plan) (rawTaskDeps plan) of Inl _ \<Rightarrow> None | Inr ts \<Rightarrow> Some ts)"

lemma topologicalTasks_acyclic:
  assumes "PlannerOutputSchema plan" and "topologicalTasks (po_tasks plan) (rawTaskDeps plan) = Inr tasks"
  shows "acyclic (plan_dep plan)"
proof -
  note gf = task_graph_facts [OF assms(1)]
  from assms(2) obtain order where "topo_loop (residual (task_graph plan) []) [] = Some order"
    by (auto simp: topologicalTasks_eq [OF assms(1)] residual_Nil split: option.splits)
  from topo_loop_sound [OF this] plan_schema_facts(1) [OF assms(1)] gf(1)
  have "dep_closed_order (task_graph plan) order \<and> fst ` set (task_graph plan) \<subseteq> set order"
    by (simp add: dep_closed_order_def)
  then show ?thesis using dep_closed_order_acyclic gf(2) by metis
qed

interpretation compiler: task_sorter sortedTasksOf
proof
  fix plan tasks
  assume plan: "PlannerOutputSchema plan" and "sortedTasksOf plan = Some tasks"
  then have t: "topologicalTasks (po_tasks plan) (rawTaskDeps plan) = Inr tasks"
    by (simp add: sortedTasksOf_def split: sum.splits)
  show "set tasks = set (po_tasks plan) \<and> distinct (map pt_id tasks)
      \<and> dep_closed_order (task_graph plan) (map pt_id tasks)"
    using topologicalTasks_order [OF plan topologicalTasks_acyclic [OF plan t]] t by (metis sum.inject(2))
qed

lemma compile_unfold:
  assumes "ki_runId input \<noteq> []" and "CrucibleDecisionSchema E (ki_decision input)"
    and "cd_verdict (ki_decision input) = VACCEPTED" and "cd_acceptedPlan (ki_decision input) = Some plan"
  shows "PlannerOutputSchema plan
     \<and> compileAcceptedPlanToDag E issues numStr input =
         bind_result (topologicalTasks (po_tasks plan) (rawTaskDeps plan)) (\<lambda>tasks.
           let g = compiledDag input plan (rawTaskDeps plan) tasks; (valid, errors) = validateCompiledDag E issues numStr g
           in if valid then Inr g else Inl (InvalidCompiledDag errors))"
proof -
  have plan: "PlannerOutputSchema plan" using assms(2,4) by (simp add: CrucibleDecisionSchema_def)
  show ?thesis
    using assms plan by (simp add: compileAcceptedPlanToDag_def dependencyTaskMap_Inr [OF plan])
qed

section \<open>Properties\<close>

definition sample_decision :: "planner_output \<Rightarrow> crucible_decision" where
  "sample_decision plan = \<lparr>cd_verdict = VACCEPTED, cd_reason = ''r'', cd_acceptedPlan = Some plan,
     cd_revisionRequest = None, cd_escalation = None, cd_blockerFindings = [], cd_round = 1, cd_maxRounds = 2,
     cd_createdAt = ''now'', cd_trace = None\<rparr>"

definition sample_compile :: "planner_output \<Rightarrow> compiler_input" where
  "sample_compile plan = \<lparr>ki_runId = ''run-1'', ki_decision = sample_decision plan, ki_budgetPolicy = None, ki_now = ''now''\<rparr>"

definition circular_plan :: planner_output where
  "circular_plan = sample_plan\<lparr>po_tasks := [sample_task ''b'' [''a''], sample_task ''a'' [''b'']]\<rparr>"

lemma sample_decision_schema: "PlannerOutputSchema plan \<Longrightarrow> CrucibleDecisionSchema sample_env (sample_decision plan)"
  by (simp add: CrucibleDecisionSchema_def sample_decision_def CRUCIBLE_MAX_ROUNDS_def sample_env_def)

lemma plan_dep_code:
  "plan_dep plan = set (concat (map (\<lambda>t. map (Pair (pt_id t)) (pt_dependencies t)) (po_tasks plan)))
     \<union> set (map (\<lambda>d. (pd_to d, pd_from d)) (po_dependencies plan))"
  by (fastforce simp: plan_dep_def)

lemma sample_plan_dep: "plan_dep sample_plan = {(''b'', ''a'')}" "plan_dep circular_plan = {(''b'', ''a''), (''a'', ''b'')}"
  unfolding plan_dep_code by (simp_all add: sample_plan_def circular_plan_def sample_task_def insert_commute)

lemma sample_plan_acyclic: "acyclic (plan_dep sample_plan)"
proof -
  have "trans {(''b'', ''a'')}" by (auto simp: trans_def)
  then show ?thesis unfolding sample_plan_dep acyclic_def by (simp add: trancl_id)
qed

lemma circular_plan_cyclic: "\<not> acyclic (plan_dep circular_plan)"
proof -
  have "(''a'', ''b'') \<in> plan_dep circular_plan" "(''b'', ''a'') \<in> plan_dep circular_plan"
    by (simp_all add: sample_plan_dep)
  then have "(''a'', ''a'') \<in> (plan_dep circular_plan)\<^sup>+" by (meson r_into_trancl' trancl_into_trancl)
  then show ?thesis by (auto simp: acyclic_def)
qed

lemma sample_compile_fields:
  "ki_runId (sample_compile plan) \<noteq> []" "ki_decision (sample_compile plan) = sample_decision plan"
  "cd_verdict (sample_decision plan) = VACCEPTED" "cd_acceptedPlan (sample_decision plan) = Some plan"
  "isDatetime sample_env (ki_now (sample_compile plan))"
  by (simp_all add: sample_compile_def sample_decision_def sample_env_def)

lemma acyclic_plan_compiles:
  assumes "PlannerOutputSchema plan" and "acyclic (plan_dep plan)"
  shows "\<exists>g. compileAcceptedPlanToDag sample_env (\<lambda>_. [''issue'']) (\<lambda>_. []) (sample_compile plan) = Inr g"
proof -
  note u = compile_unfold [of "sample_compile plan" sample_env plan "\<lambda>_. [''issue'']" "\<lambda>_. []",
      unfolded sample_compile_fields(2), OF sample_compile_fields(1) sample_decision_schema [OF assms(1)]
      sample_compile_fields(3,4)]
  obtain tasks where t: "topologicalTasks (po_tasks plan) (rawTaskDeps plan) = Inr tasks"
    using topologicalTasks_order [OF assms] by blast
  then have "PlannerOutputSchema plan \<and> sortedTasksOf plan = Some tasks"
    by (simp add: sortedTasksOf_def assms(1))
  from compiler.passes_validation [OF this sample_compile_fields(1,5), of "\<lambda>_. [''issue'']" "\<lambda>_. []"] u t show ?thesis
    by (simp add: Let_def case_prod_beta)
qed

lemma sample_compiles:
  "\<exists>g. compileAcceptedPlanToDag sample_env (\<lambda>_. [''issue'']) (\<lambda>_. []) (sample_compile sample_plan) = Inr g"
  by (rule acyclic_plan_compiles [OF sample_plan_schema sample_plan_acyclic])



text \<open>
  A plan whose tasks depend on each other in a circle is refused with the cycle error, whatever
  its other fields.
\<close>

lemma circular_plan_refused:
  assumes "ki_runId input \<noteq> []" and "CrucibleDecisionSchema E (ki_decision input)"
    and "cd_verdict (ki_decision input) = VACCEPTED" and "cd_acceptedPlan (ki_decision input) = Some plan"
    and "\<not> acyclic (plan_dep plan)"
  shows "compileAcceptedPlanToDag E issues numStr input = Inl PlannerDependencyCycle"
proof -
  note u = compile_unfold [OF assms(1-4), of issues numStr]
  then have plan: "PlannerOutputSchema plan" by blast
  have "topologicalTasks (po_tasks plan) (rawTaskDeps plan) = Inl PlannerDependencyCycle"
    using topologicalTasks_acyclic [OF plan] assms(5)
    by (cases "topo_loop (task_graph plan) []") (auto simp: topologicalTasks_eq [OF plan])
  with u show ?thesis by simp
qed

lemma node_checks_sound:
  assumes "validateCompiledDagNode numStr g n = []"
  shows "nd_type n \<noteq> SHELL_COMMAND"
    and "p \<in> set (nd_toolPermissions n) \<Longrightarrow> \<not> js_includes (toLowerCase p) ''shell''"
    and "d \<in> set (nd_dependsOn n) \<Longrightarrow> \<exists>e \<in> set (dag_edges g). edge_from e = d \<and> edge_to e = nd_id n"
    and "isPlannerTaskNode n \<Longrightarrow> \<exists>v \<in> set (dag_nodes g). nd_type v = VALIDATION
      \<and> (nd_id n \<in> set (nd_dependsOn v) \<or> (\<exists>e \<in> set (dag_edges g). edge_from e = nd_id n \<and> edge_to e = nd_id v))"
proof -
  have shell: "validateUnsafeShellDenied numStr n = []"
    and dep: "validateExplicitDependencyEdges (edgeCoverageMap (dag_edges g)) (nodeOrder (dag_nodes g)) n = []"
    and cov: "validatePlannerTaskCoverage (filter (\<lambda>n. nd_type n = VALIDATION) (dag_nodes g)) (edgeCoverageMap (dag_edges g)) n = []"
    using assms by (simp_all add: validateCompiledDagNode_def Let_def)
  show "nd_type n \<noteq> SHELL_COMMAND"
    and "p \<in> set (nd_toolPermissions n) \<Longrightarrow> \<not> js_includes (toLowerCase p) ''shell''"
    using shell by (auto simp: validateUnsafeShellDenied_def Let_def list_ex_iff split: if_splits)
  show "d \<in> set (nd_dependsOn n) \<Longrightarrow> \<exists>e \<in> set (dag_edges g). edge_from e = d \<and> edge_to e = nd_id n"
    using dep by (auto simp: validateExplicitDependencyEdges_def covers_edgeCoverageMap split: if_splits)
  show "isPlannerTaskNode n \<Longrightarrow> \<exists>v \<in> set (dag_nodes g). nd_type v = VALIDATION
      \<and> (nd_id n \<in> set (nd_dependsOn v) \<or> (\<exists>e \<in> set (dag_edges g). edge_from e = nd_id n \<and> edge_to e = nd_id v))"
    using cov by (auto simp: validatePlannerTaskCoverage_def hasValidationCoverage_def list_ex_iff covers_edgeCoverageMap
        split: if_splits)
qed

text \<open>
  What the compiler returns is safe to run, for any input: the graph is well formed, no node is a
  shell command or holds a permission that mentions a shell, every declared dependency has an edge, and
  every planner task is checked by a validation node. The validation library is taken to report at
  least one issue whenever a schema check fails.
\<close>

lemma compiled_graph_safe:
  assumes issues_reported: "\<And>g. \<not> DagSchema E g \<Longrightarrow> issues g \<noteq> []"
    and "compileAcceptedPlanToDag E issues numStr input = Inr g"
  shows "DagSchema E g \<and> dag_well_formed g
     \<and> (\<forall>n \<in> set (dag_nodes g). nd_type n \<noteq> SHELL_COMMAND
          \<and> (\<forall>p \<in> set (nd_toolPermissions n). \<not> js_includes (toLowerCase p) ''shell'')
          \<and> (\<forall>d \<in> set (nd_dependsOn n). \<exists>e \<in> set (dag_edges g). edge_from e = d \<and> edge_to e = nd_id n)
          \<and> (isPlannerTaskNode n \<longrightarrow> (\<exists>v \<in> set (dag_nodes g). nd_type v = VALIDATION
               \<and> (nd_id n \<in> set (nd_dependsOn v) \<or> (\<exists>e \<in> set (dag_edges g). edge_from e = nd_id n \<and> edge_to e = nd_id v)))))"
proof -
  from assms(2) have valid: "fst (validateCompiledDag E issues numStr g)"
    by (auto simp: compileAcceptedPlanToDag_def Let_def case_prod_beta split: if_splits option.splits)
  have sch: "DagSchema E g"
  proof (rule ccontr)
    assume no: "\<not> DagSchema E g"
    then have "snd (validateDag E issues g) = issues g" by (simp add: validateDag_def)
    with no valid issues_reported [OF no] show False by (simp add: validateCompiledDag_def Let_def)
  qed
  with valid have base: "snd (validateDag E issues g) = []"
    and nodes: "\<And>n. n \<in> set (dag_nodes g) \<Longrightarrow> validateCompiledDagNode numStr g n = []"
    by (simp_all add: validateCompiledDag_def Let_def)
  have "dag_well_formed g" using base validateDag_errors [OF sch] validateDag_accepts by blast
  with sch node_checks_sound [OF nodes] show ?thesis by (intro conjI ballI impI) blast+
qed

end
