(* ===== verification/Dag_Executor.thy ===== *)
theory Dag_Executor
  imports Dag_Compiler
begin

text \<open>
  The deterministic executor of compiled graphs, \<open>src/orchestration/executorSimulator.ts\<close>: one pass
  over the nodes in topological order, with permission checks, timeouts, injected failures, retries,
  validation nodes and abortion, and the event log it writes.

  A timestamp is the epoch-millisecond count that \<open>iso\<close> renders. The abort signal is read once before
  each node; \<open>xo_aborted i\<close> is the value of the \<open>i\<close>-th read. Per-node options are association lists.
  \<open>issues\<close> gives the messages of a failed schema check and \<open>xo_now\<close> is the result of \<open>initialTimeMs\<close>.
\<close>

section \<open>Data\<close>

datatype dag_status = DagSuccess | DagFailed | DagPartial | DagSkipped

datatype node_status = NodeSuccess | NodeFailed | NodeSkipped | NodeRetried

fun nodeStatusName :: "node_status \<Rightarrow> string" where
  "nodeStatusName NodeSuccess = ''SUCCESS''"
| "nodeStatusName NodeFailed = ''FAILED''"
| "nodeStatusName NodeSkipped = ''SKIPPED''"
| "nodeStatusName NodeRetried = ''RETRIED''"

datatype error_code =
    ErrDagValidation | ErrDependency | ErrInjected | ErrOperationMapping | ErrPermission
  | ErrSandboxOperation | ErrTimeout | ErrValidation | ErrAborted

datatype failure_strategy = SKIP_DOWNSTREAM | FAIL_FAST

fun strategyName :: "failure_strategy \<Rightarrow> string" where
  "strategyName SKIP_DOWNSTREAM = ''SKIP_DOWNSTREAM''"
| "strategyName FAIL_FAST = ''FAIL_FAST''"

record execution_policy =
  xp_maxAttempts :: nat
  xp_retryable :: "error_code list"
  xp_perNodeTimeoutMs :: "int option"
  xp_strategy :: failure_strategy

record policy_options =
  yo_maxAttempts :: "int option"
  yo_retryable :: "error_code list option"
  yo_perNodeTimeoutMs :: "int option"
  yo_strategy :: "failure_strategy option"

record execution_error =
  xe_code :: error_code
  xe_message :: string
  xe_nodeId :: "string option"
  xe_details :: "json_record option"

record node_result =
  nr_nodeId :: string
  nr_status :: node_status
  nr_attempts :: nat
  nr_startedAt :: int
  nr_completedAt :: int
  nr_durationMs :: nat
  nr_output :: "json_record option"
  nr_error :: "execution_error option"
  nr_dependencies :: "string list"

datatype exec_event_type =
    DagStarted | NodeStarted | NodeRetriedEvent | NodeCompleted | NodeFailedEvent | NodeSkippedEvent | DagCompleted

datatype event_status = OfDag dag_status | OfNode node_status

text \<open>The body of an event is what the caller passes; \<open>appendEvent\<close> adds the number and the time.\<close>

record event_body =
  xb_type :: exec_event_type
  xb_nodeId :: "string option"
  xb_toolName :: "string option"
  xb_middlewareHalt :: "bool option"
  xb_approvalGateId :: "string option"
  xb_status :: "event_status option"
  xb_attempt :: "nat option"
  xb_error :: "execution_error option"

record exec_event =
  xv_sequence :: nat
  xv_at :: int
  xv_body :: event_body

record dag_result =
  dr_dagId :: string
  dr_runId :: string
  dr_status :: dag_status
  dr_startedAt :: int
  dr_completedAt :: int
  dr_durationMs :: int
  dr_nodeResults :: "node_result list"
  dr_events :: "exec_event list"
  dr_error :: "execution_error option"

record exec_options =
  xo_now :: int
  xo_policy :: policy_options
  xo_injectFailureNodeIds :: "string list"
  xo_injectFailureNodeTypes :: "dag_node_type list"
  xo_injectedErrorCode :: "(string \<times> error_code) list"
  xo_failAttempts :: "(string \<times> jsnum) list"
  xo_durationByNodeId :: "(string \<times> jsnum) list"
  xo_durationByNodeType :: "(dag_node_type \<times> jsnum) list"
  xo_outputByNodeId :: "(string \<times> json_record) list"
  xo_validationFailures :: "(string \<times> string) list"
  xo_allowUnsafeShell :: bool
  xo_aborted :: "nat \<Rightarrow> bool"
  xo_blockWorkspaceOps :: bool

definition DEFAULT_NODE_DURATION_MS :: nat where
  "DEFAULT_NODE_DURATION_MS = 1"

definition DEFAULT_RETRY_ATTEMPTS :: int where
  "DEFAULT_RETRY_ATTEMPTS = 1"

text \<open>A throw: the policy options do not parse, or the result schema refuses an empty identifier.\<close>

datatype executor_error = InvalidExecutionPolicy | InvalidResult

section \<open>Policies, durations and injected failures\<close>

definition resolveExecutionPolicy :: "dag_node \<Rightarrow> exec_options \<Rightarrow> (executor_error, execution_policy) result" where
  "resolveExecutionPolicy node opts =
     (let raw = xo_policy opts;
          parsedAttempts = (case yo_maxAttempts raw of None \<Rightarrow> 1 | Some m \<Rightarrow> m)
      in if parsedAttempts < 1 \<or> (case yo_perNodeTimeoutMs raw of None \<Rightarrow> False | Some t \<Rightarrow> t \<le> 0)
         then Inl InvalidExecutionPolicy
         else Inr \<lparr>xp_maxAttempts = nat (max 1 (case nd_retryPolicy node of None \<Rightarrow> parsedAttempts | Some p \<Rightarrow> rt_maxAttempts p)),
                   xp_retryable = (case yo_retryable raw of None \<Rightarrow> [ErrInjected, ErrTimeout] | Some cs \<Rightarrow> cs),
                   xp_perNodeTimeoutMs = yo_perNodeTimeoutMs raw,
                   xp_strategy = (case yo_strategy raw of None \<Rightarrow> SKIP_DOWNSTREAM | Some s \<Rightarrow> s)\<rparr>)"

definition isRetryableExecutionError :: "execution_error \<Rightarrow> execution_policy \<Rightarrow> bool" where
  "isRetryableExecutionError error policy = (xe_code error \<in> set (xp_retryable policy))"

definition nonNegativeInteger :: "jsnum \<Rightarrow> nat" where
  "nonNegativeInteger v = (case v of Fin q \<Rightarrow> nat \<lfloor>q\<rfloor> | _ \<Rightarrow> DEFAULT_NODE_DURATION_MS)"

definition simulatedDurationMs :: "dag_node \<Rightarrow> exec_options \<Rightarrow> nat" where
  "simulatedDurationMs node opts =
     (case map_of (xo_durationByNodeId opts) (nd_id node) of
        Some v \<Rightarrow> nonNegativeInteger v
      | None \<Rightarrow> (case map_of (xo_durationByNodeType opts) (nd_type node) of
                  Some v \<Rightarrow> nonNegativeInteger v
                | None \<Rightarrow> DEFAULT_NODE_DURATION_MS))"

text \<open>With \<open>NaN\<close> configured the result is \<open>NaN\<close>, which the caller's test \<open>> 0\<close> treats like 0.\<close>

definition injectedFailureAttempts :: "dag_node \<Rightarrow> exec_options \<Rightarrow> nat \<Rightarrow> nat" where
  "injectedFailureAttempts node opts maxAttempts =
     (case map_of (xo_failAttempts opts) (nd_id node) of
        Some v \<Rightarrow> (case v of Fin q \<Rightarrow> min maxAttempts (nat \<lfloor>q\<rfloor>) | PosInf \<Rightarrow> maxAttempts | NegInf \<Rightarrow> 0 | NaN \<Rightarrow> 0)
      | None \<Rightarrow> if nd_id node \<in> set (xo_injectFailureNodeIds opts) then maxAttempts
                else if nd_type node \<in> set (xo_injectFailureNodeTypes opts) then maxAttempts else 0)"

definition injectedFailureError :: "dag_node \<Rightarrow> nat \<Rightarrow> exec_options \<Rightarrow> execution_error" where
  "injectedFailureError node attempt opts =
     \<lparr>xe_code = (case map_of (xo_injectedErrorCode opts) (nd_id node) of Some c \<Rightarrow> c | None \<Rightarrow> ErrInjected),
      xe_message = ''Injected fake failure for node '' @ nd_id node @ '' on attempt '' @ show_nat attempt,
      xe_nodeId = Some (nd_id node),
      xe_details = Some [(''attempt'', jnat attempt), (''nodeType'', JStr (nodeTypeName (nd_type node)))]\<rparr>"

section \<open>Permissions and timeouts\<close>

text \<open>\<open>SHELL_PERMISSION_PATTERN\<close>: the word \<open>shell\<close> between separators or the ends of the text.\<close>

definition shell_separator :: "char \<Rightarrow> bool" where
  "shell_separator c = (c \<in> set ''.:_-'')"

fun shell_from :: "bool \<Rightarrow> string \<Rightarrow> bool" where
  "shell_from boundary [] = False"
| "shell_from boundary (c # cs) =
     (boundary \<and> prefix ''shell'' (c # cs) \<and> (case drop 5 (c # cs) of [] \<Rightarrow> True | d # _ \<Rightarrow> shell_separator d)
      \<or> shell_from (shell_separator c) cs)"

definition SHELL_PERMISSION_PATTERN :: "string \<Rightarrow> bool" where
  "SHELL_PERMISSION_PATTERN p = shell_from True (toLowerCase p)"

definition nodeAllowsUnsafeShell :: "dag_node \<Rightarrow> bool" where
  "nodeAllowsUnsafeShell node =
     (optField (recordFrom (optField (nd_metadata node) ''toolPolicy'')) ''allowUnsafeShell'' = JBool True)"

definition unsafeShellError :: "dag_node \<Rightarrow> exec_options \<Rightarrow> execution_error option" where
  "unsafeShellError node opts =
     (if xo_allowUnsafeShell opts then None
      else let hasShellPermission = list_ex SHELL_PERMISSION_PATTERN (map toLowerCase (nd_toolPermissions node))
           in if nd_type node \<noteq> SHELL_COMMAND \<and> \<not> hasShellPermission \<and> \<not> nodeAllowsUnsafeShell node then None
              else Some \<lparr>xe_code = ErrPermission,
                         xe_message = ''Node '' @ nd_id node @ '' denied unsafe shell execution by default'',
                         xe_nodeId = Some (nd_id node),
                         xe_details = Some [(''nodeType'', JStr (nodeTypeName (nd_type node))),
                           (''toolPermissions'', jstrs (nd_toolPermissions node)),
                           (''allowUnsafeShell'', JBool (nodeAllowsUnsafeShell node))]\<rparr>)"

definition unsandboxedWorkspaceOpError :: "dag_node \<Rightarrow> exec_options \<Rightarrow> execution_error option" where
  "unsandboxedWorkspaceOpError node opts =
     (if \<not> xo_blockWorkspaceOps opts then None
      else if nd_type node \<noteq> FILE_OPERATION \<and> nd_type node \<noteq> SHELL_COMMAND then None
      else Some \<lparr>xe_code = ErrPermission,
                 xe_message = ''CODE_EDIT requires a configured sandbox; simulated file/command execution is not performed when no real sandbox is configured.'',
                 xe_nodeId = Some (nd_id node),
                 xe_details = Some [(''nodeType'', JStr (nodeTypeName (nd_type node))), (''sandboxConfigured'', JBool False)]\<rparr>)"

definition effectiveTimeoutMs :: "dag_node \<Rightarrow> execution_policy \<Rightarrow> int option" where
  "effectiveTimeoutMs node policy =
     (case nd_timeoutMs node of Some t \<Rightarrow> Some t | None \<Rightarrow> xp_perNodeTimeoutMs policy)"

definition timeoutErrorFor :: "dag_node \<Rightarrow> nat \<Rightarrow> execution_policy \<Rightarrow> execution_error option" where
  "timeoutErrorFor node durationMs policy =
     (case effectiveTimeoutMs node policy of
        None \<Rightarrow> None
      | Some timeoutMs \<Rightarrow>
          if int durationMs \<le> timeoutMs then None
          else Some \<lparr>xe_code = ErrTimeout,
                     xe_message = ''Node '' @ nd_id node @ '' simulated duration '' @ show_nat durationMs
                                  @ ''ms exceeded timeout '' @ show_nat (nat timeoutMs) @ ''ms'',
                     xe_nodeId = Some (nd_id node),
                     xe_details = Some [(''simulatedDurationMs'', jnat durationMs),
                                        (''timeoutMs'', JNum (Fin (of_int timeoutMs)))]\<rparr>)"

section \<open>Tool names and simulated output\<close>

definition coalesce :: "json \<Rightarrow> json \<Rightarrow> json" where
  "coalesce a b = (if a = JUndef \<or> a = JNull then b else a)"

definition orElse :: "'a option \<Rightarrow> 'a option \<Rightarrow> 'a option" where
  "orElse a b = (case a of None \<Rightarrow> b | Some _ \<Rightarrow> a)"

definition simulatedToolNameForNode :: "dag_node \<Rightarrow> string" where
  "simulatedToolNameForNode node =
     (let input = nd_input node; metadata = nd_metadata node;
          hint = orElse (recordFrom (optField input ''sandboxOperation''))
                   (orElse (recordFrom (optField metadata ''sandboxOperation'')) (orElse input metadata));
          kind = (case optField hint ''kind'' of
                    JStr s \<Rightarrow> s
                  | _ \<Rightarrow> (case optField hint ''operationKind'' of JStr s \<Rightarrow> s | _ \<Rightarrow> []))
      in if kind = ''READ_FILE'' then ''workspace.read_file''
         else if kind = ''LIST_DIR'' then ''workspace.list_dir''
         else if kind = ''PROPOSE_PATCH'' then ''workspace.apply_patch''
         else if kind = ''RUN_COMMAND'' then ''sandbox.execute''
         else if nd_type node = FILE_OPERATION then ''workspace.apply_patch''
         else if nd_type node = VALIDATION then ''workspace.validate''
         else if nd_type node = SHELL_COMMAND then ''sandbox.execute''
         else ''simulator.echo'')"

type_synonym results_map = "(string, node_result) js_map"

definition statusOrMissing :: "results_map \<Rightarrow> string \<Rightarrow> string" where
  "statusOrMissing results d = (case js_get results d of None \<Rightarrow> ''MISSING'' | Some r \<Rightarrow> nodeStatusName (nr_status r))"

definition simulatedOutputFor :: "dag_node \<Rightarrow> string list \<Rightarrow> exec_options \<Rightarrow> results_map \<Rightarrow> json_record" where
  "simulatedOutputFor node dependencies opts results =
     (let override = (case map_of (xo_outputByNodeId opts) (nd_id node) of None \<Rightarrow> [] | Some r \<Rightarrow> r);
          base = [(''simulated'', JBool True), (''nodeType'', JStr (nodeTypeName (nd_type node))),
                  (''toolName'', JStr (simulatedToolNameForNode node)), (''middlewareHalt'', JBool False),
                  (''expectedOutputs'', jstrs (nd_expectedOutputs node))]
                 @ (if nd_type node = VALIDATION
                    then [(''validation'', JObj [(''passed'', JBool True), (''inspectedDependencies'', jstrs dependencies),
                             (''upstreamStatuses'', JObj (js_map_of_list (map (\<lambda>d. (d, JStr (statusOrMissing results d))) dependencies)))])]
                    else [])
      in spread base override)"

section \<open>Validation nodes\<close>

definition explicitValidationFailureMessage :: "dag_node \<Rightarrow> string option" where
  "explicitValidationFailureMessage node =
     (let input = nd_input node; metadata = nd_metadata node;
          value = coalesce (optField input ''validationFailure'') (coalesce (optField input ''validationShouldFail'')
                   (coalesce (optField metadata ''validationFailure'') (optField metadata ''validationShouldFail'')))
      in case value of
           JStr s \<Rightarrow> if js_trim s \<noteq> [] then Some s else None
         | JBool True \<Rightarrow> Some ''validationShouldFail was set''
         | _ \<Rightarrow> None)"

definition hasRunnableSandboxHint :: "json_record option \<Rightarrow> bool" where
  "hasRunnableSandboxHint value =
     (case value of
        None \<Rightarrow> False
      | Some r \<Rightarrow>
          let hint = (case recordFrom (jfield r ''sandboxOperation'') of Some h \<Rightarrow> h | None \<Rightarrow> r)
          in jfield hint ''kind'' = JStr ''RUN_COMMAND'' \<or> jfield hint ''operationKind'' = JStr ''RUN_COMMAND''
             \<or> (case jfield hint ''command'' of JStr c \<Rightarrow> c \<noteq> [] | _ \<Rightarrow> False))"

definition validationHasExecutableSandboxHint :: "dag_node \<Rightarrow> bool" where
  "validationHasExecutableSandboxHint node =
     (nd_type node = VALIDATION \<and> (hasRunnableSandboxHint (nd_input node) \<or> hasRunnableSandboxHint (nd_metadata node)))"

definition stringArrayFrom :: "(jsnum \<Rightarrow> string) \<Rightarrow> json \<Rightarrow> string list" where
  "stringArrayFrom numStr v = (case v of JArr xs \<Rightarrow> filter (\<lambda>s. s \<noteq> []) (map (js_String numStr) xs) | _ \<Rightarrow> [])"

definition validationTargetNodeIds :: "(jsnum \<Rightarrow> string) \<Rightarrow> json_record option \<Rightarrow> string list \<Rightarrow> string list" where
  "validationTargetNodeIds numStr input dependencies =
     (let many = stringArrayFrom numStr (optField input ''targetNodeIds'')
      in case optField input ''targetNodeId'' of
           JStr t \<Rightarrow> if t \<noteq> [] then [t] else if many \<noteq> [] then many else dependencies
         | _ \<Rightarrow> if many \<noteq> [] then many else dependencies)"

definition validation_error :: "dag_node \<Rightarrow> string \<Rightarrow> json_record \<Rightarrow> execution_error" where
  "validation_error node msg details =
     \<lparr>xe_code = ErrValidation, xe_message = ''Validation node '' @ nd_id node @ msg,
      xe_nodeId = Some (nd_id node), xe_details = Some details\<rparr>"

text \<open>One round of the loop over the targets.\<close>

definition inspectTarget ::
  "(jsnum \<Rightarrow> string) \<Rightarrow> dag_node \<Rightarrow> string list \<Rightarrow> results_map \<Rightarrow> string \<Rightarrow> execution_error option" where
  "inspectTarget numStr node expectedArtifacts results target =
     (case js_get results target of
        None \<Rightarrow> Some (validation_error node ('' could not inspect successful output from '' @ target)
                      [(''targetNodeId'', JStr target), (''upstreamStatus'', JStr ''MISSING'')])
      | Some upstream \<Rightarrow>
          if nr_status upstream \<noteq> NodeSuccess \<and> nr_status upstream \<noteq> NodeRetried
          then Some (validation_error node ('' could not inspect successful output from '' @ target)
                      [(''targetNodeId'', JStr target), (''upstreamStatus'', JStr (nodeStatusName (nr_status upstream)))])
          else if expectedArtifacts = [] then None
          else let artifacts = stringArrayFrom numStr (optField (nr_output upstream) ''expectedOutputs'')
                               @ stringArrayFrom numStr (optField (nr_output upstream) ''artifacts'');
                   missing = filter (\<lambda>a. a \<notin> set artifacts) expectedArtifacts
               in if missing \<noteq> []
                  then Some (validation_error node ('' missing expected artifact(s) from '' @ target @ '': '' @ joinWith '', '' missing)
                         [(''targetNodeId'', JStr target), (''missing'', jstrs missing), (''expectedArtifacts'', jstrs expectedArtifacts)])
                  else None)"

fun first_error :: "('a \<Rightarrow> 'e option) \<Rightarrow> 'a list \<Rightarrow> 'e option" where
  "first_error f [] = None"
| "first_error f (x # xs) = (case f x of Some e \<Rightarrow> Some e | None \<Rightarrow> first_error f xs)"

definition validationErrorFor ::
  "(jsnum \<Rightarrow> string) \<Rightarrow> dag_node \<Rightarrow> string list \<Rightarrow> results_map \<Rightarrow> exec_options \<Rightarrow> execution_error option" where
  "validationErrorFor numStr node dependencies results opts =
     (if nd_type node \<noteq> VALIDATION then None
      else let explicitFailure = orElse (map_of (xo_validationFailures opts) (nd_id node)) (explicitValidationFailureMessage node)
           in if explicitFailure \<noteq> None \<and> explicitFailure \<noteq> Some []
              then Some (validation_error node ('' failed: '' @ the explicitFailure) [(''reason'', JStr (the explicitFailure))])
              else if validationHasExecutableSandboxHint node then None
              else let targets = validationTargetNodeIds numStr (nd_input node) dependencies
                   in if targets = []
                      then Some (validation_error node '' has no upstream node to inspect'' [(''dependencies'', jstrs dependencies)])
                      else first_error (inspectTarget numStr node (stringArrayFrom numStr (optField (nd_input node) ''expectedArtifacts'')) results) targets)"

section \<open>Executing one node\<close>

definition node_event :: "dag_node \<Rightarrow> exec_event_type \<Rightarrow> bool \<Rightarrow> node_status option \<Rightarrow> nat \<Rightarrow> execution_error option \<Rightarrow> event_body" where
  "node_event node type halt status attempt error =
     \<lparr>xb_type = type, xb_nodeId = Some (nd_id node), xb_toolName = Some (simulatedToolNameForNode node),
      xb_middlewareHalt = Some halt, xb_approvalGateId = None, xb_status = map_option OfNode status, xb_attempt = Some attempt, xb_error = error\<rparr>"

text \<open>\<open>{ ...error, details: { ...(error.details ?? {}), attempt } }\<close>\<close>

definition with_attempt :: "execution_error \<Rightarrow> nat \<Rightarrow> execution_error" where
  "with_attempt error attempt =
     error\<lparr>xe_details := Some (spread (case xe_details error of None \<Rightarrow> [] | Some d \<Rightarrow> d) [(''attempt'', jnat attempt)])\<rparr>"

definition failedNodeResult ::
  "dag_node \<Rightarrow> string list \<Rightarrow> int \<Rightarrow> nat \<Rightarrow> execution_error \<Rightarrow> execution_policy \<Rightarrow> node_result \<times> event_body list" where
  "failedNodeResult node dependencies startedAtMs perAttempt error policy =
     (let attempts = (if isRetryableExecutionError error policy then xp_maxAttempts policy else 1);
          halt = (xe_code error = ErrPermission);
          finalError = (if attempts = 1 then error else with_attempt error attempts)
      in (\<lparr>nr_nodeId = nd_id node, nr_status = NodeFailed, nr_attempts = attempts, nr_startedAt = startedAtMs,
           nr_completedAt = startedAtMs + int (perAttempt * attempts), nr_durationMs = perAttempt * attempts,
           nr_output = None, nr_error = Some finalError, nr_dependencies = dependencies\<rparr>,
          map (\<lambda>a. node_event node NodeRetriedEvent halt (Some NodeRetried) a (Some (with_attempt error a))) [1..<attempts]
          @ [node_event node NodeFailedEvent halt (Some NodeFailed) attempts (Some finalError)]))"

definition successfulNodeResult ::
  "dag_node \<Rightarrow> string list \<Rightarrow> int \<Rightarrow> nat \<Rightarrow> nat \<Rightarrow> node_status \<Rightarrow> exec_options \<Rightarrow> results_map \<Rightarrow> node_result" where
  "successfulNodeResult node dependencies startedAtMs perAttempt attempts status opts results =
     \<lparr>nr_nodeId = nd_id node, nr_status = status, nr_attempts = attempts, nr_startedAt = startedAtMs,
      nr_completedAt = startedAtMs + int (perAttempt * attempts), nr_durationMs = perAttempt * attempts,
      nr_output = Some (simulatedOutputFor node dependencies opts results), nr_error = None,
      nr_dependencies = dependencies\<rparr>"

definition injected_retries :: "dag_node \<Rightarrow> exec_options \<Rightarrow> nat list \<Rightarrow> event_body list" where
  "injected_retries node opts attempts =
     map (\<lambda>a. node_event node NodeRetriedEvent False (Some NodeRetried) a (Some (injectedFailureError node a opts))) attempts"

definition injected_failure ::
  "dag_node \<Rightarrow> string list \<Rightarrow> int \<Rightarrow> nat \<Rightarrow> exec_options \<Rightarrow> nat \<Rightarrow> node_result \<times> event_body list" where
  "injected_failure node dependencies startedAtMs perAttempt opts attempts =
     (let error = injectedFailureError node attempts opts
      in (\<lparr>nr_nodeId = nd_id node, nr_status = NodeFailed, nr_attempts = attempts, nr_startedAt = startedAtMs,
           nr_completedAt = startedAtMs + int (perAttempt * attempts), nr_durationMs = perAttempt * attempts,
           nr_output = None, nr_error = Some error, nr_dependencies = dependencies\<rparr>,
          injected_retries node opts [1..<attempts]
          @ [node_event node NodeFailedEvent (xe_code error = ErrPermission) (Some NodeFailed) attempts (Some error)]))"

definition executeNode_with ::
  "(jsnum \<Rightarrow> string) \<Rightarrow> dag_node \<Rightarrow> string list \<Rightarrow> int \<Rightarrow> exec_options \<Rightarrow> results_map \<Rightarrow> execution_policy
     \<Rightarrow> node_result \<times> event_body list" where
  "executeNode_with numStr node dependencies startedAtMs opts results policy =
     (let perAttempt = simulatedDurationMs node opts;
          failed = (\<lambda>error. failedNodeResult node dependencies startedAtMs perAttempt error policy)
      in case unsafeShellError node opts of
           Some e \<Rightarrow> failed e
         | None \<Rightarrow>
      (case unsandboxedWorkspaceOpError node opts of
           Some e \<Rightarrow> failed e
         | None \<Rightarrow>
      (case timeoutErrorFor node perAttempt policy of
           Some e \<Rightarrow> failed e
         | None \<Rightarrow>
      let forced = injectedFailureAttempts node opts (xp_maxAttempts policy)
      in if 0 < forced
         then if \<not> isRetryableExecutionError (injectedFailureError node 1 opts) policy
              then injected_failure node dependencies startedAtMs perAttempt opts 1
              else let bounded = min forced (xp_maxAttempts policy)
                   in if xp_maxAttempts policy \<le> bounded
                      then injected_failure node dependencies startedAtMs perAttempt opts (xp_maxAttempts policy)
                      else (successfulNodeResult node dependencies startedAtMs perAttempt (bounded + 1) NodeRetried opts results,
                            injected_retries node opts [1..<Suc bounded]
                            @ [node_event node NodeCompleted False (Some NodeRetried) (bounded + 1) None])
         else (case validationErrorFor numStr node dependencies results opts of
                 Some e \<Rightarrow> failed e
               | None \<Rightarrow> (successfulNodeResult node dependencies startedAtMs perAttempt 1 NodeSuccess opts results,
                          [node_event node NodeCompleted False (Some NodeSuccess) 1 None])))))"

definition executeNode ::
  "(jsnum \<Rightarrow> string) \<Rightarrow> dag_node \<Rightarrow> string list \<Rightarrow> int \<Rightarrow> exec_options \<Rightarrow> results_map
     \<Rightarrow> (executor_error, node_result \<times> event_body list) result" where
  "executeNode numStr node dependencies startedAtMs opts results =
     bind_result (resolveExecutionPolicy node opts) (\<lambda>policy.
       case executeNode_with numStr node dependencies startedAtMs opts results policy of
         (r, evs) \<Rightarrow> Inr (r, node_event node NodeStarted False None 1 None # evs))"

section \<open>The graph\<close>

definition dependencyMap :: "dag \<Rightarrow> deps_map" where
  "dependencyMap g =
     fold (\<lambda>e deps. case js_get deps (edge_to e) of None \<Rightarrow> deps
                    | Some ds \<Rightarrow> js_set (edge_to e) (js_add (edge_from e) ds) deps)
       (dag_edges g) (initialDeps (dag_nodes g))"

definition topologicalNodes :: "dag_node list \<Rightarrow> deps_map \<Rightarrow> dag_node list" where
  "topologicalNodes nodes deps =
     (let nodeById = js_map_of_list (map (\<lambda>n. (nd_id n, n)) nodes)
      in case topo_loop deps [] of
           None \<Rightarrow> nodes
         | Some order \<Rightarrow> List.map_filter (js_get nodeById) order)"

definition dagStatus :: "node_result list \<Rightarrow> dag_status" where
  "dagStatus results =
     (if results = [] then DagSkipped
      else let failed = length (filter (\<lambda>r. nr_status r = NodeFailed) results);
               skipped = length (filter (\<lambda>r. nr_status r = NodeSkipped) results);
               succeeded = length (filter (\<lambda>r. nr_status r = NodeSuccess \<or> nr_status r = NodeRetried) results)
           in if failed = 0 \<and> skipped = 0 then DagSuccess
              else if failed = 0 \<and> succeeded = 0 \<and> 0 < skipped then DagSkipped
              else if 0 < failed \<and> succeeded = 0 then DagFailed
              else DagPartial)"

text \<open>The variables of \<open>executeCompiledDagSync\<close>.\<close>

record exec_state =
  st_events :: "exec_event list"
  st_sequence :: nat
  st_cursorMs :: int
  st_nodeResults :: "node_result list"
  st_resultsByNode :: results_map

definition appendExecEvent :: "event_body \<Rightarrow> exec_state \<Rightarrow> exec_state" where
  "appendExecEvent b st =
     st\<lparr>st_events := st_events st @ [\<lparr>xv_sequence = st_sequence st, xv_at = st_cursorMs st, xv_body = b\<rparr>],
        st_sequence := st_sequence st + 1\<rparr>"

definition dag_event :: "exec_event_type \<Rightarrow> dag_status option \<Rightarrow> execution_error option \<Rightarrow> event_body" where
  "dag_event type status error =
     \<lparr>xb_type = type, xb_nodeId = None, xb_toolName = None, xb_middlewareHalt = None, xb_approvalGateId = None,
      xb_status = map_option OfDag status, xb_attempt = None, xb_error = error\<rparr>"

definition skip_event :: "dag_node \<Rightarrow> execution_error \<Rightarrow> event_body" where
  "skip_event node error =
     \<lparr>xb_type = NodeSkippedEvent, xb_nodeId = Some (nd_id node), xb_toolName = None, xb_middlewareHalt = None, xb_approvalGateId = None,
      xb_status = Some (OfNode NodeSkipped), xb_attempt = None, xb_error = Some error\<rparr>"

definition recordResult :: "node_result \<Rightarrow> exec_state \<Rightarrow> exec_state" where
  "recordResult r st =
     st\<lparr>st_nodeResults := st_nodeResults st @ [r], st_resultsByNode := js_set (nr_nodeId r) r (st_resultsByNode st)\<rparr>"

definition skippedResult :: "dag_node \<Rightarrow> string list \<Rightarrow> int \<Rightarrow> execution_error \<Rightarrow> node_result" where
  "skippedResult node dependencies atMs error =
     \<lparr>nr_nodeId = nd_id node, nr_status = NodeSkipped, nr_attempts = 0, nr_startedAt = atMs, nr_completedAt = atMs,
      nr_durationMs = 0, nr_output = None, nr_error = Some error, nr_dependencies = dependencies\<rparr>"

definition abortExecutionError :: "string \<Rightarrow> execution_error" where
  "abortExecutionError nodeId =
     \<lparr>xe_code = ErrAborted, xe_message = ''Execution aborted before node '' @ nodeId,
      xe_nodeId = Some nodeId, xe_details = Some [(''aborted'', JBool True)]\<rparr>"

definition sortedDeps :: "deps_map \<Rightarrow> dag_node \<Rightarrow> string list" where
  "sortedDeps deps node = sort (depsOf deps (nd_id node))"

definition abortNode :: "deps_map \<Rightarrow> dag_node \<Rightarrow> exec_state \<Rightarrow> exec_state" where
  "abortNode deps node st =
     (let error = abortExecutionError (nd_id node)
      in appendExecEvent (skip_event node error)
           (recordResult (skippedResult node (sortedDeps deps node) (st_cursorMs st) error) st))"

text \<open>Node identifiers are distinct here, so \<open>slice(startIndex)\<close> is the rest of the ordered nodes.\<close>

definition appendAbortedRemainder :: "deps_map \<Rightarrow> dag_node list \<Rightarrow> exec_state \<Rightarrow> exec_state" where
  "appendAbortedRemainder deps remaining st = fold (abortNode deps) remaining st"

definition blockedBy :: "string list \<Rightarrow> results_map \<Rightarrow> string list" where
  "blockedBy dependencies results =
     filter (\<lambda>d. case js_get results d of None \<Rightarrow> False
                 | Some r \<Rightarrow> nr_status r = NodeFailed \<or> nr_status r = NodeSkipped) dependencies"

definition dependencyError :: "dag_node \<Rightarrow> string list \<Rightarrow> execution_policy \<Rightarrow> execution_error" where
  "dependencyError node blocked policy =
     \<lparr>xe_code = ErrDependency,
      xe_message = ''Node '' @ nd_id node @ '' skipped because dependencies did not complete: '' @ joinWith '', '' blocked,
      xe_nodeId = Some (nd_id node),
      xe_details = Some [(''blockedBy'', jstrs blocked), (''dependencyFailureStrategy'', JStr (strategyName (xp_strategy policy)))]\<rparr>"

text \<open>The body of the loop over the ordered nodes, when the signal is not set.\<close>

definition runNode :: "(jsnum \<Rightarrow> string) \<Rightarrow> exec_options \<Rightarrow> deps_map \<Rightarrow> dag_node \<Rightarrow> exec_state \<Rightarrow> (executor_error, exec_state) result" where
  "runNode numStr opts deps node st =
     (let dependencies = sortedDeps deps node; blocked = blockedBy dependencies (st_resultsByNode st)
      in if blocked \<noteq> []
         then bind_result (resolveExecutionPolicy node opts) (\<lambda>policy.
                let error = dependencyError node blocked policy
                in Inr (appendExecEvent (skip_event node error)
                          (recordResult (skippedResult node dependencies (st_cursorMs st) error) st)))
         else bind_result (executeNode numStr node dependencies (st_cursorMs st) opts (st_resultsByNode st)) (\<lambda>(r, evs).
                let st1 = fold appendExecEvent evs st
                in Inr (recordResult r (st1\<lparr>st_cursorMs := st_cursorMs st1 + int (nr_durationMs r)\<rparr>))))"

fun execute_nodes ::
  "(jsnum \<Rightarrow> string) \<Rightarrow> exec_options \<Rightarrow> deps_map \<Rightarrow> nat \<Rightarrow> dag_node list \<Rightarrow> exec_state
     \<Rightarrow> (executor_error, exec_state \<times> execution_error option) result" where
  "execute_nodes numStr opts deps i [] st = Inr (st, None)"
| "execute_nodes numStr opts deps i (node # rest) st =
     (if xo_aborted opts i
      then Inr (appendAbortedRemainder deps (node # rest) st, Some (abortExecutionError (nd_id node)))
      else bind_result (runNode numStr opts deps node st) (execute_nodes numStr opts deps (Suc i) rest))"

definition invalidGraphError :: "string list \<Rightarrow> execution_error" where
  "invalidGraphError msgs =
     \<lparr>xe_code = ErrDagValidation,
      xe_message = (if joinWith ''; '' msgs = [] then ''DAG validation failed'' else joinWith ''; '' msgs),
      xe_nodeId = None, xe_details = None\<rparr>"

definition start_state :: "exec_options \<Rightarrow> exec_state" where
  "start_state opts =
     appendExecEvent (dag_event DagStarted None None)
       \<lparr>st_events = [], st_sequence = 1, st_cursorMs = xo_now opts, st_nodeResults = [], st_resultsByNode = []\<rparr>"

definition finish :: "dag \<Rightarrow> exec_options \<Rightarrow> dag_status \<Rightarrow> execution_error option \<Rightarrow> exec_state \<Rightarrow> (executor_error, dag_result) result" where
  "finish g opts status error st =
     (if dag_id g = [] \<or> dag_runId g = [] then Inl InvalidResult
      else Inr \<lparr>dr_dagId = dag_id g, dr_runId = dag_runId g, dr_status = status, dr_startedAt = xo_now opts,
                dr_completedAt = st_cursorMs st, dr_durationMs = st_cursorMs st - xo_now opts,
                dr_nodeResults = st_nodeResults st, dr_events = st_events st, dr_error = error\<rparr>)"

definition executeCompiledDagSync ::
  "schema_env \<Rightarrow> (dag \<Rightarrow> string list) \<Rightarrow> (jsnum \<Rightarrow> string) \<Rightarrow> dag \<Rightarrow> exec_options \<Rightarrow> (executor_error, dag_result) result" where
  "executeCompiledDagSync E issues numStr g opts =
     (let invalid = (\<lambda>msgs.
            let error = invalidGraphError msgs
            in finish g opts DagFailed (Some error)
                 (appendExecEvent (dag_event DagCompleted (Some DagFailed) (Some error)) (start_state opts)))
      in if \<not> DagSchema E g then invalid (issues g)
         else if \<not> fst (validateDag E issues g) then invalid (snd (validateDag E issues g))
         else let deps = dependencyMap g
              in bind_result (execute_nodes numStr opts deps 0 (topologicalNodes (dag_nodes g) deps) (start_state opts))
                   (\<lambda>(st, aborted). case aborted of
                      Some error \<Rightarrow> finish g opts (dagStatus (st_nodeResults st)) (Some error)
                                      (appendExecEvent (dag_event DagCompleted (Some DagPartial) (Some error)) st)
                    | None \<Rightarrow> let status = dagStatus (st_nodeResults st)
                              in finish g opts status None (appendExecEvent (dag_event DagCompleted (Some status) None) st)))"

end
