(* ===== verification/Dag_Executor_Correct.thy ===== *)
theory Dag_Executor_Correct
  imports Dag_Executor
begin

text \<open>
  What the executor guarantees for a graph that passes validation: it returns, it reports every node
  once and after its dependencies, it skips exactly the nodes with a failed or skipped dependency,
  it never runs a shell command unless told to, and its log is numbered without gaps.
\<close>

section \<open>The order of the nodes\<close>

definition addDep :: "dag_edge \<Rightarrow> deps_map \<Rightarrow> deps_map" where
  "addDep e deps = (case js_get deps (edge_to e) of None \<Rightarrow> deps
                    | Some ds \<Rightarrow> js_set (edge_to e) (js_add (edge_from e) ds) deps)"

lemma dependencyMap_fold: "dependencyMap g = fold addDep (dag_edges g) (initialDeps (dag_nodes g))"
  unfolding dependencyMap_def addDep_def [abs_def] ..

lemma addDep_keys: "js_keys (addDep e deps) = js_keys deps"
  by (auto simp: addDep_def js_keys_set map_of_eq_None_iff split: option.splits dest: map_of_SomeD intro!: rev_image_eqI)

lemma fold_addDep_keys: "js_keys (fold addDep es deps) = js_keys deps"
  by (induction es arbitrary: deps) (simp_all add: addDep_keys)

lemma fold_addDep_depsOf:
  assumes "\<And>e. e \<in> set es \<Longrightarrow> js_has deps (edge_to e)"
  shows "set (depsOf (fold addDep es deps) n) = set (depsOf deps n) \<union> {edge_from e | e. e \<in> set es \<and> edge_to e = n}"
  using assms
proof (induction es arbitrary: deps)
  case Nil
  then show ?case by simp
next
  case (Cons e es)
  obtain ds where ds: "js_get deps (edge_to e) = Some ds" using Cons.prems [of e] by (auto simp: js_has_def)
  have "js_has (addDep e deps) k \<longleftrightarrow> js_has deps k" for k
    by (metis addDep_keys js_has_iff set_map)
  with Cons have "set (depsOf (fold addDep es (addDep e deps)) n)
      = set (depsOf (addDep e deps) n) \<union> {edge_from e | e. e \<in> set es \<and> edge_to e = n}" by simp
  moreover have "set (depsOf (addDep e deps) n) = set (depsOf deps n) \<union> (if n = edge_to e then {edge_from e} else {})"
    using ds by (auto simp: addDep_def depsOf_def)
  ultimately show ?case by auto
qed

lemma edge_rel_depsOf: "distinct (js_keys deps) \<Longrightarrow> (k, d) \<in> edge_rel deps \<longleftrightarrow> d \<in> set (depsOf deps k)"
proof -
  assume "distinct (js_keys deps)"
  then have "(k, d) \<in> edge_rel deps \<longleftrightarrow> (\<exists>ds. js_get deps k = Some ds \<and> d \<in> set ds)"
    unfolding edge_rel_def by (simp only: distinct_keys_get mem_Collect_eq case_prod_conv)
  then show ?thesis by (cases "js_get deps k") (simp_all add: depsOf_def)
qed

lemma dependencyMap_facts:
  assumes "dag_well_formed g"
  shows "js_keys (dependencyMap g) = dag_ids g" and "d \<in> set (depsOf (dependencyMap g) n) \<longleftrightarrow> (n, d) \<in> dag_dep g"
    and "edge_rel (dependencyMap g) = dag_dep g"
proof -
  have dist: "distinct (dag_ids g)" using assms by (simp add: dag_well_formed_def)
  have "js_keys (initialDeps (dag_nodes g)) = dag_ids g"
    using dist by (simp add: initialDeps_def js_map_of_list_distinct comp_def dag_ids_def)
  then show keys: "js_keys (dependencyMap g) = dag_ids g"
    by (simp add: dependencyMap_fold fold_addDep_keys)
  have "js_has (initialDeps (dag_nodes g)) (edge_to e)" if "e \<in> set (dag_edges g)" for e
  proof -
    have "(edge_to e, edge_from e) \<in> dag_dep g" using that by (auto simp: dag_dep_def)
    with assms have "edge_to e \<in> set (dag_ids g)" by (auto simp: dag_well_formed_def)
    then show ?thesis by (simp add: dag_ids_def)
  qed
  then have "\<forall>n. set (depsOf (dependencyMap g) n) = set (depsOf (initialDeps (dag_nodes g)) n)
      \<union> {edge_from e | e. e \<in> set (dag_edges g) \<and> edge_to e = n}"
    unfolding dependencyMap_fold by (intro allI fold_addDep_depsOf)
  from depsOf_spec [OF dist this] show dep: "d \<in> set (depsOf (dependencyMap g) n) \<longleftrightarrow> (n, d) \<in> dag_dep g" for d n
    by simp
  show "edge_rel (dependencyMap g) = dag_dep g"
    using edge_rel_depsOf [of "dependencyMap g"] keys dist dep by auto
qed

lemma topologicalNodes_order:
  assumes wf: "dag_well_formed g"
  obtains ns where "topologicalNodes (dag_nodes g) (dependencyMap g) = ns" and "set ns = set (dag_nodes g)"
    and "distinct (map nd_id ns)" and "dep_closed_order (dependencyMap g) (map nd_id ns)"
proof -
  note facts = dependencyMap_facts [OF wf]
  have dist: "distinct (map nd_id (dag_nodes g))" and acyc: "acyclic (edge_rel (dependencyMap g))"
    using wf by (simp_all add: dag_well_formed_def dag_ids_def facts(3))
  have keys: "map fst (dependencyMap g) = map nd_id (dag_nodes g)" using facts(1) by (simp add: dag_ids_def)
  have "d \<in> fst ` set (dependencyMap g)" if "(k, d) \<in> edge_rel (dependencyMap g)" for k d
  proof -
    have "d \<in> set (dag_ids g)" using that wf unfolding facts(3) dag_well_formed_def by blast
    then show ?thesis using facts(1) by (metis set_map)
  qed
  then obtain ns where ns: "topo_loop (dependencyMap g) [] = Some (map nd_id ns)"
    "List.map_filter (map_of (map (\<lambda>n. (nd_id n, n)) (dag_nodes g))) (map nd_id ns) = ns"
    "set ns = set (dag_nodes g)" "distinct (map nd_id ns)" "dep_closed_order (dependencyMap g) (map nd_id ns)"
    by (auto intro: topo_sort_keyed [OF dist keys acyc])
  have "js_map_of_list (map (\<lambda>n. (nd_id n, n)) (dag_nodes g)) = map (\<lambda>n. (nd_id n, n)) (dag_nodes g)"
    using dist by (simp add: js_map_of_list_distinct comp_def)
  then have "topologicalNodes (dag_nodes g) (dependencyMap g) = ns"
    by (simp only: topologicalNodes_def Let_def ns(1,2) option.case)
  then show thesis using that ns(3-5) by blast
qed

section \<open>One node\<close>

definition succeeded :: "node_result \<Rightarrow> bool" where
  "succeeded r \<longleftrightarrow> nr_status r = NodeSuccess \<or> nr_status r = NodeRetried"

text \<open>What a result of \<open>executeNode\<close> says about the node.\<close>

definition executed :: "exec_options \<Rightarrow> dag_node \<Rightarrow> node_result \<Rightarrow> bool" where
  "executed opts node r \<longleftrightarrow> nr_nodeId r = nd_id node \<and> nr_status r \<noteq> NodeSkipped
     \<and> (succeeded r \<longrightarrow> unsafeShellError node opts = None \<and> unsandboxedWorkspaceOpError node opts = None)
     \<and> (nr_error r = None \<longleftrightarrow> succeeded r)
     \<and> 1 \<le> nr_attempts r \<and> nr_durationMs r = simulatedDurationMs node opts * nr_attempts r
     \<and> (case nd_retryPolicy node of None \<Rightarrow> True | Some p \<Rightarrow> int (nr_attempts r) \<le> max 1 (rt_maxAttempts p))"

lemma resolveExecutionPolicy_facts:
  assumes "resolveExecutionPolicy node opts = Inr policy"
  shows "1 \<le> xp_maxAttempts policy"
    and "nd_retryPolicy node = Some p \<Longrightarrow> int (xp_maxAttempts policy) = max 1 (rt_maxAttempts p)"
  using assms by (auto simp: resolveExecutionPolicy_def Let_def nat_le_iff split: if_splits)

definition node_ok :: "execution_policy \<Rightarrow> exec_options \<Rightarrow> dag_node \<Rightarrow> node_result \<Rightarrow> bool" where
  "node_ok policy opts node r \<longleftrightarrow> nr_nodeId r = nd_id node \<and> 1 \<le> nr_attempts r
     \<and> nr_attempts r \<le> xp_maxAttempts policy \<and> nr_durationMs r = simulatedDurationMs node opts * nr_attempts r
     \<and> (nr_status r = NodeFailed \<and> nr_error r \<noteq> None
        \<or> succeeded r \<and> nr_error r = None \<and> unsafeShellError node opts = None \<and> unsandboxedWorkspaceOpError node opts = None)"

lemma failedNodeResult_ok:
  "1 \<le> xp_maxAttempts policy \<Longrightarrow> node_ok policy opts node (fst (failedNodeResult node ds t (simulatedDurationMs node opts) e policy))"
  by (simp add: failedNodeResult_def node_ok_def Let_def)

lemma injected_failure_ok:
  "1 \<le> n \<Longrightarrow> n \<le> xp_maxAttempts policy \<Longrightarrow> node_ok policy opts node (fst (injected_failure node ds t (simulatedDurationMs node opts) opts n))"
  by (simp add: injected_failure_def node_ok_def Let_def)

lemma successfulNodeResult_ok:
  "1 \<le> n \<Longrightarrow> n \<le> xp_maxAttempts policy \<Longrightarrow> status = NodeSuccess \<or> status = NodeRetried \<Longrightarrow>
   unsafeShellError node opts = None \<Longrightarrow> unsandboxedWorkspaceOpError node opts = None \<Longrightarrow>
   node_ok policy opts node (successfulNodeResult node ds t (simulatedDurationMs node opts) n status opts results)"
  by (auto simp: successfulNodeResult_def node_ok_def succeeded_def)

lemma executeNode_with_ok:
  assumes "1 \<le> xp_maxAttempts policy"
  shows "node_ok policy opts node (fst (executeNode_with numStr node ds t opts results policy))"
  unfolding executeNode_with_def Let_def
  using assms by (simp add: failedNodeResult_ok injected_failure_ok successfulNodeResult_ok split: option.split)

lemma executeNode_executed:
  assumes "executeNode numStr node ds t opts results = Inr (r, evs)"
  shows "executed opts node r"
proof -
  obtain policy where p: "resolveExecutionPolicy node opts = Inr policy"
    "r = fst (executeNode_with numStr node ds t opts results policy)"
    using assms by (auto simp: executeNode_def case_prod_beta)
  note pf = resolveExecutionPolicy_facts [OF p(1)]
  have "node_ok policy opts node r" unfolding p(2) by (rule executeNode_with_ok [OF pf(1)])
  then show ?thesis
    using pf(2) by (auto simp: executed_def node_ok_def succeeded_def split: option.splits)
qed

section \<open>The loop over the nodes\<close>

text \<open>The map of results holds the results pushed so far, under the identifiers of their nodes.\<close>

definition indexed :: "node_result list \<Rightarrow> results_map" where
  "indexed rs = map (\<lambda>r. (nr_nodeId r, r)) rs"

definition consistent :: "exec_state \<Rightarrow> bool" where
  "consistent st \<longleftrightarrow> st_resultsByNode st = indexed (st_nodeResults st)"

text \<open>
  One entry of the report: aborted, skipped because a dependency did not complete, or executed.
  \<open>before\<close> are the entries above it.
\<close>

definition entry_ok :: "exec_options \<Rightarrow> deps_map \<Rightarrow> node_result list \<Rightarrow> dag_node \<Rightarrow> node_result \<Rightarrow> bool" where
  "entry_ok opts deps before node r \<longleftrightarrow>
     nr_nodeId r = nd_id node \<and> nr_dependencies r = sortedDeps deps node
     \<and> ((\<exists>i. xo_aborted opts i) \<and> nr_status r = NodeSkipped
        \<or> nr_status r = NodeSkipped \<and> blockedBy (sortedDeps deps node) (indexed before) \<noteq> []
        \<or> executed opts node r \<and> blockedBy (sortedDeps deps node) (indexed before) = [])"

fun report_ok :: "exec_options \<Rightarrow> deps_map \<Rightarrow> node_result list \<Rightarrow> dag_node list \<Rightarrow> node_result list \<Rightarrow> bool" where
  "report_ok opts deps before [] rs = (rs = [])"
| "report_ok opts deps before (n # ns) rs =
     (case rs of [] \<Rightarrow> False | r # rs' \<Rightarrow> entry_ok opts deps before n r \<and> report_ok opts deps (before @ [r]) ns rs')"

lemma appendExecEvent_state [simp]:
  "st_nodeResults (appendExecEvent b st) = st_nodeResults st" "st_resultsByNode (appendExecEvent b st) = st_resultsByNode st"
  "st_cursorMs (appendExecEvent b st) = st_cursorMs st"
  by (simp_all add: appendExecEvent_def)

lemma fold_appendExecEvent_state [simp]:
  "st_nodeResults (fold appendExecEvent bs st) = st_nodeResults st"
  "st_resultsByNode (fold appendExecEvent bs st) = st_resultsByNode st"
  "st_cursorMs (fold appendExecEvent bs st) = st_cursorMs st"
  by (induction bs arbitrary: st) simp_all

lemma recordResult_consistent:
  assumes "consistent st" and "nr_nodeId r \<notin> nr_nodeId ` set (st_nodeResults st)"
  shows "consistent (recordResult r st)"
proof -
  have "nr_nodeId r \<notin> fst ` set (indexed (st_nodeResults st))" using assms(2) by (auto simp: indexed_def)
  then have "js_set (nr_nodeId r) r (indexed (st_nodeResults st)) = indexed (st_nodeResults st @ [r])"
    by (simp add: js_keys_set_fresh indexed_def)
  with assms(1) show ?thesis by (simp add: consistent_def recordResult_def)
qed

lemma executeNode_with_deps: "nr_dependencies (fst (executeNode_with numStr node ds t opts results policy)) = ds"
  unfolding executeNode_with_def Let_def
  by (simp add: failedNodeResult_def injected_failure_def successfulNodeResult_def Let_def split: option.split)

lemma runNode_entry:
  assumes "runNode numStr opts deps node st = Inr st'" and "consistent st"
  obtains r where "st_nodeResults st' = st_nodeResults st @ [r]"
    and "st_resultsByNode st' = js_set (nr_nodeId r) r (st_resultsByNode st)"
    and "entry_ok opts deps (st_nodeResults st) node r"
proof (cases "blockedBy (sortedDeps deps node) (st_resultsByNode st) = []")
  case True
  then obtain r evs where e: "executeNode numStr node (sortedDeps deps node) (st_cursorMs st) opts (st_resultsByNode st) = Inr (r, evs)"
    and st': "st_nodeResults st' = st_nodeResults st @ [r]" "st_resultsByNode st' = js_set (nr_nodeId r) r (st_resultsByNode st)"
    using assms(1) by (auto simp: runNode_def recordResult_def Let_def)
  have "nr_dependencies r = sortedDeps deps node"
    using e by (auto simp: executeNode_def case_prod_beta executeNode_with_deps)
  with executeNode_executed [OF e] True assms(2) have "entry_ok opts deps (st_nodeResults st) node r"
    by (simp add: entry_ok_def executed_def consistent_def)
  with st' show thesis by (rule that)
next
  case False
  then show thesis
    using assms that [of "skippedResult node (sortedDeps deps node) (st_cursorMs st) e" for e]
    by (auto simp: runNode_def recordResult_def entry_ok_def skippedResult_def consistent_def Let_def)
qed

lemma runNode_total:
  assumes "\<And>n. \<exists>p. resolveExecutionPolicy n opts = Inr p"
  shows "\<exists>st'. runNode numStr opts deps node st = Inr st'"
proof -
  obtain p where "resolveExecutionPolicy node opts = Inr p" using assms by blast
  then show ?thesis by (simp add: runNode_def executeNode_def Let_def case_prod_beta)
qed

lemma abort_remainder_report:
  assumes "\<exists>i. xo_aborted opts i"
  shows "\<exists>rs. st_nodeResults (appendAbortedRemainder deps ns st) = st_nodeResults st @ rs
     \<and> report_ok opts deps (st_nodeResults st) ns rs"
proof (induction ns arbitrary: st)
  case Nil
  then show ?case by (simp add: appendAbortedRemainder_def)
next
  case (Cons n ns)
  define r where "r = skippedResult n (sortedDeps deps n) (st_cursorMs st) (abortExecutionError (nd_id n))"
  have st1: "st_nodeResults (abortNode deps n st) = st_nodeResults st @ [r]"
    by (simp add: abortNode_def recordResult_def r_def Let_def)
  have "entry_ok opts deps (st_nodeResults st) n r"
    using assms by (simp add: entry_ok_def r_def skippedResult_def)
  moreover obtain rs where "st_nodeResults (appendAbortedRemainder deps ns (abortNode deps n st)) = st_nodeResults st @ [r] @ rs"
    "report_ok opts deps (st_nodeResults st @ [r]) ns rs"
    using Cons.IH [of "abortNode deps n st"] st1 by auto
  ultimately have "st_nodeResults (appendAbortedRemainder deps (n # ns) st) = st_nodeResults st @ (r # rs)
      \<and> report_ok opts deps (st_nodeResults st) (n # ns) (r # rs)"
    by (simp add: appendAbortedRemainder_def)
  then show ?case by blast
qed

lemma execute_nodes_report:
  assumes "execute_nodes numStr opts deps i ns st = Inr (st', aborted)" and "consistent st"
    and "distinct (map nr_nodeId (st_nodeResults st) @ map nd_id ns)"
  shows "\<exists>rs. st_nodeResults st' = st_nodeResults st @ rs \<and> report_ok opts deps (st_nodeResults st) ns rs"
  using assms
proof (induction ns arbitrary: i st)
  case Nil
  then show ?case by simp
next
  case (Cons n ns)
  show ?case
  proof (cases "xo_aborted opts i")
    case True
    then have "st' = appendAbortedRemainder deps (n # ns) st" using Cons.prems(1) by simp
    with abort_remainder_report [of opts deps "n # ns" st] True show ?thesis by blast
  next
    case False
    then obtain st1 where st1: "runNode numStr opts deps n st = Inr st1"
      "execute_nodes numStr opts deps (Suc i) ns st1 = Inr (st', aborted)"
      using Cons.prems(1) by auto
    obtain r where r: "st_nodeResults st1 = st_nodeResults st @ [r]"
      "st_resultsByNode st1 = js_set (nr_nodeId r) r (st_resultsByNode st)" "entry_ok opts deps (st_nodeResults st) n r"
      by (rule runNode_entry [OF st1(1) Cons.prems(2)])
    have fresh: "nr_nodeId r \<notin> nr_nodeId ` set (st_nodeResults st)"
      using Cons.prems(3) r(3) by (auto simp: entry_ok_def)
    have "consistent st1"
      using recordResult_consistent [OF Cons.prems(2) fresh] r(1,2) by (simp add: consistent_def recordResult_def)
    moreover have "distinct (map nr_nodeId (st_nodeResults st1) @ map nd_id ns)"
      using Cons.prems(3) r(1,3) by (auto simp: entry_ok_def)
    ultimately obtain rs where "st_nodeResults st' = st_nodeResults st @ [r] @ rs" "report_ok opts deps (st_nodeResults st @ [r]) ns rs"
      using Cons.IH [OF st1(2)] r(1) by auto
    then have "st_nodeResults st' = st_nodeResults st @ (r # rs) \<and> report_ok opts deps (st_nodeResults st) (n # ns) (r # rs)"
      using r(3) by simp
    then show ?thesis by blast
  qed
qed

lemma execute_nodes_total:
  assumes "\<And>n. \<exists>p. resolveExecutionPolicy n opts = Inr p"
  shows "\<exists>st' aborted. execute_nodes numStr opts deps i ns st = Inr (st', aborted)"
proof (induction ns arbitrary: i st)
  case Nil
  then show ?case by simp
next
  case (Cons n ns)
  obtain st1 where "runNode numStr opts deps n st = Inr st1" using runNode_total [OF assms] by blast
  with Cons.IH [of "Suc i" st1] show ?case by simp
qed

section \<open>Reading the report\<close>

lemma report_ok_length: "report_ok opts deps before ns rs \<Longrightarrow> length rs = length ns"
  by (induction ns arbitrary: before rs) (auto split: list.splits)

lemma report_ok_nth:
  "report_ok opts deps before ns rs \<Longrightarrow> i < length ns \<Longrightarrow> entry_ok opts deps (before @ take i rs) (ns ! i) (rs ! i)"
proof (induction ns arbitrary: before rs i)
  case Nil
  then show ?case by simp
next
  case (Cons n ns)
  then obtain r rs' where rs: "rs = r # rs'" "entry_ok opts deps before n r" "report_ok opts deps (before @ [r]) ns rs'"
    by (auto split: list.splits)
  with Cons.IH [OF rs(3)] Cons.prems(2) show ?case by (cases i) auto
qed

lemma report_ok_ids: "report_ok opts deps before ns rs \<Longrightarrow> map nr_nodeId rs = map nd_id ns"
  by (induction ns arbitrary: before rs) (auto simp: entry_ok_def split: list.splits)

lemma indexed_get:
  assumes "distinct (map nr_nodeId rs)"
  shows "js_get (indexed rs) k = Some r \<longleftrightarrow> r \<in> set rs \<and> nr_nodeId r = k"
proof -
  have "distinct (map fst (indexed rs))" using assms by (simp add: indexed_def comp_def)
  then have "js_get (indexed rs) k = Some r \<longleftrightarrow> (k, r) \<in> set (indexed rs)" by simp
  then show ?thesis by (auto simp: indexed_def)
qed

lemma policy_total:
  assumes "\<exists>p. resolveExecutionPolicy m opts = Inr p"
  shows "\<exists>p. resolveExecutionPolicy n opts = Inr p"
  using assms by (auto simp: resolveExecutionPolicy_def Let_def split: if_splits)

definition policy_parses :: "exec_options \<Rightarrow> bool" where
  "policy_parses opts \<longleftrightarrow> (case yo_maxAttempts (xo_policy opts) of None \<Rightarrow> True | Some m \<Rightarrow> 1 \<le> m)
     \<and> (case yo_perNodeTimeoutMs (xo_policy opts) of None \<Rightarrow> True | Some t \<Rightarrow> 0 < t)"

lemma policy_parses_resolve: "policy_parses opts \<Longrightarrow> \<exists>p. resolveExecutionPolicy n opts = Inr p"
  by (auto simp: policy_parses_def resolveExecutionPolicy_def Let_def split: option.splits)

lemma finish_Inr:
  "finish g opts status err st = Inr r \<longleftrightarrow> dag_id g \<noteq> [] \<and> dag_runId g \<noteq> []
     \<and> r = \<lparr>dr_dagId = dag_id g, dr_runId = dag_runId g, dr_status = status, dr_startedAt = xo_now opts,
            dr_completedAt = st_cursorMs st, dr_durationMs = st_cursorMs st - xo_now opts,
            dr_nodeResults = st_nodeResults st, dr_events = st_events st, dr_error = err\<rparr>"
  by (auto simp: finish_def)

text \<open>The two ways the loop over the nodes ends, as the outcome of the whole call.\<close>

definition conclude :: "dag \<Rightarrow> exec_options \<Rightarrow> exec_state \<Rightarrow> execution_error option \<Rightarrow> (executor_error, dag_result) result" where
  "conclude g opts st aborted =
     (let status = dagStatus (st_nodeResults st)
      in finish g opts status aborted
           (appendExecEvent (dag_event DagCompleted (Some (if aborted = None then status else DagPartial)) aborted) st))"

lemma execute_unfold:
  assumes "DagSchema E g" and "dag_well_formed g"
  shows "executeCompiledDagSync E issues numStr g opts =
     bind_result (execute_nodes numStr opts (dependencyMap g) 0 (topologicalNodes (dag_nodes g) (dependencyMap g)) (start_state opts))
       (\<lambda>(st, aborted). conclude g opts st aborted)"
proof -
  have "fst (validateDag E issues g)" using assms validateDag_accepts by blast
  then show ?thesis
    using assms(1) by (simp add: executeCompiledDagSync_def Let_def)
      (auto simp: fun_eq_iff conclude_def Let_def intro!: arg_cong [where f = "bind_result _"] split: option.split)
qed

lemma start_state_results [simp]: "st_nodeResults (start_state opts) = []" "st_resultsByNode (start_state opts) = []"
  "st_cursorMs (start_state opts) = xo_now opts"
  by (simp_all add: start_state_def)

lemma execution_report:
  assumes "DagSchema E g" and "dag_well_formed g" and "executeCompiledDagSync E issues numStr g opts = Inr r"
  obtains ns where "set ns = set (dag_nodes g)" and "distinct (map nd_id ns)"
    and "dep_closed_order (dependencyMap g) (map nd_id ns)"
    and "report_ok opts (dependencyMap g) [] ns (dr_nodeResults r)" and "dr_status r = dagStatus (dr_nodeResults r)"
proof -
  obtain ns where ns: "topologicalNodes (dag_nodes g) (dependencyMap g) = ns" "set ns = set (dag_nodes g)"
    "distinct (map nd_id ns)" "dep_closed_order (dependencyMap g) (map nd_id ns)"
    by (rule topologicalNodes_order [OF assms(2)])
  obtain st aborted where st: "execute_nodes numStr opts (dependencyMap g) 0 ns (start_state opts) = Inr (st, aborted)"
    "conclude g opts st aborted = Inr r"
    using assms(3) execute_unfold [OF assms(1,2)] ns(1) by auto
  have "\<exists>rs. st_nodeResults st = [] @ rs \<and> report_ok opts (dependencyMap g) [] ns rs"
    using execute_nodes_report [OF st(1)] ns(3) by (simp add: consistent_def indexed_def)
  moreover have "dr_nodeResults r = st_nodeResults st" "dr_status r = dagStatus (st_nodeResults st)"
    using st(2) by (auto simp: conclude_def finish_Inr Let_def)
  ultimately show thesis using that [OF ns(2-4)] by simp
qed

lemma execution_total:
  assumes "DagSchema E g" and "dag_well_formed g" and "policy_parses opts"
  shows "\<exists>r. executeCompiledDagSync E issues numStr g opts = Inr r"
proof -
  obtain st aborted where "execute_nodes numStr opts (dependencyMap g) 0 (topologicalNodes (dag_nodes g) (dependencyMap g)) (start_state opts)
      = Inr (st, aborted)"
    using execute_nodes_total policy_parses_resolve [OF assms(3)] by blast
  moreover have "dag_id g \<noteq> []" "dag_runId g \<noteq> []" using assms(1) by (simp_all add: DagSchema_def)
  ultimately show ?thesis by (simp add: execute_unfold [OF assms(1,2)] conclude_def finish_def Let_def)
qed

text \<open>Dependencies of an entry are reported above it.\<close>

lemma ordered_dependency_before:
  assumes "dag_well_formed g" and "dep_closed_order (dependencyMap g) (map nd_id ns)"
    and ids: "map nr_nodeId rs = map nd_id ns" and "i < length rs" and "(nr_nodeId (rs ! i), d) \<in> dag_dep g"
  shows "\<exists>j < i. nr_nodeId (rs ! j) = d"
proof -
  have i: "i < length (map nd_id ns)" using assms(4) ids by (metis length_map)
  have nth: "nr_nodeId (rs ! k) = map nd_id ns ! k" if "k < length rs" for k
    using that ids by (metis nth_map)
  have "d \<in> set (take i (map nd_id ns))"
    using assms(2,5) i nth [OF assms(4)] unfolding dep_closed_order_def dependencyMap_facts(3) [OF assms(1)] by metis
  then obtain j where "j < i" "map nd_id ns ! j = d" using i by (auto simp: in_set_conv_nth)
  with nth [of j] assms(4) show ?thesis by auto
qed

lemma report_dependency_before:
  assumes "dag_well_formed g" and "dep_closed_order (dependencyMap g) (map nd_id ns)"
    and "report_ok opts (dependencyMap g) [] ns rs" and "i < length rs" and "(nr_nodeId (rs ! i), d) \<in> dag_dep g"
  shows "\<exists>j < i. nr_nodeId (rs ! j) = d"
  by (rule ordered_dependency_before [OF assms(1,2) report_ok_ids [OF assms(3)] assms(4,5)])

text \<open>Which entries block a node, over the whole report.\<close>

lemma not_succeeded: "nr_status r = NodeFailed \<or> nr_status r = NodeSkipped \<longleftrightarrow> \<not> succeeded r"
  by (cases "nr_status r") (simp_all add: succeeded_def)

lemma blockedBy_iff: "blockedBy ds m \<noteq> [] \<longleftrightarrow> (\<exists>d. d \<in> set ds \<and> (\<exists>r. js_get m d = Some r \<and> \<not> succeeded r))"
  unfolding blockedBy_def not_succeeded filter_empty_conv by (auto split: option.splits)

lemma blockedBy_report:
  assumes wf: "dag_well_formed g" and ord: "dep_closed_order (dependencyMap g) (map nd_id ns)"
    and dist: "distinct (map nd_id ns)"
    and rep: "report_ok opts (dependencyMap g) [] ns rs" and i: "i < length rs"
  shows "blockedBy (sortedDeps (dependencyMap g) (ns ! i)) (indexed (take i rs)) \<noteq> [] \<longleftrightarrow>
     (\<exists>r \<in> set rs. (nr_nodeId (rs ! i), nr_nodeId r) \<in> dag_dep g \<and> \<not> succeeded r)"
proof -
  note ids = report_ok_ids [OF rep]
  have len: "length rs = length ns" by (rule report_ok_length [OF rep])
  have dist': "distinct (map nr_nodeId rs)" using dist ids by simp
  then have dist_take: "distinct (map nr_nodeId (take i rs))" by (metis distinct_take take_map)
  have idi: "nr_nodeId (rs ! i) = nd_id (ns ! i)" using ids i len by (metis nth_map)
  have "blockedBy (sortedDeps (dependencyMap g) (ns ! i)) (indexed (take i rs)) \<noteq> [] \<longleftrightarrow>
      (\<exists>d. (nd_id (ns ! i), d) \<in> dag_dep g \<and> (\<exists>r. js_get (indexed (take i rs)) d = Some r \<and> \<not> succeeded r))"
    unfolding blockedBy_iff by (simp add: sortedDeps_def dependencyMap_facts(2) [OF wf])
  also have "\<dots> \<longleftrightarrow> (\<exists>r \<in> set (take i rs). (nr_nodeId (rs ! i), nr_nodeId r) \<in> dag_dep g \<and> \<not> succeeded r)"
    unfolding indexed_get [OF dist_take] idi by blast
  also have "\<dots> \<longleftrightarrow> (\<exists>r \<in> set rs. (nr_nodeId (rs ! i), nr_nodeId r) \<in> dag_dep g \<and> \<not> succeeded r)" (is "?L \<longleftrightarrow> ?R")
  proof
    assume ?L
    then show ?R by (meson in_set_takeD)
  next
    assume ?R
    then obtain k where k: "k < length rs" "(nr_nodeId (rs ! i), nr_nodeId (rs ! k)) \<in> dag_dep g" "\<not> succeeded (rs ! k)"
      by (auto simp: in_set_conv_nth)
    obtain j where "j < i" "nr_nodeId (rs ! j) = nr_nodeId (rs ! k)"
      using report_dependency_before [OF wf ord rep i k(2)] by blast
    with k(1) i have "k < i" using nth_eq_iff_index_eq [OF dist', of j k] by simp
    then have "rs ! k \<in> set (take i rs)" using i by (auto simp: in_set_conv_nth)
    with k(2,3) show ?L by blast
  qed
  finally show ?thesis .
qed

section \<open>The event log\<close>

text \<open>The log is numbered from 1 without gaps, and its times never go back.\<close>

definition log_ok :: "exec_state \<Rightarrow> bool" where
  "log_ok st \<longleftrightarrow> st_sequence st = Suc (length (st_events st))
     \<and> map xv_sequence (st_events st) = [1..<Suc (length (st_events st))]
     \<and> sorted (map xv_at (st_events st)) \<and> (\<forall>e \<in> set (st_events st). xv_at e \<le> st_cursorMs st)"

lemma log_ok_append: "log_ok st \<Longrightarrow> log_ok (appendExecEvent b st)"
  by (auto simp: log_ok_def appendExecEvent_def sorted_append)

lemma log_ok_fold_append: "log_ok st \<Longrightarrow> log_ok (fold appendExecEvent bs st)"
  by (induction bs arbitrary: st) (simp_all add: log_ok_append)

lemma log_ok_record: "log_ok (recordResult r st) \<longleftrightarrow> log_ok st"
  by (simp add: log_ok_def recordResult_def)

lemma log_ok_advance: "log_ok st \<Longrightarrow> st_cursorMs st \<le> c \<Longrightarrow> log_ok (st\<lparr>st_cursorMs := c\<rparr>)"
  by (fastforce simp: log_ok_def)

lemmas log_ok_intros = log_ok_append log_ok_fold_append log_ok_advance

lemma log_ok_abort: "log_ok st \<Longrightarrow> log_ok (appendAbortedRemainder deps ns st)"
  unfolding appendAbortedRemainder_def
  by (induction ns arbitrary: st) (simp_all add: abortNode_def Let_def log_ok_append log_ok_record)

lemma log_ok_run: "runNode numStr opts deps n st = Inr st' \<Longrightarrow> log_ok st \<Longrightarrow> log_ok st'"
  by (auto simp: runNode_def Let_def log_ok_record intro!: log_ok_intros split: if_splits)

lemma log_ok_execute:
  "execute_nodes numStr opts deps i ns st = Inr (st', aborted) \<Longrightarrow> log_ok st \<Longrightarrow> log_ok st'"
proof (induction ns arbitrary: i st)
  case Nil
  then show ?case by simp
next
  case (Cons n ns)
  then show ?case by (auto intro: log_ok_abort log_ok_run split: if_splits)
qed

text \<open>The first event is never replaced.\<close>

definition starts_log :: "exec_state \<Rightarrow> bool" where
  "starts_log st \<longleftrightarrow> st_events st \<noteq> [] \<and> xb_type (xv_body (hd (st_events st))) = DagStarted"

lemma starts_append: "starts_log st \<Longrightarrow> starts_log (appendExecEvent b st)"
  by (simp add: starts_log_def appendExecEvent_def)

lemma starts_fold_append: "starts_log st \<Longrightarrow> starts_log (fold appendExecEvent bs st)"
  by (induction bs arbitrary: st) (simp_all add: starts_append)

lemma starts_other [simp]:
  "starts_log (recordResult r st) \<longleftrightarrow> starts_log st" "starts_log (st\<lparr>st_cursorMs := c\<rparr>) \<longleftrightarrow> starts_log st"
  by (simp_all add: starts_log_def recordResult_def)

lemma starts_abort: "starts_log st \<Longrightarrow> starts_log (appendAbortedRemainder deps ns st)"
  unfolding appendAbortedRemainder_def
  by (induction ns arbitrary: st) (simp_all add: abortNode_def Let_def starts_append)

lemma starts_run: "runNode numStr opts deps n st = Inr st' \<Longrightarrow> starts_log st \<Longrightarrow> starts_log st'"
  by (auto simp: runNode_def Let_def intro!: starts_append starts_fold_append split: if_splits)

lemma starts_execute:
  "execute_nodes numStr opts deps i ns st = Inr (st', aborted) \<Longrightarrow> starts_log st \<Longrightarrow> starts_log st'"
proof (induction ns arbitrary: i st)
  case Nil
  then show ?case by simp
next
  case (Cons n ns)
  then show ?case by (auto intro: starts_abort starts_run split: if_splits)
qed

lemma start_state_log: "log_ok (start_state opts)" "starts_log (start_state opts)"
  by (simp_all add: start_state_def log_ok_def starts_log_def appendExecEvent_def dag_event_def)

lemma log_finished:
  assumes "log_ok st" and "starts_log st" and "finish g opts status err (appendExecEvent (dag_event DagCompleted s e) st) = Inr r"
  shows "map xv_sequence (dr_events r) = [1..<Suc (length (dr_events r))] \<and> sorted (map xv_at (dr_events r))
     \<and> xb_type (xv_body (hd (dr_events r))) = DagStarted \<and> xb_type (xv_body (last (dr_events r))) = DagCompleted
     \<and> xv_at (last (dr_events r)) = dr_completedAt r"
  using log_ok_append [OF assms(1), of "dag_event DagCompleted s e"] starts_append [OF assms(2), of "dag_event DagCompleted s e"] assms(3)
  by (auto simp: finish_Inr log_ok_def starts_log_def) (simp_all add: appendExecEvent_def dag_event_def)

lemma execution_cases:
  assumes "executeCompiledDagSync E issues numStr g opts = Inr r"
  obtains msgs where "finish g opts DagFailed (Some (invalidGraphError msgs))
        (appendExecEvent (dag_event DagCompleted (Some DagFailed) (Some (invalidGraphError msgs))) (start_state opts)) = Inr r"
    and "\<not> (DagSchema E g \<and> dag_well_formed g)"
  | st aborted where "DagSchema E g" and "dag_well_formed g" and "conclude g opts st aborted = Inr r"
      and "execute_nodes numStr opts (dependencyMap g) 0 (topologicalNodes (dag_nodes g) (dependencyMap g)) (start_state opts) = Inr (st, aborted)"
proof (cases "DagSchema E g \<and> dag_well_formed g")
  case True
  then show thesis using assms that(2) by (auto simp: execute_unfold)
next
  case False
  then have "DagSchema E g \<Longrightarrow> \<not> fst (validateDag E issues g)" using validateDag_accepts by blast
  with assms False show thesis
    using that(1) by (cases "DagSchema E g") (auto simp: executeCompiledDagSync_def Let_def)
qed

section \<open>Properties\<close>

definition sample_node :: "string \<Rightarrow> dag_node_type \<Rightarrow> string list \<Rightarrow> dag_node" where
  "sample_node ident type ds =
     \<lparr>nd_id = ident, nd_type = type, nd_label = None, nd_dependsOn = ds, nd_provider = None, nd_toolPermissions = [],
      nd_input = None, nd_expectedOutputs = [], nd_retryPolicy = None, nd_timeoutMs = None, nd_metadata = None\<rparr>"

definition sample_dag :: dag where
  "sample_dag = \<lparr>dag_id = ''d'', dag_runId = ''r'', dag_version = ''1'',
     dag_nodes = [sample_node ''b'' LLM_EXECUTION [''a''], sample_node ''a'' SHELL_COMMAND []], dag_edges = [],
     dag_validationPolicy = None, dag_budgetPolicy = None, dag_metadata = None, dag_createdAt = ''now''\<rparr>"

definition default_policy :: policy_options where
  "default_policy = \<lparr>yo_maxAttempts = None, yo_retryable = None, yo_perNodeTimeoutMs = None, yo_strategy = None\<rparr>"

text \<open>The options of a call without options.\<close>

definition default_options :: "int \<Rightarrow> exec_options" where
  "default_options now =
     \<lparr>xo_now = now, xo_policy = default_policy, xo_injectFailureNodeIds = [], xo_injectFailureNodeTypes = [],
      xo_injectedErrorCode = [], xo_failAttempts = [], xo_durationByNodeId = [], xo_durationByNodeType = [],
      xo_outputByNodeId = [], xo_validationFailures = [], xo_allowUnsafeShell = False, xo_aborted = (\<lambda>_. False),
      xo_blockWorkspaceOps = False\<rparr>"

lemma sample_dag_valid: "fst (validateDag sample_env issues sample_dag)"
proof -
  have "fst (validateDag sample_env (\<lambda>_. []) sample_dag)" by code_simp
  then show ?thesis by (simp add: validateDag_accepts)
qed

lemma default_policy_parses: "policy_parses (default_options now)"
  by (simp add: policy_parses_def default_options_def default_policy_def)

lemma sample_dag_executes:
  obtains r where "executeCompiledDagSync sample_env issues numStr sample_dag (default_options 0) = Inr r"
proof -
  have "DagSchema sample_env sample_dag" "dag_well_formed sample_dag"
    using sample_dag_valid [of "\<lambda>_. []"] by (simp_all add: validateDag_accepts)
  from execution_total [OF this default_policy_parses] show thesis using that by blast
qed

lemma sample_dag_nodes: "set (dag_ids sample_dag) = {''a'', ''b''}" "(''b'', ''a'') \<in> dag_dep sample_dag"
proof -
  show "set (dag_ids sample_dag) = {''a'', ''b''}" by (auto simp: dag_ids_def sample_dag_def sample_node_def)
  have "sample_node ''b'' LLM_EXECUTION [''a''] \<in> set (dag_nodes sample_dag)" by (simp add: sample_dag_def)
  then show "(''b'', ''a'') \<in> dag_dep sample_dag" by (force simp: dag_dep_def sample_node_def)
qed

text \<open>
  Executing a graph that validation accepts returns a report, whatever failures are injected and
  whenever the signal fires. The report has exactly one entry per node, every entry comes after those
  of the nodes it depends on, and its status is that of the entries.
\<close>

lemma executor_reports_every_node:
  assumes "fst (validateDag E issues g)" and "policy_parses opts"
  shows "\<exists>r. executeCompiledDagSync E issues numStr g opts = Inr r
     \<and> distinct (map nr_nodeId (dr_nodeResults r)) \<and> set (map nr_nodeId (dr_nodeResults r)) = set (dag_ids g)
     \<and> (\<forall>i d. i < length (dr_nodeResults r) \<and> (nr_nodeId (dr_nodeResults r ! i), d) \<in> dag_dep g
            \<longrightarrow> (\<exists>j < i. nr_nodeId (dr_nodeResults r ! j) = d))
     \<and> dr_status r = dagStatus (dr_nodeResults r)"
proof -
  have g: "DagSchema E g" "dag_well_formed g" using assms(1) by (simp_all add: validateDag_accepts)
  obtain r where r: "executeCompiledDagSync E issues numStr g opts = Inr r"
    using execution_total [OF g assms(2)] by blast
  obtain ns where ns: "set ns = set (dag_nodes g)" "distinct (map nd_id ns)" "dep_closed_order (dependencyMap g) (map nd_id ns)"
    "report_ok opts (dependencyMap g) [] ns (dr_nodeResults r)" "dr_status r = dagStatus (dr_nodeResults r)"
    by (rule execution_report [OF g r])
  have ids: "map nr_nodeId (dr_nodeResults r) = map nd_id ns" by (rule report_ok_ids [OF ns(4)])
  have "\<forall>i d. i < length (dr_nodeResults r) \<and> (nr_nodeId (dr_nodeResults r ! i), d) \<in> dag_dep g
            \<longrightarrow> (\<exists>j < i. nr_nodeId (dr_nodeResults r ! j) = d)"
    using report_dependency_before [OF g(2) ns(3,4)] by blast
  moreover have "set (map nr_nodeId (dr_nodeResults r)) = set (dag_ids g)"
    unfolding ids using ns(1) by (simp add: dag_ids_def)
  ultimately show ?thesis using r ids ns(2,5) by metis
qed

text \<open>
  While the signal does not fire, a node is skipped exactly when one of its dependencies did not
  complete, and a node that completed has all the nodes it depends on, directly or not, completed.
\<close>

lemma executor_skips_exactly:
  assumes "fst (validateDag E issues g)" and "executeCompiledDagSync E issues numStr g opts = Inr r"
    and "\<And>i. \<not> xo_aborted opts i" and "e \<in> set (dr_nodeResults r)"
  shows "(nr_status e = NodeSkipped \<longleftrightarrow>
        (\<exists>f \<in> set (dr_nodeResults r). (nr_nodeId e, nr_nodeId f) \<in> dag_dep g \<and> (nr_status f = NodeFailed \<or> nr_status f = NodeSkipped)))
     \<and> (nr_status e = NodeSuccess \<or> nr_status e = NodeRetried \<longrightarrow> (\<forall>d. (nr_nodeId e, d) \<in> (dag_dep g)\<^sup>+ \<longrightarrow>
        (\<exists>f \<in> set (dr_nodeResults r). nr_nodeId f = d \<and> (nr_status f = NodeSuccess \<or> nr_status f = NodeRetried))))"
proof -
  have g: "DagSchema E g" "dag_well_formed g" using assms(1) by (simp_all add: validateDag_accepts)
  let ?rs = "dr_nodeResults r"
  obtain ns where ns: "set ns = set (dag_nodes g)" "distinct (map nd_id ns)" "dep_closed_order (dependencyMap g) (map nd_id ns)"
    "report_ok opts (dependencyMap g) [] ns ?rs" "dr_status r = dagStatus ?rs"
    by (rule execution_report [OF g assms(2)])
  have skip: "nr_status e = NodeSkipped \<longleftrightarrow> (\<exists>f \<in> set ?rs. (nr_nodeId e, nr_nodeId f) \<in> dag_dep g \<and> \<not> succeeded f)"
    if "e \<in> set ?rs" for e
  proof -
    from that obtain i where i: "i < length ?rs" "?rs ! i = e" by (auto simp: in_set_conv_nth)
    then have "entry_ok opts (dependencyMap g) (take i ?rs) (ns ! i) e"
      using report_ok_nth [OF ns(4), of i] report_ok_length [OF ns(4)] by simp
    with blockedBy_report [OF g(2) ns(3,2,4) i(1)] i(2) assms(3) show ?thesis
      by (auto simp: entry_ok_def executed_def)
  qed
  have step: "\<exists>f \<in> set ?rs. nr_nodeId f = d \<and> succeeded f" if "e \<in> set ?rs" "succeeded e" "(nr_nodeId e, d) \<in> dag_dep g" for e d
  proof -
    from that(1) obtain i where i: "i < length ?rs" "?rs ! i = e" by (auto simp: in_set_conv_nth)
    with report_dependency_before [OF g(2) ns(3,4)] that(3) obtain j where "j < i" "nr_nodeId (?rs ! j) = d" by blast
    with i(1) have j: "?rs ! j \<in> set ?rs" "nr_nodeId (?rs ! j) = d" by simp_all
    have "nr_status e \<noteq> NodeSkipped" using that(2) by (auto simp: succeeded_def)
    with skip [OF that(1)] j that(3) show ?thesis by auto
  qed
  have "\<exists>f \<in> set ?rs. nr_nodeId f = d \<and> succeeded f" if "succeeded e" "(nr_nodeId e, d) \<in> (dag_dep g)\<^sup>+" for d
    using that(2)
  proof (induction rule: trancl_induct)
    case (base y)
    then show ?case using step [OF assms(4) that(1)] by blast
  next
    case (step y z)
    then show ?case using \<open>\<And>e d. e \<in> set ?rs \<Longrightarrow> succeeded e \<Longrightarrow> (nr_nodeId e, d) \<in> dag_dep g \<Longrightarrow> \<exists>f \<in> set ?rs. nr_nodeId f = d \<and> succeeded f\<close> by blast
  qed
  then show ?thesis unfolding not_succeeded skip [OF assms(4)] by (auto simp: succeeded_def)
qed

lemma unsafeShellError_None:
  assumes "\<not> xo_allowUnsafeShell opts" and "unsafeShellError n opts = None"
  shows "nd_type n \<noteq> SHELL_COMMAND \<and> (\<forall>p \<in> set (nd_toolPermissions n). \<not> SHELL_PERMISSION_PATTERN (toLowerCase p))
     \<and> \<not> nodeAllowsUnsafeShell n"
proof (rule ccontr)
  assume "\<not> ?thesis"
  then have "\<not> (nd_type n \<noteq> SHELL_COMMAND \<and> \<not> list_ex SHELL_PERMISSION_PATTERN (map toLowerCase (nd_toolPermissions n))
      \<and> \<not> nodeAllowsUnsafeShell n)" by (simp add: list_ex_iff)
  with assms show False by (simp only: unsafeShellError_def Let_def if_False option.distinct simp_thms)
qed

text \<open>
  Without the explicit option, a run never completes a node that is a shell command, asks for a
  shell permission or declares that it allows the unsafe shell; every such node that is reached fails or
  is skipped.
\<close>

lemma executor_denies_shell:
  assumes "executeCompiledDagSync E issues numStr g opts = Inr r" and "\<not> xo_allowUnsafeShell opts"
    and "e \<in> set (dr_nodeResults r)" and "nr_status e = NodeSuccess \<or> nr_status e = NodeRetried"
  shows "\<exists>n \<in> set (dag_nodes g). nd_id n = nr_nodeId e \<and> nd_type n \<noteq> SHELL_COMMAND
     \<and> (\<forall>p \<in> set (nd_toolPermissions n). \<not> SHELL_PERMISSION_PATTERN (toLowerCase p)) \<and> \<not> nodeAllowsUnsafeShell n"
  using assms(1)
proof (cases rule: execution_cases)
  case (1 msgs)
  then have "dr_nodeResults r = []" by (auto simp: finish_Inr)
  with assms(3) show ?thesis by simp
next
  case (2 st aborted)
  obtain ns where ns: "set ns = set (dag_nodes g)" "distinct (map nd_id ns)" "dep_closed_order (dependencyMap g) (map nd_id ns)"
    "report_ok opts (dependencyMap g) [] ns (dr_nodeResults r)" "dr_status r = dagStatus (dr_nodeResults r)"
    by (rule execution_report [OF 2(1,2) assms(1)])
  obtain i where i: "i < length (dr_nodeResults r)" "dr_nodeResults r ! i = e"
    using assms(3) by (auto simp: in_set_conv_nth)
  then have ok: "entry_ok opts (dependencyMap g) (take i (dr_nodeResults r)) (ns ! i) e"
    using report_ok_nth [OF ns(4), of i] report_ok_length [OF ns(4)] by simp
  then have "unsafeShellError (ns ! i) opts = None"
    using assms(4) by (auto simp: entry_ok_def executed_def succeeded_def)
  note safe = unsafeShellError_None [OF assms(2) this]
  have "ns ! i \<in> set (dag_nodes g)" using i(1) by (metis nth_mem ns(1) report_ok_length [OF ns(4)])
  moreover have "nd_id (ns ! i) = nr_nodeId e" using ok by (simp add: entry_ok_def)
  ultimately show ?thesis by (intro bexI [of _ "ns ! i"] conjI) (simp_all add: safe)
qed

definition benign_dag :: dag where
  "benign_dag = sample_dag\<lparr>dag_nodes := [sample_node ''a'' LLM_EXECUTION []]\<rparr>"

definition executed_statuses :: "dag \<Rightarrow> (string \<times> node_status) list" where
  "executed_statuses g = (case executeCompiledDagSync sample_env (\<lambda>_. []) (\<lambda>_. []) g (default_options 0) of
     Inl _ \<Rightarrow> [] | Inr r \<Rightarrow> map (\<lambda>e. (nr_nodeId e, nr_status e)) (dr_nodeResults r))"

lemma executed_statuses_samples:
  "executed_statuses benign_dag = [(''a'', NodeSuccess)]" "executed_statuses sample_dag = [(''a'', NodeFailed), (''b'', NodeSkipped)]"
  by code_simp+

lemma benign_executes:
  obtains r e where "executeCompiledDagSync sample_env (\<lambda>_. []) (\<lambda>_. []) benign_dag (default_options 0) = Inr r"
    and "e \<in> set (dr_nodeResults r)" and "nr_nodeId e = ''a''" and "nr_status e = NodeSuccess"
proof -
  have "(''a'', NodeSuccess) \<in> set (executed_statuses benign_dag)" by (simp add: executed_statuses_samples)
  then show thesis using that by (force simp: executed_statuses_def split: sum.splits)
qed

text \<open>
  The log of every execution, of invalid graphs too, is numbered 1, 2, ... without gaps, its times
  never decrease, it opens with the start of the graph and closes with its completion at the reported
  completion time.
\<close>

lemma executor_log_ordered:
  assumes "executeCompiledDagSync E issues numStr g opts = Inr r"
  shows "map xv_sequence (dr_events r) = [1..<Suc (length (dr_events r))] \<and> sorted (map xv_at (dr_events r))
     \<and> xb_type (xv_body (hd (dr_events r))) = DagStarted \<and> xb_type (xv_body (last (dr_events r))) = DagCompleted
     \<and> xv_at (last (dr_events r)) = dr_completedAt r"
  using assms
proof (cases rule: execution_cases)
  case (1 msgs)
  from log_finished [OF start_state_log 1(1)] show ?thesis .
next
  case (2 st aborted)
  from 2(3) have "finish g opts (dagStatus (st_nodeResults st)) aborted (appendExecEvent (dag_event DagCompleted
      (Some (if aborted = None then dagStatus (st_nodeResults st) else DagPartial)) aborted) st) = Inr r"
    by (simp only: conclude_def Let_def)
  from log_finished [OF log_ok_execute [OF 2(4) start_state_log(1)] starts_execute [OF 2(4) start_state_log(2)] this]
  show ?thesis .
qed

end
