(* ===== verification/Plan_Execution.thy ===== *)
theory Plan_Execution
  imports Dag_Compiler_Correct Dag_Executor_Correct
begin

text \<open>
  The compiler and the executor together: a graph that the compiler made from an accepted plan runs to
  success under the default options, every task after the tasks it depends on and every validation
  node after its task.
\<close>

section \<open>Graphs whose nodes all succeed\<close>

text \<open>A result that later nodes can build on: a success whose output names the expected outputs of its node.\<close>

definition good_result :: "dag_node \<Rightarrow> node_result \<Rightarrow> bool" where
  "good_result n r \<longleftrightarrow> nr_nodeId r = nd_id n \<and> nr_status r = NodeSuccess
     \<and> optField (nr_output r) ''expectedOutputs'' = jstrs (nd_expectedOutputs n)"

lemma runNode_success:
  assumes "consistent st" and "\<forall>r \<in> set (st_nodeResults st). nr_status r = NodeSuccess"
    and "executeNode numStr n (sortedDeps deps n) (st_cursorMs st) opts (st_resultsByNode st) = Inr (r, evs)"
    and "nr_nodeId r \<notin> nr_nodeId ` set (st_nodeResults st)"
  obtains st' where "runNode numStr opts deps n st = Inr st'" and "st_nodeResults st' = st_nodeResults st @ [r]" and "consistent st'"
proof -
  have "js_get (st_resultsByNode st) d = Some q \<Longrightarrow> q \<in> set (st_nodeResults st)" for d q
    using assms(1) by (auto simp: consistent_def indexed_def dest: map_of_SomeD)
  then have "blockedBy (sortedDeps deps n) (st_resultsByNode st) = []"
    using assms(2) blockedBy_iff [of "sortedDeps deps n" "st_resultsByNode st"] by (auto simp: succeeded_def)
  then have run: "runNode numStr opts deps n st
      = Inr (recordResult r ((fold appendExecEvent evs st)\<lparr>st_cursorMs := st_cursorMs st + int (nr_durationMs r)\<rparr>))"
    using assms(3) by (simp add: runNode_def Let_def)
  have "consistent ((fold appendExecEvent evs st)\<lparr>st_cursorMs := c\<rparr>)" for c
    using assms(1) by (simp add: consistent_def)
  then have "consistent (recordResult r ((fold appendExecEvent evs st)\<lparr>st_cursorMs := c\<rparr>))" for c
    by (rule recordResult_consistent) (use assms(4) in simp)
  then show thesis using that [OF run] by (simp add: recordResult_def)
qed

lemma execute_all_succeed:
  assumes run: "\<And>n m c. n \<in> set ns \<Longrightarrow>
        (\<And>d. d \<in> set (depsOf deps (nd_id n)) \<Longrightarrow> \<exists>k r. k \<in> set ns \<and> nd_id k = d \<and> js_get m d = Some r \<and> good_result k r) \<Longrightarrow>
        \<exists>r evs. executeNode numStr n (sortedDeps deps n) c opts m = Inr (r, evs) \<and> good_result n r"
    and quiet: "\<And>i. \<not> xo_aborted opts i"
    and ord: "dep_closed_order deps (map nd_id ns)" and keys: "distinct (js_keys deps)"
    and split: "ns = pre @ todo" and st: "consistent st" "list_all2 good_result pre (st_nodeResults st)"
  shows "\<exists>st'. execute_nodes numStr opts deps i todo st = Inr (st', None) \<and> list_all2 good_result ns (st_nodeResults st')"
  using split st
proof (induction todo arbitrary: pre st i)
  case Nil
  then show ?case by simp
next
  case (Cons n todo)
  have dist: "distinct (map nd_id ns)" using ord by (simp add: dep_closed_order_def)
  have ids: "map nr_nodeId (st_nodeResults st) = map nd_id pre"
    using Cons.prems(3) by (induction rule: list_all2_induct) (simp_all add: good_result_def)
  have fresh: "nd_id n \<notin> nr_nodeId ` set (st_nodeResults st)"
    using dist Cons.prems(1) ids by (metis Un_iff append_Cons distinct_append image_set list.set_intros(1) list.simps(9) map_append disjoint_iff)
  have dist_pre: "distinct (map nr_nodeId (st_nodeResults st))" using dist Cons.prems(1) ids by simp
  have "\<exists>k r. k \<in> set ns \<and> nd_id k = d \<and> js_get (st_resultsByNode st) d = Some r \<and> good_result k r"
    if d: "d \<in> set (depsOf deps (nd_id n))" for d
  proof -
    have "(nd_id n, d) \<in> edge_rel deps" using d edge_rel_depsOf [OF keys] by blast
    moreover have "length pre < length (map nd_id ns)" "map nd_id ns ! length pre = nd_id n"
      using Cons.prems(1) by (simp_all add: nth_append)
    ultimately have "d \<in> set (take (length pre) (map nd_id ns))" using ord unfolding dep_closed_order_def by metis
    then have "d \<in> set (map nd_id pre)" using Cons.prems(1) by simp
    then obtain j where j: "j < length pre" "nd_id (pre ! j) = d" by (auto simp: in_set_conv_nth)
    then have good: "good_result (pre ! j) (st_nodeResults st ! j)" using Cons.prems(3) by (simp add: list_all2_conv_all_nth)
    have "st_nodeResults st ! j \<in> set (st_nodeResults st)" using j(1) Cons.prems(3) by (simp add: list_all2_lengthD [symmetric])
    then have "js_get (st_resultsByNode st) d = Some (st_nodeResults st ! j)"
      using Cons.prems(2) indexed_get [OF dist_pre] good j(2) by (simp add: consistent_def good_result_def)
    with good j Cons.prems(1) show ?thesis by (metis Un_iff nth_mem set_append)
  qed
  then obtain r evs where r: "executeNode numStr n (sortedDeps deps n) (st_cursorMs st) opts (st_resultsByNode st) = Inr (r, evs)"
    "good_result n r"
    using run [of n "st_resultsByNode st" "st_cursorMs st"] Cons.prems(1) by auto
  have all: "\<forall>q \<in> set (st_nodeResults st). nr_status q = NodeSuccess"
    using Cons.prems(3) by (auto simp: list_all2_conv_all_nth good_result_def in_set_conv_nth)
  obtain st1 where st1: "runNode numStr opts deps n st = Inr st1" "st_nodeResults st1 = st_nodeResults st @ [r]" "consistent st1"
    by (rule runNode_success [OF Cons.prems(2) all r(1)]) (use fresh r(2) in \<open>auto simp: good_result_def\<close>)
  have "list_all2 good_result (pre @ [n]) (st_nodeResults st1)"
    using Cons.prems(3) r(2) st1(2) by (simp add: list_all2_appendI)
  then obtain st' where "execute_nodes numStr opts deps (Suc i) todo st1 = Inr (st', None)" "list_all2 good_result ns (st_nodeResults st')"
    using Cons.IH [of "pre @ [n]" st1 "Suc i"] Cons.prems(1) st1(3) by auto
  then show ?case using quiet [of i] st1(1) by simp
qed

section \<open>The nodes the compiler makes\<close>

lemma default_policy_resolves:
  "resolveExecutionPolicy n (default_options now) = Inr \<lparr>xp_maxAttempts = nat (max 1 (case nd_retryPolicy n of None \<Rightarrow> 1 | Some p \<Rightarrow> rt_maxAttempts p)),
     xp_retryable = [ErrInjected, ErrTimeout], xp_perNodeTimeoutMs = None, xp_strategy = SKIP_DOWNSTREAM\<rparr>"
  by (simp add: resolveExecutionPolicy_def default_options_def default_policy_def)

lemma default_duration: "simulatedDurationMs n (default_options now) = 1"
  by (simp add: simulatedDurationMs_def default_options_def DEFAULT_NODE_DURATION_MS_def)

lemma executeNode_default:
  assumes "unsafeShellError n (default_options now) = None"
    and "case nd_timeoutMs n of None \<Rightarrow> True | Some t \<Rightarrow> 1 \<le> t"
    and "validationErrorFor numStr n ds m (default_options now) = None"
  shows "\<exists>r evs. executeNode numStr n ds c (default_options now) m = Inr (r, evs) \<and> good_result n r"
proof -
  have "unsandboxedWorkspaceOpError n (default_options now) = None" "injectedFailureAttempts n (default_options now) k = 0" for k
    by (simp_all add: unsandboxedWorkspaceOpError_def injectedFailureAttempts_def default_options_def)
  moreover have "xp_perNodeTimeoutMs policy = None \<Longrightarrow> timeoutErrorFor n 1 policy = None" for policy
    using assms(2) by (auto simp: timeoutErrorFor_def effectiveTimeoutMs_def split: option.splits)
  moreover have "jfield (simulatedOutputFor n ds (default_options now) m) ''expectedOutputs'' = jstrs (nd_expectedOutputs n)"
    by (simp add: simulatedOutputFor_def default_options_def spread_def jfield_def Let_def)
  ultimately show ?thesis
    using assms(1,3)
    by (simp add: executeNode_def default_policy_resolves executeNode_with_def default_duration Let_def
        successfulNodeResult_def good_result_def optField_def)
qed

lemma safe_permissions_no_shell:
  "list_ex SHELL_PERMISSION_PATTERN (map toLowerCase [SAFE_FAKE_PERMISSION, ''local.file.proposed-write'', ''local.validation'']) = False"
  by code_simp

lemma compiler_permissions_safe: "list_ex SHELL_PERMISSION_PATTERN (map toLowerCase (toolPermissionsFor ty)) = False"
  using safe_permissions_no_shell by (cases ty) simp_all

lemma safe_policy_no_shell: "jfield safeToolPolicy ''allowUnsafeShell'' = JBool False"
  by (simp add: safeToolPolicy_def jfield_def)

lemma task_node_shell_allowed: "unsafeShellError (taskDagNode t i ds) opts = None"
proof -
  let ?n = "taskDagNode t i ds"
  have "nd_type ?n \<noteq> SHELL_COMMAND" using nodeTypeForTask_cases [of t] by (auto simp: taskDagNode_def Let_def)
  moreover have "nd_toolPermissions ?n = toolPermissionsFor (nodeTypeForTask t)" by (simp add: taskDagNode_def Let_def)
  moreover have "recordFrom (optField (nd_metadata ?n) ''toolPolicy'') = Some safeToolPolicy"
    by (simp add: taskDagNode_def Let_def optField_def jfield_def recordFrom_def)
  then have "\<not> nodeAllowsUnsafeShell ?n"
    by (simp only: nodeAllowsUnsafeShell_def) (simp add: optField_def safe_policy_no_shell)
  ultimately show ?thesis unfolding unsafeShellError_def Let_def by (simp only: compiler_permissions_safe) simp
qed

lemma validation_node_shell_allowed: "unsafeShellError (validationDagNode t i n) opts = None"
proof -
  let ?n = "validationDagNode t i n"
  have "nd_toolPermissions ?n = toolPermissionsFor VALIDATION" "nd_type ?n \<noteq> SHELL_COMMAND" by (simp_all add: validationDagNode_def)
  moreover have "recordFrom (optField (nd_metadata ?n) ''toolPolicy'') = Some safeToolPolicy"
    by (simp add: validationDagNode_def optField_def jfield_def recordFrom_def)
  then have "\<not> nodeAllowsUnsafeShell ?n"
    by (simp only: nodeAllowsUnsafeShell_def) (simp add: optField_def safe_policy_no_shell)
  ultimately show ?thesis unfolding unsafeShellError_def Let_def by (simp only: compiler_permissions_safe) simp
qed

lemma task_node_runs:
  "\<exists>r evs. executeNode numStr (taskDagNode t i ds) deps c (default_options now) m = Inr (r, evs) \<and> good_result (taskDagNode t i ds) r"
proof (rule executeNode_default [OF task_node_shell_allowed])
  show "case nd_timeoutMs (taskDagNode t i ds) of None \<Rightarrow> True | Some t \<Rightarrow> 1 \<le> t"
    using timeoutForRisk_pos [of "pt_risk t"] by (simp add: taskDagNode_def Let_def)
  have "nd_type (taskDagNode t i ds) \<noteq> VALIDATION" using nodeTypeForTask_cases [of t] by (auto simp: taskDagNode_def Let_def)
  then show "validationErrorFor numStr (taskDagNode t i ds) deps m (default_options now) = None" by (simp add: validationErrorFor_def)
qed

text \<open>A validation node finds the artifacts of its task in the output of the task node.\<close>

lemma validation_node_runs:
  assumes "js_get m tn = Some r" and "nr_status r = NodeSuccess" and "optField (nr_output r) ''expectedOutputs'' = jstrs (pt_expectedArtifacts t)"
    and "tn \<noteq> []"
  shows "\<exists>r evs. executeNode numStr (validationDagNode t i tn) deps c (default_options now) m = Inr (r, evs)
     \<and> good_result (validationDagNode t i tn) r"
proof (rule executeNode_default [OF validation_node_shell_allowed])
  let ?n = "validationDagNode t i tn"
  show "case nd_timeoutMs ?n of None \<Rightarrow> True | Some t \<Rightarrow> 1 \<le> t" by (simp add: validationDagNode_def)
  have none: "xo_validationFailures (default_options now) = []" by (simp add: default_options_def)
  have quiet: "explicitValidationFailureMessage ?n = None"
    by (simp add: explicitValidationFailureMessage_def validationDagNode_def optField_def jfield_def coalesce_def Let_def)
  have hint: "\<not> validationHasExecutableSandboxHint ?n"
    by (simp add: validationHasExecutableSandboxHint_def hasRunnableSandboxHint_def validationDagNode_def jfield_def recordFrom_def Let_def)
  have input: "optField (nd_input ?n) ''expectedArtifacts'' = jstrs (pt_expectedArtifacts t)"
    "validationTargetNodeIds numStr (nd_input ?n) deps = [tn]" "nd_type ?n = VALIDATION"
    using assms(4) by (simp_all add: validationDagNode_def optField_def jfield_def validationTargetNodeIds_def Let_def)
  have "inspectTarget numStr ?n (stringArrayFrom numStr (jstrs (pt_expectedArtifacts t))) m tn = None"
    using assms(1-3) by (simp add: inspectTarget_def Let_def)
  then show "validationErrorFor numStr ?n deps m (default_options now) = None"
    by (simp add: validationErrorFor_def none quiet hint input orElse_def Let_def)
qed

section \<open>Properties\<close>

lemma dagStatus_success: "rs \<noteq> [] \<Longrightarrow> \<forall>r \<in> set rs. nr_status r = NodeSuccess \<Longrightarrow> dagStatus rs = DagSuccess"
  by (simp add: dagStatus_def Let_def filter_empty_conv)

lemma compiled_graph_runs:
  assumes ok: "PlannerOutputSchema plan \<and> sortedTasksOf plan = Some tasks"
    and g: "g = compiledDag input plan (rawTaskDeps plan) tasks" and wf: "dag_well_formed g" and sch: "DagSchema E g"
  shows "\<exists>r. executeCompiledDagSync E issues numStr g (default_options now) = Inr r
     \<and> list_all2 good_result (topologicalNodes (dag_nodes g) (dependencyMap g)) (dr_nodeResults r)
     \<and> dr_status r = dagStatus (dr_nodeResults r) \<and> dr_error r = None"
proof -
  obtain ns where ns: "topologicalNodes (dag_nodes g) (dependencyMap g) = ns" "set ns = set (dag_nodes g)"
    "distinct (map nd_id ns)" "dep_closed_order (dependencyMap g) (map nd_id ns)"
    by (rule topologicalNodes_order [OF wf])
  have keys: "distinct (js_keys (dependencyMap g))" using dependencyMap_facts(1) [OF wf] wf by (simp add: dag_well_formed_def)
  have nodes: "set ns = (\<lambda>t. taskDagNode t (tnode (pt_id t)) (map tnode (depsOf (rawTaskDeps plan) (pt_id t)))) ` set tasks
      \<union> (\<lambda>t. validationDagNode t (vnode (pt_id t)) (tnode (pt_id t))) ` set tasks"
    unfolding ns(2) g using compiler.nodes_eq [OF ok, of input] by simp
  have "\<exists>r evs. executeNode numStr n (sortedDeps (dependencyMap g) n) c (default_options now) m = Inr (r, evs) \<and> good_result n r"
    if n: "n \<in> set ns" and deps: "\<And>d. d \<in> set (depsOf (dependencyMap g) (nd_id n)) \<Longrightarrow>
        \<exists>k r. k \<in> set ns \<and> nd_id k = d \<and> js_get m d = Some r \<and> good_result k r" for n m c
  proof -
    from n consider t ds where "t \<in> set tasks" "n = taskDagNode t (tnode (pt_id t)) ds"
      | t where "t \<in> set tasks" "n = validationDagNode t (vnode (pt_id t)) (tnode (pt_id t))"
      unfolding nodes by blast
    then show ?thesis
    proof cases
      case (1 t ds)
      then show ?thesis using task_node_runs by simp
    next
      case (2 t)
      have "tnode (pt_id t) \<in> set (depsOf (dependencyMap g) (nd_id n))"
      proof -
        have "(vnode (pt_id t), tnode (pt_id t)) \<in> dag_dep g"
          using 2(1) unfolding g compiler.dag_dep_eq [OF ok] compiler.compiled_dep_def by blast
        then show ?thesis using 2(2) by (simp add: dependencyMap_facts(2) [OF wf])
      qed
      then obtain k r where k: "k \<in> set ns" "nd_id k = tnode (pt_id t)" "js_get m (tnode (pt_id t)) = Some r" "good_result k r"
        using deps by blast
      from k(1,2) obtain t' ds where "t' \<in> set tasks" "pt_id t' = pt_id t" "k = taskDagNode t' (tnode (pt_id t')) ds"
        unfolding nodes by auto
      moreover from this 2(1) have "t' = t" using compiler.ok_distinct [OF ok] by (auto simp: distinct_map dest: inj_onD)
      ultimately have "nd_expectedOutputs k = pt_expectedArtifacts t" by (simp add: taskDagNode_def Let_def)
      with k(4) have "nr_status r = NodeSuccess" "optField (nr_output r) ''expectedOutputs'' = jstrs (pt_expectedArtifacts t)"
        by (simp_all add: good_result_def)
      then show ?thesis using validation_node_runs [OF k(3)] 2(2) by simp
    qed
  qed
  then have "\<exists>st'. execute_nodes numStr (default_options now) (dependencyMap g) 0 ns (start_state (default_options now)) = Inr (st', None)
      \<and> list_all2 good_result ns (st_nodeResults st')"
    by (rule execute_all_succeed [where pre = "[]", OF _ _ ns(4) keys])
      (simp_all add: default_options_def consistent_def indexed_def)
  then obtain st where st: "execute_nodes numStr (default_options now) (dependencyMap g) 0 ns (start_state (default_options now)) = Inr (st, None)"
    "list_all2 good_result ns (st_nodeResults st)" by blast
  have "dag_id g \<noteq> []" "dag_runId g \<noteq> []" using sch by (simp_all add: DagSchema_def)
  with st ns(1) show ?thesis by (simp add: execute_unfold [OF sch wf] conclude_def finish_def Let_def)
qed

text \<open>
  C10: An accepted plan with tasks and without circular dependencies compiles to a graph that the executor, under its
  default options, runs to success: every task node and every validation node completes.
\<close>

theorem accepted_plan_executes:
  assumes "ki_runId input \<noteq> []" and "CrucibleDecisionSchema E (ki_decision input)"
    and "cd_verdict (ki_decision input) = VACCEPTED" and "cd_acceptedPlan (ki_decision input) = Some plan"
    and "isDatetime E (ki_now input)" and "acyclic (plan_dep plan)" and "po_tasks plan \<noteq> []"
  shows "\<exists>g r. compileAcceptedPlanToDag E issues numStr input = Inr g
     \<and> executeCompiledDagSync E issues numStr g (default_options now) = Inr r \<and> dr_status r = DagSuccess
     \<and> (\<forall>t \<in> set (po_tasks plan). \<forall>k \<in> {''task:'' @ pt_id t, ''validate:'' @ pt_id t}.
            \<exists>e \<in> set (dr_nodeResults r). nr_nodeId e = k \<and> nr_status e = NodeSuccess)"
proof -
  note u = compile_unfold [OF assms(1-4), of issues numStr]
  then have plan: "PlannerOutputSchema plan" by blast
  obtain tasks where t: "topologicalTasks (po_tasks plan) (rawTaskDeps plan) = Inr tasks"
    using topologicalTasks_order [OF plan assms(6)] by blast
  then have ok: "PlannerOutputSchema plan \<and> sortedTasksOf plan = Some tasks" using plan by (simp add: sortedTasksOf_def)
  define g where "g = compiledDag input plan (rawTaskDeps plan) tasks"
  have comp: "compileAcceptedPlanToDag E issues numStr input = Inr g"
    using u t compiler.passes_validation [OF ok assms(1,5), of issues numStr] by (simp add: Let_def case_prod_beta g_def)
  have wf: "dag_well_formed g" and sch: "DagSchema E g"
    unfolding g_def using compiler.well_formed [OF ok] compiler.schema [OF ok assms(1,5)] by simp_all
  obtain r where r: "executeCompiledDagSync E issues numStr g (default_options now) = Inr r"
    "list_all2 good_result (topologicalNodes (dag_nodes g) (dependencyMap g)) (dr_nodeResults r)"
    "dr_status r = dagStatus (dr_nodeResults r)"
    using compiled_graph_runs [OF ok g_def wf sch] by blast
  have ids: "set (dag_ids g) = tnode ` pt_id ` set (po_tasks plan) \<union> vnode ` pt_id ` set (po_tasks plan)"
    unfolding g_def using compiler.ids_eq [OF ok, of input] compiler.ok_set [OF ok] by (auto simp: image_image)
  have entry: "\<exists>e \<in> set (dr_nodeResults r). nr_nodeId e = k \<and> nr_status e = NodeSuccess" if k: "k \<in> set (dag_ids g)" for k
  proof -
    obtain ns where "topologicalNodes (dag_nodes g) (dependencyMap g) = ns" "set ns = set (dag_nodes g)"
      by (rule topologicalNodes_order [OF wf])
    with k obtain n where "n \<in> set (topologicalNodes (dag_nodes g) (dependencyMap g))" "nd_id n = k" by (auto simp: dag_ids_def)
    then show ?thesis using r(2) by (fastforce simp: list_all2_conv_all_nth in_set_conv_nth good_result_def)
  qed
  obtain t where "t \<in> set (po_tasks plan)" using assms(7) by (cases "po_tasks plan") auto
  then have "tnode (pt_id t) \<in> set (dag_ids g)" unfolding ids by blast
  from entry [OF this] have "dr_nodeResults r \<noteq> []" by auto
  moreover have "\<forall>e \<in> set (dr_nodeResults r). nr_status e = NodeSuccess"
    using r(2) by (auto simp: list_all2_conv_all_nth in_set_conv_nth good_result_def)
  ultimately have "dr_status r = DagSuccess" using dagStatus_success r(3) by simp
  moreover have "\<forall>t \<in> set (po_tasks plan). \<forall>k \<in> {''task:'' @ pt_id t, ''validate:'' @ pt_id t}. k \<in> set (dag_ids g)"
    unfolding ids tnode_def vnode_def by auto
  ultimately show ?thesis using comp r(1) entry by blast
qed

theorem accepted_plan_executes_witness:
  "\<exists>g r. compileAcceptedPlanToDag sample_env (\<lambda>_. []) (\<lambda>_. []) (sample_compile sample_plan) = Inr g
     \<and> executeCompiledDagSync sample_env (\<lambda>_. []) (\<lambda>_. []) g (default_options 0) = Inr r \<and> dr_status r = DagSuccess"
proof -
  have "CrucibleDecisionSchema sample_env (ki_decision (sample_compile sample_plan))"
    by (simp only: sample_compile_fields(2) sample_decision_schema [OF sample_plan_schema])
  from accepted_plan_executes [OF sample_compile_fields(1) this _ _ sample_compile_fields(5) sample_plan_acyclic, of "\<lambda>_. []" "\<lambda>_. []" 0]
  show ?thesis by (auto simp: sample_compile_fields sample_plan_def)
qed

end
