(* ===== verification/Turn_Budget.thy ===== *)
theory Turn_Budget
  imports Rector_Prelude
begin

text \<open>
  The iteration budget of a turn, \<open>src/orchestration/turnBudget.ts\<close>: two counters and one extra
  iteration that can be granted once the counter is used up. The class is refined against a purse of
  credits: what can still be spent, now and after a grant.
\<close>

section \<open>The class\<close>

record turn_config =
  tc_maxIterations :: int
  tc_maxToolCalls :: int
  tc_graceCallOnExhaustion :: bool

definition TurnBudgetConfigSchema :: "turn_config \<Rightarrow> bool" where
  "TurnBudgetConfigSchema c = (0 < tc_maxIterations c \<and> 0 < tc_maxToolCalls c)"

definition turn_defaults :: turn_config where
  "turn_defaults = \<lparr>tc_maxIterations = 40, tc_maxToolCalls = 80, tc_graceCallOnExhaustion = True\<rparr>"

record turn_budget =
  tb_config :: turn_config
  tb_iterationsUsed :: int
  tb_toolCallsUsed :: int
  tb_graceAvailable :: bool
  tb_graceUsed :: bool

text \<open>The constructor throws when the configuration does not parse.\<close>

definition newTurnBudget :: "turn_config \<Rightarrow> turn_budget option" where
  "newTurnBudget c =
     (if TurnBudgetConfigSchema c
      then Some \<lparr>tb_config = c, tb_iterationsUsed = 0, tb_toolCallsUsed = 0, tb_graceAvailable = False, tb_graceUsed = False\<rparr>
      else None)"

definition remaining :: "turn_budget \<Rightarrow> int" where
  "remaining b = max 0 (tc_maxIterations (tb_config b) - tb_iterationsUsed b)"

definition toolCallsRemaining :: "turn_budget \<Rightarrow> int" where
  "toolCallsRemaining b = max 0 (tc_maxToolCalls (tb_config b) - tb_toolCallsUsed b)"

definition graceCallAvailable :: "turn_budget \<Rightarrow> bool" where
  "graceCallAvailable b = (tb_graceAvailable b \<and> \<not> tb_graceUsed b)"

definition consumeToolCall :: "turn_budget \<Rightarrow> bool \<times> turn_budget" where
  "consumeToolCall b =
     (if toolCallsRemaining b \<le> 0 then (False, b) else (True, b\<lparr>tb_toolCallsUsed := tb_toolCallsUsed b + 1\<rparr>))"

definition consumeIteration :: "turn_budget \<Rightarrow> bool \<times> turn_budget" where
  "consumeIteration b =
     (if 0 < remaining b then (True, b\<lparr>tb_iterationsUsed := tb_iterationsUsed b + 1\<rparr>)
      else if graceCallAvailable b then (True, b\<lparr>tb_graceUsed := True\<rparr>)
      else (False, b))"

definition grantGraceCall :: "turn_budget \<Rightarrow> turn_budget" where
  "grantGraceCall b =
     (if tc_graceCallOnExhaustion (tb_config b) \<and> \<not> tb_graceUsed b then b\<lparr>tb_graceAvailable := True\<rparr> else b)"

record turn_snapshot =
  ts_iterationsUsed :: int
  ts_iterationsRemaining :: int
  ts_toolCallsUsed :: int
  ts_toolCallsRemaining :: int
  ts_graceCallAvailable :: bool
  ts_graceCallUsed :: bool

definition snapshot :: "turn_budget \<Rightarrow> turn_snapshot" where
  "snapshot b =
     \<lparr>ts_iterationsUsed = tb_iterationsUsed b, ts_iterationsRemaining = remaining b,
      ts_toolCallsUsed = tb_toolCallsUsed b, ts_toolCallsRemaining = toolCallsRemaining b,
      ts_graceCallAvailable = graceCallAvailable b, ts_graceCallUsed = tb_graceUsed b\<rparr>"

section \<open>The purse\<close>

text \<open>
  The contract of a purse that spends credits one at a time: spending succeeds exactly while there is
  a credit and takes one, and a top-up moves credits from a reserve. The client's fact is that the
  number of successes is bounded by what was there at the start.
\<close>

datatype purse_op = Spend | TopUp

locale purse =
  fixes spend :: "'s \<Rightarrow> bool \<times> 's" and top_up :: "'s \<Rightarrow> 's"
    and credit :: "'s \<Rightarrow> nat" and reserve :: "'s \<Rightarrow> nat" and inv :: "'s \<Rightarrow> bool"
  assumes spend_iff: "inv s \<Longrightarrow> fst (spend s) \<longleftrightarrow> 0 < credit s"
    and spend_credit: "inv s \<Longrightarrow> credit (snd (spend s)) = credit s - 1"
    and spend_reserve: "inv s \<Longrightarrow> reserve (snd (spend s)) = reserve s"
    and spend_inv: "inv s \<Longrightarrow> inv (snd (spend s))"
    and top_up_total: "inv s \<Longrightarrow> credit (top_up s) + reserve (top_up s) = credit s + reserve s"
    and top_up_credit: "inv s \<Longrightarrow> credit (top_up s) = credit s + reserve s"
    and top_up_inv: "inv s \<Longrightarrow> inv (top_up s)"
begin

text \<open>A history of calls: its successes and the final state.\<close>

fun history :: "purse_op list \<Rightarrow> 's \<Rightarrow> nat \<times> 's" where
  "history [] s = (0, s)"
| "history (Spend # ops) s =
     (case history ops (snd (spend s)) of (k, t) \<Rightarrow> ((if fst (spend s) then Suc k else k), t))"
| "history (TopUp # ops) s = history ops (top_up s)"

lemma history_conserves:
  "inv s \<Longrightarrow> fst (history ops s) + credit (snd (history ops s)) + reserve (snd (history ops s)) = credit s + reserve s
     \<and> inv (snd (history ops s))"
proof (induction ops s rule: history.induct)
  case (1 s)
  then show ?case by simp
next
  case (2 ops s)
  then show ?case
    using spend_iff [of s] spend_credit [of s] spend_reserve [of s] spend_inv [of s] by (auto simp: case_prod_beta)
next
  case (3 ops s)
  then show ?case using top_up_total [of s] top_up_inv [of s] by simp
qed

lemma history_bounded: "inv s \<Longrightarrow> fst (history ops s) \<le> credit s + reserve s"
  using history_conserves [of s ops] by simp

lemma spend_all:
  "inv s \<Longrightarrow> n \<le> credit s \<Longrightarrow> fst (history (replicate n Spend) s) = n"
proof (induction n arbitrary: s)
  case 0
  then show ?case by simp
next
  case (Suc n)
  then show ?case using spend_iff [of s] spend_credit [of s] spend_inv [of s] by (simp add: case_prod_beta)
qed

end

section \<open>The class is a purse\<close>

definition turn_ok :: "turn_budget \<Rightarrow> bool" where
  "turn_ok b \<longleftrightarrow> TurnBudgetConfigSchema (tb_config b)
     \<and> 0 \<le> tb_iterationsUsed b \<and> tb_iterationsUsed b \<le> tc_maxIterations (tb_config b)
     \<and> 0 \<le> tb_toolCallsUsed b \<and> tb_toolCallsUsed b \<le> tc_maxToolCalls (tb_config b)
     \<and> (tb_graceUsed b \<longrightarrow> tb_graceAvailable b) \<and> (tb_graceAvailable b \<longrightarrow> tc_graceCallOnExhaustion (tb_config b))"

definition iteration_credit :: "turn_budget \<Rightarrow> nat" where
  "iteration_credit b = nat (remaining b) + (if graceCallAvailable b then 1 else 0)"

definition grace_reserve :: "turn_budget \<Rightarrow> nat" where
  "grace_reserve b = (if tc_graceCallOnExhaustion (tb_config b) \<and> \<not> tb_graceAvailable b \<and> \<not> tb_graceUsed b then 1 else 0)"

lemmas turn_defs = turn_ok_def iteration_credit_def grace_reserve_def remaining_def toolCallsRemaining_def graceCallAvailable_def
  consumeIteration_def consumeToolCall_def grantGraceCall_def TurnBudgetConfigSchema_def

interpretation iterations: purse consumeIteration grantGraceCall iteration_credit grace_reserve turn_ok
  by unfold_locales (auto simp: turn_defs)

interpretation tool_calls: purse consumeToolCall "\<lambda>b. b" "\<lambda>b. nat (toolCallsRemaining b)" "\<lambda>_. 0" turn_ok
  by unfold_locales (auto simp: turn_defs)

lemma newTurnBudget_ok:
  assumes "newTurnBudget c = Some b"
  shows "turn_ok b" and "iteration_credit b = nat (tc_maxIterations c)"
    and "grace_reserve b = (if tc_graceCallOnExhaustion c then 1 else 0)" and "toolCallsRemaining b = tc_maxToolCalls c"
  using assms by (auto simp: newTurnBudget_def turn_defs split: if_splits)

text \<open>The successful iterations of a sequence of calls on the budget, and its final state.\<close>

fun iterate_turn :: "purse_op list \<Rightarrow> turn_budget \<Rightarrow> nat \<times> turn_budget" where
  "iterate_turn [] b = (0, b)"
| "iterate_turn (Spend # ops) b =
     (case iterate_turn ops (snd (consumeIteration b)) of (k, t) \<Rightarrow> ((if fst (consumeIteration b) then Suc k else k), t))"
| "iterate_turn (TopUp # ops) b = iterate_turn ops (grantGraceCall b)"

lemma iterate_turn_history: "iterate_turn ops b = iterations.history ops b"
  by (induction ops b rule: iterate_turn.induct) simp_all

text \<open>
  C20: However iterations and grants of the extra iteration are interleaved, a turn performs at most
  its configured iterations and one more, the one more only when the configuration allows it, and as
  long as no more than the configured number is asked for every request succeeds.
\<close>

theorem turn_budget_refines_purse:
  assumes "newTurnBudget c = Some b"
  shows "int (fst (iterate_turn ops b)) \<le> tc_maxIterations c + (if tc_graceCallOnExhaustion c then 1 else 0)
     \<and> (int n \<le> tc_maxIterations c \<longrightarrow> fst (iterate_turn (replicate n Spend) b) = n)
     \<and> fst (iterate_turn ops b) + iteration_credit (snd (iterate_turn ops b)) + grace_reserve (snd (iterate_turn ops b))
         = iteration_credit b + grace_reserve b"
proof -
  note b = newTurnBudget_ok [OF assms]
  have pos: "0 < tc_maxIterations c" using assms by (simp add: newTurnBudget_def TurnBudgetConfigSchema_def split: if_splits)
  have "int (fst (iterate_turn ops b)) \<le> tc_maxIterations c + (if tc_graceCallOnExhaustion c then 1 else 0)"
    using iterations.history_bounded [OF b(1), of ops] b(2,3) pos by (auto simp: iterate_turn_history split: if_splits)
  moreover have "int n \<le> tc_maxIterations c \<longrightarrow> fst (iterate_turn (replicate n Spend) b) = n"
    using iterations.spend_all [OF b(1), of n] b(2) by (auto simp: iterate_turn_history)
  ultimately show ?thesis using iterations.history_conserves [OF b(1), of ops] by (simp add: iterate_turn_history)
qed

theorem turn_budget_refines_purse_witness:
  "\<exists>b. newTurnBudget turn_defaults = Some b \<and> fst (iterate_turn [Spend, TopUp, Spend] b) \<le> 41"
proof -
  obtain b where b: "newTurnBudget turn_defaults = Some b"
    by (simp add: newTurnBudget_def TurnBudgetConfigSchema_def turn_defaults_def)
  from turn_budget_refines_purse [OF this, of "[Spend, TopUp, Spend]" 0] b show ?thesis
    by (simp add: turn_defaults_def)
qed

end
