(* ===== verification/Healing_Loop.thy ===== *)
theory Healing_Loop
  imports Dag_Executor Turn_Budget
begin

text \<open>
  Validation and healing of an execution, \<open>src/orchestration/validationHealing.ts\<close>: the
  classification of failures with their root causes, the bounded retry loop and the bounded repair
  loop.

  Everything outside the module is a field of \<open>heal_env\<close>, a function on an unspecified world \<open>'w\<close> that
  every call may change: the executor, the repair agent (\<open>None\<close> when it proposes nothing or throws; the
  hints it also receives are computed from its two arguments), the sandbox and the abort request.
  The turn budget is the class of \<open>Turn_Budget\<close>, used by one run only. A throw is \<open>Inl\<close>.
\<close>

section \<open>Data\<close>

datatype failure_class = FcTransient | FcPermission | FcTimeout | FcDependency | FcValidation | FcUnknown

fun className :: "failure_class \<Rightarrow> string" where
  "className FcTransient = ''TRANSIENT''"
| "className FcPermission = ''PERMISSION''"
| "className FcTimeout = ''TIMEOUT''"
| "className FcDependency = ''DEPENDENCY''"
| "className FcValidation = ''VALIDATION''"
| "className FcUnknown = ''UNKNOWN''"

datatype heal_action_type = RETRY_NODE | MARK_SKIPPED | REQUEST_DECISION | FAIL_RUN | NOOP | APPLY_PATCH

record validation_failure =
  vf_nodeId :: "string option"
  vf_class :: failure_class
  vf_errorCode :: "error_code option"
  vf_message :: string
  vf_rootCauseNodeId :: "string option"
  vf_rootCauseClass :: "failure_class option"
  vf_chain :: "string list option"
  vf_details :: "json_record option"

record heal_action =
  ha_type :: heal_action_type
  ha_nodeId :: "string option"
  ha_attempt :: "nat option"
  ha_class :: "failure_class option"
  ha_reason :: string

datatype heal_status = HealValidated | HealHealed | HealNeedsDecision | HealFailed

record heal_round =
  hr_round :: nat
  hr_class :: failure_class
  hr_nodeId :: "string option"
  hr_repairApplied :: bool
  hr_patchArtifactId :: "string option"
  hr_revalidationStatus :: dag_status
  hr_explanation :: string

record heal_result =
  hl_status :: heal_status
  hl_attempts :: nat
  hl_failures :: "validation_failure list"
  hl_actions :: "heal_action list"
  hl_finalExecutionResult :: dag_result
  hl_rounds :: "heal_round list"

record repair_proposal =
  rp_path :: string
  rp_operation :: string
  rp_content :: string
  rp_rationale :: string

record patch_result =
  pr_status :: string
  pr_denialReason :: "string option"
  pr_artifactIds :: "string list"

datatype heal_error = ExecutorThrew executor_error | SandboxThrew | NoTarget | InvalidRound | InvalidHealingResult

record 'w heal_env =
  he_abortRequested :: "'w \<Rightarrow> bool"
  he_execute :: "exec_options \<Rightarrow> 'w \<Rightarrow> (executor_error, dag_result) result \<times> 'w"
  he_propose :: "validation_failure \<Rightarrow> string \<Rightarrow> 'w \<Rightarrow> repair_proposal option \<times> 'w"
  he_operate :: "repair_proposal \<Rightarrow> nat \<Rightarrow> 'w \<Rightarrow> patch_result option \<times> 'w"
  he_onBudgetExhausted :: "turn_snapshot \<Rightarrow> 'w \<Rightarrow> 'w"

definition DEFAULT_MAX_HEALING_ATTEMPTS :: nat where
  "DEFAULT_MAX_HEALING_ATTEMPTS = 2"

definition MIN_LIVE_HEALING_ATTEMPTS :: nat where
  "MIN_LIVE_HEALING_ATTEMPTS = 1"

definition MAX_LIVE_HEALING_ATTEMPTS :: nat where
  "MAX_LIVE_HEALING_ATTEMPTS = 10"

definition boundedAttempts :: "jsnum \<Rightarrow> nat" where
  "boundedAttempts v = (case v of Fin q \<Rightarrow> nat \<lfloor>q\<rfloor> | _ \<Rightarrow> DEFAULT_MAX_HEALING_ATTEMPTS)"

definition boundedLiveAttempts :: "jsnum \<Rightarrow> nat" where
  "boundedLiveAttempts v =
     (case v of Fin q \<Rightarrow> min MAX_LIVE_HEALING_ATTEMPTS (max MIN_LIVE_HEALING_ATTEMPTS (nat \<lfloor>q\<rfloor>))
      | _ \<Rightarrow> DEFAULT_MAX_HEALING_ATTEMPTS)"

section \<open>Schemas of the result\<close>

definition ExecutionErrorSchema :: "execution_error \<Rightarrow> bool" where
  "ExecutionErrorSchema e = (xe_message e \<noteq> [] \<and> optNonEmpty (xe_nodeId e))"

definition optError :: "execution_error option \<Rightarrow> bool" where
  "optError e = (case e of None \<Rightarrow> True | Some e \<Rightarrow> ExecutionErrorSchema e)"

definition NodeExecutionResultSchema :: "node_result \<Rightarrow> bool" where
  "NodeExecutionResultSchema r = (nr_nodeId r \<noteq> [] \<and> optError (nr_error r) \<and> nonEmptyAll (nr_dependencies r))"

definition ExecutionEventSchema :: "exec_event \<Rightarrow> bool" where
  "ExecutionEventSchema e =
     (1 \<le> xv_sequence e \<and> optNonEmpty (xb_nodeId (xv_body e)) \<and> optNonEmpty (xb_toolName (xv_body e))
      \<and> optNonEmpty (xb_approvalGateId (xv_body e)) \<and> xb_attempt (xv_body e) \<noteq> Some 0 \<and> optError (xb_error (xv_body e)))"

definition DagExecutionResultSchema :: "dag_result \<Rightarrow> bool" where
  "DagExecutionResultSchema r =
     (dr_dagId r \<noteq> [] \<and> dr_runId r \<noteq> [] \<and> 0 \<le> dr_durationMs r \<and> list_all NodeExecutionResultSchema (dr_nodeResults r)
      \<and> list_all ExecutionEventSchema (dr_events r) \<and> optError (dr_error r))"

definition ValidationFailureSchema :: "validation_failure \<Rightarrow> bool" where
  "ValidationFailureSchema f =
     (optNonEmpty (vf_nodeId f) \<and> vf_message f \<noteq> [] \<and> optNonEmpty (vf_rootCauseNodeId f)
      \<and> (case vf_chain f of None \<Rightarrow> True | Some c \<Rightarrow> nonEmptyAll c))"

definition HealingActionSchema :: "heal_action \<Rightarrow> bool" where
  "HealingActionSchema a = (optNonEmpty (ha_nodeId a) \<and> ha_reason a \<noteq> [])"

definition HealingRoundRecordSchema :: "heal_round \<Rightarrow> bool" where
  "HealingRoundRecordSchema r =
     (1 \<le> hr_round r \<and> optNonEmpty (hr_nodeId r) \<and> optNonEmpty (hr_patchArtifactId r) \<and> hr_explanation r \<noteq> [])"

definition HealingLoopResultSchema :: "heal_result \<Rightarrow> bool" where
  "HealingLoopResultSchema r =
     (list_all ValidationFailureSchema (hl_failures r) \<and> list_all HealingActionSchema (hl_actions r)
      \<and> DagExecutionResultSchema (hl_finalExecutionResult r) \<and> list_all HealingRoundRecordSchema (hl_rounds r))"

section \<open>Classification\<close>

fun FAILURE_CLASSIFICATION_BY_ERROR_CODE :: "error_code \<Rightarrow> failure_class" where
  "FAILURE_CLASSIFICATION_BY_ERROR_CODE ErrInjected = FcTransient"
| "FAILURE_CLASSIFICATION_BY_ERROR_CODE ErrPermission = FcPermission"
| "FAILURE_CLASSIFICATION_BY_ERROR_CODE ErrTimeout = FcTimeout"
| "FAILURE_CLASSIFICATION_BY_ERROR_CODE ErrDependency = FcDependency"
| "FAILURE_CLASSIFICATION_BY_ERROR_CODE ErrDagValidation = FcValidation"
| "FAILURE_CLASSIFICATION_BY_ERROR_CODE ErrValidation = FcValidation"
| "FAILURE_CLASSIFICATION_BY_ERROR_CODE ErrOperationMapping = FcValidation"
| "FAILURE_CLASSIFICATION_BY_ERROR_CODE ErrSandboxOperation = FcUnknown"
| "FAILURE_CLASSIFICATION_BY_ERROR_CODE ErrAborted = FcUnknown"

definition classifyError :: "execution_error option \<Rightarrow> failure_class" where
  "classifyError e = (case e of None \<Rightarrow> FcUnknown | Some e \<Rightarrow> FAILURE_CLASSIFICATION_BY_ERROR_CODE (xe_code e))"

definition failureFromError :: "execution_error \<Rightarrow> validation_failure" where
  "failureFromError e =
     \<lparr>vf_nodeId = xe_nodeId e, vf_class = classifyError (Some e), vf_errorCode = Some (xe_code e),
      vf_message = redactString (xe_message e), vf_rootCauseNodeId = None, vf_rootCauseClass = None, vf_chain = None,
      vf_details = map_option redactRecord (xe_details e)\<rparr>"

definition failureFromNodeResult :: "node_result \<Rightarrow> validation_failure" where
  "failureFromNodeResult r =
     (case nr_error r of
        Some e \<Rightarrow> failureFromError (e\<lparr>xe_nodeId := orElse (xe_nodeId e) (Some (nr_nodeId r))\<rparr>)
      | None \<Rightarrow> \<lparr>vf_nodeId = Some (nr_nodeId r),
                 vf_class = (if nr_status r = NodeSkipped then FcDependency else FcUnknown), vf_errorCode = None,
                 vf_message = redactString (''Node '' @ nr_nodeId r @ '' ended with '' @ nodeStatusName (nr_status r)
                                            @ '' without an execution error''),
                 vf_rootCauseNodeId = None, vf_rootCauseClass = None, vf_chain = None, vf_details = None\<rparr>)"

definition blockedByFrom :: "(jsnum \<Rightarrow> string) \<Rightarrow> node_result \<Rightarrow> string list" where
  "blockedByFrom numStr r =
     (case optField (Option.bind (nr_error r) xe_details) ''blockedBy'' of
        JArr xs \<Rightarrow> filter (\<lambda>s. s \<noteq> []) (map (js_String numStr) xs)
      | _ \<Rightarrow> nr_dependencies r)"

record root_cause =
  rc_nodeId :: string
  rc_error :: "execution_error option"
  rc_chain :: "string list"

text \<open>
  The walk to the root cause. A call finds nothing only when its node was visited before, in which case
  it leaves \<open>visited\<close> as it is, and the first call that finds something ends the walk, so the set is
  passed down and not back.
\<close>

function walkRootCause :: "(jsnum \<Rightarrow> string) \<Rightarrow> results_map \<Rightarrow> string list \<Rightarrow> string list \<Rightarrow> string \<Rightarrow> root_cause option"
  and walkBlockers :: "(jsnum \<Rightarrow> string) \<Rightarrow> results_map \<Rightarrow> string list \<Rightarrow> string list \<Rightarrow> string list \<Rightarrow> root_cause option" where
  "walkRootCause numStr byNodeId visited chain nodeId =
     (if nodeId \<in> set visited then None
      else case js_get byNodeId nodeId of
             None \<Rightarrow> Some \<lparr>rc_nodeId = nodeId, rc_error = None, rc_chain = chain @ [nodeId]\<rparr>
           | Some r \<Rightarrow>
               let here = \<lparr>rc_nodeId = nr_nodeId r, rc_error = nr_error r, rc_chain = chain @ [nr_nodeId r]\<rparr>
               in if classifyError (nr_error r) \<noteq> FcDependency then Some here
                  else case walkBlockers numStr byNodeId (nodeId # visited) (chain @ [nr_nodeId r]) (blockedByFrom numStr r) of
                         Some cause \<Rightarrow> Some cause
                       | None \<Rightarrow> Some here)"
| "walkBlockers numStr byNodeId visited chain [] = None"
| "walkBlockers numStr byNodeId visited chain (d # ds) =
     (case walkRootCause numStr byNodeId visited chain d of
        Some cause \<Rightarrow> Some cause
      | None \<Rightarrow> walkBlockers numStr byNodeId visited chain ds)"
  by pat_completeness auto
termination
  by (relation "inv_image (less_than <*lex*> less_than)
      (case_sum (\<lambda>(numStr, m, visited, chain, k). (unopened m visited, 1))
         (\<lambda>(numStr, m, visited, chain, ds). (unopened m visited, 2 * length ds)))")
    (auto simp: unopened_Cons js_has_def)

declare walkRootCause.simps [simp del]

definition resolveRootCause :: "(jsnum \<Rightarrow> string) \<Rightarrow> node_result \<Rightarrow> results_map \<Rightarrow> root_cause option" where
  "resolveRootCause numStr r byNodeId = walkBlockers numStr byNodeId [] [nr_nodeId r] (blockedByFrom numStr r)"

definition classifyNodeResult :: "(jsnum \<Rightarrow> string) \<Rightarrow> results_map \<Rightarrow> node_result \<Rightarrow> validation_failure" where
  "classifyNodeResult numStr byNodeId r =
     (let failure = failureFromNodeResult r
      in if vf_class failure \<noteq> FcDependency then failure
         else case resolveRootCause numStr r byNodeId of
                None \<Rightarrow> failure
              | Some cause \<Rightarrow> failure\<lparr>vf_rootCauseNodeId := Some (rc_nodeId cause),
                               vf_rootCauseClass := Some (classifyError (rc_error cause)), vf_chain := Some (rc_chain cause)\<rparr>)"

definition classifyExecutionFailures :: "(jsnum \<Rightarrow> string) \<Rightarrow> dag_result \<Rightarrow> validation_failure list" where
  "classifyExecutionFailures numStr result =
     (let byNodeId = js_map_of_list (map (\<lambda>r. (nr_nodeId r, r)) (dr_nodeResults result))
      in (case dr_error result of None \<Rightarrow> [] | Some e \<Rightarrow> [failureFromError e])
         @ map (classifyNodeResult numStr byNodeId)
             (filter (\<lambda>r. nr_status r = NodeFailed \<or> nr_status r = NodeSkipped) (dr_nodeResults result)))"

section \<open>Which failures to act on\<close>

definition truthy :: "string option \<Rightarrow> bool" where
  "truthy s = (s \<noteq> None \<and> s \<noteq> Some [])"

definition addDirectFailure :: "validation_failure \<Rightarrow> validation_failure list \<Rightarrow> validation_failure list" where
  "addDirectFailure f roots =
     (if vf_class f = FcDependency then roots
      else if truthy (vf_nodeId f) \<and> list_ex (\<lambda>r. vf_nodeId r = vf_nodeId f) roots then roots
      else roots @ [f])"

definition rootActionableFailures :: "validation_failure list \<Rightarrow> validation_failure list" where
  "rootActionableFailures failures =
     (let dependencyRootIds = js_set_of (map (the \<circ> vf_rootCauseNodeId)
            (filter (\<lambda>f. vf_class f = FcDependency \<and> truthy (vf_rootCauseNodeId f)) failures));
          directByNode = js_map_of_list (map (\<lambda>f. (the (vf_nodeId f), f)) (filter (\<lambda>f. truthy (vf_nodeId f)) failures))
      in fold addDirectFailure failures (List.map_filter (js_get directByNode) dependencyRootIds))"

definition isRetryableFailure :: "validation_failure \<Rightarrow> bool" where
  "isRetryableFailure f = (vf_class f = FcTransient \<or> vf_class f = FcTimeout \<or> vf_class f = FcUnknown)"

definition riskyRecord :: "json_record option \<Rightarrow> bool" where
  "riskyRecord r = (optField r ''approvalRequired'' = JBool True \<or> optField r ''risk'' = JStr ''destructive''
     \<or> optField r ''risk'' = JStr ''high'')"

definition isUnsafeToAutoHeal :: "dag \<Rightarrow> string option \<Rightarrow> bool" where
  "isUnsafeToAutoHeal g nodeId =
     (truthy nodeId \<and>
      (case find (\<lambda>n. Some (nd_id n) = nodeId) (dag_nodes g) of
         None \<Rightarrow> False
       | Some n \<Rightarrow> nd_type n = SHELL_COMMAND
                   \<or> list_ex (\<lambda>p. SHELL_PERMISSION_PATTERN (toLowerCase p)) (nd_toolPermissions n)
                   \<or> riskyRecord (nd_metadata n) \<or> riskyRecord (nd_input n)))"

definition needsDecision :: "dag \<Rightarrow> validation_failure \<Rightarrow> bool" where
  "needsDecision g f = (vf_class f = FcPermission \<or> isUnsafeToAutoHeal g (vf_nodeId f))"

section \<open>Options of a retry\<close>

definition clampTimeoutSimulation :: "dag_node option \<Rightarrow> exec_options \<Rightarrow> exec_options" where
  "clampTimeoutSimulation node opts =
     (case node of
        None \<Rightarrow> opts
      | Some n \<Rightarrow>
          (case nd_timeoutMs n of
             None \<Rightarrow> opts
           | Some t \<Rightarrow>
               if t = 0 then opts
               else let safe = Fin (of_int (max 0 t));
                        byId = (if map_of (xo_durationByNodeId opts) (nd_id n) \<noteq> None
                                then js_set (nd_id n) safe (xo_durationByNodeId opts) else xo_durationByNodeId opts);
                        byType = (if map_of (xo_durationByNodeType opts) (nd_type n) \<noteq> None
                                  then js_set (nd_type n) safe (xo_durationByNodeType opts) else xo_durationByNodeType opts)
                    in opts\<lparr>xo_durationByNodeId := byId, xo_durationByNodeType := byType\<rparr>))"

definition healingOptions :: "dag \<Rightarrow> exec_options \<Rightarrow> validation_failure list \<Rightarrow> exec_options" where
  "healingOptions g opts failures =
     (let retryNodeIds = map the (filter truthy (map vf_nodeId failures));
          retryNodeTypes = map nd_type (filter (\<lambda>n. nd_id n \<in> set retryNodeIds) (dag_nodes g));
          next = opts\<lparr>xo_injectFailureNodeIds := filter (\<lambda>i. i \<notin> set retryNodeIds) (xo_injectFailureNodeIds opts),
                      xo_injectFailureNodeTypes := filter (\<lambda>t. t \<notin> set retryNodeTypes) (xo_injectFailureNodeTypes opts),
                      xo_failAttempts := filter (\<lambda>(k, v). k \<notin> set retryNodeIds) (xo_failAttempts opts)\<rparr>
      in fold (\<lambda>f o'. if vf_class f = FcTimeout \<and> truthy (vf_nodeId f)
                       then clampTimeoutSimulation (find (\<lambda>n. Some (nd_id n) = vf_nodeId f) (dag_nodes g)) o' else o')
           failures next)"

section \<open>The state of a loop\<close>

record 'w heal_state =
  hs_attempts :: nat
  hs_actions :: "heal_action list"
  hs_observed :: "validation_failure list"
  hs_current :: dag_result
  hs_rounds :: "heal_round list"
  hs_turnBudget :: "turn_budget option"
  hs_world :: 'w

datatype 'w heal_outcome = Return heal_status "'w heal_state" | Continue "'w heal_state" | Throw heal_error "'w heal_state"

definition nodeOrDag :: "string option \<Rightarrow> string" where
  "nodeOrDag s = (case s of None \<Rightarrow> ''DAG'' | Some k \<Rightarrow> k)"

definition failure_action :: "heal_action_type \<Rightarrow> nat option \<Rightarrow> string \<Rightarrow> validation_failure \<Rightarrow> heal_action" where
  "failure_action type attempt reason f =
     \<lparr>ha_type = type, ha_nodeId = vf_nodeId f, ha_attempt = attempt, ha_class = Some (vf_class f), ha_reason = reason\<rparr>"

definition plain_action :: "heal_action_type \<Rightarrow> string \<Rightarrow> heal_action" where
  "plain_action type reason = \<lparr>ha_type = type, ha_nodeId = None, ha_attempt = None, ha_class = None, ha_reason = reason\<rparr>"

definition pushActions :: "heal_action list \<Rightarrow> 'w heal_state \<Rightarrow> 'w heal_state" where
  "pushActions as st = st\<lparr>hs_actions := hs_actions st @ as\<rparr>"

definition decision_actions :: "validation_failure list \<Rightarrow> heal_action list" where
  "decision_actions fs =
     map (\<lambda>f. failure_action REQUEST_DECISION None
            (''Failure on '' @ nodeOrDag (vf_nodeId f) @ '' requires a human decision and will not be auto-healed'') f) fs"

definition exhausted_actions :: "nat \<Rightarrow> validation_failure list \<Rightarrow> heal_action list" where
  "exhausted_actions m fs =
     map (\<lambda>f. failure_action FAIL_RUN None
            (''Max healing attempts ('' @ show_nat m @ '') exhausted for '' @ nodeOrDag (vf_nodeId f)) f) fs"

definition unhealable_actions :: "validation_failure list \<Rightarrow> heal_action list" where
  "unhealable_actions fs =
     map (\<lambda>f. failure_action FAIL_RUN None (''Failure on '' @ nodeOrDag (vf_nodeId f) @ '' is not safely healable'') f) fs"

definition retry_actions :: "nat \<Rightarrow> validation_failure list \<Rightarrow> heal_action list" where
  "retry_actions n fs =
     map (\<lambda>f. failure_action RETRY_NODE (Some n)
            (''Retrying safe '' @ toLowerCase (className (vf_class f)) @ '' failure for '' @ nodeOrDag (vf_nodeId f)) f) fs"

definition consumeRepairAttemptBudget :: "'w heal_env \<Rightarrow> 'w heal_state \<Rightarrow> bool \<times> 'w heal_state" where
  "consumeRepairAttemptBudget env st =
     (case hs_turnBudget st of
        None \<Rightarrow> (True, st)
      | Some b \<Rightarrow>
          (case consumeIteration b of
             (True, b1) \<Rightarrow> (True, st\<lparr>hs_turnBudget := Some b1\<rparr>)
           | (False, b1) \<Rightarrow>
               let b2 = grantGraceCall b1
               in (False, st\<lparr>hs_turnBudget := Some b2, hs_world := he_onBudgetExhausted env (snapshot b2) (hs_world st)\<rparr>)))"

text \<open>The part both loops share: abort, classification, success, and failures that need a decision.\<close>

definition observe :: "(jsnum \<Rightarrow> string) \<Rightarrow> 'w heal_env \<Rightarrow> dag \<Rightarrow> 'w heal_state \<Rightarrow> 'w heal_outcome" where
  "observe numStr env g st =
     (if he_abortRequested env (hs_world st) then Return HealFailed st
      else let failures = classifyExecutionFailures numStr (hs_current st);
               st1 = st\<lparr>hs_observed := hs_observed st @ failures\<rparr>;
               decisions = filter (needsDecision g) (rootActionableFailures failures)
           in if dr_status (hs_current st) = DagSuccess \<or> dr_status (hs_current st) = DagSkipped \<and> failures = []
              then Return (if 0 < hs_attempts st then HealHealed else HealValidated) st1
              else if decisions \<noteq> [] then Return HealNeedsDecision (pushActions (decision_actions decisions) st1)
              else Continue st1)"

definition executeAgain :: "'w heal_env \<Rightarrow> exec_options \<Rightarrow> 'w heal_state \<Rightarrow> 'w heal_outcome" where
  "executeAgain env opts st =
     (case he_execute env opts (hs_world st) of
        (Inl e, w) \<Rightarrow> Throw (ExecutorThrew e) (st\<lparr>hs_world := w\<rparr>)
      | (Inr r, w) \<Rightarrow> Continue (st\<lparr>hs_current := r, hs_world := w\<rparr>))"

section \<open>The retry loop\<close>

definition retry_step :: "(jsnum \<Rightarrow> string) \<Rightarrow> 'w heal_env \<Rightarrow> dag \<Rightarrow> exec_options \<Rightarrow> nat \<Rightarrow> 'w heal_state \<Rightarrow> 'w heal_outcome" where
  "retry_step numStr env g opts m st =
     (case observe numStr env g st of
        Return status st1 \<Rightarrow> Return status st1
      | Throw e st1 \<Rightarrow> Throw e st1
      | Continue st1 \<Rightarrow>
          let failures = classifyExecutionFailures numStr (hs_current st);
              retryFailures = filter isRetryableFailure (rootActionableFailures failures);
              nonRetryable = filter (\<lambda>f. \<not> isRetryableFailure f) (rootActionableFailures failures)
          in if retryFailures = [] \<or> nonRetryable \<noteq> []
             then Return HealFailed (pushActions (unhealable_actions (if nonRetryable \<noteq> [] then nonRetryable else failures)) st1)
             else if m \<le> hs_attempts st1 then Return HealFailed (pushActions (exhausted_actions m retryFailures) st1)
             else case consumeRepairAttemptBudget env st1 of
                    (False, st2) \<Rightarrow>
                      Return HealFailed (pushActions [plain_action FAIL_RUN ''Turn iteration budget exhausted before repair attempt''] st2)
                  | (True, st2) \<Rightarrow>
                      let st3 = st2\<lparr>hs_attempts := hs_attempts st2 + 1\<rparr>;
                          st4 = pushActions (retry_actions (hs_attempts st3) retryFailures) st3
                      in executeAgain env (healingOptions g opts retryFailures) st4)"

section \<open>The repair loop\<close>

definition extractFailedOutput :: "dag_result \<Rightarrow> validation_failure \<Rightarrow> string" where
  "extractFailedOutput result f =
     (let node = (if truthy (vf_nodeId f) then find (\<lambda>r. Some (nr_nodeId r) = vf_nodeId f) (dr_nodeResults result) else None);
          errorText = (\<lambda>e. case e of None \<Rightarrow> [] | Some e \<Rightarrow> if xe_message e \<noteq> [] then [xe_message e] else []);
          textField = (\<lambda>k. case optField (Option.bind node nr_output) k of JStr s \<Rightarrow> [s] | _ \<Rightarrow> [])
      in joinWith [CHR 0x0A]
           ((if vf_message f \<noteq> [] then [vf_message f] else []) @ errorText (Option.bind node nr_error)
            @ textField ''stdout'' @ textField ''stderr'' @ errorText (dr_error result)))"

fun dagStatusName :: "dag_status \<Rightarrow> string" where
  "dagStatusName DagSuccess = ''SUCCESS''"
| "dagStatusName DagFailed = ''FAILED''"
| "dagStatusName DagPartial = ''PARTIAL''"
| "dagStatusName DagSkipped = ''SKIPPED''"

definition round_record :: "nat \<Rightarrow> validation_failure \<Rightarrow> bool \<Rightarrow> string option \<Rightarrow> dag_status \<Rightarrow> string \<Rightarrow> heal_round" where
  "round_record n target applied artifactId status explanation =
     \<lparr>hr_round = n, hr_class = vf_class target, hr_nodeId = vf_nodeId target, hr_repairApplied = applied,
      hr_patchArtifactId = (if applied then artifactId else None), hr_revalidationStatus = status, hr_explanation = explanation\<rparr>"

definition pushRound :: "heal_round \<Rightarrow> ('w heal_state \<Rightarrow> 'w heal_outcome) \<Rightarrow> 'w heal_state \<Rightarrow> 'w heal_outcome" where
  "pushRound r continue st =
     (if HealingRoundRecordSchema r then continue (st\<lparr>hs_rounds := hs_rounds st @ [r]\<rparr>) else Throw InvalidRound st)"

text \<open>A round without a proposal.\<close>

definition noProposal :: "validation_failure \<Rightarrow> 'w heal_state \<Rightarrow> 'w heal_outcome" where
  "noProposal target st =
     (let n = hs_attempts st;
          st1 = pushActions [failure_action FAIL_RUN None (''No safe repair proposal available for '' @ nodeOrDag (vf_nodeId target)) target] st
      in pushRound (round_record n target False None (dr_status (hs_current st))
             (redactString (''Round '' @ show_nat n @ '': repair agent returned no safe patch for ''
                @ nodeOrDag (vf_nodeId target) @ '' ('' @ className (vf_class target) @ '').'')))
           (Return HealFailed) st1)"

text \<open>A round whose patch was not applied.\<close>

definition patchNotApplied :: "validation_failure \<Rightarrow> repair_proposal \<Rightarrow> patch_result \<Rightarrow> 'w heal_state \<Rightarrow> 'w heal_outcome" where
  "patchNotApplied target proposal patch st =
     (let n = hs_attempts st;
          who = nodeOrDag (vf_nodeId target);
          reasonText = (case pr_denialReason patch of None \<Rightarrow> [] | Some d \<Rightarrow> if d = [] then [] else ''/'' @ d);
          st1 = pushActions [failure_action APPLY_PATCH (Some n)
                  (''Repair patch for '' @ who @ '' was not applied ('' @ pr_status patch @ '')'') target] st
      in pushRound (round_record n target False None (dr_status (hs_current st))
             (redactString (''Round '' @ show_nat n @ '': patch proposal for '' @ rp_path proposal @ '' was not applied (''
                @ pr_status patch @ reasonText @ '').'')))
           (\<lambda>st2. if pr_status patch = ''NEEDS_APPROVAL'' \<or> pr_denialReason patch = Some ''NEEDS_APPROVAL''
                   then Return HealNeedsDecision (pushActions [failure_action REQUEST_DECISION (Some n)
                          (''Repair patch for '' @ who @ '' requires approval before it can be applied'') target] st2)
                   else Return HealFailed (pushActions [failure_action FAIL_RUN (Some n)
                          (''Repair patch for '' @ who @ '' was not safely applied ('' @ pr_status patch @ '')'') target] st2)) st1)"

text \<open>A round whose patch was applied: the graph runs again, then the loop goes on.\<close>

definition patchApplied ::
  "'w heal_env \<Rightarrow> exec_options \<Rightarrow> validation_failure \<Rightarrow> repair_proposal \<Rightarrow> patch_result \<Rightarrow> 'w heal_state \<Rightarrow> 'w heal_outcome" where
  "patchApplied env opts target proposal patch st =
     (let n = hs_attempts st;
          st1 = pushActions [failure_action APPLY_PATCH (Some n)
                  (''Applied repair patch for '' @ nodeOrDag (vf_nodeId target) @ '' via the safe executor'') target] st
      in case executeAgain env opts st1 of
           Continue st2 \<Rightarrow>
             pushRound (round_record n target True (case pr_artifactIds patch of [] \<Rightarrow> None | a # _ \<Rightarrow> Some a) (dr_status (hs_current st2))
               (redactString (''Round '' @ show_nat n @ '': applied patch to '' @ rp_path proposal
                  @ ''; re-validation status '' @ dagStatusName (dr_status (hs_current st2)) @ ''. '' @ rp_rationale proposal)))
               Continue st2
         | outcome \<Rightarrow> outcome)"

definition repairRound :: "'w heal_env \<Rightarrow> exec_options \<Rightarrow> validation_failure \<Rightarrow> 'w heal_state \<Rightarrow> 'w heal_outcome" where
  "repairRound env opts target st =
     (let failedOutput = redactString (extractFailedOutput (hs_current st) target)
      in case he_propose env target failedOutput (hs_world st) of
           (None, w) \<Rightarrow> noProposal target (st\<lparr>hs_world := w\<rparr>)
         | (Some proposal, w) \<Rightarrow>
             (case he_operate env proposal (hs_attempts st) w of
                (None, w1) \<Rightarrow> Throw SandboxThrew (st\<lparr>hs_world := w1\<rparr>)
              | (Some patch, w1) \<Rightarrow>
                  if pr_status patch = ''SUCCEEDED'' then patchApplied env opts target proposal patch (st\<lparr>hs_world := w1\<rparr>)
                  else patchNotApplied target proposal patch (st\<lparr>hs_world := w1\<rparr>)))"

definition repair_step :: "(jsnum \<Rightarrow> string) \<Rightarrow> 'w heal_env \<Rightarrow> dag \<Rightarrow> exec_options \<Rightarrow> nat \<Rightarrow> 'w heal_state \<Rightarrow> 'w heal_outcome" where
  "repair_step numStr env g opts m st =
     (case observe numStr env g st of
        Return status st1 \<Rightarrow> Return status st1
      | Throw e st1 \<Rightarrow> Throw e st1
      | Continue st1 \<Rightarrow>
          let failures = classifyExecutionFailures numStr (hs_current st);
              actionable = rootActionableFailures failures;
              candidates = (if actionable \<noteq> [] then actionable else failures)
          in if m \<le> hs_attempts st1 then Return HealFailed (pushActions (exhausted_actions m candidates) st1)
             else case consumeRepairAttemptBudget env st1 of
                    (False, st2) \<Rightarrow>
                      Return HealFailed (pushActions [plain_action FAIL_RUN ''Turn iteration budget exhausted before live repair attempt''] st2)
                  | (True, st2) \<Rightarrow>
                      let st3 = st2\<lparr>hs_attempts := hs_attempts st2 + 1\<rparr>
                      in (case candidates of [] \<Rightarrow> Throw NoTarget st3 | target # _ \<Rightarrow> repairRound env opts target st3))"

section \<open>The entry point\<close>

text \<open>A loop runs a step until it returns or throws; every round uses one unit of fuel.\<close>

fun heal_loop :: "nat \<Rightarrow> ('w heal_state \<Rightarrow> 'w heal_outcome) \<Rightarrow> 'w heal_state \<Rightarrow> 'w heal_outcome" where
  "heal_loop 0 step st = Continue st"
| "heal_loop (Suc fuel) step st =
     (case step st of Continue st1 \<Rightarrow> heal_loop fuel step st1 | outcome \<Rightarrow> outcome)"

definition parseHealResult :: "heal_status \<Rightarrow> 'w heal_state \<Rightarrow> (heal_error, heal_result) result" where
  "parseHealResult status st =
     (let r = \<lparr>hl_status = status, hl_attempts = hs_attempts st, hl_failures = hs_observed st, hl_actions = hs_actions st,
               hl_finalExecutionResult = hs_current st, hl_rounds = hs_rounds st\<rparr>
      in if HealingLoopResultSchema r then Inr r else Inl InvalidHealingResult)"

record heal_input =
  hi_dag :: dag
  hi_executionResult :: "dag_result option"
  hi_executorOptions :: exec_options
  hi_maxHealingAttempts :: "jsnum option"
  hi_liveRepair :: bool
  hi_turnBudget :: "turn_budget option"

definition initial_execution :: "'w heal_env \<Rightarrow> heal_input \<Rightarrow> 'w \<Rightarrow> (executor_error, dag_result) result \<times> 'w" where
  "initial_execution env input w =
     (case hi_executionResult input of Some r \<Rightarrow> (Inr r, w) | None \<Rightarrow> he_execute env (hi_executorOptions input) w)"

definition configured_attempts :: "heal_input \<Rightarrow> jsnum" where
  "configured_attempts input =
     (case hi_maxHealingAttempts input of None \<Rightarrow> Fin (of_nat DEFAULT_MAX_HEALING_ATTEMPTS) | Some v \<Rightarrow> v)"

definition heal_bound :: "heal_input \<Rightarrow> nat" where
  "heal_bound input =
     (if hi_liveRepair input then boundedLiveAttempts (configured_attempts input) else boundedAttempts (configured_attempts input))"

definition heal_step :: "(jsnum \<Rightarrow> string) \<Rightarrow> 'w heal_env \<Rightarrow> heal_input \<Rightarrow> 'w heal_state \<Rightarrow> 'w heal_outcome" where
  "heal_step numStr env input =
     (if hi_liveRepair input then repair_step numStr env (hi_dag input) (hi_executorOptions input) (heal_bound input)
      else retry_step numStr env (hi_dag input) (hi_executorOptions input) (heal_bound input))"

definition initial_heal_state :: "heal_input \<Rightarrow> dag_result \<Rightarrow> 'w \<Rightarrow> 'w heal_state" where
  "initial_heal_state input r w =
     \<lparr>hs_attempts = 0, hs_actions = [], hs_observed = [], hs_current = r, hs_rounds = [],
      hs_turnBudget = hi_turnBudget input, hs_world = w\<rparr>"

text \<open>
  \<open>validateAndHealExecution\<close> and \<open>healWithLiveRepair\<close>. A round that goes on has used one of the
  \<open>heal_bound\<close> attempts, so one unit of fuel more than the bound is enough; that the fuel is never
  used up is proved with the bound.
\<close>

definition validateAndHealExecution ::
  "(jsnum \<Rightarrow> string) \<Rightarrow> 'w heal_env \<Rightarrow> heal_input \<Rightarrow> 'w \<Rightarrow> (heal_error, heal_result) result option" where
  "validateAndHealExecution numStr env input w =
     (case initial_execution env input w of
        (Inl e, w1) \<Rightarrow> Some (Inl (ExecutorThrew e))
      | (Inr r, w1) \<Rightarrow>
          let st = initial_heal_state input r w1
          in if dr_status r = DagSuccess then Some (parseHealResult HealValidated st)
             else (case heal_loop (Suc (heal_bound input)) (heal_step numStr env input) st of
                     Return status st1 \<Rightarrow> Some (parseHealResult status st1)
                   | Throw e st1 \<Rightarrow> Some (Inl e)
                   | Continue st1 \<Rightarrow> None))"

end
