(* ===== verification/Healing_Correct.thy ===== *)
theory Healing_Correct
  imports Healing_Loop Sample_Data
begin

text \<open>
  What the healing loops guarantee: they return within the bound on attempts, they report success only
  for an execution that succeeded, and they never retry a denied operation or an operation that needs
  a human decision.
\<close>

section \<open>Actionable failures\<close>

lemma fold_addDirectFailure_set: "set (fold addDirectFailure fs roots) \<subseteq> set fs \<union> set roots"
  by (induction fs arbitrary: roots) (fastforce simp: addDirectFailure_def split: if_splits)+

lemma fold_addDirectFailure_keeps: "set roots \<subseteq> set (fold addDirectFailure fs roots)"
  by (induction fs arbitrary: roots) (fastforce simp: addDirectFailure_def split: if_splits)+

lemma fold_addDirectFailure_Nil:
  "fold addDirectFailure fs roots = [] \<Longrightarrow> f \<in> set fs \<Longrightarrow> vf_class f = FcDependency"
proof (induction fs arbitrary: roots)
  case Nil
  then show ?case by simp
next
  case (Cons g fs)
  show ?case
  proof (cases "f = g")
    case True
    from Cons.prems(1) have "addDirectFailure g roots = []"
      using fold_addDirectFailure_keeps [of "addDirectFailure g roots" fs] by simp
    with True show ?thesis by (auto simp: addDirectFailure_def split: if_splits)
  next
    case False
    with Cons.prems have "f \<in> set fs" by simp
    with Cons.IH [of "addDirectFailure g roots"] Cons.prems(1) show ?thesis by simp
  qed
qed

lemma rootActionable_Nil: "rootActionableFailures fs = [] \<Longrightarrow> f \<in> set fs \<Longrightarrow> vf_class f = FcDependency"
  unfolding rootActionableFailures_def Let_def by (rule fold_addDirectFailure_Nil)

section \<open>Rounds\<close>

text \<open>
  The contract of a healing step: a round that goes on uses one of the attempts and keeps the
  invariant, a round that returns establishes the postcondition. Both loops are instances.
\<close>

locale healing_rounds =
  fixes step :: "'w heal_state \<Rightarrow> 'w heal_outcome" and bound :: nat
    and inv :: "'w heal_state \<Rightarrow> bool" and post :: "heal_status \<Rightarrow> 'w heal_state \<Rightarrow> bool"
  assumes goes_on: "inv st \<Longrightarrow> step st = Continue st1 \<Longrightarrow> hs_attempts st < bound \<and> hs_attempts st1 = Suc (hs_attempts st) \<and> inv st1"
    and returns: "inv st \<Longrightarrow> step st = Return s st1 \<Longrightarrow> post s st1"
    and within: "inv st \<Longrightarrow> hs_attempts st \<le> bound"
begin

lemma loop_ends: "inv st \<Longrightarrow> bound < fuel + hs_attempts st \<Longrightarrow> heal_loop fuel step st \<noteq> Continue st1"
proof (induction fuel arbitrary: st)
  case 0
  then show ?case using within [of st] by simp
next
  case (Suc fuel)
  show ?case
  proof (cases "step st")
    case (Continue st2)
    from goes_on [OF Suc.prems(1) Continue] Suc.prems(2) Suc.IH [of st2] Continue show ?thesis by simp
  qed simp_all
qed

lemma loop_post: "inv st \<Longrightarrow> heal_loop fuel step st = Return s st1 \<Longrightarrow> post s st1"
proof (induction fuel arbitrary: st)
  case 0
  then show ?case by simp
next
  case (Suc fuel)
  show ?case
  proof (cases "step st")
    case (Continue st2)
    from goes_on [OF Suc.prems(1) Continue] Suc.prems(2) Suc.IH [of st2] Continue show ?thesis by simp
  next
    case (Return s' st')
    with Suc.prems returns show ?thesis by simp
  next
    case (Throw e st')
    with Suc.prems show ?thesis by simp
  qed
qed

end

text \<open>The invariant: attempts within the bound, one record per round, and no automatic action on a denied or unsafe failure.\<close>

definition action_safe :: "dag \<Rightarrow> heal_action \<Rightarrow> bool" where
  "action_safe g a \<longleftrightarrow> ha_type a = RETRY_NODE \<or> ha_type a = APPLY_PATCH \<longrightarrow>
     ha_class a \<noteq> Some FcPermission
     \<and> (isUnsafeToAutoHeal g (ha_nodeId a) \<longrightarrow> ha_type a = APPLY_PATCH \<and> ha_class a = Some FcDependency)"

definition rounds_numbered :: "bool \<Rightarrow> 'w heal_state \<Rightarrow> bool" where
  "rounds_numbered live st \<longleftrightarrow> map hr_round (hs_rounds st) = [1..<Suc (if live then hs_attempts st else 0)]"

definition heal_inv :: "bool \<Rightarrow> dag \<Rightarrow> nat \<Rightarrow> 'w heal_state \<Rightarrow> bool" where
  "heal_inv live g bound st \<longleftrightarrow> hs_attempts st \<le> bound \<and> list_all (action_safe g) (hs_actions st) \<and> rounds_numbered live st"

definition heal_post :: "(jsnum \<Rightarrow> string) \<Rightarrow> bool \<Rightarrow> dag \<Rightarrow> nat \<Rightarrow> heal_status \<Rightarrow> 'w heal_state \<Rightarrow> bool" where
  "heal_post numStr live g bound s st \<longleftrightarrow> heal_inv live g bound st
     \<and> (s = HealHealed \<or> s = HealValidated \<longrightarrow>
          dr_status (hs_current st) = DagSuccess
          \<or> dr_status (hs_current st) = DagSkipped \<and> classifyExecutionFailures numStr (hs_current st) = [])
     \<and> (s = HealHealed \<longrightarrow> 0 < hs_attempts st) \<and> (s = HealValidated \<longrightarrow> hs_attempts st = 0)"

lemma pushActions_fields [simp]:
  "hs_attempts (pushActions as st) = hs_attempts st" "hs_current (pushActions as st) = hs_current st"
  "hs_rounds (pushActions as st) = hs_rounds st" "hs_actions (pushActions as st) = hs_actions st @ as"
  "hs_world (pushActions as st) = hs_world st"
  by (simp_all add: pushActions_def)

lemma heal_inv_push: "heal_inv live g b st \<Longrightarrow> list_all (action_safe g) as \<Longrightarrow> heal_inv live g b (pushActions as st)"
  by (simp add: heal_inv_def rounds_numbered_def)

lemma heal_inv_cong:
  "hs_attempts st1 = hs_attempts st \<Longrightarrow> hs_actions st1 = hs_actions st \<Longrightarrow> hs_rounds st1 = hs_rounds st \<Longrightarrow>
   heal_inv live g b st1 \<longleftrightarrow> heal_inv live g b st"
  by (simp add: heal_inv_def rounds_numbered_def)

lemma harmless_actions [simp]:
  "list_all (action_safe g) (decision_actions fs)" "list_all (action_safe g) (exhausted_actions m fs)"
  "list_all (action_safe g) (unhealable_actions fs)" "action_safe g (plain_action FAIL_RUN r)"
  "action_safe g (failure_action FAIL_RUN n r f)" "action_safe g (failure_action REQUEST_DECISION n r f)"
  by (simp_all add: decision_actions_def exhausted_actions_def unhealable_actions_def list_all_iff action_safe_def
      failure_action_def plain_action_def)

lemma retry_actions_safe:
  "(\<And>f. f \<in> set fs \<Longrightarrow> \<not> needsDecision g f) \<Longrightarrow> list_all (action_safe g) (retry_actions n fs)"
  by (auto simp: retry_actions_def list_all_iff action_safe_def failure_action_def needsDecision_def)

lemma observe_outcomes:
  "observe numStr env g st \<noteq> Throw e st1"
  "observe numStr env g st = Continue st1 \<Longrightarrow>
     hs_attempts st1 = hs_attempts st \<and> hs_actions st1 = hs_actions st \<and> hs_rounds st1 = hs_rounds st
     \<and> (\<forall>f \<in> set (rootActionableFailures (classifyExecutionFailures numStr (hs_current st))). \<not> needsDecision g f)"
  "observe numStr env g st = Return s st1 \<Longrightarrow> heal_inv live g b st \<Longrightarrow> heal_post numStr live g b s st1"
  by (auto simp: observe_def Let_def heal_post_def heal_inv_push heal_inv_def rounds_numbered_def filter_empty_conv split: if_splits)

lemma consume_fields:
  "consumeRepairAttemptBudget env st = (ok, st1) \<Longrightarrow>
     hs_attempts st1 = hs_attempts st \<and> hs_actions st1 = hs_actions st \<and> hs_rounds st1 = hs_rounds st \<and> hs_current st1 = hs_current st"
  by (auto simp: consumeRepairAttemptBudget_def Let_def split: option.splits prod.splits bool.splits)

lemma executeAgain_fields:
  "executeAgain env opts st \<noteq> Return s st1"
  "executeAgain env opts st = Continue st1 \<Longrightarrow> hs_attempts st1 = hs_attempts st \<and> hs_actions st1 = hs_actions st \<and> hs_rounds st1 = hs_rounds st"
  by (auto simp: executeAgain_def split: prod.splits sum.splits)

lemma heal_post_failed: "heal_inv live g b st \<Longrightarrow> heal_post numStr live g b HealFailed st"
  "heal_inv live g b st \<Longrightarrow> heal_post numStr live g b HealNeedsDecision st"
  by (simp_all add: heal_post_def)

section \<open>The two loops\<close>

lemma retry_step_outcomes:
  assumes "heal_inv False g m st"
  shows "retry_step numStr env g opts m st = Continue st1 \<Longrightarrow> hs_attempts st < m \<and> hs_attempts st1 = Suc (hs_attempts st) \<and> heal_inv False g m st1"
    and "retry_step numStr env g opts m st = Return s st1 \<Longrightarrow> heal_post numStr False g m s st1"
proof -
  let ?fs = "classifyExecutionFailures numStr (hs_current st)"
  let ?rf = "filter isRetryableFailure (rootActionableFailures ?fs)"
  have "case retry_step numStr env g opts m st of
      Continue st1 \<Rightarrow> hs_attempts st < m \<and> hs_attempts st1 = Suc (hs_attempts st) \<and> heal_inv False g m st1
    | Return s st1 \<Rightarrow> heal_post numStr False g m s st1 | Throw e st1 \<Rightarrow> True"
  proof (cases "observe numStr env g st")
    case (Return s' st')
    then show ?thesis using observe_outcomes(3) [OF Return assms] by (simp add: retry_step_def)
  next
    case (Throw e st')
    then show ?thesis by (simp add: retry_step_def)
  next
    case (Continue st2)
    note o = observe_outcomes(2) [OF Continue]
    have inv2: "heal_inv False g m st2" using assms o heal_inv_cong [of st2 st] by blast
    have safe: "list_all (action_safe g) (retry_actions n ?rf)" for n by (rule retry_actions_safe) (use o in auto)
    show ?thesis
    proof (cases "consumeRepairAttemptBudget env st2")
      case (Pair ok st3)
      note c = consume_fields [OF Pair]
      have inv3: "heal_inv False g m st3" using inv2 c heal_inv_cong [of st3 st2] by blast
      let ?st4 = "pushActions (retry_actions (hs_attempts st3 + 1) ?rf) (st3\<lparr>hs_attempts := hs_attempts st3 + 1\<rparr>)"
      have inv4: "heal_inv False g m ?st4" if "hs_attempts st2 < m"
        using inv3 that c safe by (simp add: heal_inv_def rounds_numbered_def)
      have "case executeAgain env (healingOptions g opts ?rf) ?st4 of
          Continue st1 \<Rightarrow> hs_attempts st < m \<and> hs_attempts st1 = Suc (hs_attempts st) \<and> heal_inv False g m st1
        | Return s st1 \<Rightarrow> heal_post numStr False g m s st1 | Throw e st1 \<Rightarrow> True" if m: "hs_attempts st2 < m"
      proof (cases "executeAgain env (healingOptions g opts ?rf) ?st4")
        case (Continue st5)
        note e = executeAgain_fields(2) [OF Continue]
        have "heal_inv False g m st5" using inv4 [OF m] e heal_inv_cong [of st5 ?st4] by blast
        with Continue e c o m show ?thesis by simp
      qed (use executeAgain_fields(1) in \<open>blast | simp\<close>)+
      with Continue Pair inv2 inv3 show ?thesis
        by (auto simp: retry_step_def Let_def heal_post_failed heal_inv_push split: bool.split)
    qed
  qed
  then show "retry_step numStr env g opts m st = Continue st1 \<Longrightarrow> hs_attempts st < m \<and> hs_attempts st1 = Suc (hs_attempts st) \<and> heal_inv False g m st1"
    and "retry_step numStr env g opts m st = Return s st1 \<Longrightarrow> heal_post numStr False g m s st1"
    by simp_all
qed

lemma heal_inv_within: "heal_inv live g m st \<Longrightarrow> hs_attempts st \<le> m"
  by (simp add: heal_inv_def)

interpretation retrying: healing_rounds "retry_step numStr env g opts m" m "heal_inv False g m" "heal_post numStr False g m"
  by unfold_locales (rule retry_step_outcomes heal_inv_within; assumption)+

text \<open>In a repair round the attempt is already counted but its record is still missing.\<close>

definition mid_round :: "dag \<Rightarrow> nat \<Rightarrow> 'w heal_state \<Rightarrow> bool" where
  "mid_round g m st \<longleftrightarrow> hs_attempts st \<le> m \<and> 1 \<le> hs_attempts st \<and> list_all (action_safe g) (hs_actions st)
     \<and> map hr_round (hs_rounds st) = [1..<hs_attempts st]"

lemma mid_round_push: "mid_round g m st \<Longrightarrow> list_all (action_safe g) as \<Longrightarrow> mid_round g m (pushActions as st)"
  by (simp add: mid_round_def)

lemma mid_round_record:
  assumes "mid_round g m st"
  shows "heal_inv True g m (st\<lparr>hs_rounds := hs_rounds st @ [round_record (hs_attempts st) f b a s e]\<rparr>)"
  using assms by (auto simp: mid_round_def heal_inv_def rounds_numbered_def round_record_def upt_Suc_append)

definition target_safe :: "dag \<Rightarrow> validation_failure \<Rightarrow> bool" where
  "target_safe g f \<longleftrightarrow> vf_class f \<noteq> FcPermission \<and> (isUnsafeToAutoHeal g (vf_nodeId f) \<longrightarrow> vf_class f = FcDependency)"

lemma patch_action_safe: "target_safe g f \<Longrightarrow> action_safe g (failure_action APPLY_PATCH n r f)"
  by (auto simp: target_safe_def action_safe_def failure_action_def)

definition repair_outcome_ok :: "(jsnum \<Rightarrow> string) \<Rightarrow> dag \<Rightarrow> nat \<Rightarrow> nat \<Rightarrow> 'w heal_outcome \<Rightarrow> bool" where
  "repair_outcome_ok numStr g m n outcome \<longleftrightarrow>
     (case outcome of
        Continue st1 \<Rightarrow> hs_attempts st1 = n \<and> heal_inv True g m st1
      | Return s st1 \<Rightarrow> heal_post numStr True g m s st1
      | Throw e st1 \<Rightarrow> True)"

lemma repair_outcome_returns:
  "heal_inv True g m st1 \<Longrightarrow> s = HealFailed \<or> s = HealNeedsDecision \<Longrightarrow> repair_outcome_ok numStr g m n (Return s st1)"
  by (auto simp: repair_outcome_ok_def heal_post_failed)

lemma noProposal_ok:
  assumes "mid_round g m st"
  shows "repair_outcome_ok numStr g m n (noProposal f st)"
proof -
  have "mid_round g m (pushActions [failure_action FAIL_RUN None r f] st)" for r
    using assms by (intro mid_round_push) simp_all
  from mid_round_record [OF this] show ?thesis
    unfolding noProposal_def pushRound_def Let_def
    by (auto simp: repair_outcome_ok_def [of _ _ _ _ "Throw _ _"] intro!: repair_outcome_returns)
qed

lemma patchNotApplied_ok:
  assumes "mid_round g m st" and "target_safe g f"
  shows "repair_outcome_ok numStr g m n (patchNotApplied f proposal patch st)"
proof -
  let ?st1 = "pushActions [failure_action APPLY_PATCH (Some (hs_attempts st)) r f] st"
  have "mid_round g m (pushActions [failure_action APPLY_PATCH (Some (hs_attempts st)) r f] st)" for r
    using assms by (intro mid_round_push) (simp_all add: patch_action_safe)
  from mid_round_record [OF this] show ?thesis
    unfolding patchNotApplied_def pushRound_def Let_def
    by (auto simp: repair_outcome_ok_def [of _ _ _ _ "Throw _ _"] intro!: repair_outcome_returns heal_inv_push)
qed

lemma patchApplied_ok:
  assumes "mid_round g m st" and "target_safe g f"
  shows "repair_outcome_ok numStr g m (hs_attempts st) (patchApplied env opts f proposal patch st)"
proof -
  define st1 where "st1 = pushActions [failure_action APPLY_PATCH (Some (hs_attempts st))
      (''Applied repair patch for '' @ nodeOrDag (vf_nodeId f) @ '' via the safe executor'') f] st"
  have mid: "mid_round g m st1" using assms unfolding st1_def by (intro mid_round_push) (simp_all add: patch_action_safe)
  show ?thesis
  proof (cases "executeAgain env opts st1")
    case (Continue st2)
    note e = executeAgain_fields(2) [OF Continue]
    then have "mid_round g m st2" using mid by (simp add: mid_round_def)
    note inv = mid_round_record [OF this]
    have n: "hs_attempts st2 = hs_attempts st" using e by (simp add: st1_def)
    have "repair_outcome_ok numStr g m (hs_attempts st)
        (pushRound (round_record (hs_attempts st) f b a s x) Continue st2)" for b a s x
      using inv [unfolded n] n by (simp add: pushRound_def repair_outcome_ok_def)
    then show ?thesis unfolding patchApplied_def Let_def st1_def [symmetric] Continue heal_outcome.case .
  next
    case (Throw err st2)
    show ?thesis
      unfolding patchApplied_def Let_def st1_def [symmetric] Throw heal_outcome.case by (simp add: repair_outcome_ok_def)
  qed (use executeAgain_fields(1) in blast)
qed

lemma mid_round_world [simp]: "mid_round g m (st\<lparr>hs_world := w\<rparr>) \<longleftrightarrow> mid_round g m st"
  by (simp add: mid_round_def)

lemma repairRound_ok:
  assumes "mid_round g m st" and "target_safe g f"
  shows "repair_outcome_ok numStr g m (hs_attempts st) (repairRound env opts f st)"
proof -
  note throw = repair_outcome_ok_def [of _ _ _ _ "Throw _ _"]
  have "repair_outcome_ok numStr g m (hs_attempts st) (patchApplied env opts f p q (st\<lparr>hs_world := w\<rparr>))" for p q w
    using patchApplied_ok [of g m "st\<lparr>hs_world := w\<rparr>" f numStr env opts p q] assms by simp
  moreover have "repair_outcome_ok numStr g m (hs_attempts st) (patchNotApplied f p q (st\<lparr>hs_world := w\<rparr>))" for p q w
    using patchNotApplied_ok [of g m "st\<lparr>hs_world := w\<rparr>" f] assms by simp
  moreover have "repair_outcome_ok numStr g m (hs_attempts st) (noProposal f (st\<lparr>hs_world := w\<rparr>))" for w
    using noProposal_ok [of g m "st\<lparr>hs_world := w\<rparr>"] assms by simp
  ultimately show ?thesis
    by (simp add: repairRound_def Let_def throw split: prod.split option.split)
qed

lemma target_is_safe:
  assumes "\<forall>f \<in> set (rootActionableFailures fs). \<not> needsDecision g f"
    and "(if rootActionableFailures fs \<noteq> [] then rootActionableFailures fs else fs) = target # rest"
  shows "target_safe g target"
proof (cases "rootActionableFailures fs = []")
  case True
  with assms(2) have "target \<in> set fs" by simp
  with rootActionable_Nil [OF True] show ?thesis by (simp add: target_safe_def)
next
  case False
  with assms show ?thesis by (simp add: target_safe_def needsDecision_def)
qed

lemma repair_step_outcomes:
  assumes "heal_inv True g m st"
  shows "repair_step numStr env g opts m st = Continue st1 \<Longrightarrow> hs_attempts st < m \<and> hs_attempts st1 = Suc (hs_attempts st) \<and> heal_inv True g m st1"
    and "repair_step numStr env g opts m st = Return s st1 \<Longrightarrow> heal_post numStr True g m s st1"
proof -
  let ?fs = "classifyExecutionFailures numStr (hs_current st)"
  let ?cs = "if rootActionableFailures ?fs \<noteq> [] then rootActionableFailures ?fs else ?fs"
  have "repair_outcome_ok numStr g m (Suc (hs_attempts st)) (repair_step numStr env g opts m st)
      \<and> (\<forall>st1. repair_step numStr env g opts m st = Continue st1 \<longrightarrow> hs_attempts st < m)"
  proof (cases "observe numStr env g st")
    case (Return s' st')
    then show ?thesis using observe_outcomes(3) [OF Return assms] by (simp add: repair_step_def repair_outcome_ok_def)
  next
    case (Throw e st')
    then show ?thesis by (simp add: repair_step_def repair_outcome_ok_def)
  next
    case (Continue st2)
    note o = observe_outcomes(2) [OF Continue]
    have inv2: "heal_inv True g m st2" using assms o heal_inv_cong [of st2 st] by blast
    obtain ok st3 where cons: "consumeRepairAttemptBudget env st2 = (ok, st3)" by force
    note c = consume_fields [OF cons]
    have inv3: "heal_inv True g m st3" using inv2 c heal_inv_cong [of st3 st2] by blast
    let ?st4 = "st3\<lparr>hs_attempts := hs_attempts st3 + 1\<rparr>"
    have mid: "mid_round g m ?st4" if "hs_attempts st2 < m"
      using inv3 that c by (simp add: heal_inv_def rounds_numbered_def mid_round_def)
    have round: "repair_outcome_ok numStr g m (Suc (hs_attempts st))
        (case ?cs of [] \<Rightarrow> Throw NoTarget ?st4 | target # _ \<Rightarrow> repairRound env opts target ?st4)" if "hs_attempts st2 < m"
    proof (cases ?cs)
      case Nil
      then show ?thesis by (simp add: repair_outcome_ok_def)
    next
      case (Cons target rest)
      have "target_safe g target" using target_is_safe [OF _ Cons] o by blast
      from repairRound_ok [OF mid [OF that] this, of numStr env opts] Cons c o show ?thesis by simp
    qed
    have "repair_step numStr env g opts m st =
        (if m \<le> hs_attempts st2 then Return HealFailed (pushActions (exhausted_actions m ?cs) st2)
         else if \<not> ok then Return HealFailed (pushActions [plain_action FAIL_RUN ''Turn iteration budget exhausted before live repair attempt''] st3)
         else case ?cs of [] \<Rightarrow> Throw NoTarget ?st4 | target # _ \<Rightarrow> repairRound env opts target ?st4)"
      unfolding repair_step_def Continue heal_outcome.case Let_def cons by (simp split: bool.split)
    moreover have "repair_outcome_ok numStr g m n (Return HealFailed (pushActions (exhausted_actions m fs) st2))" for n fs
      using inv2 by (intro repair_outcome_returns heal_inv_push) simp_all
    moreover have "repair_outcome_ok numStr g m n (Return HealFailed (pushActions [plain_action FAIL_RUN r] st3))" for n r
      using inv3 by (intro repair_outcome_returns heal_inv_push) simp_all
    ultimately show ?thesis using round o by (auto simp del: append.simps)
  qed
  then show "repair_step numStr env g opts m st = Continue st1 \<Longrightarrow> hs_attempts st < m \<and> hs_attempts st1 = Suc (hs_attempts st) \<and> heal_inv True g m st1"
    and "repair_step numStr env g opts m st = Return s st1 \<Longrightarrow> heal_post numStr True g m s st1"
    by (auto simp: repair_outcome_ok_def)
qed

interpretation repairing: healing_rounds "repair_step numStr env g opts m" m "heal_inv True g m" "heal_post numStr True g m"
  by unfold_locales (rule repair_step_outcomes heal_inv_within; assumption)+

section \<open>The whole call\<close>

lemma initial_inv: "heal_inv live g m (initial_heal_state input r w)"
  by (simp add: heal_inv_def rounds_numbered_def initial_heal_state_def)

lemma heal_loop_ends:
  "heal_loop (Suc (heal_bound input)) (heal_step numStr env input) (initial_heal_state input r w) \<noteq> Continue st1"
proof -
  have lt: "heal_bound input < Suc (heal_bound input) + hs_attempts (initial_heal_state input r w)" by simp
  show ?thesis
    using retrying.loop_ends [OF initial_inv lt, of numStr env "hi_dag input" "hi_executorOptions input" st1]
      repairing.loop_ends [OF initial_inv lt, of numStr env "hi_dag input" "hi_executorOptions input" st1]
    unfolding heal_step_def by (cases "hi_liveRepair input") (simp_all only: if_True if_False not_False_eq_True)
qed

lemma heal_loop_post:
  "heal_loop n (heal_step numStr env input) (initial_heal_state input r w) = Return s st1 \<Longrightarrow>
   heal_post numStr (hi_liveRepair input) (hi_dag input) (heal_bound input) s st1"
  unfolding heal_step_def
  using retrying.loop_post [OF initial_inv] repairing.loop_post [OF initial_inv] by (cases "hi_liveRepair input") simp_all

lemma parseHealResult_Inr:
  "parseHealResult s st = Inr r \<Longrightarrow> hl_status r = s \<and> hl_attempts r = hs_attempts st \<and> hl_failures r = hs_observed st
     \<and> hl_actions r = hs_actions st \<and> hl_finalExecutionResult r = hs_current st \<and> hl_rounds r = hs_rounds st"
  by (auto simp: parseHealResult_def Let_def split: if_splits)

lemma heal_result_post:
  fixes w :: 'w
  assumes "validateAndHealExecution numStr env input w = Some (Inr r)"
  obtains st :: "'w heal_state" where "heal_post numStr (hi_liveRepair input) (hi_dag input) (heal_bound input) (hl_status r) st"
    and "hl_attempts r = hs_attempts st" and "hl_actions r = hs_actions st" and "hl_finalExecutionResult r = hs_current st"
    and "hl_rounds r = hs_rounds st"
proof -
  obtain x w1 where x: "initial_execution env input w = (Inr x, w1)"
    using assms by (auto simp: validateAndHealExecution_def split: prod.splits sum.splits)
  let ?st = "initial_heal_state input x w1"
  show thesis
  proof (cases "dr_status x = DagSuccess")
    case True
    then have p: "parseHealResult HealValidated ?st = Inr r" using assms x by (simp add: validateAndHealExecution_def)
    have "heal_post numStr (hi_liveRepair input) (hi_dag input) (heal_bound input) HealValidated ?st"
      using True by (simp add: heal_post_def initial_inv) (simp add: initial_heal_state_def)
    with parseHealResult_Inr [OF p] that [of ?st] show thesis by simp
  next
    case False
    then obtain s st1 where s: "heal_loop (Suc (heal_bound input)) (heal_step numStr env input) ?st = Return s st1"
      "parseHealResult s st1 = Inr r"
      using assms x by (auto simp: validateAndHealExecution_def Let_def simp del: heal_loop.simps split: heal_outcome.splits)
    from heal_loop_post [OF s(1)] parseHealResult_Inr [OF s(2)] that [of st1] show thesis by simp
  qed
qed

lemma boundedLive_range: "1 \<le> boundedLiveAttempts v \<and> boundedLiveAttempts v \<le> 10"
  by (cases v) (auto simp: boundedLiveAttempts_def DEFAULT_MAX_HEALING_ATTEMPTS_def MIN_LIVE_HEALING_ATTEMPTS_def MAX_LIVE_HEALING_ATTEMPTS_def)

section \<open>Properties\<close>

definition sample_outcome :: "dag_status \<Rightarrow> node_status \<Rightarrow> execution_error option \<Rightarrow> dag_result" where
  "sample_outcome status nodeStatus err =
     \<lparr>dr_dagId = ''d'', dr_runId = ''r'', dr_status = status, dr_startedAt = 0, dr_completedAt = 1, dr_durationMs = 1,
      dr_nodeResults = [\<lparr>nr_nodeId = ''a'', nr_status = nodeStatus, nr_attempts = 1, nr_startedAt = 0, nr_completedAt = 1,
         nr_durationMs = 1, nr_output = None, nr_error = err, nr_dependencies = []\<rparr>], dr_events = [], dr_error = None\<rparr>"

definition sample_error :: execution_error where
  "sample_error = \<lparr>xe_code = ErrInjected, xe_message = ''e'', xe_nodeId = None, xe_details = None\<rparr>"

definition sample_heal_env :: "unit heal_env" where
  "sample_heal_env =
     \<lparr>he_abortRequested = (\<lambda>_. False), he_execute = (\<lambda>_ w. (Inr (sample_outcome DagSuccess NodeSuccess None), w)),
      he_propose = (\<lambda>_ _ w. (None, w)), he_operate = (\<lambda>_ _ w. (None, w)), he_onBudgetExhausted = (\<lambda>_ w. w)\<rparr>"

definition sample_heal_options :: exec_options where
  "sample_heal_options =
     \<lparr>xo_now = 0, xo_policy = \<lparr>yo_maxAttempts = None, yo_retryable = None, yo_perNodeTimeoutMs = None, yo_strategy = None\<rparr>,
      xo_injectFailureNodeIds = [], xo_injectFailureNodeTypes = [], xo_injectedErrorCode = [], xo_failAttempts = [],
      xo_durationByNodeId = [], xo_durationByNodeType = [], xo_outputByNodeId = [], xo_validationFailures = [],
      xo_allowUnsafeShell = False, xo_aborted = (\<lambda>_. False), xo_blockWorkspaceOps = False\<rparr>"

definition sample_heal_input :: heal_input where
  "sample_heal_input =
     \<lparr>hi_dag = \<lparr>dag_id = ''d'', dag_runId = ''r'', dag_version = ''1'', dag_nodes = [], dag_edges = [],
        dag_validationPolicy = None, dag_budgetPolicy = None, dag_metadata = None, dag_createdAt = ''now''\<rparr>,
      hi_executionResult = Some (sample_outcome DagFailed NodeFailed (Some sample_error)), hi_executorOptions = sample_heal_options,
      hi_maxHealingAttempts = None, hi_liveRepair = False, hi_turnBudget = None\<rparr>"

definition heal_summary :: "(heal_error, heal_result) result option \<Rightarrow> (heal_status \<times> nat \<times> heal_action_type list) option" where
  "heal_summary x = (case x of Some (Inr r) \<Rightarrow> Some (hl_status r, hl_attempts r, map ha_type (hl_actions r)) | _ \<Rightarrow> None)"

lemma sample_heal_summary:
  "heal_summary (validateAndHealExecution (\<lambda>_. []) sample_heal_env sample_heal_input ()) = Some (HealHealed, 1, [RETRY_NODE])"
  by code_simp

lemma sample_heals:
  obtains r where "validateAndHealExecution (\<lambda>_. []) sample_heal_env sample_heal_input () = Some (Inr r)"
    and "hl_status r = HealHealed" and "hl_attempts r = 1" and "map ha_type (hl_actions r) = [RETRY_NODE]"
  using sample_heal_summary by (auto simp: heal_summary_def split: option.splits sum.splits)

text \<open>
  C18: Healing always ends, whatever the executor, the repair agent and the sandbox do. It makes at most
  the configured number of attempts, which for live repair is between 1 and 10, and live repair keeps
  exactly one record per attempt, numbered from 1.
\<close>

theorem healing_ends_within_bound:
  "validateAndHealExecution numStr env input w \<noteq> None
     \<and> (\<forall>r. validateAndHealExecution numStr env input w = Some (Inr r) \<longrightarrow>
          hl_attempts r \<le> heal_bound input
          \<and> map hr_round (hl_rounds r) = [1..<Suc (if hi_liveRepair input then hl_attempts r else 0)])
     \<and> (hi_liveRepair input \<longrightarrow> 1 \<le> heal_bound input \<and> heal_bound input \<le> 10)"
proof (intro conjI allI impI)
  show "validateAndHealExecution numStr env input w \<noteq> None"
    using heal_loop_ends [of input numStr env]
    by (auto simp: validateAndHealExecution_def Let_def simp del: heal_loop.simps split: prod.splits sum.splits heal_outcome.splits)
next
  fix r assume r: "validateAndHealExecution numStr env input w = Some (Inr r)"
  show "hl_attempts r \<le> heal_bound input" using r
    by (rule heal_result_post) (simp add: heal_post_def heal_inv_def)
  show "map hr_round (hl_rounds r) = [1..<Suc (if hi_liveRepair input then hl_attempts r else 0)]" using r
    by (rule heal_result_post) (simp add: heal_post_def heal_inv_def rounds_numbered_def)
next
  assume "hi_liveRepair input"
  then show "1 \<le> heal_bound input" "heal_bound input \<le> 10" using boundedLive_range by (simp_all add: heal_bound_def)
qed

theorem healing_ends_within_bound_witness:
  "\<exists>r. validateAndHealExecution (\<lambda>_. []) sample_heal_env sample_heal_input () = Some (Inr r) \<and> hl_attempts r \<le> 2"
proof -
  obtain r where r: "validateAndHealExecution (\<lambda>_. []) sample_heal_env sample_heal_input () = Some (Inr r)" by (rule sample_heals)
  have "heal_bound sample_heal_input = 2" by code_simp
  with healing_ends_within_bound [of "\<lambda>_. []" sample_heal_env sample_heal_input "()"] r show ?thesis by auto
qed

text \<open>
  Healing reports success only for an execution that succeeded, or that skipped everything without
  a failure. \<open>HEALED\<close> is reported exactly when that took an attempt, \<open>VALIDATED\<close> when it took none.
\<close>

lemma healing_reports_truthfully:
  assumes "validateAndHealExecution numStr env input w = Some (Inr r)" and "hl_status r = HealHealed \<or> hl_status r = HealValidated"
  shows "(dr_status (hl_finalExecutionResult r) = DagSuccess
        \<or> dr_status (hl_finalExecutionResult r) = DagSkipped \<and> classifyExecutionFailures numStr (hl_finalExecutionResult r) = [])
     \<and> (hl_status r = HealHealed \<longleftrightarrow> 0 < hl_attempts r)"
  using assms(1) by (rule heal_result_post) (use assms(2) in \<open>auto simp: heal_post_def\<close>)

text \<open>
  C19: Healing never retries or patches after a denied permission, and never retries a node that is a
  shell command, has a shell permission, needs approval or is of high risk. Live repair patches for such
  a node only when the failure is that of a dependency.
\<close>

theorem healing_leaves_unsafe_alone:
  assumes "validateAndHealExecution numStr env input w = Some (Inr r)" and "a \<in> set (hl_actions r)"
    and "ha_type a = RETRY_NODE \<or> ha_type a = APPLY_PATCH"
  shows "ha_class a \<noteq> Some FcPermission
     \<and> (isUnsafeToAutoHeal (hi_dag input) (ha_nodeId a) \<longrightarrow> ha_type a = APPLY_PATCH \<and> ha_class a = Some FcDependency)"
proof -
  have "list_all (action_safe (hi_dag input)) (hl_actions r)" using assms(1)
    by (rule heal_result_post) (simp add: heal_post_def heal_inv_def)
  with assms(2,3) show ?thesis by (auto simp: list_all_iff action_safe_def)
qed

theorem healing_leaves_unsafe_alone_witness:
  "\<exists>r a. validateAndHealExecution (\<lambda>_. []) sample_heal_env sample_heal_input () = Some (Inr r) \<and> a \<in> set (hl_actions r)
     \<and> ha_type a = RETRY_NODE \<and> ha_class a \<noteq> Some FcPermission"
proof -
  obtain r where r: "validateAndHealExecution (\<lambda>_. []) sample_heal_env sample_heal_input () = Some (Inr r)"
    "map ha_type (hl_actions r) = [RETRY_NODE]" by (rule sample_heals)
  then obtain a where a: "a \<in> set (hl_actions r)" "ha_type a = RETRY_NODE" by (cases "hl_actions r") auto
  from healing_leaves_unsafe_alone [OF r(1) a(1)] r(1) a show ?thesis by blast
qed

end
