(* ===== verification/Budget_Gate.thy ===== *)
theory Budget_Gate
  imports Sample_Data
begin

text \<open>
  The budget gates of \<open>src/security/budget.ts\<close>: the evaluation of a run's usage against its budget, the
  check before a provider call, and the limit on sandbox run time. An absent number is \<open>JUndef\<close>; \<open>numStr\<close>
  is the text JavaScript gives a number and only occurs in the reasons.
\<close>

section \<open>Numbers out of open records\<close>

fun nonNegativeNumberFrom :: "json list \<Rightarrow> rat" where
  "nonNegativeNumberFrom [] = 0"
| "nonNegativeNumberFrom (v # vs) =
     (case v of JNum (Fin q) \<Rightarrow> if 0 \<le> q then q else nonNegativeNumberFrom vs | _ \<Rightarrow> nonNegativeNumberFrom vs)"

definition nonNegativeIntFrom :: "json list \<Rightarrow> int" where
  "nonNegativeIntFrom vs = math_trunc (nonNegativeNumberFrom vs)"

definition isNegativeFinite :: "json \<Rightarrow> bool" where
  "isNegativeFinite v = (case v of JNum (Fin q) \<Rightarrow> q < 0 | _ \<Rightarrow> False)"

fun stringFrom :: "json list \<Rightarrow> string option" where
  "stringFrom [] = None"
| "stringFrom (v # vs) = (case v of JStr s \<Rightarrow> if s \<noteq> [] then Some s else stringFrom vs | _ \<Rightarrow> stringFrom vs)"

lemma nonNegativeNumberFrom_ge: "0 \<le> nonNegativeNumberFrom vs"
  by (induction vs) (auto split: json.splits jsnum.splits)

lemma nonNegativeIntFrom_ge: "0 \<le> nonNegativeIntFrom vs"
  using math_trunc_nonneg [OF nonNegativeNumberFrom_ge] by (simp add: nonNegativeIntFrom_def)

section \<open>Usage against the budget\<close>

record budget_usage =
  bu_estimatedUsd :: json
  bu_actualUsd :: json
  bu_inputTokens :: json
  bu_outputTokens :: json
  bu_modelCalls :: json
  bu_runtimeMs :: json
  bu_healingAttempts :: json
  bu_provider :: "string option"

definition no_usage :: budget_usage where
  "no_usage = \<lparr>bu_estimatedUsd = JUndef, bu_actualUsd = JUndef, bu_inputTokens = JUndef, bu_outputTokens = JUndef,
     bu_modelCalls = JUndef, bu_runtimeMs = JUndef, bu_healingAttempts = JUndef, bu_provider = None\<rparr>"

record normal_usage =
  nu_estimatedUsd :: rat
  nu_actualUsd :: rat
  nu_inputTokens :: int
  nu_outputTokens :: int
  nu_modelCalls :: int
  nu_runtimeMs :: int
  nu_healingAttempts :: int
  nu_provider :: "string option"

datatype budget_status = BudgetAllowed | BudgetNeedsDecision | BudgetDenied

record budget_decision =
  bd_status :: budget_status
  bd_reasons :: "string list"
  bd_usage :: normal_usage

definition normalizeUsage :: "run \<Rightarrow> budget_usage \<Rightarrow> normal_usage" where
  "normalizeUsage r u =
     (let cost = Some (run_costEstimate r); actual = run_actualCost r; tokens = run_actualTokens r; estimate = Some (run_tokenEstimate r)
      in \<lparr>nu_estimatedUsd = nonNegativeNumberFrom [bu_estimatedUsd u, optField cost ''usd''],
          nu_actualUsd = nonNegativeNumberFrom [bu_actualUsd u, optField actual ''usd''],
          nu_inputTokens = nonNegativeIntFrom [bu_inputTokens u, optField tokens ''input'', optField estimate ''input''],
          nu_outputTokens = nonNegativeIntFrom [bu_outputTokens u, optField tokens ''output'', optField estimate ''output''],
          nu_modelCalls = nonNegativeIntFrom [bu_modelCalls u, optField actual ''modelCalls'', optField cost ''modelCalls''],
          nu_runtimeMs = nonNegativeIntFrom [bu_runtimeMs u, optField actual ''runtimeMs'', optField cost ''runtimeMs''],
          nu_healingAttempts = nonNegativeIntFrom [bu_healingAttempts u, JNum (Fin (of_nat (run_healingAttempts r)))],
          nu_provider = (case bu_provider u of Some p \<Rightarrow> Some p
                         | None \<Rightarrow> stringFrom [optField actual ''provider'', optField cost ''provider''])\<rparr>)"

definition usageCost :: "normal_usage \<Rightarrow> rat" where
  "usageCost u = (if 0 < nu_actualUsd u then nu_actualUsd u else nu_estimatedUsd u)"

definition hardLimitReasons :: "(jsnum \<Rightarrow> string) \<Rightarrow> budget \<Rightarrow> normal_usage \<Rightarrow> string list" where
  "hardLimitReasons numStr b u =
     (let n = (\<lambda>i. numStr (Fin (of_int i))); lim = (\<lambda>k. numStr (Fin (of_nat k)))
      in (if num_gt (Fin (usageCost u)) (maxUsd b)
          then [''estimated cost '' @ numStr (Fin (usageCost u)) @ '' exceeds maxUsd '' @ numStr (maxUsd b)] else [])
         @ (if int (maxInputTokens b) < nu_inputTokens u
            then [''input tokens '' @ n (nu_inputTokens u) @ '' exceed maxInputTokens '' @ lim (maxInputTokens b)] else [])
         @ (if int (maxOutputTokens b) < nu_outputTokens u
            then [''output tokens '' @ n (nu_outputTokens u) @ '' exceed maxOutputTokens '' @ lim (maxOutputTokens b)] else [])
         @ (if int (maxModelCalls b) < nu_modelCalls u
            then [''model calls '' @ n (nu_modelCalls u) @ '' exceed maxModelCalls '' @ lim (maxModelCalls b)] else [])
         @ (if int (maxRuntimeMs b) < nu_runtimeMs u
            then [''runtime '' @ n (nu_runtimeMs u) @ ''ms exceeds maxRuntimeMs '' @ lim (maxRuntimeMs b) @ ''ms''] else [])
         @ (if int (maxHealingAttempts b) < nu_healingAttempts u
            then [''healing attempts '' @ n (nu_healingAttempts u) @ '' exceed maxHealingAttempts '' @ lim (maxHealingAttempts b)] else [])
         @ (case nu_provider u of
              None \<Rightarrow> []
            | Some p \<Rightarrow> if p \<noteq> [] \<and> allowedProviders b \<noteq> [] \<and> p \<notin> set (allowedProviders b)
                        then [''provider '' @ p @ '' is not allowed''] else []))"

definition approvalReasonsFor :: "(jsnum \<Rightarrow> string) \<Rightarrow> budget \<Rightarrow> normal_usage \<Rightarrow> string list" where
  "approvalReasonsFor numStr b u =
     (if num_gt (approvalRequiredAboveUsd b) (Fin 0) \<and> num_gt (Fin (usageCost u)) (approvalRequiredAboveUsd b)
      then [''estimated cost '' @ numStr (Fin (usageCost u)) @ '' requires approval above '' @ numStr (approvalRequiredAboveUsd b)]
      else [])"

definition evaluateBudget :: "(jsnum \<Rightarrow> string) \<Rightarrow> run \<Rightarrow> budget_usage \<Rightarrow> budget_decision" where
  "evaluateBudget numStr r usage =
     (let b = run_budget r; u = normalizeUsage r usage;
          denied = hardLimitReasons numStr b u; approval = approvalReasonsFor numStr b u
      in if denied \<noteq> [] then \<lparr>bd_status = BudgetDenied, bd_reasons = denied, bd_usage = u\<rparr>
         else if approval \<noteq> [] then \<lparr>bd_status = BudgetNeedsDecision, bd_reasons = approval, bd_usage = u\<rparr>
         else \<lparr>bd_status = BudgetAllowed, bd_reasons = [], bd_usage = u\<rparr>)"

section \<open>Before a provider call\<close>

record projection =
  bp_estimatedUsd :: json
  bp_modelCalls :: json

definition projectedUsd :: "projection \<Rightarrow> projection \<Rightarrow> rat" where
  "projectedUsd acc nxt = nonNegativeNumberFrom [bp_estimatedUsd acc] + nonNegativeNumberFrom [bp_estimatedUsd nxt]"

definition projectedModelCalls :: "projection \<Rightarrow> projection \<Rightarrow> int" where
  "projectedModelCalls acc nxt = nonNegativeIntFrom [bp_modelCalls acc] + nonNegativeIntFrom [bp_modelCalls nxt]"

definition enforceMaxPerRunBudget :: "(jsnum \<Rightarrow> string) \<Rightarrow> run \<Rightarrow> projection \<Rightarrow> projection \<Rightarrow> budget_decision" where
  "enforceMaxPerRunBudget numStr r acc nxt =
     (let b = run_budget r; usd = projectedUsd acc nxt; calls = projectedModelCalls acc nxt;
          base = evaluateBudget numStr r (no_usage\<lparr>bu_estimatedUsd := JNum (Fin usd), bu_modelCalls := JNum (Fin (of_int calls))\<rparr>);
          reasons = (if num_gt (Fin usd) (maxUsd b)
                     then [''projected cost '' @ numStr (Fin usd) @ '' exceeds maxUsd '' @ numStr (maxUsd b)] else [])
                    @ (if int (maxModelCalls b) < calls
                       then [''projected model calls '' @ numStr (Fin (of_int calls)) @ '' exceed maxModelCalls ''
                               @ numStr (Fin (of_nat (maxModelCalls b)))] else [])
      in \<lparr>bd_status = (if reasons \<noteq> [] then BudgetDenied else BudgetAllowed), bd_reasons = reasons, bd_usage = bd_usage base\<rparr>)"

section \<open>Sandbox run time\<close>

datatype safety_reason = SANDBOX_RUNTIME_BUDGET_EXCEEDED | SANDBOX_RUNTIME_APPROVAL_REQUIRED

record runtime_decision =
  sd_status :: budget_status
  sd_reasonCodes :: "safety_reason list"
  sd_reasons :: "string list"
  sd_runtimeMs :: int
  sd_maxRuntimeMs :: int
  sd_approvalRequiredAboveMs :: int

definition evaluateSandboxRuntimeSafety :: "(jsnum \<Rightarrow> string) \<Rightarrow> json \<Rightarrow> json \<Rightarrow> json \<Rightarrow> runtime_decision" where
  "evaluateSandboxRuntimeSafety numStr runtime limit approval =
     (let r = nonNegativeIntFrom [runtime]; m = nonNegativeIntFrom [limit]; a = nonNegativeIntFrom [approval];
          negative = isNegativeFinite runtime \<or> isNegativeFinite limit;
          n = (\<lambda>i. numStr (Fin (of_int i)));
          decide = (\<lambda>s cs rs. \<lparr>sd_status = s, sd_reasonCodes = cs, sd_reasons = rs, sd_runtimeMs = r, sd_maxRuntimeMs = m, sd_approvalRequiredAboveMs = a\<rparr>)
      in if negative \<or> m \<le> 0 \<or> m < r
         then decide BudgetDenied [SANDBOX_RUNTIME_BUDGET_EXCEEDED]
                [if negative then ''sandbox runtime inputs must be non-negative''
                 else ''sandbox runtime '' @ n r @ ''ms exceeds maxRuntimeMs '' @ n m @ ''ms'']
         else if 0 < a \<and> a < r
         then decide BudgetNeedsDecision [SANDBOX_RUNTIME_APPROVAL_REQUIRED]
                [''sandbox runtime '' @ n r @ ''ms requires approval above '' @ n a @ ''ms'']
         else decide BudgetAllowed [] [])"

section \<open>What the gates decide\<close>

definition within_budget :: "budget \<Rightarrow> normal_usage \<Rightarrow> bool" where
  "within_budget b u \<longleftrightarrow> \<not> num_gt (Fin (usageCost u)) (maxUsd b) \<and> nu_inputTokens u \<le> int (maxInputTokens b)
     \<and> nu_outputTokens u \<le> int (maxOutputTokens b) \<and> nu_modelCalls u \<le> int (maxModelCalls b)
     \<and> nu_runtimeMs u \<le> int (maxRuntimeMs b) \<and> nu_healingAttempts u \<le> int (maxHealingAttempts b)
     \<and> (\<forall>p. nu_provider u = Some p \<longrightarrow> p = [] \<or> allowedProviders b = [] \<or> p \<in> set (allowedProviders b))"

lemma hardLimitReasons_Nil: "hardLimitReasons numStr b u = [] \<longleftrightarrow> within_budget b u"
  by (auto simp: hardLimitReasons_def within_budget_def Let_def split: option.splits if_splits)

text \<open>
  A run's usage is denied exactly when it exceeds one of the limits of its budget or uses a provider
  the budget does not list; otherwise a decision is asked for exactly when its cost is above the approval
  threshold, where a threshold of 0 asks for none. A refusal always says why.
\<close>

lemma budget_gate_exact:
  "(bd_status (evaluateBudget numStr r usage) = BudgetDenied \<longleftrightarrow> \<not> within_budget (run_budget r) (normalizeUsage r usage))
     \<and> (bd_status (evaluateBudget numStr r usage) = BudgetNeedsDecision \<longleftrightarrow>
          within_budget (run_budget r) (normalizeUsage r usage)
          \<and> num_gt (approvalRequiredAboveUsd (run_budget r)) (Fin 0)
          \<and> num_gt (Fin (usageCost (normalizeUsage r usage))) (approvalRequiredAboveUsd (run_budget r)))
     \<and> (bd_status (evaluateBudget numStr r usage) = BudgetAllowed \<longleftrightarrow> bd_reasons (evaluateBudget numStr r usage) = [])"
  using hardLimitReasons_Nil [of numStr "run_budget r" "normalizeUsage r usage"]
  by (auto simp: evaluateBudget_def approvalReasonsFor_def Let_def)

text \<open>
  A sequence of provider calls, each gated on what was spent before it: a call whose check allows it adds
  its estimate, any other is not made.
\<close>

fun gated_calls :: "(jsnum \<Rightarrow> string) \<Rightarrow> run \<Rightarrow> (rat \<times> nat) list \<Rightarrow> rat \<times> nat \<Rightarrow> rat \<times> nat" where
  "gated_calls numStr r [] spent = spent"
| "gated_calls numStr r ((usd, calls) # rest) (spentUsd, spentCalls) =
     (let acc = \<lparr>bp_estimatedUsd = JNum (Fin spentUsd), bp_modelCalls = JNum (Fin (of_nat spentCalls))\<rparr>;
          nxt = \<lparr>bp_estimatedUsd = JNum (Fin usd), bp_modelCalls = JNum (Fin (of_nat calls))\<rparr>
      in if bd_status (enforceMaxPerRunBudget numStr r acc nxt) = BudgetAllowed
         then gated_calls numStr r rest (spentUsd + usd, spentCalls + calls)
         else gated_calls numStr r rest (spentUsd, spentCalls))"

lemma enforce_allowed:
  assumes "0 \<le> a" and "0 \<le> c"
  shows "bd_status (enforceMaxPerRunBudget numStr r \<lparr>bp_estimatedUsd = JNum (Fin a), bp_modelCalls = JNum (Fin (of_nat m))\<rparr>
       \<lparr>bp_estimatedUsd = JNum (Fin c), bp_modelCalls = JNum (Fin (of_nat k))\<rparr>) = BudgetAllowed
     \<longleftrightarrow> \<not> num_gt (Fin (a + c)) (maxUsd (run_budget r)) \<and> m + k \<le> maxModelCalls (run_budget r)"
proof -
  have trunc: "math_trunc (of_nat n) = int n" for n using math_trunc_of_int [of "int n"] by simp
  have "projectedModelCalls \<lparr>bp_estimatedUsd = x, bp_modelCalls = JNum (Fin (of_nat m))\<rparr> \<lparr>bp_estimatedUsd = y, bp_modelCalls = JNum (Fin (of_nat k))\<rparr>
      = int (m + k)" for x y
    by (simp add: projectedModelCalls_def nonNegativeIntFrom_def trunc)
  with assms show ?thesis by (auto simp: enforceMaxPerRunBudget_def Let_def projectedUsd_def)
qed

text \<open>
  However many provider calls are attempted, the calls that pass the check before them never take
  the run above its cost limit or its limit of model calls.
\<close>

lemma gated_calls_within_budget:
  assumes "\<not> num_gt (Fin usd0) (maxUsd (run_budget r))" and "calls0 \<le> maxModelCalls (run_budget r)" and "0 \<le> usd0"
    and "\<forall>c \<in> set requests. 0 \<le> fst c" and "gated_calls numStr r requests (usd0, calls0) = (usd, calls)"
  shows "\<not> num_gt (Fin usd) (maxUsd (run_budget r)) \<and> calls \<le> maxModelCalls (run_budget r) \<and> usd0 \<le> usd \<and> calls0 \<le> calls"
  using assms
proof (induction requests arbitrary: usd0 calls0)
  case Nil
  then show ?case by simp
next
  case (Cons c rest)
  obtain u k where c: "c = (u, k)" by force
  show ?case
  proof (cases "\<not> num_gt (Fin (usd0 + u)) (maxUsd (run_budget r)) \<and> calls0 + k \<le> maxModelCalls (run_budget r)")
    case True
    then have "gated_calls numStr r rest (usd0 + u, calls0 + k) = (usd, calls)"
      using Cons.prems c by (simp add: Let_def enforce_allowed)
    with Cons.IH [of "usd0 + u" "calls0 + k"] Cons.prems True c show ?thesis by auto
  next
    case False
    then have "gated_calls numStr r rest (usd0, calls0) = (usd, calls)"
      using Cons.prems c by (auto simp: Let_def enforce_allowed)
    with Cons.IH [of usd0 calls0] Cons.prems show ?thesis by simp
  qed
qed

end
