(* ===== verification/Budget_Approvals.thy ===== *)
theory Budget_Approvals
  imports Budget_Gate
begin

text \<open>
  The registry of budget approvals in \<open>src/security/budget.ts\<close>: requests, decisions, and callers that wait
  for a decision with a timer. The registry is a state machine whose steps are the calls and the firing
  of timers, in any order. Identifiers and clock readings are arguments; a new identifier is one the
  registry has not given out (the source draws them at random).

  A call of \<open>waitForDecision\<close> that has to wait is a numbered waiter; the promise it returned is resolved
  when the waiter has an entry in \<open>ar_answers\<close>. A timer that was cleared cannot fire.
\<close>

section \<open>The registry\<close>

datatype approval_status = Pending | ApprovalApproved | ApprovalDenied

datatype answer = AnsApproved | AnsDenied | AnsTimeout

datatype decision_input = DecideApproved | DecideDenied

fun statusOf :: "decision_input \<Rightarrow> approval_status" where
  "statusOf DecideApproved = ApprovalApproved"
| "statusOf DecideDenied = ApprovalDenied"

fun answerOf :: "decision_input \<Rightarrow> answer" where
  "answerOf DecideApproved = AnsApproved"
| "answerOf DecideDenied = AnsDenied"

record approval_request =
  aq_id :: string
  aq_runId :: string
  aq_reasons :: "string list"
  aq_usage :: normal_usage
  aq_status :: approval_status
  aq_decidedBy :: "string option"
  aq_decidedAt :: "string option"
  aq_createdAt :: string

record approval_registry =
  ar_approvals :: "(string, approval_request) js_map"
  ar_resolvers :: "(string, nat list) js_map"
  ar_timers :: "(nat \<times> string) list"
  ar_answers :: "(nat \<times> string \<times> answer) list"
  ar_waiters :: nat

definition empty_registry :: approval_registry where
  "empty_registry = \<lparr>ar_approvals = [], ar_resolvers = [], ar_timers = [], ar_answers = [], ar_waiters = 0\<rparr>"

definition createApproval :: "string \<Rightarrow> string \<Rightarrow> string \<Rightarrow> string list \<Rightarrow> normal_usage \<Rightarrow> approval_registry \<Rightarrow> approval_registry" where
  "createApproval ident now runId reasons usage reg =
     reg\<lparr>ar_approvals := js_set ident \<lparr>aq_id = ident, aq_runId = runId, aq_reasons = reasons, aq_usage = usage, aq_status = Pending,
          aq_decidedBy = None, aq_decidedAt = None, aq_createdAt = now\<rparr> (ar_approvals reg)\<rparr>"

text \<open>Resolving a waiter clears its timer.\<close>

definition resolveWaiter :: "string \<Rightarrow> answer \<Rightarrow> nat \<Rightarrow> approval_registry \<Rightarrow> approval_registry" where
  "resolveWaiter ident ans w reg =
     reg\<lparr>ar_timers := filter (\<lambda>(v, i). v \<noteq> w) (ar_timers reg), ar_answers := ar_answers reg @ [(w, ident, ans)]\<rparr>"

definition recordDecision ::
  "string \<Rightarrow> string \<Rightarrow> decision_input \<Rightarrow> string option \<Rightarrow> approval_registry \<Rightarrow> approval_request option \<times> approval_registry" where
  "recordDecision ident now decision decidedBy reg =
     (case js_get (ar_approvals reg) ident of
        None \<Rightarrow> (None, reg)
      | Some request \<Rightarrow>
          if aq_status request \<noteq> Pending then (Some request, reg)
          else let request1 = request\<lparr>aq_status := statusOf decision,
                     aq_decidedBy := Some (case decidedBy of None \<Rightarrow> ''unknown'' | Some d \<Rightarrow> d), aq_decidedAt := Some now\<rparr>;
                   reg1 = reg\<lparr>ar_approvals := js_set ident request1 (ar_approvals reg)\<rparr>
               in (Some request1,
                   case js_get (ar_resolvers reg1) ident of
                     None \<Rightarrow> reg1
                   | Some ws \<Rightarrow> let reg2 = fold (resolveWaiter ident (answerOf decision)) ws reg1
                               in reg2\<lparr>ar_resolvers := js_delete ident (ar_resolvers reg2)\<rparr>))"

definition getApproval :: "string \<Rightarrow> approval_registry \<Rightarrow> approval_request option" where
  "getApproval ident reg = js_get (ar_approvals reg) ident"

definition listPendingApprovals :: "approval_registry \<Rightarrow> approval_request list" where
  "listPendingApprovals reg = filter (\<lambda>r. aq_status r = Pending) (js_values (ar_approvals reg))"

datatype wait_outcome = Immediately answer | Waiting nat

definition waitForDecision :: "string \<Rightarrow> approval_registry \<Rightarrow> wait_outcome \<times> approval_registry" where
  "waitForDecision ident reg =
     (case js_get (ar_approvals reg) ident of
        None \<Rightarrow> (Immediately AnsTimeout, reg)
      | Some request \<Rightarrow>
          (case aq_status request of
             ApprovalApproved \<Rightarrow> (Immediately AnsApproved, reg)
           | ApprovalDenied \<Rightarrow> (Immediately AnsDenied, reg)
           | Pending \<Rightarrow>
               let w = ar_waiters reg;
                   ws = (case js_get (ar_resolvers reg) ident of None \<Rightarrow> [] | Some ws \<Rightarrow> ws)
               in (Waiting w, reg\<lparr>ar_resolvers := js_set ident (js_add w ws) (ar_resolvers reg),
                                  ar_timers := ar_timers reg @ [(w, ident)], ar_waiters := w + 1\<rparr>)))"

text \<open>The callback of an armed timer.\<close>

definition timerFires :: "nat \<Rightarrow> string \<Rightarrow> string \<Rightarrow> approval_registry \<Rightarrow> approval_registry" where
  "timerFires w ident now reg =
     (let resolvers = (case js_get (ar_resolvers reg) ident of
                         None \<Rightarrow> ar_resolvers reg
                       | Some ws \<Rightarrow> let rest = removeAll w ws
                                   in if rest = [] then js_delete ident (ar_resolvers reg) else js_set ident rest (ar_resolvers reg));
          approvals = (case js_get (ar_approvals reg) ident of
                         None \<Rightarrow> ar_approvals reg
                       | Some request \<Rightarrow>
                           if aq_status request = Pending
                           then js_set ident (request\<lparr>aq_status := ApprovalDenied, aq_decidedBy := Some ''timeout'', aq_decidedAt := Some now\<rparr>)
                                  (ar_approvals reg)
                           else ar_approvals reg)
      in resolveWaiter ident AnsTimeout w (reg\<lparr>ar_resolvers := resolvers, ar_approvals := approvals\<rparr>))"

section \<open>Steps\<close>

inductive registry_step :: "approval_registry \<Rightarrow> approval_registry \<Rightarrow> bool" where
  create: "getApproval ident reg = None \<Longrightarrow> registry_step reg (createApproval ident now runId reasons usage reg)"
| decide: "registry_step reg (snd (recordDecision ident now decision decidedBy reg))"
| wait: "registry_step reg (snd (waitForDecision ident reg))"
| fire: "(w, ident) \<in> set (ar_timers reg) \<Longrightarrow> registry_step reg (timerFires w ident now reg)"

abbreviation registry_steps :: "approval_registry \<Rightarrow> approval_registry \<Rightarrow> bool" where
  "registry_steps \<equiv> registry_step\<^sup>*\<^sup>*"

inductive_cases registry_stepE: "registry_step reg reg'"

text \<open>The decision on a request, once there is one.\<close>

definition decided :: "approval_registry \<Rightarrow> string \<Rightarrow> approval_status \<Rightarrow> bool" where
  "decided reg ident s \<longleftrightarrow> (\<exists>r. getApproval ident reg = Some r \<and> aq_status r = s) \<and> s \<noteq> Pending"

definition waiting_on :: "approval_registry \<Rightarrow> string \<Rightarrow> nat set" where
  "waiting_on reg ident = (case js_get (ar_resolvers reg) ident of None \<Rightarrow> {} | Some ws \<Rightarrow> set ws)"

text \<open>
  The invariant. Waiters are those in the lists of resolvers, which are exactly those with an armed
  timer; every waiter that was given out waits or has one answer; nobody waits on an approved request;
  and the answers given agree with the decisions.
\<close>

definition registry_inv :: "approval_registry \<Rightarrow> bool" where
  "registry_inv reg \<longleftrightarrow>
     (\<forall>ident w. w \<in> waiting_on reg ident \<longleftrightarrow> (w, ident) \<in> set (ar_timers reg))
     \<and> (\<forall>ident ws. js_get (ar_resolvers reg) ident = Some ws \<longrightarrow> distinct ws)
     \<and> distinct (map fst (ar_timers reg) @ map fst (ar_answers reg))
     \<and> set (map fst (ar_timers reg) @ map fst (ar_answers reg)) = {..<ar_waiters reg}
     \<and> (\<forall>ident w. (w, ident) \<in> set (ar_timers reg) \<longrightarrow> (\<exists>r. getApproval ident reg = Some r \<and> aq_status r \<noteq> ApprovalApproved))
     \<and> (\<forall>w ident a. (w, ident, a) \<in> set (ar_answers reg) \<longrightarrow>
          decided reg ident (if a = AnsApproved then ApprovalApproved else ApprovalDenied))"

lemma registry_inv_empty: "registry_inv empty_registry"
  by (simp add: registry_inv_def empty_registry_def waiting_on_def)

lemma fold_resolveWaiter:
  "fold (resolveWaiter ident a) ws reg =
     reg\<lparr>ar_timers := filter (\<lambda>t. fst t \<notin> set ws) (ar_timers reg), ar_answers := ar_answers reg @ map (\<lambda>w. (w, ident, a)) ws\<rparr>"
  by (induction ws arbitrary: reg) (simp_all add: resolveWaiter_def case_prod_beta conj_commute)

lemma decided_mono:
  assumes "\<And>r. getApproval ident reg = Some r \<Longrightarrow> aq_status r \<noteq> Pending \<Longrightarrow> \<exists>r'. getApproval ident reg' = Some r' \<and> aq_status r' = aq_status r"
  shows "decided reg ident s \<Longrightarrow> decided reg' ident s"
  using assms by (fastforce simp: decided_def)

text \<open>No step changes a decision.\<close>

lemma step_keeps_decisions: "registry_step reg reg' \<Longrightarrow> decided reg ident s \<Longrightarrow> decided reg' ident s"
proof (induction rule: registry_step.induct)
  case (create ident' reg now runId reasons usage)
  then show ?case by (auto simp: decided_def getApproval_def createApproval_def)
next
  case (decide reg ident' now decision decidedBy)
  then show ?case
    by (auto simp: decided_def getApproval_def recordDecision_def Let_def fold_resolveWaiter split: option.splits)
next
  case (wait reg ident')
  then show ?case
    by (auto simp: decided_def getApproval_def waitForDecision_def Let_def split: option.splits approval_status.splits)
next
  case (fire w ident' reg now)
  then show ?case
    by (auto simp: decided_def getApproval_def timerFires_def resolveWaiter_def Let_def split: option.splits)
qed

lemma steps_keep_decisions: "registry_steps reg reg' \<Longrightarrow> decided reg ident s \<Longrightarrow> decided reg' ident s"
  by (induction rule: rtranclp_induct) (auto intro: step_keeps_decisions)

lemma waiting_on_simps:
  "waiting_on (reg\<lparr>ar_resolvers := js_set ident ws m\<rparr>) i = (if i = ident then set ws else waiting_on (reg\<lparr>ar_resolvers := m\<rparr>) i)"
  "waiting_on (reg\<lparr>ar_resolvers := js_delete ident m\<rparr>) i = (if i = ident then {} else waiting_on (reg\<lparr>ar_resolvers := m\<rparr>) i)"
  by (simp_all add: waiting_on_def)

lemma create_inv:
  assumes "registry_inv reg" and "getApproval ident reg = None"
  shows "registry_inv (createApproval ident now runId reasons usage reg)"
proof -
  let ?reg' = "createApproval ident now runId reasons usage reg"
  have get: "getApproval i ?reg' = (if i = ident then Some \<lparr>aq_id = ident, aq_runId = runId, aq_reasons = reasons, aq_usage = usage,
      aq_status = Pending, aq_decidedBy = None, aq_decidedAt = None, aq_createdAt = now\<rparr> else getApproval i reg)" for i
    by (simp add: getApproval_def createApproval_def)
  have same: "ar_timers ?reg' = ar_timers reg" "ar_answers ?reg' = ar_answers reg" "ar_waiters ?reg' = ar_waiters reg"
    "ar_resolvers ?reg' = ar_resolvers reg" "waiting_on ?reg' i = waiting_on reg i" for i
    by (simp_all add: createApproval_def waiting_on_def)
  have dec: "decided reg i s \<Longrightarrow> decided ?reg' i s" for i s
    using assms(2) get by (auto simp: decided_def)
  show ?thesis
    using assms(1) dec unfolding registry_inv_def same get by auto
qed

lemma wait_inv:
  assumes inv: "registry_inv reg"
  shows "registry_inv (snd (waitForDecision ident reg))"
proof (cases "\<exists>r. js_get (ar_approvals reg) ident = Some r \<and> aq_status r = Pending")
  case False
  then show ?thesis using inv by (auto simp: waitForDecision_def split: option.splits approval_status.splits)
next
  case True
  then obtain r where r: "js_get (ar_approvals reg) ident = Some r" "aq_status r = Pending" by blast
  let ?w = "ar_waiters reg"
  let ?ws = "case js_get (ar_resolvers reg) ident of None \<Rightarrow> [] | Some ws \<Rightarrow> ws"
  let ?reg' = "reg\<lparr>ar_resolvers := js_set ident (js_add ?w ?ws) (ar_resolvers reg), ar_timers := ar_timers reg @ [(?w, ident)], ar_waiters := ?w + 1\<rparr>"
  have eq: "snd (waitForDecision ident reg) = ?reg'" using r by (simp add: waitForDecision_def Let_def)
  have ws: "set ?ws = waiting_on reg ident" by (simp add: waiting_on_def split: option.split)
  have waiting: "waiting_on ?reg' i = (if i = ident then insert ?w (waiting_on reg i) else waiting_on reg i)" for i
    by (cases "js_get (ar_resolvers reg) ident") (simp_all add: waiting_on_def)
  have fresh: "?w \<notin> fst ` set (ar_timers reg)" "?w \<notin> fst ` set (ar_answers reg)"
    using inv unfolding registry_inv_def by auto
  have dist: "distinct (js_add ?w ?ws)"
    using inv unfolding registry_inv_def by (auto intro!: distinct_js_add split: option.split)
  have dec: "decided ?reg' i s \<longleftrightarrow> decided reg i s" for i s by (simp add: decided_def getApproval_def)
  show ?thesis
    unfolding eq registry_inv_def waiting dec
  proof (intro conjI allI)
    fix i v
    show "(v \<in> (if i = ident then insert ?w (waiting_on reg i) else waiting_on reg i)) \<longleftrightarrow> (v, i) \<in> set (ar_timers ?reg')"
      using inv unfolding registry_inv_def by auto
  next
    fix i us
    show "js_get (ar_resolvers ?reg') i = Some us \<longrightarrow> distinct us"
      using inv dist unfolding registry_inv_def by auto
  next
    show "distinct (map fst (ar_timers ?reg') @ map fst (ar_answers ?reg'))"
      using inv fresh unfolding registry_inv_def by auto
    have "set (map fst (ar_timers reg) @ map fst (ar_answers reg)) = {..<?w}" using inv unfolding registry_inv_def by blast
    then show "set (map fst (ar_timers ?reg') @ map fst (ar_answers ?reg')) = {..<ar_waiters ?reg'}"
      by (auto simp: lessThan_Suc)
  next
    fix i v
    show "(v, i) \<in> set (ar_timers ?reg') \<longrightarrow> (\<exists>r. getApproval i ?reg' = Some r \<and> aq_status r \<noteq> ApprovalApproved)"
      using inv r unfolding registry_inv_def by (auto simp: getApproval_def)
  next
    fix v i a
    show "(v, i, a) \<in> set (ar_answers ?reg') \<longrightarrow> decided reg i (if a = AnsApproved then ApprovalApproved else ApprovalDenied)"
      using inv unfolding registry_inv_def by auto
  qed
qed

text \<open>
  Deciding and timing out both answer a set of waiters: they leave the lists of their request, their timers go,
  and the request is decided. The common part, for a decision that fits the answer:
\<close>

lemma answer_inv:
  assumes inv: "registry_inv reg" and r: "getApproval ident reg = Some r"
    and ws: "distinct ws" "set ws \<subseteq> waiting_on reg ident"
    and app: "ar_approvals reg' = js_set ident r' (ar_approvals reg)"
    and kept: "aq_status r \<noteq> Pending \<Longrightarrow> aq_status r' = aq_status r"
    and fits: "aq_status r' = (if a = AnsApproved then ApprovalApproved else ApprovalDenied)"
    and none: "aq_status r' = ApprovalApproved \<Longrightarrow> waiting_on reg ident = set ws"
    and waiting: "\<And>i. waiting_on reg' i = (if i = ident then waiting_on reg i - set ws else waiting_on reg i)"
    and lists: "\<And>i us. js_get (ar_resolvers reg') i = Some us \<Longrightarrow> distinct us"
    and timers: "ar_timers reg' = filter (\<lambda>t. fst t \<notin> set ws) (ar_timers reg)"
    and answers: "ar_answers reg' = ar_answers reg @ map (\<lambda>w. (w, ident, a)) ws" and n: "ar_waiters reg' = ar_waiters reg"
  shows "registry_inv reg'"
proof -
  have get: "getApproval i reg' = (if i = ident then Some r' else getApproval i reg)" for i by (simp add: getApproval_def app)
  have dist: "distinct (map fst (ar_timers reg) @ map fst (ar_answers reg))"
    and all: "set (map fst (ar_timers reg) @ map fst (ar_answers reg)) = {..<ar_waiters reg}"
    and wt: "\<And>i w. w \<in> waiting_on reg i \<longleftrightarrow> (w, i) \<in> set (ar_timers reg)"
    using inv unfolding registry_inv_def by blast+
  have one: "i = ident" if "(w, i) \<in> set (ar_timers reg)" "w \<in> set ws" for i w
  proof -
    have "(w, ident) \<in> set (ar_timers reg)" using that ws(2) wt by blast
    with that dist show ?thesis by (auto dest: eq_key_imp_eq_value)
  qed
  have ws_timers: "set ws \<subseteq> fst ` set (ar_timers reg)"
  proof
    fix w assume "w \<in> set ws"
    then have "(w, ident) \<in> set (ar_timers reg)" using ws(2) wt by blast
    then show "w \<in> fst ` set (ar_timers reg)" by force
  qed
  show ?thesis
    unfolding registry_inv_def
  proof (intro conjI allI impI)
    fix i w
    show "w \<in> waiting_on reg' i \<longleftrightarrow> (w, i) \<in> set (ar_timers reg')" using one wt by (auto simp: waiting timers)
  next
    fix i us assume "js_get (ar_resolvers reg') i = Some us"
    then show "distinct us" by (rule lists)
  next
    have "distinct (map fst (filter (\<lambda>t. fst t \<notin> set ws) (ar_timers reg)))" using dist by (simp add: distinct_map_filter)
    then show "distinct (map fst (ar_timers reg') @ map fst (ar_answers reg'))"
      using dist ws(1) ws_timers by (auto simp: timers answers comp_def)
    show "set (map fst (ar_timers reg') @ map fst (ar_answers reg')) = {..<ar_waiters reg'}"
      unfolding n all [symmetric] using ws_timers by (auto simp: timers answers image_iff)
  next
    fix i w assume t: "(w, i) \<in> set (ar_timers reg')"
    then have "(w, i) \<in> set (ar_timers reg)" "w \<notin> set ws" by (auto simp: timers)
    moreover from this have "aq_status r' \<noteq> ApprovalApproved" if "i = ident" using none wt that by blast
    ultimately show "\<exists>r. getApproval i reg' = Some r \<and> aq_status r \<noteq> ApprovalApproved"
      using inv unfolding registry_inv_def get by auto
  next
    fix w i b assume "(w, i, b) \<in> set (ar_answers reg')"
    then consider "(w, i, b) \<in> set (ar_answers reg)" | "i = ident" "b = a" by (auto simp: answers)
    then show "decided reg' i (if b = AnsApproved then ApprovalApproved else ApprovalDenied)"
    proof cases
      case 1
      then have "decided reg i (if b = AnsApproved then ApprovalApproved else ApprovalDenied)"
        using inv unfolding registry_inv_def by blast
      then show ?thesis using r kept by (auto simp: decided_def get)
    next
      case 2
      then show ?thesis using fits by (auto simp: decided_def get)
    qed
  qed
qed

lemma decide_inv:
  assumes inv: "registry_inv reg"
  shows "registry_inv (snd (recordDecision ident now decision decidedBy reg))"
proof (cases "\<exists>r. js_get (ar_approvals reg) ident = Some r \<and> aq_status r = Pending")
  case False
  then show ?thesis using inv by (auto simp: recordDecision_def Let_def split: option.splits)
next
  case True
  then obtain r where r: "js_get (ar_approvals reg) ident = Some r" "aq_status r = Pending" by blast
  let ?r' = "r\<lparr>aq_status := statusOf decision, aq_decidedBy := Some (case decidedBy of None \<Rightarrow> ''unknown'' | Some d \<Rightarrow> d), aq_decidedAt := Some now\<rparr>"
  let ?ws = "case js_get (ar_resolvers reg) ident of None \<Rightarrow> [] | Some ws \<Rightarrow> ws"
  let ?reg' = "snd (recordDecision ident now decision decidedBy reg)"
  have ws: "set ?ws = waiting_on reg ident" by (simp add: waiting_on_def split: option.split)
  have eq: "?reg' = (let reg1 = reg\<lparr>ar_approvals := js_set ident ?r' (ar_approvals reg)\<rparr> in
      case js_get (ar_resolvers reg) ident of None \<Rightarrow> reg1
      | Some ws \<Rightarrow> reg1\<lparr>ar_timers := filter (\<lambda>t. fst t \<notin> set ws) (ar_timers reg),
                       ar_answers := ar_answers reg @ map (\<lambda>w. (w, ident, answerOf decision)) ws,
                       ar_resolvers := js_delete ident (ar_resolvers reg)\<rparr>)"
    using r by (simp add: recordDecision_def Let_def fold_resolveWaiter split: option.split)
  show ?thesis
  proof (rule answer_inv [OF inv, where ident = ident and r = r and ws = ?ws and a = "answerOf decision" and r' = ?r'])
    show "getApproval ident reg = Some r" using r by (simp add: getApproval_def)
    show "distinct ?ws" using inv unfolding registry_inv_def by (auto split: option.split)
    show "set ?ws \<subseteq> waiting_on reg ident" "waiting_on reg ident = set ?ws" using ws by simp_all
    show "aq_status ?r' = (if answerOf decision = AnsApproved then ApprovalApproved else ApprovalDenied)" by (cases decision) simp_all
    show "ar_timers ?reg' = filter (\<lambda>t. fst t \<notin> set ?ws) (ar_timers reg)"
      unfolding eq by (simp add: Let_def split: option.split)
    show "waiting_on ?reg' i = (if i = ident then waiting_on reg i - set ?ws else waiting_on reg i)" for i
      unfolding eq ws by (auto simp: Let_def waiting_on_def split: option.split)
    show "js_get (ar_resolvers ?reg') i = Some us \<Longrightarrow> distinct us" for i us
      using inv unfolding eq registry_inv_def by (auto simp: Let_def split: option.splits if_splits)
  qed (use r in \<open>simp_all add: eq Let_def split: option.split\<close>)
qed

lemma fire_inv:
  assumes inv: "registry_inv reg" and w: "(w, ident) \<in> set (ar_timers reg)"
  shows "registry_inv (timerFires w ident now reg)"
proof -
  obtain r where r: "getApproval ident reg = Some r" "aq_status r \<noteq> ApprovalApproved"
    using inv w unfolding registry_inv_def by blast
  have ww: "w \<in> waiting_on reg ident" using inv w unfolding registry_inv_def by blast
  then obtain us where us: "js_get (ar_resolvers reg) ident = Some us" "w \<in> set us" by (auto simp: waiting_on_def split: option.splits)
  let ?r' = "if aq_status r = Pending then r\<lparr>aq_status := ApprovalDenied, aq_decidedBy := Some ''timeout'', aq_decidedAt := Some now\<rparr> else r"
  let ?reg' = "timerFires w ident now reg"
  have get: "js_get (ar_approvals reg) ident = Some r" using r by (simp add: getApproval_def)
  have same: "js_get (js_set ident r m) = js_get m" if "js_get m ident = Some r" for m :: "(string, approval_request) js_map"
    using that by (auto simp: fun_eq_iff)
  show ?thesis
  proof (rule answer_inv [OF inv r(1), where ws = "[w]" and a = AnsTimeout and r' = ?r'])
    show "ar_approvals ?reg' = js_set ident ?r' (ar_approvals reg)"
      using get update_Some_unfold by (auto simp: timerFires_def Let_def resolveWaiter_def update_triv)
    show "aq_status ?r' = (if AnsTimeout = AnsApproved then ApprovalApproved else ApprovalDenied)"
      using r(2) by (cases "aq_status r") simp_all
    show "aq_status ?r' = ApprovalApproved \<Longrightarrow> waiting_on reg ident = set [w]" using r(2) by (cases "aq_status r") simp_all
    show "ar_timers ?reg' = filter (\<lambda>t. fst t \<notin> set [w]) (ar_timers reg)"
      by (auto simp: timerFires_def Let_def resolveWaiter_def intro: filter_cong)
    show "waiting_on ?reg' i = (if i = ident then waiting_on reg i - set [w] else waiting_on reg i)" for i
    proof -
      have "removeAll w us = [] \<longleftrightarrow> set us - {w} = {}" by (metis set_empty set_removeAll)
      with us show ?thesis by (auto simp: timerFires_def Let_def resolveWaiter_def waiting_on_def)
    qed
    show "js_get (ar_resolvers ?reg') i = Some vs \<Longrightarrow> distinct vs" for i vs
      using inv us unfolding registry_inv_def
      by (auto simp: timerFires_def Let_def resolveWaiter_def distinct_removeAll split: if_splits)
  qed (use ww in \<open>simp_all add: timerFires_def Let_def resolveWaiter_def\<close>)
qed

lemma step_inv: "registry_step reg reg' \<Longrightarrow> registry_inv reg \<Longrightarrow> registry_inv reg'"
  by (induction rule: registry_step.induct) (auto intro: create_inv decide_inv wait_inv fire_inv)

lemma reachable_inv: "registry_steps empty_registry reg \<Longrightarrow> registry_inv reg"
  by (induction rule: rtranclp_induct) (auto intro: registry_inv_empty step_inv)

section \<open>Properties\<close>

definition sample_usage :: normal_usage where
  "sample_usage = \<lparr>nu_estimatedUsd = 1, nu_actualUsd = 0, nu_inputTokens = 0, nu_outputTokens = 0, nu_modelCalls = 0,
     nu_runtimeMs = 0, nu_healingAttempts = 0, nu_provider = None\<rparr>"

definition sample_registry :: approval_registry where
  "sample_registry = snd (recordDecision ''x'' ''now'' DecideApproved None (snd (waitForDecision ''x''
     (createApproval ''x'' ''now'' ''r'' [''why''] sample_usage empty_registry))))"

lemma sample_registry_reachable: "registry_steps empty_registry sample_registry"
proof -
  let ?a = "createApproval ''x'' ''now'' ''r'' [''why''] sample_usage empty_registry"
  have "registry_step empty_registry ?a" by (rule registry_step.create) (simp add: getApproval_def empty_registry_def)
  moreover have "registry_step ?a (snd (waitForDecision ''x'' ?a))" by (rule registry_step.wait)
  moreover have "registry_step (snd (waitForDecision ''x'' ?a)) sample_registry"
    unfolding sample_registry_def by (rule registry_step.decide)
  ultimately show ?thesis by (meson converse_rtranclp_into_rtranclp rtranclp.rtrancl_refl)
qed

lemma sample_registry_answers: "ar_answers sample_registry = [(0, ''x'', AnsApproved)]"
  by code_simp

text \<open>
  C21: In every interleaving of requests, decisions, waits and timeouts, a caller that waited for a budget
  decision gets at most one answer; it is told \<open>approved\<close> only if the request is approved, and told
  \<open>denied\<close> or \<open>timeout\<close> only if the request is denied, and the decision never changes afterwards. Every
  caller still without an answer has an armed timer.
\<close>

theorem approval_answers_agree:
  assumes "registry_steps empty_registry reg" and "registry_steps reg reg'" and "(w, ident, a) \<in> set (ar_answers reg)"
  shows "(\<exists>r. getApproval ident reg' = Some r \<and> aq_status r = (if a = AnsApproved then ApprovalApproved else ApprovalDenied))
     \<and> (\<forall>i b. (w, i, b) \<in> set (ar_answers reg) \<longrightarrow> i = ident \<and> b = a)
     \<and> (\<forall>v < ar_waiters reg. (\<exists>i. (v, i) \<in> set (ar_timers reg)) \<or> (\<exists>i b. (v, i, b) \<in> set (ar_answers reg)))"
proof -
  have inv: "registry_inv reg" using assms(1) by (rule reachable_inv)
  then have "decided reg ident (if a = AnsApproved then ApprovalApproved else ApprovalDenied)"
    using assms(3) unfolding registry_inv_def by blast
  from steps_keep_decisions [OF assms(2) this]
  have "\<exists>r. getApproval ident reg' = Some r \<and> aq_status r = (if a = AnsApproved then ApprovalApproved else ApprovalDenied)"
    by (simp add: decided_def)
  moreover have "distinct (map fst (ar_answers reg))" using inv unfolding registry_inv_def by simp
  then have "\<forall>i b. (w, i, b) \<in> set (ar_answers reg) \<longrightarrow> i = ident \<and> b = a"
    using assms(3) by (auto dest: eq_key_imp_eq_value)
  moreover have "\<forall>v < ar_waiters reg. (\<exists>i. (v, i) \<in> set (ar_timers reg)) \<or> (\<exists>i b. (v, i, b) \<in> set (ar_answers reg))"
  proof (intro allI impI)
    fix v assume "v < ar_waiters reg"
    then have "v \<in> set (map fst (ar_timers reg) @ map fst (ar_answers reg))" using inv unfolding registry_inv_def by blast
    then show "(\<exists>i. (v, i) \<in> set (ar_timers reg)) \<or> (\<exists>i b. (v, i, b) \<in> set (ar_answers reg))" by auto
  qed
  ultimately show ?thesis by blast
qed

theorem approval_answers_agree_witness:
  "\<exists>r. getApproval ''x'' sample_registry = Some r \<and> aq_status r = ApprovalApproved"
  using approval_answers_agree [OF sample_registry_reachable rtranclp.rtrancl_refl, of 0 "''x''" AnsApproved]
  by (simp add: sample_registry_answers)

end
