(* ===== verification/Approval_Flow.thy ===== *)
theory Approval_Flow
  imports Run_Properties
begin

text \<open>
  The approval flow, \<open>src/api/approvalFlow.ts\<close>: an operation that needs approval is presented by
  moving its run to \<open>NEEDS_DECISION\<close>, and a recorded decision moves it on. The store operations are
  arguments, as in the state machine. \<open>clock i\<close> is what the \<open>i\<close>-th call of \<open>now\<close> returns: the first
  is the time of presentation or decision, the others are those of the transition attempts.
\<close>

section \<open>Data\<close>

datatype approval_choice = Approve | Deny

datatype recorded_choice = Recorded approval_choice | TimeoutDenied

fun choiceName :: "recorded_choice \<Rightarrow> string" where
  "choiceName (Recorded Approve) = ''approve''"
| "choiceName (Recorded Deny) = ''deny''"
| "choiceName TimeoutDenied = ''timeout-denied''"

record approval_view =
  av_runId :: string
  av_operationId :: string
  av_diff :: string
  av_command :: "string option"
  av_targetPath :: string

record pending_approval =
  pa_operationId :: string
  pa_presentedAt :: string
  pa_riskyCommand :: bool
  pa_view :: json

record approval_record =
  ar_runId :: string
  ar_operationId :: string
  ar_decision :: recorded_choice
  ar_decidedBy :: string
  ar_decidedAt :: string

datatype approval_error = RUN_NOT_FOUND | NOT_AWAITING_DECISION | OPERATION_MISMATCH | RECORD_FAILED machine_error

definition APPROVAL_DECISION_TIMEOUT_MS :: int where
  "APPROVAL_DECISION_TIMEOUT_MS = 30 * 60 * 1000"

section \<open>Presenting an operation\<close>

definition redactApprovalView :: "approval_view \<Rightarrow> approval_view" where
  "redactApprovalView v =
     v\<lparr>av_diff := redactStringOrSuppress (av_diff v), av_command := map_option redactStringOrSuppress (av_command v),
       av_targetPath := redactStringOrSuppress (av_targetPath v)\<rparr>"

text \<open>The objects as the JSON values the store and the event log keep.\<close>

definition viewJson :: "approval_view \<Rightarrow> json" where
  "viewJson v = JObj [(''runId'', JStr (av_runId v)), (''operationId'', JStr (av_operationId v)), (''diff'', JStr (av_diff v)),
     (''command'', case av_command v of None \<Rightarrow> JUndef | Some c \<Rightarrow> JStr c), (''targetPath'', JStr (av_targetPath v))]"

definition approvalRequest :: "string \<Rightarrow> string \<Rightarrow> bool \<Rightarrow> approval_view \<Rightarrow> json_record" where
  "approvalRequest operationId presentedAt risky view =
     [(''kind'', JStr ''approval''), (''operationId'', JStr operationId), (''presentedAt'', JStr presentedAt),
      (''riskyCommand'', JBool risky), (''view'', viewJson (redactApprovalView view))]"

definition recordJson :: "approval_record \<Rightarrow> json" where
  "recordJson r = JObj [(''runId'', JStr (ar_runId r)), (''operationId'', JStr (ar_operationId r)),
     (''decision'', JStr (choiceName (ar_decision r))), (''decidedBy'', JStr (ar_decidedBy r)), (''decidedAt'', JStr (ar_decidedAt r))]"

definition flow_options :: "(nat \<Rightarrow> string) \<Rightarrow> (nat \<Rightarrow> string) \<Rightarrow> transition_options" where
  "flow_options clock eventIds =
     \<lparr>to_now = (\<lambda>i. clock (Suc i)), to_eventId = eventIds, to_payload = None, to_traceId = None, to_attempts = None,
      to_healingAttempts = None, to_validationAttempts = None, to_lastError = None, to_decisionRequest = None,
      to_decision = JUndef\<rparr>"

definition presentApprovalRequest ::
  "'st get_run \<Rightarrow> 'st commit_run \<Rightarrow> (nat \<Rightarrow> 'st \<Rightarrow> 'st) \<Rightarrow> (nat \<Rightarrow> string) \<Rightarrow> (nat \<Rightarrow> string) \<Rightarrow>
   string \<Rightarrow> string \<Rightarrow> approval_view \<Rightarrow> bool \<Rightarrow> 'st \<Rightarrow> 'st \<times> (machine_error, run \<times> run_event) result" where
  "presentApprovalRequest get commit env clock eventIds runId operationId view risky st =
     createDecisionRequest get commit env runId (approvalRequest operationId (clock 0) risky view)
       (flow_options clock eventIds) st"

section \<open>Recording a decision\<close>

definition parseApprovalRequest :: "json_record \<Rightarrow> pending_approval option" where
  "parseApprovalRequest value =
     (if jfield value ''kind'' \<noteq> JStr ''approval'' then None
      else case (jfield value ''operationId'', jfield value ''presentedAt'') of
             (JStr operationId, JStr presentedAt) \<Rightarrow>
               if operationId = [] \<or> presentedAt = [] then None
               else Some \<lparr>pa_operationId = operationId, pa_presentedAt = presentedAt,
                          pa_riskyCommand = (jfield value ''riskyCommand'' = JBool True),
                          pa_view = (case jfield value ''view'' of JUndef \<Rightarrow> JObj [] | JNull \<Rightarrow> JObj [] | v \<Rightarrow> v)\<rparr>
           | _ \<Rightarrow> None)"

definition expired :: "text_env \<Rightarrow> string \<Rightarrow> string \<Rightarrow> bool" where
  "expired X presentedAt decidedAt =
     (case (dateParse X presentedAt, dateParse X decidedAt) of
        (Some presented, Some decided) \<Rightarrow> APPROVAL_DECISION_TIMEOUT_MS \<le> decided - presented
      | _ \<Rightarrow> False)"

definition resolveEffectiveDecision :: "text_env \<Rightarrow> approval_choice \<Rightarrow> string \<Rightarrow> string \<Rightarrow> recorded_choice" where
  "resolveEffectiveDecision X decision presentedAt decidedAt =
     (if expired X presentedAt decidedAt then TimeoutDenied else Recorded decision)"

definition decisionTarget :: "recorded_choice \<Rightarrow> run_phase" where
  "decisionTarget d = (if d = Recorded Approve then EXECUTING else SYNTHESIZING)"

definition approvalRecord :: "text_env \<Rightarrow> (nat \<Rightarrow> string) \<Rightarrow> string \<Rightarrow> string \<Rightarrow> approval_choice \<Rightarrow> string \<Rightarrow> pending_approval \<Rightarrow> approval_record" where
  "approvalRecord X clock runId operationId decision decidedBy request =
     \<lparr>ar_runId = runId, ar_operationId = operationId,
      ar_decision = resolveEffectiveDecision X decision (pa_presentedAt request) (clock 0),
      ar_decidedBy = decidedBy, ar_decidedAt = clock 0\<rparr>"

text \<open>
  The first read sees the store as it is when the call starts; \<open>env\<close> is what runs while the
  transition waits, from the moment that read has returned.
\<close>

definition recordApprovalDecision ::
  "'st get_run \<Rightarrow> 'st commit_run \<Rightarrow> text_env \<Rightarrow> (nat \<Rightarrow> 'st \<Rightarrow> 'st) \<Rightarrow> (nat \<Rightarrow> string) \<Rightarrow> (nat \<Rightarrow> string) \<Rightarrow>
   string \<Rightarrow> string \<Rightarrow> approval_choice \<Rightarrow> string \<Rightarrow> 'st \<Rightarrow> 'st \<times> (approval_error, approval_record) result" where
  "recordApprovalDecision get commit X env clock eventIds runId operationId decision decidedBy st =
     (case get runId st of
        None \<Rightarrow> (st, Inl RUN_NOT_FOUND)
      | Some run \<Rightarrow>
          if run_phase run \<noteq> NEEDS_DECISION \<or> run_decisionRequest run = None then (st, Inl NOT_AWAITING_DECISION)
          else case Option.bind (run_decisionRequest run) parseApprovalRequest of
                 None \<Rightarrow> (st, Inl OPERATION_MISMATCH)
               | Some request \<Rightarrow>
                   if pa_operationId request \<noteq> operationId then (st, Inl OPERATION_MISMATCH)
                   else let record = approvalRecord X clock runId operationId decision decidedBy request
                        in case resumeFromDecision get commit env runId (decisionTarget (ar_decision record))
                                  (recordJson record) (flow_options clock eventIds) st of
                             (st1, Inl e) \<Rightarrow> (st1, Inl (RECORD_FAILED e))
                           | (st1, Inr r) \<Rightarrow> (st1, Inr record))"

section \<open>What a recorded decision did\<close>

lemma recordJson_defined [simp]: "recordJson r \<noteq> JUndef"
  by (simp add: recordJson_def)

lemma decisionTarget_simps [simp]:
  "decisionTarget d \<noteq> NEEDS_DECISION"
  "isAllowedRunPhaseTransition NEEDS_DECISION (decisionTarget d)"
  by (simp_all add: decisionTarget_def isAllowedRunPhaseTransition_def)

lemma resume_transition:
  "resumeFromDecision get commit env rid target (recordJson r) opts st
     = transitionRun get commit env rid target (opts\<lparr>to_decision := recordJson r\<rparr>) st"
  by (simp add: resumeFromDecision_def)

lemma recordApprovalDecision_Inr:
  assumes "recordApprovalDecision get commit X env clock ids rid oid d who st = (st', Inr rec)"
  obtains run q request r e where "get rid st = Some run" and "run_phase run = NEEDS_DECISION"
    and "run_decisionRequest run = Some q" and "parseApprovalRequest q = Some request" and "pa_operationId request = oid"
    and "rec = approvalRecord X clock rid oid d who request"
    and "transitionRun get commit env rid (decisionTarget (ar_decision rec))
           ((flow_options clock ids)\<lparr>to_decision := recordJson rec\<rparr>) st = (st', Inr (r, e))"
  using assms
  by (auto simp: recordApprovalDecision_def Let_def resume_transition Option.bind_eq_Some_conv
      split: option.splits if_splits prod.splits sum.splits)

lemma clean_payload_get: "map_of p k = Some v \<Longrightarrow> v \<noteq> JUndef \<Longrightarrow> map_of (cleanPayload p) k = Some v"
  by (induction p) (auto simp: cleanPayload_def split: if_splits)

lemma decision_payload:
  assumes "to_decision opts = JObj d" and "to_lastError opts = None"
  shows "map_of (cleanPayload (redactRecord (transition_payload f t opts))) ''decision'' = Some (redactEntry ''decision'' (JObj d))"
proof -
  have "map_of (transition_payload f t opts) ''decision'' = Some (JObj d)"
    using assms by (simp add: transition_payload_def Let_def)
  then have "map_of (redactRecord (transition_payload f t opts)) ''decision'' = Some (redactEntry ''decision'' (JObj d))"
    by (simp only: redactRecord_get option.map)
  moreover have "redactEntry ''decision'' (JObj d) \<noteq> JUndef" by simp
  ultimately show ?thesis by (rule clean_payload_get)
qed

text \<open>A transition that returned: the run it left and the event it logged.\<close>

lemma transition_returned:
  assumes "transitionRun getRun (commitRunTransition E now) env rid target opts S = (S', Inr (r, e))"
  shows "getRun rid S' = Some r \<and> run_phase r = target \<and> js_get (events S') (ev_id e) = Some e
    \<and> (to_decision opts \<noteq> JUndef \<and> target \<noteq> NEEDS_DECISION \<longrightarrow> run_decisionRequest r = None)
    \<and> (target = NEEDS_DECISION \<longrightarrow> run_decisionRequest r = Some (redactRecord (over (to_decisionRequest opts) [])))
    \<and> (\<exists>read i. RunEventSchema_parse E (buildRunEvent read (run_phase read) target opts i) = Some e)"
proof -
  from mem_runs.transition_loop_success [OF assms [unfolded transitionRun_def]]
  obtain i read s2 where com: "commitRunTransition E now rid (attempt_patch target opts read)
      (buildRunEvent read (run_phase read) target opts i) s2 = (S', Inr (r, e))" by blast
  from commitRunTransition_Inr [OF com] obtain cur where r: "r = merge_run cur (attempt_patch target opts read) now"
    and parse: "RunEventSchema_parse E (buildRunEvent read (run_phase read) target opts i) = Some e"
    and S': "S' = s2\<lparr>runs := js_set rid r (runs s2), events := js_set (ev_id e) e (events s2)\<rparr>" .
  have "getRun rid S' = Some r" "js_get (events S') (ev_id e) = Some e" by (simp_all add: S' getRun_def)
  moreover have "run_phase r = target" by (simp add: r attempt_patch_def buildRunPatch_def)
  moreover have "to_decision opts \<noteq> JUndef \<and> target \<noteq> NEEDS_DECISION \<longrightarrow> run_decisionRequest r = None"
    "target = NEEDS_DECISION \<longrightarrow> run_decisionRequest r = Some (redactRecord (over (to_decisionRequest opts) []))"
    by (simp_all add: r attempt_patch_def buildRunPatch_def over_def)
  ultimately show ?thesis using parse by blast
qed

lemma flow_options_fields [simp]:
  "to_lastError (flow_options clock ids) = None"
  "to_decision (flow_options clock ids) = JUndef"
  "to_now (flow_options clock ids) i = clock (Suc i)"
  "to_eventId (flow_options clock ids) = ids"
  by (simp_all add: flow_options_def)

lemma resolve_approve: "resolveEffectiveDecision X d p q = Recorded Approve \<longleftrightarrow> d = Approve \<and> \<not> expired X p q"
  by (auto simp: resolveEffectiveDecision_def)

text \<open>A presented operation is read back as it was presented, when redaction leaves its strings alone.\<close>

lemma parse_presented:
  assumes "redactString oid = oid" "oid \<noteq> []" "redactString t = t" "t \<noteq> []"
  shows "\<exists>request. parseApprovalRequest (redactRecord (approvalRequest oid t risky view)) = Some request
     \<and> pa_operationId request = oid \<and> pa_presentedAt request = t \<and> pa_riskyCommand request = risky"
proof -
  have keys: "\<not> isSensitiveKey ''kind''" "\<not> isSensitiveKey ''operationId''" "\<not> isSensitiveKey ''presentedAt''"
    "\<not> isSensitiveKey ''riskyCommand''" "redactString ''approval'' = ''approval''"
    by code_simp+
  show ?thesis
    unfolding parseApprovalRequest_def jfield_def redactRecord_get approvalRequest_def
    using assms keys by simp
qed

section \<open>Calls without interference\<close>

definition payload_fits :: "schema_env \<Rightarrow> run_phase \<Rightarrow> run_phase \<Rightarrow> transition_options \<Rightarrow> bool" where
  "payload_fits E f t opts = (jsonLength E (cleanPayload (redactRecord (transition_payload f t opts))) \<le> 100000)"

definition request_options :: "(nat \<Rightarrow> string) \<Rightarrow> (nat \<Rightarrow> string) \<Rightarrow> string \<Rightarrow> bool \<Rightarrow> approval_view \<Rightarrow> transition_options" where
  "request_options clock ids oid risky view =
     (flow_options clock ids)\<lparr>to_decisionRequest := Some (approvalRequest oid (clock 0) risky view)\<rparr>"

definition decision_options :: "(nat \<Rightarrow> string) \<Rightarrow> (nat \<Rightarrow> string) \<Rightarrow> approval_record \<Rightarrow> transition_options" where
  "decision_options clock ids rec = (flow_options clock ids)\<lparr>to_decision := recordJson rec\<rparr>"

lemma short_keys:
  assumes "to_payload opts = None" and "to_lastError opts = None"
  shows "length (transition_payload f t opts) \<le> 4 \<and> list_all (\<lambda>(k, v). length k \<le> 128) (transition_payload f t opts)"
  using assms by (simp add: transition_payload_def Let_def spread_def)

lemma flow_event_parses:
  assumes "RunSchema E r" and "ids 0 \<noteq> []" and "isDatetime E (clock (Suc 0))" and "payload_fits E (run_phase r) t opts"
    and "opts = request_options clock ids oid risky view \<or> opts = decision_options clock ids rec"
  shows "\<exists>e. RunEventSchema_parse E (buildRunEvent r (run_phase r) t opts 0) = Some e \<and> ev_id e = ids 0"
proof -
  have o: "to_payload opts = None" "to_lastError opts = None" "to_traceId opts = None" "to_eventId opts = ids"
    "to_now opts 0 = clock (Suc 0)"
    using assms(5) by (auto simp: request_options_def decision_options_def flow_options_def)
  have "list_all (\<lambda>(k, v). length k \<le> 128) (redactRecord (transition_payload (run_phase r) t opts))"
    using short_keys [OF o(1,2), of "run_phase r" t] by (auto simp: redactRecord_eq list_all_iff)
  then show ?thesis
    using assms(1-4) o short_keys [OF o(1,2), of "run_phase r" t]
    by (auto simp: RunEventSchema_parse_def buildRunEvent_def payload_fits_def RunSchema_def optNonEmpty_def)
qed

lemma present_quiet:
  assumes "RunSchema E r" and "getRun rid S = Some r" and "isAllowedRunPhaseTransition (run_phase r) NEEDS_DECISION"
    and "isDatetime E now" and "ids 0 \<noteq> []" and "isDatetime E (clock (Suc 0))" and "\<not> js_has (events S) (ids 0)"
    and "payload_fits E (run_phase r) NEEDS_DECISION (request_options clock ids oid risky view)"
  shows "\<exists>S1 r1 e. presentApprovalRequest getRun (commitRunTransition E now) (\<lambda>_ s. s) clock ids rid oid view risky S
        = (S1, Inr (r1, e))
     \<and> S1 = S\<lparr>runs := js_set rid r1 (runs S), events := js_set (ids 0) e (events S)\<rparr>
     \<and> RunSchema E r1 \<and> run_phase r1 = NEEDS_DECISION \<and> run_version r1 = run_version r + 1
     \<and> run_decisionRequest r1 = Some (redactRecord (approvalRequest oid (clock 0) risky view))"
proof -
  let ?o = "request_options clock ids oid risky view" and ?r1 = "merge_run r (attempt_patch NEEDS_DECISION
      (request_options clock ids oid risky view) r) now"
  from flow_event_parses [of E r ids clock NEEDS_DECISION ?o oid risky view] assms(1,5,6,8) obtain e
    where e: "RunEventSchema_parse E (buildRunEvent r (run_phase r) NEEDS_DECISION ?o 0) = Some e" "ev_id e = ids 0" by blast
  have "run_phase r \<noteq> NEEDS_DECISION" using assms(3) by (auto simp: isAllowedRunPhaseTransition_def)
  then have "transitionRun getRun (commitRunTransition E now) (\<lambda>_ s. s) rid NEEDS_DECISION ?o S
    = (S\<lparr>runs := js_set rid ?r1 (runs S), events := js_set (ids 0) e (events S)\<rparr>, Inr (?r1, e))"
    using quiet_transition [OF assms(1-3) _ assms(4) e(1)] assms(7) e(2) by simp
  moreover have "RunSchema E ?r1" using assms(1,4) by (rule RunSchema_attempt)
  moreover have "run_phase ?r1 = NEEDS_DECISION" "run_version ?r1 = run_version r + 1"
    "run_decisionRequest ?r1 = Some (redactRecord (approvalRequest oid (clock 0) risky view))"
    by (simp_all add: attempt_patch_def buildRunPatch_def request_options_def)
  ultimately show ?thesis
    unfolding presentApprovalRequest_def createDecisionRequest_def request_options_def [symmetric]
    by blast
qed

lemma decide_first_attempt:
  assumes "getRun rid S0 = Some r0" and "run_phase r0 = NEEDS_DECISION"
    and "run_decisionRequest r0 = Some q" and "parseApprovalRequest q = Some request" and "pa_operationId request = oid"
    and "env 0 S0 = S" and "env (Suc 0) S = S"
    and "RunSchema E r" and "getRun rid S = Some r" and "run_phase r = NEEDS_DECISION"
    and "isDatetime E now" and "ids 0 \<noteq> []" and "isDatetime E (clock (Suc 0))" and "\<not> js_has (events S) (ids 0)"
    and "rec = approvalRecord X clock rid oid d who request"
    and "payload_fits E NEEDS_DECISION (decisionTarget (ar_decision rec)) (decision_options clock ids rec)"
  shows "\<exists>S1 r1 e. recordApprovalDecision getRun (commitRunTransition E now) X env clock ids rid oid d who S0 = (S1, Inr rec)
     \<and> S1 = S\<lparr>runs := js_set rid r1 (runs S), events := js_set (ids 0) e (events S)\<rparr>
     \<and> RunSchema E r1 \<and> run_phase r1 = decisionTarget (ar_decision rec) \<and> run_version r1 = run_version r + 1
     \<and> run_decisionRequest r1 = None"
proof -
  let ?o = "decision_options clock ids rec" and ?t = "decisionTarget (ar_decision rec)"
  let ?r1 = "merge_run r (attempt_patch ?t ?o r) now"
  from flow_event_parses [of E r ids clock ?t ?o _ _ _ rec] assms(8,10,12,13,16) obtain e
    where e: "RunEventSchema_parse E (buildRunEvent r (run_phase r) ?t ?o 0) = Some e" "ev_id e = ids 0" by auto
  have "transitionRun getRun (commitRunTransition E now) env rid ?t ?o S0
    = (S\<lparr>runs := js_set rid ?r1 (runs S), events := js_set (ids 0) e (events S)\<rparr>, Inr (?r1, e))"
    using first_attempt_transition [OF assms(6-9) _ _ assms(11) e(1)] assms(10,14) e(2) by (simp add: decision_options_def)
  moreover have "RunSchema E ?r1" using assms(8,11) by (rule RunSchema_attempt)
  moreover have "run_phase ?r1 = ?t" "run_version ?r1 = run_version r + 1" "run_decisionRequest ?r1 = None"
    by (simp_all add: attempt_patch_def buildRunPatch_def decision_options_def)
  moreover have "recordApprovalDecision getRun (commitRunTransition E now) X env clock ids rid oid d who S0
    = (S\<lparr>runs := js_set rid ?r1 (runs S), events := js_set (ids 0) e (events S)\<rparr>, Inr rec)"
    using calculation(1) assms(1-5) assms(15) [symmetric]
    by (simp add: recordApprovalDecision_def resume_transition decision_options_def)
  ultimately show ?thesis by blast
qed

lemmas decide_quiet = decide_first_attempt [where env = "\<lambda>_ s. s", OF _ _ _ _ _ refl refl]

end
