(* ===== verification/Approval_Safety.thy ===== *)
theory Approval_Safety
  imports Approval_Flow
begin

text \<open>
  Properties of the approval flow: what a recorded decision did to the run, presenting and deciding
  as a round trip, failures, and a race between the check of the operation and the transition.
\<close>

section \<open>A run with a pending operation\<close>

definition sample_view :: approval_view where
  "sample_view = \<lparr>av_runId = ''run-1'', av_operationId = ''op'', av_diff = ''token=abc'', av_command = None, av_targetPath = ''a''\<rparr>"

definition sample_present :: "string \<Rightarrow> string \<Rightarrow> store \<Rightarrow> store \<times> (machine_error, run \<times> run_event) result" where
  "sample_present operation event S = presentApprovalRequest getRun (commitRunTransition sample_env ''now'') (\<lambda>_ s. s)
     (\<lambda>_. ''now'') (\<lambda>_. event) ''run-1'' operation sample_view True S"

definition sample_decide :: "(nat \<Rightarrow> store \<Rightarrow> store) \<Rightarrow> string \<Rightarrow> store \<Rightarrow> store \<times> (approval_error, approval_record) result" where
  "sample_decide env event S = recordApprovalDecision getRun (commitRunTransition sample_env ''now'') sample_text env
     (\<lambda>_. ''now'') (\<lambda>_. event) ''run-1'' ''op-1'' Approve ''user'' S"

definition sample_approval :: approval_record where
  "sample_approval = \<lparr>ar_runId = ''run-1'', ar_operationId = ''op-1'', ar_decision = Recorded Approve,
     ar_decidedBy = ''user'', ar_decidedAt = ''now''\<rparr>"

definition awaits :: "string \<Rightarrow> store \<Rightarrow> run \<Rightarrow> bool" where
  "awaits operation S r \<longleftrightarrow> getRun ''run-1'' S = Some r \<and> RunSchema sample_env r \<and> run_phase r = NEEDS_DECISION
     \<and> run_decisionRequest r = Some (redactRecord (approvalRequest operation ''now'' True sample_view))"

lemma sample_options_fit:
  assumes "to_payload opts = None" and "to_lastError opts = None"
  shows "payload_fits sample_env f t opts"
  using short_keys [OF assms, of f t] length_filter_le [of "\<lambda>(k, v). v \<noteq> JUndef" "redactRecord (transition_payload f t opts)"]
  by (simp add: payload_fits_def sample_env_def cleanPayload_def)

lemma flow_options_plain:
  "to_payload (request_options clock ids oid risky view) = None" "to_lastError (request_options clock ids oid risky view) = None"
  "to_payload (decision_options clock ids rec) = None" "to_lastError (decision_options clock ids rec) = None"
  by (simp_all add: request_options_def decision_options_def flow_options_def)

lemmas sample_flow_fits = sample_options_fit [OF flow_options_plain(1,2)] sample_options_fit [OF flow_options_plain(3,4)]

lemma sample_datetime: "isDatetime sample_env ''now''"
  by (simp add: sample_env_def)

lemma sample_present_awaits:
  assumes "getRun ''run-1'' S = Some r" and "RunSchema sample_env r"
    and "isAllowedRunPhaseTransition (run_phase r) NEEDS_DECISION" and "event \<noteq> []" and "\<not> js_has (events S) event"
  obtains r1 e x where "sample_present operation event S = (S\<lparr>runs := js_set ''run-1'' r1 (runs S), events := js_set event e (events S)\<rparr>, Inr x)"
    and "awaits operation (S\<lparr>runs := js_set ''run-1'' r1 (runs S), events := js_set event e (events S)\<rparr>) r1"
  using present_quiet [OF assms(2,1,3) sample_datetime, of "\<lambda>_. event" "\<lambda>_. ''now''" operation True sample_view]
    assms(4,5) sample_datetime sample_flow_fits(1) unfolding sample_present_def awaits_def
  by (auto simp: getRun_def)

lemma sample_decide_approves:
  assumes "awaits ''op-1'' S0 r0" and "env 0 S0 = S" and "env (Suc 0) S = S" and "awaits oid S r"
    and "event \<noteq> []" and "\<not> js_has (events S) event"
  obtains r1 e where "sample_decide env event S0
      = (S\<lparr>runs := js_set ''run-1'' r1 (runs S), events := js_set event e (events S)\<rparr>, Inr sample_approval)"
    and "RunSchema sample_env r1" and "run_phase r1 = EXECUTING"
proof -
  have plain: "redactString ''op-1'' = ''op-1''" "redactString ''now'' = ''now''" by code_simp+
  from parse_presented [OF plain(1) _ plain(2), of True sample_view] obtain request
    where request: "parseApprovalRequest (redactRecord (approvalRequest ''op-1'' ''now'' True sample_view)) = Some request"
      "pa_operationId request = ''op-1''" "pa_presentedAt request = ''now''" by auto
  have rec: "sample_approval = approvalRecord sample_text (\<lambda>_. ''now'') ''run-1'' ''op-1'' Approve ''user'' request"
    using request(3) by (simp add: approvalRecord_def sample_approval_def resolveEffectiveDecision_def expired_def
        sample_text_def APPROVAL_DECISION_TIMEOUT_MS_def)
  have target: "decisionTarget (ar_decision sample_approval) = EXECUTING" by (simp add: sample_approval_def decisionTarget_def)
  from decide_first_attempt [OF _ _ _ request(1,2) assms(2,3), where E = sample_env and now = "''now''" and rid = "''run-1''"
      and ids = "\<lambda>_. event" and clock = "\<lambda>_. ''now''" and rec = sample_approval and X = sample_text and d = Approve
      and who = "''user''" and r = r and ?r0.0 = r0] assms(1,4-6) rec sample_datetime sample_flow_fits(2)
  obtain r1 e where "sample_decide env event S0
      = (S\<lparr>runs := js_set ''run-1'' r1 (runs S), events := js_set event e (events S)\<rparr>, Inr sample_approval)"
    "RunSchema sample_env r1" "run_phase r1 = decisionTarget (ar_decision sample_approval)"
    unfolding awaits_def sample_decide_def by auto
  with target that show ?thesis by simp
qed

lemma sample_triaged_schema: "RunSchema sample_env sample_triaged"
  by code_simp

lemma sample_awaits:
  obtains S r where "fst (sample_present ''op-1'' ''present'' sample_triaged_store) = S" and "awaits ''op-1'' S r"
    and "js_keys (events S) = [''evt-0'', ''present'']"
proof -
  have allowed: "isAllowedRunPhaseTransition (run_phase sample_triaged) NEEDS_DECISION" by code_simp
  have keys: "js_keys (events sample_triaged_store) = [''evt-0'']" by (simp add: sample_triaged_store_def)
  have fresh: "\<not> js_has (events sample_triaged_store) ''present''" by (simp add: sample_triaged_store_def js_has_def)
  from sample_present_awaits [OF sample_triaged_run sample_triaged_schema allowed _ fresh, of "''op-1''"]
  obtain r1 e x where p: "sample_present ''op-1'' ''present'' sample_triaged_store
      = (sample_triaged_store\<lparr>runs := js_set ''run-1'' r1 (runs sample_triaged_store),
           events := js_set ''present'' e (events sample_triaged_store)\<rparr>, Inr x)"
    and w: "awaits ''op-1'' (sample_triaged_store\<lparr>runs := js_set ''run-1'' r1 (runs sample_triaged_store),
           events := js_set ''present'' e (events sample_triaged_store)\<rparr>) r1" by blast
  have "js_keys (js_set ''present'' e (events sample_triaged_store)) = [''evt-0'', ''present'']"
    using keys by (simp add: sample_triaged_store_def)
  then show ?thesis using p by (intro that [OF _ w]) simp_all
qed

section \<open>Only a fresh approval executes\<close>

text \<open>
  C22: Whatever else happens to the store meanwhile, a decision that is recorded was given on a run
  that awaited a decision on that very operation when the call began; the run goes to
  \<open>EXECUTING\<close> exactly when the submitted choice is an approval less than thirty minutes after the
  presentation, and else to \<open>SYNTHESIZING\<close>; the pending request is cleared, and the event log holds
  the (redacted) decision record.
\<close>

theorem approval_executes_only_fresh:
  assumes "recordApprovalDecision getRun (commitRunTransition E now) X env clock ids rid oid d who S = (S', Inr rec)"
  shows "\<exists>run q request r e.
      getRun rid S = Some run \<and> run_phase run = NEEDS_DECISION \<and> run_decisionRequest run = Some q
    \<and> parseApprovalRequest q = Some request \<and> pa_operationId request = oid
    \<and> getRun rid S' = Some r \<and> run_decisionRequest r = None
    \<and> run_phase r = (if d = Approve \<and> \<not> expired X (pa_presentedAt request) (clock 0) then EXECUTING else SYNTHESIZING)
    \<and> js_get (events S') (ev_id e) = Some e
    \<and> map_of (ev_payload e) ''decision'' = Some (redactEntry ''decision'' (recordJson rec))
    \<and> ar_decision rec = resolveEffectiveDecision X d (pa_presentedAt request) (clock 0)"
proof -
  from recordApprovalDecision_Inr [OF assms] obtain run q request r e where run: "getRun rid S = Some run"
      "run_phase run = NEEDS_DECISION" "run_decisionRequest run = Some q" "parseApprovalRequest q = Some request"
      "pa_operationId request = oid" and rec: "rec = approvalRecord X clock rid oid d who request"
    and t: "transitionRun getRun (commitRunTransition E now) env rid (decisionTarget (ar_decision rec))
           ((flow_options clock ids)\<lparr>to_decision := recordJson rec\<rparr>) S = (S', Inr (r, e))" .
  have dec: "ar_decision rec = resolveEffectiveDecision X d (pa_presentedAt request) (clock 0)"
    by (simp add: rec approvalRecord_def)
  from transition_returned [OF t] obtain read i where after: "getRun rid S' = Some r"
      "run_phase r = decisionTarget (ar_decision rec)" "js_get (events S') (ev_id e) = Some e" "run_decisionRequest r = None"
    and parse: "RunEventSchema_parse E (buildRunEvent read (run_phase read) (decisionTarget (ar_decision rec))
        ((flow_options clock ids)\<lparr>to_decision := recordJson rec\<rparr>) i) = Some e"
    by auto
  obtain fields where fields: "recordJson rec = JObj fields" by (simp add: recordJson_def)
  have "map_of (ev_payload e) ''decision'' = Some (redactEntry ''decision'' (recordJson rec))"
    using parse decision_payload [of "(flow_options clock ids)\<lparr>to_decision := recordJson rec\<rparr>" fields] fields
    by (auto simp: RunEventSchema_parse_def buildRunEvent_def split: if_splits)
  moreover have "decisionTarget (ar_decision rec)
      = (if d = Approve \<and> \<not> expired X (pa_presentedAt request) (clock 0) then EXECUTING else SYNTHESIZING)"
    by (simp add: decisionTarget_def dec resolve_approve)
  ultimately show ?thesis using run after dec by metis
qed

theorem approval_executes_only_fresh_witness:
  "\<exists>S S' r. sample_decide (\<lambda>_ s. s) ''decide'' S = (S', Inr sample_approval)
     \<and> getRun ''run-1'' S' = Some r \<and> run_decisionRequest r = None"
proof -
  obtain S r where "fst (sample_present ''op-1'' ''present'' sample_triaged_store) = S" and w: "awaits ''op-1'' S r"
    and keys: "js_keys (events S) = [''evt-0'', ''present'']" by (rule sample_awaits)
  have fresh: "\<not> js_has (events S) ''decide''" using arg_cong [OF keys, of set] by (simp add: js_has_iff)
  from sample_decide_approves [where env = "\<lambda>_ s. s", OF w refl refl w _ fresh] obtain r1 e where d: "sample_decide (\<lambda>_ s. s) ''decide'' S
      = (S\<lparr>runs := js_set ''run-1'' r1 (runs S), events := js_set ''decide'' e (events S)\<rparr>, Inr sample_approval)" by (metis list.distinct(1))
  from approval_executes_only_fresh [OF d [unfolded sample_decide_def]] d show ?thesis by blast
qed

section \<open>Presenting and deciding\<close>

text \<open>
  C23: An operation that is presented can be decided: when nothing else touches the run, presenting
  it and then recording a decision succeeds, the record carries the submitted choice (or the timeout
  denial after thirty minutes), and the run has left \<open>NEEDS_DECISION\<close> for the phase of that choice,
  two versions on, with nothing pending. The operation identifier and the timestamp must be texts
  that redaction leaves alone, since the request is read back from its redacted copy.
\<close>

theorem approval_round_trip:
  assumes "store_inv E S" and "getRun rid S = Some r" and "isAllowedRunPhaseTransition (run_phase r) NEEDS_DECISION"
    and "isDatetime E now" and "isDatetime E now'" and "isDatetime E (clock (Suc 0))" and "isDatetime E (clock' (Suc 0))"
    and "ids 0 \<noteq> []" and "ids' 0 \<noteq> []" and "ids 0 \<noteq> ids' 0"
    and "\<not> js_has (events S) (ids 0)" and "\<not> js_has (events S) (ids' 0)"
    and "payload_fits E (run_phase r) NEEDS_DECISION (request_options clock ids oid risky view)"
    and "redactString oid = oid" and "oid \<noteq> []" and "redactString (clock 0) = clock 0" and "clock 0 \<noteq> []"
    and "rec = \<lparr>ar_runId = rid, ar_operationId = oid, ar_decision = resolveEffectiveDecision X d (clock 0) (clock' 0),
           ar_decidedBy = who, ar_decidedAt = clock' 0\<rparr>"
    and "payload_fits E NEEDS_DECISION (decisionTarget (ar_decision rec)) (decision_options clock' ids' rec)"
  shows "\<exists>S1 S2 x r2. presentApprovalRequest getRun (commitRunTransition E now) (\<lambda>_ s. s) clock ids rid oid view risky S = (S1, Inr x)
     \<and> recordApprovalDecision getRun (commitRunTransition E now') X (\<lambda>_ s. s) clock' ids' rid oid d who S1 = (S2, Inr rec)
     \<and> getRun rid S2 = Some r2 \<and> run_phase r2 = decisionTarget (ar_decision rec) \<and> run_version r2 = run_version r + 2
     \<and> run_decisionRequest r2 = None \<and> (\<forall>rid'. rid' \<noteq> rid \<longrightarrow> getRun rid' S2 = getRun rid' S)"
proof -
  from present_quiet [of E r rid S now ids clock oid risky view] stored_run_schema [OF assms(1,2)] assms(2-4,6,8,11,13)
  obtain S1 r1 e where p: "presentApprovalRequest getRun (commitRunTransition E now) (\<lambda>_ s. s) clock ids rid oid view risky S = (S1, Inr (r1, e))"
    and S1: "S1 = S\<lparr>runs := js_set rid r1 (runs S), events := js_set (ids 0) e (events S)\<rparr>"
    and r1: "RunSchema E r1" "run_phase r1 = NEEDS_DECISION" "run_version r1 = run_version r + 1"
      "run_decisionRequest r1 = Some (redactRecord (approvalRequest oid (clock 0) risky view))" by blast
  from parse_presented [OF assms(14-17)] obtain request
    where request: "parseApprovalRequest (redactRecord (approvalRequest oid (clock 0) risky view)) = Some request"
      "pa_operationId request = oid" "pa_presentedAt request = clock 0" by blast
  have rec: "rec = approvalRecord X clock' rid oid d who request"
    using assms(18) request(3) by (simp add: approvalRecord_def)
  have "getRun rid S1 = Some r1" "\<not> js_has (events S1) (ids' 0)"
    using assms(10,12) by (simp_all add: S1 getRun_def js_has_def)
  from decide_quiet [OF this(1) r1(2,4) request(1,2) r1(1) this(1) r1(2) assms(5) _ _ _ rec assms(19)] this(2) assms(7,9)
  obtain S2 r2 e2 where d: "recordApprovalDecision getRun (commitRunTransition E now') X (\<lambda>_ s. s) clock' ids' rid oid d who S1 = (S2, Inr rec)"
    and S2: "S2 = S1\<lparr>runs := js_set rid r2 (runs S1), events := js_set (ids' 0) e2 (events S1)\<rparr>"
    and r2: "run_phase r2 = decisionTarget (ar_decision rec)" "run_version r2 = run_version r1 + 1" "run_decisionRequest r2 = None" by blast
  have "getRun rid S2 = Some r2 \<and> (\<forall>rid'. rid' \<noteq> rid \<longrightarrow> getRun rid' S2 = getRun rid' S)"
    by (simp add: S1 S2 getRun_def)
  with p d r2 r1(3) show ?thesis by auto
qed

theorem approval_round_trip_witness:
  "\<exists>S1 S2 x r2. sample_present ''op-1'' ''present'' sample_triaged_store = (S1, Inr x)
     \<and> sample_decide (\<lambda>_ s. s) ''decide'' S1 = (S2, Inr sample_approval)
     \<and> getRun ''run-1'' S2 = Some r2 \<and> run_phase r2 = EXECUTING"
proof -
  have inv: "store_inv sample_env sample_triaged_store"
    using machine_reachable_inv [OF machine_reachable.step [OF sample_reads sample_commits]] store_reachable_inv
    by (auto simp: config_inv_def)
  have allowed: "isAllowedRunPhaseTransition (run_phase sample_triaged) NEEDS_DECISION" by code_simp
  have plain: "redactString ''op-1'' = ''op-1''" "redactString ''now'' = ''now''" by code_simp+
  have fresh: "\<not> js_has (events sample_triaged_store) ''present''" "\<not> js_has (events sample_triaged_store) ''decide''"
    by (simp_all add: sample_triaged_store_def js_has_def)
  have rec: "sample_approval = \<lparr>ar_runId = ''run-1'', ar_operationId = ''op-1'',
      ar_decision = resolveEffectiveDecision sample_text Approve ''now'' ''now'', ar_decidedBy = ''user'', ar_decidedAt = ''now''\<rparr>"
    by (simp add: sample_approval_def resolveEffectiveDecision_def expired_def sample_text_def APPROVAL_DECISION_TIMEOUT_MS_def)
  from approval_round_trip [where clock = "\<lambda>_. ''now''" and clock' = "\<lambda>_. ''now''" and ids = "\<lambda>_. ''present''"
      and ids' = "\<lambda>_. ''decide''", OF inv sample_triaged_run allowed sample_datetime sample_datetime sample_datetime
      sample_datetime _ _ _ fresh sample_flow_fits(1) plain(1) _ plain(2) _ rec sample_flow_fits(2), of sample_view True]
  show ?thesis unfolding sample_present_def sample_decide_def by (auto simp: sample_approval_def decisionTarget_def)
qed

section \<open>A race\<close>

lemma present_disciplined:
  assumes "disciplined_env E X env"
  shows "(disciplined_step E X)\<^sup>*\<^sup>* S (fst (presentApprovalRequest getRun (commitRunTransition E now) env clock ids rid oid view risky S))"
  unfolding presentApprovalRequest_def createDecisionRequest_def
  using transition_disciplined [OF assms] by (metis prod.collapse)

lemma decide_disciplined:
  assumes "disciplined_env E X env"
  shows "(disciplined_step E X)\<^sup>*\<^sup>* S (fst (recordApprovalDecision getRun (commitRunTransition E now) Y env clock ids rid oid d who S))"
  using transition_disciplined [OF assms]
  by (auto simp: recordApprovalDecision_def Let_def resume_transition split: option.split sum.split prod.split)

text \<open>While the call waits for its second read, another client approves the same operation and the
  executor comes back with the next one.\<close>

definition overtaken :: "nat \<Rightarrow> store \<Rightarrow> store" where
  "overtaken i S = (if i = 0 then fst (sample_present ''op-2'' ''again'' (fst (sample_decide (\<lambda>_ s. s) ''first'' S))) else S)"

lemma overtaken_disciplined: "disciplined_env sample_env sample_text overtaken"
  unfolding disciplined_env_def overtaken_def sample_present_def sample_decide_def
  using rtranclp_trans [OF decide_disciplined [OF quiet_disciplined] present_disciplined [OF quiet_disciplined]] by simp

text \<open>
  C24: The check of the operation and the transition are two reads of the run, and nothing ties them
  together: with a second approval of the same operation in between, after which the run awaits a
  decision on another operation, the late approval is recorded for its own operation and yet sends
  the run on to \<open>EXECUTING\<close>, so the operation that was waiting is passed without a decision.
\<close>

theorem late_approval_passes_other_operation:
  "\<exists>S S' r1 r2. store_reachable sample_env sample_text S \<and> disciplined_env sample_env sample_text overtaken
     \<and> awaits ''op-1'' S r1 \<and> awaits ''op-2'' (overtaken 0 S) r2
     \<and> sample_decide overtaken ''late'' S = (S', Inr sample_approval)
     \<and> map_option run_phase (getRun ''run-1'' S') = Some EXECUTING"
proof -
  obtain S r where S: "fst (sample_present ''op-1'' ''present'' sample_triaged_store) = S" and w: "awaits ''op-1'' S r"
    and keys: "js_keys (events S) = [''evt-0'', ''present'']" by (rule sample_awaits)
  have "store_reachable sample_env sample_text sample_triaged_store"
    using machine_reachable_inv [OF machine_reachable.step [OF sample_reads sample_commits]] by (simp add: config_inv_def)
  then have reach: "store_reachable sample_env sample_text S"
    using disciplined_reachable present_disciplined [OF quiet_disciplined] S unfolding sample_present_def by metis
  note has = arg_cong [OF keys, of set]
  have "\<not> js_has (events S) ''first''" using has by (simp add: js_has_iff)
  from sample_decide_approves [where env = "\<lambda>_ s. s", OF w refl refl w _ this] obtain r1 e1 where
    d: "sample_decide (\<lambda>_ s. s) ''first'' S
      = (S\<lparr>runs := js_set ''run-1'' r1 (runs S), events := js_set ''first'' e1 (events S)\<rparr>, Inr sample_approval)"
    and r1: "RunSchema sample_env r1" "run_phase r1 = EXECUTING" by (metis list.distinct(1))
  let ?S1 = "S\<lparr>runs := js_set ''run-1'' r1 (runs S), events := js_set ''first'' e1 (events S)\<rparr>"
  have "getRun ''run-1'' ?S1 = Some r1" "isAllowedRunPhaseTransition (run_phase r1) NEEDS_DECISION"
    "\<not> js_has (events ?S1) ''again''"
    using has r1(2) by (simp_all add: getRun_def isAllowedRunPhaseTransition_def js_has_iff js_keys_set_dom)
  from sample_present_awaits [OF this(1) r1(1) this(2) _ this(3), of "''op-2''"] obtain r2 e2 x where
    p: "sample_present ''op-2'' ''again'' ?S1
      = (?S1\<lparr>runs := js_set ''run-1'' r2 (runs ?S1), events := js_set ''again'' e2 (events ?S1)\<rparr>, Inr x)"
    and w2: "awaits ''op-2'' (?S1\<lparr>runs := js_set ''run-1'' r2 (runs ?S1), events := js_set ''again'' e2 (events ?S1)\<rparr>) r2"
    by (metis list.distinct(1))
  let ?S2 = "?S1\<lparr>runs := js_set ''run-1'' r2 (runs ?S1), events := js_set ''again'' e2 (events ?S1)\<rparr>"
  have ov: "overtaken 0 S = ?S2" "overtaken (Suc 0) ?S2 = ?S2" using d p by (simp_all add: overtaken_def)
  have "\<not> js_has (events ?S2) ''late''" using has by (simp add: js_has_iff js_keys_set_dom)
  from sample_decide_approves [OF w ov w2 _ this] obtain r3 e3 where
    "sample_decide overtaken ''late'' S
      = (?S2\<lparr>runs := js_set ''run-1'' r3 (runs ?S2), events := js_set ''late'' e3 (events ?S2)\<rparr>, Inr sample_approval)"
    "run_phase r3 = EXECUTING" by (metis list.distinct(1))
  moreover have "getRun ''run-1'' (?S2\<lparr>runs := js_set ''run-1'' r3 (runs ?S2), events := js_set ''late'' e3 (events ?S2)\<rparr>) = Some r3"
    by (simp add: getRun_def)
  ultimately show ?thesis using reach overtaken_disciplined w w2 ov(1)
    by (metis option.map(2))
qed

end
