(* ===== verification/Run_Control.thy ===== *)
theory Run_Control
  imports Run_Machine
begin

text \<open>
  Interrupting and steering runs, \<open>src/orchestration/runControl.ts\<close>. The runner of a chat and the
  routes share the control state of a run by reference, so the states live in a store of objects
  (\<open>cw_objects\<close>, an address is an index) and the module's map leads from run identifiers to
  addresses. \<open>now\<close> is what \<open>Date.now()\<close> returns during a call, in milliseconds. The warning
  printed when the queue is full is left out.
\<close>

section \<open>State\<close>

record control_state =
  cs_runId :: "string option"
  cs_interruptRequested :: bool
  cs_interruptReason :: "string option"
  cs_steerQueue :: "string list"
  cs_aborted :: "string option"
  cs_createdAt :: int
  cs_updatedAt :: int

record control_world =
  cw_objects :: "control_state list"
  cw_registry :: "(string, nat) js_map"

definition DEFAULT_STATE_TTL_MS :: int where
  "DEFAULT_STATE_TTL_MS = 10 * 60 * 1000"

definition STEER_MESSAGE_MAX_LENGTH :: nat where
  "STEER_MESSAGE_MAX_LENGTH = 4000"

definition MAX_STEER_QUEUE_SIZE :: nat where
  "MAX_STEER_QUEUE_SIZE = 20"

definition STEER_PREVIEW_MAX_LENGTH :: nat where
  "STEER_PREVIEW_MAX_LENGTH = 180"

definition touch :: "int \<Rightarrow> control_state \<Rightarrow> control_state" where
  "touch now s = s\<lparr>cs_updatedAt := now\<rparr>"

definition redactOptional :: "string option \<Rightarrow> string option" where
  "redactOptional v =
     (case v of None \<Rightarrow> None | Some s \<Rightarrow> let r = js_trim (redactString s) in if r = [] then None else Some r)"

definition preview :: "string option \<Rightarrow> string" where
  "preview v =
     (let r = redactString (over v [])
      in if length r \<le> STEER_PREVIEW_MAX_LENGTH then r else take STEER_PREVIEW_MAX_LENGTH r @ ''...'')"

section \<open>Operations on one state\<close>

definition newControlState :: "string option \<Rightarrow> int \<Rightarrow> control_state" where
  "newControlState runId now =
     \<lparr>cs_runId = runId, cs_interruptRequested = False, cs_interruptReason = None, cs_steerQueue = [], cs_aborted = None,
      cs_createdAt = now, cs_updatedAt = now\<rparr>"

definition abortOnce :: "control_state \<Rightarrow> control_state" where
  "abortOnce s =
     (if cs_aborted s = None then s\<lparr>cs_aborted := Some (over (cs_interruptReason s) ''Run interrupted'')\<rparr> else s)"

definition requestInterrupt :: "string option \<Rightarrow> int \<Rightarrow> control_state \<Rightarrow> control_state" where
  "requestInterrupt reason now s =
     (let s1 = s\<lparr>cs_interruptRequested := True\<rparr>;
          s2 = (case redactOptional reason of None \<Rightarrow> s1 | Some r \<Rightarrow> s1\<lparr>cs_interruptReason := Some r\<rparr>)
      in abortOnce (touch now s2))"

definition steerText :: "string \<Rightarrow> string" where
  "steerText message = take STEER_MESSAGE_MAX_LENGTH (js_trim (redactString message))"

definition enqueueSteer :: "string \<Rightarrow> int \<Rightarrow> control_state \<Rightarrow> control_state" where
  "enqueueSteer message now s =
     (let redacted = steerText message
      in if redacted = [] then s
         else let q = (if MAX_STEER_QUEUE_SIZE \<le> length (cs_steerQueue s) then tl (cs_steerQueue s) else cs_steerQueue s)
              in touch now (s\<lparr>cs_steerQueue := q @ [redacted]\<rparr>))"

definition drainSteer :: "int \<Rightarrow> control_state \<Rightarrow> string option \<times> control_state" where
  "drainSteer now s =
     (case cs_steerQueue s of
        [] \<Rightarrow> (None, touch now s)
      | m # ms \<Rightarrow> (Some m, touch now (s\<lparr>cs_steerQueue := ms\<rparr>)))"

definition createAbortSignal :: "control_state \<Rightarrow> string option \<times> control_state" where
  "createAbortSignal s = (let s1 = (if cs_interruptRequested s then abortOnce s else s) in (cs_aborted s1, s1))"

text \<open>The \<open>AbortError\<close> that is thrown, if any.\<close>

definition throwIfRunInterrupted :: "control_state \<Rightarrow> string option" where
  "throwIfRunInterrupted s =
     (if \<not> cs_interruptRequested s \<and> cs_aborted s = None then None
      else Some (over (cs_interruptReason s) ''Run interrupted''))"

definition runControlPayload :: "control_state \<Rightarrow> json_record" where
  "runControlPayload s =
     [(''interruptRequested'', JBool (cs_interruptRequested s)),
      (''interruptReason'', case cs_interruptReason s of None \<Rightarrow> JUndef | Some r \<Rightarrow> JStr r),
      (''steerQueueLength'', JNum (Fin (of_nat (length (cs_steerQueue s)))))]"

section \<open>The registry\<close>

definition obj :: "control_world \<Rightarrow> nat \<Rightarrow> control_state" where
  "obj w a = cw_objects w ! a"

definition modifyState :: "nat \<Rightarrow> (control_state \<Rightarrow> control_state) \<Rightarrow> control_world \<Rightarrow> control_world" where
  "modifyState a f w = w\<lparr>cw_objects := (cw_objects w)[a := f (obj w a)]\<rparr>"

definition createRunControlState :: "string option \<Rightarrow> int \<Rightarrow> control_world \<Rightarrow> nat \<times> control_world" where
  "createRunControlState runId now w =
     (length (cw_objects w), w\<lparr>cw_objects := cw_objects w @ [newControlState runId now]\<rparr>)"

definition cleanupRunControlStates :: "int \<Rightarrow> control_world \<Rightarrow> control_world" where
  "cleanupRunControlStates now w =
     (let cutoff = now - DEFAULT_STATE_TTL_MS
      in w\<lparr>cw_registry := filter (\<lambda>(runId, a). \<not> cs_updatedAt (obj w a) < cutoff) (cw_registry w)\<rparr>)"

text \<open>Registering the state at address \<open>a\<close>.\<close>

definition registerRunControl :: "string \<Rightarrow> nat \<Rightarrow> int \<Rightarrow> control_world \<Rightarrow> control_world" where
  "registerRunControl runId a now w =
     (let w1 = modifyState a (\<lambda>s. touch now (s\<lparr>cs_runId := Some runId\<rparr>)) (cleanupRunControlStates now w)
      in w1\<lparr>cw_registry := js_set runId a (cw_registry w1)\<rparr>)"

definition getRunControlState :: "string \<Rightarrow> control_world \<Rightarrow> nat option" where
  "getRunControlState runId w = js_get (cw_registry w) runId"

definition clearRunControl :: "string \<Rightarrow> control_world \<Rightarrow> control_world" where
  "clearRunControl runId w = w\<lparr>cw_registry := js_delete runId (cw_registry w)\<rparr>"

text \<open>\<open>registerRunControl(runId, getRunControlState(runId) ?? createRunControlState(runId))\<close>\<close>

definition registerExisting :: "string \<Rightarrow> int \<Rightarrow> control_world \<Rightarrow> nat \<times> control_world" where
  "registerExisting runId now w =
     (let (a, w1) = (case getRunControlState runId w of Some a \<Rightarrow> (a, w) | None \<Rightarrow> createRunControlState (Some runId) now w)
      in (a, registerRunControl runId a now w1))"

section \<open>Requests\<close>

text \<open>\<open>runEvent\<close> of \<open>externalRunSupport.ts\<close>; \<open>uuid\<close> and \<open>nowIso\<close> are what the runtime returns.\<close>

definition runEvent :: "string \<Rightarrow> string \<Rightarrow> run \<Rightarrow> run_event_type \<Rightarrow> run_phase \<Rightarrow> json_record \<Rightarrow> run_event" where
  "runEvent uuid nowIso run type phase payload =
     \<lparr>ev_id = ''evt-'' @ uuid, ev_runId = run_id run, ev_type = type, ev_phase = phase, ev_payload = redactRecord payload,
      ev_traceId = Some (run_traceId run), ev_redactionState = None, ev_createdAt = nowIso\<rparr>"

datatype interrupt_result = InterruptNotFound | InterruptTerminal run | Aborting run

datatype steer_result = SteerNotFound | SteerTerminal run | SteerEmpty run | SteerQueued run

text \<open>
  \<open>env\<close> is what other work does between the read of the run and the rest of the call.
\<close>

definition interruptRun ::
  "schema_env \<Rightarrow> (control_world \<times> store \<Rightarrow> control_world \<times> store) \<Rightarrow> int \<Rightarrow> string \<Rightarrow> string \<Rightarrow> string \<Rightarrow> string option \<Rightarrow>
   control_world \<times> store \<Rightarrow> (control_world \<times> store) \<times> (store_error, interrupt_result) result" where
  "interruptRun E env now nowIso uuid runId reason ws =
     (case getRun runId (snd ws) of
        None \<Rightarrow> (ws, Inr InterruptNotFound)
      | Some run \<Rightarrow>
          if isTerminalRunPhase (run_phase run) then (ws, Inr (InterruptTerminal run))
          else let (w1, S1) = env ws;
                   (a, w2) = registerExisting runId now w1;
                   alreadyRequested = cs_interruptRequested (obj w2 a);
                   w3 = modifyState a (requestInterrupt reason now) w2
               in if alreadyRequested then ((w3, S1), Inr (Aborting run))
                  else case appendEvent E (runEvent uuid nowIso run RUN_INTERRUPT_REQUESTED (run_phase run)
                              [(''reason'', case cs_interruptReason (obj w3 a) of None \<Rightarrow> JUndef | Some r \<Rightarrow> JStr r),
                               (''requestedAt'', JStr nowIso)]) S1 of
                         (S2, Inl e) \<Rightarrow> ((w3, S2), Inl e)
                       | (S2, Inr _) \<Rightarrow> ((w3, S2), Inr (Aborting run)))"

definition steerRun ::
  "schema_env \<Rightarrow> (control_world \<times> store \<Rightarrow> control_world \<times> store) \<Rightarrow> int \<Rightarrow> string \<Rightarrow> string \<Rightarrow> string \<Rightarrow> string \<Rightarrow>
   control_world \<times> store \<Rightarrow> (control_world \<times> store) \<times> (store_error, steer_result) result" where
  "steerRun E env now nowIso uuid runId message ws =
     (case getRun runId (snd ws) of
        None \<Rightarrow> (ws, Inr SteerNotFound)
      | Some run \<Rightarrow>
          if isTerminalRunPhase (run_phase run) then (ws, Inr (SteerTerminal run))
          else let (w1, S1) = env ws;
                   (a, w2) = registerExisting runId now w1;
                   beforeLength = length (cs_steerQueue (obj w2 a));
                   w3 = modifyState a (enqueueSteer message now) w2;
                   q = cs_steerQueue (obj w3 a)
               in if \<not> beforeLength < length q then ((w3, S1), Inr (SteerEmpty run))
                  else case appendEvent E (runEvent uuid nowIso run RUN_STEER_ENQUEUED (run_phase run)
                              [(''messagePreview'', JStr (preview (if q = [] then None else Some (last q)))),
                               (''queuedAt'', JStr nowIso)]) S1 of
                         (S2, Inl e) \<Rightarrow> ((w3, S2), Inl e)
                       | (S2, Inr _) \<Rightarrow> ((w3, S2), Inr (SteerQueued run)))"

end
