(* ===== verification/Run_Control_Correct.thy ===== *)
theory Run_Control_Correct
  imports Run_Control Sample_Data
begin

text \<open>
  Properties of run control: steering messages reach the runner in order and none is lost while at
  most twenty wait, an interrupt is final and reaches the state that is registered for the run.
  The queue is the locale \<open>lossy_queue\<close>, interpreted on the steering queue of a control state.
\<close>

section \<open>Queues that drop their oldest entry\<close>

definition keep_last :: "nat \<Rightarrow> 'a list \<Rightarrow> 'a list" where
  "keep_last n xs = drop (length xs - n) xs"

lemma keep_last_short [simp]: "length xs \<le> n \<Longrightarrow> keep_last n xs = xs"
  by (simp add: keep_last_def)

lemma length_keep_last: "length (keep_last n xs) \<le> n"
  by (simp add: keep_last_def)

lemma keep_last_subseq: "subseq (keep_last n xs) xs"
  unfolding keep_last_def by (metis append_take_drop_id list_emb_append2 subseq_order.order_refl)

locale lossy_queue =
  fixes entry :: "'m \<Rightarrow> 'a option" and put :: "'m \<Rightarrow> 's \<Rightarrow> 's" and pop :: "'t \<Rightarrow> 's \<Rightarrow> 'a option \<times> 's"
    and items :: "'s \<Rightarrow> 'a list" and cap :: nat
  assumes put_items: "length (items s) \<le> cap \<Longrightarrow>
      items (put m s) = (case entry m of None \<Rightarrow> items s | Some x \<Rightarrow> keep_last cap (items s @ [x]))"
    and pop_items: "pop t s = (x, s') \<Longrightarrow>
      (case items s of [] \<Rightarrow> x = None \<and> items s' = [] | y # ys \<Rightarrow> x = Some y \<and> items s' = ys)"
begin

lemma put_bounded: "length (items s) \<le> cap \<Longrightarrow> length (items (put m s)) \<le> cap"
  by (simp add: put_items length_keep_last split: option.split)

lemma put_subseq:
  "length (items s) \<le> cap \<Longrightarrow> subseq (items (put m s)) (items s @ (case entry m of None \<Rightarrow> [] | Some x \<Rightarrow> [x]))"
  by (simp add: put_items keep_last_subseq split: option.split)

lemma put_lossless:
  "length (items s) < cap \<Longrightarrow> items (put m s) = items s @ (case entry m of None \<Rightarrow> [] | Some x \<Rightarrow> [x])"
  by (simp add: put_items split: option.split)

lemma pop_conserves: "pop t s = (x, s') \<Longrightarrow> (case x of None \<Rightarrow> [] | Some y \<Rightarrow> [y]) @ items s' = items s"
  using pop_items [of t s x s'] by (auto split: list.splits)

end

definition steerEntry :: "string \<times> int \<Rightarrow> string option" where
  "steerEntry m = (if steerText (fst m) = [] then None else Some (steerText (fst m)))"

interpretation steering: lossy_queue steerEntry "\<lambda>m. enqueueSteer (fst m) (snd m)" drainSteer cs_steerQueue MAX_STEER_QUEUE_SIZE
proof unfold_locales
  fix s :: control_state and m :: "string \<times> int"
  assume "length (cs_steerQueue s) \<le> MAX_STEER_QUEUE_SIZE"
  then show "cs_steerQueue (enqueueSteer (fst m) (snd m) s)
      = (case steerEntry m of None \<Rightarrow> cs_steerQueue s | Some x \<Rightarrow> keep_last MAX_STEER_QUEUE_SIZE (cs_steerQueue s @ [x]))"
    by (cases "cs_steerQueue s")
      (auto simp: enqueueSteer_def steerEntry_def touch_def keep_last_def Let_def MAX_STEER_QUEUE_SIZE_def)
next
  fix t s x s'
  assume "drainSteer t s = (x, s')"
  then show "case cs_steerQueue s of [] \<Rightarrow> x = None \<and> cs_steerQueue s' = [] | y # ys \<Rightarrow> x = Some y \<and> cs_steerQueue s' = ys"
    by (auto simp: drainSteer_def touch_def split: list.splits)
qed

section \<open>Sequences of operations on one state\<close>

datatype control_op = Interrupt "string option" | Steer string | Drain | Signal

text \<open>One operation at a time \<open>t\<close>, with the message it hands to the runner, if any.\<close>

fun control_step :: "control_op \<times> int \<Rightarrow> control_state \<Rightarrow> string list \<times> control_state" where
  "control_step (Interrupt reason, t) s = ([], requestInterrupt reason t s)"
| "control_step (Steer m, t) s = ([], enqueueSteer m t s)"
| "control_step (Drain, t) s = (let (x, s1) = drainSteer t s in (case x of None \<Rightarrow> [] | Some m \<Rightarrow> [m], s1))"
| "control_step (Signal, t) s = ([], snd (createAbortSignal s))"

fun control_run :: "(control_op \<times> int) list \<Rightarrow> control_state \<Rightarrow> string list \<times> control_state" where
  "control_run [] s = ([], s)"
| "control_run (p # ps) s = (let (out, s1) = control_step p s; (outs, s2) = control_run ps s1 in (out @ outs, s2))"

fun accepts :: "control_op \<times> int \<Rightarrow> string list" where
  "accepts (Steer m, t) = (case steerEntry (m, t) of None \<Rightarrow> [] | Some x \<Rightarrow> [x])"
| "accepts p = []"

definition accepted :: "(control_op \<times> int) list \<Rightarrow> string list" where
  "accepted ps = concat (map accepts ps)"

lemma accepted_simps [simp]:
  "accepted [] = []"
  "accepted (p # ps) = accepts p @ accepted ps"
  by (simp_all add: accepted_def)

lemma queue_untouched [simp]:
  "cs_steerQueue (requestInterrupt r t s) = cs_steerQueue s"
  "cs_steerQueue (snd (createAbortSignal s)) = cs_steerQueue s"
  by (simp_all add: requestInterrupt_def createAbortSignal_def abortOnce_def touch_def Let_def split: option.split)

lemma control_step_queue:
  assumes "control_step p s = (out, s')" and "length (cs_steerQueue s) \<le> MAX_STEER_QUEUE_SIZE"
  shows "length (cs_steerQueue s') \<le> MAX_STEER_QUEUE_SIZE \<and> subseq (out @ cs_steerQueue s') (cs_steerQueue s @ accepts p)
     \<and> (length (cs_steerQueue s) < MAX_STEER_QUEUE_SIZE \<or> accepts p = [] \<longrightarrow> out @ cs_steerQueue s' = cs_steerQueue s @ accepts p)"
proof (cases p)
  case (Pair q t)
  show ?thesis
  proof (cases q)
    case (Steer m)
    with Pair assms(1) have "out = []" "s' = enqueueSteer m t s" by simp_all
    moreover have "accepts p = (case steerEntry (m, t) of None \<Rightarrow> [] | Some x \<Rightarrow> [x])"
      using Pair Steer by simp
    moreover have "steerEntry (m, t) = None \<Longrightarrow> cs_steerQueue s' = cs_steerQueue s"
      using steering.put_items [OF assms(2), of "(m, t)"] calculation(2) by simp
    ultimately show ?thesis
      using steering.put_bounded [OF assms(2), of "(m, t)"] steering.put_subseq [OF assms(2), of "(m, t)"]
        steering.put_lossless [of s "(m, t)"] by (auto split: option.splits)
  next
    case Drain
    with Pair assms(1) obtain x where x: "drainSteer t s = (x, s')" "out = (case x of None \<Rightarrow> [] | Some m \<Rightarrow> [m])"
      by (auto split: prod.splits)
    have "accepts p = []" using Pair Drain by simp
    moreover have "out @ cs_steerQueue s' = cs_steerQueue s" using steering.pop_conserves [OF x(1)] x(2) by simp
    moreover from arg_cong [OF this, of length] have "length (cs_steerQueue s') \<le> length (cs_steerQueue s)" by simp
    ultimately show ?thesis using assms(2) by simp
  qed (use Pair assms in auto)
qed

lemma control_run_queue:
  assumes "control_run ps s = (outs, s')" and "length (cs_steerQueue s) \<le> MAX_STEER_QUEUE_SIZE"
  shows "length (cs_steerQueue s') \<le> MAX_STEER_QUEUE_SIZE \<and> subseq (outs @ cs_steerQueue s') (cs_steerQueue s @ accepted ps)
     \<and> (length (cs_steerQueue s) + length (accepted ps) \<le> MAX_STEER_QUEUE_SIZE
          \<longrightarrow> outs @ cs_steerQueue s' = cs_steerQueue s @ accepted ps)"
  using assms
proof (induction ps arbitrary: s outs)
  case Nil
  then show ?case by simp
next
  case (Cons p ps)
  obtain out s1 where p: "control_step p s = (out, s1)" by force
  obtain outs1 where ps: "control_run ps s1 = (outs1, s')" and outs: "outs = out @ outs1"
    using Cons.prems(1) p by (auto split: prod.splits)
  note step = control_step_queue [OF p Cons.prems(2)]
  note rest = Cons.IH [OF ps conjunct1 [OF step]]
  have "subseq (out @ (outs1 @ cs_steerQueue s')) (out @ (cs_steerQueue s1 @ accepted ps))"
    using rest by (simp add: subseq_append')
  moreover have "subseq ((out @ cs_steerQueue s1) @ accepted ps) ((cs_steerQueue s @ accepts p) @ accepted ps)"
    by (rule list_emb_append_mono [OF conjunct1 [OF conjunct2 [OF step]] subseq_order.order_refl])
  ultimately have sub: "subseq (outs @ cs_steerQueue s') (cs_steerQueue s @ accepted (p # ps))"
    using outs subseq_order.trans by (metis accepted_simps(2) append.assoc)
  have "outs @ cs_steerQueue s' = cs_steerQueue s @ accepted (p # ps)"
    if few: "length (cs_steerQueue s) + length (accepted (p # ps)) \<le> MAX_STEER_QUEUE_SIZE"
  proof -
    have eq: "out @ cs_steerQueue s1 = cs_steerQueue s @ accepts p"
      using step few by (cases "accepts p") auto
    from arg_cong [OF this, of length] few have "length (cs_steerQueue s1) + length (accepted ps) \<le> MAX_STEER_QUEUE_SIZE"
      by simp
    with rest have "outs1 @ cs_steerQueue s' = cs_steerQueue s1 @ accepted ps" by blast
    with eq outs show ?thesis by (metis accepted_simps(2) append.assoc)
  qed
  with sub rest show ?case by blast
qed

section \<open>Interrupts\<close>

lemma interrupted_step:
  assumes "control_step p s = (out, s')"
  shows "throwIfRunInterrupted s \<noteq> None \<longrightarrow> throwIfRunInterrupted s' \<noteq> None"
    and "cs_aborted s \<noteq> None \<longrightarrow> cs_aborted s' = cs_aborted s"
    and "fst p = Interrupt reason \<longrightarrow> throwIfRunInterrupted s' \<noteq> None \<and> cs_aborted s' \<noteq> None"
  using assms
  by (cases p; cases "fst p"; auto simp: throwIfRunInterrupted_def requestInterrupt_def enqueueSteer_def drainSteer_def
      createAbortSignal_def abortOnce_def touch_def Let_def split: option.splits list.splits prod.splits if_splits)+

lemma interrupted_run:
  assumes "control_run ps s = (outs, s')"
  shows "(throwIfRunInterrupted s \<noteq> None \<or> (\<exists>reason t. (Interrupt reason, t) \<in> set ps) \<longrightarrow> throwIfRunInterrupted s' \<noteq> None)
     \<and> (cs_aborted s \<noteq> None \<longrightarrow> cs_aborted s' = cs_aborted s)"
  using assms
proof (induction ps arbitrary: s outs)
  case Nil
  then show ?case by simp
next
  case (Cons p ps)
  obtain out s1 where p: "control_step p s = (out, s1)" by force
  obtain outs1 where ps: "control_run ps s1 = (outs1, s')" using Cons.prems p by (auto split: prod.splits)
  note step = interrupted_step [OF p]
  have "throwIfRunInterrupted s1 \<noteq> None" if "p = (Interrupt reason, t)" for reason t using step(3) [of reason] that by simp
  with step(1,2) Cons.IH [OF ps] show ?case by auto
qed

text \<open>
  Whatever the order in which clients steer and interrupt a run and its runner drains messages and
  polls for aborts: at most twenty messages wait; what the runner has received followed by what still
  waits is a subsequence, in the order of arrival, of the accepted messages (redacted, trimmed, cut to
  4000 characters, not empty), and all of them when no more than twenty are in play; and once an
  interrupt was requested every later poll aborts.
\<close>

lemma steering_in_order:
  assumes "control_run ps (newControlState runId t) = (outs, s')"
  shows "length (cs_steerQueue s') \<le> MAX_STEER_QUEUE_SIZE
     \<and> subseq (outs @ cs_steerQueue s') (accepted ps)
     \<and> (length (accepted ps) \<le> MAX_STEER_QUEUE_SIZE \<longrightarrow> outs @ cs_steerQueue s' = accepted ps)
     \<and> (\<forall>m \<in> set (outs @ cs_steerQueue s'). m \<noteq> [] \<and> length m \<le> STEER_MESSAGE_MAX_LENGTH)
     \<and> ((\<exists>reason t. (Interrupt reason, t) \<in> set ps) \<longrightarrow> throwIfRunInterrupted s' \<noteq> None)"
proof -
  have q: "cs_steerQueue (newControlState runId t) = []" by (simp add: newControlState_def)
  note run = control_run_queue [OF assms]
  have "m \<noteq> [] \<and> length m \<le> STEER_MESSAGE_MAX_LENGTH" if "m \<in> set (accepts p)" for m p
    using that by (cases p rule: accepts.cases) (auto simp: steerEntry_def steerText_def split: if_splits)
  then have "m \<noteq> [] \<and> length m \<le> STEER_MESSAGE_MAX_LENGTH" if "m \<in> set (accepted ps)" for m
    using that by (auto simp: accepted_def)
  moreover have "set (outs @ cs_steerQueue s') \<subseteq> set (accepted ps)"
    using run q subseq_conv_nths set_nths_subset by (metis append_Nil list.size(3) le0)
  ultimately have "\<forall>m \<in> set (outs @ cs_steerQueue s'). m \<noteq> [] \<and> length m \<le> STEER_MESSAGE_MAX_LENGTH"
    by (meson subsetD)
  then show ?thesis using run q interrupted_run [OF assms] by simp
qed

section \<open>Whom an interrupt reaches\<close>

definition registry_ok :: "control_world \<Rightarrow> bool" where
  "registry_ok w = (\<forall>a \<in> set (js_values (cw_registry w)). a < length (cw_objects w))"

lemma obj_modify [simp]:
  "a < length (cw_objects w) \<Longrightarrow> obj (modifyState a f w) a = f (obj w a)"
  "b \<noteq> a \<Longrightarrow> obj (modifyState a f w) b = obj w b"
  "length (cw_objects (modifyState a f w)) = length (cw_objects w)"
  by (simp_all add: obj_def modifyState_def)

lemma registerRunControl_fields:
  "length (cw_objects (registerRunControl runId a now w)) = length (cw_objects w)"
  "b \<noteq> a \<Longrightarrow> obj (registerRunControl runId a now w) b = obj w b"
  "a < length (cw_objects w) \<Longrightarrow> obj (registerRunControl runId a now w) a = (obj w a)\<lparr>cs_runId := Some runId, cs_updatedAt := now\<rparr>"
  "js_get (cw_registry (registerRunControl runId a now w)) runId = Some a"
  by (simp_all add: registerRunControl_def cleanupRunControlStates_def Let_def obj_def modifyState_def touch_def)

text \<open>Registering what is there already, or a new object.\<close>

lemma registerExisting_object:
  assumes "registerExisting runId now w = (a, w')" and "registry_ok w"
  shows "a < length (cw_objects w')"
    and "getRunControlState runId w = Some b \<Longrightarrow> a = b"
    and "getRunControlState runId w = None \<Longrightarrow> a = length (cw_objects w) \<and> \<not> cs_interruptRequested (obj w' a)"
    and "b < length (cw_objects w) \<Longrightarrow> cs_interruptRequested (obj w' b) = cs_interruptRequested (obj w b)"
    and "b < length (cw_objects w) \<Longrightarrow> cs_aborted (obj w' b) = cs_aborted (obj w b)"
    and "b < length (cw_objects w) \<Longrightarrow> b \<noteq> a \<Longrightarrow> obj w' b = obj w b"
proof -
  have known: "getRunControlState runId w = Some b \<Longrightarrow> b < length (cw_objects w)" for b
    using assms(2) map_of_SomeD by (fastforce simp: registry_ok_def getRunControlState_def)
  have old: "b < length (cw_objects w) \<Longrightarrow> obj (w\<lparr>cw_objects := cw_objects w @ xs\<rparr>) b = obj w b" for b xs
    by (simp add: obj_def nth_append)
  show "a < length (cw_objects w')" using assms(1) known
    by (auto simp: registerExisting_def createRunControlState_def registerRunControl_fields split: option.splits)
  show "getRunControlState runId w = Some b \<Longrightarrow> a = b" using assms(1) by (simp add: registerExisting_def)
  show "getRunControlState runId w = None \<Longrightarrow> a = length (cw_objects w) \<and> \<not> cs_interruptRequested (obj w' a)"
    using assms(1) by (auto simp: registerExisting_def createRunControlState_def registerRunControl_fields obj_def [of w]
        newControlState_def) (simp add: obj_def registerRunControl_def modifyState_def touch_def Let_def cleanupRunControlStates_def)
  show same: "b < length (cw_objects w) \<Longrightarrow> b \<noteq> a \<Longrightarrow> obj w' b = obj w b"
    using assms(1) old by (auto simp: registerExisting_def createRunControlState_def registerRunControl_fields split: option.splits)
  have "b < length (cw_objects w) \<Longrightarrow> b = a \<Longrightarrow> obj w' b = (obj w b)\<lparr>cs_runId := Some runId, cs_updatedAt := now\<rparr>"
    using assms(1) by (auto simp: registerExisting_def createRunControlState_def registerRunControl_fields split: option.splits)
  then show "b < length (cw_objects w) \<Longrightarrow> cs_interruptRequested (obj w' b) = cs_interruptRequested (obj w b)"
    "b < length (cw_objects w) \<Longrightarrow> cs_aborted (obj w' b) = cs_aborted (obj w b)"
    using same by (cases "b = a"; simp)+
qed

lemma requestInterrupt_flags [simp]:
  "cs_interruptRequested (requestInterrupt reason now s)"
  "cs_aborted (requestInterrupt reason now s) \<noteq> None"
  by (simp_all add: requestInterrupt_def abortOnce_def touch_def Let_def split: option.split)

lemma interruptRun_world:
  assumes "interruptRun E env now nowIso uuid runId reason ws = ((w', S'), res)"
    and "getRun runId (snd ws) = Some run" and "\<not> isTerminalRunPhase (run_phase run)" and "env ws = (w1, S1)"
  obtains a w2 where "registerExisting runId now w1 = (a, w2)" and "w' = modifyState a (requestInterrupt reason now) w2"
proof -
  obtain a w2 where r: "registerExisting runId now w1 = (a, w2)" by force
  have "w' = modifyState a (requestInterrupt reason now) w2"
    using assms r by (auto simp: interruptRun_def Let_def split: if_splits prod.splits sum.splits)
  with r show ?thesis by (rule that)
qed

text \<open>
  C25: An interrupt of a run that is not finished marks the state registered under the run's
  identifier and no other: after the call, of the states that existed before, exactly those are
  interrupted that were so before or are the registered one; that one is aborted, and keeps aborting
  whatever is done to it later, also when writing the event fails. A runner whose state is no longer
  registered (it was idle for ten minutes and another run registered) is therefore not reached.
\<close>

theorem interrupt_reaches_registered:
  assumes "interruptRun E env now nowIso uuid runId reason ws = ((w', S'), res)"
    and "getRun runId (snd ws) = Some run" and "\<not> isTerminalRunPhase (run_phase run)"
    and "env ws = (w1, S1)" and "registry_ok w1" and "b < length (cw_objects w1)"
  shows "(cs_interruptRequested (obj w' b) \<longleftrightarrow> cs_interruptRequested (obj w1 b) \<or> getRunControlState runId w1 = Some b)
     \<and> (getRunControlState runId w1 = Some b \<longrightarrow> cs_aborted (obj w' b) \<noteq> None
          \<and> (\<forall>ps. throwIfRunInterrupted (snd (control_run ps (obj w' b))) \<noteq> None))
     \<and> (getRunControlState runId w1 \<noteq> Some b \<longrightarrow> obj w' b = obj w1 b)"
proof -
  from interruptRun_world [OF assms(1-4)] obtain a w2 where r: "registerExisting runId now w1 = (a, w2)"
    and w': "w' = modifyState a (requestInterrupt reason now) w2" .
  note reg = registerExisting_object [OF r assms(5)]
  show ?thesis
  proof (cases "b = a")
    case True
    with reg(2,3) assms(6) have found: "getRunControlState runId w1 = Some b"
      by (cases "getRunControlState runId w1") auto
    have b: "obj w' b = requestInterrupt reason now (obj w2 b)" using True reg(1) w' by simp
    then have "throwIfRunInterrupted (obj w' b) \<noteq> None" by (simp add: throwIfRunInterrupted_def)
    then have "throwIfRunInterrupted (snd (control_run ps (obj w' b))) \<noteq> None" for ps
      using interrupted_run [of ps "obj w' b"] by (metis prod.collapse)
    with b found show ?thesis by simp
  next
    case False
    then have "getRunControlState runId w1 \<noteq> Some b" using reg(2) by blast
    moreover have "obj w' b = obj w1 b" using False reg(6) [OF assms(6)] w' by simp
    ultimately show ?thesis by simp
  qed
qed

text \<open>Two objects: the runner of \<open>run-1\<close> has the first.\<close>

definition sample_world :: control_world where
  "sample_world = \<lparr>cw_objects = [newControlState (Some ''run-1'') 0, newControlState (Some ''run-2'') 0],
     cw_registry = [(''run-1'', 0), (''run-2'', 1)]\<rparr>"

theorem interrupt_reaches_registered_witness:
  "\<exists>w' S' res. interruptRun sample_env (\<lambda>ws. ws) 5 ''now'' ''u'' ''run-1'' None (sample_world, sample_store) = ((w', S'), res)
     \<and> cs_interruptRequested (obj w' 0) \<and> \<not> cs_interruptRequested (obj w' 1)"
proof -
  obtain w' S' res where run: "interruptRun sample_env (\<lambda>ws. ws) 5 ''now'' ''u'' ''run-1'' None (sample_world, sample_store)
      = ((w', S'), res)" by (metis prod.collapse)
  have pre: "getRun ''run-1'' (snd (sample_world, sample_store)) = Some sample_run"
    "\<not> isTerminalRunPhase (run_phase sample_run)" "registry_ok sample_world"
    by (simp_all add: sample_store_run sample_run_def registry_ok_def sample_world_def isTerminalRunPhase_def TERMINAL_RUN_PHASES_def)
  note reach = interrupt_reaches_registered [OF run pre(1,2) refl pre(3)]
  have "cs_interruptRequested (obj w' 0)" using reach [of 0] by (simp add: sample_world_def getRunControlState_def)
  moreover have "\<not> cs_interruptRequested (obj w' 1)"
    using reach [of 1] by (simp add: sample_world_def getRunControlState_def obj_def newControlState_def)
  ultimately show ?thesis using run by blast
qed

text \<open>The registration of another run drops the entry of a state that was not touched for ten minutes.\<close>

lemma idle_state_dropped:
  assumes "js_get (cw_registry w) runId = Some a" and "distinct (js_keys (cw_registry w))"
    and "cs_updatedAt (obj w a) < now - DEFAULT_STATE_TTL_MS" and "other \<noteq> runId"
  shows "getRunControlState runId (registerRunControl other c now w) = None"
proof -
  have "map_of (filter (\<lambda>(k, x). \<not> cs_updatedAt (obj w x) < now - DEFAULT_STATE_TTL_MS) r) runId = None"
    if "js_get r runId = Some a" "distinct (js_keys r)" for r
    using that assms(3) by (induction r) (auto simp: map_of_eq_None_iff split: if_splits)
  with assms(1,2,4) show ?thesis
    by (simp add: getRunControlState_def registerRunControl_def cleanupRunControlStates_def modifyState_def Let_def obj_def)
qed

end
