(* ===== verification/Rate_Limiter.thy ===== *)
theory Rate_Limiter
  imports Rector_Prelude
begin

text \<open>
  Rate limiting, \<open>src/security/rateLimiter.ts\<close>: the policy built from configuration and
  environment, the classification of requests, the in-memory limiter, the adapter that presents a
  limiter to \<open>express-rate-limit\<close> and the limiter over Redis. Outside the repository are
  \<open>Number(text)\<close> on environment values (\<open>num\<close>), the clock behind a non-finite \<open>now\<close>, and the
  \<open>rate-limiter-flexible\<close> client, whose answers are parameters of \<open>performOperation\<close>.
\<close>

section \<open>Policy\<close>

record rate_rule =
  rr_windowMs :: int
  rr_maxRequests :: int
  rr_failClosed :: bool

record rule_input =
  ri_windowMs :: "jsnum option"
  ri_maxRequests :: "jsnum option"
  ri_failClosed :: "bool option"

record rate_config =
  rc_windowMs :: "jsnum option"
  rc_maxRequests :: "jsnum option"
  rc_failClosed :: "bool option"
  rc_chat :: "rule_input option"
  rc_authLogin :: "rule_input option"
  rc_providerTestConnection :: "rule_input option"
  rc_memoryProviderTest :: "rule_input option"
  rc_general :: "rule_input option"

record rate_policy =
  rl_failClosed :: bool
  rl_routes :: "(string, rate_rule) js_map"

definition DEFAULT_WINDOW_MS :: int where
  "DEFAULT_WINDOW_MS = 60000"

definition DEFAULT_CHAT_MAX :: int where
  "DEFAULT_CHAT_MAX = 60"

type_synonym env_vars = "string \<Rightarrow> string option"

definition numberFromEnv :: "(string \<Rightarrow> jsnum) \<Rightarrow> env_vars \<Rightarrow> string \<Rightarrow> rat \<Rightarrow> rat" where
  "numberFromEnv num env key fallback =
     (case env key of
        None \<Rightarrow> fallback
      | Some t \<Rightarrow> (case num t of Fin q \<Rightarrow> q | _ \<Rightarrow> fallback))"

definition booleanFromEnv :: "env_vars \<Rightarrow> string \<Rightarrow> bool \<Rightarrow> bool" where
  "booleanFromEnv env key fallback =
     (case map_option (\<lambda>t. toLowerCase (js_trim t)) (env key) of
        None \<Rightarrow> fallback
      | Some v \<Rightarrow> if v \<in> {''1'', ''true'', ''yes''} then True
                  else if v \<in> {''0'', ''false'', ''no''} then False else fallback)"

definition positiveInt :: "jsnum option \<Rightarrow> rat \<Rightarrow> int" where
  "positiveInt value fallback =
     (case value of Some (Fin q) \<Rightarrow> if 0 < q then math_trunc q else math_trunc fallback | _ \<Rightarrow> math_trunc fallback)"

definition intOrFallback :: "jsnum option \<Rightarrow> rat \<Rightarrow> int" where
  "intOrFallback value fallback = (case value of Some (Fin q) \<Rightarrow> math_trunc q | _ \<Rightarrow> math_trunc fallback)"

definition no_rule_input :: rule_input where
  "no_rule_input = \<lparr>ri_windowMs = None, ri_maxRequests = None, ri_failClosed = None\<rparr>"

definition mergeRule :: "rate_rule \<Rightarrow> rat \<Rightarrow> rat \<Rightarrow> rule_input \<Rightarrow> rate_rule" where
  "mergeRule base envWindowMs envMaxRequests override =
     \<lparr>rr_windowMs = positiveInt (ri_windowMs override) (of_int (positiveInt (Some (Fin envWindowMs)) (of_int (rr_windowMs base)))),
      rr_maxRequests = intOrFallback (ri_maxRequests override)
        (of_int (intOrFallback (Some (Fin envMaxRequests)) (of_int (rr_maxRequests base)))),
      rr_failClosed = (case ri_failClosed override of Some b \<Rightarrow> b | None \<Rightarrow> rr_failClosed base)\<rparr>"

definition buildRouteRule ::
  "(string \<Rightarrow> jsnum) \<Rightarrow> rate_rule \<Rightarrow> env_vars \<Rightarrow> string \<Rightarrow> string \<Rightarrow> rule_input option \<Rightarrow> rate_rule" where
  "buildRouteRule num base env windowKey maxKey override =
     mergeRule base (numberFromEnv num env windowKey (of_int (rr_windowMs base)))
       (numberFromEnv num env maxKey (of_int (rr_maxRequests base)))
       (case override of None \<Rightarrow> no_rule_input | Some r \<Rightarrow> r)"

definition createRateLimitPolicy :: "(string \<Rightarrow> jsnum) \<Rightarrow> rate_config \<Rightarrow> env_vars \<Rightarrow> rate_policy" where
  "createRateLimitPolicy num config env =
     (let baseWindowMs = positiveInt (rc_windowMs config) (numberFromEnv num env ''CHAT_RATE_LIMIT_WINDOW_MS'' (of_int DEFAULT_WINDOW_MS));
          baseMaxRequests = intOrFallback (rc_maxRequests config) (numberFromEnv num env ''CHAT_RATE_LIMIT_MAX'' (of_int DEFAULT_CHAT_MAX));
          failClosed = (case rc_failClosed config of Some b \<Rightarrow> b | None \<Rightarrow> booleanFromEnv env ''RATE_LIMIT_FAIL_CLOSED'' True);
          baseRule = \<lparr>rr_windowMs = baseWindowMs, rr_maxRequests = baseMaxRequests, rr_failClosed = failClosed\<rparr>;
          derivedGeneralMax = max 10 (max 0 baseMaxRequests * 5);
          derivedTestMax = max 5 (max 0 baseMaxRequests)
      in \<lparr>rl_failClosed = failClosed,
          rl_routes =
           [(''chat'', buildRouteRule num baseRule env ''CHAT_RATE_LIMIT_WINDOW_MS'' ''CHAT_RATE_LIMIT_MAX'' (rc_chat config)),
            (''auth-login'', buildRouteRule num (baseRule\<lparr>rr_maxRequests := derivedGeneralMax\<rparr>) env
               ''AUTH_LOGIN_RATE_LIMIT_WINDOW_MS'' ''AUTH_LOGIN_RATE_LIMIT_MAX'' (rc_authLogin config)),
            (''provider-test-connection'', buildRouteRule num (baseRule\<lparr>rr_maxRequests := derivedTestMax\<rparr>) env
               ''PROVIDER_TEST_RATE_LIMIT_WINDOW_MS'' ''PROVIDER_TEST_RATE_LIMIT_MAX'' (rc_providerTestConnection config)),
            (''memory-provider-test'', buildRouteRule num (baseRule\<lparr>rr_maxRequests := derivedTestMax\<rparr>) env
               ''MEMORY_PROVIDER_TEST_RATE_LIMIT_WINDOW_MS'' ''MEMORY_PROVIDER_TEST_RATE_LIMIT_MAX'' (rc_memoryProviderTest config)),
            (''general'', buildRouteRule num (baseRule\<lparr>rr_maxRequests := derivedGeneralMax\<rparr>) env
               ''API_RATE_LIMIT_WINDOW_MS'' ''API_RATE_LIMIT_MAX'' (rc_general config))]\<rparr>)"

text \<open>\<open>policy.routes[route] ?? policy.routes.general\<close>; without a rule the property access throws.\<close>

definition rateLimitRuleFor :: "rate_policy \<Rightarrow> string \<Rightarrow> rate_rule option" where
  "rateLimitRuleFor policy route =
     (case js_get (rl_routes policy) route of Some r \<Rightarrow> Some r | None \<Rightarrow> js_get (rl_routes policy) ''general'')"

section \<open>Routes and keys\<close>

definition memoryProviderTestPath :: "string \<Rightarrow> bool" where
  "memoryProviderTestPath p =
     (prefix ''/api/memory-providers/'' p \<and>
      (let rest = drop (length ''/api/memory-providers/'') p;
           name = takeWhile (\<lambda>c. c \<noteq> CHR ''/'') rest
       in name \<noteq> [] \<and> drop (length name) rest = ''/test-connection''))"

definition classifyRateLimitRoute :: "string \<Rightarrow> string \<Rightarrow> string option" where
  "classifyRateLimitRoute method requestPath =
     (if method = ''POST'' \<and> startsWith requestPath ''/api/chat/'' then Some ''chat''
      else if startsWith requestPath ''/api/auth/'' then Some ''auth-login''
      else if method = ''POST'' \<and> requestPath = ''/api/setup/test-connection'' then Some ''provider-test-connection''
      else if method = ''POST'' \<and> memoryProviderTestPath requestPath then Some ''memory-provider-test''
      else if startsWith requestPath ''/api/'' then Some ''general''
      else None)"

definition NUL :: char where
  "NUL = CHR 0x00"

definition rateLimitBucketKey :: "string \<Rightarrow> string \<Rightarrow> string" where
  "rateLimitBucketKey route identity = route @ NUL # identity"

definition splitBucketKey :: "string \<Rightarrow> string \<times> string" where
  "splitBucketKey value =
     (if NUL \<notin> set value then (''general'', value)
      else let route = takeWhile (\<lambda>c. c \<noteq> NUL) value in (route, drop (length route + 1) value))"

section \<open>The in-memory limiter\<close>

record bucket =
  bk_resetAt :: int
  bk_count :: int

type_synonym buckets = "(string, bucket) js_map"

record rate_decision =
  rd_key :: string
  rd_route :: string
  rd_allowed :: bool
  rd_limit :: int
  rd_remaining :: int
  rd_resetAt :: int
  rd_retryAfterMs :: int
  rd_disabled :: bool
  rd_reason :: "string option"

definition allowedDecision :: "string \<Rightarrow> string \<Rightarrow> rate_rule \<Rightarrow> int \<Rightarrow> int \<Rightarrow> rate_decision" where
  "allowedDecision key route rule resetAt left =
     \<lparr>rd_key = key, rd_route = route, rd_allowed = True, rd_limit = rr_maxRequests rule, rd_remaining = max 0 left,
      rd_resetAt = resetAt, rd_retryAfterMs = 0, rd_disabled = False, rd_reason = None\<rparr>"

definition deniedDecision :: "string \<Rightarrow> string \<Rightarrow> rate_rule \<Rightarrow> int \<Rightarrow> int \<Rightarrow> rate_decision" where
  "deniedDecision key route rule resetAt retryAfterMs =
     \<lparr>rd_key = key, rd_route = route, rd_allowed = False, rd_limit = rr_maxRequests rule, rd_remaining = 0,
      rd_resetAt = resetAt, rd_retryAfterMs = max 0 retryAfterMs, rd_disabled = False, rd_reason = Some ''RATE_LIMITED''\<rparr>"

definition disabledDecision :: "string \<Rightarrow> string \<Rightarrow> int \<Rightarrow> rate_decision" where
  "disabledDecision key route now =
     \<lparr>rd_key = key, rd_route = route, rd_allowed = True, rd_limit = 0, rd_remaining = 0, rd_resetAt = now,
      rd_retryAfterMs = 0, rd_disabled = True, rd_reason = None\<rparr>"

definition decisionForExistingBucket :: "string \<Rightarrow> string \<Rightarrow> rate_rule \<Rightarrow> bucket \<Rightarrow> int \<Rightarrow> rate_decision" where
  "decisionForExistingBucket key route rule b now =
     (if rr_maxRequests rule \<le> bk_count b then deniedDecision key route rule (bk_resetAt b) (bk_resetAt b - now)
      else allowedDecision key route rule (bk_resetAt b) (rr_maxRequests rule - bk_count b))"

definition normalizeNow :: "int \<Rightarrow> jsnum \<Rightarrow> int" where
  "normalizeNow wallClock now = (case now of Fin q \<Rightarrow> max 0 \<lfloor>q\<rfloor> | _ \<Rightarrow> wallClock)"

definition sweep :: "int \<Rightarrow> buckets \<Rightarrow> buckets" where
  "sweep now bs = filter (\<lambda>(k, b). \<not> bk_resetAt b \<le> now) bs"

definition activeBucket :: "string \<Rightarrow> int \<Rightarrow> buckets \<Rightarrow> bucket option" where
  "activeBucket bucketKey now bs =
     (case js_get bs bucketKey of Some b \<Rightarrow> if now < bk_resetAt b then Some b else None | None \<Rightarrow> None)"

text \<open>
  \<open>check\<close> and \<open>commit\<close> with the context both start from: a rule that limits nothing, or the swept
  buckets. The time has been normalised; \<open>None\<close> is the \<open>TypeError\<close> without any rule.
\<close>

definition check :: "rate_policy \<Rightarrow> string \<Rightarrow> string \<Rightarrow> int \<Rightarrow> buckets \<Rightarrow> (rate_decision \<times> buckets) option" where
  "check policy key route now bs =
     (case rateLimitRuleFor policy route of
        None \<Rightarrow> None
      | Some rule \<Rightarrow>
          if rr_maxRequests rule \<le> 0 then Some (disabledDecision key route now, bs)
          else let bs1 = sweep now bs
               in Some (case activeBucket (rateLimitBucketKey route key) now bs1 of
                          Some b \<Rightarrow> decisionForExistingBucket key route rule b now
                        | None \<Rightarrow> allowedDecision key route rule (now + rr_windowMs rule) (rr_maxRequests rule), bs1))"

definition commit :: "rate_policy \<Rightarrow> string \<Rightarrow> string \<Rightarrow> int \<Rightarrow> buckets \<Rightarrow> (rate_decision \<times> buckets) option" where
  "commit policy key route now bs =
     (case rateLimitRuleFor policy route of
        None \<Rightarrow> None
      | Some rule \<Rightarrow>
          if rr_maxRequests rule \<le> 0 then Some (disabledDecision key route now, bs)
          else let bs1 = sweep now bs;
                   bk = rateLimitBucketKey route key
               in Some (case activeBucket bk now bs1 of
                          None \<Rightarrow>
                            (allowedDecision key route rule (now + rr_windowMs rule) (max 0 (rr_maxRequests rule - 1)),
                             js_set bk \<lparr>bk_resetAt = now + rr_windowMs rule, bk_count = 1\<rparr> bs1)
                        | Some b \<Rightarrow>
                            if rr_maxRequests rule \<le> bk_count b
                            then (deniedDecision key route rule (bk_resetAt b) (bk_resetAt b - now), bs1)
                            else let b' = b\<lparr>bk_count := bk_count b + 1\<rparr>
                                 in (allowedDecision key route rule (bk_resetAt b) (max 0 (rr_maxRequests rule - bk_count b')),
                                     js_set bk b' bs1)))"

text \<open>\<open>reset\<close>: an absent or empty key or route selects every one.\<close>

definition resetBuckets :: "string \<Rightarrow> string \<Rightarrow> buckets \<Rightarrow> buckets" where
  "resetBuckets key route bs =
     filter (\<lambda>(k, b). case splitBucketKey k of (bucketRoute, identity) \<Rightarrow>
        route \<noteq> [] \<and> bucketRoute \<noteq> route \<or> key \<noteq> [] \<and> identity \<noteq> key) bs"

section \<open>The adapter and the middleware\<close>

text \<open>
  \<open>RectorRateLimitStore.increment\<close> over the \<open>commit\<close> of the limiter it was given: total hits, and the
  reset time unless limiting is off.
\<close>

type_synonym 's limiter_commit = "string \<Rightarrow> string \<Rightarrow> int \<Rightarrow> 's \<Rightarrow> (rate_decision \<times> 's) option"

definition increment :: "'s limiter_commit \<Rightarrow> string \<Rightarrow> int \<Rightarrow> 's \<Rightarrow> ((int \<times> int option) \<times> 's) option" where
  "increment limiter key now bs =
     (case splitBucketKey key of (route, identity) \<Rightarrow>
        (case limiter identity route now bs of
           None \<Rightarrow> None
         | Some (d, bs1) \<Rightarrow>
             Some (if rd_disabled d then (0, None)
                   else if \<not> rd_allowed d then (rd_limit d + 1, Some (rd_resetAt d))
                   else (rd_limit d - rd_remaining d, Some (rd_resetAt d)), bs1)))"

datatype middleware_outcome = Next | StoreFailure503

definition middlewareOnError :: "rate_policy \<Rightarrow> string \<Rightarrow> string \<Rightarrow> bool \<Rightarrow> middleware_outcome option" where
  "middlewareOnError policy method path failed =
     (if \<not> failed then Some Next
      else let route = (case classifyRateLimitRoute method path of Some r \<Rightarrow> r | None \<Rightarrow> ''general'')
           in map_option (\<lambda>rule. if \<not> rr_failClosed rule then Next else StoreFailure503) (rateLimitRuleFor policy route))"

section \<open>The limiter over Redis\<close>

text \<open>What the client answers: its counters, a rejection because the points are used up, or an error.\<close>

datatype redis_answer =
    Counters "int option" "int option"
  | NoRecord
  | Exhausted int
  | BackendFailure

definition performOperation :: "rate_policy \<Rightarrow> string \<Rightarrow> string \<Rightarrow> int \<Rightarrow> redis_answer \<Rightarrow> (redis_answer, rate_decision) result option" where
  "performOperation policy key route now ans =
     (case rateLimitRuleFor policy route of
        None \<Rightarrow> None
      | Some rule \<Rightarrow>
          if rr_maxRequests rule \<le> 0 then Some (Inr (disabledDecision key route (max 0 now)))
          else Some (case ans of
                 Counters remainingPoints msBeforeNext \<Rightarrow>
                   let left = (case remainingPoints of None \<Rightarrow> 0 | Some n \<Rightarrow> n);
                       ms = (case msBeforeNext of None \<Rightarrow> rr_windowMs rule | Some n \<Rightarrow> n)
                   in Inr (if left \<le> 0 then deniedDecision key route rule (now + ms) ms
                           else allowedDecision key route rule (now + ms) left)
               | NoRecord \<Rightarrow> Inr (allowedDecision key route rule (now + rr_windowMs rule) (rr_maxRequests rule))
               | Exhausted ms \<Rightarrow> Inr (deniedDecision key route rule (now + ms) ms)
               | BackendFailure \<Rightarrow>
                   if rr_failClosed rule then Inl BackendFailure
                   else Inr ((allowedDecision key route rule (now + rr_windowMs rule) (rr_maxRequests rule))
                               \<lparr>rd_reason := Some ''RATE_LIMIT_BACKEND_ERROR''\<rparr>)))"

text \<open>\<open>RedisRateLimiter.commit\<close> over the client's \<open>consume\<close>; \<open>None\<close> is the error that is thrown on.\<close>

definition redisCommit :: "rate_policy \<Rightarrow> (string \<Rightarrow> rate_rule option \<Rightarrow> 's \<Rightarrow> redis_answer \<times> 's) \<Rightarrow> 's limiter_commit" where
  "redisCommit policy consume key route now s =
     (case consume (rateLimitBucketKey route key) (rateLimitRuleFor policy route) s of (ans, s1) \<Rightarrow>
        (case performOperation policy key route now ans of
           Some (Inr d) \<Rightarrow> Some (d, s1)
         | _ \<Rightarrow> None))"

end
