(* ===== verification/Rate_Limiter_Correct.thy ===== *)
theory Rate_Limiter_Correct
  imports Rate_Limiter
begin

text \<open>
  Properties of rate limiting. The reference is a counter for one caller alone: a window opens with
  the first request, admits a number of requests and is closed when its time is over. The in-memory
  limiter shares one map among all callers and drops expired entries of any caller on every call;
  it is shown to give each caller the answers of a counter of its own.
\<close>

section \<open>The reference: one caller\<close>

definition live :: "int \<Rightarrow> bucket option \<Rightarrow> bucket option" where
  "live t s = (case s of Some b \<Rightarrow> if t < bk_resetAt b then Some b else None | None \<Rightarrow> None)"

definition opened :: "int \<Rightarrow> int \<Rightarrow> bucket" where
  "opened w t = \<lparr>bk_resetAt = t + w, bk_count = 1\<rparr>"

definition counted :: "bucket \<Rightarrow> bucket" where
  "counted b = b\<lparr>bk_count := bk_count b + 1\<rparr>"

definition admit :: "int \<Rightarrow> int \<Rightarrow> int \<Rightarrow> bucket option \<Rightarrow> bool \<times> bucket option" where
  "admit w m t s =
     (case live t s of
        None \<Rightarrow> (True, Some (opened w t))
      | Some b \<Rightarrow> if m \<le> bk_count b then (False, Some b) else (True, Some (counted b)))"

fun window_spec :: "int \<Rightarrow> int \<Rightarrow> bucket option \<Rightarrow> int list \<Rightarrow> bool list" where
  "window_spec w m s [] = []"
| "window_spec w m s (t # ts) = (case admit w m t s of (ok, s1) \<Rightarrow> ok # window_spec w m s1 ts)"

text \<open>Requests admitted before time \<open>u\<close>, from time \<open>v\<close> on.\<close>

fun admitted :: "int \<Rightarrow> int \<Rightarrow> int \<Rightarrow> int \<Rightarrow> bucket option \<Rightarrow> int list \<Rightarrow> nat" where
  "admitted w m v u s [] = 0"
| "admitted w m v u s (t # ts) =
     (case admit w m t s of (ok, s1) \<Rightarrow> (if ok \<and> v \<le> t \<and> t < u then 1 else 0) + admitted w m v u s1 ts)"

lemma admitted_late: "(\<forall>t \<in> set ts. u \<le> t) \<Longrightarrow> admitted w m v u s ts = 0"
  by (induction ts arbitrary: s) (auto split: prod.split)

definition bucket_ok :: "int \<Rightarrow> bucket option \<Rightarrow> bool" where
  "bucket_ok m s = (case s of None \<Rightarrow> True | Some b \<Rightarrow> bk_count b \<le> m)"

lemma admit_ok: "0 < m \<Longrightarrow> bucket_ok m s \<Longrightarrow> bucket_ok m (snd (admit w m t s))"
  by (auto simp: admit_def live_def bucket_ok_def opened_def counted_def split: option.splits if_splits)

text \<open>An open window admits what is left of its quota until it closes.\<close>

lemma admitted_in_window:
  assumes "sorted ts" and "bk_count b \<le> m" and "u \<le> bk_resetAt b"
  shows "int (admitted w m v u (Some b) ts) \<le> m - bk_count b"
  using assms
proof (induction ts arbitrary: b)
  case Nil
  then show ?case by simp
next
  case (Cons t ts)
  show ?case
  proof (cases "t < bk_resetAt b")
    case False
    with Cons.prems have "\<forall>x \<in> set (t # ts). u \<le> x" by auto
    then show ?thesis using admitted_late [of "t # ts"] Cons.prems(2) by simp
  next
    case True
    have IH: "int (admitted w m v u (Some (counted b)) ts) \<le> m - (bk_count b + 1)" if "bk_count b < m"
      using Cons.IH [of "counted b"] Cons.prems that by (simp add: counted_def)
    show ?thesis using True IH Cons.IH [of b] Cons.prems by (auto simp: admit_def live_def)
  qed
qed

text \<open>A period as long as the window meets at most two windows.\<close>

lemma admitted_in_period:
  assumes "sorted ts" and "\<forall>t \<in> set ts. v \<le> t" and "u \<le> v + w" and "0 < m" and "bucket_ok m s"
  shows "int (admitted w m v u s ts) \<le> (case s of None \<Rightarrow> m | Some b \<Rightarrow> (m - bk_count b) + m)"
  using assms(1,2,5)
proof (induction ts arbitrary: s)
  case Nil
  then show ?case using assms(4) by (auto simp: bucket_ok_def split: option.split)
next
  case (Cons t ts)
  show ?case
  proof (cases "live t s")
    case None
    have "int (admitted w m v u (Some (opened w t)) ts) \<le> m - 1"
      using admitted_in_window [of ts "opened w t" m u w v] Cons.prems assms(3,4) by (auto simp: opened_def)
    with None have "int (admitted w m v u s (t # ts)) \<le> m" by (auto simp: admit_def)
    then show ?thesis using Cons.prems(3) by (auto simp: bucket_ok_def split: option.split)
  next
    case (Some b)
    then have s: "s = Some b" by (auto simp: live_def split: option.splits if_splits)
    have sorted: "sorted ts" "\<forall>x \<in> set ts. v \<le> x" using Cons.prems by simp_all
    have "int (admitted w m v u (Some (counted b)) ts) \<le> (m - (bk_count b + 1)) + m" if "bk_count b < m"
      using Cons.IH [OF sorted, of "Some (counted b)"] that by (simp add: bucket_ok_def counted_def)
    then show ?thesis using Some s Cons.IH [OF sorted, of "Some b"] Cons.prems(3)
      by (auto simp: admit_def bucket_ok_def)
  qed
qed

lemma admitted_bound:
  assumes "sorted ts" and "u \<le> v + w" and "0 < m" and "bucket_ok m s" and "\<And>b. s = Some b \<Longrightarrow> 0 \<le> bk_count b"
  shows "int (admitted w m v u s ts) \<le> 2 * m"
  using assms(1,4,5)
proof (induction ts arbitrary: s)
  case Nil
  then show ?case using assms(3) by simp
next
  case (Cons t ts)
  show ?case
  proof (cases "v \<le> t")
    case True
    with Cons.prems(1) have "\<forall>x \<in> set (t # ts). v \<le> x" by auto
    from admitted_in_period [OF Cons.prems(1) this assms(2,3) Cons.prems(2)] Cons.prems(3) assms(3) show ?thesis
      by (cases s) auto
  next
    case False
    obtain ok s1 where a: "admit w m t s = (ok, s1)" by force
    have "bucket_ok m s1" using admit_ok [OF assms(3) Cons.prems(2), of w t] a by simp
    moreover have "0 \<le> bk_count b" if "s1 = Some b" for b
      using a that Cons.prems(3) by (auto simp: admit_def live_def opened_def counted_def split: option.splits if_splits)
    ultimately show ?thesis using Cons.IH Cons.prems(1) a False by simp
  qed
qed

section \<open>The shared map\<close>

lemma takeWhile_route: "NUL \<notin> set r \<Longrightarrow> takeWhile (\<lambda>c. c \<noteq> NUL) (r @ NUL # k) = r"
  by (induction r) auto

lemma split_bucket_key: "NUL \<notin> set r \<Longrightarrow> splitBucketKey (rateLimitBucketKey r k) = (r, k)"
  by (simp add: splitBucketKey_def rateLimitBucketKey_def takeWhile_route Let_def)

lemma bucket_key_inject:
  "NUL \<notin> set r \<Longrightarrow> NUL \<notin> set r' \<Longrightarrow> rateLimitBucketKey r k = rateLimitBucketKey r' k' \<longleftrightarrow> r = r' \<and> k = k'"
  by (metis split_bucket_key prod.inject)

lemma activeBucket_live: "activeBucket k t bs = live t (js_get bs k)"
  by (simp add: activeBucket_def live_def)

lemma sweep_get:
  "distinct (js_keys bs) \<Longrightarrow> js_get (sweep t bs) k = live t (js_get bs k)"
  by (induction bs) (auto simp: sweep_def live_def map_of_eq_None_iff split: option.splits)

lemma live_later: "t \<le> t' \<Longrightarrow> live t' (live t s) = live t' s"
  by (auto simp: live_def split: option.splits)

lemma distinct_sweep: "distinct (js_keys bs) \<Longrightarrow> distinct (js_keys (sweep t bs))"
  by (simp add: sweep_def distinct_map_filter)

text \<open>A commit admits as the counter of its caller does, and leaves every other counter alone.\<close>

lemma commit_spec:
  assumes "rateLimitRuleFor policy r = Some rule" and "0 < rr_maxRequests rule" and "distinct (js_keys bs)"
    and "commit policy k r t bs = Some (d, bs')"
  shows "rd_allowed d = fst (admit (rr_windowMs rule) (rr_maxRequests rule) t (js_get bs (rateLimitBucketKey r k)))"
    and "js_get bs' (rateLimitBucketKey r k) = snd (admit (rr_windowMs rule) (rr_maxRequests rule) t (js_get bs (rateLimitBucketKey r k)))"
    and "k' \<noteq> rateLimitBucketKey r k \<Longrightarrow> js_get bs' k' = live t (js_get bs k')"
    and "distinct (js_keys bs')"
proof -
  note get = sweep_get [OF assms(3), of t]
  have again: "live t (live t s) = live t s" for s by (rule live_later) simp
  note unfold = commit_def activeBucket_live get admit_def allowedDecision_def deniedDecision_def opened_def counted_def Let_def again
  show "rd_allowed d = fst (admit (rr_windowMs rule) (rr_maxRequests rule) t (js_get bs (rateLimitBucketKey r k)))"
    using assms(1,2,4) by (auto simp: unfold split: option.splits if_splits)
  show "js_get bs' (rateLimitBucketKey r k) = snd (admit (rr_windowMs rule) (rr_maxRequests rule) t (js_get bs (rateLimitBucketKey r k)))"
    using assms(1,2,4) by (auto simp: unfold split: option.splits if_splits)
  show "k' \<noteq> rateLimitBucketKey r k \<Longrightarrow> js_get bs' k' = live t (js_get bs k')"
    using assms(1,2,4) by (auto simp: unfold split: option.splits if_splits)
  show "distinct (js_keys bs')"
    using assms(1,2,4) distinct_js_set distinct_sweep [OF assms(3), of t]
    by (auto simp: unfold split: option.splits if_splits)
qed

section \<open>Limiters behind the adapter\<close>

text \<open>
  What the adapter needs of a limiter: an admitted request has something left over of its quota or
  nothing, never less. \<open>express-rate-limit\<close> blocks a request whose total hits exceed the limit.
\<close>

locale rate_limiter =
  fixes limiter :: "'s limiter_commit"
  assumes left_over: "limiter k r t s = Some (d, s') \<Longrightarrow> rd_allowed d \<Longrightarrow> 0 \<le> rd_remaining d \<and> 0 \<le> rd_limit d"
begin

lemma blocks_refused:
  assumes "NUL \<notin> set r" and "limiter k r t s = Some (d, s')"
  shows "\<exists>hits reset. increment limiter (rateLimitBucketKey r k) t s = Some ((hits, reset), s')
     \<and> (rd_disabled d \<longrightarrow> hits = 0) \<and> (\<not> rd_disabled d \<longrightarrow> (hits \<le> rd_limit d \<longleftrightarrow> rd_allowed d))"
  using assms left_over [OF assms(2)] by (auto simp: increment_def split_bucket_key)

end

interpretation memory_limiter: rate_limiter "commit policy" for policy
proof unfold_locales
  fix k r t s d s'
  assume "commit policy k r t s = Some (d, s')" and "rd_allowed d"
  then show "0 \<le> rd_remaining d \<and> 0 \<le> rd_limit d"
    by (auto simp: commit_def allowedDecision_def deniedDecision_def disabledDecision_def Let_def split: option.splits if_splits)
qed

interpretation redis_limiter: rate_limiter "redisCommit policy consume" for policy consume
proof unfold_locales
  fix k r t s d s'
  assume "redisCommit policy consume k r t s = Some (d, s')" and "rd_allowed d"
  then show "0 \<le> rd_remaining d \<and> 0 \<le> rd_limit d"
    by (auto simp: redisCommit_def performOperation_def allowedDecision_def deniedDecision_def disabledDecision_def Let_def
        split: option.splits if_splits prod.splits sum.splits redis_answer.splits)
qed

section \<open>Interleaved callers\<close>

type_synonym request = "string \<times> string \<times> int"

text \<open>Which of a sequence of requests \<open>(key, route, time)\<close> the middleware lets through.\<close>

fun served :: "rate_policy \<Rightarrow> request list \<Rightarrow> buckets \<Rightarrow> bool list option" where
  "served policy [] bs = Some []"
| "served policy ((k, r, t) # h) bs =
     (case (rateLimitRuleFor policy r, increment (commit policy) (rateLimitBucketKey r k) t bs) of
        (Some rule, Some ((hits, _), bs1)) \<Rightarrow> map_option ((#) (hits \<le> rr_maxRequests rule)) (served policy h bs1)
      | _ \<Rightarrow> None)"

definition times_of :: "string \<Rightarrow> string \<Rightarrow> request list \<Rightarrow> int list" where
  "times_of k r h = map (\<lambda>(k', r', t). t) (filter (\<lambda>(k', r', t). k' = k \<and> r' = r) h)"

definition answers_to :: "string \<Rightarrow> string \<Rightarrow> request list \<Rightarrow> bool list \<Rightarrow> bool list" where
  "answers_to k r h oks = map snd (filter (\<lambda>((k', r', t), ok). k' = k \<and> r' = r) (zip h oks))"

definition limits_all :: "rate_policy \<Rightarrow> bool" where
  "limits_all policy = (\<forall>r. \<exists>rule. rateLimitRuleFor policy r = Some rule \<and> 0 < rr_maxRequests rule)"

lemma window_spec_cong:
  assumes "\<And>t. t \<in> set ts \<Longrightarrow> live t s = live t s'"
  shows "window_spec w m s ts = window_spec w m s' ts"
  using assms by (cases ts) (auto simp: admit_def)

lemma commit_limit:
  assumes "commit policy k r t bs = Some (d, bs')" and "rateLimitRuleFor policy r = Some rule" and "0 < rr_maxRequests rule"
  shows "rd_limit d = rr_maxRequests rule \<and> \<not> rd_disabled d"
  using assms by (auto simp: commit_def allowedDecision_def deniedDecision_def Let_def split: option.splits if_splits)

lemma served_Cons:
  assumes "served policy ((k, r, t) # h) bs = Some oks" and "NUL \<notin> set r"
    and "rateLimitRuleFor policy r = Some rule" and "0 < rr_maxRequests rule"
  obtains d bs1 oks1 where "commit policy k r t bs = Some (d, bs1)" and "oks = rd_allowed d # oks1"
    and "served policy h bs1 = Some oks1"
proof -
  have "commit policy k r t bs \<noteq> None" using assms(3) by (simp add: commit_def Let_def)
  then obtain d bs1 where c: "commit policy k r t bs = Some (d, bs1)" by (metis not_None_eq prod.collapse)
  from memory_limiter.blocks_refused [OF assms(2) c] commit_limit [OF c assms(3,4)] obtain hits reset
    where "increment (commit policy) (rateLimitBucketKey r k) t bs = Some ((hits, reset), bs1)"
      and "hits \<le> rr_maxRequests rule \<longleftrightarrow> rd_allowed d" by auto
  with assms(1,3) c that show ?thesis by auto
qed

lemma served_spec:
  assumes "served policy h bs = Some oks" and "sorted (map (\<lambda>(k, r, t). t) h)" and "\<forall>(k, r, t) \<in> set h. NUL \<notin> set r"
    and "limits_all policy" and "rateLimitRuleFor policy r = Some rule" and "NUL \<notin> set r" and "distinct (js_keys bs)"
  shows "answers_to k r h oks
    = window_spec (rr_windowMs rule) (rr_maxRequests rule) (js_get bs (rateLimitBucketKey r k)) (times_of k r h)"
  using assms(1-3,7)
proof (induction h arbitrary: bs oks)
  case Nil
  then show ?case by (simp add: answers_to_def times_of_def)
next
  case (Cons q h)
  obtain k1 r1 t where q: "q = (k1, r1, t)" by (metis prod_cases3)
  from assms(4) obtain rule1 where rule1: "rateLimitRuleFor policy r1 = Some rule1" "0 < rr_maxRequests rule1"
    by (auto simp: limits_all_def)
  have nul: "NUL \<notin> set r1" using Cons.prems(3) q by auto
  from served_Cons [OF Cons.prems(1) [unfolded q] nul rule1] obtain d bs1 oks1
    where c: "commit policy k1 r1 t bs = Some (d, bs1)" and oks: "oks = rd_allowed d # oks1"
      and rest: "served policy h bs1 = Some oks1" .
  note step = commit_spec [OF rule1 Cons.prems(4) c]
  have IH: "answers_to k r h oks1
      = window_spec (rr_windowMs rule) (rr_maxRequests rule) (js_get bs1 (rateLimitBucketKey r k)) (times_of k r h)"
    using Cons.IH [OF rest _ _ step(4)] Cons.prems(2,3) q by auto
  show ?case
  proof (cases "k1 = k \<and> r1 = r")
    case True
    with rule1 assms(5) have "rule1 = rule" by simp
    with step(1,2) IH q oks True show ?thesis
      by (simp add: answers_to_def times_of_def split_beta)
  next
    case False
    then have "rateLimitBucketKey r k \<noteq> rateLimitBucketKey r1 k1"
      using bucket_key_inject [of r r1 k k1] assms(6) nul by auto
    from step(3) [OF this] have b1: "js_get bs1 (rateLimitBucketKey r k) = live t (js_get bs (rateLimitBucketKey r k))" .
    have "t \<le> t'" if "t' \<in> set (times_of k r h)" for t'
      using that Cons.prems(2) q by (auto simp: times_of_def)
    then have "window_spec (rr_windowMs rule) (rr_maxRequests rule) (live t (js_get bs (rateLimitBucketKey r k))) (times_of k r h)
      = window_spec (rr_windowMs rule) (rr_maxRequests rule) (js_get bs (rateLimitBucketKey r k)) (times_of k r h)"
      by (intro window_spec_cong live_later)
    with IH b1 q oks False show ?thesis by (auto simp: answers_to_def times_of_def)
  qed
qed

lemma admitted_window_spec:
  "admitted w m v u s ts = length (filter (\<lambda>(t, ok). ok \<and> v \<le> t \<and> t < u) (zip ts (window_spec w m s ts)))"
  by (induction ts arbitrary: s) (auto split: prod.split)

lemma times_of_sorted: "sorted (map (\<lambda>(k, r, t). t) h) \<Longrightarrow> sorted (times_of k r h)"
  by (induction h) (auto simp: times_of_def)

text \<open>
  C26: Requests pass the adapter and the in-memory limiter. However those of different callers and
  routes are interleaved, as long as time does not
  run backwards each pair of caller and route gets exactly the answers of a window counter of its own:
  sharing the map, dropping expired entries on every call and the composed keys do not let one caller
  spend or free the quota of another. In any period as long as the window at most twice the quota is
  admitted.
\<close>

theorem rate_limit_isolated:
  assumes "served policy h [] = Some oks" and "sorted (map (\<lambda>(k, r, t). t) h)" and "\<forall>(k, r, t) \<in> set h. NUL \<notin> set r"
    and "limits_all policy" and "rateLimitRuleFor policy r = Some rule" and "NUL \<notin> set r"
  shows "answers_to k r h oks = window_spec (rr_windowMs rule) (rr_maxRequests rule) None (times_of k r h)
    \<and> int (length (filter (\<lambda>(t, ok). ok \<and> v \<le> t \<and> t < v + rr_windowMs rule) (zip (times_of k r h) (answers_to k r h oks))))
        \<le> 2 * rr_maxRequests rule"
proof -
  have pos: "0 < rr_maxRequests rule" using assms(4,5) unfolding limits_all_def by (metis option.inject)
  have eq: "answers_to k r h oks = window_spec (rr_windowMs rule) (rr_maxRequests rule) None (times_of k r h)"
    using served_spec [OF assms, of k] by simp
  from admitted_bound [where w = "rr_windowMs rule" and v = v and s = None, OF times_of_sorted [OF assms(2), of k r] order.refl pos] eq show ?thesis
    by (simp add: bucket_ok_def admitted_window_spec)
qed

definition sample_policy :: rate_policy where
  "sample_policy = \<lparr>rl_failClosed = True, rl_routes = [(''general'', \<lparr>rr_windowMs = 10, rr_maxRequests = 2, rr_failClosed = True\<rparr>)]\<rparr>"

definition sample_requests :: "request list" where
  "sample_requests = [(''a'', ''chat'', 0), (''b'', ''chat'', 1), (''a'', ''chat'', 2), (''a'', ''chat'', 3), (''b'', ''x'', 9), (''a'', ''chat'', 11)]"

lemma sample_policy_rule:
  "rateLimitRuleFor sample_policy r = Some \<lparr>rr_windowMs = 10, rr_maxRequests = 2, rr_failClosed = True\<rparr>"
  by (simp add: rateLimitRuleFor_def sample_policy_def)

theorem rate_limit_isolated_witness:
  "\<exists>oks. served sample_policy sample_requests [] = Some oks
     \<and> answers_to ''a'' ''chat'' sample_requests oks = [True, True, False, True]"
proof -
  have oks: "served sample_policy sample_requests [] = Some [True, True, True, False, True, True]" by code_simp
  have "sorted (map (\<lambda>(k, r, t). t) sample_requests)" "\<forall>(k, r, t) \<in> set sample_requests. NUL \<notin> set r" "NUL \<notin> set ''chat''"
    by (simp_all add: sample_requests_def NUL_def)
  moreover have "limits_all sample_policy" by (simp add: limits_all_def sample_policy_rule)
  moreover have "window_spec 10 2 None (times_of ''a'' ''chat'' sample_requests) = [True, True, False, True]" by code_simp
  ultimately show ?thesis using rate_limit_isolated [OF oks _ _ _ sample_policy_rule] oks by auto
qed

section \<open>The limiter over Redis\<close>

text \<open>
  The documented answers of the client to the \<open>n\<close>-th request of a window with \<open>points\<close> points: the
  points that are left, or a rejection once more than \<open>points\<close> were asked for.
\<close>

definition documented_client :: "(int \<Rightarrow> nat \<Rightarrow> redis_answer) \<Rightarrow> bool" where
  "documented_client consume =
     (\<forall>points n. \<exists>ms. consume points n = (if int n \<le> points then Counters (Some (points - int n)) (Some ms) else Exhausted ms))"

lemma spec_of_burst:
  "0 < w \<Longrightarrow> window_spec w m (Some \<lparr>bk_resetAt = t + w, bk_count = c\<rparr>) (replicate (Suc n) t) ! n \<longleftrightarrow> c + int n < m"
proof (induction n arbitrary: c)
  case 0
  then show ?case by (auto simp: admit_def live_def)
next
  case (Suc n)
  have "replicate (Suc (Suc n)) t = t # replicate (Suc n) t" by simp
  with Suc.IH [of c] Suc.IH [of "c + 1"] Suc.prems show ?case
    by (auto simp: admit_def live_def counted_def algebra_simps simp del: replicate_Suc)
qed

text \<open>
  With a client that behaves as documented, the limiter over Redis refuses the last request of the
  quota: of the requests of a window it admits the first \<open>maxRequests - 1\<close> only (none at all for a
  quota of one), while the in-memory limiter admits \<open>maxRequests\<close>.
\<close>

lemma redis_limiter_one_short:
  assumes "documented_client consume" and "rateLimitRuleFor policy route = Some rule" and "0 < rr_maxRequests rule"
    and "0 < rr_windowMs rule" and "0 < n"
  shows "\<exists>d. performOperation policy key route now (consume (rr_maxRequests rule) n) = Some (Inr d)
     \<and> (rd_allowed d \<longleftrightarrow> int n < rr_maxRequests rule)
     \<and> (window_spec (rr_windowMs rule) (rr_maxRequests rule) None (replicate n now) ! (n - 1) \<longleftrightarrow> int n \<le> rr_maxRequests rule)"
proof -
  from assms(1) obtain ms where c: "consume (rr_maxRequests rule) n
      = (if int n \<le> rr_maxRequests rule then Counters (Some (rr_maxRequests rule - int n)) (Some ms) else Exhausted ms)"
    unfolding documented_client_def by blast
  have "\<exists>d. performOperation policy key route now (consume (rr_maxRequests rule) n) = Some (Inr d)
     \<and> (rd_allowed d \<longleftrightarrow> int n < rr_maxRequests rule)"
    using assms(2,3) by (auto simp: performOperation_def c deniedDecision_def allowedDecision_def Let_def)
  moreover have "window_spec (rr_windowMs rule) (rr_maxRequests rule) None (replicate n now) ! (n - 1) \<longleftrightarrow> int n \<le> rr_maxRequests rule"
  proof (cases "n - 1")
    case 0
    with assms(3,5) show ?thesis by (cases n) (simp_all add: admit_def live_def)
  next
    case (Suc k)
    then have n: "n = Suc (Suc k)" by simp
    have "replicate n now = now # replicate (Suc k) now" by (simp add: n)
    with spec_of_burst [OF assms(4), of "rr_maxRequests rule" now 1 k] show ?thesis
      by (auto simp: n admit_def live_def opened_def simp del: replicate_Suc)
  qed
  ultimately show ?thesis by blast
qed

end
