(* ===== verification/Access_Control.thy ===== *)
theory Access_Control
  imports Rector_Store
begin

text \<open>
  Roles and permissions, \<open>src/security/rbac.ts\<close>, and the workspace directory,
  \<open>src/security/workspaces.ts\<close> with \<open>sanitizeUserId\<close> of \<open>src/security/userDataPaths.ts\<close>. An
  operation of the directory is a function from the directory to the new directory and its outcome;
  what was written before an error stays written. \<open>isEmail\<close> is the e-mail check of the schema
  library and \<open>digest8\<close> the first eight hexadecimal digits of SHA-256; the clock does not move during
  a call.
\<close>

section \<open>Roles and permissions\<close>

datatype workspace_role = RoleOwner | RoleAdmin | RoleOperator | RoleDeveloper | RoleViewer

datatype permission =
    WorkspaceRead | WorkspaceUpdate | MembersManage | ProvidersRead | ProvidersConfigure | ProvidersSecretsWrite
  | ModelsAssign | MemoryConfigure | TemplatesApply | ModulesConfigure | RunsCreate | RunsRead | RunsApprove | RunsAbort
  | OperatorRead | OperatorManage | AuditRead | BillingManage | SecretsRotate | TruthMutate

definition PERMISSIONS :: "permission list" where
  "PERMISSIONS = [WorkspaceRead, WorkspaceUpdate, MembersManage, ProvidersRead, ProvidersConfigure, ProvidersSecretsWrite,
     ModelsAssign, MemoryConfigure, TemplatesApply, ModulesConfigure, RunsCreate, RunsRead, RunsApprove, RunsAbort,
     OperatorRead, OperatorManage, AuditRead, BillingManage, SecretsRotate, TruthMutate]"

fun ROLE_PERMISSIONS :: "workspace_role \<Rightarrow> permission list" where
  "ROLE_PERMISSIONS RoleOwner = PERMISSIONS"
| "ROLE_PERMISSIONS RoleAdmin = [WorkspaceRead, WorkspaceUpdate, MembersManage, ProvidersRead, ProvidersConfigure,
     ModelsAssign, MemoryConfigure, TemplatesApply, ModulesConfigure, RunsCreate, RunsRead, RunsApprove, RunsAbort,
     OperatorRead, OperatorManage, AuditRead, TruthMutate]"
| "ROLE_PERMISSIONS RoleOperator = [WorkspaceRead, ProvidersRead, RunsRead, RunsApprove, RunsAbort, OperatorRead, OperatorManage]"
| "ROLE_PERMISSIONS RoleDeveloper = [WorkspaceRead, ProvidersRead, TemplatesApply, RunsCreate, RunsRead]"
| "ROLE_PERMISSIONS RoleViewer = [WorkspaceRead, ProvidersRead, RunsRead]"

definition canRole :: "workspace_role \<Rightarrow> permission \<Rightarrow> bool" where
  "canRole role p = (p \<in> set (ROLE_PERMISSIONS role))"

record auth_subject =
  as_authEnabled :: bool
  as_userId :: "string option"
  as_workspaceId :: "string option"
  as_role :: "workspace_role option"

definition can :: "auth_subject \<Rightarrow> permission \<Rightarrow> bool" where
  "can subject p =
     (case (if as_authEnabled subject then as_role subject else Some RoleOwner) of
        None \<Rightarrow> False
      | Some role \<Rightarrow> canRole role p)"

datatype permission_result = Grant workspace_role "string option" | Denial workspace_role "string option"

definition requirePermission :: "auth_subject \<Rightarrow> permission \<Rightarrow> permission_result" where
  "requirePermission subject p =
     (let role = (if as_authEnabled subject then (case as_role subject of Some r \<Rightarrow> r | None \<Rightarrow> RoleViewer) else RoleOwner)
      in if as_authEnabled subject \<and> as_role subject = None then Denial role (as_workspaceId subject)
         else if canRole role p then Grant role (as_workspaceId subject)
         else Denial role (as_workspaceId subject))"

section \<open>The directory\<close>

datatype user_status = UserActive | UserDisabled | UserInvited

record user =
  us_id :: string
  us_email :: "string option"
  us_displayName :: "string option"
  us_status :: user_status
  us_createdAt :: string
  us_updatedAt :: string

record workspace =
  ws_id :: string
  ws_name :: string
  ws_ownerUserId :: string
  ws_createdAt :: string
  ws_updatedAt :: string

record membership =
  mb_id :: string
  mb_workspaceId :: string
  mb_userId :: string
  mb_role :: workspace_role
  mb_createdAt :: string
  mb_updatedAt :: string

record access_env =
  ae_isDatetime :: "string \<Rightarrow> bool"
  ae_isEmail :: "string \<Rightarrow> bool"
  ae_digest8 :: "string \<Rightarrow> string"
  ae_autoProvision :: bool

definition UserSchema :: "access_env \<Rightarrow> user \<Rightarrow> bool" where
  "UserSchema A u = (us_id u \<noteq> [] \<and> (case us_email u of None \<Rightarrow> True | Some m \<Rightarrow> ae_isEmail A m)
     \<and> optNonEmpty (us_displayName u) \<and> ae_isDatetime A (us_createdAt u) \<and> ae_isDatetime A (us_updatedAt u))"

definition WorkspaceSchema :: "access_env \<Rightarrow> workspace \<Rightarrow> bool" where
  "WorkspaceSchema A w = (ws_id w \<noteq> [] \<and> ws_name w \<noteq> [] \<and> ws_ownerUserId w \<noteq> []
     \<and> ae_isDatetime A (ws_createdAt w) \<and> ae_isDatetime A (ws_updatedAt w))"

definition WorkspaceMembershipSchema :: "access_env \<Rightarrow> membership \<Rightarrow> bool" where
  "WorkspaceMembershipSchema A m = (mb_id m \<noteq> [] \<and> mb_workspaceId m \<noteq> [] \<and> mb_userId m \<noteq> []
     \<and> ae_isDatetime A (mb_createdAt m) \<and> ae_isDatetime A (mb_updatedAt m))"

record directory =
  wd_users :: "(string, user) js_map"
  wd_workspaces :: "(string, workspace) js_map"
  wd_memberships :: "(string, membership) js_map"
  wd_workspaceCounter :: nat
  wd_membershipCounter :: nat

datatype directory_error = DirectoryZodError | PersonalWorkspaceCollision | WorkspaceIdExists | WorkspaceNotFound | NoDefaultWorkspace

type_synonym 'a dir_op = "directory \<Rightarrow> directory \<times> (directory_error, 'a) result"

definition bindD :: "'a dir_op \<Rightarrow> ('a \<Rightarrow> 'b dir_op) \<Rightarrow> 'b dir_op" where
  "bindD m f d = (case m d of (d1, Inl e) \<Rightarrow> (d1, Inl e) | (d1, Inr a) \<Rightarrow> f a d1)"

definition returnD :: "'a \<Rightarrow> 'a dir_op" where
  "returnD a d = (d, Inr a)"

definition throwD :: "directory_error \<Rightarrow> 'a dir_op" where
  "throwD e d = (d, Inl e)"

section \<open>Names\<close>

definition sanitizeUserId :: "string \<Rightarrow> string" where
  "sanitizeUserId userId =
     (let trimmed = js_trim userId
      in if trimmed = [] then ''anonymous''
         else map (\<lambda>c. if c \<in> set ''abcdefghijklmnopqrstuvwxyzABCDEFGHIJKLMNOPQRSTUVWXYZ0123456789_-'' then c else CHR ''_'') trimmed)"

definition resolveUserDataDir :: "string \<Rightarrow> bool \<Rightarrow> string" where
  "resolveUserDataDir userId authEnabled =
     (if \<not> authEnabled \<or> userId = ''default'' then ''.rector/''
      else ''.rector/users/'' @ sanitizeUserId userId @ ''/'')"

definition workspaceIdForUser :: "access_env \<Rightarrow> string \<Rightarrow> string" where
  "workspaceIdForUser A userId =
     (if userId = ''default'' then ''local''
      else if sanitizeUserId userId = userId then ''user-'' @ sanitizeUserId userId
      else ''user-'' @ sanitizeUserId userId @ ''-'' @ ae_digest8 A userId)"

definition legacyWorkspaceIdForUser :: "string \<Rightarrow> string" where
  "legacyWorkspaceIdForUser userId = (if userId = ''default'' then ''local'' else ''user-'' @ sanitizeUserId userId)"

definition workspaceNameForUser :: "string \<Rightarrow> string" where
  "workspaceNameForUser userId = (if userId = ''default'' then ''Local Workspace'' else userId @ [CHR 0x27] @ ''s Workspace'')"

text \<open>The counting loops of \<open>nextWorkspaceId\<close> and \<open>nextMembershipId\<close> end: a map has finitely many keys.\<close>

lemma finite_used_numbers: "finite {n. js_has m (mk_id p n)}"
proof -
  have "mk_id p ` {n. js_has m (mk_id p n)} \<subseteq> set (js_keys m)" by (auto simp: js_has_iff)
  moreover have "inj_on (mk_id p) {n. js_has m (mk_id p n)}" by (auto simp: inj_on_def)
  ultimately show ?thesis by (meson List.finite_set finite_imageD finite_subset)
qed

function next_free :: "string \<Rightarrow> (string, 'v) js_map \<Rightarrow> nat \<Rightarrow> nat" where
  "next_free p m c = (if js_has m (mk_id p (Suc c)) then next_free p m (Suc c) else Suc c)"
  by pat_completeness auto
termination
proof (relation "measure (\<lambda>(p, m, c). card {n. js_has m (mk_id p n) \<and> c < n})", goal_cases)
  case 1
  then show ?case by simp
next
  case (2 p m c)
  have "{n. js_has m (mk_id p n) \<and> Suc c < n} \<subset> {n. js_has m (mk_id p n) \<and> c < n}" using 2 by auto
  moreover have "finite {n. js_has m (mk_id p n) \<and> c < n}" using finite_used_numbers [of m p] by simp
  ultimately show ?case by (simp add: psubset_card_mono)
qed

declare next_free.simps [simp del]

definition nextWorkspaceId :: "string dir_op" where
  "nextWorkspaceId d =
     (let n = next_free ''ws'' (wd_workspaces d) (wd_workspaceCounter d)
      in (d\<lparr>wd_workspaceCounter := n\<rparr>, Inr (mk_id ''ws'' n)))"

definition nextMembershipId :: "string dir_op" where
  "nextMembershipId d =
     (let n = next_free ''member'' (wd_memberships d) (wd_membershipCounter d)
      in (d\<lparr>wd_membershipCounter := n\<rparr>, Inr (mk_id ''member'' n)))"

definition uniqueMembershipId :: "string \<Rightarrow> string dir_op" where
  "uniqueMembershipId preferred d = (if \<not> js_has (wd_memberships d) preferred then (d, Inr preferred) else nextMembershipId d)"

section \<open>Provisioning\<close>

definition ensureUser :: "access_env \<Rightarrow> string \<Rightarrow> string \<Rightarrow> user dir_op" where
  "ensureUser A now userId d =
     (case js_get (wd_users d) userId of
        Some u \<Rightarrow> (d, Inr u)
      | None \<Rightarrow>
          let u = \<lparr>us_id = userId, us_email = None, us_displayName = Some (if userId = ''default'' then ''Local developer'' else userId),
                   us_status = UserActive, us_createdAt = now, us_updatedAt = now\<rparr>
          in if UserSchema A u then (d\<lparr>wd_users := js_set userId u (wd_users d)\<rparr>, Inr u) else (d, Inl DirectoryZodError))"

definition findMembership :: "string \<Rightarrow> string \<Rightarrow> directory \<Rightarrow> membership option" where
  "findMembership userId workspaceId d =
     find (\<lambda>m. mb_userId m = userId \<and> mb_workspaceId m = workspaceId) (js_values (wd_memberships d))"

definition putMembership :: "access_env \<Rightarrow> membership \<Rightarrow> membership dir_op" where
  "putMembership A m d =
     (if WorkspaceMembershipSchema A m then (d\<lparr>wd_memberships := js_set (mb_id m) m (wd_memberships d)\<rparr>, Inr m)
      else (d, Inl DirectoryZodError))"

definition new_membership :: "string \<Rightarrow> string \<Rightarrow> string \<Rightarrow> string \<Rightarrow> workspace_role \<Rightarrow> membership" where
  "new_membership now memberId workspaceId userId role =
     \<lparr>mb_id = memberId, mb_workspaceId = workspaceId, mb_userId = userId, mb_role = role, mb_createdAt = now, mb_updatedAt = now\<rparr>"

definition addOwner :: "access_env \<Rightarrow> string \<Rightarrow> workspace \<Rightarrow> string \<Rightarrow> workspace dir_op" where
  "addOwner A now w userId =
     bindD (uniqueMembershipId (''member-'' @ ws_id w @ ''-'' @ sanitizeUserId userId))
       (\<lambda>memberId. bindD (putMembership A (new_membership now memberId (ws_id w) userId RoleOwner)) (\<lambda>_. returnD w))"

definition ownedPersonal :: "access_env \<Rightarrow> string \<Rightarrow> directory \<Rightarrow> workspace option" where
  "ownedPersonal A userId d =
     Option.bind (find (\<lambda>w. case w of Some w \<Rightarrow> ws_ownerUserId w = userId | None \<Rightarrow> False)
        (map (js_get (wd_workspaces d)) [workspaceIdForUser A userId, legacyWorkspaceIdForUser userId])) (\<lambda>w. w)"

definition createPersonal :: "access_env \<Rightarrow> string \<Rightarrow> string \<Rightarrow> workspace dir_op" where
  "createPersonal A now userId d =
     (let w = \<lparr>ws_id = workspaceIdForUser A userId, ws_name = workspaceNameForUser userId, ws_ownerUserId = userId,
               ws_createdAt = now, ws_updatedAt = now\<rparr>
      in if \<not> WorkspaceSchema A w then (d, Inl DirectoryZodError)
         else if js_has (wd_workspaces d) (ws_id w) then (d, Inl PersonalWorkspaceCollision)
         else addOwner A now w userId (d\<lparr>wd_workspaces := js_set (ws_id w) w (wd_workspaces d)\<rparr>))"

definition ensurePersonalWorkspace :: "access_env \<Rightarrow> string \<Rightarrow> string \<Rightarrow> workspace dir_op" where
  "ensurePersonalWorkspace A now userId =
     bindD (ensureUser A now userId) (\<lambda>u d.
       case ownedPersonal A (us_id u) d of
         Some w \<Rightarrow> (case findMembership (us_id u) (ws_id w) d of
                      Some m \<Rightarrow> (d, Inr w)
                    | None \<Rightarrow> addOwner A now w (us_id u) d)
       | None \<Rightarrow> createPersonal A now (us_id u) d)"

section \<open>Operations\<close>

definition upsertUser :: "access_env \<Rightarrow> user \<Rightarrow> user dir_op" where
  "upsertUser A u d =
     (if UserSchema A u then (d\<lparr>wd_users := js_set (us_id u) u (wd_users d)\<rparr>, Inr u) else (d, Inl DirectoryZodError))"

definition membershipsForUser :: "string \<Rightarrow> directory \<Rightarrow> membership list" where
  "membershipsForUser userId d = filter (\<lambda>m. mb_userId m = userId) (js_values (wd_memberships d))"

definition getDefaultWorkspaceForUser :: "access_env \<Rightarrow> string \<Rightarrow> string \<Rightarrow> workspace dir_op" where
  "getDefaultWorkspaceForUser A now userId d =
     (if ae_autoProvision A then ensurePersonalWorkspace A now userId d
      else case membershipsForUser userId d of
             [] \<Rightarrow> (d, Inl NoDefaultWorkspace)
           | m # _ \<Rightarrow> (case js_get (wd_workspaces d) (mb_workspaceId m) of
                         Some w \<Rightarrow> (d, Inr w)
                       | None \<Rightarrow> (d, Inl NoDefaultWorkspace)))"

definition listWorkspacesForUser :: "access_env \<Rightarrow> string \<Rightarrow> string \<Rightarrow> (workspace \<times> membership) list dir_op" where
  "listWorkspacesForUser A now userId =
     bindD (\<lambda>d. if ae_autoProvision A \<and> membershipsForUser userId d = []
                then bindD (ensurePersonalWorkspace A now userId) (\<lambda>_. returnD ()) d else (d, Inr ()))
       (\<lambda>_ d. (d, Inr (List.map_filter (\<lambda>m. map_option (\<lambda>w. (w, m)) (js_get (wd_workspaces d) (mb_workspaceId m)))
                         (membershipsForUser userId d))))"

definition createWorkspace :: "access_env \<Rightarrow> string \<Rightarrow> string \<Rightarrow> string \<Rightarrow> string option \<Rightarrow> workspace dir_op" where
  "createWorkspace A now name ownerUserId ident =
     bindD (ensureUser A now ownerUserId) (\<lambda>_.
     bindD (case ident of Some i \<Rightarrow> returnD i | None \<Rightarrow> nextWorkspaceId) (\<lambda>i d.
       let w = \<lparr>ws_id = i, ws_name = name, ws_ownerUserId = ownerUserId, ws_createdAt = now, ws_updatedAt = now\<rparr>
       in if \<not> WorkspaceSchema A w then (d, Inl DirectoryZodError)
          else if js_has (wd_workspaces d) i then (d, Inl WorkspaceIdExists)
          else bindD nextMembershipId (\<lambda>memberId.
                 bindD (putMembership A (new_membership now memberId i ownerUserId RoleOwner)) (\<lambda>_. returnD w))
                 (d\<lparr>wd_workspaces := js_set i w (wd_workspaces d)\<rparr>)))"

definition getMembership :: "access_env \<Rightarrow> string \<Rightarrow> string \<Rightarrow> string \<Rightarrow> membership option dir_op" where
  "getMembership A now userId workspaceId =
     bindD (\<lambda>d. if ae_autoProvision A \<and> (workspaceId = workspaceIdForUser A userId \<or> workspaceId = legacyWorkspaceIdForUser userId)
                then bindD (ensurePersonalWorkspace A now userId) (\<lambda>_. returnD ()) d else (d, Inr ()))
       (\<lambda>_ d. (d, Inr (findMembership userId workspaceId d)))"

definition listMembers :: "string \<Rightarrow> directory \<Rightarrow> membership list" where
  "listMembers workspaceId d = filter (\<lambda>m. mb_workspaceId m = workspaceId) (js_values (wd_memberships d))"

definition addMembership :: "access_env \<Rightarrow> string \<Rightarrow> string \<Rightarrow> string \<Rightarrow> workspace_role \<Rightarrow> string option \<Rightarrow> membership dir_op" where
  "addMembership A now workspaceId userId role ident =
     bindD (ensureUser A now userId) (\<lambda>_ d.
       if \<not> js_has (wd_workspaces d) workspaceId then (d, Inl WorkspaceNotFound)
       else case findMembership userId workspaceId d of
              Some m \<Rightarrow> putMembership A (m\<lparr>mb_role := role, mb_updatedAt := now\<rparr>) d
            | None \<Rightarrow> bindD (case ident of Some i \<Rightarrow> returnD i | None \<Rightarrow> nextMembershipId)
                        (\<lambda>i. putMembership A (new_membership now i workspaceId userId role)) d)"

definition updateMembershipRole :: "access_env \<Rightarrow> string \<Rightarrow> string \<Rightarrow> workspace_role \<Rightarrow> membership option dir_op" where
  "updateMembershipRole A now memberId role d =
     (case js_get (wd_memberships d) memberId of
        None \<Rightarrow> (d, Inr None)
      | Some m \<Rightarrow>
          let m' = m\<lparr>mb_role := role, mb_updatedAt := now\<rparr>
          in if WorkspaceMembershipSchema A m' then (d\<lparr>wd_memberships := js_set memberId m' (wd_memberships d)\<rparr>, Inr (Some m'))
             else (d, Inl DirectoryZodError))"

definition removeMembership :: "string \<Rightarrow> bool dir_op" where
  "removeMembership memberId d =
     (d\<lparr>wd_memberships := js_delete memberId (wd_memberships d)\<rparr>, Inr (js_has (wd_memberships d) memberId))"

definition empty_directory :: directory where
  "empty_directory = \<lparr>wd_users = [], wd_workspaces = [], wd_memberships = [], wd_workspaceCounter = 0, wd_membershipCounter = 0\<rparr>"

end
