(* ===== verification/Workspace_Routes.thy ===== *)
theory Workspace_Routes
  imports Access_Control
begin

text \<open>
  The guard of every route (\<open>resolveRequestWorkspace\<close> and \<open>authorize\<close> in \<open>src/api/server.ts\<close>) and the
  workspace and member routes of \<open>src/api/routes/commercial.ts\<close>, with requests handled one after the
  other. The audit log is left out: recording never fails a request. An error of the directory inside
  \<open>authorize\<close> leaves the handler; inside the routes' \<open>try\<close> it becomes a 400.
\<close>

datatype route_error = HttpStatus nat | RouteThrew directory_error

type_synonym 'a route = "directory \<Rightarrow> directory \<times> (route_error, 'a) result"

record request_auth =
  ra_enabled :: bool
  ra_user :: "string option"

text \<open>\<open>requestActorId\<close>: the authenticated user, or \<open>default\<close>.\<close>

definition requestActorId :: "request_auth \<Rightarrow> string" where
  "requestActorId q = (case ra_user q of Some u \<Rightarrow> u | None \<Rightarrow> ''default'')"

text \<open>The workspace a request names, or the default one of the user; an empty name counts as none.\<close>

definition requestedWorkspace :: "access_env \<Rightarrow> string \<Rightarrow> string \<Rightarrow> string option \<Rightarrow> workspace option dir_op" where
  "requestedWorkspace A now userId requested d =
     (case requested of
        Some w \<Rightarrow> if w \<noteq> [] then (d, Inr (js_get (wd_workspaces d) w))
                  else bindD (getDefaultWorkspaceForUser A now userId) (\<lambda>x. returnD (Some x)) d
      | None \<Rightarrow> bindD (getDefaultWorkspaceForUser A now userId) (\<lambda>x. returnD (Some x)) d)"

definition resolveRequestWorkspace :: "access_env \<Rightarrow> string \<Rightarrow> request_auth \<Rightarrow> string option \<Rightarrow> (string \<times> workspace_role) route" where
  "resolveRequestWorkspace A now q requested d =
     (if \<not> ra_enabled q then (d, Inr ((case requested of Some w \<Rightarrow> w | None \<Rightarrow> ''local''), RoleOwner))
      else case ra_user q of
             None \<Rightarrow> (d, Inl (HttpStatus 401))
           | Some userId \<Rightarrow>
               (case requestedWorkspace A now userId requested d of
                  (d1, Inl e) \<Rightarrow> (d1, Inl (RouteThrew e))
                | (d1, Inr None) \<Rightarrow> (d1, Inl (HttpStatus 403))
                | (d1, Inr (Some w)) \<Rightarrow>
                    (case getMembership A now userId (ws_id w) d1 of
                       (d2, Inl e) \<Rightarrow> (d2, Inl (RouteThrew e))
                     | (d2, Inr None) \<Rightarrow> (d2, Inl (HttpStatus 403))
                     | (d2, Inr (Some m)) \<Rightarrow> (d2, Inr (ws_id w, mb_role m)))))"

definition authorize :: "access_env \<Rightarrow> string \<Rightarrow> request_auth \<Rightarrow> permission \<Rightarrow> string option \<Rightarrow> string route" where
  "authorize A now q p requested d =
     (case resolveRequestWorkspace A now q requested d of
        (d1, Inl e) \<Rightarrow> (d1, Inl e)
      | (d1, Inr (workspaceId, role)) \<Rightarrow>
          (case requirePermission \<lparr>as_authEnabled = ra_enabled q, as_userId = Some (requestActorId q),
                                   as_workspaceId = Some workspaceId, as_role = Some role\<rparr> p of
             Grant _ _ \<Rightarrow> (d1, Inr workspaceId)
           | Denial _ _ \<Rightarrow> (d1, Inl (HttpStatus 403))))"

definition tryRoute :: "nat \<Rightarrow> 'a dir_op \<Rightarrow> 'a route" where
  "tryRoute status m d = (case m d of (d1, Inl e) \<Rightarrow> (d1, Inl (HttpStatus status)) | (d1, Inr a) \<Rightarrow> (d1, Inr a))"

section \<open>Routes\<close>

definition postWorkspace :: "access_env \<Rightarrow> string \<Rightarrow> request_auth \<Rightarrow> string \<Rightarrow> workspace route" where
  "postWorkspace A now q name d =
     (if ra_enabled q \<and> ra_user q = None then (d, Inl (HttpStatus 401))
      else if name = [] then (d, Inl (HttpStatus 400))
      else tryRoute 400 (createWorkspace A now name (requestActorId q) None) d)"

definition postMember :: "access_env \<Rightarrow> string \<Rightarrow> request_auth \<Rightarrow> string \<Rightarrow> string \<Rightarrow> workspace_role \<Rightarrow> membership route" where
  "postMember A now q w userId role d =
     (case authorize A now q MembersManage (Some w) d of
        (d1, Inl e) \<Rightarrow> (d1, Inl e)
      | (d1, Inr workspaceId) \<Rightarrow>
          if userId = [] then (d1, Inl (HttpStatus 400))
          else tryRoute 400 (addMembership A now workspaceId userId role None) d1)"

definition patchMember :: "access_env \<Rightarrow> string \<Rightarrow> request_auth \<Rightarrow> string \<Rightarrow> string \<Rightarrow> workspace_role \<Rightarrow> membership route" where
  "patchMember A now q w memberId role d =
     (case authorize A now q MembersManage (Some w) d of
        (d1, Inl e) \<Rightarrow> (d1, Inl e)
      | (d1, Inr workspaceId) \<Rightarrow>
          if \<not> list_ex (\<lambda>m. mb_id m = memberId) (listMembers workspaceId d1) then (d1, Inl (HttpStatus 404))
          else case tryRoute 400 (updateMembershipRole A now memberId role) d1 of
                 (d2, Inl e) \<Rightarrow> (d2, Inl e)
               | (d2, Inr None) \<Rightarrow> (d2, Inl (HttpStatus 404))
               | (d2, Inr (Some m)) \<Rightarrow> (d2, Inr m))"

definition deleteMember :: "access_env \<Rightarrow> string \<Rightarrow> request_auth \<Rightarrow> string \<Rightarrow> string \<Rightarrow> bool route" where
  "deleteMember A now q w memberId d =
     (case authorize A now q MembersManage (Some w) d of
        (d1, Inl e) \<Rightarrow> (d1, Inl e)
      | (d1, Inr workspaceId) \<Rightarrow>
          if \<not> list_ex (\<lambda>m. mb_id m = memberId) (listMembers workspaceId d1) then (d1, Inl (HttpStatus 404))
          else tryRoute 500 (removeMembership memberId) d1)"

text \<open>A request: one of these routes, the list of workspaces, or any other guarded route.\<close>

datatype access_request =
    CreateWs string
  | AddMember string string workspace_role
  | ChangeRole string string workspace_role
  | DeleteMember string string
  | ListWs
  | Guarded permission "string option"

fun handle :: "access_env \<Rightarrow> string \<Rightarrow> request_auth \<Rightarrow> access_request \<Rightarrow> directory \<Rightarrow> directory" where
  "handle A now q (CreateWs name) d = fst (postWorkspace A now q name d)"
| "handle A now q (AddMember w userId role) d = fst (postMember A now q w userId role d)"
| "handle A now q (ChangeRole w memberId role) d = fst (patchMember A now q w memberId role d)"
| "handle A now q (DeleteMember w memberId) d = fst (deleteMember A now q w memberId d)"
| "handle A now q ListWs d =
     (if ra_enabled q then fst (listWorkspacesForUser A now (requestActorId q) d)
      else fst (getDefaultWorkspaceForUser A now ''default'' d))"
| "handle A now q (Guarded p w) d = fst (authorize A now q p w d)"

end
