(* ===== verification/Access_Correct.thy ===== *)
theory Access_Correct
  imports Workspace_Routes
begin

text \<open>
  Properties of access control: the invariant of the directory, and that permissions in a workspace
  are handed out only by those who manage its members or own it.
\<close>

section \<open>The invariant\<close>

abbreviation mem :: "directory \<Rightarrow> string \<Rightarrow> membership option" where
  "mem d \<equiv> js_get (wd_memberships d)"

definition same_pair :: "membership \<Rightarrow> membership \<Rightarrow> bool" where
  "same_pair m n = (mb_userId m = mb_userId n \<and> mb_workspaceId m = mb_workspaceId n)"

definition dir_inv :: "directory \<Rightarrow> bool" where
  "dir_inv d \<longleftrightarrow> distinct (js_keys (wd_memberships d))
     \<and> (\<forall>k m. mem d k = Some m \<longrightarrow> mb_id m = k \<and> js_has (wd_workspaces d) (mb_workspaceId m))
     \<and> (\<forall>k m k' m'. mem d k = Some m \<longrightarrow> mem d k' = Some m' \<longrightarrow> same_pair m m' \<longrightarrow> k = k')
     \<and> (\<forall>k w. js_get (wd_workspaces d) k = Some w \<longrightarrow> ws_id w = k)
     \<and> (\<forall>k u. js_get (wd_users d) k = Some u \<longrightarrow> us_id u = k)"

definition owns :: "string \<Rightarrow> string \<Rightarrow> directory \<Rightarrow> bool" where
  "owns u w d = (\<exists>x. js_get (wd_workspaces d) w = Some x \<and> ws_ownerUserId x = u)"

lemma membership_value:
  assumes "dir_inv d"
  shows "x \<in> set (js_values (wd_memberships d)) \<longleftrightarrow> (\<exists>k. mem d k = Some x)"
proof -
  have "distinct (js_keys (wd_memberships d))" using assms by (simp add: dir_inv_def)
  then show ?thesis by (force simp: map_of_eq_Some_iff)
qed

lemma findMembership_iff:
  assumes "dir_inv d"
  shows "findMembership u w d = Some m \<longleftrightarrow> (\<exists>k. mem d k = Some m) \<and> mb_userId m = u \<and> mb_workspaceId m = w"
proof -
  have found: "(\<exists>k. mem d k = Some x) \<and> mb_userId x = u \<and> mb_workspaceId x = w" if "findMembership u w d = Some x" for x
    using that membership_value [OF assms, of x] by (auto simp: findMembership_def find_Some_iff)
  have "findMembership u w d = Some m" if m: "mem d k = Some m" "mb_userId m = u" "mb_workspaceId m = w" for k
  proof -
    have "m \<in> set (js_values (wd_memberships d))" using membership_value [OF assms] m(1) by blast
    then have "findMembership u w d \<noteq> None" using m(2,3) unfolding findMembership_def find_None_iff by blast
    then obtain x where x: "findMembership u w d = Some x" by blast
    from found [OF x] obtain k' where k': "mem d k' = Some x" and "same_pair m x" using m by (auto simp: same_pair_def)
    then have "k = k'" using assms m(1) unfolding dir_inv_def by blast
    with k' m(1) x show ?thesis by simp
  qed
  with found show ?thesis by blast
qed

lemma findMembership_None:
  assumes "dir_inv d" and "findMembership u w d = None" and "mem d k = Some m"
  shows "\<not> (mb_userId m = u \<and> mb_workspaceId m = w)"
  using findMembership_iff [OF assms(1), of u w m] assms(2,3) by auto

section \<open>What an operation may hand out\<close>

text \<open>
  From \<open>d\<close> to \<open>d'\<close> the invariant is kept, workspaces stay, and a membership of \<open>d'\<close> was there before,
  was granted (\<open>G\<close>), or is that of the actor \<open>a\<close> in a workspace of their own.
\<close>

definition evolves :: "string \<Rightarrow> (string \<Rightarrow> string \<Rightarrow> bool) \<Rightarrow> directory \<Rightarrow> directory \<Rightarrow> bool" where
  "evolves a G d d' \<longleftrightarrow> (dir_inv d \<longrightarrow> dir_inv d'
     \<and> (\<forall>k x. js_get (wd_workspaces d) k = Some x \<longrightarrow> js_get (wd_workspaces d') k = Some x)
     \<and> (\<forall>u w m. findMembership u w d' = Some m \<longrightarrow>
          findMembership u w d = Some m \<or> G u w \<or> (u = a \<and> owns a w d')))"

lemma evolves_refl [simp]: "evolves a G d d"
  by (simp add: evolves_def)

lemma owns_mono:
  "(\<forall>k x. js_get (wd_workspaces d) k = Some x \<longrightarrow> js_get (wd_workspaces d') k = Some x) \<Longrightarrow> owns u w d \<Longrightarrow> owns u w d'"
  by (auto simp: owns_def)

lemma evolves_trans: "evolves a G d d1 \<Longrightarrow> evolves a G d1 d2 \<Longrightarrow> evolves a G d d2"
  unfolding evolves_def using owns_mono [of d1 d2] by metis

lemma evolves_same:
  assumes "wd_memberships d' = wd_memberships d" and "wd_workspaces d' = wd_workspaces d"
    and "\<And>k u. js_get (wd_users d') k = Some u \<Longrightarrow> js_get (wd_users d) k = Some u \<or> us_id u = k"
  shows "evolves a G d d'"
proof -
  have "dir_inv d \<Longrightarrow> us_id u = k" if "js_get (wd_users d') k = Some u" for k u
    using assms(3) [OF that] by (auto simp: dir_inv_def)
  then show ?thesis using assms(1,2) by (simp add: evolves_def dir_inv_def findMembership_def)
qed

lemma evolves_bind:
  assumes "\<And>d. evolves a G d (fst (m d))" and "\<And>x d. evolves a G d (fst (f x d))"
  shows "evolves a G d (fst (bindD m f d))"
proof (cases "m d")
  case (Pair d1 r)
  have "evolves a G d d1" using assms(1) [of d] Pair by simp
  then show ?thesis using assms(2) Pair by (cases r) (auto simp: bindD_def intro: evolves_trans)
qed

lemma ensureUser_evolves: "evolves a G d (fst (ensureUser A now u d))"
  by (auto simp: ensureUser_def Let_def split: option.split intro!: evolves_same split: if_splits)

lemma next_free_fresh: "\<not> js_has m (mk_id p (next_free p m c))"
proof (induction p m c rule: next_free.induct)
  case (1 p m c)
  then show ?case by (subst (1) next_free.simps) auto
qed

lemma evolves_ids [simp]:
  "evolves a G d (fst (nextWorkspaceId d))" "evolves a G d (fst (nextMembershipId d))" "evolves a G d (fst (uniqueMembershipId i d))"
  by (auto simp: nextWorkspaceId_def nextMembershipId_def uniqueMembershipId_def Let_def intro!: evolves_same)

text \<open>Writing a membership: over the old one of the same pair, or when the pair has none.\<close>

lemma put_evolves:
  assumes "js_has (wd_workspaces d) (mb_workspaceId m)"
    and "dir_inv d \<Longrightarrow> (\<exists>m0. mem d (mb_id m) = Some m0 \<and> same_pair m0 m) \<or> findMembership (mb_userId m) (mb_workspaceId m) d = None"
    and "G (mb_userId m) (mb_workspaceId m) \<or> (mb_userId m = a \<and> owns a (mb_workspaceId m) d)"
  shows "evolves a G d (d\<lparr>wd_memberships := js_set (mb_id m) m (wd_memberships d)\<rparr>)"
  unfolding evolves_def
proof
  assume inv: "dir_inv d"
  let ?d = "d\<lparr>wd_memberships := js_set (mb_id m) m (wd_memberships d)\<rparr>"
  have uniq: "k = mb_id m" if "mem d k = Some x" "same_pair x m" for k x
  proof -
    from assms(2) [OF inv] show ?thesis
    proof
      assume "\<exists>m0. mem d (mb_id m) = Some m0 \<and> same_pair m0 m"
      then obtain m0 where "mem d (mb_id m) = Some m0" "same_pair m0 m" by blast
      moreover from this that have "same_pair x m0" by (simp add: same_pair_def)
      ultimately show ?thesis using inv that(1) unfolding dir_inv_def by blast
    next
      assume "findMembership (mb_userId m) (mb_workspaceId m) d = None"
      from findMembership_None [OF inv this that(1)] that(2) show ?thesis by (simp add: same_pair_def)
    qed
  qed
  have inv': "dir_inv ?d"
    unfolding dir_inv_def
  proof (intro conjI allI impI)
    show "distinct (js_keys (wd_memberships ?d))" using inv by (simp add: dir_inv_def distinct_js_set)
    show "mb_id x = k" "js_has (wd_workspaces ?d) (mb_workspaceId x)" if "mem ?d k = Some x" for k x
      using that inv assms(1) by (auto simp: dir_inv_def split: if_splits)
    show "k = k'" if "mem ?d k = Some x" "mem ?d k' = Some x'" "same_pair x x'" for k x k' x'
    proof -
      have sym: "same_pair x' x" using that(3) by (simp add: same_pair_def)
      show ?thesis using that sym uniq inv unfolding dir_inv_def by (auto split: if_splits)
    qed
    show "ws_id x = k" if "js_get (wd_workspaces ?d) k = Some x" for k x using that inv by (simp add: dir_inv_def)
    show "us_id x = k" if "js_get (wd_users ?d) k = Some x" for k x using that inv by (simp add: dir_inv_def)
  qed
  have "findMembership u w d = Some x \<or> G u w \<or> (u = a \<and> owns a w ?d)" if "findMembership u w ?d = Some x" for u w x
    using that assms(3) unfolding findMembership_iff [OF inv] findMembership_iff [OF inv']
    by (auto simp: owns_def split: if_splits)
  with inv' show "dir_inv ?d
     \<and> (\<forall>k x. js_get (wd_workspaces d) k = Some x \<longrightarrow> js_get (wd_workspaces ?d) k = Some x)
     \<and> (\<forall>u w x. findMembership u w ?d = Some x \<longrightarrow> findMembership u w d = Some x \<or> G u w \<or> (u = a \<and> owns a w ?d))"
    by simp
qed

lemma evolvesI: "(dir_inv d \<Longrightarrow> evolves a G d d') \<Longrightarrow> evolves a G d d'"
  by (auto simp: evolves_def)

lemma add_workspace_evolves:
  assumes "\<not> js_has (wd_workspaces d) (ws_id w)"
  shows "evolves a G d (d\<lparr>wd_workspaces := js_set (ws_id w) w (wd_workspaces d)\<rparr>)"
  using assms by (auto simp: evolves_def dir_inv_def findMembership_def js_has_def)

lemma no_members_yet:
  assumes "dir_inv d" and "\<not> js_has (wd_workspaces d) w"
  shows "findMembership u w d = None"
proof (rule ccontr)
  assume "findMembership u w d \<noteq> None"
  then obtain m where "findMembership u w d = Some m" by blast
  then obtain k where "mem d k = Some m" "mb_workspaceId m = w" using findMembership_iff [OF assms(1)] by blast
  with assms show False by (auto simp: dir_inv_def)
qed

lemma uniqueMembershipId_result:
  "\<exists>c i. uniqueMembershipId pref d = (d\<lparr>wd_membershipCounter := c\<rparr>, Inr i)"
  "\<exists>c i. nextMembershipId d = (d\<lparr>wd_membershipCounter := c\<rparr>, Inr i)"
  by (auto simp: uniqueMembershipId_def nextMembershipId_def Let_def intro: exI [of _ "wd_membershipCounter d"])

lemma putMembership_evolves:
  assumes "js_has (wd_workspaces d) (mb_workspaceId m)"
    and "dir_inv d \<Longrightarrow> (\<exists>m0. mem d (mb_id m) = Some m0 \<and> same_pair m0 m) \<or> findMembership (mb_userId m) (mb_workspaceId m) d = None"
    and "G (mb_userId m) (mb_workspaceId m) \<or> (mb_userId m = a \<and> owns a (mb_workspaceId m) d)"
  shows "evolves a G d (fst (putMembership A m d))"
  using put_evolves [where G = G and a = a and d = d and m = m, OF assms] by (simp add: putMembership_def)

lemma new_member_evolves:
  assumes "ident d = (d\<lparr>wd_membershipCounter := c\<rparr>, Inr i)" and "js_has (wd_workspaces d) w"
    and "findMembership u w d = None" and "G u w \<or> (u = a \<and> owns a w d)"
    and "\<And>d. fst (put i d) = fst (putMembership A (new_membership now i w u role) d)"
  shows "evolves a G d (fst (bindD ident put d))"
proof -
  let ?d = "d\<lparr>wd_membershipCounter := c\<rparr>" and ?m = "new_membership now i w u role"
  have "evolves a G d ?d" by (rule evolves_same) simp_all
  moreover have "evolves a G ?d (fst (putMembership A ?m ?d))"
    by (rule putMembership_evolves) (use assms in \<open>simp_all add: new_membership_def findMembership_def owns_def\<close>)
  ultimately have "evolves a G d (fst (putMembership A ?m ?d))" by (rule evolves_trans)
  then show ?thesis using assms(1,5) by (simp add: bindD_def)
qed

lemma fst_bind_return [simp]: "fst (bindD m (\<lambda>_. returnD y) d) = fst (m d)"
  by (auto simp: bindD_def returnD_def split: prod.split sum.split)

lemma addOwner_evolves:
  assumes "js_has (wd_workspaces d) (ws_id w)" and "findMembership u (ws_id w) d = None" and "owns u (ws_id w) d"
  shows "evolves u G d (fst (addOwner A now w u d))"
proof -
  from uniqueMembershipId_result(1) obtain c i where
    "uniqueMembershipId (''member-'' @ ws_id w @ ''-'' @ sanitizeUserId u) d = (d\<lparr>wd_membershipCounter := c\<rparr>, Inr i)" by blast
  then show ?thesis unfolding addOwner_def
    by (rule new_member_evolves [where role = RoleOwner]) (use assms in simp_all)
qed

lemma createPersonal_evolves: "evolves u G d (fst (createPersonal A now u d))"
proof (rule evolvesI)
  assume inv: "dir_inv d"
  let ?w = "\<lparr>ws_id = workspaceIdForUser A u, ws_name = workspaceNameForUser u, ws_ownerUserId = u,
      ws_createdAt = now, ws_updatedAt = now\<rparr>"
  let ?d = "d\<lparr>wd_workspaces := js_set (ws_id ?w) ?w (wd_workspaces d)\<rparr>"
  show "evolves u G d (fst (createPersonal A now u d))"
  proof (cases "\<not> WorkspaceSchema A ?w \<or> js_has (wd_workspaces d) (ws_id ?w)")
    case True
    then show ?thesis by (auto simp: createPersonal_def Let_def)
  next
    case False
    have "evolves u G d ?d" using False by (intro add_workspace_evolves) simp
    moreover have "evolves u G ?d (fst (addOwner A now ?w u ?d))"
    proof (rule addOwner_evolves)
      show "js_has (wd_workspaces ?d) (ws_id ?w)" by (simp add: js_has_def)
      show "findMembership u (ws_id ?w) ?d = None"
        using no_members_yet [OF inv, of "ws_id ?w" u] False by (simp add: findMembership_def)
      show "owns u (ws_id ?w) ?d" by (simp add: owns_def)
    qed
    ultimately have "evolves u G d (fst (addOwner A now ?w u ?d))" by (rule evolves_trans)
    then show ?thesis using False by (simp add: createPersonal_def Let_def)
  qed
qed

lemma ownedPersonal_Some:
  assumes "dir_inv d" and "ownedPersonal A u d = Some w"
  shows "js_has (wd_workspaces d) (ws_id w) \<and> owns u (ws_id w) d"
  using assms by (auto simp: ownedPersonal_def dir_inv_def owns_def js_has_def split: option.splits if_splits)

lemma ensureUser_id:
  assumes "dir_inv d" and "ensureUser A now u d = (d1, Inr x)"
  shows "us_id x = u"
  using assms by (auto simp: ensureUser_def dir_inv_def Let_def split: option.splits if_splits)

lemma ensurePersonal_evolves: "evolves u G d (fst (ensurePersonalWorkspace A now u d))"
proof (rule evolvesI)
  assume inv: "dir_inv d"
  obtain d1 r where e: "ensureUser A now u d = (d1, r)" by force
  have step: "evolves u G d d1" using ensureUser_evolves [of u G d A now u] e by simp
  then have inv1: "dir_inv d1" using inv by (simp add: evolves_def)
  show "evolves u G d (fst (ensurePersonalWorkspace A now u d))"
  proof (cases r)
    case (Inl err)
    then show ?thesis using step e by (simp add: ensurePersonalWorkspace_def bindD_def)
  next
    case (Inr x)
    with e ensureUser_id [OF inv] have x: "us_id x = u" by simp
    have "evolves u G d1 (fst (ensurePersonalWorkspace A now u d))"
    proof (cases "ownedPersonal A u d1")
      case None
      then show ?thesis using createPersonal_evolves e Inr x by (simp add: ensurePersonalWorkspace_def bindD_def)
    next
      case (Some w)
      from addOwner_evolves ownedPersonal_Some [OF inv1 Some]
      have "findMembership u (ws_id w) d1 = None \<Longrightarrow> evolves u G d1 (fst (addOwner A now w u d1))" by blast
      then show ?thesis using Some e Inr x by (simp add: ensurePersonalWorkspace_def bindD_def split: option.split)
    qed
    with step show ?thesis by (rule evolves_trans)
  qed
qed

text \<open>The operations that act for one user.\<close>

lemma own_operations_evolve:
  "evolves u G d (fst (getDefaultWorkspaceForUser A now u d))"
  "evolves u G d (fst (listWorkspacesForUser A now u d))"
  "evolves u G d (fst (getMembership A now u w d))"
proof -
  show "evolves u G d (fst (getDefaultWorkspaceForUser A now u d))"
    by (simp add: getDefaultWorkspaceForUser_def ensurePersonal_evolves split: list.split option.split)
  have provide: "evolves u G d (fst (if b d then bindD (ensurePersonalWorkspace A now u) (\<lambda>_. returnD ()) d else (d, Inr ())))" for b d
    by (simp add: ensurePersonal_evolves)
  show "evolves u G d (fst (listWorkspacesForUser A now u d))"
    unfolding listWorkspacesForUser_def by (rule evolves_bind) (rule provide, simp)
  show "evolves u G d (fst (getMembership A now u w d))"
    unfolding getMembership_def by (rule evolves_bind) (rule provide, simp)
qed

lemma createWorkspace_evolves: "evolves u G d (fst (createWorkspace A now name u ident d))"
  unfolding createWorkspace_def Let_def
proof (intro evolves_bind ensureUser_evolves)
  fix d :: directory
  show "evolves u G d (fst ((case ident of Some i \<Rightarrow> returnD i | None \<Rightarrow> nextWorkspaceId) d))"
    by (simp add: returnD_def split: option.split)
next
  fix i and d :: directory
  let ?w = "\<lparr>ws_id = i, ws_name = name, ws_ownerUserId = u, ws_createdAt = now, ws_updatedAt = now\<rparr>"
  let ?d = "d\<lparr>wd_workspaces := js_set i ?w (wd_workspaces d)\<rparr>"
  let ?put = "bindD nextMembershipId (\<lambda>memberId. bindD (putMembership A (new_membership now memberId i u RoleOwner)) (\<lambda>_. returnD ?w))"
  have "evolves u G d (fst (?put ?d))" if fresh: "\<not> js_has (wd_workspaces d) i"
  proof (rule evolvesI)
    assume inv: "dir_inv d"
    from uniqueMembershipId_result(2) obtain c k where n: "nextMembershipId ?d = (?d\<lparr>wd_membershipCounter := c\<rparr>, Inr k)" by blast
    have "evolves u G d ?d" using add_workspace_evolves [of d ?w] fresh by simp
    moreover have "evolves u G ?d (fst (?put ?d))"
      by (rule new_member_evolves [where role = RoleOwner and w = i and u = u and c = c and i = k])
        (use n no_members_yet [OF inv fresh] in \<open>simp_all add: js_has_def findMembership_def owns_def\<close>)
    ultimately show "evolves u G d (fst (?put ?d))" by (rule evolves_trans)
  qed
  then show "evolves u G d (fst (if \<not> WorkspaceSchema A ?w then (d, Inl DirectoryZodError)
          else if js_has (wd_workspaces d) i then (d, Inl WorkspaceIdExists) else ?put ?d))"
    by simp
qed

lemma addMembership_evolves:
  "evolves a (\<lambda>u w. u = target \<and> w = workspaceId) d (fst (addMembership A now workspaceId target role ident d))"
  unfolding addMembership_def
proof (intro evolves_bind ensureUser_evolves)
  fix x and d :: directory
  let ?G = "\<lambda>u w. u = target \<and> w = workspaceId"
  let ?ident = "case ident of Some i \<Rightarrow> returnD i | None \<Rightarrow> nextMembershipId"
  let ?put = "\<lambda>i. putMembership A (new_membership now i workspaceId target role)"
  have old: "evolves a ?G d (fst (putMembership A (m\<lparr>mb_role := role, mb_updatedAt := now\<rparr>) d))"
    if "findMembership target workspaceId d = Some m" "js_has (wd_workspaces d) workspaceId" for m
  proof (rule evolvesI)
    assume inv: "dir_inv d"
    with that(1) findMembership_iff obtain k where m: "mem d k = Some m" "mb_userId m = target" "mb_workspaceId m = workspaceId"
      by blast
    then have "mb_id m = k" using inv by (simp add: dir_inv_def)
    with m that(2) show ?thesis by (intro putMembership_evolves) (auto simp: same_pair_def)
  qed
  have fresh: "evolves a ?G d (fst (bindD ?ident ?put d))"
    if none: "findMembership target workspaceId d = None" and has: "js_has (wd_workspaces d) workspaceId"
  proof -
    have "\<exists>c i. ?ident d = (d\<lparr>wd_membershipCounter := c\<rparr>, Inr i)"
      using uniqueMembershipId_result(2) by (auto simp: returnD_def intro: exI [of _ "wd_membershipCounter d"] split: option.split)
    then obtain c i where i: "?ident d = (d\<lparr>wd_membershipCounter := c\<rparr>, Inr i)" by blast
    show ?thesis by (rule new_member_evolves [where c = c and i = i]) (use i has none in simp_all)
  qed
  show "evolves a ?G d (fst (if \<not> js_has (wd_workspaces d) workspaceId then (d, Inl WorkspaceNotFound)
       else case findMembership target workspaceId d of
              Some m \<Rightarrow> putMembership A (m\<lparr>mb_role := role, mb_updatedAt := now\<rparr>) d
            | None \<Rightarrow> bindD ?ident ?put d))"
    using old fresh by (auto split: option.split)
qed

lemma updateMembershipRole_evolves:
  "evolves a (\<lambda>u w. \<exists>m. mem d memberId = Some m \<and> mb_userId m = u \<and> mb_workspaceId m = w) d
     (fst (updateMembershipRole A now memberId role d))"
proof (rule evolvesI)
  assume inv: "dir_inv d"
  let ?G = "\<lambda>u w. \<exists>m. mem d memberId = Some m \<and> mb_userId m = u \<and> mb_workspaceId m = w"
  show "evolves a ?G d (fst (updateMembershipRole A now memberId role d))"
  proof (cases "mem d memberId")
    case None
    then show ?thesis by (simp add: updateMembershipRole_def)
  next
    case (Some m)
    let ?m = "m\<lparr>mb_role := role, mb_updatedAt := now\<rparr>"
    have "mb_id m = memberId" "js_has (wd_workspaces d) (mb_workspaceId m)" using inv Some by (auto simp: dir_inv_def)
    with Some put_evolves [of d ?m ?G a] show ?thesis
      by (auto simp: updateMembershipRole_def Let_def same_pair_def)
  qed
qed

lemma removeMembership_evolves: "evolves a G d (fst (removeMembership memberId d))"
proof (rule evolvesI)
  assume inv: "dir_inv d"
  let ?d = "d\<lparr>wd_memberships := js_delete memberId (wd_memberships d)\<rparr>"
  have inv': "dir_inv ?d" using inv by (auto simp: dir_inv_def distinct_js_delete split: if_splits)
  have "findMembership u w d = Some m" if "findMembership u w ?d = Some m" for u w m
    using that unfolding findMembership_iff [OF inv] findMembership_iff [OF inv'] by (auto split: if_splits)
  with inv' show "evolves a G d (fst (removeMembership memberId d))" by (simp add: evolves_def removeMembership_def)
qed

section \<open>Requests\<close>

text \<open>What a user may do in a workspace, as the guard decides it.\<close>

definition permitted :: "directory \<Rightarrow> string \<Rightarrow> string \<Rightarrow> permission \<Rightarrow> bool" where
  "permitted d u w p = (case findMembership u w d of None \<Rightarrow> False | Some m \<Rightarrow> canRole (mb_role m) p)"

lemma evolves_inv: "evolves a G d d' \<Longrightarrow> dir_inv d \<Longrightarrow> dir_inv d'"
  by (simp add: evolves_def)

lemma getMembership_Inr: "getMembership A now u w d = (d', Inr x) \<Longrightarrow> findMembership u w d' = x"
  by (auto simp: getMembership_def bindD_def returnD_def split: if_splits prod.splits sum.splits)

lemma resolve_evolves:
  assumes "ra_enabled q" and "resolveRequestWorkspace A now q requested d = (d', r)"
  shows "evolves (requestActorId q) G d d'"
    and "r = Inr (w, role) \<Longrightarrow> \<exists>m. findMembership (requestActorId q) w d' = Some m \<and> mb_role m = role"
proof -
  show "evolves (requestActorId q) G d d'"
  proof (cases "ra_user q")
    case None
    with assms show ?thesis by (simp add: resolveRequestWorkspace_def)
  next
    case (Some u)
    obtain d1 x where s: "requestedWorkspace A now u requested d = (d1, x)" by force
    have "fst (bindD m (\<lambda>x. returnD (Some x)) d) = fst (m d)" for m :: "workspace dir_op" and d
      by (auto simp: bindD_def returnD_def split: prod.split sum.split)
    then have "evolves u G d d1"
      using own_operations_evolve(1) [of u G d A now] arg_cong [OF s, of fst]
      by (auto simp: requestedWorkspace_def split: option.splits if_splits)
    moreover have "evolves u G d1 (fst (getMembership A now u w d1))" for w by (rule own_operations_evolve(3))
    then have "evolves u G d1 d'"
      using assms Some s by (auto simp: resolveRequestWorkspace_def split: option.splits sum.splits prod.splits) (metis fst_conv)+
    ultimately show ?thesis using Some by (auto simp: requestActorId_def intro: evolves_trans)
  qed
  show "\<exists>m. findMembership (requestActorId q) w d' = Some m \<and> mb_role m = role" if "r = Inr (w, role)"
    using assms that
    by (auto simp: resolveRequestWorkspace_def requestActorId_def split: option.splits sum.splits prod.splits
        dest!: getMembership_Inr)
qed

lemma authorize_evolves:
  assumes "ra_enabled q" and "authorize A now q p requested d = (d', r)"
  shows "evolves (requestActorId q) G d d'" and "r = Inr w \<Longrightarrow> permitted d' (requestActorId q) w p"
proof -
  obtain d1 x where res: "resolveRequestWorkspace A now q requested d = (d1, x)" by force
  note facts = resolve_evolves [OF assms(1) res]
  have d': "d' = d1" using assms(2) res by (auto simp: authorize_def split: sum.splits permission_result.splits)
  with facts(1) show "evolves (requestActorId q) G d d'" by simp
  show "permitted d' (requestActorId q) w p" if "r = Inr w"
    using assms that res facts(2) d'
    by (auto simp: authorize_def permitted_def requirePermission_def Let_def split: sum.splits if_splits prod.splits)
qed

lemma tryRoute_fst [simp]: "fst (tryRoute status m d) = fst (m d)"
  by (auto simp: tryRoute_def split: prod.split sum.split)

text \<open>
  A request is an authorised phase that hands out nothing but the actor's own workspaces, followed by
  grants in a workspace whose members the actor then manages.
\<close>

lemma handle_phases:
  assumes "ra_enabled q" and "dir_inv d"
  shows "\<exists>d1 G. evolves (requestActorId q) (\<lambda>_ _. False) d d1 \<and> evolves (requestActorId q) G d1 (handle A now q req d)
     \<and> (\<forall>u w. G u w \<longrightarrow> permitted d1 (requestActorId q) w MembersManage)"
proof -
  let ?a = "requestActorId q" and ?none = "\<lambda>(_ :: string) (_ :: string). False"
  have own: ?thesis if "evolves ?a ?none d (handle A now q req d)" using that evolves_refl by blast
  have guarded: ?thesis
    if "authorize A now q MembersManage r d = (d1, x)"
      and "\<And>w. x = Inr w \<Longrightarrow> handle A now q req d = d1 \<or> evolves ?a (G w) d1 (handle A now q req d) \<and> (\<forall>u w'. G w u w' \<longrightarrow> w' = w)"
      and "\<And>e. x = Inl e \<Longrightarrow> handle A now q req d = d1" for r d1 x G
  proof -
    note auth = authorize_evolves [OF assms(1) that(1)]
    show ?thesis
    proof (cases x)
      case (Inl e)
      then show ?thesis using that(3) auth(1) own by metis
    next
      case (Inr w)
      then show ?thesis using that(2) auth own by metis
    qed
  qed
  show ?thesis
  proof (cases req)
    case (CreateWs name)
    have "evolves ?a ?none d (handle A now q req d)"
      by (simp add: CreateWs postWorkspace_def createWorkspace_evolves)
    then show ?thesis by (rule own)
  next
    case ListWs
    then have "evolves ?a ?none d (handle A now q req d)" using assms(1) own_operations_evolve(2) by simp
    then show ?thesis by (rule own)
  next
    case (Guarded p w)
    obtain d1 x where "authorize A now q p w d = (d1, x)" by force
    with authorize_evolves(1) [OF assms(1) this] Guarded show ?thesis by (intro own) simp
  next
    case (AddMember w u role)
    obtain d1 x where a: "authorize A now q MembersManage (Some w) d = (d1, x)" by force
    show ?thesis
      by (rule guarded [OF a, where G = "\<lambda>w v w'. v = u \<and> w' = w"])
        (use a addMembership_evolves in \<open>auto simp: AddMember postMember_def\<close>)
  next
    case (ChangeRole w memberId role)
    obtain d1 x where a: "authorize A now q MembersManage (Some w) d = (d1, x)" by force
    have inv: "dir_inv d1" using authorize_evolves(1) [OF assms(1) a] assms(2) evolves_inv by blast
    have pair: "mb_workspaceId m = w'" if "list_ex (\<lambda>m. mb_id m = memberId) (listMembers w' d1)" "mem d1 memberId = Some m" for w' m
    proof -
      from that(1) obtain n where n: "n \<in> set (js_values (wd_memberships d1))" "mb_workspaceId n = w'" "mb_id n = memberId"
        by (auto simp: list_ex_iff listMembers_def)
      then obtain k where "mem d1 k = Some n" using membership_value [OF inv] by blast
      with n inv have "mem d1 memberId = Some n" by (auto simp: dir_inv_def)
      with that(2) n show ?thesis by simp
    qed
    have fst_patch: "fst (case tryRoute 400 (updateMembershipRole A now memberId role) d1 of
                 (d2, Inl e) \<Rightarrow> (d2, Inl e)
               | (d2, Inr None) \<Rightarrow> (d2, Inl (HttpStatus 404))
               | (d2, Inr (Some m)) \<Rightarrow> (d2, Inr m)) = fst (updateMembershipRole A now memberId role d1)"
      by (auto simp: tryRoute_def split: prod.split sum.split option.split)
    show ?thesis
      by (rule guarded [OF a, where G = "\<lambda>w' u v. \<exists>m. mem d1 memberId = Some m \<and> mb_userId m = u \<and> mb_workspaceId m = v"])
        (use a pair updateMembershipRole_evolves fst_patch in \<open>auto simp: ChangeRole patchMember_def\<close>)
  next
    case (DeleteMember w memberId)
    obtain d1 x where a: "authorize A now q MembersManage (Some w) d = (d1, x)" by force
    show ?thesis
      by (rule guarded [OF a, where G = "\<lambda>_ _ _. False"])
        (use a removeMembership_evolves in \<open>auto simp: DeleteMember deleteMember_def\<close>)
  qed
qed

text \<open>
  C27: With authentication on, every request keeps the directory consistent (one membership per user and
  workspace, memberships only in existing workspaces), and nobody gains a permission in a workspace
  except through a request of somebody who managed its members before or who owns it.
\<close>

theorem access_only_by_managers:
  assumes "ra_enabled q" and "dir_inv d"
  shows "dir_inv (handle A now q req d)
    \<and> (permitted (handle A now q req d) u w p \<and> \<not> permitted d u w p \<longrightarrow>
         permitted d (requestActorId q) w MembersManage \<or> owns (requestActorId q) w (handle A now q req d))"
proof -
  let ?a = "requestActorId q" and ?d = "handle A now q req d"
  from handle_phases [OF assms] obtain d1 G where
    e1: "evolves ?a (\<lambda>_ _. False) d d1" and e2: "evolves ?a G d1 ?d"
    and G: "\<And>u w. G u w \<Longrightarrow> permitted d1 ?a w MembersManage" by blast
  have inv1: "dir_inv d1" and inv2: "dir_inv ?d" using e1 e2 assms(2) evolves_inv by blast+
  have keep: "owns u w d1 \<Longrightarrow> owns u w ?d" for u w using e2 inv1 owns_mono unfolding evolves_def by blast
  have before: "findMembership u w d = Some m \<or> (u = ?a \<and> owns ?a w ?d)" if "findMembership u w d1 = Some m" for u w m
    using e1 assms(2) that keep unfolding evolves_def by blast
  have managed: "permitted d ?a w MembersManage \<or> owns ?a w ?d" if "permitted d1 ?a w MembersManage" for w
    using that before [of ?a w] by (auto simp: permitted_def split: option.splits)
  have "permitted d ?a w MembersManage \<or> owns ?a w ?d" if p: "permitted ?d u w p" "\<not> permitted d u w p"
  proof -
    from p(1) obtain m where m: "findMembership u w ?d = Some m" "canRole (mb_role m) p"
      by (auto simp: permitted_def split: option.splits)
    then consider "findMembership u w d1 = Some m" | "G u w" | "u = ?a \<and> owns ?a w ?d"
      using e2 inv1 unfolding evolves_def by blast
    then show ?thesis
    proof cases
      case 1
      with before [of u w m] m(2) p(2) show ?thesis by (auto simp: permitted_def)
    next
      case 2
      with G managed show ?thesis by blast
    qed blast
  qed
  with inv2 show ?thesis by blast
qed

definition sample_access :: access_env where
  "sample_access = \<lparr>ae_isDatetime = (\<lambda>s. s \<noteq> []), ae_isEmail = (\<lambda>_. True), ae_digest8 = (\<lambda>s. take 8 s), ae_autoProvision = True\<rparr>"

definition as_user :: "string \<Rightarrow> request_auth" where
  "as_user u = \<lparr>ra_enabled = True, ra_user = Some u\<rparr>"

lemma empty_directory_inv: "dir_inv empty_directory"
  by (simp add: dir_inv_def empty_directory_def)

theorem access_only_by_managers_witness:
  "permitted (handle sample_access ''t'' (as_user ''al'') (CreateWs ''W'') empty_directory) ''al'' ''ws-1'' RunsCreate
   \<and> owns ''al'' ''ws-1'' (handle sample_access ''t'' (as_user ''al'') (CreateWs ''W'') empty_directory)"
proof -
  have "permitted (handle sample_access ''t'' (as_user ''al'') (CreateWs ''W'') empty_directory) ''al'' ''ws-1'' RunsCreate"
    "\<not> permitted empty_directory ''al'' ''ws-1'' p" "requestActorId (as_user ''al'') = ''al''" for p
    by code_simp+
  moreover have "ra_enabled (as_user ''al'')" by (simp add: as_user_def)
  ultimately show ?thesis
    using access_only_by_managers [OF _ empty_directory_inv, of "as_user ''al''" sample_access "''t''" "CreateWs ''W''" "''al''" "''ws-1''" RunsCreate]
    by metis
qed

text \<open>An administrator, who may not rotate secrets, becomes owner by changing their own role.\<close>

lemma administrator_takes_ownership:
  assumes "dir_inv d" and "mem d k = Some m" and "mb_role m = RoleAdmin" and "WorkspaceMembershipSchema A (m\<lparr>mb_role := RoleOwner, mb_updatedAt := now\<rparr>)"
    and "\<not> ae_autoProvision A" and "q = \<lparr>ra_enabled = True, ra_user = Some (mb_userId m)\<rparr>" and "mb_workspaceId m \<noteq> []"
  shows "\<not> permitted d (mb_userId m) (mb_workspaceId m) SecretsRotate
    \<and> permitted (handle A now q (ChangeRole (mb_workspaceId m) k RoleOwner) d) (mb_userId m) (mb_workspaceId m) SecretsRotate"
proof -
  have find: "findMembership (mb_userId m) (mb_workspaceId m) d = Some m" using findMembership_iff [OF assms(1)] assms(2) by blast
  have m: "mb_id m = k" "js_has (wd_workspaces d) (mb_workspaceId m)" using assms(1,2) by (auto simp: dir_inv_def)
  then obtain x where x: "js_get (wd_workspaces d) (mb_workspaceId m) = Some x" by (auto simp: js_has_def)
  then have "ws_id x = mb_workspaceId m" using assms(1) by (simp add: dir_inv_def)
  then have auth: "authorize A now q MembersManage (Some (mb_workspaceId m)) d = (d, Inr (mb_workspaceId m))"
    using assms(3,5,6,7) x find
    by (simp add: authorize_def resolveRequestWorkspace_def requestedWorkspace_def getMembership_def bindD_def
        requirePermission_def canRole_def)
  let ?d = "d\<lparr>wd_memberships := js_set k (m\<lparr>mb_role := RoleOwner, mb_updatedAt := now\<rparr>) (wd_memberships d)\<rparr>"
  have "m \<in> set (js_values (wd_memberships d))" using membership_value [OF assms(1)] assms(2) by blast
  then have "list_ex (\<lambda>m. mb_id m = k) (listMembers (mb_workspaceId m) d)" using m(1) by (auto simp: list_ex_iff listMembers_def)
  then have h: "handle A now q (ChangeRole (mb_workspaceId m) k RoleOwner) d = ?d"
    using auth assms(2,4) by (simp add: patchMember_def tryRoute_def updateMembershipRole_def Let_def)
  have "dir_inv ?d" using evolves_inv [OF updateMembershipRole_evolves [of "[]" d k A now RoleOwner] assms(1)] assms(2,4)
    by (simp add: updateMembershipRole_def Let_def)
  then have "findMembership (mb_userId m) (mb_workspaceId m) ?d = Some (m\<lparr>mb_role := RoleOwner, mb_updatedAt := now\<rparr>)"
    using findMembership_iff [of ?d "mb_userId m" "mb_workspaceId m" "m\<lparr>mb_role := RoleOwner, mb_updatedAt := now\<rparr>"] by auto
  then show ?thesis using h find assms(3) by (simp add: permitted_def canRole_def PERMISSIONS_def)
qed

end
