(* ===== verification/Quotas.thy ===== *)
theory Quotas
  imports Rector_Prelude
begin

text \<open>
  Workspace quotas, \<open>src/security/quotas.ts\<close>. The service keeps a policy and the usage of each
  workspace; a date is the text \<open>toISOString\<close> returns, of which the first ten characters name the day
  and the first seven the month. Workspace identifiers are not empty, so the parse in \<open>emptyUsage\<close>
  succeeds. \<open>structuredClone\<close> disappears. \<open>numStr\<close> renders numbers in reasons.
\<close>

record quota_policy =
  qp_maxRunsPerDay :: "int option"
  qp_maxUsdPerDay :: "rat option"
  qp_maxUsdPerMonth :: "rat option"
  qp_maxProviderCallsPerRun :: "int option"
  qp_maxSandboxMinutesPerDay :: "rat option"
  qp_maxStorageMb :: "rat option"

definition no_policy :: quota_policy where
  "no_policy = \<lparr>qp_maxRunsPerDay = None, qp_maxUsdPerDay = None, qp_maxUsdPerMonth = None, qp_maxProviderCallsPerRun = None,
     qp_maxSandboxMinutesPerDay = None, qp_maxStorageMb = None\<rparr>"

definition optNonNeg :: "'a::{zero,ord} option \<Rightarrow> bool" where
  "optNonNeg v = (case v of None \<Rightarrow> True | Some x \<Rightarrow> 0 \<le> x)"

definition QuotaPolicySchema :: "quota_policy \<Rightarrow> bool" where
  "QuotaPolicySchema p = (optNonNeg (qp_maxRunsPerDay p) \<and> optNonNeg (qp_maxUsdPerDay p) \<and> optNonNeg (qp_maxUsdPerMonth p)
     \<and> optNonNeg (qp_maxProviderCallsPerRun p) \<and> optNonNeg (qp_maxSandboxMinutesPerDay p) \<and> optNonNeg (qp_maxStorageMb p))"

record quota_usage =
  qu_workspaceId :: string
  qu_day :: string
  qu_month :: string
  qu_runsToday :: int
  qu_usdToday :: rat
  qu_usdMonth :: rat
  qu_sandboxMinutesToday :: rat
  qu_storageMb :: rat
  qu_providerCallsByRun :: "(string, int) js_map"

record quota_service =
  qs_policies :: "(string, quota_policy) js_map"
  qs_usage :: "(string, quota_usage) js_map"

datatype quota_check = Allowed quota_policy quota_usage | Denied string quota_policy quota_usage

datatype quota_error = InvalidDelta string | QuotaZodError

definition dayKey :: "string \<Rightarrow> string" where
  "dayKey date = take 10 date"

definition monthKey :: "string \<Rightarrow> string" where
  "monthKey date = take 7 date"

definition emptyUsage :: "string \<Rightarrow> string \<Rightarrow> quota_usage" where
  "emptyUsage workspaceId date =
     \<lparr>qu_workspaceId = workspaceId, qu_day = dayKey date, qu_month = monthKey date, qu_runsToday = 0, qu_usdToday = 0,
      qu_usdMonth = 0, qu_sandboxMinutesToday = 0, qu_storageMb = 0, qu_providerCallsByRun = []\<rparr>"

text \<open>\<open>nonNegativeUsageDelta\<close> on a value that is absent or a number.\<close>

definition nonNegativeUsageDelta :: "jsnum option \<Rightarrow> rat option" where
  "nonNegativeUsageDelta v = (case v of None \<Rightarrow> Some 0 | Some (Fin q) \<Rightarrow> if 0 \<le> q then Some q else None | _ \<Rightarrow> None)"

section \<open>State\<close>

definition getCurrentUsage :: "string \<Rightarrow> string \<Rightarrow> quota_service \<Rightarrow> quota_usage \<times> quota_service" where
  "getCurrentUsage date workspaceId s =
     (let reset = (emptyUsage workspaceId date)
            \<lparr>qu_storageMb := (case js_get (qs_usage s) workspaceId of None \<Rightarrow> 0 | Some e \<Rightarrow> qu_storageMb e)\<rparr>;
          fresh = (reset, s\<lparr>qs_usage := js_set workspaceId reset (qs_usage s)\<rparr>)
      in case js_get (qs_usage s) workspaceId of
           None \<Rightarrow> fresh
         | Some e \<Rightarrow> if qu_day e \<noteq> dayKey date \<or> qu_month e \<noteq> monthKey date then fresh else (e, s))"

definition currentPolicy :: "string \<Rightarrow> quota_service \<Rightarrow> quota_policy" where
  "currentPolicy workspaceId s = (case js_get (qs_policies s) workspaceId of None \<Rightarrow> no_policy | Some p \<Rightarrow> p)"

definition setUsage :: "string \<Rightarrow> quota_usage \<Rightarrow> quota_service \<Rightarrow> quota_service" where
  "setUsage workspaceId u s = s\<lparr>qs_usage := js_set workspaceId u (qs_usage s)\<rparr>"

definition setPolicy :: "string \<Rightarrow> quota_policy \<Rightarrow> quota_service \<Rightarrow> quota_service \<times> (quota_error, quota_policy) result" where
  "setPolicy workspaceId p s =
     (if QuotaPolicySchema p then (s\<lparr>qs_policies := js_set workspaceId p (qs_policies s)\<rparr>, Inr p) else (s, Inl QuotaZodError))"

section \<open>Checks\<close>

definition exceeds :: "'a::ord \<Rightarrow> 'a option \<Rightarrow> bool" where
  "exceeds x limit = (case limit of None \<Rightarrow> False | Some l \<Rightarrow> l < x)"

definition limitText :: "(rat \<Rightarrow> string) \<Rightarrow> rat option \<Rightarrow> string" where
  "limitText numStr limit = (case limit of None \<Rightarrow> [] | Some l \<Rightarrow> numStr l)"

definition checkRunCreation :: "(rat \<Rightarrow> string) \<Rightarrow> string \<Rightarrow> string \<Rightarrow> quota_service \<Rightarrow> quota_check \<times> quota_service" where
  "checkRunCreation numStr date workspaceId s =
     (let p = currentPolicy workspaceId s; (u, s1) = getCurrentUsage date workspaceId s
      in (if exceeds (qu_runsToday u + 1) (qp_maxRunsPerDay p)
          then Denied (''Daily run quota exceeded: '' @ numStr (of_int (qu_runsToday u + 1)) @ '' > ''
                        @ limitText numStr (map_option of_int (qp_maxRunsPerDay p)) @ ''.'') p u
          else Allowed p u, s1))"

definition checkUsd :: "(rat \<Rightarrow> string) \<Rightarrow> quota_policy \<Rightarrow> quota_usage \<Rightarrow> rat \<Rightarrow> quota_check option" where
  "checkUsd numStr p u delta =
     (if delta < 0 then Some (Denied ''Invalid USD quota delta: expected a non-negative finite number.'' p u)
      else if exceeds (qu_usdToday u + delta) (qp_maxUsdPerDay p)
      then Some (Denied (''Daily USD quota exceeded: '' @ numStr (qu_usdToday u + delta) @ '' > '' @ limitText numStr (qp_maxUsdPerDay p) @ ''.'') p u)
      else if exceeds (qu_usdMonth u + delta) (qp_maxUsdPerMonth p)
      then Some (Denied (''Monthly USD quota exceeded: '' @ numStr (qu_usdMonth u + delta) @ '' > '' @ limitText numStr (qp_maxUsdPerMonth p) @ ''.'') p u)
      else None)"

definition callsOf :: "string \<Rightarrow> quota_usage \<Rightarrow> int" where
  "callsOf runId u = (case js_get (qu_providerCallsByRun u) runId of None \<Rightarrow> 0 | Some n \<Rightarrow> n)"

definition checkProviderCall ::
  "(rat \<Rightarrow> string) \<Rightarrow> string \<Rightarrow> string \<Rightarrow> string \<Rightarrow> jsnum option \<Rightarrow> quota_service \<Rightarrow> quota_check \<times> quota_service" where
  "checkProviderCall numStr date workspaceId runId estimatedUsd s =
     (let p = currentPolicy workspaceId s; (u, s1) = getCurrentUsage date workspaceId s; calls = callsOf runId u
      in (if exceeds (calls + 1) (qp_maxProviderCallsPerRun p)
          then Denied (''Provider-call quota for run '' @ runId @ '' exceeded: '' @ numStr (of_int (calls + 1)) @ '' > ''
                        @ limitText numStr (map_option of_int (qp_maxProviderCallsPerRun p)) @ ''.'') p u
          else case nonNegativeUsageDelta estimatedUsd of
                 None \<Rightarrow> Denied ''Invalid USD quota delta: expected a non-negative finite number.'' p u
               | Some delta \<Rightarrow> (case checkUsd numStr p u delta of Some denial \<Rightarrow> denial | None \<Rightarrow> Allowed p u), s1))"

definition checkSandboxMinutes :: "(rat \<Rightarrow> string) \<Rightarrow> string \<Rightarrow> string \<Rightarrow> jsnum option \<Rightarrow> quota_service \<Rightarrow> quota_check \<times> quota_service" where
  "checkSandboxMinutes numStr date workspaceId minutes s =
     (let p = currentPolicy workspaceId s; (u, s1) = getCurrentUsage date workspaceId s
      in (case nonNegativeUsageDelta minutes of
            None \<Rightarrow> Denied ''Invalid sandbox-minutes delta: expected a non-negative finite number.'' p u
          | Some m \<Rightarrow>
              if exceeds (qu_sandboxMinutesToday u + m) (qp_maxSandboxMinutesPerDay p)
              then Denied (''Daily sandbox-minutes quota exceeded: '' @ numStr (qu_sandboxMinutesToday u + m) @ '' > ''
                            @ limitText numStr (qp_maxSandboxMinutesPerDay p) @ ''.'') p u
              else Allowed p u, s1))"

definition checkStorage :: "(rat \<Rightarrow> string) \<Rightarrow> string \<Rightarrow> string \<Rightarrow> jsnum option \<Rightarrow> quota_service \<Rightarrow> quota_check \<times> quota_service" where
  "checkStorage numStr date workspaceId storageMb s =
     (let p = currentPolicy workspaceId s; (u, s1) = getCurrentUsage date workspaceId s
      in (case nonNegativeUsageDelta storageMb of
            None \<Rightarrow> Denied ''Invalid storage usage: expected a non-negative finite number.'' p u
          | Some m \<Rightarrow>
              if exceeds m (qp_maxStorageMb p)
              then Denied (''Storage quota exceeded: '' @ numStr m @ '' MB > '' @ limitText numStr (qp_maxStorageMb p) @ '' MB.'') p u
              else Allowed p u, s1))"

section \<open>Records\<close>

definition recordRunCreated :: "string \<Rightarrow> string \<Rightarrow> jsnum option \<Rightarrow> quota_service \<Rightarrow> quota_service \<times> (quota_error, quota_usage) result" where
  "recordRunCreated date workspaceId estimatedUsd s =
     (let (u, s1) = getCurrentUsage date workspaceId s
      in case nonNegativeUsageDelta estimatedUsd of
           None \<Rightarrow> (s1, Inl (InvalidDelta ''estimatedUsd''))
         | Some q \<Rightarrow> let u' = u\<lparr>qu_runsToday := qu_runsToday u + 1, qu_usdToday := qu_usdToday u + q, qu_usdMonth := qu_usdMonth u + q\<rparr>
                     in (setUsage workspaceId u' s1, Inr u'))"

definition recordProviderCall ::
  "string \<Rightarrow> string \<Rightarrow> string \<Rightarrow> jsnum option \<Rightarrow> quota_service \<Rightarrow> quota_service \<times> (quota_error, quota_usage) result" where
  "recordProviderCall date workspaceId runId estimatedUsd s =
     (let (u, s1) = getCurrentUsage date workspaceId s
      in case nonNegativeUsageDelta estimatedUsd of
           None \<Rightarrow> (s1, Inl (InvalidDelta ''estimatedUsd''))
         | Some q \<Rightarrow> let u' = u\<lparr>qu_providerCallsByRun := js_set runId (callsOf runId u + 1) (qu_providerCallsByRun u),
                                qu_usdToday := qu_usdToday u + q, qu_usdMonth := qu_usdMonth u + q\<rparr>
                     in (setUsage workspaceId u' s1, Inr u'))"

definition recordSandboxMinutes :: "string \<Rightarrow> string \<Rightarrow> jsnum option \<Rightarrow> quota_service \<Rightarrow> quota_service \<times> (quota_error, quota_usage) result" where
  "recordSandboxMinutes date workspaceId minutes s =
     (let (u, s1) = getCurrentUsage date workspaceId s
      in case nonNegativeUsageDelta minutes of
           None \<Rightarrow> (s1, Inl (InvalidDelta ''sandboxMinutes''))
         | Some m \<Rightarrow> let u' = u\<lparr>qu_sandboxMinutesToday := qu_sandboxMinutesToday u + m\<rparr> in (setUsage workspaceId u' s1, Inr u'))"

definition recordStorage :: "string \<Rightarrow> string \<Rightarrow> jsnum option \<Rightarrow> quota_service \<Rightarrow> quota_service \<times> (quota_error, quota_usage) result" where
  "recordStorage date workspaceId storageMb s =
     (let (u, s1) = getCurrentUsage date workspaceId s
      in case nonNegativeUsageDelta storageMb of
           None \<Rightarrow> (s1, Inl (InvalidDelta ''storageMb''))
         | Some m \<Rightarrow> let u' = u\<lparr>qu_storageMb := m\<rparr> in (setUsage workspaceId u' s1, Inr u'))"

section \<open>Gated calls\<close>

text \<open>
  The discipline the interface offers for provider calls: checked, and recorded when allowed. The
  server itself checks and records only the creation of runs, below.
\<close>

definition gatedCall :: "(rat \<Rightarrow> string) \<Rightarrow> string \<Rightarrow> string \<Rightarrow> string \<Rightarrow> rat \<Rightarrow> quota_service \<Rightarrow> bool \<times> quota_service" where
  "gatedCall numStr date workspaceId runId q s =
     (case checkProviderCall numStr date workspaceId runId (Some (Fin q)) s of
        (Allowed _ _, s1) \<Rightarrow> (True, fst (recordProviderCall date workspaceId runId (Some (Fin q)) s1))
      | (Denied _ _ _, s1) \<Rightarrow> (False, s1))"

fun spend :: "(rat \<Rightarrow> string) \<Rightarrow> string \<Rightarrow> (string \<times> string \<times> rat) list \<Rightarrow> quota_service \<Rightarrow> rat \<times> quota_service" where
  "spend numStr workspaceId [] s = (0, s)"
| "spend numStr workspaceId ((date, runId, q) # cs) s =
     (let (ok, s1) = gatedCall numStr date workspaceId runId q s; (t, s2) = spend numStr workspaceId cs s1
      in ((if ok then q else 0) + t, s2))"

lemma current_usage:
  assumes "getCurrentUsage date w s = (u, s1)"
  shows "js_get (qs_usage s1) w = Some u" and "qs_policies s1 = qs_policies s"
    and "qu_day u = dayKey date" and "qu_month u = monthKey date"
  using assms by (auto simp: getCurrentUsage_def Let_def emptyUsage_def split: option.splits if_splits)

lemma same_day_usage:
  assumes "js_get (qs_usage s) w = Some u" and "qu_day u = dayKey date" and "qu_month u = monthKey date"
  shows "getCurrentUsage date w s = (u, s)"
  using assms by (simp add: getCurrentUsage_def)

lemma gatedCall_effect:
  assumes "gatedCall numStr date w r q s = (ok, s')" and "getCurrentUsage date w s = (u, s1)"
  shows "\<exists>u'. getCurrentUsage date w s' = (u', s') \<and> qs_policies s' = qs_policies s
     \<and> qu_usdToday u' = qu_usdToday u + (if ok then q else 0) \<and> qu_usdMonth u' = qu_usdMonth u + (if ok then q else 0)
     \<and> (ok \<longrightarrow> 0 \<le> q \<and> \<not> exceeds (qu_usdToday u + q) (qp_maxUsdPerDay (currentPolicy w s))
                \<and> \<not> exceeds (qu_usdMonth u + q) (qp_maxUsdPerMonth (currentPolicy w s)))"
proof -
  note u = current_usage [OF assms(2)]
  have again: "getCurrentUsage date w s1 = (u, s1)" using same_day_usage [OF u(1,3,4)] .
  let ?u = "u\<lparr>qu_providerCallsByRun := js_set r (callsOf r u + 1) (qu_providerCallsByRun u),
      qu_usdToday := qu_usdToday u + q, qu_usdMonth := qu_usdMonth u + q\<rparr>"
  have later: "getCurrentUsage date w (setUsage w ?u s1) = (?u, setUsage w ?u s1)"
    using u(3,4) by (intro same_day_usage) (simp_all add: setUsage_def)
  show ?thesis
  proof (cases ok)
    case False
    with assms have "s' = s1"
      by (auto simp: gatedCall_def checkProviderCall_def Let_def split: quota_check.splits prod.splits)
    with False again u(2) show ?thesis by auto
  next
    case True
    with assms have check: "fst (checkProviderCall numStr date w r (Some (Fin q)) s) = Allowed (currentPolicy w s) u"
      by (auto simp: gatedCall_def checkProviderCall_def checkUsd_def Let_def split: quota_check.splits option.splits if_splits)
    then have ok: "0 \<le> q" "\<not> exceeds (qu_usdToday u + q) (qp_maxUsdPerDay (currentPolicy w s))"
      "\<not> exceeds (qu_usdMonth u + q) (qp_maxUsdPerMonth (currentPolicy w s))"
      using assms(2) by (auto simp: checkProviderCall_def nonNegativeUsageDelta_def checkUsd_def Let_def split: if_splits option.splits)
    have "s' = setUsage w ?u s1"
      using assms True check again ok(1)
      by (auto simp: gatedCall_def checkProviderCall_def recordProviderCall_def nonNegativeUsageDelta_def Let_def
          split: quota_check.splits prod.splits)
    with later ok True u(2) show ?thesis by (auto simp: setUsage_def)
  qed
qed

lemma usage_by_day:
  "dayKey d = dayKey d' \<Longrightarrow> monthKey d = monthKey d' \<Longrightarrow> getCurrentUsage d w s = getCurrentUsage d' w s"
  by (simp add: getCurrentUsage_def emptyUsage_def Let_def split: option.split)

text \<open>Calls of one day, from a usage within the limits.\<close>

lemma spend_day:
  assumes "spend numStr w cs s = (t, s')" and "\<forall>(d, r, q) \<in> set cs. dayKey d = dayKey date \<and> monthKey d = monthKey date"
    and "getCurrentUsage date w s = (u, s1)"
  shows "(\<forall>L. qp_maxUsdPerDay (currentPolicy w s) = Some L \<longrightarrow> qu_usdToday u \<le> L \<longrightarrow> qu_usdToday u + t \<le> L)
     \<and> (\<forall>L. qp_maxUsdPerMonth (currentPolicy w s) = Some L \<longrightarrow> qu_usdMonth u \<le> L \<longrightarrow> qu_usdMonth u + t \<le> L)"
  using assms
proof (induction cs arbitrary: s t u s1)
  case Nil
  then show ?case by simp
next
  case (Cons c cs)
  obtain d r q where c: "c = (d, r, q)" by (metis prod_cases3)
  obtain ok s2 where g: "gatedCall numStr d w r q s = (ok, s2)" by force
  obtain t2 where rest: "spend numStr w cs s2 = (t2, s')" and t: "t = (if ok then q else 0) + t2"
    using Cons.prems(1) c g by (auto split: prod.splits)
  have day: "dayKey d = dayKey date" "monthKey d = monthKey date" using Cons.prems(2) c by auto
  have "getCurrentUsage d w s = (u, s1)" using Cons.prems(3) usage_by_day [OF day] by simp
  from gatedCall_effect [OF g this] obtain u2 where u2: "getCurrentUsage date w s2 = (u2, s2)"
      "qu_usdToday u2 = qu_usdToday u + (if ok then q else 0)" "qu_usdMonth u2 = qu_usdMonth u + (if ok then q else 0)"
    and pol: "qs_policies s2 = qs_policies s"
    and ok: "ok \<longrightarrow> \<not> exceeds (qu_usdToday u + q) (qp_maxUsdPerDay (currentPolicy w s))
                \<and> \<not> exceeds (qu_usdMonth u + q) (qp_maxUsdPerMonth (currentPolicy w s))"
    using usage_by_day [OF day] by auto
  have p: "currentPolicy w s2 = currentPolicy w s" using pol by (simp add: currentPolicy_def)
  note IH = Cons.IH [OF rest _ u2(1)]
  have "\<forall>(d, r, q) \<in> set cs. dayKey d = dayKey date \<and> monthKey d = monthKey date" using Cons.prems(2) by simp
  from IH [OF this] ok show ?case unfolding p t u2(2,3) by (cases ok) (auto simp: exceeds_def algebra_simps)
qed

text \<open>
  Provider calls of a workspace that are checked and then recorded spend, within one day, no more
  than the daily and the monthly limit of its policy. Over several days only the daily limit holds: with a monthly
  limit alone, the whole limit can be spent on each of two days of the same month, since the monthly
  counter starts again from zero on every new day.
\<close>

lemma quotas_bound_one_day:
  assumes "js_get (qs_usage s) w = None" and "QuotaPolicySchema (currentPolicy w s)"
  shows "((\<forall>(d, r, q) \<in> set cs. dayKey d = dayKey date \<and> monthKey d = monthKey date) \<longrightarrow>
       (\<forall>L. qp_maxUsdPerDay (currentPolicy w s) = Some L \<or> qp_maxUsdPerMonth (currentPolicy w s) = Some L \<longrightarrow>
          fst (spend numStr w cs s) \<le> L))
     \<and> (currentPolicy w s = no_policy\<lparr>qp_maxUsdPerMonth := Some L\<rparr> \<and> dayKey d1 \<noteq> dayKey d2 \<and> monthKey d1 = monthKey d2 \<longrightarrow>
          fst (spend numStr w [(d1, r1, L), (d2, r2, L)] s) = 2 * L)"
proof (intro conjI impI allI)
  fix L'
  assume calls: "\<forall>(d, r, q) \<in> set cs. dayKey d = dayKey date \<and> monthKey d = monthKey date"
    and L: "qp_maxUsdPerDay (currentPolicy w s) = Some L' \<or> qp_maxUsdPerMonth (currentPolicy w s) = Some L'"
  obtain t s' where t: "spend numStr w cs s = (t, s')" by force
  obtain u s1 where u: "getCurrentUsage date w s = (u, s1)" by force
  have "qu_usdToday u = 0" "qu_usdMonth u = 0" using u assms(1) by (auto simp: getCurrentUsage_def emptyUsage_def Let_def)
  moreover have "0 \<le> L'" using L assms(2) by (auto simp: QuotaPolicySchema_def optNonNeg_def)
  ultimately show "fst (spend numStr w cs s) \<le> L'" using spend_day [OF t calls u] L t by auto
next
  assume *: "currentPolicy w s = no_policy\<lparr>qp_maxUsdPerMonth := Some L\<rparr> \<and> dayKey d1 \<noteq> dayKey d2 \<and> monthKey d1 = monthKey d2"
  then have L: "0 \<le> L" and p: "currentPolicy w s = no_policy\<lparr>qp_maxUsdPerMonth := Some L\<rparr>"
    using assms(2) by (auto simp: QuotaPolicySchema_def optNonNeg_def)
  have start: "gatedCall numStr d w r L x = (True, setUsage w (u\<lparr>qu_providerCallsByRun := js_set r 1 [], qu_usdToday := L, qu_usdMonth := L\<rparr>) x1)"
    if "getCurrentUsage d w x = (u, x1)" "currentPolicy w x = currentPolicy w s" "qu_usdToday u = 0" "qu_usdMonth u = 0"
      "qu_providerCallsByRun u = []" for d r x u x1
    using that p L same_day_usage [OF current_usage(1,3,4) [OF that(1)]]
    by (simp add: gatedCall_def checkProviderCall_def checkUsd_def recordProviderCall_def nonNegativeUsageDelta_def exceeds_def
        no_policy_def callsOf_def Let_def)
  obtain u s1 where u: "getCurrentUsage d1 w s = (u, s1)" by force
  have zero: "qu_usdToday u = 0" "qu_usdMonth u = 0" "qu_providerCallsByRun u = []" "qu_day u = dayKey d1"
    using u assms(1) by (auto simp: getCurrentUsage_def emptyUsage_def Let_def)
  let ?s = "setUsage w (u\<lparr>qu_providerCallsByRun := js_set r1 1 [], qu_usdToday := L, qu_usdMonth := L\<rparr>) s1"
  have first: "gatedCall numStr d1 w r1 L s = (True, ?s)" using start [OF u] zero by simp
  obtain v s2 where v: "getCurrentUsage d2 w ?s = (v, s2)" by force
  have "qu_usdToday v = 0" "qu_usdMonth v = 0" "qu_providerCallsByRun v = []"
    using v zero(4) * by (auto simp: getCurrentUsage_def setUsage_def emptyUsage_def Let_def)
  moreover have "currentPolicy w ?s = currentPolicy w s" using current_usage(2) [OF u] by (simp add: currentPolicy_def setUsage_def)
  ultimately have "fst (gatedCall numStr d2 w r2 L ?s) = True" using start [OF v] by simp
  with first show "fst (spend numStr w [(d1, r1, L), (d2, r2, L)] s) = 2 * L" by (simp add: split_beta)
qed

section \<open>The quota of runs\<close>

text \<open>
  Posting a message checks the quota when the request arrives (\<open>enforceRunQuota\<close> of the server) and
  records the run when it was created, after the pipeline or, streaming, after its first step; requests
  interleave in between. A request that fails before, or whose record is refused, counts nothing. The
  day keeps the number of requests under way, their highest number so far and the runs recorded.
\<close>

definition enforceRunQuota :: "(rat \<Rightarrow> string) \<Rightarrow> string \<Rightarrow> string \<Rightarrow> quota_service \<Rightarrow> bool \<times> quota_service" where
  "enforceRunQuota numStr date workspaceId s =
     (case checkRunCreation numStr date workspaceId s of (Allowed _ _, s1) \<Rightarrow> (True, s1) | (Denied _ _ _, s1) \<Rightarrow> (False, s1))"

datatype post_event = Arrives | RunCreated rat | GivesUp

record quota_day =
  qd_service :: quota_service
  qd_underWay :: nat
  qd_peak :: nat
  qd_runs :: nat

definition day_step :: "(rat \<Rightarrow> string) \<Rightarrow> string \<Rightarrow> string \<times> post_event \<Rightarrow> quota_day \<Rightarrow> quota_day" where
  "day_step numStr w e x = (case e of
     (date, Arrives) \<Rightarrow>
       (let (ok, s) = enforceRunQuota numStr date w (qd_service x); n = qd_underWay x + (if ok then 1 else 0)
        in x\<lparr>qd_service := s, qd_underWay := n, qd_peak := max (qd_peak x) n\<rparr>)
   | (date, RunCreated q) \<Rightarrow>
       (if qd_underWay x = 0 then x
        else (let (s, r) = recordRunCreated date w (Some (Fin q)) (qd_service x)
              in x\<lparr>qd_service := s, qd_underWay := qd_underWay x - 1, qd_runs := qd_runs x + (case r of Inl _ \<Rightarrow> 0 | Inr _ \<Rightarrow> 1)\<rparr>))
   | (_, GivesUp) \<Rightarrow> x\<lparr>qd_underWay := qd_underWay x - 1\<rparr>)"

definition quota_day_run :: "(rat \<Rightarrow> string) \<Rightarrow> string \<Rightarrow> (string \<times> post_event) list \<Rightarrow> quota_service \<Rightarrow> quota_day" where
  "quota_day_run numStr w es s = fold (day_step numStr w) es \<lparr>qd_service = s, qd_underWay = 0, qd_peak = 0, qd_runs = 0\<rparr>"

text \<open>The usage counts the runs recorded, and the runs recorded or under way exceed the limit by less than the peak.\<close>

definition day_inv :: "string \<Rightarrow> string \<Rightarrow> int \<Rightarrow> quota_day \<Rightarrow> bool" where
  "day_inv date w L x \<longleftrightarrow> qp_maxRunsPerDay (currentPolicy w (qd_service x)) = Some L
     \<and> qu_runsToday (fst (getCurrentUsage date w (qd_service x))) = int (qd_runs x) \<and> qd_underWay x \<le> qd_peak x
     \<and> int (qd_runs x + qd_underWay x) \<le> L + int (qd_peak x - 1)"

lemma enforceRunQuota_effect:
  "getCurrentUsage date w s = (u, s1) \<Longrightarrow>
     enforceRunQuota numStr date w s = (\<not> exceeds (qu_runsToday u + 1) (qp_maxRunsPerDay (currentPolicy w s)), s1)"
  by (simp add: enforceRunQuota_def checkRunCreation_def Let_def)

lemma usage_stable: "getCurrentUsage date w s = (u, s1) \<Longrightarrow> getCurrentUsage date w s1 = (u, s1)"
  using current_usage(1,3,4) same_day_usage by blast

lemma same_policy: "getCurrentUsage date w s = (u, s1) \<Longrightarrow> currentPolicy w s1 = currentPolicy w s"
  using current_usage(2) by (simp add: currentPolicy_def)

lemma day_step_inv:
  assumes "day_inv date w L x" and "dayKey (fst e) = dayKey date" and "monthKey (fst e) = monthKey date"
  shows "day_inv date w L (day_step numStr w e x)"
proof -
  obtain d ev where e: "e = (d, ev)" by force
  obtain u s1 where u: "getCurrentUsage date w (qd_service x) = (u, s1)" by force
  with assms(2,3) e have ud: "getCurrentUsage d w (qd_service x) = (u, s1)" using usage_by_day [of d date] by simp
  note st = usage_stable [OF u] same_policy [OF u] and key = current_usage(3,4) [OF u]
  show ?thesis
  proof (cases ev)
    case Arrives
    have step: "day_step numStr w e x = (let ok = \<not> exceeds (qu_runsToday u + 1) (qp_maxRunsPerDay (currentPolicy w (qd_service x)));
        n = qd_underWay x + (if ok then 1 else 0) in x\<lparr>qd_service := s1, qd_underWay := n, qd_peak := max (qd_peak x) n\<rparr>)"
      by (simp add: day_step_def e Arrives enforceRunQuota_effect [OF ud] Let_def)
    show ?thesis using assms(1) u st unfolding step day_inv_def by (auto simp: Let_def exceeds_def)
  next
    case (RunCreated q)
    let ?u = "u\<lparr>qu_runsToday := qu_runsToday u + 1, qu_usdToday := qu_usdToday u + q, qu_usdMonth := qu_usdMonth u + q\<rparr>"
    have later: "getCurrentUsage date w (setUsage w ?u s1) = (?u, setUsage w ?u s1)"
      using key by (intro same_day_usage) (simp_all add: setUsage_def)
    have pol: "currentPolicy w (setUsage w ?u s1) = currentPolicy w s1" by (simp add: currentPolicy_def setUsage_def)
    show ?thesis using assms(1) u st later pol
      by (auto simp: day_inv_def day_step_def e RunCreated recordRunCreated_def ud nonNegativeUsageDelta_def Let_def)
  next
    case GivesUp
    then show ?thesis using assms(1) by (auto simp: day_inv_def day_step_def e)
  qed
qed

lemma day_run_inv:
  assumes "day_inv date w L x" and "\<forall>e \<in> set es. dayKey (fst e) = dayKey date \<and> monthKey (fst e) = monthKey date"
  shows "day_inv date w L (fold (day_step numStr w) es x)"
  using assms by (induction es arbitrary: x) (auto intro!: day_step_inv)

lemma arrivals_pass:
  assumes "getCurrentUsage date w (qd_service x) = (u, qd_service x)"
    and "\<not> exceeds (qu_runsToday u + 1) (qp_maxRunsPerDay (currentPolicy w (qd_service x)))"
  shows "\<exists>p. fold (day_step numStr w) (replicate k (date, Arrives)) x = x\<lparr>qd_underWay := qd_underWay x + k, qd_peak := p\<rparr>"
  using assms
proof (induction k arbitrary: x)
  case 0
  show ?case by (intro exI [of _ "qd_peak x"]) simp
next
  case (Suc k)
  let ?x = "x\<lparr>qd_underWay := qd_underWay x + 1, qd_peak := max (qd_peak x) (qd_underWay x + 1)\<rparr>"
  have "day_step numStr w (date, Arrives) x = ?x"
    using Suc.prems by (simp add: day_step_def enforceRunQuota_effect [OF Suc.prems(1)])
  with Suc.IH [of ?x] Suc.prems show ?case by auto
qed

lemma records_count:
  "qd_underWay x = k \<Longrightarrow> qd_runs (fold (day_step numStr w) (replicate k (date, RunCreated 0)) x) = qd_runs x + k"
proof (induction k arbitrary: x)
  case (Suc k)
  let ?y = "day_step numStr w (date, RunCreated 0) x"
  have "qd_underWay ?y = k" "qd_runs ?y = qd_runs x + 1"
    using Suc.prems by (simp_all add: day_step_def recordRunCreated_def nonNegativeUsageDelta_def Let_def split_beta)
  with Suc.IH [of ?y] show ?case by simp
qed simp

text \<open>
  C28: The quota of runs per day is checked on arrival and counted on creation. On one day a workspace
  with no usage yet records at most its limit of runs plus the number of requests that were under way
  together, less one: exactly the limit when requests follow each other. The excess is real: any number
  of requests that arrive before the first of them is counted pass a positive limit.
\<close>

theorem run_quota_bound:
  assumes "js_get (qs_usage s) w = None" and "qp_maxRunsPerDay (currentPolicy w s) = Some L" and "0 \<le> L"
  shows "((\<forall>e \<in> set es. dayKey (fst e) = dayKey date \<and> monthKey (fst e) = monthKey date) \<longrightarrow>
       int (qd_runs (quota_day_run numStr w es s)) \<le> L + int (qd_peak (quota_day_run numStr w es s) - 1))
     \<and> (0 < L \<longrightarrow> qd_runs (quota_day_run numStr w (replicate k (date, Arrives) @ replicate k (date, RunCreated 0)) s) = k)"
proof (intro conjI impI)
  let ?x = "\<lparr>qd_service = s, qd_underWay = 0, qd_peak = 0, qd_runs = 0\<rparr>"
  have start: "qu_runsToday (fst (getCurrentUsage date w s)) = 0"
    using assms(1) by (simp add: getCurrentUsage_def emptyUsage_def Let_def)
  {
    assume "\<forall>e \<in> set es. dayKey (fst e) = dayKey date \<and> monthKey (fst e) = monthKey date"
    moreover have "day_inv date w L ?x" using assms(2,3) start by (simp add: day_inv_def)
    ultimately have "day_inv date w L (quota_day_run numStr w es s)" unfolding quota_day_run_def by (rule day_run_inv [rotated])
    then show "int (qd_runs (quota_day_run numStr w es s)) \<le> L + int (qd_peak (quota_day_run numStr w es s) - 1)"
      by (simp add: day_inv_def)
  next
    assume L: "0 < L"
    show "qd_runs (quota_day_run numStr w (replicate k (date, Arrives) @ replicate k (date, RunCreated 0)) s) = k"
    proof (cases k)
      case (Suc j)
      obtain u s1 where u: "getCurrentUsage date w s = (u, s1)" by force
      with start have u0: "qu_runsToday u = 0" by simp
      let ?y = "?x\<lparr>qd_service := s1, qd_underWay := 1, qd_peak := 1\<rparr>"
      have "day_step numStr w (date, Arrives) ?x = ?y"
        using L assms(2) u0 by (simp add: day_step_def enforceRunQuota_effect [OF u] exceeds_def)
      moreover obtain p where "fold (day_step numStr w) (replicate j (date, Arrives)) ?y = ?y\<lparr>qd_underWay := 1 + j, qd_peak := p\<rparr>"
        using arrivals_pass [of date w ?y u numStr j] usage_stable [OF u] same_policy [OF u] L assms(2) u0 by (auto simp: exceeds_def)
      ultimately have "fold (day_step numStr w) (replicate k (date, Arrives)) ?x = ?y\<lparr>qd_underWay := k, qd_peak := p\<rparr>"
        by (simp add: Suc)
      then show ?thesis using records_count [of "?y\<lparr>qd_underWay := k, qd_peak := p\<rparr>" k numStr w date] by (simp add: quota_day_run_def)
    qed (simp add: quota_day_run_def)
  }
qed

theorem run_quota_bound_witness:
  "qd_runs (quota_day_run (\<lambda>_. ''n'') ''w'' (replicate 3 (''2025-01-01T'', Arrives) @ replicate 3 (''2025-01-01T'', RunCreated 0))
     \<lparr>qs_policies = [(''w'', no_policy\<lparr>qp_maxRunsPerDay := Some 1\<rparr>)], qs_usage = []\<rparr>) = 3"
  using run_quota_bound [of "\<lparr>qs_policies = [(''w'', no_policy\<lparr>qp_maxRunsPerDay := Some 1\<rparr>)], qs_usage = []\<rparr>" "''w''" 1
      "[]" "''2025-01-01T''" "\<lambda>_. ''n''" 3]
  by (simp add: currentPolicy_def)

end
