(* ===== verification/JS_Strings.thy ===== *)
theory JS_Strings
  imports Rector_Prelude
begin

text \<open>
  String operations of JavaScript that several components use: \<open>split\<close> on a separator of one
  character, \<open>join\<close>, replacement of characters, hexadecimal numbers with \<open>parseInt(_, 16)\<close>, and the
  bitwise assembly of numbers from digits of a fixed width.
\<close>

unbundle bit_operations_syntax

section \<open>Split and join\<close>

fun split_char :: "char \<Rightarrow> string \<Rightarrow> string list" where
  "split_char c [] = [[]]"
| "split_char c (x # xs) =
     (if x = c then [] # split_char c xs
      else (case split_char c xs of [] \<Rightarrow> [[x]] | w # ws \<Rightarrow> (x # w) # ws))"

fun join_with :: "string \<Rightarrow> string list \<Rightarrow> string" where
  "join_with sep [] = []"
| "join_with sep [w] = w"
| "join_with sep (w # ws) = w @ sep @ join_with sep ws"

lemma split_char_not_Nil [simp]: "split_char c s \<noteq> []"
  by (induction s) (auto split: list.splits)

lemma split_char_none [simp]: "c \<notin> set s \<Longrightarrow> split_char c s = [s]"
  by (induction s) auto

lemma split_char_append: "c \<notin> set w \<Longrightarrow> split_char c (w @ c # s) = w # split_char c s"
  by (induction w) auto

lemma split_join [simp]:
  "ws \<noteq> [] \<Longrightarrow> \<forall>w \<in> set ws. c \<notin> set w \<Longrightarrow> split_char c (join_with [c] ws) = ws"
  by (induction "[c]" ws rule: join_with.induct) (auto simp: split_char_append)

lemma join_split [simp]: "join_with [c] (split_char c s) = s"
proof (induction s)
  case (Cons x s)
  obtain w ws where w: "split_char c s = w # ws" by (cases "split_char c s") auto
  with Cons show ?case by (cases ws) auto
qed simp

lemma split_char_parts: "w \<in> set (split_char c s) \<Longrightarrow> c \<notin> set w"
proof (induction s arbitrary: w)
  case (Cons x s)
  obtain v ws where v: "split_char c s = v # ws" by (cases "split_char c s") auto
  show ?case
  proof (cases "x = c")
    case False
    then show ?thesis using Cons.IH [of v] Cons.IH [of w] Cons.prems v by auto
  qed (use Cons in auto)
qed simp

section \<open>Digits\<close>

lemma show_nat_not_Nil [simp]: "show_nat n \<noteq> []"
  by (subst show_nat.simps) simp

lemma show_nat_digits: "c \<in> set (show_nat n) \<Longrightarrow> c \<in> set ''0123456789''"
proof (induction n rule: show_nat.induct)
  case (1 n)
  have digit: "char_of (48 + d :: nat) \<in> set ''0123456789''" if "d < 10" for d
  proof -
    from that have "d \<in> {0, 1, 2, 3, 4, 5, 6, 7, 8, 9}" by auto
    then show ?thesis by (elim insertE) (simp_all add: char_of_def bit_0)
  qed
  show ?case
  proof (cases "n < 10")
    case False
    with "1" digit [of "n mod 10"] show ?thesis by (auto simp: show_nat.simps [of n])
  qed (use "1"(2) digit in \<open>auto simp: show_nat.simps [of n]\<close>)
qed

definition hex_digit :: "nat \<Rightarrow> char" where
  "hex_digit d = (if d < 10 then char_of (48 + d) else char_of (87 + d))"

definition hex_value :: "char \<Rightarrow> nat option" where
  "hex_value c = (let n = of_char c :: nat
     in if 48 \<le> n \<and> n \<le> 57 then Some (n - 48)
        else if 97 \<le> n \<and> n \<le> 102 then Some (n - 87)
        else if 65 \<le> n \<and> n \<le> 70 then Some (n - 55) else None)"

fun show_hex :: "nat \<Rightarrow> string" where
  "show_hex n = (if n < 16 then [hex_digit n] else show_hex (n div 16) @ [hex_digit (n mod 16)])"

declare show_hex.simps [simp del]

text \<open>\<open>parseInt(s, 16)\<close>: the longest prefix of hexadecimal digits; \<open>None\<close> is \<open>NaN\<close>.\<close>

fun hex_prefix :: "nat \<Rightarrow> string \<Rightarrow> nat" where
  "hex_prefix acc [] = acc"
| "hex_prefix acc (c # cs) = (case hex_value c of None \<Rightarrow> acc | Some d \<Rightarrow> hex_prefix (acc * 16 + d) cs)"

definition parseHex :: "string \<Rightarrow> nat option" where
  "parseHex s = (case s of [] \<Rightarrow> None | c # _ \<Rightarrow> (if hex_value c = None then None else Some (hex_prefix 0 s)))"

lemma hex_value_digit [simp]: "d < 16 \<Longrightarrow> hex_value (hex_digit d) = Some d"
  by (auto simp: hex_value_def hex_digit_def Let_def)

lemma hex_prefix_append:
  "\<forall>c \<in> set s. hex_value c \<noteq> None \<Longrightarrow> hex_prefix acc (s @ t) = hex_prefix (hex_prefix acc s) t"
  by (induction s arbitrary: acc) (auto split: option.splits)

lemma show_hex_props:
  "show_hex n \<noteq> [] \<and> (\<forall>c \<in> set (show_hex n). hex_value c \<noteq> None) \<and> hex_prefix 0 (show_hex n) = n"
proof (induction n rule: show_hex.induct)
  case (1 n)
  then show ?case
    by (cases "n < 16") (simp_all add: show_hex.simps [of n] hex_prefix_append)
qed

lemma show_hex_digits: "set (show_hex n) \<subseteq> hex_digit ` {..<16}"
proof (induction n rule: show_hex.induct)
  case (1 n)
  then show ?case by (cases "n < 16") (simp_all add: show_hex.simps [of n])
qed

lemma hex_digit_lower: "d < 16 \<Longrightarrow> hex_digit d \<in> set ''0123456789abcdef''"
proof -
  assume "d < 16"
  then have "d \<in> {0, 1, 2, 3, 4, 5, 6, 7, 8, 9, 10, 11, 12, 13, 14, 15}" by simp arith
  then show ?thesis by (elim insertE) (simp_all add: hex_digit_def char_of_def bit_0)
qed

lemma show_hex_lower: "c \<in> set (show_hex n) \<Longrightarrow> c \<in> set ''0123456789abcdef''"
  using show_hex_digits [of n] hex_digit_lower by blast

lemma toLowerCase_Cons: "toLowerCase (c # s) = js_lower_char c # toLowerCase s" and toLowerCase_append: "toLowerCase (s @ t) = toLowerCase s @ toLowerCase t"
  by (simp_all add: toLowerCase_def)

lemma toLowerCase_fixed:
  assumes "set s \<subseteq> set ''0123456789abcdef.:''"
  shows "toLowerCase s = s"
proof -
  have "list_all (\<lambda>c. js_lower_char c = c) ''0123456789abcdef.:''" by (simp add: js_lower_char_def)
  then have "js_lower_char c = c" if "c \<in> set ''0123456789abcdef.:''" for c
    using that unfolding list_all_iff by blast
  with assms show ?thesis unfolding toLowerCase_def by (intro map_idI) blast
qed

lemma parseHex_show_hex [simp]: "parseHex (show_hex n) = Some n"
  using show_hex_props [of n] by (auto simp: parseHex_def split: list.splits)

lemma length_show_hex: "n < 16 ^ Suc k \<Longrightarrow> length (show_hex n) \<le> Suc k"
proof (induction k arbitrary: n)
  case (Suc k)
  then have "n div 16 < 16 ^ Suc k" by (simp add: less_mult_imp_div_less)
  with Suc.IH [of "n div 16"] show ?case by (simp add: show_hex.simps [of n])
qed (simp add: show_hex.simps)

section \<open>Numbers from digits of a fixed width\<close>

lemma or_low_bits: "0 \<le> (b :: int) \<Longrightarrow> b < 2 ^ n \<Longrightarrow> push_bit n a OR b = a * 2 ^ n + b"
proof -
  assume b: "0 \<le> b" "b < 2 ^ n"
  have "push_bit n a + b = push_bit n a OR b"
  proof (rule disjunctive_add_eq_or)
    have "take_bit n b = b" using b by (simp add: take_bit_int_eq_self)
    then show "push_bit n a AND b = 0"
      by (metis (no_types) take_bit_and take_bit_push_bit diff_self_eq_0 min.idem bit_eq_iff bit_and_iff bit_push_bit_iff bit_take_bit_iff bit_0_eq linorder_not_le bot_apply bot_bool_def)
  qed
  then show ?thesis by (simp add: push_bit_eq_mult)
qed

lemma or_shifted:
  "0 \<le> (b :: int) \<Longrightarrow> b < 2 ^ n \<Longrightarrow> push_bit (m + n) a OR push_bit m b = push_bit m (a * 2 ^ n + b)"
  by (metis or_low_bits push_bit_or push_bit_push_bit)

end
