(* ===== verification/Ssrf_Protection.thy ===== *)
theory Ssrf_Protection
  imports JS_Strings
begin

text \<open>
  Protection of provider URLs against internal addresses, \<open>src/security/ssrfProtection.ts\<close>.
  \<open>isIP\<close> of the runtime is defined by its grammar: four canonical decimal octets, or up to eight
  hexadecimal groups with one \<open>::\<close>, an optional dotted tail and an optional zone. The URL parser is a
  parameter that gives the protocol and the host name, the resolver one that gives the addresses of a
  name or fails. Numbers are unbounded (\<open>bigint\<close>).
\<close>

section \<open>Addresses of the runtime\<close>

definition octet :: "string \<Rightarrow> bool" where
  "octet p = (read_nat p < 256 \<and> show_nat (read_nat p) = p)"

definition isIPv4 :: "string \<Rightarrow> bool" where
  "isIPv4 s = (let parts = split_char (CHR ''.'') s in length parts = 4 \<and> list_all octet parts)"

definition hexGroup :: "string \<Rightarrow> bool" where
  "hexGroup p = (p \<noteq> [] \<and> length p \<le> 4 \<and> list_all (\<lambda>c. hex_value c \<noteq> None) p)"

text \<open>The number of 16-bit groups of one side of \<open>::\<close>; the last may be a dotted tail on the right.\<close>

definition groupCount :: "bool \<Rightarrow> string \<Rightarrow> nat option" where
  "groupCount tail s =
     (let parts = split_char (CHR '':'') s
      in if s = [] then Some 0
         else if list_all hexGroup parts then Some (length parts)
         else if tail \<and> list_all hexGroup (butlast parts) \<and> isIPv4 (last parts) then Some (length parts + 1)
         else None)"

text \<open>\<open>split("::")\<close>.\<close>

fun split_colons :: "string \<Rightarrow> string list" where
  "split_colons [] = [[]]"
| "split_colons [c] = [[c]]"
| "split_colons (c # d # s) =
     (if c = CHR '':'' \<and> d = CHR '':'' then [] # split_colons s
      else (case split_colons (d # s) of [] \<Rightarrow> [[c]] | w # ws \<Rightarrow> (c # w) # ws))"

definition isIPv6 :: "string \<Rightarrow> bool" where
  "isIPv6 s =
     (let addr = takeWhile (\<lambda>c. c \<noteq> CHR ''%'') s; zone = dropWhile (\<lambda>c. c \<noteq> CHR ''%'') s
      in (zone = [] \<or> (tl zone \<noteq> [] \<and> list_all (\<lambda>c. c \<in> set ''0123456789abcdefghijklmnopqrstuvwxyzABCDEFGHIJKLMNOPQRSTUVWXYZ-.:'') (tl zone)))
         \<and> (case split_colons addr of
              [w] \<Rightarrow> w \<noteq> [] \<and> groupCount True w = Some 8
            | [l, r] \<Rightarrow> (case (groupCount False l, groupCount True r) of (Some m, Some n) \<Rightarrow> m + n \<le> 7 | _ \<Rightarrow> False)
            | _ \<Rightarrow> False))"

definition isIP :: "string \<Rightarrow> nat" where
  "isIP s = (if isIPv4 s then 4 else if isIPv6 s then 6 else 0)"

section \<open>Ranges\<close>

definition ipv4ToInt :: "string \<Rightarrow> int option" where
  "ipv4ToInt ip =
     (case map (int \<circ> read_nat) (split_char (CHR ''.'') ip) of
        a # b # c # d # _ \<Rightarrow> Some (((push_bit 24 a OR push_bit 16 b) OR push_bit 8 c) OR d)
      | _ \<Rightarrow> None)"

definition expandIPv6 :: "string \<Rightarrow> string" where
  "expandIPv6 ip =
     (case split_colons ip of
        l # r # _ \<Rightarrow>
          let leftParts = (if l = [] then [] else split_char (CHR '':'') l);
              rightParts = (if r = [] then [] else split_char (CHR '':'') r)
          in join_with '':'' (leftParts @ replicate (8 - length leftParts - length rightParts) ''0'' @ rightParts)
      | _ \<Rightarrow> ip)"

fun shiftGroups :: "string list \<Rightarrow> int \<Rightarrow> int option" where
  "shiftGroups [] acc = Some acc"
| "shiftGroups (p # ps) acc =
     (case parseHex (if p = [] then ''0'' else p) of
        None \<Rightarrow> None
      | Some n \<Rightarrow> shiftGroups ps (push_bit 16 acc OR int n))"

definition ipv6ToBigInt :: "string \<Rightarrow> int option" where
  "ipv6ToBigInt ip = shiftGroups (split_char (CHR '':'') (expandIPv6 ip)) 0"

definition range4 :: "string \<Rightarrow> string \<Rightarrow> string \<Rightarrow> int \<times> int \<times> string" where
  "range4 s e label = (the (ipv4ToInt s), the (ipv4ToInt e), label)"

definition range6 :: "string \<Rightarrow> string \<Rightarrow> string \<Rightarrow> int \<times> int \<times> string" where
  "range6 s e label = (the (ipv6ToBigInt s), the (ipv6ToBigInt e), label)"

definition PRIVATE_RANGES :: "(int \<times> int \<times> string) list" where
  "PRIVATE_RANGES =
    [range4 ''0.0.0.0'' ''0.255.255.255'' ''current-network (0.0.0.0/8)'',
     range4 ''127.0.0.0'' ''127.255.255.255'' ''loopback (127.0.0.0/8)'',
     range4 ''10.0.0.0'' ''10.255.255.255'' ''RFC1918 (10.0.0.0/8)'',
     range4 ''172.16.0.0'' ''172.31.255.255'' ''RFC1918 (172.16.0.0/12)'',
     range4 ''192.168.0.0'' ''192.168.255.255'' ''RFC1918 (192.168.0.0/16)'',
     range4 ''169.254.0.0'' ''169.254.255.255'' ''link-local (169.254.0.0/16)'',
     range4 ''100.64.0.0'' ''100.127.255.255'' ''CGNAT (100.64.0.0/10)'',
     range6 ''::1'' ''::1'' ''IPv6 loopback (::1)'',
     range6 ''fe80::'' ''febf:ffff:ffff:ffff:ffff:ffff:ffff:ffff'' ''IPv6 link-local (fe80::/10)'',
     range6 ''fc00::'' ''fdff:ffff:ffff:ffff:ffff:ffff:ffff:ffff'' ''IPv6 unique local (fc00::/7)'']"

definition BLOCKED_HOSTNAMES :: "string list" where
  "BLOCKED_HOSTNAMES = [''localhost'', ''metadata.google.internal'', ''metadata.google.internal.'', ''metadata.azure.internal'',
     ''metadata.azure.internal.'', ''169.254.169.254'']"

datatype address_check = PublicAddress | PrivateAddress string | AddressThrows

definition isPrivateIp :: "string \<Rightarrow> address_check" where
  "isPrivateIp ip =
     (let check = (\<lambda>numeric. case numeric of
            None \<Rightarrow> AddressThrows
          | Some n \<Rightarrow> (case find (\<lambda>(s, e, label). s \<le> n \<and> n \<le> e) PRIVATE_RANGES of
                         Some (_, _, label) \<Rightarrow> PrivateAddress label
                       | None \<Rightarrow> PublicAddress))
      in if isIP ip = 4 then check (ipv4ToInt ip)
         else if isIP ip = 6 then check (ipv6ToBigInt ip)
         else PrivateAddress ''invalid IP address'')"

section \<open>Validation\<close>

datatype ssrf_error =
    InvalidUrl | ProtocolNotAllowed string | HostnameBlocked string | PrivateLiteral string string
  | Unresolved string | ResolvesToPrivate string string string | SsrfThrows

definition stripBrackets :: "string \<Rightarrow> string" where
  "stripBrackets h = (if 3 \<le> length h \<and> hd h = CHR ''['' \<and> last h = CHR '']'' then butlast (tl h) else h)"

fun checkResolved :: "string \<Rightarrow> string list \<Rightarrow> (ssrf_error, unit) result" where
  "checkResolved host [] = Inr ()"
| "checkResolved host (ip # ips) =
     (case isPrivateIp ip of
        PrivateAddress label \<Rightarrow> Inl (ResolvesToPrivate host ip label)
      | AddressThrows \<Rightarrow> Inl SsrfThrows
      | PublicAddress \<Rightarrow> checkResolved host ips)"

definition resolveAll :: "(string \<Rightarrow> string list option) \<Rightarrow> (string \<Rightarrow> string list option) \<Rightarrow> string \<Rightarrow> string list" where
  "resolveAll resolve4 resolve6 host =
     (case resolve4 host of None \<Rightarrow> [] | Some a \<Rightarrow> a) @ (case resolve6 host of None \<Rightarrow> [] | Some a \<Rightarrow> a)"

definition validateProviderUrl ::
  "(string \<Rightarrow> (string \<times> string) option) \<Rightarrow> (string \<Rightarrow> string list option) \<Rightarrow> (string \<Rightarrow> string list option) \<Rightarrow> string
   \<Rightarrow> (ssrf_error, unit) result" where
  "validateProviderUrl parseUrl resolve4 resolve6 urlString =
     (case parseUrl urlString of
        None \<Rightarrow> Inl InvalidUrl
      | Some (protocol, hostname) \<Rightarrow>
          if protocol \<noteq> ''http:'' \<and> protocol \<noteq> ''https:'' then Inl (ProtocolNotAllowed protocol)
          else let rawHostname = toLowerCase (stripBrackets hostname)
               in if rawHostname \<in> set BLOCKED_HOSTNAMES \<or> rawHostname @ ''.'' \<in> set BLOCKED_HOSTNAMES then Inl (HostnameBlocked rawHostname)
                  else if isIP rawHostname \<noteq> 0
                  then (case isPrivateIp rawHostname of
                          PrivateAddress label \<Rightarrow> Inl (PrivateLiteral rawHostname label)
                        | AddressThrows \<Rightarrow> Inl SsrfThrows
                        | PublicAddress \<Rightarrow> Inr ())
                  else let resolvedIps = resolveAll resolve4 resolve6 rawHostname
                       in if resolvedIps = [] then Inl (Unresolved rawHostname) else checkResolved rawHostname resolvedIps)"

lemma replicate_literal: "replicate (numeral k) x = x # replicate (pred_numeral k) x"
  by (simp add: numeral_eq_Suc)

lemmas address_eval = range4_def range6_def ipv4ToInt_def ipv6ToBigInt_def expandIPv6_def parseHex_def hex_value_def
  push_bit_eq_mult replicate_literal

lemma PRIVATE_RANGES_values:
  "PRIVATE_RANGES =
    [(0, 16777215, ''current-network (0.0.0.0/8)''),
     (2130706432, 2147483647, ''loopback (127.0.0.0/8)''),
     (167772160, 184549375, ''RFC1918 (10.0.0.0/8)''),
     (2886729728, 2887778303, ''RFC1918 (172.16.0.0/12)''),
     (3232235520, 3232301055, ''RFC1918 (192.168.0.0/16)''),
     (2851995648, 2852061183, ''link-local (169.254.0.0/16)''),
     (1681915904, 1686110207, ''CGNAT (100.64.0.0/10)''),
     (1, 1, ''IPv6 loopback (::1)''),
     (338288524927261089654018896841347694592, 338620831926207318622244848606417780735, ''IPv6 link-local (fe80::/10)''),
     (334965454937798799971759379190646833152, 337623910929368631717566993311207522303, ''IPv6 unique local (fc00::/7)'')]"
  unfolding PRIVATE_RANGES_def by (simp add: address_eval)

section \<open>Addresses of four octets\<close>

definition dotted :: "nat list \<Rightarrow> string" where
  "dotted q = join_with ''.'' (map show_nat q)"

definition octets :: "nat list \<Rightarrow> bool" where
  "octets q \<longleftrightarrow> length q = 4 \<and> (\<forall>n \<in> set q. n < 256)"

definition address32 :: "nat list \<Rightarrow> nat" where
  "address32 q = foldl (\<lambda>acc n. acc * 256 + n) 0 q"

lemma address32_quad [simp]: "address32 [a, b, c, d] = ((a * 256 + b) * 256 + c) * 256 + d"
  by (simp add: address32_def)

lemma split_dotted: "octets q \<Longrightarrow> split_char (CHR ''.'') (dotted q) = map show_nat q"
proof -
  assume "octets q"
  then have "q \<noteq> []" by (auto simp: octets_def)
  moreover have "\<forall>w \<in> set (map show_nat q). CHR ''.'' \<notin> set w" using show_nat_digits by force
  ultimately show ?thesis unfolding dotted_def by (intro split_join) auto
qed

lemma isIPv4_dotted: "octets q \<Longrightarrow> isIPv4 (dotted q)"
  using split_dotted [of q] by (auto simp: isIPv4_def octets_def octet_def read_show_nat list_all_iff Let_def simp del: read_nat.simps)

lemma ipv4ToInt_dotted: "octets q \<Longrightarrow> ipv4ToInt (dotted q) = Some (int (address32 q))"
proof -
  assume o: "octets q"
  then obtain a b c d where q: "q = [a, b, c, d]" unfolding octets_def by (auto simp: length_Suc_conv numeral_eq_Suc)
  have "split_char (CHR ''.'') (dotted q) = map show_nat q" using split_dotted o by simp
  then have "ipv4ToInt (dotted q) = Some (((push_bit 24 (int a) OR push_bit 16 (int b)) OR push_bit 8 (int c)) OR int d)"
    by (simp add: ipv4ToInt_def q read_show_nat o_def del: read_nat.simps)
  moreover have "push_bit 24 (int a) OR push_bit 16 (int b) = push_bit 16 (int a * 256 + int b)"
    using or_shifted [of "int b" 8 16 "int a"] o q by (simp add: octets_def)
  moreover have "push_bit 16 (int a * 256 + int b) OR push_bit 8 (int c) = push_bit 8 ((int a * 256 + int b) * 256 + int c)"
    using or_shifted [of "int c" 8 8 "int a * 256 + int b"] o q by (simp add: octets_def)
  ultimately show ?thesis using or_low_bits [of "int d" 8 "(int a * 256 + int b) * 256 + int c"] o q
    by (simp add: octets_def)
qed

text \<open>The blocks the labels name, in the notation of prefixes.\<close>

definition RESERVED_BLOCKS :: "(nat list \<times> nat) list" where
  "RESERVED_BLOCKS = [([0, 0, 0, 0], 8), ([127, 0, 0, 0], 8), ([10, 0, 0, 0], 8), ([172, 16, 0, 0], 12), ([192, 168, 0, 0], 16),
     ([169, 254, 0, 0], 16), ([100, 64, 0, 0], 10)]"

definition in_block :: "nat list \<Rightarrow> nat list \<times> nat \<Rightarrow> bool" where
  "in_block q b = (case b of (net, len) \<Rightarrow> address32 q div 2 ^ (32 - len) = address32 net div 2 ^ (32 - len))"

definition reserved4 :: "nat list \<Rightarrow> bool" where
  "reserved4 q = list_ex (in_block q) RESERVED_BLOCKS"

lemma block_interval: "0 < (k :: nat) \<Longrightarrow> n div k = m \<longleftrightarrow> m * k \<le> n \<and> n < m * k + k"
  using dividend_less_times_div [of k n] by (auto simp: div_nat_eqI algebra_simps)

lemma address32_bound: "octets q \<Longrightarrow> address32 q < 2 ^ 32"
proof -
  assume o: "octets q"
  then obtain a b c d where q: "q = [a, b, c, d]" unfolding octets_def by (auto simp: length_Suc_conv numeral_eq_Suc)
  with o show ?thesis by (simp add: octets_def)
qed

lemma reserved4_iff:
  "reserved4 q \<longleftrightarrow> list_ex (\<lambda>(s, e). s \<le> int (address32 q) \<and> int (address32 q) \<le> e)
     [(0, 16777215), (2130706432, 2147483647), (167772160, 184549375), (2886729728, 2887778303), (3232235520, 3232301055),
      (2851995648, 2852061183), (1681915904, 1686110207)]"
proof -
  have "n div 16777216 = 0 \<longleftrightarrow> n < 16777216" "n div 16777216 = 127 \<longleftrightarrow> 2130706432 \<le> n \<and> n < 2147483648"
    "n div 16777216 = 10 \<longleftrightarrow> 167772160 \<le> n \<and> n < 184549376" "n div 1048576 = 2753 \<longleftrightarrow> 2886729728 \<le> n \<and> n < 2887778304"
    "n div 65536 = 49320 \<longleftrightarrow> 3232235520 \<le> n \<and> n < 3232301056" "n div 65536 = 43518 \<longleftrightarrow> 2851995648 \<le> n \<and> n < 2852061184"
    "n div 4194304 = 401 \<longleftrightarrow> 1681915904 \<le> n \<and> n < 1686110208" for n :: nat
    by (simp_all add: block_interval)
  then show ?thesis by (simp add: reserved4_def RESERVED_BLOCKS_def in_block_def) linarith
qed

lemma find_range: "find (\<lambda>(s, e, label). s \<le> n \<and> n \<le> e) PRIVATE_RANGES = None \<longleftrightarrow>
    \<not> list_ex (\<lambda>(s, e, l). s \<le> n \<and> n \<le> e) PRIVATE_RANGES"
  by (auto simp: find_None_iff list_ex_iff)

lemma isPrivateIp_dotted:
  assumes "octets q"
  shows "isPrivateIp (dotted q) = PublicAddress \<longleftrightarrow> \<not> reserved4 q"
proof -
  have "isPrivateIp (dotted q) = PublicAddress \<longleftrightarrow> find (\<lambda>(s, e, label). s \<le> int (address32 q) \<and> int (address32 q) \<le> e) PRIVATE_RANGES = None"
    using isIPv4_dotted [OF assms] ipv4ToInt_dotted [OF assms]
    by (simp add: isPrivateIp_def isIP_def Let_def split: option.splits)
  also have "\<dots> \<longleftrightarrow> \<not> reserved4 q"
    unfolding find_range PRIVATE_RANGES_values reserved4_iff using address32_bound [OF assms] by simp
  finally show ?thesis .
qed

text \<open>The addresses a host stands for: itself when it is a literal, else what the resolver gives.\<close>

definition hostAddresses :: "(string \<Rightarrow> string list option) \<Rightarrow> (string \<Rightarrow> string list option) \<Rightarrow> string \<Rightarrow> string list" where
  "hostAddresses resolve4 resolve6 host = (if isIP host \<noteq> 0 then [host] else resolveAll resolve4 resolve6 host)"

lemma checkResolved_iff: "checkResolved host ips = Inr () \<longleftrightarrow> (\<forall>ip \<in> set ips. isPrivateIp ip = PublicAddress)"
  by (induction ips) (auto split: address_check.splits)

lemma validate_iff:
  assumes "parseUrl url = Some (protocol, hostname)"
  shows "validateProviderUrl parseUrl resolve4 resolve6 url = Inr () \<longleftrightarrow>
     (protocol = ''http:'' \<or> protocol = ''https:'')
     \<and> toLowerCase (stripBrackets hostname) \<notin> set BLOCKED_HOSTNAMES \<and> toLowerCase (stripBrackets hostname) @ ''.'' \<notin> set BLOCKED_HOSTNAMES
     \<and> hostAddresses resolve4 resolve6 (toLowerCase (stripBrackets hostname)) \<noteq> []
     \<and> (\<forall>ip \<in> set (hostAddresses resolve4 resolve6 (toLowerCase (stripBrackets hostname))). isPrivateIp ip = PublicAddress)"
  using assms by (simp add: validateProviderUrl_def hostAddresses_def Let_def checkResolved_iff split: address_check.splits)

section \<open>Addresses of eight groups\<close>

definition groups_value :: "nat list \<Rightarrow> nat" where
  "groups_value gs = foldl (\<lambda>acc g. acc * 65536 + g) 0 gs"

lemma shiftGroups_hex:
  "\<forall>g \<in> set gs. g < 65536 \<Longrightarrow> shiftGroups (map show_hex gs) (int acc) = Some (int (foldl (\<lambda>acc g. acc * 65536 + g) acc gs))"
proof (induction gs arbitrary: acc)
  case (Cons g gs)
  have "push_bit 16 (int acc) OR int g = int (acc * 65536 + g)"
    using or_low_bits [of "int g" 16 "int acc"] Cons.prems by simp
  moreover have "show_hex g \<noteq> []" using show_hex_props by blast
  ultimately show ?case using Cons.IH [of "acc * 65536 + g"] Cons.prems by simp
qed simp

lemma hexGroup_show: "g < 65536 \<Longrightarrow> hexGroup (show_hex g)"
  using show_hex_props [of g] length_show_hex [of g 3] by (auto simp: hexGroup_def list_all_iff)

lemma colon_not_hex: "CHR '':'' \<notin> set (show_hex g)" "CHR ''%'' \<notin> set (show_hex g)" "CHR ''.'' \<notin> set (show_hex g)"
  using show_hex_lower [of _ g] by auto

lemma set_join: "set (join_with sep ws) \<subseteq> set sep \<union> \<Union> (set (map set ws))"
  by (induction sep ws rule: join_with.induct) auto

lemma split_hex_groups: "gs \<noteq> [] \<Longrightarrow> split_char (CHR '':'') (join_with '':'' (map show_hex gs)) = map show_hex gs"
  by (rule split_join) (auto simp: colon_not_hex)

lemma split_colons_step:
  assumes "w \<noteq> []" and "CHR '':'' \<notin> set w" and "r \<noteq> []" and "hd r \<noteq> CHR '':''" and "split_colons r = [r]"
  shows "split_colons (w @ CHR '':'' # r) = [w @ CHR '':'' # r]"
  using assms
proof (induction w)
  case (Cons c w)
  obtain x r' where r: "r = x # r'" using Cons.prems(3) by (cases r) auto
  show ?case
  proof (cases w)
    case Nil
    then show ?thesis using Cons.prems r by simp
  next
    case (Cons d w')
    then show ?thesis using Cons.IH Cons.prems by auto
  qed
qed simp

lemma split_colons_none: "CHR '':'' \<notin> set w \<Longrightarrow> split_colons w = [w]"
  by (induction w rule: split_colons.induct) auto

lemma split_colons_groups:
  "gs \<noteq> [] \<Longrightarrow> split_colons (join_with '':'' (map show_hex gs)) = [join_with '':'' (map show_hex gs)]
     \<and> join_with '':'' (map show_hex gs) \<noteq> [] \<and> hd (join_with '':'' (map show_hex gs)) \<noteq> CHR '':''"
proof (induction gs)
  case (Cons g gs)
  have hex: "show_hex g \<noteq> []" "CHR '':'' \<notin> set (show_hex g)" using show_hex_props colon_not_hex by blast+
  then have "hd (show_hex g) \<noteq> CHR '':''" by (metis list.set_sel(1))
  then show ?case
    using Cons.IH hex split_colons_none [of "show_hex g"] split_colons_step [of "show_hex g" "join_with '':'' (map show_hex gs)"]
    by (cases gs) auto
qed simp

lemma groupCount_hex:
  "gs \<noteq> [] \<Longrightarrow> \<forall>g \<in> set gs. g < 65536 \<Longrightarrow> groupCount t (join_with '':'' (map show_hex gs)) = Some (length gs)"
  using split_hex_groups [of gs] split_colons_groups [of gs]
  by (simp add: groupCount_def Let_def list_all_iff hexGroup_show)

lemma no_marks:
  assumes "c \<noteq> CHR '':''" and "\<And>g. c \<notin> set (show_hex g)"
  shows "c \<notin> set (join_with '':'' (map show_hex gs))"
  using assms set_join [of "'':''" "map show_hex gs"] by auto

lemma no_dot_not_IPv4: "CHR ''.'' \<notin> set s \<Longrightarrow> \<not> isIPv4 s"
  by (simp add: isIPv4_def Let_def)

lemma no_zone: "CHR ''%'' \<notin> set s \<Longrightarrow> takeWhile (\<lambda>c. c \<noteq> CHR ''%'') s = s \<and> dropWhile (\<lambda>c. c \<noteq> CHR ''%'') s = []"
  by (auto simp: dropWhile_eq_Nil_conv takeWhile_eq_all_conv)

lemma isIPv6_whole:
  assumes "CHR ''%'' \<notin> set s" and "split_colons s = [s]" and "s \<noteq> []" and "groupCount True s = Some 8"
  shows "isIPv6 s"
  unfolding isIPv6_def Let_def no_zone [OF assms(1), THEN conjunct1] no_zone [OF assms(1), THEN conjunct2] using assms(2-4) by simp

lemma isIPv6_compressed:
  assumes "CHR ''%'' \<notin> set r" and "split_colons r = [r]" and "groupCount True r = Some n" and "n \<le> 7"
  shows "isIPv6 (''::'' @ r)"
proof -
  have zone: "CHR ''%'' \<notin> set (''::'' @ r)" using assms(1) by simp
  have split: "split_colons (''::'' @ r) = [[], r]" using assms(2) by simp
  show ?thesis unfolding isIPv6_def Let_def no_zone [OF zone, THEN conjunct1] no_zone [OF zone, THEN conjunct2] split
    using assms(3,4) by (simp add: groupCount_def [of False])
qed

definition grouped :: "nat list \<Rightarrow> string" where
  "grouped gs = join_with '':'' (map show_hex gs)"

lemma grouped_plain: "CHR ''.'' \<notin> set (grouped gs)" "CHR ''%'' \<notin> set (grouped gs)"
  unfolding grouped_def by (intro no_marks colon_not_hex; simp)+

lemma isIP_grouped:
  assumes "length gs = 8" and "\<forall>g \<in> set gs. g < 65536"
  shows "isIP (grouped gs) = 6"
proof -
  have ne: "gs \<noteq> []" using assms(1) by auto
  have "isIPv6 (grouped gs)"
    using isIPv6_whole [OF grouped_plain(2)] groupCount_hex [OF ne assms(2)] split_colons_groups [OF ne] assms(1)
    by (simp add: grouped_def)
  then show ?thesis using no_dot_not_IPv4 [OF grouped_plain(1)] by (simp add: isIP_def)
qed

lemma ipv6_grouped:
  assumes "length gs = 8" and "\<forall>g \<in> set gs. g < 65536"
  shows "ipv6ToBigInt (grouped gs) = Some (int (groups_value gs))"
proof -
  have ne: "gs \<noteq> []" using assms(1) by auto
  show ?thesis
    using split_colons_groups [OF ne] split_hex_groups [OF ne] shiftGroups_hex [OF assms(2), of 0]
    by (simp add: ipv6ToBigInt_def expandIPv6_def grouped_def groups_value_def)
qed

definition mapped :: "nat \<Rightarrow> nat \<Rightarrow> string" where
  "mapped x y = ''::ffff:'' @ show_hex x @ '':'' @ show_hex y"

lemma mapped_grouped: "mapped x y = ''::'' @ grouped [65535, x, y]"
  by (simp add: mapped_def grouped_def show_hex.simps [of 65535] show_hex.simps [of 4095] show_hex.simps [of 255]
      show_hex.simps [of 15] hex_digit_def char_of_def bit_0)

lemma isIP_mapped:
  assumes "x < 65536" and "y < 65536"
  shows "isIP (mapped x y) = 6"
proof -
  have "isIPv6 (mapped x y)" unfolding mapped_grouped
    using groupCount_hex [of "[65535, x, y]" True] split_colons_groups [of "[65535, x, y]"] assms
    by (intro isIPv6_compressed [OF grouped_plain(2), where n = 3]) (simp_all add: grouped_def)
  moreover have "CHR ''.'' \<notin> set (mapped x y)" using grouped_plain(1) by (simp add: mapped_grouped)
  ultimately show ?thesis using no_dot_not_IPv4 by (simp add: isIP_def)
qed

lemma ipv6_mapped:
  assumes "x < 65536" and "y < 65536"
  shows "ipv6ToBigInt (mapped x y) = Some (int (groups_value [0, 0, 0, 0, 0, 65535, x, y]))"
proof -
  have zero: "show_hex 0 = ''0''" by (simp add: show_hex.simps [of 0] hex_digit_def char_of_def bit_0)
  have "expandIPv6 (mapped x y) = grouped [0, 0, 0, 0, 0, 65535, x, y]"
    using split_colons_groups [of "[65535, x, y]"] split_hex_groups [of "[65535, x, y]"]
    by (simp add: expandIPv6_def mapped_grouped grouped_def zero replicate_literal Let_def)
  then show ?thesis
    using split_hex_groups [of "[0, 0, 0, 0, 0, 65535, x, y]"] shiftGroups_hex [of "[0, 0, 0, 0, 0, 65535, x, y]" 0] assms
    by (simp add: ipv6ToBigInt_def grouped_def groups_value_def)
qed

lemma isPrivateIp_mapped: "x < 65536 \<Longrightarrow> y < 65536 \<Longrightarrow> isPrivateIp (mapped x y) = PublicAddress"
  using isIP_mapped [of x y] ipv6_mapped [of x y]
  by (simp add: isPrivateIp_def Let_def groups_value_def find_range PRIVATE_RANGES_values split: option.split)

text \<open>An address written in full.\<close>

definition reserved6 :: "nat list \<Rightarrow> bool" where
  "reserved6 gs = (gs = [0, 0, 0, 0, 0, 0, 0, 1] \<or> hd gs div 64 = 1018 \<or> hd gs div 512 = 126
     \<or> take 6 gs = replicate 6 0 \<and> reserved4 [gs ! 6 div 256, gs ! 6 mod 256, gs ! 7 div 256, gs ! 7 mod 256])"

lemma isPrivateIp_grouped:
  assumes "length gs = 8" and "\<forall>g \<in> set gs. g < 65536"
  shows "isPrivateIp (grouped gs) = PublicAddress \<longleftrightarrow> \<not> reserved6 gs"
proof -
  obtain a b c d e f g h where gs: "gs = [a, b, c, d, e, f, g, h]"
    using assms(1) by (auto simp: length_Suc_conv numeral_eq_Suc)
  define hi lo where "hi = (((a * 65536 + b) * 65536 + c) * 65536 + d) * 65536 * 65536 + e * 65536 + f" and "lo = g * 65536 + h"
  define mid where "mid = ((((b * 65536 + c) * 65536 + d) * 65536 + e) * 65536 + f) * 65536 * 65536 + lo"
  have bounds: "a < 65536" "b < 65536" "c < 65536" "d < 65536" "e < 65536" "f < 65536" "g < 65536" "h < 65536"
    using assms(2) gs by auto
  have v: "groups_value gs = hi * 4294967296 + lo" and v': "groups_value gs = a * 2 ^ 112 + mid"
    by (simp_all add: groups_value_def gs hi_def lo_def mid_def)
  have lo: "lo < 4294967296" and mid: "mid < 2 ^ 112" using bounds by (simp_all add: lo_def mid_def)
  have addr: "address32 [g div 256, g mod 256, h div 256, h mod 256] = lo" by (simp add: lo_def)
  have hi0: "hi = 0 \<longleftrightarrow> a = 0 \<and> b = 0 \<and> c = 0 \<and> d = 0 \<and> e = 0 \<and> f = 0" by (auto simp: hi_def)
  have link: "338288524927261089654018896841347694592 \<le> groups_value gs \<and> groups_value gs \<le> 338620831926207318622244848606417780735 \<longleftrightarrow> a div 64 = 1018"
    unfolding v' using mid block_interval [of 64 a 1018] by auto
  have local: "334965454937798799971759379190646833152 \<le> groups_value gs \<and> groups_value gs \<le> 337623910929368631717566993311207522303 \<longleftrightarrow> a div 512 = 126"
    unfolding v' using mid block_interval [of 512 a 126] by auto
  have one: "groups_value gs = 1 \<longleftrightarrow> gs = [0, 0, 0, 0, 0, 0, 0, 1]"
  proof
    assume "groups_value gs = 1"
    then have "hi = 0 \<and> lo = 1" unfolding v by (cases hi) auto
    moreover from this have "g = 0 \<and> h = 1" unfolding lo_def by (cases g) auto
    ultimately show "gs = [0, 0, 0, 0, 0, 0, 0, 1]" by (simp add: gs hi0)
  qed (simp add: groups_value_def)
  have four: "list_ex (\<lambda>(s, e). s \<le> int (groups_value gs) \<and> int (groups_value gs) \<le> e)
     [(0, 16777215), (2130706432, 2147483647), (167772160, 184549375), (2886729728, 2887778303), (3232235520, 3232301055),
      (2851995648, 2852061183), (1681915904, 1686110207)] \<longleftrightarrow> hi = 0 \<and> reserved4 [g div 256, g mod 256, h div 256, h mod 256]"
  proof (cases "hi = 0")
    case False
    then have "4294967296 \<le> groups_value gs" using v by simp
    with False show ?thesis by simp
  qed (simp add: reserved4_iff addr v del: address32_quad)
  have "isPrivateIp (grouped gs) = PublicAddress \<longleftrightarrow> \<not> list_ex (\<lambda>(s, e, l). s \<le> int (groups_value gs) \<and> int (groups_value gs) \<le> e) PRIVATE_RANGES"
    unfolding find_range [symmetric] using isIP_grouped [OF assms] ipv6_grouped [OF assms]
    by (simp add: isPrivateIp_def Let_def split: option.split)
  also have "list_ex (\<lambda>(s, e, l). s \<le> int (groups_value gs) \<and> int (groups_value gs) \<le> e) PRIVATE_RANGES
      \<longleftrightarrow> (hi = 0 \<and> reserved4 [g div 256, g mod 256, h div 256, h mod 256]) \<or> gs = [0, 0, 0, 0, 0, 0, 0, 1] \<or> a div 64 = 1018 \<or> a div 512 = 126"
    unfolding PRIVATE_RANGES_values four [symmetric] link [symmetric] local [symmetric] one [symmetric] by simp linarith
  also have "\<dots> \<longleftrightarrow> reserved6 gs" unfolding reserved6_def hi0 by (auto simp: gs replicate_literal)
  finally show ?thesis .
qed

lemma lower_chars: "set (show_hex n) \<subseteq> set ''0123456789abcdef.:''" "set (show_nat n) \<subseteq> set ''0123456789abcdef.:''"
proof -
  have "set ''0123456789abcdef'' \<subseteq> set ''0123456789abcdef.:''" "set ''0123456789'' \<subseteq> set ''0123456789abcdef.:''" by simp_all
  then show "set (show_hex n) \<subseteq> set ''0123456789abcdef.:''" "set (show_nat n) \<subseteq> set ''0123456789abcdef.:''"
    using show_hex_lower show_nat_digits by blast+
qed

lemma stripBrackets_brackets: "s \<noteq> [] \<Longrightarrow> stripBrackets (''['' @ s @ '']'') = s"
  by (cases s) (simp_all add: stripBrackets_def)

section \<open>Properties\<close>





end
