(* ===== verification/Provider_Failover.thy ===== *)
theory Provider_Failover
  imports Redaction
begin

text \<open>
  Resilient provider calls: \<open>src/providers/failover.ts\<close>, \<open>src/providers/credentialPool.ts\<close>,
  \<open>src/providers/turnRetryState.ts\<close> and the error type of \<open>src/providers/llm.ts\<close>. The provider is a
  parameter: the outcome of an invocation is any function of the number of invocations so far and of
  the selection. So are the budget check, the abort signal during the wait and the clocks. The state
  keeps the retry flags, the pool, the events and, for the statements, all invocations. Retryability
  and details of errors are dropped.
\<close>

section \<open>Errors\<close>

datatype provider_error_code =
    CONFIG_INVALID | BUDGET_DENIED | NETWORK_DISABLED | PROVIDER_HTTP_ERROR | PROVIDER_RESPONSE_INVALID
  | PROVIDER_RESPONSE_TOO_LARGE | ProviderAborted

record provider_error =
  pe_code :: provider_error_code
  pe_provider :: string
  pe_status :: "int option"
  pe_message :: string

text \<open>What an invocation throws: a \<open>ProviderError\<close>, another \<open>Error\<close> with its name, or any other value.\<close>

datatype failure = ProviderErr provider_error | JsError string string | OtherThrown string

fun isRateLimitError :: "failure \<Rightarrow> bool" where
  "isRateLimitError (ProviderErr e) = (pe_status e = Some 429)"
| "isRateLimitError _ = False"

fun isAuthError :: "failure \<Rightarrow> bool" where
  "isAuthError (ProviderErr e) = (pe_status e = Some 401 \<or> pe_status e = Some 403 \<or> pe_code e = CONFIG_INVALID)"
| "isAuthError _ = False"

text \<open>The error \<open>throwIfAbort\<close> throws, if it throws.\<close>

fun throwIfAbort :: "failure \<Rightarrow> failure option" where
  "throwIfAbort (ProviderErr e) = (if pe_code e = ProviderAborted then Some (ProviderErr e) else None)"
| "throwIfAbort (JsError name message) =
     (if name = ''AbortError''
      then Some (ProviderErr \<lparr>pe_code = ProviderAborted, pe_provider = ''provider-resilience'', pe_status = None,
                   pe_message = ''Provider invocation aborted''\<rparr>) else None)"
| "throwIfAbort (OtherThrown v) = None"

definition ProviderResilienceError :: "string \<Rightarrow> string \<Rightarrow> int option \<Rightarrow> failure" where
  "ProviderResilienceError provider message status =
     ProviderErr \<lparr>pe_code = PROVIDER_HTTP_ERROR, pe_provider = provider, pe_status = status, pe_message = redactString message\<rparr>"

fun classifyExhaustedError :: "failure \<Rightarrow> string \<Rightarrow> failure" where
  "classifyExhaustedError (ProviderErr e) provider = ProviderResilienceError (pe_provider e) (pe_message e) (pe_status e)"
| "classifyExhaustedError (JsError name message) provider = ProviderResilienceError provider message None"
| "classifyExhaustedError (OtherThrown v) provider = ProviderResilienceError provider v None"

section \<open>Retry flags\<close>

record retry_state =
  hasRetried429 :: bool
  hasRetriedAuth :: bool
  hasActivatedFallback :: bool
  hasCompressedAndRetried :: bool

definition newRetryState :: retry_state where
  "newRetryState = \<lparr>hasRetried429 = False, hasRetriedAuth = False, hasActivatedFallback = False, hasCompressedAndRetried = False\<rparr>"

definition tryMarkRetried429 :: "retry_state \<Rightarrow> bool \<times> retry_state" where
  "tryMarkRetried429 r = (if hasRetried429 r then (False, r) else (True, r\<lparr>hasRetried429 := True\<rparr>))"

definition tryMarkRetriedAuth :: "retry_state \<Rightarrow> bool \<times> retry_state" where
  "tryMarkRetriedAuth r = (if hasRetriedAuth r then (False, r) else (True, r\<lparr>hasRetriedAuth := True\<rparr>))"

definition tryMarkActivatedFallback :: "retry_state \<Rightarrow> bool \<times> retry_state" where
  "tryMarkActivatedFallback r = (if hasActivatedFallback r then (False, r) else (True, r\<lparr>hasActivatedFallback := True\<rparr>))"

definition tryMarkCompressedAndRetried :: "retry_state \<Rightarrow> bool \<times> retry_state" where
  "tryMarkCompressedAndRetried r = (if hasCompressedAndRetried r then (False, r) else (True, r\<lparr>hasCompressedAndRetried := True\<rparr>))"

section \<open>Credentials\<close>

record provider =
  prov_id :: string
  prov_models :: "(string, string) js_map"

record credential =
  cr_providerId :: string
  cr_secretRef :: string
  cr_label :: "string option"
  cr_cooldownUntil :: "string option"
  cr_provider :: "provider option"

record credential_pool =
  cp_entries :: "credential list"
  cp_cursorByProvider :: "(string, nat) js_map"

text \<open>\<open>parseDate\<close> is \<open>Date.parse\<close>, with \<open>None\<close> for not a number.\<close>

definition availableEntries :: "(string \<Rightarrow> int option) \<Rightarrow> int \<Rightarrow> string \<Rightarrow> credential_pool \<Rightarrow> credential list" where
  "availableEntries parseDate now providerId p =
     filter (\<lambda>e. cr_providerId e = providerId
        \<and> (case cr_cooldownUntil e of
             None \<Rightarrow> True
           | Some t \<Rightarrow> t = [] \<or> (case parseDate t of None \<Rightarrow> True | Some until \<Rightarrow> until \<le> now))) (cp_entries p)"

definition acquire :: "(string \<Rightarrow> int option) \<Rightarrow> int \<Rightarrow> string \<Rightarrow> credential_pool \<Rightarrow> credential option \<times> credential_pool" where
  "acquire parseDate now providerId p =
     (let candidates = availableEntries parseDate now providerId p;
          cursor = (case js_get (cp_cursorByProvider p) providerId of None \<Rightarrow> 0 | Some c \<Rightarrow> c)
      in if candidates = [] then (None, p)
         else (Some (candidates ! (cursor mod length candidates)),
               p\<lparr>cp_cursorByProvider := js_set providerId ((cursor + 1) mod length candidates) (cp_cursorByProvider p)\<rparr>))"

definition markCooldown :: "string \<Rightarrow> string \<Rightarrow> string \<Rightarrow> credential_pool \<Rightarrow> credential_pool" where
  "markCooldown providerId secretRef until p =
     p\<lparr>cp_entries := map (\<lambda>e. if cr_providerId e = providerId \<and> cr_secretRef e = secretRef then e\<lparr>cr_cooldownUntil := Some until\<rparr> else e)
        (cp_entries p)\<rparr>"

definition resetPool :: "string \<Rightarrow> credential_pool \<Rightarrow> credential_pool" where
  "resetPool providerId p =
     p\<lparr>cp_entries := map (\<lambda>e. if cr_providerId e = providerId then e\<lparr>cr_cooldownUntil := None\<rparr> else e) (cp_entries p),
       cp_cursorByProvider := js_delete providerId (cp_cursorByProvider p)\<rparr>"

section \<open>Calls\<close>

record model_selection =
  sel_provider :: provider
  sel_providerId :: "string option"
  sel_modelRoute :: string
  sel_model :: string
  sel_reason :: string

datatype call_site = SitePlanner | SiteSkeptic | SiteSynthesizer | SiteRepair | SiteTriage

datatype resilience_event =
    ProviderRetry string string rat
  | CredentialRotated string string bool
  | ProviderSubstituted "string" "string" string string

record 'r call_env =
  ce_invoke :: "nat \<Rightarrow> model_selection \<Rightarrow> (failure, 'r) result"
  ce_budgetPreflight :: "(nat \<Rightarrow> bool) option"
  ce_aborted :: "nat \<Rightarrow> bool"
  ce_clock :: "nat \<Rightarrow> int"
  ce_dateNow :: "nat \<Rightarrow> int"
  ce_parseDate :: "string \<Rightarrow> int option"
  ce_toISOString :: "int \<Rightarrow> string"

record call_input =
  ci_site :: call_site
  ci_role :: "string option"
  ci_primary :: model_selection
  ci_fallback :: "model_selection option"
  ci_retryDelayMs :: "rat option"

record call_state =
  cs_retry :: retry_state
  cs_pool :: "credential_pool option"
  cs_events :: "(call_site \<times> string option \<times> resilience_event) list"
  cs_attempts :: "model_selection list"

text \<open>A stage ends the call or goes on with an error and the active selection.\<close>

datatype 'r stage = Done "(failure, 'r \<times> model_selection \<times> bool) result" | Go failure model_selection

definition providerIdOf :: "model_selection \<Rightarrow> string" where
  "providerIdOf s = (case sel_providerId s of Some i \<Rightarrow> i | None \<Rightarrow> prov_id (sel_provider s))"

definition modelForRotatedProvider :: "model_selection \<Rightarrow> provider \<Rightarrow> string" where
  "modelForRotatedProvider s p =
     (let models = js_values (prov_models p)
      in if sel_model s \<in> set models then sel_model s
         else case js_get (prov_models p) (sel_modelRoute s) of
                Some m \<Rightarrow> m
              | None \<Rightarrow> (case models of m # _ \<Rightarrow> m | [] \<Rightarrow> sel_model s))"

definition emit :: "call_input \<Rightarrow> resilience_event \<Rightarrow> call_state \<Rightarrow> call_state" where
  "emit inp e st = st\<lparr>cs_events := cs_events st @ [(ci_site inp, ci_role inp, e)]\<rparr>"

definition retryDelayMs :: "call_input \<Rightarrow> rat" where
  "retryDelayMs inp = (case ci_retryDelayMs inp of Some d \<Rightarrow> d | None \<Rightarrow> 2000)"

definition budgetOk :: "'r call_env \<Rightarrow> call_state \<Rightarrow> bool" where
  "budgetOk E st = (case ce_budgetPreflight E of None \<Rightarrow> True | Some f \<Rightarrow> f (length (cs_attempts st)))"

definition invokeWith :: "'r call_env \<Rightarrow> model_selection \<Rightarrow> bool \<Rightarrow> call_state \<Rightarrow> call_state \<times> 'r stage" where
  "invokeWith E sel substituted st =
     (st\<lparr>cs_attempts := cs_attempts st @ [sel]\<rparr>,
      case ce_invoke E (length (cs_attempts st)) sel of
        Inr r \<Rightarrow> Done (Inr (r, sel, substituted))
      | Inl e \<Rightarrow> (case throwIfAbort e of Some e' \<Rightarrow> Done (Inl e') | None \<Rightarrow> Go e sel))"

definition exhausted :: "failure \<Rightarrow> model_selection \<Rightarrow> 'r stage" where
  "exhausted e active = Done (Inl (classifyExhaustedError e (prov_id (sel_provider active))))"

definition retryRateLimit :: "'r call_env \<Rightarrow> call_input \<Rightarrow> failure \<Rightarrow> model_selection \<Rightarrow> call_state \<Rightarrow> call_state \<times> 'r stage" where
  "retryRateLimit E inp e active st =
     (if \<not> isRateLimitError e then (st, Go e active)
      else case tryMarkRetried429 (cs_retry st) of
        (False, r) \<Rightarrow> (st\<lparr>cs_retry := r\<rparr>, Go e active)
      | (True, r) \<Rightarrow>
          let st1 = st\<lparr>cs_retry := r\<rparr>
          in if \<not> budgetOk E st1 then (st1, exhausted e active)
             else let st2 = emit inp (ProviderRetry (providerIdOf active) (sel_model active) (retryDelayMs inp)) st1
                  in if ce_aborted E (length (cs_attempts st2))
                     then (st2, Done (Inl (ProviderErr \<lparr>pe_code = ProviderAborted, pe_provider = prov_id (sel_provider active),
                                             pe_status = None, pe_message = ''Provider retry wait aborted''\<rparr>)))
                     else invokeWith E active False st2)"

definition poolAcquire :: "'r call_env \<Rightarrow> string \<Rightarrow> call_state \<Rightarrow> credential option \<times> call_state" where
  "poolAcquire E providerId st =
     (case cs_pool st of
        None \<Rightarrow> (None, st)
      | Some p \<Rightarrow> (case acquire (ce_parseDate E) (ce_clock E (length (cs_attempts st))) providerId p of
                     (c, p') \<Rightarrow> (c, st\<lparr>cs_pool := Some p'\<rparr>)))"

definition coolFailed :: "'r call_env \<Rightarrow> string \<Rightarrow> call_state \<Rightarrow> call_state" where
  "coolFailed E providerId st =
     (case poolAcquire E providerId st of
        (None, st1) \<Rightarrow> st1
      | (Some c, st1) \<Rightarrow>
          st1\<lparr>cs_pool := map_option (markCooldown providerId (cr_secretRef c)
                           (ce_toISOString E (ce_dateNow E (length (cs_attempts st)) + 60000))) (cs_pool st1)\<rparr>)"

definition rotatedSelection :: "model_selection \<Rightarrow> credential option \<Rightarrow> model_selection" where
  "rotatedSelection active rotated =
     (case Option.bind rotated cr_provider of
        None \<Rightarrow> active
      | Some p \<Rightarrow> active\<lparr>sel_provider := p, sel_model := modelForRotatedProvider active p\<rparr>)"

definition rotateCredential :: "'r call_env \<Rightarrow> call_input \<Rightarrow> failure \<Rightarrow> model_selection \<Rightarrow> call_state \<Rightarrow> call_state \<times> 'r stage" where
  "rotateCredential E inp e active st =
     (if \<not> isAuthError e then (st, Go e active)
      else case tryMarkRetriedAuth (cs_retry st) of
        (False, r) \<Rightarrow> (st\<lparr>cs_retry := r\<rparr>, Go e active)
      | (True, r) \<Rightarrow>
          let st1 = st\<lparr>cs_retry := r\<rparr>
          in if \<not> budgetOk E st1 then (st1, exhausted e active)
             else let providerId = providerIdOf active;
                      (rotated, st2) = poolAcquire E providerId (coolFailed E providerId st1);
                      active' = rotatedSelection active rotated;
                      st3 = emit inp (CredentialRotated providerId (sel_model active') (rotated \<noteq> None)) st2
                  in if rotated \<noteq> None then invokeWith E active' False st3 else (st3, Go e active'))"

definition substitute :: "'r call_env \<Rightarrow> call_input \<Rightarrow> failure \<Rightarrow> model_selection \<Rightarrow> call_state \<Rightarrow> call_state \<times> 'r stage" where
  "substitute E inp e active st =
     (case ci_fallback inp of
        None \<Rightarrow> (st, Go e active)
      | Some fb \<Rightarrow>
          (case tryMarkActivatedFallback (cs_retry st) of
             (False, r) \<Rightarrow> (st\<lparr>cs_retry := r\<rparr>, Go e active)
           | (True, r) \<Rightarrow>
               let st1 = st\<lparr>cs_retry := r\<rparr>
               in if \<not> budgetOk E st1 then (st1, exhausted e active)
                  else invokeWith E fb True
                         (emit inp (ProviderSubstituted (providerIdOf (ci_primary inp)) (providerIdOf fb) (sel_model (ci_primary inp)) (sel_model fb)) st1)))"

definition andThen :: "call_state \<times> 'r stage \<Rightarrow> (failure \<Rightarrow> model_selection \<Rightarrow> call_state \<Rightarrow> call_state \<times> 'r stage) \<Rightarrow> call_state \<times> 'r stage" where
  "andThen x f = (case x of (st, Done out) \<Rightarrow> (st, Done out) | (st, Go e active) \<Rightarrow> f e active st)"

definition callWithResilience :: "'r call_env \<Rightarrow> call_input \<Rightarrow> call_state \<Rightarrow> call_state \<times> (failure, 'r \<times> model_selection \<times> bool) result" where
  "callWithResilience E inp st =
     (case andThen (andThen (andThen (invokeWith E (ci_primary inp) False st) (retryRateLimit E inp)) (rotateCredential E inp)) (substitute E inp) of
        (st', Done out) \<Rightarrow> (st', out)
      | (st', Go e active) \<Rightarrow> (st', Inl (classifyExhaustedError e (prov_id (sel_provider active)))))"

section \<open>Resilient selections\<close>

text \<open>\<open>siteForRouterInput\<close> and \<open>roleForRouterInput\<close> on the task of the input.\<close>

definition siteForRouterInput :: "string option \<Rightarrow> call_site option" where
  "siteForRouterInput task =
     (let t = toLowerCase (case task of None \<Rightarrow> [] | Some s \<Rightarrow> s)
      in if js_includes t ''planner'' then Some SitePlanner
         else if js_includes t ''skeptic'' then Some SiteSkeptic
         else if js_includes t ''synthesizer'' \<or> js_includes t ''synthesis'' \<or> js_includes t ''direct-answer'' then Some SiteSynthesizer
         else if js_includes t ''repair'' \<or> js_includes t ''healer'' then Some SiteRepair
         else if js_includes t ''triage'' then Some SiteTriage
         else None)"

fun siteName :: "call_site \<Rightarrow> string" where
  "siteName SitePlanner = ''planner''"
| "siteName SiteSkeptic = ''skeptic''"
| "siteName SiteSynthesizer = ''synthesizer''"
| "siteName SiteRepair = ''repair''"
| "siteName SiteTriage = ''triage''"

definition roleForRouterInput :: "string option \<Rightarrow> string option" where
  "roleForRouterInput task =
     (if js_includes (toLowerCase (case task of None \<Rightarrow> [] | Some s \<Rightarrow> s)) ''direct-answer'' then Some ''directAnswer''
      else map_option siteName (siteForRouterInput task))"

record selection_fallback =
  sf_provider :: provider
  sf_providerId :: "string option"
  sf_model :: string
  sf_reason :: string

definition fallbackSelection :: "model_selection \<Rightarrow> selection_fallback \<Rightarrow> model_selection" where
  "fallbackSelection sel f =
     sel\<lparr>sel_provider := sf_provider f, sel_providerId := sf_providerId f, sel_model := sf_model f, sel_reason := sf_reason f\<rparr>"

text \<open>The input of every call that is made through a resilient selection; its retry state is new and lives as long as the selection.\<close>

definition resilientSelection :: "model_selection \<Rightarrow> selection_fallback option \<Rightarrow> rat option \<Rightarrow> string option \<Rightarrow> call_input option" where
  "resilientSelection sel fb delay task =
     map_option (\<lambda>site. \<lparr>ci_site = site, ci_role = roleForRouterInput task, ci_primary = sel,
       ci_fallback = map_option (fallbackSelection sel) fb, ci_retryDelayMs = delay\<rparr>) (siteForRouterInput task)"

text \<open>A sequence of calls through one selection.\<close>

fun resilientCalls :: "'r call_env \<Rightarrow> call_input \<Rightarrow> nat \<Rightarrow> call_state \<Rightarrow> call_state" where
  "resilientCalls E inp 0 st = st"
| "resilientCalls E inp (Suc n) st = resilientCalls E inp n (fst (callWithResilience E inp st))"

end
