(* ===== verification/Failover_Correct.thy ===== *)
theory Failover_Correct
  imports Provider_Failover
begin

text \<open>
  Resilient calls are bounded over the life of a selection, follow an invocation by another only after
  a failure and a positive budget check, and report the last invocation. The credential pool rotates
  fairly and leaves credentials alone while they cool down.
\<close>

section \<open>Stages\<close>

definition spare :: "call_state \<Rightarrow> nat" where
  "spare st = of_bool (\<not> hasRetried429 (cs_retry st)) + of_bool (\<not> hasRetriedAuth (cs_retry st)) + of_bool (\<not> hasActivatedFallback (cs_retry st))"

text \<open>
  A stage makes no invocation and does not succeed, or it spends a spare attempt on one invocation that the
  budget allows and that decides how it ends.
\<close>

definition advance :: "'r call_env \<Rightarrow> call_state \<Rightarrow> call_state \<times> 'r stage \<Rightarrow> bool" where
  "advance E st x \<longleftrightarrow>
     (cs_attempts (fst x) = cs_attempts st \<and> spare (fst x) \<le> spare st \<and> (\<forall>r. snd x \<noteq> Done (Inr r)))
   \<or> (\<exists>sel b. cs_attempts (fst x) = cs_attempts st @ [sel] \<and> budgetOk E st \<and> spare (fst x) < spare st \<and> snd x = snd (invokeWith E sel b st))"

lemma budgetOk_cong: "cs_attempts st' = cs_attempts st \<Longrightarrow> budgetOk E st' = budgetOk E st"
  by (simp add: budgetOk_def split: option.split)

lemma budgetOk_emit [simp]: "budgetOk E (emit inp e st) = budgetOk E st" "budgetOk E (st\<lparr>cs_retry := r\<rparr>) = budgetOk E st"
  by (rule budgetOk_cong, simp add: emit_def)+

lemma invokeWith_snd_cong: "cs_attempts st' = cs_attempts st \<Longrightarrow> snd (invokeWith E sel b st') = snd (invokeWith E sel b st)"
  by (simp add: invokeWith_def)

lemma invokeWith_fst: "fst (invokeWith E sel b st) = st\<lparr>cs_attempts := cs_attempts st @ [sel]\<rparr>"
  by (simp add: invokeWith_def)

lemma advance_invoke:
  assumes "cs_attempts st' = cs_attempts st" and "budgetOk E st'" and "spare st' < spare st"
  shows "advance E st (invokeWith E sel b st')"
proof -
  have "spare (fst (invokeWith E sel b st')) = spare st'" by (simp add: invokeWith_fst spare_def)
  moreover have "budgetOk E st" using assms(1,2) budgetOk_cong by metis
  ultimately show ?thesis unfolding advance_def using assms(1,3) invokeWith_snd_cong [OF assms(1)] by (auto simp: invokeWith_fst)
qed

lemma advance_still:
  assumes "cs_attempts st' = cs_attempts st" and "spare st' \<le> spare st" and "\<And>r. s \<noteq> Done (Inr r)"
  shows "advance E st (st', s)"
  using assms by (auto simp: advance_def)

lemma emit_keeps [simp]:
  "cs_attempts (emit inp e st) = cs_attempts st" "cs_retry (emit inp e st) = cs_retry st" "spare (emit inp e st) = spare st"
  by (simp_all add: emit_def spare_def)

lemma exhausted_not_success [simp]: "exhausted e a \<noteq> Done (Inr r)"
  by (simp add: exhausted_def)

lemma poolAcquire_keeps:
  "cs_attempts (snd (poolAcquire E i st)) = cs_attempts st \<and> cs_retry (snd (poolAcquire E i st)) = cs_retry st"
  by (simp add: poolAcquire_def split: option.split prod.split)

lemma coolFailed_keeps:
  "cs_attempts (coolFailed E i st) = cs_attempts st \<and> cs_retry (coolFailed E i st) = cs_retry st"
  using poolAcquire_keeps [of E i st] by (auto simp: coolFailed_def split: option.splits prod.splits)

lemma retryRateLimit_advance: "advance E st (retryRateLimit E inp e active st)"
  unfolding retryRateLimit_def
  by (auto simp: tryMarkRetried429_def Let_def spare_def intro!: advance_still advance_invoke)

lemma substitute_advance: "advance E st (substitute E inp e active st)"
  unfolding substitute_def
  by (auto simp: tryMarkActivatedFallback_def Let_def spare_def intro!: advance_still advance_invoke split: option.split)

lemma rotateCredential_advance: "advance E st (rotateCredential E inp e active st)"
proof -
  let ?st1 = "st\<lparr>cs_retry := (cs_retry st)\<lparr>hasRetriedAuth := True\<rparr>\<rparr>" and ?i = "providerIdOf active"
  obtain rotated st2 where p: "poolAcquire E ?i (coolFailed E ?i ?st1) = (rotated, st2)" by force
  then have st2: "cs_attempts st2 = cs_attempts st" "cs_retry st2 = (cs_retry st)\<lparr>hasRetriedAuth := True\<rparr>"
    using poolAcquire_keeps [of E ?i "coolFailed E ?i ?st1"] coolFailed_keeps [of E ?i ?st1] by auto
  show ?thesis
  proof (cases "isAuthError e \<and> \<not> hasRetriedAuth (cs_retry st) \<and> budgetOk E ?st1")
    case True
    then have "spare (emit inp (CredentialRotated ?i (sel_model (rotatedSelection active rotated)) (rotated \<noteq> None)) st2) < spare st"
      using st2 by (simp add: spare_def)
    moreover have "budgetOk E (emit inp ev st2)" for ev
      using True st2 budgetOk_cong [of st2 ?st1 E] by simp
    ultimately show ?thesis
      using True st2 p unfolding rotateCredential_def by (auto simp: tryMarkRetriedAuth_def Let_def intro!: advance_still advance_invoke)
  next
    case False
    then show ?thesis unfolding rotateCredential_def
      by (auto simp: tryMarkRetriedAuth_def Let_def spare_def intro!: advance_still)
  qed
qed

section \<open>Calls\<close>

text \<open>The invocations of one call from number \<open>n\<close> on: all but the last failed without an abort, all but the first passed the budget check.\<close>

definition failedAt :: "'r call_env \<Rightarrow> call_state \<Rightarrow> nat \<Rightarrow> bool" where
  "failedAt E st k \<longleftrightarrow> (\<exists>e. ce_invoke E k (cs_attempts st ! k) = Inl e \<and> throwIfAbort e = None)"

definition budgetAt :: "'r call_env \<Rightarrow> nat \<Rightarrow> bool" where
  "budgetAt E k = (case ce_budgetPreflight E of None \<Rightarrow> True | Some f \<Rightarrow> f k)"

definition call_trace :: "'r call_env \<Rightarrow> nat \<Rightarrow> call_state \<times> 'r stage \<Rightarrow> bool" where
  "call_trace E n x \<longleftrightarrow> n < length (cs_attempts (fst x))
     \<and> (\<forall>k. n \<le> k \<and> Suc k < length (cs_attempts (fst x)) \<longrightarrow> failedAt E (fst x) k)
     \<and> (\<forall>k. n < k \<and> k < length (cs_attempts (fst x)) \<longrightarrow> budgetAt E k)
     \<and> (case snd x of
          Go e a \<Rightarrow> failedAt E (fst x) (length (cs_attempts (fst x)) - 1)
        | Done (Inr (r, sel, b)) \<Rightarrow> last (cs_attempts (fst x)) = sel \<and> ce_invoke E (length (cs_attempts (fst x)) - 1) sel = Inr r
        | Done (Inl e) \<Rightarrow> (\<exists>e0. ce_invoke E (length (cs_attempts (fst x)) - 1) (last (cs_attempts (fst x))) = Inl e0))"

lemma stage_of_invocation:
  "snd (invokeWith E sel b st) = (case ce_invoke E (length (cs_attempts st)) sel of
        Inr r \<Rightarrow> Done (Inr (r, sel, b))
      | Inl e \<Rightarrow> (case throwIfAbort e of Some e' \<Rightarrow> Done (Inl e') | None \<Rightarrow> Go e sel))"
  by (simp add: invokeWith_def)

lemma invoked_trace:
  assumes "cs_attempts (fst x) = cs_attempts st @ [sel]" and "snd x = snd (invokeWith E sel b st)"
    and "n \<le> length (cs_attempts st)" and "\<forall>k. n \<le> k \<and> k < length (cs_attempts st) \<longrightarrow> failedAt E st k"
    and "\<forall>k. n < k \<and> k \<le> length (cs_attempts st) \<longrightarrow> budgetAt E k"
  shows "call_trace E n x"
proof -
  have "failedAt E (fst x) k = failedAt E st k" if "k < length (cs_attempts st)" for k
    using that assms(1) by (simp add: failedAt_def nth_append)
  moreover have "case snd x of
          Go e a \<Rightarrow> failedAt E (fst x) (length (cs_attempts (fst x)) - 1)
        | Done (Inr (r, s, b)) \<Rightarrow> last (cs_attempts (fst x)) = s \<and> ce_invoke E (length (cs_attempts (fst x)) - 1) s = Inr r
        | Done (Inl e) \<Rightarrow> (\<exists>e0. ce_invoke E (length (cs_attempts (fst x)) - 1) (last (cs_attempts (fst x))) = Inl e0)"
    using assms(1) unfolding assms(2) stage_of_invocation failedAt_def
    by (cases "ce_invoke E (length (cs_attempts st)) sel") (auto simp: nth_append split: option.splits)
  ultimately show ?thesis unfolding call_trace_def using assms(1,3-5) by auto
qed

lemma advance_trace:
  assumes "call_trace E n (st, Go e a)" and "advance E st x"
  shows "call_trace E n x"
proof -
  let ?l = "length (cs_attempts st)"
  have t: "n < ?l" "\<forall>k. n \<le> k \<and> k < ?l \<longrightarrow> failedAt E st k" "\<forall>k. n < k \<and> k < ?l \<longrightarrow> budgetAt E k"
  proof -
    show "n < ?l" "\<forall>k. n < k \<and> k < ?l \<longrightarrow> budgetAt E k" using assms(1) by (auto simp: call_trace_def)
    have "failedAt E st (?l - 1)" "\<forall>k. n \<le> k \<and> Suc k < ?l \<longrightarrow> failedAt E st k" using assms(1) by (auto simp: call_trace_def)
    then show "\<forall>k. n \<le> k \<and> k < ?l \<longrightarrow> failedAt E st k" by (metis Suc_lessI diff_Suc_1)
  qed
  from assms(2) consider
    (still) "cs_attempts (fst x) = cs_attempts st" "\<forall>r. snd x \<noteq> Done (Inr r)"
  | (more) sel b where "cs_attempts (fst x) = cs_attempts st @ [sel]" "budgetOk E st" "snd x = snd (invokeWith E sel b st)"
    unfolding advance_def by blast
  then show ?thesis
  proof cases
    case still
    have same: "failedAt E (fst x) k = failedAt E st k" for k using still(1) by (simp add: failedAt_def)
    have "cs_attempts st \<noteq> []" using t(1) by auto
    then have "last (cs_attempts st) = cs_attempts st ! (?l - 1)" by (rule last_conv_nth)
    moreover have "failedAt E st (?l - 1)" using t(1) by (intro t(2)[rule_format]) auto
    ultimately have "\<exists>e0. ce_invoke E (?l - 1) (last (cs_attempts st)) = Inl e0" unfolding failedAt_def by metis
    with \<open>failedAt E st (?l - 1)\<close> show ?thesis using t still unfolding call_trace_def same by (auto split: stage.splits sum.splits)
  next
    case more
    have "\<forall>k. n < k \<and> k \<le> ?l \<longrightarrow> budgetAt E k"
      using t(3) more(2) by (auto simp: budgetOk_def budgetAt_def le_less)
    then show ?thesis using invoked_trace [OF more(1,3)] t by simp
  qed
qed

lemma advance_spends:
  "advance E st x \<Longrightarrow> length (cs_attempts (fst x)) + spare (fst x) \<le> length (cs_attempts st) + spare st \<and> length (cs_attempts st) \<le> length (cs_attempts (fst x))"
  by (auto simp: advance_def)

text \<open>What holds of a state and the stage it is in and is kept by every stage that follows holds at the end.\<close>

lemma andThen_keeps:
  assumes "P x" and "\<And>st e a. P (st, Go e a) \<Longrightarrow> P (f e a st)"
  shows "P (andThen x f)"
  using assms by (cases x) (auto simp: andThen_def split: stage.split)

definition stages :: "'r call_env \<Rightarrow> call_input \<Rightarrow> call_state \<Rightarrow> call_state \<times> 'r stage" where
  "stages E inp st = andThen (andThen (andThen (invokeWith E (ci_primary inp) False st) (retryRateLimit E inp)) (rotateCredential E inp)) (substitute E inp)"

lemma stages_keep:
  assumes "P (invokeWith E (ci_primary inp) False st)" and "\<And>st e a x. P (st, Go e a) \<Longrightarrow> advance E st x \<Longrightarrow> P x"
  shows "P (stages E inp st)"
proof -
  note step = andThen_keeps [where P = P]
  have "P (andThen (invokeWith E (ci_primary inp) False st) (retryRateLimit E inp))"
    by (rule step [OF assms(1)]) (rule assms(2) [OF _ retryRateLimit_advance])
  then have "P (andThen (andThen (invokeWith E (ci_primary inp) False st) (retryRateLimit E inp)) (rotateCredential E inp))"
    by (rule step) (rule assms(2) [OF _ rotateCredential_advance])
  then show ?thesis unfolding stages_def by (rule step) (rule assms(2) [OF _ substitute_advance])
qed

lemma stages_trace: "call_trace E (length (cs_attempts st)) (stages E inp st)"
proof (rule stages_keep)
  show "call_trace E (length (cs_attempts st)) (invokeWith E (ci_primary inp) False st)"
    by (rule invoked_trace [OF _ refl]) (auto simp: invokeWith_fst)
qed (rule advance_trace)

lemma stages_spend:
  "length (cs_attempts st) < length (cs_attempts (fst (stages E inp st)))
   \<and> length (cs_attempts (fst (stages E inp st))) + spare (fst (stages E inp st)) \<le> Suc (length (cs_attempts st)) + spare st"
proof -
  let ?P = "\<lambda>x. length (cs_attempts st) < length (cs_attempts (fst x)) \<and> length (cs_attempts (fst x)) + spare (fst x) \<le> Suc (length (cs_attempts st)) + spare st"
  have "?P (stages E inp st)"
  proof (rule stages_keep [where P = ?P])
    show "?P (invokeWith E (ci_primary inp) False st)" by (simp add: invokeWith_fst spare_def)
    show "?P x" if "?P (st', Go e a)" "advance E st' x" for st' e a x using that advance_spends [OF that(2)] by auto
  qed
  then show ?thesis .
qed

lemma call_stages:
  "fst (callWithResilience E inp st) = fst (stages E inp st)
   \<and> (case snd (callWithResilience E inp st) of
        Inr r \<Rightarrow> snd (stages E inp st) = Done (Inr r)
      | Inl e \<Rightarrow> snd (stages E inp st) = Done (Inl e) \<or> (\<exists>e0 a. snd (stages E inp st) = Go e0 a))"
  by (auto simp: callWithResilience_def stages_def split: prod.split stage.split sum.split)

lemma resilientCalls_spend:
  "length (cs_attempts st) + n \<le> length (cs_attempts (resilientCalls E inp n st))
   \<and> length (cs_attempts (resilientCalls E inp n st)) + spare (resilientCalls E inp n st) \<le> n + length (cs_attempts st) + spare st"
proof (induction n arbitrary: st)
  case (Suc n)
  show ?case using Suc [of "fst (callWithResilience E inp st)"] stages_spend [of st E inp] call_stages [of E inp st] by simp
qed simp

section \<open>The pool\<close>

fun acquires :: "(string \<Rightarrow> int option) \<Rightarrow> int \<Rightarrow> string \<Rightarrow> nat \<Rightarrow> credential_pool \<Rightarrow> credential option list" where
  "acquires parseDate now i 0 p = []"
| "acquires parseDate now i (Suc k) p = (case acquire parseDate now i p of (c, p') \<Rightarrow> c # acquires parseDate now i k p')"

definition cursorOf :: "string \<Rightarrow> credential_pool \<Rightarrow> nat" where
  "cursorOf i p = (case js_get (cp_cursorByProvider p) i of None \<Rightarrow> 0 | Some c \<Rightarrow> c)"

lemma acquire_step:
  assumes "availableEntries parseDate now i p = cs" and "cs \<noteq> []"
  shows "\<exists>p'. acquire parseDate now i p = (Some (cs ! (cursorOf i p mod length cs)), p') \<and> cursorOf i p' = Suc (cursorOf i p) mod length cs
     \<and> availableEntries parseDate now i p' = cs"
  using assms by (simp add: acquire_def cursorOf_def availableEntries_def Let_def)

lemma acquires_cycle:
  assumes "availableEntries parseDate now i p = cs" and "cs \<noteq> []"
  shows "acquires parseDate now i k p = map (\<lambda>j. Some (cs ! ((cursorOf i p + j) mod length cs))) [0..<k]"
  using assms(1)
proof (induction k arbitrary: p)
  case (Suc k)
  obtain p' where p': "acquire parseDate now i p = (Some (cs ! (cursorOf i p mod length cs)), p')"
      "cursorOf i p' = Suc (cursorOf i p) mod length cs" "availableEntries parseDate now i p' = cs"
    using acquire_step [OF Suc.prems assms(2)] by blast
  have "(Suc c mod n + j) mod n = (c + Suc j) mod n" for c j n :: nat by (simp add: mod_add_left_eq)
  then have "acquires parseDate now i k p' = map (\<lambda>j. Some (cs ! ((cursorOf i p + Suc j) mod length cs))) [0..<k]"
    using Suc.IH [OF p'(3)] p'(2) by simp
  then show ?case using p'(1) by (simp add: map_upt_Suc del: upt_Suc)
qed simp

lemma rotate_nth_map: "map (\<lambda>j. xs ! ((c + j) mod length xs)) [0..<length xs] = rotate (c mod length xs) xs"
proof (cases "xs = []")
  case False
  show ?thesis
  proof (rule nth_equalityI)
    fix j assume j: "j < length (map (\<lambda>j. xs ! ((c + j) mod length xs)) [0..<length xs])"
    then have "rotate (c mod length xs) xs ! j = xs ! ((c mod length xs + j) mod length xs)" by (intro nth_rotate) simp
    with j show "map (\<lambda>j. xs ! ((c + j) mod length xs)) [0..<length xs] ! j = rotate (c mod length xs) xs ! j" by (simp add: mod_add_left_eq)
  qed simp
qed simp

lemma cooling_not_available:
  assumes "parseDate until = Some t" and "until \<noteq> []" and "now < t"
  shows "c \<in> set (availableEntries parseDate now i (markCooldown i s until p)) \<Longrightarrow> cr_secretRef c \<noteq> s"
proof -
  let ?f = "\<lambda>e. if cr_providerId e = i \<and> cr_secretRef e = s then e\<lparr>cr_cooldownUntil := Some until\<rparr> else e"
  assume "c \<in> set (availableEntries parseDate now i (markCooldown i s until p))"
  then have "c \<in> ?f ` set (cp_entries p)" and i: "cr_providerId c = i"
    and t: "case cr_cooldownUntil c of None \<Rightarrow> True | Some t \<Rightarrow> t = [] \<or> (case parseDate t of None \<Rightarrow> True | Some until \<Rightarrow> until \<le> now)"
    unfolding availableEntries_def markCooldown_def by simp_all blast
  then obtain e where c: "c = ?f e" by blast
  show "cr_secretRef c \<noteq> s"
  proof
    assume "cr_secretRef c = s"
    with c i have "cr_cooldownUntil c = Some until" by (auto split: if_splits)
    with t assms show False by simp
  qed
qed

section \<open>Properties\<close>

text \<open>
  C30: Whatever the provider does, one resilient call invokes it again only after an invocation that
  failed without an abort and after the budget check allowed it; a call that succeeds returns what its
  last invocation returned, with the selection it used, and a call that fails made a last invocation
  that failed. Over the life of a selection, n calls make at least n and at most n + 3 invocations: one
  retry of a rate limit, one rotation of credentials, one substitution.
\<close>

theorem resilience_bounded:
  assumes "callWithResilience E inp st = (st', out)"
  shows "(\<forall>k. length (cs_attempts st) \<le> k \<and> Suc k < length (cs_attempts st') \<longrightarrow>
           (\<exists>e. ce_invoke E k (cs_attempts st' ! k) = Inl e \<and> throwIfAbort e = None) \<and> budgetAt E (Suc k))
    \<and> (case out of
         Inr (r, sel, substituted) \<Rightarrow> last (cs_attempts st') = sel \<and> ce_invoke E (length (cs_attempts st') - 1) sel = Inr r
       | Inl e \<Rightarrow> (\<exists>e0. ce_invoke E (length (cs_attempts st') - 1) (last (cs_attempts st')) = Inl e0))
    \<and> n \<le> length (cs_attempts (resilientCalls E inp n (st\<lparr>cs_attempts := []\<rparr>)))
    \<and> length (cs_attempts (resilientCalls E inp n (st\<lparr>cs_attempts := []\<rparr>))) \<le> n + 3"
proof -
  let ?n = "length (cs_attempts st)"
  have st': "st' = fst (stages E inp st)" and out: "case out of
        Inr r \<Rightarrow> snd (stages E inp st) = Done (Inr r)
      | Inl e \<Rightarrow> snd (stages E inp st) = Done (Inl e) \<or> (\<exists>e0 a. snd (stages E inp st) = Go e0 a)"
    using call_stages [of E inp st] assms by simp_all
  have trace: "call_trace E ?n (st', snd (stages E inp st))" using stages_trace [of E st inp] st' by simp
  then have fails: "\<forall>k. ?n \<le> k \<and> Suc k < length (cs_attempts st') \<longrightarrow> failedAt E st' k \<and> budgetAt E (Suc k)" and "?n < length (cs_attempts st')"
    by (simp_all add: call_trace_def)
  then have last: "last (cs_attempts st') = cs_attempts st' ! (length (cs_attempts st') - 1)" by (intro last_conv_nth) auto
  have "case out of
         Inr (r, sel, substituted) \<Rightarrow> last (cs_attempts st') = sel \<and> ce_invoke E (length (cs_attempts st') - 1) sel = Inr r
       | Inl e \<Rightarrow> (\<exists>e0. ce_invoke E (length (cs_attempts st') - 1) (last (cs_attempts st')) = Inl e0)"
  proof (cases out)
    case (Inl e)
    with out trace show ?thesis unfolding last by (auto simp: call_trace_def failedAt_def last)
  next
    case (Inr r)
    with out trace show ?thesis by (auto simp: call_trace_def)
  qed
  moreover have "spare (st\<lparr>cs_attempts := []\<rparr>) \<le> 3" by (simp add: spare_def)
  ultimately show ?thesis using fails resilientCalls_spend [of "st\<lparr>cs_attempts := []\<rparr>" n E inp] unfolding failedAt_def by auto
qed

definition sample_provider :: "string \<Rightarrow> provider" where
  "sample_provider i = \<lparr>prov_id = i, prov_models = [(''chat'', ''m'')]\<rparr>"

definition sample_selection :: "string \<Rightarrow> model_selection" where
  "sample_selection i = \<lparr>sel_provider = sample_provider i, sel_providerId = Some ''p'', sel_modelRoute = ''chat'', sel_model = ''m'', sel_reason = ''r''\<rparr>"

definition sample_call :: call_input where
  "sample_call = \<lparr>ci_site = SitePlanner, ci_role = None, ci_primary = sample_selection ''p'', ci_fallback = None, ci_retryDelayMs = None\<rparr>"

text \<open>The first credential, which the primary selection uses, is refused with the given status; the other ones are accepted.\<close>

definition sample_calls :: "int \<Rightarrow> string call_env" where
  "sample_calls status =
     \<lparr>ce_invoke = (\<lambda>k s. if prov_id (sel_provider s) = ''p'' \<and> \<not> (status = 429 \<and> k = 1)
        then Inl (ProviderErr \<lparr>pe_code = PROVIDER_HTTP_ERROR, pe_provider = ''p'', pe_status = Some status, pe_message = ''refused''\<rparr>) else Inr ''answer''),
      ce_budgetPreflight = None, ce_aborted = (\<lambda>_. False), ce_clock = (\<lambda>_. 0), ce_dateNow = (\<lambda>_. 0), ce_parseDate = (\<lambda>_. Some 60000),
      ce_toISOString = (\<lambda>_. ''t'')\<rparr>"

definition sample_credential :: "string \<Rightarrow> credential" where
  "sample_credential i = \<lparr>cr_providerId = ''p'', cr_secretRef = i, cr_label = None, cr_cooldownUntil = None, cr_provider = Some (sample_provider i)\<rparr>"

definition sample_pool :: credential_pool where
  "sample_pool = \<lparr>cp_entries = map sample_credential [''p'', ''b'', ''c''], cp_cursorByProvider = []\<rparr>"

definition sample_call_state :: call_state where
  "sample_call_state = \<lparr>cs_retry = newRetryState, cs_pool = Some sample_pool, cs_events = [], cs_attempts = []\<rparr>"

theorem resilience_bounded_witness:
  "ce_invoke (sample_calls 429) 0 (sample_selection ''p'') \<noteq> Inr ''answer''
   \<and> snd (callWithResilience (sample_calls 429) sample_call sample_call_state) = Inr (''answer'', sample_selection ''p'', False)
   \<and> ce_invoke (sample_calls 429) 1 (sample_selection ''p'') = Inr ''answer''"
proof -
  have out: "snd (callWithResilience (sample_calls 429) sample_call sample_call_state) = Inr (''answer'', sample_selection ''p'', False)"
    "cs_attempts (fst (callWithResilience (sample_calls 429) sample_call sample_call_state)) = [sample_selection ''p'', sample_selection ''p'']"
    by code_simp+
  obtain st' where c: "callWithResilience (sample_calls 429) sample_call sample_call_state = (st', Inr (''answer'', sample_selection ''p'', False))"
    using out(1) by (metis prod.collapse)
  show ?thesis using resilience_bounded [OF c, of 0] out c by (auto simp: sample_call_state_def)
qed

text \<open>
  The credential that is put to rest is the next one of the rotation, not the one that was refused: after
  two refusals of the primary selection the second credential rests although it was never used.
\<close>

lemma unused_credential_cooled:
  "let st1 = fst (callWithResilience (sample_calls 401) sample_call sample_call_state);
       st2 = fst (callWithResilience (sample_calls 401) sample_call (st1\<lparr>cs_retry := newRetryState\<rparr>))
   in map (\<lambda>s. prov_id (sel_provider s)) (cs_attempts st2) = [''p'', ''c'', ''p'', ''c'']
      \<and> map_option (\<lambda>p. map cr_cooldownUntil (cp_entries p)) (cs_pool st2) = Some [Some ''t'', Some ''t'', None]"
  by code_simp

text \<open>
  The credential pool is fair and respects cooldowns. While nothing cools down or recovers, as many
  acquisitions as a provider has credentials give each of them once, from wherever the cursor stands; a
  credential that was marked is not given out before its time has come.
\<close>

lemma credential_rotation_fair:
  assumes "availableEntries parseDate now i p = cs" and "cs \<noteq> []" and "parseDate until = Some t" and "until \<noteq> []" and "now < t"
  shows "(\<exists>m. acquires parseDate now i (length cs) p = map Some (rotate m cs))
     \<and> (\<forall>c k. Some c \<in> set (acquires parseDate now i k (markCooldown i s until p)) \<longrightarrow> cr_secretRef c \<noteq> s \<and> cr_providerId c = i)"
proof -
  have "acquires parseDate now i (length cs) p = map Some (map (\<lambda>j. cs ! ((cursorOf i p + j) mod length cs)) [0..<length cs])"
    using acquires_cycle [OF assms(1,2), of "length cs"] by (simp add: o_def)
  then have fair: "\<exists>m. acquires parseDate now i (length cs) p = map Some (rotate m cs)" unfolding rotate_nth_map by blast
  let ?p = "markCooldown i s until p" and ?cs = "availableEntries parseDate now i (markCooldown i s until p)"
  have "cr_secretRef c \<noteq> s \<and> cr_providerId c = i" if c: "Some c \<in> set (acquires parseDate now i k ?p)" for c k
  proof (cases "?cs = []")
    case True
    then have "acquires parseDate now i k ?p = replicate k None" for k by (induction k) (simp_all add: acquire_def)
    with c show ?thesis by simp
  next
    case False
    then have "c \<in> set ?cs" using c acquires_cycle [OF refl False, of k] by (auto simp: nth_mem)
    moreover from this have "cr_providerId c = i" by (auto simp: availableEntries_def)
    ultimately show ?thesis using cooling_not_available [of parseDate until t now] assms(3-5) by blast
  qed
  with fair show ?thesis by blast
qed

end
