(* ===== verification/Sandbox_Paths.thy ===== *)
theory Sandbox_Paths
  imports JS_Strings "HOL-Library.Sublist"
begin

text \<open>
  The containment of paths in the workspace, \<open>src/sandbox/index.ts\<close>. An absolute path is the list of its
  segments, \<open>node:path\<close> is the one of a POSIX host, and \<open>realpath\<close> is what \<open>realpathSync\<close> returns, with
  \<open>None\<close> where it throws. A candidate path stays a string.
\<close>

type_synonym abs_path = "string list"

section \<open>Paths of the runtime\<close>

text \<open>\<open>nodePath.resolve(base, path)\<close>.\<close>

fun walk :: "abs_path \<Rightarrow> string list \<Rightarrow> abs_path" where
  "walk base [] = base"
| "walk base (s # ss) =
     (if s = [] \<or> s = ''.'' then walk base ss
      else if s = ''..'' then walk (butlast base) ss
      else walk (base @ [s]) ss)"

definition resolvePath :: "abs_path \<Rightarrow> string \<Rightarrow> abs_path" where
  "resolvePath base path = walk (if startsWith path ''/'' then [] else base) (split_char (CHR ''/'') path)"

text \<open>\<open>nodePath.relative(from, to)\<close> on absolute paths.\<close>

definition relativePath :: "abs_path \<Rightarrow> abs_path \<Rightarrow> string" where
  "relativePath from to =
     (let common = length (longest_common_prefix from to)
      in join_with ''/'' (replicate (length from - common) ''..'' @ drop common to))"

section \<open>Checks on the text of a path\<close>

definition slashed :: "string \<Rightarrow> string" where
  "slashed path = map (\<lambda>c. if c = CHR 0x5C then CHR ''/'' else c) path"

definition windowsDrive :: "string \<Rightarrow> bool" where
  "windowsDrive path = (case path of
     c # d # e # _ \<Rightarrow> c \<in> set ''abcdefghijklmnopqrstuvwxyzABCDEFGHIJKLMNOPQRSTUVWXYZ'' \<and> d = CHR '':'' \<and> (e = CHR 0x5C \<or> e = CHR ''/'')
   | _ \<Rightarrow> False)"

definition isSafeRelativePath :: "string \<Rightarrow> bool" where
  "isSafeRelativePath path =
     (path \<noteq> [] \<and> \<not> startsWith path ''/'' \<and> \<not> windowsDrive path
      \<and> list_all (\<lambda>part. part \<noteq> [] \<and> part \<noteq> ''.'' \<and> part \<noteq> ''..'') (split_char (CHR ''/'') (slashed path)))"

definition isAbsolutePath :: "string \<Rightarrow> bool" where
  "isAbsolutePath path = (startsWith path ''/'' \<or> startsWith path [CHR 0x5C] \<or> windowsDrive path)"

definition hasParentTraversalSegment :: "string \<Rightarrow> bool" where
  "hasParentTraversalSegment path = list_ex (\<lambda>s. s = ''..'') (split_char (CHR ''/'') (slashed path))"

section \<open>Links\<close>

definition safeRealpath :: "(abs_path \<Rightarrow> abs_path option) \<Rightarrow> abs_path \<Rightarrow> abs_path" where
  "safeRealpath realpath path = (case realpath path of Some r \<Rightarrow> r | None \<Rightarrow> path)"

text \<open>The loop of \<open>realpathOrNearestExisting\<close>; \<open>tail\<close> is kept in the order of the path.\<close>

function nearestExisting :: "(abs_path \<Rightarrow> abs_path option) \<Rightarrow> abs_path \<Rightarrow> abs_path \<Rightarrow> abs_path \<Rightarrow> abs_path" where
  "nearestExisting realpath target current tail =
     (case realpath current of
        Some resolved \<Rightarrow> resolved @ tail
      | None \<Rightarrow> if current = [] then target else nearestExisting realpath target (butlast current) (last current # tail))"
  by pat_completeness auto
termination by (relation "measure (\<lambda>(_, _, current, _). length current)") auto

declare nearestExisting.simps [simp del]

definition realpathOrNearestExisting :: "(abs_path \<Rightarrow> abs_path option) \<Rightarrow> abs_path \<Rightarrow> abs_path" where
  "realpathOrNearestExisting realpath target = nearestExisting realpath target target []"

definition isContainedWithin :: "abs_path \<Rightarrow> abs_path \<Rightarrow> bool" where
  "isContainedWithin base target =
     (let relative = relativePath base target
      in relative = [] \<or> (\<not> startsWith relative ''..'' \<and> \<not> startsWith relative ''/''))"

datatype denial_reason =
    INVALID_PATH | ABSOLUTE_PATH | PATH_ESCAPE | SYMLINK_ESCAPE | ARBITRARY_SHELL_DISABLED | COMMAND_NOT_ALLOWLISTED
  | DESTRUCTIVE_COMMAND_BLOCKED | COMMAND_TIMEOUT | COMMAND_ABORTED | COMMAND_ARG_REJECTED | CWD_NOT_ALLOWLISTED
  | SB_NETWORK_DISABLED | SECRETS_DISABLED | RUNTIME_BUDGET_EXCEEDED | POLICY_VIOLATION | NEEDS_APPROVAL

definition realRoot :: "(abs_path \<Rightarrow> abs_path option) \<Rightarrow> abs_path \<Rightarrow> string \<Rightarrow> abs_path" where
  "realRoot realpath cwd workspaceRoot = safeRealpath realpath (resolvePath cwd workspaceRoot)"

definition resolveWithinWorkspace ::
  "(abs_path \<Rightarrow> abs_path option) \<Rightarrow> abs_path \<Rightarrow> string \<Rightarrow> string \<Rightarrow> (denial_reason, abs_path) result" where
  "resolveWithinWorkspace realpath cwd workspaceRoot candidatePath =
     (if js_trim candidatePath = [] then Inl INVALID_PATH
      else if \<not> isSafeRelativePath candidatePath \<and> isAbsolutePath candidatePath then Inl ABSOLUTE_PATH
      else if \<not> isSafeRelativePath candidatePath \<and> hasParentTraversalSegment candidatePath then Inl PATH_ESCAPE
      else let base = realRoot realpath cwd workspaceRoot;
               realCandidate = realpathOrNearestExisting realpath (resolvePath base candidatePath)
           in if \<not> isContainedWithin base realCandidate then Inl SYMLINK_ESCAPE else Inr realCandidate)"

section \<open>Containment\<close>

lemma join_starts: "w \<noteq> [] \<Longrightarrow> startsWith (join_with sep (w # ws)) w"
  by (cases ws) (auto simp: startsWith_def)

lemma contained_prefix: "isContainedWithin base target \<Longrightarrow> prefix base target"
proof -
  let ?c = "length (longest_common_prefix base target)"
  assume contained: "isContainedWithin base target"
  show "prefix base target"
  proof (cases "?c < length base")
    case True
    then obtain ws where "replicate (length base - ?c) ''..'' @ drop ?c target = ''..'' # ws"
      by (metis (no_types, opaque_lifting) Suc_diff_Suc append_Cons replicate_Suc)
    then have "startsWith (relativePath base target) ''..''"
      unfolding relativePath_def Let_def using join_starts by (metis list.distinct(1))
    moreover from this have "relativePath base target \<noteq> []" by (auto simp: startsWith_def)
    ultimately show ?thesis using contained by (simp add: isContainedWithin_def Let_def)
  next
    case False
    then have "longest_common_prefix base target = base"
      by (metis longest_common_prefix_prefix1 not_equal_is_parallel parallelE prefix_length_less prefix_order.le_neq_trans)
    then show ?thesis by (metis longest_common_prefix_prefix2)
  qed
qed

lemma longest_common_prefix_append: "longest_common_prefix xs (xs @ ys) = xs"
  by (induction xs) (auto split: list.splits)

lemma join_dots:
  assumes "w \<noteq> []" and "startsWith (join_with ''/'' (w # ws)) ''..''"
  shows "startsWith w ''..''"
  using assms by (cases ws; cases w; cases "tl w") (auto simp: startsWith_def)

lemma contained_append:
  assumes "rest = [] \<or> (hd rest \<noteq> [] \<and> \<not> startsWith (hd rest) ''..'' \<and> \<not> startsWith (hd rest) ''/'')"
  shows "isContainedWithin base (base @ rest)"
proof (cases rest)
  case Nil
  then show ?thesis using longest_common_prefix_append [of base "[]"] by (simp add: isContainedWithin_def relativePath_def Let_def)
next
  case (Cons w ws)
  have rel: "relativePath base (base @ rest) = join_with ''/'' (w # ws)" by (simp add: relativePath_def longest_common_prefix_append Let_def Cons)
  have "\<not> startsWith (join_with ''/'' (w # ws)) ''/''" using assms Cons by (cases w; cases ws) (auto simp: startsWith_def)
  then show ?thesis unfolding isContainedWithin_def rel Let_def using assms Cons join_dots by auto
qed

text \<open>A file system without links under a path: what exists is its own real path.\<close>

lemma nearest_without_links:
  assumes "\<forall>p r. realpath p = Some r \<longrightarrow> r = p"
  shows "nearestExisting realpath (current @ tail) current tail = current @ tail"
  using assms
proof (induction realpath "current @ tail" current tail rule: nearestExisting.induct)
  case (1 realpath current tail)
  show ?case
  proof (cases "realpath current")
    case None
    show ?thesis
    proof (cases "current = []")
      case False
      then have "butlast current @ last current # tail = current @ tail" by simp
      with "1" None False show ?thesis by (simp add: nearestExisting.simps [of _ _ current])
    qed (use None in \<open>simp add: nearestExisting.simps\<close>)
  next
    case (Some r)
    with "1"(2) show ?thesis by (simp add: nearestExisting.simps [of _ _ current])
  qed
qed

lemma walk_clean: "\<forall>s \<in> set ss. s \<noteq> [] \<and> s \<noteq> ''.'' \<and> s \<noteq> ''..'' \<Longrightarrow> walk base ss = base @ ss"
  by (induction ss arbitrary: base) auto

lemma safe_path_relative:
  assumes "isSafeRelativePath path"
  shows "\<not> isAbsolutePath path" and "\<not> hasParentTraversalSegment path"
proof -
  show "\<not> hasParentTraversalSegment path" using assms by (auto simp: isSafeRelativePath_def hasParentTraversalSegment_def list_all_iff list_ex_iff)
  have "\<not> startsWith path [CHR 0x5C]"
  proof
    assume "startsWith path [CHR 0x5C]"
    then have "[] \<in> set (split_char (CHR ''/'') (slashed path))" by (cases path) (auto simp: startsWith_def slashed_def)
    with assms show False by (auto simp: isSafeRelativePath_def list_all_iff)
  qed
  with assms show "\<not> isAbsolutePath path" by (simp add: isSafeRelativePath_def isAbsolutePath_def)
qed

lemma resolve_contained:
  assumes "resolveWithinWorkspace realpath cwd workspaceRoot path = Inr p"
  shows "prefix (realRoot realpath cwd workspaceRoot) p" and "\<not> isAbsolutePath path" and "\<not> hasParentTraversalSegment path"
proof -
  show "\<not> isAbsolutePath path" "\<not> hasParentTraversalSegment path"
    using assms safe_path_relative [of path] by (auto simp: resolveWithinWorkspace_def split: if_splits)
  show "prefix (realRoot realpath cwd workspaceRoot) p"
    using assms contained_prefix by (auto simp: resolveWithinWorkspace_def Let_def split: if_splits)
qed

text \<open>Without links an ordinary relative path is the one below the root.\<close>

lemma resolve_plain:
  assumes "\<forall>p r. realpath p = Some r \<longrightarrow> r = p" and "isSafeRelativePath path" and "CHR 0x5C \<notin> set path" and "js_trim path \<noteq> []"
    and "\<not> startsWith path ''..''"
  shows "resolveWithinWorkspace realpath cwd workspaceRoot path = Inr (realRoot realpath cwd workspaceRoot @ split_char (CHR ''/'') path)"
proof -
  let ?b = "realRoot realpath cwd workspaceRoot" and ?ss = "split_char (CHR ''/'') path"
  have slashed: "slashed path = path" unfolding slashed_def using assms(3) by (intro map_idI) auto
  then have clean: "\<forall>s \<in> set ?ss. s \<noteq> [] \<and> s \<noteq> ''.'' \<and> s \<noteq> ''..''" and rel: "\<not> startsWith path ''/''"
    using assms(2) by (auto simp: isSafeRelativePath_def list_all_iff)
  have "resolvePath ?b path = ?b @ ?ss" using clean rel by (simp add: resolvePath_def walk_clean)
  moreover have "realpathOrNearestExisting realpath (?b @ ?ss) = ?b @ ?ss"
    using nearest_without_links [OF assms(1), of "?b @ ?ss" "[]"] by (simp add: realpathOrNearestExisting_def)
  moreover have "isContainedWithin ?b (?b @ ?ss)"
  proof (rule contained_append, rule disjI2)
    obtain w ws where w: "?ss = w # ws" by (cases ?ss) auto
    then have "path = join_with ''/'' (w # ws)" using join_split [of "CHR ''/''" path] by simp
    moreover have "w \<noteq> []" using clean w by auto
    ultimately have "startsWith path w" using join_starts by simp
    then have "\<not> startsWith w ''..''" "\<not> startsWith w ''/''" using assms(5) rel unfolding startsWith_def by (meson prefix_order.trans)+
    with \<open>w \<noteq> []\<close> show "hd ?ss \<noteq> [] \<and> \<not> startsWith (hd ?ss) ''..'' \<and> \<not> startsWith (hd ?ss) ''/''" using w by simp
  qed
  ultimately show ?thesis using assms(2,4) by (simp add: resolveWithinWorkspace_def Let_def)
qed

end
