(* ===== verification/Sandbox_Operations.thy ===== *)
theory Sandbox_Operations
  imports Sandbox_Paths Budget_Gate
begin

text \<open>
  The sandbox adapters of \<open>src/sandbox/index.ts\<close>. An operation returns the list of its effects on the
  host, in order, and its outcome; file contents, directories and the command runner are parameters, and
  \<open>None\<close> is a call that throws. The clock gives a valid timestamp. Denied command patterns are
  predicates on the rendered command.
\<close>

section \<open>Captured streams\<close>

text \<open>The length of a text in UTF-8: one byte up to code 127, two bytes above.\<close>

definition byteLength :: "string \<Rightarrow> nat" where
  "byteLength s = (\<Sum>c \<leftarrow> s. if (of_char c :: nat) < 128 then 1 else 2)"

function truncateLoop :: "nat \<Rightarrow> string \<Rightarrow> string" where
  "truncateLoop maxBytes s =
     (if maxBytes < byteLength s \<and> s \<noteq> []
      then truncateLoop maxBytes (take (length s - max 1 ((byteLength s - maxBytes + 3) div 4)) s) else s)"
  by pat_completeness auto
termination by (relation "measure (\<lambda>(_, s). length s)") auto

declare truncateLoop.simps [simp del]

definition truncateToBytes :: "string \<Rightarrow> nat \<Rightarrow> string" where
  "truncateToBytes value maxBytes = (if byteLength value \<le> maxBytes then value else truncateLoop maxBytes value)"

definition captureStream :: "string \<Rightarrow> nat \<Rightarrow> string \<times> bool" where
  "captureStream value maxBytes = (let bounded = truncateToBytes value maxBytes in (bounded, bounded \<noteq> value))"

definition appendBounded :: "string \<Rightarrow> string \<Rightarrow> nat \<Rightarrow> string" where
  "appendBounded current chunk maxBytes = truncateToBytes (current @ chunk) maxBytes"

section \<open>Policy\<close>

definition MAX_CAPTURED_STREAM_BYTES :: int where
  "MAX_CAPTURED_STREAM_BYTES = 262144"

definition WORKSPACE_COMMAND_TIMEOUT_MS :: int where
  "WORKSPACE_COMMAND_TIMEOUT_MS = 60000"

definition boundedPositiveInt :: "jsnum option \<Rightarrow> int \<Rightarrow> int \<Rightarrow> int" where
  "boundedPositiveInt v fallback limit = (case v of
     Some (Fin q) \<Rightarrow> if q \<le> 0 then fallback else min (math_trunc q) limit
   | _ \<Rightarrow> fallback)"

definition boundedNonnegativeInt :: "jsnum option \<Rightarrow> int \<Rightarrow> int \<Rightarrow> int" where
  "boundedNonnegativeInt v fallback limit = (case v of
     Some (Fin q) \<Rightarrow> if q < 0 then fallback else min (math_trunc q) limit
   | _ \<Rightarrow> fallback)"

definition uniqueStrings :: "string list \<Rightarrow> string list" where
  "uniqueStrings values = js_set_of (filter (\<lambda>v. v \<noteq> []) values)"

record sandbox_policy =
  sp_allowedCommands :: "string list"
  sp_deniedCommandPatterns :: "(string \<Rightarrow> bool) list"
  sp_allowedCwdRoots :: "abs_path list"
  sp_maxStdoutBytes :: int
  sp_maxStderrBytes :: int
  sp_maxRuntimeMs :: int
  sp_approvalRequiredAboveRuntimeMs :: int
  sp_networkAllowed :: bool
  sp_secretsInjectionAllowed :: bool
  sp_allowShellOperators :: bool

record policy_input =
  pi_allowedCommands :: "string list option"
  pi_deniedCommandPatterns :: "(string \<Rightarrow> bool) list option"
  pi_allowedCwdRoots :: "string list option"
  pi_maxStdoutBytes :: "jsnum option"
  pi_maxStderrBytes :: "jsnum option"
  pi_maxRuntimeMs :: "jsnum option"
  pi_approvalRequiredAboveRuntimeMs :: "jsnum option"
  pi_networkAllowed :: "bool option"
  pi_secretsInjectionAllowed :: "bool option"
  pi_allowShellOperators :: "bool option"

definition createSandboxPolicy :: "abs_path \<Rightarrow> policy_input \<Rightarrow> string \<Rightarrow> string list option \<Rightarrow> sandbox_policy" where
  "createSandboxPolicy cwd i workspaceRoot defaults =
     \<lparr>sp_allowedCommands = uniqueStrings (case pi_allowedCommands i of Some c \<Rightarrow> c | None \<Rightarrow> (case defaults of Some d \<Rightarrow> d | None \<Rightarrow> [])),
      sp_deniedCommandPatterns = (case pi_deniedCommandPatterns i of Some p \<Rightarrow> p | None \<Rightarrow> []),
      sp_allowedCwdRoots = js_set_of (case pi_allowedCwdRoots i of
         Some rs \<Rightarrow> map (resolvePath cwd) rs | None \<Rightarrow> [resolvePath cwd workspaceRoot]),
      sp_maxStdoutBytes = boundedPositiveInt (pi_maxStdoutBytes i) MAX_CAPTURED_STREAM_BYTES MAX_CAPTURED_STREAM_BYTES,
      sp_maxStderrBytes = boundedPositiveInt (pi_maxStderrBytes i) MAX_CAPTURED_STREAM_BYTES MAX_CAPTURED_STREAM_BYTES,
      sp_maxRuntimeMs = boundedPositiveInt (pi_maxRuntimeMs i) WORKSPACE_COMMAND_TIMEOUT_MS 3600000,
      sp_approvalRequiredAboveRuntimeMs = boundedNonnegativeInt (pi_approvalRequiredAboveRuntimeMs i) 0 3600000,
      sp_networkAllowed = (pi_networkAllowed i = Some True),
      sp_secretsInjectionAllowed = (pi_secretsInjectionAllowed i = Some True),
      sp_allowShellOperators = (pi_allowShellOperators i = Some True)\<rparr>"

section \<open>Commands\<close>

definition commandBaseName :: "string \<Rightarrow> string" where
  "commandBaseName token = last (split_char (CHR ''/'') (slashed token))"

definition shortFlags :: "string \<Rightarrow> bool" where
  "shortFlags a = (case a of [] \<Rightarrow> False | c # cs \<Rightarrow> c = CHR ''-'' \<and> cs \<noteq> [] \<and> list_all (\<lambda>c. c \<in> set ''abcdefghijklmnopqrstuvwxyz'') cs)"

definition rmForced :: "string list \<Rightarrow> bool" where
  "rmForced rest =
     (list_ex (\<lambda>a. a = ''--recursive'' \<or> a = ''--dir'' \<or> (shortFlags a \<and> CHR ''r'' \<in> set a)) rest
      \<and> list_ex (\<lambda>a. a = ''--force'' \<or> (shortFlags a \<and> CHR ''f'' \<in> set a)) rest)"

definition destructiveAt :: "string \<Rightarrow> string list \<Rightarrow> bool" where
  "destructiveAt base rest =
     ((base = ''rm'' \<and> rmForced rest)
      \<or> ((base = ''del'' \<or> base = ''erase'') \<and> list_ex (\<lambda>a. a = ''/f'' \<or> a = ''/s'' \<or> a = ''/q'') rest)
      \<or> (base = ''rmdir'' \<and> list_ex (\<lambda>a. a = ''/s'') rest)
      \<or> base = ''format'' \<or> base = ''mkfs'' \<or> startsWith base ''mkfs.'' \<or> base = ''dd''
      \<or> base = ''shutdown'' \<or> base = ''reboot'' \<or> base = ''halt'' \<or> base = ''poweroff''
      \<or> (base = ''git'' \<and> rest \<noteq> [] \<and> hd rest = ''clean''
         \<and> list_ex (\<lambda>a. startsWith a ''-'' \<and> CHR ''f'' \<in> set a \<and> CHR ''d'' \<in> set a) rest))"

fun scanTokens :: "string list \<Rightarrow> bool" where
  "scanTokens [] = False"
| "scanTokens (t # ts) = (destructiveAt (toLowerCase (commandBaseName t)) (map toLowerCase ts) \<or> scanTokens ts)"

definition matchesDestructiveDenylist :: "string \<Rightarrow> string list \<Rightarrow> bool" where
  "matchesDestructiveDenylist command args =
     (let tokens = filter (\<lambda>t. t \<noteq> []) (map js_trim (command # args));
          joined = toLowerCase (join_with '' '' tokens)
      in js_includes joined '':(){'' \<or> js_includes (filter (\<lambda>c. \<not> js_space c) joined) '':|:&'' \<or> scanTokens tokens)"

definition shellMeta :: "char \<Rightarrow> bool" where
  "shellMeta c = (c \<in> set '';&|`$<>(){}*?!'' \<or> c = CHR 0x0A \<or> c = CHR 0x0D)"

datatype operation_kind = READ_FILE | LIST_DIR | PROPOSE_PATCH | RUN_COMMAND

datatype patch_operation = PatchAdd | PatchUpdate | PatchDelete

record sandbox_operation =
  op_kind :: operation_kind
  op_path :: "string option"
  op_operation :: "patch_operation option"
  op_content :: "string option"
  op_command :: "string option"
  op_args :: "string list"
  op_timeoutMs :: "int option"
  op_approvalId :: "string option"
  op_metadata :: json_record

definition SandboxOperationSchema :: "sandbox_operation \<Rightarrow> bool" where
  "SandboxOperationSchema o1 = (optNonEmpty (op_path o1) \<and> optNonEmpty (op_command o1) \<and> optNonEmpty (op_approvalId o1)
     \<and> (case op_timeoutMs o1 of None \<Rightarrow> True | Some t \<Rightarrow> 1 \<le> t \<and> t \<le> 3600000))"

definition commandOf :: "sandbox_operation \<Rightarrow> string" where
  "commandOf o1 = (case op_command o1 of Some c \<Rightarrow> c | None \<Rightarrow> [])"

definition isShellInvocation :: "sandbox_operation \<Rightarrow> bool \<Rightarrow> bool" where
  "isShellInvocation o1 allowShellOperators =
     (\<not> allowShellOperators
      \<and> (jfield (op_metadata o1) ''kind'' = JStr ''shell'' \<or> jfield (op_metadata o1) ''shell'' = JBool True
         \<or> list_ex (list_ex shellMeta) (commandOf o1 # op_args o1)))"

definition operationRequestsSecretInjection :: "sandbox_operation \<Rightarrow> bool" where
  "operationRequestsSecretInjection o1 =
     (jfield (op_metadata o1) ''secrets'' = JBool True \<or> jfield (op_metadata o1) ''injectSecrets'' = JBool True
      \<or> (case jfield (op_metadata o1) ''env'' of JObj r \<Rightarrow> r \<noteq> [] | _ \<Rightarrow> False))"

definition matchesDeniedCommandPattern :: "string \<Rightarrow> string list \<Rightarrow> (string \<Rightarrow> bool) list \<Rightarrow> bool" where
  "matchesDeniedCommandPattern command args patterns = list_ex (\<lambda>p. p (join_with '' '' (command # args))) patterns"

section \<open>Results\<close>

datatype execution_status = SB_SUCCEEDED | SB_FAILED | SB_DENIED | SB_NEEDS_APPROVAL

record sandbox_gate =
  gt_id :: string
  gt_approved :: bool
  gt_reason :: string
  gt_metadata :: json_record

record operation_result =
  or_kind :: operation_kind
  or_status :: execution_status
  or_denialReason :: "denial_reason option"
  or_resolvedPath :: "abs_path option"
  or_stdout :: string
  or_stderr :: string
  or_entries :: "string list option"
  or_fileContent :: "string option"
  or_artifacts :: "json list"
  or_approvalGates :: "sandbox_gate list"
  or_metadata :: json_record

fun denialName :: "denial_reason \<Rightarrow> string" where
  "denialName INVALID_PATH = ''INVALID_PATH''"
| "denialName ABSOLUTE_PATH = ''ABSOLUTE_PATH''"
| "denialName PATH_ESCAPE = ''PATH_ESCAPE''"
| "denialName SYMLINK_ESCAPE = ''SYMLINK_ESCAPE''"
| "denialName ARBITRARY_SHELL_DISABLED = ''ARBITRARY_SHELL_DISABLED''"
| "denialName COMMAND_NOT_ALLOWLISTED = ''COMMAND_NOT_ALLOWLISTED''"
| "denialName DESTRUCTIVE_COMMAND_BLOCKED = ''DESTRUCTIVE_COMMAND_BLOCKED''"
| "denialName COMMAND_TIMEOUT = ''COMMAND_TIMEOUT''"
| "denialName COMMAND_ABORTED = ''COMMAND_ABORTED''"
| "denialName COMMAND_ARG_REJECTED = ''COMMAND_ARG_REJECTED''"
| "denialName CWD_NOT_ALLOWLISTED = ''CWD_NOT_ALLOWLISTED''"
| "denialName SB_NETWORK_DISABLED = ''NETWORK_DISABLED''"
| "denialName SECRETS_DISABLED = ''SECRETS_DISABLED''"
| "denialName RUNTIME_BUDGET_EXCEEDED = ''RUNTIME_BUDGET_EXCEEDED''"
| "denialName POLICY_VIOLATION = ''POLICY_VIOLATION''"
| "denialName NEEDS_APPROVAL = ''NEEDS_APPROVAL''"

definition safetyReasonCodeForDenial :: "denial_reason \<Rightarrow> string" where
  "safetyReasonCodeForDenial r = (if r = RUNTIME_BUDGET_EXCEEDED then ''SANDBOX_RUNTIME_BUDGET_EXCEEDED'' else denialName r)"

definition plain_result :: "operation_kind \<Rightarrow> execution_status \<Rightarrow> operation_result" where
  "plain_result kind status =
     \<lparr>or_kind = kind, or_status = status, or_denialReason = None, or_resolvedPath = None, or_stdout = [], or_stderr = [],
      or_entries = None, or_fileContent = None, or_artifacts = [], or_approvalGates = [], or_metadata = []\<rparr>"

definition denied :: "operation_kind \<Rightarrow> denial_reason \<Rightarrow> json_record \<Rightarrow> operation_result" where
  "denied kind reason metadata =
     (plain_result kind SB_DENIED)\<lparr>or_denialReason := Some reason,
        or_metadata := spread [(''safetyReasonCode'', JStr (safetyReasonCodeForDenial reason))] metadata\<rparr>"

section \<open>The workspace adapter\<close>

datatype approval_scope = FILE_WRITE | COMMAND_SCOPE

record sandbox_approval =
  sa_id :: string
  sa_scope :: approval_scope
  sa_target :: string
  sa_approvedBy :: string

record command_run =
  cr_exitCode :: int
  cr_stdout :: string
  cr_stderr :: string
  cr_timedOut :: bool

record sandbox =
  sb_workspaceRoot :: string
  sb_cwd :: abs_path
  sb_policy :: sandbox_policy
  sb_riskyCommands :: "string list"
  sb_approvals :: "sandbox_approval list"
  sb_now :: string
  sb_realpath :: "abs_path \<Rightarrow> abs_path option"
  sb_readFile :: "abs_path \<Rightarrow> string option"
  sb_readdir :: "abs_path \<Rightarrow> string list option"
  sb_writable :: "abs_path \<Rightarrow> bool"
  sb_commandRunner :: "string \<Rightarrow> string list \<Rightarrow> string \<Rightarrow> int \<Rightarrow> command_run option"
  sb_numStr :: "jsnum \<Rightarrow> string"

datatype sandbox_effect =
    ReadFile abs_path | ListDir abs_path | WriteFile abs_path string | RunProcess string "string list" string int

datatype sandbox_error = SandboxZodError | FileSystemThrew | RunnerThrew

type_synonym sandbox_outcome = "sandbox_effect list \<times> (sandbox_error, operation_result) result"

text \<open>The text of an absolute path.\<close>

definition pathText :: "abs_path \<Rightarrow> string" where
  "pathText p = ''/'' @ join_with ''/'' p"

definition hasApproval :: "sandbox \<Rightarrow> approval_scope \<Rightarrow> string \<Rightarrow> string option \<Rightarrow> bool" where
  "hasApproval S scope target alternate =
     list_ex (\<lambda>a. sa_scope a = scope \<and> (sa_target a = target \<or> alternate = Some (sa_target a))) (sb_approvals S)"

definition isRisky :: "sandbox \<Rightarrow> sandbox_operation \<Rightarrow> bool" where
  "isRisky S o1 = (jfield (op_metadata o1) ''requiresApproval'' = JBool True \<or> commandOf o1 \<in> set (sb_riskyCommands S))"

definition isCwdAllowed :: "sandbox \<Rightarrow> bool" where
  "isCwdAllowed S = list_ex (\<lambda>base. isContainedWithin base (resolvePath (sb_cwd S) (sb_workspaceRoot S))) (sp_allowedCwdRoots (sb_policy S))"

fun stableId :: "string \<Rightarrow> string" where
  "stableId [] = []"
| "stableId (c # cs) =
     (let plain = (\<lambda>c. c \<in> set ''ABCDEFGHIJKLMNOPQRSTUVWXYZabcdefghijklmnopqrstuvwxyz0123456789._-'')
      in if plain c then c # stableId cs
         else case cs of [] \<Rightarrow> ''-'' | d # _ \<Rightarrow> (if plain d then CHR ''-'' # stableId cs else stableId cs))"

definition LF :: string where
  "LF = [CHR 0x0A]"

definition unifiedDiffFor :: "string \<Rightarrow> string \<Rightarrow> patch_operation \<Rightarrow> string" where
  "unifiedDiffFor path content operation =
     (if operation = PatchDelete then ''--- a/'' @ path @ LF @ ''+++ /dev/null'' @ LF @ ''@@ -1 +0,0 @@'' @ LF @ ''-'' @ content
      else ''--- '' @ (if operation = PatchAdd then ''/dev/null'' else ''a/'' @ path) @ LF @ ''+++ b/'' @ path @ LF @ ''@@ -0,0 +1 @@'' @ LF @ ''+'' @ content)"

fun patchName :: "patch_operation \<Rightarrow> string" where
  "patchName PatchAdd = ''add''"
| "patchName PatchUpdate = ''update''"
| "patchName PatchDelete = ''delete''"

definition FILE_WRITE_APPROVAL_REASON :: string where
  "FILE_WRITE_APPROVAL_REASON = ''File write proposals require explicit approval metadata before execution.''"

definition writeGate :: "string \<Rightarrow> patch_operation \<Rightarrow> bool \<Rightarrow> sandbox_gate" where
  "writeGate path operation approved =
     \<lparr>gt_id = ''approval:file-write:'' @ path, gt_approved = approved, gt_reason = FILE_WRITE_APPROVAL_REASON,
      gt_metadata = [(''path'', JStr path), (''operation'', JStr (patchName operation))]\<rparr>"

definition patchArtifact :: "string \<Rightarrow> string \<Rightarrow> string \<Rightarrow> patch_operation \<Rightarrow> json_record \<Rightarrow> json_record \<Rightarrow> json_record" where
  "patchArtifact now path content operation approval metadata =
     [(''kind'', JStr ''PATCH''), (''id'', JStr (''patch:'' @ stableId path)), (''path'', JStr path),
      (''operation'', JStr (patchName operation)), (''unifiedDiff'', JStr (unifiedDiffFor path content operation)),
      (''createdAt'', JStr now), (''approval'', JObj approval), (''metadata'', JObj metadata)]"

text \<open>
  A patch is written only with a matching approval. Its artifact must have a safe relative path, or its
  schema throws before anything is written.
\<close>

definition proposePatch :: "sandbox \<Rightarrow> sandbox_operation \<Rightarrow> abs_path \<Rightarrow> sandbox_outcome" where
  "proposePatch S o1 absolutePath =
     (let targetPath = (case op_path o1 of Some p \<Rightarrow> p | None \<Rightarrow> []);
          operation = (case op_operation o1 of Some k \<Rightarrow> k | None \<Rightarrow> PatchUpdate);
          content = (case op_content o1 of Some c \<Rightarrow> c | None \<Rightarrow> []);
          approved = hasApproval S FILE_WRITE targetPath (Some (pathText absolutePath));
          artifact = redactSecrets (JObj (patchArtifact (sb_now S) targetPath content operation
             [(''required'', JBool True), (''approved'', JBool approved)] [(''applied'', JBool approved), (''workspaceSandbox'', JBool True)]));
          result = (plain_result PROPOSE_PATCH SB_SUCCEEDED)\<lparr>or_resolvedPath := Some absolutePath, or_artifacts := [artifact],
             or_approvalGates := [writeGate targetPath operation approved]\<rparr>
      in if \<not> isSafeRelativePath targetPath then ([], Inl SandboxZodError)
         else if \<not> approved then ([], Inr (result\<lparr>or_status := SB_NEEDS_APPROVAL, or_denialReason := Some NEEDS_APPROVAL\<rparr>))
         else ([WriteFile absolutePath content], if sb_writable S absolutePath then Inr result else Inl FileSystemThrew))"

definition streamMetadata :: "sandbox \<Rightarrow> bool \<Rightarrow> bool \<Rightarrow> int \<Rightarrow> json_record" where
  "streamMetadata S outTruncated errTruncated timeoutMs =
     [(''stdoutTruncated'', JBool outTruncated), (''stderrTruncated'', JBool errTruncated),
      (''requestedRuntimeMs'', JNum (Fin (of_int timeoutMs))), (''maxRuntimeMs'', JNum (Fin (of_int (sp_maxRuntimeMs (sb_policy S)))))]"

definition commandResult :: "sandbox \<Rightarrow> bool \<Rightarrow> int \<Rightarrow> command_run \<Rightarrow> operation_result" where
  "commandResult S aborted timeoutMs run =
     (let (out, outTruncated) = captureStream (cr_stdout run) (nat (sp_maxStdoutBytes (sb_policy S)));
          (err, errTruncated) = captureStream (cr_stderr run) (nat (sp_maxStderrBytes (sb_policy S)));
          streams = streamMetadata S outTruncated errTruncated timeoutMs;
          result = (plain_result RUN_COMMAND SB_DENIED)\<lparr>or_stdout := redactString out, or_stderr := redactString err\<rparr>
      in if cr_timedOut run
         then result\<lparr>or_denialReason := Some COMMAND_TIMEOUT, or_metadata := streams @ [(''safetyReasonCode'', JStr ''COMMAND_TIMEOUT'')]\<rparr>
         else if aborted \<or> cr_exitCode run = 130
         then result\<lparr>or_denialReason := Some COMMAND_ABORTED,
                     or_metadata := streams @ [(''safetyReasonCode'', JStr ''COMMAND_ABORTED''), (''aborted'', JBool True)]\<rparr>
         else result\<lparr>or_status := (if cr_exitCode run = 0 then SB_SUCCEEDED else SB_FAILED), or_metadata := streams\<rparr>)"

definition runtimeMetadata :: "sandbox \<Rightarrow> runtime_decision \<Rightarrow> int \<Rightarrow> json_record" where
  "runtimeMetadata S gate timeoutMs =
     [(''safetyReasonCode'', JStr (case sd_reasonCodes gate of
         SANDBOX_RUNTIME_BUDGET_EXCEEDED # _ \<Rightarrow> ''SANDBOX_RUNTIME_BUDGET_EXCEEDED'' | _ \<Rightarrow> ''SANDBOX_RUNTIME_APPROVAL_REQUIRED'')),
      (''safetyReasons'', JArr (map JStr (sd_reasons gate))), (''requestedRuntimeMs'', JNum (Fin (of_int timeoutMs))),
      (''maxRuntimeMs'', JNum (Fin (of_int (sp_maxRuntimeMs (sb_policy S)))))]"

definition commandGate :: "string \<Rightarrow> sandbox_gate" where
  "commandGate command =
     \<lparr>gt_id = ''approval:command:'' @ stableId command, gt_approved = False,
      gt_reason = ''Risky command execution requires an explicit approval.'', gt_metadata = [(''command'', JStr command)]\<rparr>"

text \<open>\<open>aborted\<close> is the state of the signal after the command.\<close>

definition runCommand :: "sandbox \<Rightarrow> bool \<Rightarrow> sandbox_operation \<Rightarrow> sandbox_outcome" where
  "runCommand S aborted o1 =
     (let command = commandOf o1; args = op_args o1; policy = sb_policy S;
          timeoutMs = (case op_timeoutMs o1 of Some t \<Rightarrow> t | None \<Rightarrow> WORKSPACE_COMMAND_TIMEOUT_MS);
          num = (\<lambda>i. JNum (Fin (of_int i)));
          gate = evaluateSandboxRuntimeSafety (sb_numStr S) (num timeoutMs) (num (sp_maxRuntimeMs policy)) (num (sp_approvalRequiredAboveRuntimeMs policy));
          deny = (\<lambda>reason metadata. ([], Inr (denied RUN_COMMAND reason metadata)))
      in if matchesDestructiveDenylist command args then deny DESTRUCTIVE_COMMAND_BLOCKED []
         else if jfield (op_metadata o1) ''network'' = JBool True \<and> \<not> sp_networkAllowed policy then deny SB_NETWORK_DISABLED []
         else if operationRequestsSecretInjection o1 \<and> \<not> sp_secretsInjectionAllowed policy then deny SECRETS_DISABLED []
         else if isShellInvocation o1 (sp_allowShellOperators policy) then deny ARBITRARY_SHELL_DISABLED []
         else if matchesDeniedCommandPattern command args (sp_deniedCommandPatterns policy) then deny COMMAND_ARG_REJECTED []
         else if command \<notin> set (sp_allowedCommands policy) then deny COMMAND_NOT_ALLOWLISTED []
         else if \<not> isCwdAllowed S then deny CWD_NOT_ALLOWLISTED []
         else if isRisky S o1 \<and> \<not> hasApproval S COMMAND_SCOPE command None
         then ([], Inr ((plain_result RUN_COMMAND SB_NEEDS_APPROVAL)\<lparr>or_denialReason := Some NEEDS_APPROVAL,
                 or_approvalGates := [commandGate command], or_metadata := [(''safetyReasonCode'', JStr ''NEEDS_APPROVAL'')]\<rparr>))
         else if sd_status gate = BudgetDenied then deny RUNTIME_BUDGET_EXCEEDED (runtimeMetadata S gate timeoutMs)
         else if sd_status gate = BudgetNeedsDecision
         then ([], Inr ((plain_result RUN_COMMAND SB_NEEDS_APPROVAL)\<lparr>or_denialReason := Some NEEDS_APPROVAL, or_metadata := runtimeMetadata S gate timeoutMs\<rparr>))
         else ([RunProcess command args (sb_workspaceRoot S) timeoutMs],
               case sb_commandRunner S command args (sb_workspaceRoot S) timeoutMs of
                 None \<Rightarrow> Inl RunnerThrew
               | Some run \<Rightarrow> Inr (commandResult S aborted timeoutMs run)))"

text \<open>\<open>operate\<close>, with the state of the abort signal before and after the operation.\<close>

definition operate :: "sandbox \<Rightarrow> bool \<Rightarrow> bool \<Rightarrow> sandbox_operation \<Rightarrow> sandbox_outcome" where
  "operate S abortedBefore abortedAfter o1 =
     (if \<not> SandboxOperationSchema o1 then ([], Inl SandboxZodError)
      else if abortedBefore
      then ([], Inr (denied (op_kind o1) (if op_kind o1 = RUN_COMMAND then COMMAND_ABORTED else POLICY_VIOLATION) [(''aborted'', JBool True)]))
      else if op_kind o1 = RUN_COMMAND then runCommand S abortedAfter o1
      else case resolveWithinWorkspace (sb_realpath S) (sb_cwd S) (sb_workspaceRoot S) (case op_path o1 of Some p \<Rightarrow> p | None \<Rightarrow> []) of
             Inl reason \<Rightarrow> ([], Inr (denied (op_kind o1) reason []))
           | Inr absolutePath \<Rightarrow>
               (case op_kind o1 of
                  READ_FILE \<Rightarrow>
                    ([ReadFile absolutePath],
                     case sb_readFile S absolutePath of
                       None \<Rightarrow> Inl FileSystemThrew
                     | Some content \<Rightarrow> Inr ((plain_result READ_FILE SB_SUCCEEDED)\<lparr>or_resolvedPath := Some absolutePath,
                                            or_fileContent := Some (redactString content)\<rparr>))
                | LIST_DIR \<Rightarrow>
                    ([ListDir absolutePath],
                     case sb_readdir S absolutePath of
                       None \<Rightarrow> Inl FileSystemThrew
                     | Some entries \<Rightarrow> Inr ((plain_result LIST_DIR SB_SUCCEEDED)\<lparr>or_resolvedPath := Some absolutePath, or_entries := Some entries\<rparr>))
                | _ \<Rightarrow> proposePatch S o1 absolutePath))"

end
