(* ===== verification/Tool_Dispatch.thy ===== *)
theory Tool_Dispatch
  imports Sandbox_Operations Turn_Budget Dag_Executor
begin

text \<open>
  The tools of a run, \<open>src/tools/\<close>: the registry and its dispatch, the middleware chain around a call,
  and the built-in tools that hand their operations to the sandbox.

  A handler is a function on the state of the host that returns a result or throws a message. What the
  whole chain changes is the \<open>tool_world\<close>: the host, the events given to \<open>appendRunEvent\<close> (a push on a
  list), the turn budget and the availability cache. \<open>N\<close> holds what comes from the runtime: the text of a
  number, the text of a timestamp and the message of a schema error.
\<close>

section \<open>Types\<close>

datatype tool_risk = ToolLow | ToolMedium | ToolHigh | ToolDestructive

fun toolRiskName :: "tool_risk \<Rightarrow> string" where
  "toolRiskName ToolLow = ''low''"
| "toolRiskName ToolMedium = ''medium''"
| "toolRiskName ToolHigh = ''high''"
| "toolRiskName ToolDestructive = ''destructive''"

record tool_definition =
  td_name :: string
  td_description :: string
  td_inputSchema :: json_record
  td_risk :: tool_risk
  td_requiresApproval :: bool
  td_requiresSandbox :: bool

definition ToolSchemaDefinitionSchema :: "tool_definition \<Rightarrow> bool" where
  "ToolSchemaDefinitionSchema d = (td_name d \<noteq> [] \<and> td_description d \<noteq> [])"

datatype tool_error_code =
    ToolNotFound | ToolUnavailable | ToolHandlerFailed | ToolBudgetExceeded | ToolPermissionDenied
  | ToolValidationFailed | ToolPolicyDenied

fun toolErrorName :: "tool_error_code \<Rightarrow> string" where
  "toolErrorName ToolNotFound = ''TOOL_NOT_FOUND''"
| "toolErrorName ToolUnavailable = ''TOOL_UNAVAILABLE''"
| "toolErrorName ToolHandlerFailed = ''TOOL_HANDLER_FAILED''"
| "toolErrorName ToolBudgetExceeded = ''BUDGET_EXCEEDED''"
| "toolErrorName ToolPermissionDenied = ''PERMISSION_DENIED''"
| "toolErrorName ToolValidationFailed = ''VALIDATION_FAILED''"
| "toolErrorName ToolPolicyDenied = ''POLICY_DENIED''"

record tool_error =
  te_code :: tool_error_code
  te_message :: string
  te_details :: "json_record option"

text \<open>
  The output of a tool: the result of a sandbox operation, when it has one (under \<open>sandboxResult\<close> and
  \<open>operationResult\<close>), and its other fields.
\<close>

record timed_result =
  tm_result :: operation_result
  tm_startedAt :: int
  tm_completedAt :: int

record tool_output =
  tu_sandbox :: "timed_result option"
  tu_fields :: json_record

record tool_result =
  tr_ok :: bool
  tr_toolName :: "string option"
  tr_output :: tool_output
  tr_error :: "tool_error option"
  tr_halt :: bool
  tr_approvalGateId :: "string option"
  tr_middlewareHalt :: bool
  tr_metadata :: json_record

record tool_env =
  en_numStr :: "jsnum \<Rightarrow> string"
  en_iso :: "int \<Rightarrow> string"
  en_zod :: string

definition ToolResultSchema :: "tool_result \<Rightarrow> bool" where
  "ToolResultSchema r =
     (optNonEmpty (tr_toolName r) \<and> (case tr_error r of None \<Rightarrow> True | Some e \<Rightarrow> te_message e \<noteq> [])
      \<and> optNonEmpty (tr_approvalGateId r))"

definition parseToolResult :: "tool_env \<Rightarrow> tool_result \<Rightarrow> (string, tool_result) result" where
  "parseToolResult N r = (if ToolResultSchema r then Inr r else Inl (en_zod N))"

record tool_event =
  tv_type :: run_event_type
  tv_phase :: run_phase
  tv_payload :: json_record

record tool_context =
  cx_runId :: string
  cx_nodeId :: string
  cx_conversationId :: string
  cx_phase :: "run_phase option"
  cx_approvals :: "sandbox_approval list option"
  cx_budget :: "budget option"
  cx_steerHint :: "string option"
  cx_moduleEnabled :: "(string \<Rightarrow> bool) option"
  cx_toolPermissions :: "string list"
  cx_toolPolicy :: "json_record option"
  cx_sink :: bool
  cx_nowMs :: int

definition empty_output :: tool_output where
  "empty_output = \<lparr>tu_sandbox = None, tu_fields = []\<rparr>"

definition toolSuccess :: "tool_env \<Rightarrow> string \<Rightarrow> tool_output \<Rightarrow> json_record \<Rightarrow> (string, tool_result) result" where
  "toolSuccess N toolName out metadata =
     parseToolResult N \<lparr>tr_ok = True, tr_toolName = Some toolName, tr_output = out, tr_error = None, tr_halt = False,
       tr_approvalGateId = None, tr_middlewareHalt = False, tr_metadata = metadata\<rparr>"

record error_options =
  eo_details :: "json_record option"
  eo_halt :: "bool option"
  eo_approvalGateId :: "string option"
  eo_metadata :: "json_record option"
  eo_middlewareHalt :: "bool option"

definition toolError :: "tool_env \<Rightarrow> string \<Rightarrow> tool_error_code \<Rightarrow> string \<Rightarrow> error_options \<Rightarrow> (string, tool_result) result" where
  "toolError N toolName code message options =
     parseToolResult N \<lparr>tr_ok = False, tr_toolName = Some toolName, tr_output = empty_output,
       tr_error = Some \<lparr>te_code = code, te_message = message, te_details = eo_details options\<rparr>,
       tr_halt = over (eo_halt options) True, tr_approvalGateId = eo_approvalGateId options,
       tr_middlewareHalt = over (eo_middlewareHalt options) (over (eo_halt options) True),
       tr_metadata = over (eo_metadata options) []\<rparr>"

section \<open>Redaction of results\<close>

definition redactGate :: "sandbox_gate \<Rightarrow> sandbox_gate" where
  "redactGate g = g\<lparr>gt_id := redactString (gt_id g), gt_reason := redactString (gt_reason g), gt_metadata := redactRecord (gt_metadata g)\<rparr>"

definition redactOperationResult :: "operation_result \<Rightarrow> operation_result" where
  "redactOperationResult r =
     r\<lparr>or_resolvedPath := map_option (\<lambda>p. resolvePath [] (redactString (pathText p))) (or_resolvedPath r),
       or_stdout := redactString (or_stdout r), or_stderr := redactString (or_stderr r),
       or_entries := map_option (map redactString) (or_entries r), or_fileContent := map_option redactString (or_fileContent r),
       or_artifacts := map redactSecrets (or_artifacts r), or_approvalGates := map redactGate (or_approvalGates r),
       or_metadata := redactRecord (or_metadata r)\<rparr>"

definition redactOutput :: "tool_output \<Rightarrow> tool_output" where
  "redactOutput out =
     \<lparr>tu_sandbox = map_option (\<lambda>t. t\<lparr>tm_result := redactOperationResult (tm_result t)\<rparr>) (tu_sandbox out),
      tu_fields = redactRecord (tu_fields out)\<rparr>"

definition redactToolResult :: "tool_result \<Rightarrow> tool_result" where
  "redactToolResult r =
     r\<lparr>tr_toolName := map_option redactString (tr_toolName r), tr_output := redactOutput (tr_output r),
       tr_error := map_option (\<lambda>e. e\<lparr>te_message := redactString (te_message e), te_details := map_option redactRecord (te_details e)\<rparr>) (tr_error r),
       tr_approvalGateId := map_option redactString (tr_approvalGateId r), tr_metadata := redactRecord (tr_metadata r)\<rparr>"

section \<open>What events show\<close>

definition optText :: "string option \<Rightarrow> json" where
  "optText s = (case s of None \<Rightarrow> JUndef | Some t \<Rightarrow> JStr t)"

fun kindName :: "operation_kind \<Rightarrow> string" where
  "kindName READ_FILE = ''READ_FILE''"
| "kindName LIST_DIR = ''LIST_DIR''"
| "kindName PROPOSE_PATCH = ''PROPOSE_PATCH''"
| "kindName RUN_COMMAND = ''RUN_COMMAND''"

fun statusName :: "execution_status \<Rightarrow> string" where
  "statusName SB_SUCCEEDED = ''SUCCEEDED''"
| "statusName SB_FAILED = ''FAILED''"
| "statusName SB_DENIED = ''DENIED''"
| "statusName SB_NEEDS_APPROVAL = ''NEEDS_APPROVAL''"

definition gateJson :: "sandbox_gate \<Rightarrow> json" where
  "gateJson g = JObj [(''id'', JStr (gt_id g)), (''type'', JStr ''FILE_WRITE''), (''required'', JBool True),
     (''approved'', JBool (gt_approved g)), (''reason'', JStr (gt_reason g)), (''metadata'', JObj (gt_metadata g))]"

definition operationResultJson :: "tool_env \<Rightarrow> timed_result \<Rightarrow> json" where
  "operationResultJson N t =
     (let r = tm_result t
      in JObj [(''kind'', JStr (kindName (or_kind r))), (''status'', JStr (statusName (or_status r))),
           (''denialReason'', optText (map_option denialName (or_denialReason r))),
           (''resolvedPath'', optText (map_option pathText (or_resolvedPath r))),
           (''stdout'', JStr (or_stdout r)), (''stderr'', JStr (or_stderr r)),
           (''entries'', case or_entries r of None \<Rightarrow> JUndef | Some es \<Rightarrow> jstrs es), (''fileContent'', optText (or_fileContent r)),
           (''artifacts'', JArr (or_artifacts r)), (''approvalGates'', JArr (map gateJson (or_approvalGates r))),
           (''networkCalls'', jnat 0), (''startedAt'', JStr (en_iso N (tm_startedAt t))),
           (''completedAt'', JStr (en_iso N (tm_completedAt t))), (''metadata'', JObj (or_metadata r))])"

definition outputJson :: "tool_env \<Rightarrow> tool_output \<Rightarrow> json_record" where
  "outputJson N out =
     (case tu_sandbox out of None \<Rightarrow> []
      | Some t \<Rightarrow> [(''sandboxResult'', operationResultJson N t), (''operationResult'', operationResultJson N t)]) @ tu_fields out"

definition toolErrorJson :: "tool_error option \<Rightarrow> json" where
  "toolErrorJson e = (case e of None \<Rightarrow> JUndef
     | Some e \<Rightarrow> JObj ([(''code'', JStr (toolErrorName (te_code e))), (''message'', JStr (te_message e))]
         @ (case te_details e of None \<Rightarrow> [] | Some d \<Rightarrow> [(''details'', JObj d)])))"

section \<open>The registry\<close>

type_synonym 'w tool_handler = "json_record \<Rightarrow> tool_context \<Rightarrow> 'w \<Rightarrow> (string, tool_result) result \<times> 'w"

record 'w tool_entry =
  rg_definition :: tool_definition
  rg_handler :: "'w tool_handler"
  rg_checkFn :: "(tool_context \<Rightarrow> 'w \<Rightarrow> (string, bool) result \<times> 'w) option"
  rg_module :: bool
  rg_moduleId :: "string option"

type_synonym 'w tool_registry = "(string, 'w tool_entry) js_map"

record 'w tool_world =
  tw_host :: 'w
  tw_events :: "tool_event list"
  tw_turnBudget :: "turn_budget option"
  tw_checkCache :: "(string, bool \<times> int) js_map"

definition DEFAULT_CHECK_CACHE_TTL_MS :: int where
  "DEFAULT_CHECK_CACHE_TTL_MS = 30000"

datatype registry_error = ToolZodError | ToolAlreadyRegistered string

definition register :: "'w tool_entry \<Rightarrow> 'w tool_registry \<Rightarrow> (registry_error, 'w tool_registry) result" where
  "register entry entries =
     (if \<not> ToolSchemaDefinitionSchema (rg_definition entry) then Inl ToolZodError
      else if js_has entries (td_name (rg_definition entry)) then Inl (ToolAlreadyRegistered (td_name (rg_definition entry)))
      else Inr (js_set (td_name (rg_definition entry)) entry entries))"

definition cacheKey :: "string \<Rightarrow> string \<Rightarrow> string" where
  "cacheKey name runId = name @ CHR 0x00 # runId"

definition unregister :: "string \<Rightarrow> 'w tool_registry \<Rightarrow> 'w tool_world \<Rightarrow> 'w tool_registry \<times> 'w tool_world" where
  "unregister name entries w =
     (js_delete name entries, w\<lparr>tw_checkCache := filter (\<lambda>(k, _). \<not> startsWith k (cacheKey name [])) (tw_checkCache w)\<rparr>)"

definition redactDefinition :: "tool_definition \<Rightarrow> tool_definition" where
  "redactDefinition d = d\<lparr>td_name := redactString (td_name d), td_description := redactString (td_description d),
     td_inputSchema := redactRecord (td_inputSchema d)\<rparr>"

definition listTools :: "(string \<Rightarrow> string \<Rightarrow> int) \<Rightarrow> 'w tool_registry \<Rightarrow> (registry_error, tool_definition list) result" where
  "listTools compare entries =
     (let ds = map (redactDefinition \<circ> rg_definition \<circ> snd) entries
      in if list_all ToolSchemaDefinitionSchema ds then Inr (sort_by (\<lambda>a b. compare (td_name a) (td_name b)) ds)
         else Inl ToolZodError)"

definition checkAvailability ::
  "int \<Rightarrow> string \<Rightarrow> 'w tool_entry \<Rightarrow> tool_context \<Rightarrow> 'w tool_world \<Rightarrow> (string, bool) result \<times> 'w tool_world" where
  "checkAvailability ttl name entry ctx w =
     (case rg_checkFn entry of
        None \<Rightarrow> (Inr True, w)
      | Some check \<Rightarrow>
          let key = cacheKey name (cx_runId ctx); now = cx_nowMs ctx;
              miss = (case check ctx (tw_host w) of
                        (Inl e, h) \<Rightarrow> (Inl e, w\<lparr>tw_host := h\<rparr>)
                      | (Inr b, h) \<Rightarrow> (Inr b, w\<lparr>tw_host := h, tw_checkCache := js_set key (b, now + ttl) (tw_checkCache w)\<rparr>))
          in case js_get (tw_checkCache w) key of
               Some (b, expiresAt) \<Rightarrow> if now < expiresAt then (Inr b, w) else miss
             | None \<Rightarrow> miss)"

definition halt_options :: error_options where
  "halt_options = \<lparr>eo_details = None, eo_halt = Some True, eo_approvalGateId = None, eo_metadata = None, eo_middlewareHalt = None\<rparr>"

definition dispatchTool ::
  "tool_env \<Rightarrow> int \<Rightarrow> 'w tool_registry \<Rightarrow> string \<Rightarrow> json_record \<Rightarrow> tool_context \<Rightarrow> 'w tool_world \<Rightarrow> (string, tool_result) result \<times> 'w tool_world" where
  "dispatchTool N ttl entries name args ctx w =
     (case js_get entries name of
        None \<Rightarrow> (toolError N name ToolNotFound (''Unknown tool: '' @ redactString name)
                   (halt_options\<lparr>eo_details := Some [(''toolName'', JStr (redactString name))]\<rparr>), w)
      | Some entry \<Rightarrow>
          if rg_module entry \<and> rg_moduleId entry \<noteq> None \<and> rg_moduleId entry \<noteq> Some []
             \<and> (case cx_moduleEnabled ctx of None \<Rightarrow> False | Some enabled \<Rightarrow> \<not> enabled (the (rg_moduleId entry)))
          then (toolError N name ToolUnavailable (''Tool '' @ redactString name @ '' is unavailable because its module is disabled'')
                  (halt_options\<lparr>eo_details := Some [(''moduleId'', JStr (redactString (the (rg_moduleId entry))))]\<rparr>), w)
          else case checkAvailability ttl name entry ctx w of
                 (Inl e, w1) \<Rightarrow> (Inl e, w1)
               | (Inr False, w1) \<Rightarrow>
                   (toolError N name ToolUnavailable (''Tool '' @ redactString name @ '' is unavailable in this context'') halt_options, w1)
               | (Inr True, w1) \<Rightarrow>
                   (case rg_handler entry args ctx (tw_host w1) of
                      (r, h) \<Rightarrow>
                        (let w2 = w1\<lparr>tw_host := h\<rparr>;
                             failed = (\<lambda>message. toolError N name ToolHandlerFailed (''Tool '' @ redactString name @ '' failed'')
                                         (halt_options\<lparr>eo_details := Some [(''message'', JStr (redactString message))]\<rparr>))
                         in (case bind_result r (\<lambda>res. parseToolResult N (redactToolResult
                                    (res\<lparr>tr_toolName := Some (over (tr_toolName res) name)\<rparr>))) of
                               Inl message \<Rightarrow> failed message
                             | Inr res \<Rightarrow> Inr res, w2))))"

section \<open>Middleware\<close>

record tool_request =
  rq_toolName :: string
  rq_args :: json_record
  rq_context :: tool_context
  rq_definition :: "tool_definition option"

text \<open>The mutable part of the middleware context; \<open>ms_next\<close> is the \<open>index\<close> of the dispatcher plus one.\<close>

record 'w mw_state =
  ms_world :: "'w tool_world"
  ms_redactedArgs :: "json_record option"
  ms_trace :: "string list"
  ms_next :: nat

type_synonym 'w tool_step = "'w mw_state \<Rightarrow> (string, tool_result) result \<times> 'w mw_state"
type_synonym 'w tool_middleware = "tool_env \<Rightarrow> tool_request \<Rightarrow> 'w tool_step \<Rightarrow> 'w tool_step"

definition DEFAULT_TOOL_MIDDLEWARE_ORDER :: "string list" where
  "DEFAULT_TOOL_MIDDLEWARE_ORDER = [''budget'', ''redactionInput'', ''approval'', ''policy'', ''handler'', ''redactionOutput'', ''trace'']"

definition pushTrace :: "string \<Rightarrow> 'w mw_state \<Rightarrow> 'w mw_state" where
  "pushTrace name s = s\<lparr>ms_trace := ms_trace s @ [name]\<rparr>"

definition emitToolEvent :: "tool_request \<Rightarrow> tool_event \<Rightarrow> 'w mw_state \<Rightarrow> 'w mw_state" where
  "emitToolEvent rq e s = (if cx_sink (rq_context rq) then s\<lparr>ms_world := (ms_world s)\<lparr>tw_events := tw_events (ms_world s) @ [e]\<rparr>\<rparr> else s)"

definition contextPhase :: "tool_request \<Rightarrow> run_phase" where
  "contextPhase rq = over (cx_phase (rq_context rq)) EXECUTING"

definition jint :: "int \<Rightarrow> json" where
  "jint i = JNum (Fin (of_int i))"

definition snapshotJson :: "turn_snapshot \<Rightarrow> json_record" where
  "snapshotJson s = [(''iterationsUsed'', jint (ts_iterationsUsed s)), (''iterationsRemaining'', jint (ts_iterationsRemaining s)),
     (''toolCallsUsed'', jint (ts_toolCallsUsed s)), (''toolCallsRemaining'', jint (ts_toolCallsRemaining s)),
     (''graceCallAvailable'', JBool (ts_graceCallAvailable s)), (''graceCallUsed'', JBool (ts_graceCallUsed s))]"

definition refusal :: "json_record option \<Rightarrow> json_record \<Rightarrow> error_options" where
  "refusal details metadata = \<lparr>eo_details = details, eo_halt = Some True, eo_approvalGateId = None, eo_metadata = Some metadata,
     eo_middlewareHalt = Some True\<rparr>"

definition budgetMiddleware :: "'w tool_middleware" where
  "budgetMiddleware N rq next s =
     (let s1 = pushTrace ''budget'' s; w = ms_world s1;
          continue = (\<lambda>s2. case cx_budget (rq_context rq) of
             Some b \<Rightarrow> if maxModelCalls b \<le> 0
                       then (toolError N (rq_toolName rq) ToolBudgetExceeded ''Tool execution denied because the run budget is exhausted''
                               (refusal (Some [(''maxModelCalls'', jnat (maxModelCalls b))]) [(''middleware'', JStr ''budget'')]), s2)
                       else next s2
           | None \<Rightarrow> next s2)
      in case tw_turnBudget w of
           None \<Rightarrow> continue s1
         | Some tb \<Rightarrow>
             (case consumeToolCall tb of
                (True, tb') \<Rightarrow> continue (s1\<lparr>ms_world := w\<lparr>tw_turnBudget := Some tb'\<rparr>\<rparr>)
              | (False, tb') \<Rightarrow>
                  (let shot = snapshot tb'
                   in (toolError N (rq_toolName rq) ToolBudgetExceeded ''Tool execution denied because the turn tool-call budget is exhausted''
                         (refusal (Some (snapshotJson shot)) [(''middleware'', JStr ''budget''), (''budget'', JStr ''turn'')]),
                       emitToolEvent rq \<lparr>tv_type = RUN_BUDGET_EXHAUSTED, tv_phase = contextPhase rq, tv_payload =
                          [(''source'', JStr ''tool-registry''), (''nodeId'', JStr (cx_nodeId (rq_context rq))),
                           (''toolName'', JStr (redactString (rq_toolName rq))), (''reason'', JStr ''tool_call_budget_exhausted''),
                           (''iterationsUsed'', jint (ts_iterationsUsed shot)), (''toolCallsUsed'', jint (ts_toolCallsUsed shot)),
                           (''iterationsRemaining'', jint (ts_iterationsRemaining shot)),
                           (''toolCallsRemaining'', jint (ts_toolCallsRemaining shot))]\<rparr> s1))))"

definition redactionInputMiddleware :: "'w tool_middleware" where
  "redactionInputMiddleware N rq next s =
     next ((pushTrace ''redactionInput'' s)\<lparr>ms_redactedArgs := Some (redactRecord (rq_args rq))\<rparr>)"

definition approvalTargetFor :: "json_record \<Rightarrow> string option" where
  "approvalTargetFor args =
     (let operationPath = (case jfield args ''operation'' of
            JObj op \<Rightarrow> (case jfield op ''path'' of JStr p \<Rightarrow> if p \<noteq> [] then Some p else None | _ \<Rightarrow> None)
          | _ \<Rightarrow> None)
      in case jfield args ''path'' of JStr p \<Rightarrow> if p \<noteq> [] then Some p else operationPath | _ \<Rightarrow> operationPath)"

definition hasToolApproval :: "sandbox_approval list option \<Rightarrow> approval_scope \<Rightarrow> string option \<Rightarrow> bool" where
  "hasToolApproval approvals scope target =
     (case target of None \<Rightarrow> False
      | Some t \<Rightarrow> t \<noteq> [] \<and> list_ex (\<lambda>a. sa_scope a = scope \<and> sa_target a = t) (over approvals []))"

definition requiresPreApproval :: "tool_request \<Rightarrow> bool" where
  "requiresPreApproval rq =
     (rq_toolName rq = ''workspace.write_file'' \<or> jfield (rq_args rq) ''destructive'' = JBool True
      \<or> (case rq_definition rq of None \<Rightarrow> False | Some d \<Rightarrow> td_risk d = ToolDestructive))"

definition approvalMiddleware :: "'w tool_middleware" where
  "approvalMiddleware N rq next s =
     (let s1 = pushTrace ''approval'' s; target = approvalTargetFor (rq_args rq)
      in if requiresPreApproval rq \<and> \<not> hasToolApproval (cx_approvals (rq_context rq)) FILE_WRITE target
         then (toolError N (rq_toolName rq) ToolPermissionDenied ''Tool execution requires explicit approval''
                 \<lparr>eo_details = Some [(''target'', optText (map_option redactString target)),
                     (''risk'', optText (map_option (toolRiskName \<circ> td_risk) (rq_definition rq)))],
                  eo_halt = Some True, eo_approvalGateId = map_option (\<lambda>t. ''approval:file-write:'' @ t) target,
                  eo_metadata = Some [(''middleware'', JStr ''approval'')], eo_middlewareHalt = Some True\<rparr>, s1)
         else next s1)"

definition permissionMatchesTool :: "string \<Rightarrow> string \<Rightarrow> bool" where
  "permissionMatchesTool permission toolName =
     (let normalized = toLowerCase permission; tool = toLowerCase toolName
      in if normalized = tool then True
         else if tool = ''sandbox.execute'' then js_includes normalized ''command'' \<or> js_includes normalized ''validation''
         else if tool = ''workspace.read_file'' then js_includes normalized ''read''
         else if tool = ''workspace.write_file'' \<or> tool = ''workspace.apply_patch''
         then js_includes normalized ''write'' \<or> js_includes normalized ''patch'' \<or> js_includes normalized ''file''
         else False)"

definition policyDenied :: "tool_env \<Rightarrow> tool_request \<Rightarrow> string \<Rightarrow> json_record \<Rightarrow> (string, tool_result) result" where
  "policyDenied N rq message details =
     toolError N (rq_toolName rq) ToolPolicyDenied message (refusal (Some details) [(''middleware'', JStr ''policy'')])"

definition policyMiddleware :: "'w tool_middleware" where
  "policyMiddleware N rq next s =
     (let s1 = pushTrace ''policy'' s; name = rq_toolName rq;
          allowed = stringArrayFrom (en_numStr N) (optField (cx_toolPolicy (rq_context rq)) ''allowed'');
          denied = stringArrayFrom (en_numStr N) (optField (cx_toolPolicy (rq_context rq)) ''denied'')
      in if allowed \<noteq> [] \<and> name \<notin> set allowed \<and> \<not> list_ex (\<lambda>p. permissionMatchesTool p name) allowed
         then (policyDenied N rq ''Tool is not present in the node allowlist'' [(''allowed'', jstrs allowed)], s1)
         else if name \<in> set denied
         then (policyDenied N rq ''Tool is explicitly denied by node policy'' [(''denied'', jstrs denied)], s1)
         else next s1)"

definition redactionOutputMiddleware :: "'w tool_middleware" where
  "redactionOutputMiddleware N rq next s =
     (case next s of (r, s1) \<Rightarrow>
        (case r of Inl e \<Rightarrow> (Inl e, s1) | Inr res \<Rightarrow> (parseToolResult N (redactToolResult res), pushTrace ''redactionOutput'' s1)))"

definition shouldHalt :: "tool_result \<Rightarrow> bool" where
  "shouldHalt r = (tr_halt r \<or> tr_middlewareHalt r \<or> \<not> tr_ok r)"

definition invokedEvent :: "tool_request \<Rightarrow> 'w mw_state \<Rightarrow> tool_event" where
  "invokedEvent rq s =
     \<lparr>tv_type = TOOL_INVOKED, tv_phase = contextPhase rq, tv_payload =
        [(''source'', JStr ''tool-registry''), (''toolName'', JStr (redactString (rq_toolName rq))),
         (''nodeId'', JStr (cx_nodeId (rq_context rq))),
         (''input'', JObj (over (ms_redactedArgs s) (redactRecord (rq_args rq)))),
         (''middlewareOrder'', jstrs DEFAULT_TOOL_MIDDLEWARE_ORDER)]\<rparr>"

definition completedEvent :: "tool_env \<Rightarrow> tool_request \<Rightarrow> tool_result \<Rightarrow> tool_event" where
  "completedEvent N rq completed =
     \<lparr>tv_type = TOOL_COMPLETED, tv_phase = contextPhase rq, tv_payload =
        [(''source'', JStr ''tool-registry''), (''toolName'', JStr (redactString (rq_toolName rq))),
         (''nodeId'', JStr (cx_nodeId (rq_context rq))), (''ok'', JBool (tr_ok completed)), (''halt'', JBool (shouldHalt completed)),
         (''middlewareHalt'', JBool (tr_middlewareHalt completed)), (''approvalGateId'', optText (tr_approvalGateId completed)),
         (''error'', toolErrorJson (tr_error completed)), (''output'', JObj (redactRecord (outputJson N (tr_output completed)))),
         (''middlewareTrace'', jfield (tr_metadata completed) ''middlewareTrace'')]\<rparr>"

definition traceMiddleware :: "'w tool_middleware" where
  "traceMiddleware N rq next s =
     (case next (emitToolEvent rq (invokedEvent rq s) s) of (r, s1) \<Rightarrow>
        (case r of
           Inl e \<Rightarrow> (Inl e, s1)
         | Inr res \<Rightarrow>
             (let s2 = pushTrace ''trace'' s1
              in case parseToolResult N (res\<lparr>tr_metadata := spread (tr_metadata res)
                          [(''middlewareTrace'', jstrs (ms_trace s2)), (''middlewareOrder'', jstrs DEFAULT_TOOL_MIDDLEWARE_ORDER)]\<rparr>) of
                   Inl e \<Rightarrow> (Inl e, s2)
                 | Inr completed \<Rightarrow> (Inr completed, emitToolEvent rq (completedEvent N rq completed) s2))))"

definition DEFAULT_TOOL_MIDDLEWARE :: "'w tool_middleware list" where
  "DEFAULT_TOOL_MIDDLEWARE =
     [traceMiddleware, budgetMiddleware, redactionInputMiddleware, approvalMiddleware, policyMiddleware, redactionOutputMiddleware]"

definition twice :: "tool_env \<Rightarrow> string \<Rightarrow> (string, tool_result) result" where
  "twice N name = toolError N name ToolHandlerFailed ''Tool middleware called next more than once'' halt_options"

fun dispatchFrom ::
  "tool_env \<Rightarrow> int \<Rightarrow> 'w tool_registry \<Rightarrow> tool_request \<Rightarrow> nat \<Rightarrow> 'w tool_middleware list \<Rightarrow> 'w tool_step" where
  "dispatchFrom N ttl entries rq i [] s =
     (if i < ms_next s then (twice N (rq_toolName rq), s)
      else let s1 = pushTrace ''handler'' (s\<lparr>ms_next := Suc i\<rparr>)
           in case dispatchTool N ttl entries (rq_toolName rq) (rq_args rq) (rq_context rq) (ms_world s1) of
                (r, w) \<Rightarrow> (r, s1\<lparr>ms_world := w\<rparr>))"
| "dispatchFrom N ttl entries rq i (m # ms) s =
     (if i < ms_next s then (twice N (rq_toolName rq), s)
      else m N rq (dispatchFrom N ttl entries rq (Suc i) ms) (s\<lparr>ms_next := Suc i\<rparr>))"

definition runToolWithMiddleware ::
  "tool_env \<Rightarrow> int \<Rightarrow> 'w tool_registry \<Rightarrow> 'w tool_middleware list \<Rightarrow> string \<Rightarrow> json_record \<Rightarrow> tool_context \<Rightarrow> 'w tool_world
     \<Rightarrow> (string, tool_result) result \<times> 'w tool_world" where
  "runToolWithMiddleware N ttl entries middleware name args ctx w =
     (case dispatchFrom N ttl entries
             \<lparr>rq_toolName = name, rq_args = args, rq_context = ctx, rq_definition = map_option rg_definition (js_get entries name)\<rparr>
             0 middleware \<lparr>ms_world = w, ms_redactedArgs = None, ms_trace = [], ms_next = 0\<rparr> of
        (r, s) \<Rightarrow> (r, ms_world s))"

end
