(* ===== verification/Builtin_Tools.thy ===== *)
theory Builtin_Tools
  imports Tool_Dispatch
begin

text \<open>
  The built-in tools, \<open>src/tools/builtinTools.ts\<close>, and the schema that turns the arguments of a call into
  a sandbox operation. The host of a call is the sandbox as the call meets it: \<open>host i\<close> is what the
  \<open>i\<close>-th operation finds, with the state of the abort signal before and after it, its two clock readings
  and the message of the error it throws, if it throws. The state counts the operations and keeps their
  effects in order.
\<close>

section \<open>Parsing an operation\<close>

fun parseKind :: "json \<Rightarrow> operation_kind option" where
  "parseKind (JStr s) =
     (if s = ''READ_FILE'' then Some READ_FILE else if s = ''LIST_DIR'' then Some LIST_DIR
      else if s = ''PROPOSE_PATCH'' then Some PROPOSE_PATCH else if s = ''RUN_COMMAND'' then Some RUN_COMMAND else None)"
| "parseKind _ = None"

text \<open>Optional fields: the outer option is the outcome of the parse.\<close>

fun parseOptText :: "json \<Rightarrow> string option option" where
  "parseOptText JUndef = Some None"
| "parseOptText (JStr s) = (if s = [] then None else Some (Some s))"
| "parseOptText _ = None"

fun parseOptContent :: "json \<Rightarrow> string option option" where
  "parseOptContent JUndef = Some None"
| "parseOptContent (JStr s) = Some (Some s)"
| "parseOptContent _ = None"

fun parseOptPatch :: "json \<Rightarrow> patch_operation option option" where
  "parseOptPatch JUndef = Some None"
| "parseOptPatch (JStr s) =
     (if s = ''add'' then Some (Some PatchAdd) else if s = ''update'' then Some (Some PatchUpdate)
      else if s = ''delete'' then Some (Some PatchDelete) else None)"
| "parseOptPatch _ = None"

fun parseText :: "json \<Rightarrow> string option" where
  "parseText (JStr s) = Some s"
| "parseText _ = None"

fun all_some :: "'a option list \<Rightarrow> 'a list option" where
  "all_some [] = Some []"
| "all_some (None # xs) = None"
| "all_some (Some x # xs) = map_option (\<lambda>ys. x # ys) (all_some xs)"

fun parseArgs :: "json \<Rightarrow> string list option" where
  "parseArgs JUndef = Some []"
| "parseArgs (JArr xs) = all_some (map parseText xs)"
| "parseArgs _ = None"

fun parseOptTimeout :: "json \<Rightarrow> int option option" where
  "parseOptTimeout JUndef = Some None"
| "parseOptTimeout (JNum (Fin q)) =
     (if of_int \<lfloor>q\<rfloor> = q \<and> 1 \<le> q \<and> q \<le> 3600000 then Some (Some \<lfloor>q\<rfloor>) else None)"
| "parseOptTimeout _ = None"

fun parseOptRecord :: "json \<Rightarrow> json_record option" where
  "parseOptRecord JUndef = Some []"
| "parseOptRecord (JObj r) = Some r"
| "parseOptRecord _ = None"

definition parseOperation :: "json_record \<Rightarrow> sandbox_operation option" where
  "parseOperation r =
     (case (parseKind (jfield r ''kind''), parseOptText (jfield r ''path''), parseOptPatch (jfield r ''operation''),
            parseOptContent (jfield r ''content''), parseOptText (jfield r ''command''), parseArgs (jfield r ''args''),
            parseOptTimeout (jfield r ''timeoutMs''), parseOptText (jfield r ''approvalId''), parseOptRecord (jfield r ''metadata'')) of
        (Some kind, Some path, Some operation, Some content, Some command, Some args, Some timeoutMs, Some approvalId, Some metadata) \<Rightarrow>
          Some \<lparr>op_kind = kind, op_path = path, op_operation = operation, op_content = content, op_command = command,
                op_args = args, op_timeoutMs = timeoutMs, op_approvalId = approvalId, op_metadata = metadata\<rparr>
      | _ \<Rightarrow> None)"

definition operationJson :: "sandbox_operation \<Rightarrow> json_record" where
  "operationJson o1 =
     [(''kind'', JStr (kindName (op_kind o1))), (''path'', optText (op_path o1)),
      (''operation'', optText (map_option patchName (op_operation o1))), (''content'', optText (op_content o1)),
      (''command'', optText (op_command o1)), (''args'', jstrs (op_args o1)),
      (''timeoutMs'', case op_timeoutMs o1 of None \<Rightarrow> JUndef | Some t \<Rightarrow> jint t),
      (''approvalId'', optText (op_approvalId o1)), (''metadata'', JObj (op_metadata o1))]"

section \<open>The handlers\<close>

record host_step =
  hs_sandbox :: sandbox
  hs_abortedBefore :: bool
  hs_abortedAfter :: bool
  hs_startedAt :: int
  hs_completedAt :: int
  hs_errorText :: string

record host_state =
  ho_count :: nat
  ho_effects :: "sandbox_effect list"

definition operationFromArgs :: "json_record \<Rightarrow> operation_kind \<Rightarrow> sandbox_operation option" where
  "operationFromArgs args fallbackKind =
     (case jfield args ''operation'' of
        JObj nested \<Rightarrow> parseOperation nested
      | _ \<Rightarrow> parseOperation
          [(''kind'', coalesce (jfield args ''kind'') (JStr (kindName fallbackKind))), (''path'', jfield args ''path''),
           (''operation'', coalesce (jfield args ''patchOperation'') (jfield args ''operationKind'')),
           (''content'', jfield args ''content''), (''command'', jfield args ''command''),
           (''args'', case jfield args ''args'' of JArr xs \<Rightarrow> JArr xs | _ \<Rightarrow> JArr []),
           (''timeoutMs'', jfield args ''timeoutMs''), (''approvalId'', jfield args ''approvalId''),
           (''metadata'', coalesce (jfield args ''metadata'') (JObj []))])"

definition steerFields :: "tool_context \<Rightarrow> json_record" where
  "steerFields ctx = (case cx_steerHint ctx of Some (c # cs) \<Rightarrow> [(''steerGuidance'', JStr (c # cs))] | _ \<Rightarrow> [])"

definition runSandboxOperation ::
  "tool_env \<Rightarrow> (nat \<Rightarrow> host_step) \<Rightarrow> string \<Rightarrow> operation_kind \<Rightarrow> host_state tool_handler" where
  "runSandboxOperation N host toolName fallbackKind args ctx w =
     (case operationFromArgs args fallbackKind of
        None \<Rightarrow> (Inl (en_zod N), w)
      | Some operation \<Rightarrow>
          (let h = host (ho_count w)
           in case operate (hs_sandbox h) (hs_abortedBefore h) (hs_abortedAfter h) operation of
                (fx, out) \<Rightarrow>
                  (let w1 = \<lparr>ho_count = Suc (ho_count w), ho_effects = ho_effects w @ fx\<rparr>
                   in case out of
                        Inl _ \<Rightarrow> (Inl (hs_errorText h), w1)
                      | Inr r \<Rightarrow>
                          (toolSuccess N toolName
                             \<lparr>tu_sandbox = Some \<lparr>tm_result = r, tm_startedAt = hs_startedAt h, tm_completedAt = hs_completedAt h\<rparr>,
                              tu_fields = steerFields ctx\<rparr>
                             ([(''sandboxStatus'', JStr (statusName (or_status r))),
                               (''denialReason'', optText (map_option denialName (or_denialReason r))),
                               (''approvalGateId'', case or_approvalGates r of [] \<Rightarrow> JUndef | g # _ \<Rightarrow> JStr (gt_id g))]
                              @ steerFields ctx), w1))))"

definition writeOperationFromArgs :: "json_record \<Rightarrow> json_record" where
  "writeOperationFromArgs args =
     [(''operation'', JObj [(''kind'', JStr ''PROPOSE_PATCH''), (''path'', jfield args ''path''), (''operation'', JStr ''update''),
        (''content'', jfield args ''content''), (''approvalId'', jfield args ''approvalId''),
        (''metadata'', coalesce (jfield args ''metadata'') (JObj []))])]"

fun jsTruthy :: "json \<Rightarrow> bool" where
  "jsTruthy JUndef = False"
| "jsTruthy JNull = False"
| "jsTruthy (JBool b) = b"
| "jsTruthy (JNum v) = (v \<noteq> NaN \<and> v \<noteq> Fin 0)"
| "jsTruthy (JStr s) = (s \<noteq> [])"
| "jsTruthy _ = True"

definition hasOperationLikeInput :: "json_record \<Rightarrow> bool" where
  "hasOperationLikeInput args =
     jsTruthy (coalesce (jfield args ''operation'') (coalesce (jfield args ''command'') (jfield args ''kind'')))"

definition validateHandler :: "tool_env \<Rightarrow> (nat \<Rightarrow> host_step) \<Rightarrow> host_state tool_handler" where
  "validateHandler N host args ctx w =
     (if hasOperationLikeInput args then runSandboxOperation N host ''workspace.validate'' RUN_COMMAND args ctx w
      else (toolSuccess N ''workspace.validate''
              \<lparr>tu_sandbox = None, tu_fields = [(''validation'', JObj [(''passed'', JBool True), (''nodeId'', JStr (cx_nodeId ctx))])]\<rparr> [], w))"

definition SANDBOX_OPERATION_INPUT_SCHEMA :: json_record where
  "SANDBOX_OPERATION_INPUT_SCHEMA =
     [(''type'', JStr ''object''), (''properties'', JObj [(''operation'', JObj [(''type'', JStr ''object'')])]),
      (''additionalProperties'', JBool True)]"

definition builtinEntry :: "string \<Rightarrow> string \<Rightarrow> json_record \<Rightarrow> tool_risk \<Rightarrow> bool \<Rightarrow> bool \<Rightarrow> host_state tool_handler \<Rightarrow> host_state tool_entry" where
  "builtinEntry name description schema risk approval needsSandbox handler =
     \<lparr>rg_definition = \<lparr>td_name = name, td_description = description, td_inputSchema = schema, td_risk = risk,
        td_requiresApproval = approval, td_requiresSandbox = needsSandbox\<rparr>,
      rg_handler = handler, rg_checkFn = None, rg_module = False, rg_moduleId = None\<rparr>"

definition builtinToolEntries :: "tool_env \<Rightarrow> (nat \<Rightarrow> host_step) \<Rightarrow> host_state tool_entry list" where
  "builtinToolEntries N host =
     [builtinEntry ''sandbox.execute'' ''Execute an allowlisted sandbox command through the selected sandbox environment.''
        SANDBOX_OPERATION_INPUT_SCHEMA ToolHigh False True (runSandboxOperation N host ''sandbox.execute'' RUN_COMMAND),
      builtinEntry ''workspace.read_file'' ''Read a contained workspace file through the sandbox filesystem boundary.''
        SANDBOX_OPERATION_INPUT_SCHEMA ToolLow False True (runSandboxOperation N host ''workspace.read_file'' READ_FILE),
      builtinEntry ''workspace.list_dir'' ''List a contained workspace directory through the sandbox filesystem boundary.''
        SANDBOX_OPERATION_INPUT_SCHEMA ToolLow False True (runSandboxOperation N host ''workspace.list_dir'' LIST_DIR),
      builtinEntry ''workspace.write_file'' ''Write a contained workspace file after explicit file-write approval.''
        [(''type'', JStr ''object''), (''required'', jstrs [''path'', ''content'']),
         (''properties'', JObj [(''path'', JObj [(''type'', JStr ''string'')]), (''content'', JObj [(''type'', JStr ''string'')])])]
        ToolDestructive True True
        (\<lambda>args. runSandboxOperation N host ''workspace.write_file'' PROPOSE_PATCH (writeOperationFromArgs args)),
      builtinEntry ''workspace.apply_patch'' ''Apply or propose a contained workspace patch through the sandbox approval boundary.''
        SANDBOX_OPERATION_INPUT_SCHEMA ToolHigh True True (runSandboxOperation N host ''workspace.apply_patch'' PROPOSE_PATCH),
      builtinEntry ''workspace.validate'' ''Run a validation command or report validation metadata for a DAG validation node.''
        SANDBOX_OPERATION_INPUT_SCHEMA ToolLow False False (validateHandler N host),
      builtinEntry ''simulator.echo'' ''Deterministic simulator-only echo tool used by CI and executor simulation.''
        [(''type'', JStr ''object''), (''additionalProperties'', JBool True)] ToolLow False False
        (\<lambda>args ctx w. (toolSuccess N ''simulator.echo'' \<lparr>tu_sandbox = None, tu_fields = [(''echo'', redactSecrets (JObj args))]\<rparr> [], w))]"

fun loadBuiltinTools :: "host_state tool_entry list \<Rightarrow> host_state tool_registry \<Rightarrow> (registry_error, host_state tool_registry) result" where
  "loadBuiltinTools [] registry = Inr registry"
| "loadBuiltinTools (e # es) registry = bind_result (register e registry) (loadBuiltinTools es)"

definition createDefaultToolRegistry :: "tool_env \<Rightarrow> (nat \<Rightarrow> host_step) \<Rightarrow> (registry_error, host_state tool_registry) result" where
  "createDefaultToolRegistry N host = loadBuiltinTools (builtinToolEntries N host) []"

end
