(* ===== verification/Sandbox_Adapters.thy ===== *)
theory Sandbox_Adapters
  imports Sandbox_Operations
begin

text \<open>
  The other adapters of \<open>src/sandbox/index.ts\<close>: the safe local adapter, the stubs without network, the
  command entry of the workspace adapter, and the environments that choose between them.
\<close>

datatype command_kind = CmdFake | CmdLocal | CmdShell

record sandbox_command =
  sc_kind :: command_kind
  sc_command :: string
  sc_args :: "string list"
  sc_cwd :: "string option"
  sc_env :: "(string \<times> json) list"
  sc_timeoutMs :: int
  sc_metadata :: json_record

definition SandboxCommandSchema :: "sandbox_command \<Rightarrow> bool" where
  "SandboxCommandSchema c = (sc_command c \<noteq> [] \<and> optNonEmpty (sc_cwd c) \<and> 1 \<le> sc_timeoutMs c \<and> sc_timeoutMs c \<le> 3600000)"

record execution_result =
  xr_adapter :: string
  xr_status :: execution_status
  xr_exitCode :: int
  xr_stdout :: string
  xr_stderr :: string
  xr_artifacts :: "json list"
  xr_approvalGates :: "sandbox_gate list"
  xr_metadata :: json_record

type_synonym execution_outcome = "sandbox_effect list \<times> (sandbox_error, execution_result) result"

definition plain_execution :: "string \<Rightarrow> execution_status \<Rightarrow> int \<Rightarrow> string \<Rightarrow> string \<Rightarrow> json_record \<Rightarrow> execution_result" where
  "plain_execution adapter status exitCode out err metadata =
     \<lparr>xr_adapter = adapter, xr_status = status, xr_exitCode = exitCode, xr_stdout = out, xr_stderr = err,
      xr_artifacts = [], xr_approvalGates = [], xr_metadata = metadata\<rparr>"

section \<open>The safe local adapter\<close>

definition SAFE_LOCAL_COMMANDS :: "string list" where
  "SAFE_LOCAL_COMMANDS = [''fake:echo'', ''fake:test-pass'', ''local:propose-patch'']"

definition safeLocalDenied :: "sandbox_command \<Rightarrow> string \<Rightarrow> string \<Rightarrow> execution_result" where
  "safeLocalDenied c reason message =
     plain_execution ''safe-local'' SB_DENIED 126 [] (''denied: '' @ message)
       [(''command'', JStr (sc_command c)), (''deniedReason'', JStr reason)]"

fun parsePatchOperation :: "json \<Rightarrow> patch_operation" where
  "parsePatchOperation (JStr s) = (if s = ''add'' then PatchAdd else if s = ''delete'' then PatchDelete else PatchUpdate)"
| "parsePatchOperation _ = PatchUpdate"

definition approverOf :: "json_record option \<Rightarrow> string option" where
  "approverOf r = (case optField r ''approvedBy'' of JStr s \<Rightarrow> if s \<noteq> [] then Some s else None | _ \<Rightarrow> None)"

definition safeLocalPatch :: "string \<Rightarrow> sandbox_command \<Rightarrow> execution_result" where
  "safeLocalPatch now c =
     (case sc_args c of
        [] \<Rightarrow> safeLocalDenied c ''UNSAFE_PATH'' ''Patch proposals require a safe relative file path.''
      | targetPath # rest \<Rightarrow>
          let content = (case rest of x # _ \<Rightarrow> x | [] \<Rightarrow> []);
              operation = parsePatchOperation (jfield (sc_metadata c) ''operation'');
              approval = recordFrom (jfield (sc_metadata c) ''approval'');
              approved = (optField approval ''fileWriteApproved'' = JBool True);
              approvedBy = (case approverOf approval of Some s \<Rightarrow> [(''approvedBy'', JStr s)] | None \<Rightarrow> [])
          in if \<not> isSafeRelativePath targetPath
             then safeLocalDenied c ''UNSAFE_PATH'' ''Patch proposals require a safe relative file path.''
             else (plain_execution ''safe-local'' (if approved then SB_SUCCEEDED else SB_NEEDS_APPROVAL) 0
                     (if approved then ''approved patch proposal for '' @ targetPath else ''approval required for patch proposal '' @ targetPath) []
                     [(''command'', JStr (sc_command c)), (''fileWriteApproved'', JBool approved), (''applied'', JBool False)])
                   \<lparr>xr_artifacts := [JObj (patchArtifact now targetPath content operation
                        ([(''required'', JBool True), (''approved'', JBool approved)] @ approvedBy)
                        [(''applied'', JBool False), (''command'', JStr (sc_command c)), (''safeLocalOnly'', JBool True)])],
                    xr_approvalGates := [writeGate targetPath operation approved]\<rparr>)"

definition safeLocalExecute :: "string \<Rightarrow> sandbox_command \<Rightarrow> execution_outcome" where
  "safeLocalExecute now c =
     (let ok = (\<lambda>out metadata. plain_execution ''safe-local'' SB_SUCCEEDED 0 out [] ((''command'', JStr (sc_command c)) # metadata))
      in if \<not> SandboxCommandSchema c then ([], Inl SandboxZodError)
         else if sc_kind c = CmdShell
         then ([], Inr (safeLocalDenied c ''ARBITRARY_SHELL_DISABLED'' ''Arbitrary shell execution is denied by default.''))
         else if sc_command c \<notin> set SAFE_LOCAL_COMMANDS
         then ([], Inr (safeLocalDenied c ''COMMAND_NOT_ALLOWLISTED'' (''Command '' @ sc_command c @ '' is not in the safe local allowlist.'')))
         else if sc_command c = ''fake:echo'' then ([], Inr (ok (join_with '' '' (sc_args c)) []))
         else if sc_command c = ''fake:test-pass''
         then ([], Inr (ok ''fake tests passed'' [(''tests'', JObj [(''passed'', JNum (Fin 1)), (''failed'', JNum (Fin 0))])]))
         else ([], Inr (safeLocalPatch now c)))"

section \<open>Stubs\<close>

definition stubExecute :: "string \<Rightarrow> string \<Rightarrow> sandbox_command \<Rightarrow> execution_outcome" where
  "stubExecute stubId name c =
     (if \<not> SandboxCommandSchema c then ([], Inl SandboxZodError)
      else ([], Inr (plain_execution stubId SB_DENIED 126 [] (name @ '' is a no-network stub in local alpha mode.'')
             [(''provider'', JStr stubId), (''stub'', JBool True), (''command'', JStr (sc_command c)),
              (''deniedReason'', JStr ''SANDBOX_PROVIDER_STUB_NO_NETWORK'')])))"

section \<open>Commands through the workspace adapter\<close>

definition operationFor :: "sandbox_command \<Rightarrow> sandbox_operation" where
  "operationFor c =
     \<lparr>op_kind = RUN_COMMAND, op_path = None, op_operation = None, op_content = None, op_command = Some (sc_command c), op_args = sc_args c,
      op_timeoutMs = Some (sc_timeoutMs c), op_approvalId = None,
      op_metadata = (if sc_kind c = CmdShell then [(''kind'', JStr ''shell'')] else []) @ (if sc_env c \<noteq> [] then [(''env'', JObj (sc_env c))] else [])\<rparr>"

definition executionOf :: "operation_result \<Rightarrow> execution_result" where
  "executionOf r =
     \<lparr>xr_adapter = ''workspace'', xr_status = or_status r, xr_exitCode = (if or_status r = SB_SUCCEEDED then 0 else 126),
      xr_stdout = or_stdout r, xr_stderr = or_stderr r, xr_artifacts = or_artifacts r, xr_approvalGates = or_approvalGates r,
      xr_metadata = (case or_denialReason r of None \<Rightarrow> or_metadata r | Some d \<Rightarrow> js_set ''deniedReason'' (JStr (denialName d)) (or_metadata r))\<rparr>"

definition workspaceExecute :: "sandbox \<Rightarrow> sandbox_command \<Rightarrow> execution_outcome" where
  "workspaceExecute S c =
     (if \<not> SandboxCommandSchema c then ([], Inl SandboxZodError)
      else case operate S False False (operationFor c) of
             (fx, Inl e) \<Rightarrow> (fx, Inl e)
           | (fx, Inr r) \<Rightarrow> (fx, Inr (executionOf r)))"

section \<open>Environments\<close>

datatype sandbox_adapter = SafeLocalAdapter string | StubAdapter string string | WorkspaceAdapter sandbox

datatype sandbox_environment = StubEnvironment | LocalEnvironment sandbox | AdapterEnvironment sandbox_adapter

datatype environment_kind = EnvStub | EnvLocal | EnvE2b

definition createSandboxEnvironment :: "environment_kind \<Rightarrow> sandbox \<Rightarrow> sandbox_adapter option \<Rightarrow> sandbox_environment" where
  "createSandboxEnvironment kind S adapter =
     (if kind = EnvStub then StubEnvironment
      else case (kind, adapter) of (EnvE2b, Some a) \<Rightarrow> AdapterEnvironment a | _ \<Rightarrow> LocalEnvironment S)"

fun adapterExecute :: "sandbox_adapter \<Rightarrow> sandbox_command \<Rightarrow> execution_outcome" where
  "adapterExecute (SafeLocalAdapter now) c = safeLocalExecute now c"
| "adapterExecute (StubAdapter stubId name) c = stubExecute stubId name c"
| "adapterExecute (WorkspaceAdapter S) c = workspaceExecute S c"

fun environmentExecute :: "sandbox_environment \<Rightarrow> sandbox_command \<Rightarrow> execution_outcome" where
  "environmentExecute StubEnvironment c = stubExecute ''e2b'' ''E2B Sandbox Stub'' c"
| "environmentExecute (LocalEnvironment S) c = workspaceExecute S c"
| "environmentExecute (AdapterEnvironment a) c = adapterExecute a c"

definition unsupported :: "operation_kind \<Rightarrow> string \<Rightarrow> json_record \<Rightarrow> operation_result" where
  "unsupported kind message metadata =
     (plain_result kind SB_DENIED)\<lparr>or_denialReason := Some POLICY_VIOLATION, or_stderr := message, or_metadata := metadata\<rparr>"

definition commandFor :: "sandbox_operation \<Rightarrow> sandbox_command" where
  "commandFor o1 =
     \<lparr>sc_kind = (if jfield (op_metadata o1) ''kind'' = JStr ''shell'' then CmdShell else CmdLocal), sc_command = commandOf o1,
      sc_args = op_args o1, sc_cwd = None, sc_env = [],
      sc_timeoutMs = (case op_timeoutMs o1 of Some t \<Rightarrow> t | None \<Rightarrow> WORKSPACE_COMMAND_TIMEOUT_MS), sc_metadata = []\<rparr>"

definition resultOf :: "execution_result \<Rightarrow> operation_result" where
  "resultOf r =
     (plain_result RUN_COMMAND (xr_status r))\<lparr>or_stdout := xr_stdout r, or_stderr := xr_stderr r, or_artifacts := xr_artifacts r,
        or_approvalGates := xr_approvalGates r, or_metadata := xr_metadata r\<rparr>"

text \<open>An adapter other than the workspace one has no \<open>operate\<close>; the environments drop the context with its abort signal.\<close>

fun environmentOperate :: "sandbox_environment \<Rightarrow> sandbox_operation \<Rightarrow> sandbox_outcome" where
  "environmentOperate StubEnvironment o1 =
     (if \<not> SandboxOperationSchema o1 then ([], Inl SandboxZodError)
      else ([], Inr (unsupported (op_kind o1) ''Stub sandbox environment does not execute workspace operations.''
             [(''sandboxEnvironment'', JStr ''stub''), (''stub'', JBool True)])))"
| "environmentOperate (LocalEnvironment S) o1 = operate S False False o1"
| "environmentOperate (AdapterEnvironment (WorkspaceAdapter S)) o1 = operate S False False o1"
| "environmentOperate (AdapterEnvironment a) o1 =
     (if \<not> SandboxOperationSchema o1 then ([], Inl SandboxZodError)
      else if op_kind o1 \<noteq> RUN_COMMAND
      then ([], Inr (unsupported (op_kind o1) ''Selected sandbox adapter does not support workspace operations.'' [(''sandboxEnvironment'', JStr ''e2b'')]))
      else case adapterExecute a (commandFor o1) of
             (fx, Inl e) \<Rightarrow> (fx, Inl e)
           | (fx, Inr r) \<Rightarrow> (fx, Inr (resultOf r)))"

end
