(* ===== verification/Sandbox_Executor.thy ===== *)
theory Sandbox_Executor
  imports Builtin_Tools Healing_Loop Run_Control Sandbox_Adapters
begin

text \<open>
  The executor that drives a compiled graph through the tools and the sandbox,
  \<open>src/orchestration/sandboxExecutor.ts\<close>. The loop is that of the deterministic executor; a node is a
  tool call. The clock returns a fresh reading at each call: the \<open>i\<close>-th one is \<open>sx_now i\<close>. Between two
  nodes other requests may change the run control (\<open>sx_interfere\<close>), and the abort signal has the value
  \<open>sx_signal i\<close> before node \<open>i\<close>. The dependency map, the topological order, the inspection of a
  validation target and the status of a graph are copies of the code of the deterministic executor, and
  so are the definitions used for them.
\<close>

section \<open>From nodes to operations\<close>

definition stringOrUndefined :: "json \<Rightarrow> string option" where
  "stringOrUndefined v = (case v of JStr s \<Rightarrow> if s \<noteq> [] then Some s else None | _ \<Rightarrow> None)"

definition numberOrUndefined :: "json \<Rightarrow> json" where
  "numberOrUndefined v = (case v of JNum (Fin q) \<Rightarrow> JNum (Fin q) | _ \<Rightarrow> JUndef)"

definition readOperationHint :: "dag_node \<Rightarrow> json_record" where
  "readOperationHint node =
     (let fromInput = over (orElse (recordFrom (optField (nd_input node) ''sandboxOperation'')) (nd_input node)) [];
          fromMetadata = over (recordFrom (optField (nd_metadata node) ''sandboxOperation'')) []
      in spread fromMetadata fromInput)"

fun defaultOperationKind :: "dag_node_type \<Rightarrow> operation_kind option" where
  "defaultOperationKind FILE_OPERATION = Some PROPOSE_PATCH"
| "defaultOperationKind VALIDATION = Some RUN_COMMAND"
| "defaultOperationKind SHELL_COMMAND = Some RUN_COMMAND"
| "defaultOperationKind _ = None"

definition firstSafePath :: "string list \<Rightarrow> string option" where
  "firstSafePath candidates = find isSafeRelativePath candidates"

definition patchHint :: "json \<Rightarrow> string" where
  "patchHint v = (if v = JStr ''add'' then ''add'' else if v = JStr ''delete'' then ''delete'' else ''update'')"

definition mapDagNodeToOperation :: "(jsnum \<Rightarrow> string) \<Rightarrow> dag_node \<Rightarrow> json_record option" where
  "mapDagNodeToOperation numStr node =
     (let hint = readOperationHint node;
          explicitKind = parseKind (coalesce (jfield hint ''operationKind'') (jfield hint ''kind''));
          approvalId = (''approvalId'', optText (stringOrUndefined (jfield hint ''approvalId'')));
          path = orElse (stringOrUndefined (jfield hint ''path'')) (firstSafePath (nd_expectedOutputs node))
      in case orElse explicitKind (defaultOperationKind (nd_type node)) of
           None \<Rightarrow> None
         | Some RUN_COMMAND \<Rightarrow>
             (case stringOrUndefined (jfield hint ''command'') of
                None \<Rightarrow> None
              | Some command \<Rightarrow>
                  (let args = (case jfield hint ''args'' of JArr xs \<Rightarrow> map (js_String numStr) xs | _ \<Rightarrow> []);
                       timeoutMs = (case nd_timeoutMs node of Some t \<Rightarrow> jint t | None \<Rightarrow> numberOrUndefined (jfield hint ''timeoutMs''));
                       shell = (jfield hint ''shell'' = JBool True \<or> jfield hint ''kind'' = JStr ''shell'' \<or> nd_type node = SHELL_COMMAND)
                   in Some [(''kind'', JStr ''RUN_COMMAND''), (''command'', JStr command), (''args'', jstrs args), (''timeoutMs'', timeoutMs),
                            approvalId, (''metadata'', JObj (if shell then [(''kind'', JStr ''shell'')] else []))]))
         | Some PROPOSE_PATCH \<Rightarrow>
             map_option (\<lambda>p. [(''kind'', JStr ''PROPOSE_PATCH''), (''path'', JStr p),
                (''operation'', JStr (patchHint (jfield hint ''operation''))),
                (''content'', JStr (over (stringOrUndefined (jfield hint ''content'')) [])), approvalId]) path
         | Some kind \<Rightarrow> map_option (\<lambda>p. [(''kind'', JStr (kindName kind)), (''path'', JStr p), approvalId]) path)"

definition mapSandboxOperationToToolName :: "json_record \<Rightarrow> string" where
  "mapSandboxOperationToToolName operation =
     (let kind = jfield operation ''kind''
      in if kind = JStr ''RUN_COMMAND'' then ''sandbox.execute''
         else if kind = JStr ''READ_FILE'' then ''workspace.read_file''
         else if kind = JStr ''LIST_DIR'' then ''workspace.list_dir''
         else ''workspace.apply_patch'')"

definition mapDagNodeToToolCall :: "(dag_node \<Rightarrow> json_record option) \<Rightarrow> dag_node \<Rightarrow> (string \<times> json_record) option" where
  "mapDagNodeToToolCall mapNode node =
     map_option (\<lambda>operation. (mapSandboxOperationToToolName operation, [(''operation'', JObj operation)])) (mapNode node)"

definition hasSandboxOperationFields :: "json_record option \<Rightarrow> bool" where
  "hasSandboxOperationFields value =
     (case value of
        None \<Rightarrow> False
      | Some r \<Rightarrow> recordFrom (jfield r ''sandboxOperation'') \<noteq> None \<or> parseKind (jfield r ''operationKind'') \<noteq> None
                 \<or> parseKind (jfield r ''kind'') \<noteq> None
                 \<or> list_ex (\<lambda>f. jfield r f \<noteq> JUndef) [''path'', ''command'', ''content'', ''operation''])"

definition hasExplicitSandboxOperationHint :: "dag_node \<Rightarrow> bool" where
  "hasExplicitSandboxOperationHint node = (hasSandboxOperationFields (nd_input node) \<or> hasSandboxOperationFields (nd_metadata node))"

definition operationMappingErrorFor :: "dag_node \<Rightarrow> execution_error option" where
  "operationMappingErrorFor node =
     (let hasHint = hasExplicitSandboxOperationHint node; defaultKind = defaultOperationKind (nd_type node)
      in if \<not> hasHint \<and> defaultKind = None then None
         else Some \<lparr>xe_code = ErrOperationMapping,
                    xe_message = ''Node '' @ nd_id node @ '' could not be mapped to an unambiguous sandbox operation'',
                    xe_nodeId = Some (nd_id node),
                    xe_details = Some [(''nodeType'', JStr (nodeTypeName (nd_type node))), (''hasSandboxHint'', JBool hasHint),
                      (''defaultOperationKind'', optText (map_option kindName defaultKind)),
                      (''expectedOutputs'', jstrs (nd_expectedOutputs node))]\<rparr>)"

section \<open>Artifacts and previews\<close>

definition EXECUTION_ARTIFACT_PREVIEW_MAX_LENGTH :: nat where
  "EXECUTION_ARTIFACT_PREVIEW_MAX_LENGTH = 512"

datatype artifact_source = FromOperation | FromStdout | FromStderr | FromPatch

record exec_artifact =
  ea_source :: artifact_source
  ea_nodeId :: string
  ea_operationId :: string
  ea_operationKind :: operation_kind
  ea_status :: execution_status
  ea_artifactId :: "string option"
  ea_preview :: string
  ea_truncated :: bool

definition normalizePreview :: "string \<Rightarrow> string \<times> bool" where
  "normalizePreview value1 =
     (let redacted = redactString value1
      in if length redacted \<le> EXECUTION_ARTIFACT_PREVIEW_MAX_LENGTH then (redacted, False)
         else (take EXECUTION_ARTIFACT_PREVIEW_MAX_LENGTH redacted, True))"

definition previewFrom :: "string \<Rightarrow> string" where
  "previewFrom value1 = fst (normalizePreview value1)"

definition operationIdFor :: "string \<Rightarrow> operation_kind \<Rightarrow> string" where
  "operationIdFor nodeId kind = nodeId @ '':'' @ kindName kind"

definition artifactText :: "operation_result \<Rightarrow> string \<Rightarrow> string option" where
  "artifactText r field = (case or_artifacts r of
     JObj a # _ \<Rightarrow> (case jfield a field of JStr s \<Rightarrow> Some s | _ \<Rightarrow> None) | _ \<Rightarrow> None)"

definition operationPreview :: "operation_result \<Rightarrow> string" where
  "operationPreview r =
     (if or_status r = SB_DENIED then ''denied: '' @ (case or_denialReason r of Some d \<Rightarrow> denialName d | None \<Rightarrow> ''DENIED'')
      else if or_status r = SB_NEEDS_APPROVAL
      then ''needs approval: '' @ (case or_denialReason r of Some d \<Rightarrow> denialName d | None \<Rightarrow> ''NEEDS_APPROVAL'')
      else case or_kind r of
             READ_FILE \<Rightarrow> over (or_fileContent r) []
           | LIST_DIR \<Rightarrow> joinWith LF (over (or_entries r) [])
           | PROPOSE_PATCH \<Rightarrow> over (artifactText r ''unifiedDiff'') []
           | RUN_COMMAND \<Rightarrow> if or_stderr r \<noteq> [] \<and> or_status r = SB_FAILED then or_stderr r else or_stdout r)"

definition artifactFor :: "artifact_source \<Rightarrow> string \<Rightarrow> operation_result \<Rightarrow> string option \<Rightarrow> string \<Rightarrow> exec_artifact" where
  "artifactFor source nodeId r artifactId content =
     \<lparr>ea_source = source, ea_nodeId = nodeId, ea_operationId = operationIdFor nodeId (or_kind r), ea_operationKind = or_kind r,
      ea_status = or_status r, ea_artifactId = artifactId, ea_preview = fst (normalizePreview content),
      ea_truncated = snd (normalizePreview content)\<rparr>"

definition recordArtifacts :: "string \<Rightarrow> operation_result \<Rightarrow> exec_artifact list" where
  "recordArtifacts nodeId r =
     artifactFor FromOperation nodeId r None (operationPreview r)
     # (if or_kind r = RUN_COMMAND
        then [artifactFor FromStdout nodeId r None (or_stdout r), artifactFor FromStderr nodeId r None (or_stderr r)] else [])
     @ (if or_kind r = PROPOSE_PATCH
        then [artifactFor FromPatch nodeId r (artifactText r ''id'') (over (artifactText r ''unifiedDiff'') (operationPreview r))] else [])"

section \<open>Results of nodes\<close>

fun executionErrorFromResult :: "string \<Rightarrow> operation_result \<Rightarrow> execution_error option" where
  "executionErrorFromResult nodeId r =
     (let reason = (''denialReason'', optText (map_option denialName (or_denialReason r)));
          error = (\<lambda>code msg details. Some \<lparr>xe_code = code, xe_message = ''Sandbox operation for node '' @ nodeId @ msg,
             xe_nodeId = Some nodeId, xe_details = Some details\<rparr>)
      in if or_denialReason r = Some COMMAND_ABORTED then error ErrAborted '' was aborted'' [reason, (''aborted'', JBool True)]
         else if or_denialReason r = Some COMMAND_TIMEOUT then error ErrTimeout '' timed out'' [reason]
         else if or_status r = SB_DENIED \<or> or_status r = SB_NEEDS_APPROVAL
         then error ErrPermission ('' was '' @ toLowerCase (statusName (or_status r))
                @ (case or_denialReason r of Some d \<Rightarrow> '' ('' @ denialName d @ '')'' | None \<Rightarrow> []))
                [reason, (''status'', JStr (statusName (or_status r)))]
         else None)"

definition nodeResult ::
  "dag_node \<Rightarrow> string list \<Rightarrow> node_status \<Rightarrow> int \<Rightarrow> int \<Rightarrow> json_record \<Rightarrow> execution_error option \<Rightarrow> node_result" where
  "nodeResult node dependencies status startedAt completedAt out error =
     \<lparr>nr_nodeId = nd_id node, nr_status = status, nr_attempts = 1, nr_startedAt = startedAt, nr_completedAt = completedAt,
      nr_durationMs = nat (max 0 (completedAt - startedAt)), nr_output = Some out, nr_error = error, nr_dependencies = dependencies\<rparr>"

definition operationOutput :: "dag_node \<Rightarrow> operation_result \<Rightarrow> string \<Rightarrow> tool_result \<Rightarrow> json_record" where
  "operationOutput node r toolName tool =
     (let (text, truncated) = normalizePreview (operationPreview r)
      in [(''sandbox'', JBool True), (''nodeType'', JStr (nodeTypeName (nd_type node))),
          (''operationId'', JStr (operationIdFor (nd_id node) (or_kind r))), (''operationKind'', JStr (kindName (or_kind r))),
          (''sandboxStatus'', JStr (statusName (or_status r))), (''toolName'', JStr toolName),
          (''middlewareHalt'', JBool (tr_middlewareHalt tool)),
          (''approvalGateId'', coalesce (optText (tr_approvalGateId tool)) (jfield (tr_metadata tool) ''approvalGateId'')),
          (''steerGuidance'', coalesce (jfield (tr_metadata tool) ''steerGuidance'') (jfield (tu_fields (tr_output tool)) ''steerGuidance'')),
          (''preview'', JStr text), (''previewTruncated'', JBool truncated), (''expectedOutputs'', jstrs (nd_expectedOutputs node)),
          (''artifacts'', JArr (map (\<lambda>a. optField (recordFrom a) ''id'') (or_artifacts r)))])"

definition nodeResultFromOperation :: "dag_node \<Rightarrow> string list \<Rightarrow> timed_result \<Rightarrow> string \<Rightarrow> tool_result \<Rightarrow> node_result" where
  "nodeResultFromOperation node dependencies t toolName tool =
     (let r = tm_result t; base = operationOutput node r toolName tool;
          make = (\<lambda>status out error. nodeResult node dependencies status (tm_startedAt t) (tm_completedAt t) out error)
      in if or_status r = SB_SUCCEEDED then make NodeSuccess base None
         else make NodeFailed (base @ [(''denialReason'', optText (map_option denialName (or_denialReason r)))])
                (executionErrorFromResult (nd_id node) r))"

fun toolErrorCode :: "tool_error_code \<Rightarrow> error_code" where
  "toolErrorCode ToolPermissionDenied = ErrPermission"
| "toolErrorCode ToolPolicyDenied = ErrPermission"
| "toolErrorCode ToolValidationFailed = ErrValidation"
| "toolErrorCode ToolNotFound = ErrOperationMapping"
| "toolErrorCode ToolUnavailable = ErrOperationMapping"
| "toolErrorCode _ = ErrSandboxOperation"

definition executionErrorFromToolResult :: "string \<Rightarrow> tool_result \<Rightarrow> execution_error option" where
  "executionErrorFromToolResult nodeId r =
     (if tr_ok r then None
      else Some \<lparr>xe_code = (case tr_error r of None \<Rightarrow> ErrSandboxOperation | Some e \<Rightarrow> toolErrorCode (te_code e)),
                 xe_message = (case tr_error r of None \<Rightarrow> ''Tool result for node '' @ nodeId @ '' failed'' | Some e \<Rightarrow> te_message e),
                 xe_nodeId = Some nodeId,
                 xe_details = Some (spread [(''toolErrorCode'', optText (map_option (toolErrorName \<circ> te_code) (tr_error r)))]
                    (case tr_error r of None \<Rightarrow> [] | Some e \<Rightarrow> over (te_details e) []))\<rparr>)"

definition nodeResultFromToolResult :: "dag_node \<Rightarrow> string list \<Rightarrow> string \<Rightarrow> tool_result \<Rightarrow> int \<Rightarrow> node_result" where
  "nodeResultFromToolResult node dependencies toolName r now =
     (let details = (case tr_error r of None \<Rightarrow> None | Some e \<Rightarrow> te_details e);
          message = over (stringOrUndefined (optField details ''message''))
                      (case tr_error r of Some e \<Rightarrow> te_message e | None \<Rightarrow> ''Tool completed without sandbox operation output'')
      in nodeResult node dependencies (if tr_ok r then NodeSuccess else NodeFailed) now now
           [(''sandbox'', JBool True), (''nodeType'', JStr (nodeTypeName (nd_type node))), (''toolName'', JStr toolName),
            (''toolResult'', JObj [(''ok'', JBool (tr_ok r)), (''halt'', JBool (tr_halt r)), (''middlewareHalt'', JBool (tr_middlewareHalt r)),
               (''approvalGateId'', optText (tr_approvalGateId r)), (''error'', toolErrorJson (tr_error r))]),
            (''preview'', JStr (previewFrom message))]
           (executionErrorFromToolResult (nd_id node) r))"

text \<open>The schema that the result read back from a tool has to pass.\<close>

definition nonEmptyText :: "json \<Rightarrow> bool" where
  "nonEmptyText v = (case v of JStr s \<Rightarrow> s \<noteq> [] | _ \<Rightarrow> False)"

definition PatchArtifactSchema :: "schema_env \<Rightarrow> json \<Rightarrow> bool" where
  "PatchArtifactSchema E v =
     (case v of
        JObj a \<Rightarrow> jfield a ''kind'' = JStr ''PATCH'' \<and> nonEmptyText (jfield a ''id'')
          \<and> (case jfield a ''path'' of JStr p \<Rightarrow> isSafeRelativePath p | _ \<Rightarrow> False)
          \<and> jfield a ''operation'' \<in> set [JStr ''add'', JStr ''update'', JStr ''delete''] \<and> nonEmptyText (jfield a ''unifiedDiff'')
          \<and> (case jfield a ''createdAt'' of JStr d \<Rightarrow> isDatetime E d | _ \<Rightarrow> False)
          \<and> (case jfield a ''approval'' of
               JObj p \<Rightarrow> jfield p ''required'' = JBool True \<and> jfield p ''approved'' \<in> set [JBool True, JBool False]
                         \<and> (jfield p ''approvedBy'' = JUndef \<or> nonEmptyText (jfield p ''approvedBy''))
             | _ \<Rightarrow> False)
          \<and> parseOptRecord (jfield a ''metadata'') \<noteq> None
      | _ \<Rightarrow> False)"

definition SandboxOperationResultSchema :: "schema_env \<Rightarrow> operation_result \<Rightarrow> bool" where
  "SandboxOperationResultSchema E r =
     (list_all (PatchArtifactSchema E) (or_artifacts r) \<and> list_all (\<lambda>g. gt_id g \<noteq> [] \<and> gt_reason g \<noteq> []) (or_approvalGates r))"

definition sandboxResultFromToolResult :: "schema_env \<Rightarrow> tool_result \<Rightarrow> timed_result option" where
  "sandboxResultFromToolResult E r =
     (case tu_sandbox (tr_output r) of
        None \<Rightarrow> None
      | Some t \<Rightarrow> if SandboxOperationResultSchema E (tm_result t) then Some t else None)"

section \<open>Validation nodes\<close>

definition validateUpstreamOutputsForNode ::
  "(jsnum \<Rightarrow> string) \<Rightarrow> dag_node \<Rightarrow> string list \<Rightarrow> results_map \<Rightarrow> execution_error option" where
  "validateUpstreamOutputsForNode numStr node targets results =
     (if targets = []
      then Some (validation_error node '' has no upstream node to inspect'' [(''targetNodeIds'', jstrs targets)])
      else first_error (inspectTarget numStr node (stringArrayFrom numStr (optField (nd_input node) ''expectedArtifacts'')) results) targets)"

definition validationOutput :: "dag_node \<Rightarrow> bool \<Rightarrow> string list \<Rightarrow> json_record" where
  "validationOutput node passed targets =
     [(''sandbox'', JBool False), (''noop'', JBool passed), (''nodeType'', JStr (nodeTypeName (nd_type node))),
      (''validation'', JObj [(''passed'', JBool passed), (''inspectedDependencies'', jstrs targets)])]"

definition validationNodeResultWithoutSandbox ::
  "(jsnum \<Rightarrow> string) \<Rightarrow> dag_node \<Rightarrow> string list \<Rightarrow> results_map \<Rightarrow> int \<Rightarrow> node_result option" where
  "validationNodeResultWithoutSandbox numStr node dependencies results now =
     (if nd_type node \<noteq> VALIDATION then None
      else let targets = validationTargetNodeIds numStr (nd_input node) dependencies
           in Some (case validateUpstreamOutputsForNode numStr node targets results of
                      Some error \<Rightarrow> nodeResult node dependencies NodeFailed now now (validationOutput node False targets) (Some error)
                    | None \<Rightarrow> nodeResult node dependencies NodeSuccess now now (validationOutput node True targets) None))"

section \<open>Executing one node\<close>

record sx_deps =
  sx_registry :: "host_state tool_registry"
  sx_ttl :: int
  sx_conversationId :: "string option"
  sx_toolEventPhase :: "run_phase option"
  sx_budget :: "budget option"
  sx_sink :: bool
  sx_mapNode :: "(dag_node \<Rightarrow> json_record option) option"
  sx_now :: "nat \<Rightarrow> int"
  sx_nowMs :: "nat \<Rightarrow> int"
  sx_signal :: "nat \<Rightarrow> bool"
  sx_interfere :: "nat \<Rightarrow> control_state \<Rightarrow> control_state"

record sx_state =
  xs_core :: exec_state
  xs_reads :: nat
  xs_artifacts :: "exec_artifact list"
  xs_world :: "host_state tool_world"
  xs_control :: "control_state option"

definition readClock :: "sx_deps \<Rightarrow> sx_state \<Rightarrow> int \<times> sx_state" where
  "readClock D st = (sx_now D (xs_reads st), st\<lparr>xs_reads := Suc (xs_reads st)\<rparr>)"

definition appendEventAt :: "sx_deps \<Rightarrow> event_body \<Rightarrow> sx_state \<Rightarrow> sx_state" where
  "appendEventAt D b st =
     (case readClock D st of (now, st1) \<Rightarrow> st1\<lparr>xs_core := appendExecEvent b ((xs_core st1)\<lparr>st_cursorMs := now\<rparr>)\<rparr>)"

definition addResult :: "node_result \<Rightarrow> sx_state \<Rightarrow> sx_state" where
  "addResult r st = st\<lparr>xs_core := recordResult r (xs_core st)\<rparr>"

definition nodeMapping :: "tool_env \<Rightarrow> sx_deps \<Rightarrow> dag_node \<Rightarrow> json_record option" where
  "nodeMapping N D = over (sx_mapNode D) (mapDagNodeToOperation (en_numStr N))"

definition noopNodeResult :: "tool_env \<Rightarrow> sx_deps \<Rightarrow> dag_node \<Rightarrow> string list \<Rightarrow> results_map \<Rightarrow> int \<Rightarrow> node_result" where
  "noopNodeResult N D node dependencies results now =
     (let success = nodeResult node dependencies NodeSuccess now now
            [(''sandbox'', JBool False), (''noop'', JBool True), (''nodeType'', JStr (nodeTypeName (nd_type node))),
             (''expectedOutputs'', jstrs (nd_expectedOutputs node))] None
      in case (if hasExplicitSandboxOperationHint node then None
               else validationNodeResultWithoutSandbox (en_numStr N) node dependencies results now) of
           Some r \<Rightarrow> r
         | None \<Rightarrow>
             (case (if sx_mapNode D = None then operationMappingErrorFor node else None) of
                Some error \<Rightarrow> nodeResult node dependencies NodeFailed now now
                  [(''sandbox'', JBool False), (''noop'', JBool False), (''nodeType'', JStr (nodeTypeName (nd_type node))),
                   (''preview'', JStr (previewFrom (xe_message error)))] (Some error)
              | None \<Rightarrow> success))"

definition thrownNodeResult :: "dag_node \<Rightarrow> string list \<Rightarrow> string \<Rightarrow> int \<Rightarrow> node_result" where
  "thrownNodeResult node dependencies message now =
     (let shown = previewFrom (redactString message)
      in nodeResult node dependencies NodeFailed now now
           [(''sandbox'', JBool True), (''nodeType'', JStr (nodeTypeName (nd_type node))), (''preview'', JStr shown)]
           (Some \<lparr>xe_code = ErrSandboxOperation,
                  xe_message = ''Sandbox operation for node '' @ nd_id node @ '' failed unexpectedly'',
                  xe_nodeId = Some (nd_id node), xe_details = Some [(''message'', JStr shown)]\<rparr>))"

definition nodeContext :: "sx_deps \<Rightarrow> string \<Rightarrow> nat \<Rightarrow> dag_node \<Rightarrow> string option \<Rightarrow> tool_context" where
  "nodeContext D runId i node steerHint =
     \<lparr>cx_runId = runId, cx_nodeId = nd_id node, cx_conversationId = over (sx_conversationId D) ''unknown-conversation'',
      cx_phase = Some (over (sx_toolEventPhase D) EXECUTING), cx_approvals = None, cx_budget = sx_budget D, cx_steerHint = steerHint,
      cx_moduleEnabled = None, cx_toolPermissions = nd_toolPermissions node,
      cx_toolPolicy = recordFrom (optField (nd_metadata node) ''toolPolicy''), cx_sink = sx_sink D, cx_nowMs = sx_nowMs D i\<rparr>"

definition executeNodeThroughSandbox ::
  "schema_env \<Rightarrow> tool_env \<Rightarrow> sx_deps \<Rightarrow> string \<Rightarrow> nat \<Rightarrow> dag_node \<Rightarrow> string list \<Rightarrow> sx_state \<Rightarrow> node_result \<times> sx_state" where
  "executeNodeThroughSandbox E N D runId i node dependencies st =
     (case mapDagNodeToToolCall (nodeMapping N D) node of
        None \<Rightarrow> (case readClock D st of
                   (now, st1) \<Rightarrow> (noopNodeResult N D node dependencies (st_resultsByNode (xs_core st)) now, st1))
      | Some (toolName, args) \<Rightarrow>
          (let (steerHint, control) = (case xs_control st of None \<Rightarrow> (None, None)
                 | Some c \<Rightarrow> (case drainSteer (sx_nowMs D i) c of (h, c1) \<Rightarrow> (h, Some c1)))
           in case runToolWithMiddleware N (sx_ttl D) (sx_registry D) DEFAULT_TOOL_MIDDLEWARE toolName args
                     (nodeContext D runId i node steerHint) (xs_world st) of
                (outcome, w) \<Rightarrow>
                  (let st1 = st\<lparr>xs_control := control, xs_world := w\<rparr>
                   in case outcome of
                        Inl message \<Rightarrow> (case readClock D st1 of (now, st2) \<Rightarrow> (thrownNodeResult node dependencies message now, st2))
                      | Inr tool \<Rightarrow>
                          (case sandboxResultFromToolResult E tool of
                             None \<Rightarrow> (case readClock D st1 of (now, st2) \<Rightarrow> (nodeResultFromToolResult node dependencies toolName tool now, st2))
                           | Some t \<Rightarrow> (nodeResultFromOperation node dependencies t toolName tool,
                                       st1\<lparr>xs_artifacts := xs_artifacts st1 @ recordArtifacts (nd_id node) (tm_result t)\<rparr>)))))"

section \<open>The graph\<close>

definition callEvent :: "tool_env \<Rightarrow> sx_deps \<Rightarrow> dag_node \<Rightarrow> exec_event_type \<Rightarrow> bool \<Rightarrow> string option \<Rightarrow> node_status option
     \<Rightarrow> execution_error option \<Rightarrow> event_body" where
  "callEvent N D node type halt gate status error =
     \<lparr>xb_type = type, xb_nodeId = Some (nd_id node), xb_toolName = map_option fst (mapDagNodeToToolCall (nodeMapping N D) node),
      xb_middlewareHalt = Some halt, xb_approvalGateId = gate, xb_status = map_option OfNode status, xb_attempt = None, xb_error = error\<rparr>"

definition resultEvent :: "tool_env \<Rightarrow> sx_deps \<Rightarrow> dag_node \<Rightarrow> node_result \<Rightarrow> event_body" where
  "resultEvent N D node r =
     (let gate = stringOrUndefined (optField (nr_output r) ''approvalGateId'')
      in if nr_status r = NodeFailed
         then callEvent N D node NodeFailedEvent (optField (nr_output r) ''middlewareHalt'' = JBool True) gate (Some NodeFailed) (nr_error r)
         else callEvent N D node NodeCompleted False gate (Some (nr_status r)) None)"

definition blockedError :: "dag_node \<Rightarrow> string list \<Rightarrow> execution_error" where
  "blockedError node blocked =
     \<lparr>xe_code = ErrDependency,
      xe_message = ''Node '' @ nd_id node @ '' skipped because dependencies did not complete: '' @ joinWith '', '' blocked,
      xe_nodeId = Some (nd_id node), xe_details = Some [(''blockedBy'', jstrs blocked)]\<rparr>"

definition sandboxNode ::
  "schema_env \<Rightarrow> tool_env \<Rightarrow> sx_deps \<Rightarrow> string \<Rightarrow> deps_map \<Rightarrow> nat \<Rightarrow> dag_node \<Rightarrow> sx_state \<Rightarrow> sx_state" where
  "sandboxNode E N D runId deps i node st =
     (let dependencies = sortedDeps deps node; blocked = blockedBy dependencies (st_resultsByNode (xs_core st))
      in if blocked \<noteq> []
         then (case readClock D st of (now, st1) \<Rightarrow>
                 let error = blockedError node blocked
                 in appendEventAt D (skip_event node error) (addResult (skippedResult node dependencies now error) st1))
         else (case executeNodeThroughSandbox E N D runId i node dependencies
                      (appendEventAt D (callEvent N D node NodeStarted False None None None) st) of
                 (r, st1) \<Rightarrow> appendEventAt D (resultEvent N D node r) (addResult r st1)))"

definition abortedOutput :: "dag_node \<Rightarrow> json_record" where
  "abortedOutput node =
     [(''sandbox'', JBool False), (''aborted'', JBool True), (''nodeType'', JStr (nodeTypeName (nd_type node))),
      (''preview'', JStr (previewFrom (xe_message (abortExecutionError (nd_id node)))))]"

definition abortSandboxNode :: "sx_deps \<Rightarrow> deps_map \<Rightarrow> dag_node \<Rightarrow> sx_state \<Rightarrow> sx_state" where
  "abortSandboxNode D deps node st =
     (case readClock D st of (now, st1) \<Rightarrow>
        let error = abortExecutionError (nd_id node)
        in appendEventAt D (skip_event node error)
             (addResult ((skippedResult node (sortedDeps deps node) now error)\<lparr>nr_output := Some (abortedOutput node)\<rparr>) st1))"

definition interruptSeen :: "sx_deps \<Rightarrow> nat \<Rightarrow> sx_state \<Rightarrow> bool" where
  "interruptSeen D i st = (sx_signal D i \<or> (case xs_control st of None \<Rightarrow> False | Some c \<Rightarrow> cs_interruptRequested c))"

definition interfere :: "sx_deps \<Rightarrow> nat \<Rightarrow> sx_state \<Rightarrow> sx_state" where
  "interfere D i st = st\<lparr>xs_control := map_option (sx_interfere D i) (xs_control st)\<rparr>"

fun sandboxNodes ::
  "schema_env \<Rightarrow> tool_env \<Rightarrow> sx_deps \<Rightarrow> string \<Rightarrow> deps_map \<Rightarrow> nat \<Rightarrow> dag_node list \<Rightarrow> sx_state \<Rightarrow> sx_state \<times> string option" where
  "sandboxNodes E N D runId deps i [] st = (st, None)"
| "sandboxNodes E N D runId deps i (node # rest) st =
     (let st0 = interfere D i st
      in if interruptSeen D i st0 then (fold (abortSandboxNode D deps) (node # rest) st0, Some (nd_id node))
         else sandboxNodes E N D runId deps (Suc i) rest (sandboxNode E N D runId deps i node st0))"

definition buildSandboxResult ::
  "dag \<Rightarrow> dag_status \<Rightarrow> int \<Rightarrow> int \<Rightarrow> execution_error option \<Rightarrow> sx_state \<Rightarrow> (executor_error, dag_result) result" where
  "buildSandboxResult g status startedAt completedAt error st =
     (let r = \<lparr>dr_dagId = dag_id g, dr_runId = dag_runId g, dr_status = status, dr_startedAt = startedAt, dr_completedAt = completedAt,
               dr_durationMs = max 0 (completedAt - startedAt), dr_nodeResults = st_nodeResults (xs_core st),
               dr_events = st_events (xs_core st), dr_error = error\<rparr>
      in if DagExecutionResultSchema r then Inr r else Inl InvalidResult)"

definition completeSandboxDag ::
  "sx_deps \<Rightarrow> dag \<Rightarrow> dag_status \<Rightarrow> int \<Rightarrow> execution_error option \<Rightarrow> sx_state \<Rightarrow> (executor_error, dag_result) result \<times> sx_state" where
  "completeSandboxDag D g status startedAt error st =
     (case readClock D (appendEventAt D (dag_event DagCompleted (Some status) error) st) of
        (completedAt, st1) \<Rightarrow> (buildSandboxResult g status startedAt completedAt error st1, st1))"

definition sandboxStart :: "sx_deps \<Rightarrow> host_state tool_world \<Rightarrow> control_state option \<Rightarrow> sx_state" where
  "sandboxStart D w control =
     appendEventAt D (dag_event DagStarted None None)
       \<lparr>xs_core = \<lparr>st_events = [], st_sequence = 1, st_cursorMs = sx_now D 0, st_nodeResults = [], st_resultsByNode = []\<rparr>,
        xs_reads = 1, xs_artifacts = [], xs_world = w, xs_control = control\<rparr>"

definition executeDagThroughSandbox ::
  "schema_env \<Rightarrow> (dag \<Rightarrow> string list) \<Rightarrow> tool_env \<Rightarrow> sx_deps \<Rightarrow> dag \<Rightarrow> host_state tool_world \<Rightarrow> control_state option
     \<Rightarrow> (executor_error, dag_result) result \<times> sx_state" where
  "executeDagThroughSandbox E issues N D g w control =
     (let startedAt = sx_now D 0; st = sandboxStart D w control;
          invalid = (\<lambda>msgs. completeSandboxDag D g DagFailed startedAt (Some (invalidGraphError msgs)) st)
      in if \<not> DagSchema E g then invalid (issues g)
         else if \<not> fst (validateDag E issues g) then invalid (snd (validateDag E issues g))
         else let deps = dependencyMap g
              in case sandboxNodes E N D (dag_runId g) deps 0 (topologicalNodes (dag_nodes g) deps) st of
                   (st1, aborted) \<Rightarrow>
                     completeSandboxDag D g (dagStatus (st_nodeResults (xs_core st1))) startedAt
                       (map_option abortExecutionError aborted) st1)"

end
