(* ===== verification/Word_Patterns.thy ===== *)
theory Word_Patterns
  imports Redaction
begin

text \<open>
  The patterns that the text heuristics use, as scanners: whole words (\<open>orchestration/taskDecomposer.ts\<close>,
  \<open>orchestration/skeptic.ts\<close>) and the references to files and interfaces that the skeptic collects.
\<close>

section \<open>Words\<close>

text \<open>
  \<open>startsWord w s\<close> is \<open>/^w\b/\<close>, \<open>hasWord [w] s\<close> is \<open>/\bw\b/\<close>, for a \<open>w\<close> that starts and ends with
  word characters.
\<close>

definition startsWord :: "string \<Rightarrow> string \<Rightarrow> bool" where
  "startsWord w s = (take (length w) s = w \<and> (case drop (length w) s of [] \<Rightarrow> True | c # _ \<Rightarrow> \<not> is_word c))"

fun wordAfter :: "bool \<Rightarrow> string \<Rightarrow> string \<Rightarrow> bool" where
  "wordAfter pw w [] = False"
| "wordAfter pw w (c # cs) = (\<not> pw \<and> startsWord w (c # cs) \<or> wordAfter (is_word c) w cs)"

definition hasWord :: "string list \<Rightarrow> string \<Rightarrow> bool" where
  "hasWord ws s = list_ex (\<lambda>w. wordAfter False w s) ws"

text \<open>\<open>replace(/\s+/g, " ")\<close>\<close>

fun collapseSpaces :: "string \<Rightarrow> string" where
  "collapseSpaces [] = []"
| "collapseSpaces (c # cs) =
     (if js_space c then (case cs of [] \<Rightarrow> '' '' | d # _ \<Rightarrow> if js_space d then collapseSpaces cs else CHR '' '' # collapseSpaces cs)
      else c # collapseSpaces cs)"

section \<open>References\<close>

definition is_alnum :: "char \<Rightarrow> bool" where
  "is_alnum c = (is_letter c \<or> char_in 48 57 c)"

definition fileChar :: "char \<Rightarrow> bool" where
  "fileChar c = (is_word c \<or> c = CHR ''.'' \<or> c = CHR ''-'')"

definition fileSep :: "char \<Rightarrow> bool" where
  "fileSep c = (c = CHR ''/'' \<or> c = CHR 0x5C)"

text \<open>
  The end of a file reference, \<open>/[A-Za-z0-9_.-]+\.[A-Za-z0-9]+\b/\<close>: the last dot behind the first
  character that letters and digits follow, up to where they end, when no underscore comes next.
\<close>

definition extensionAt :: "string \<Rightarrow> string option" where
  "extensionAt s =
     (case s of
        [] \<Rightarrow> None
      | c # cs \<Rightarrow>
          let ext = takeWhile is_alnum cs
          in if c = CHR ''.'' \<and> ext \<noteq> [] \<and> (case dropWhile is_alnum cs of d # _ \<Rightarrow> d \<noteq> CHR ''_'' | [] \<Rightarrow> True)
             then Some (c # ext) else None)"

fun fileTail :: "string \<Rightarrow> string option" where
  "fileTail [] = None"
| "fileTail (c # cs) =
     (case fileTail cs of Some m \<Rightarrow> Some (c # m) | None \<Rightarrow> map_option ((#) c) (extensionAt cs))"

text \<open>
  A file reference that starts here, \<open>/(?:[A-Za-z0-9_.-]+[\\/])+[A-Za-z0-9_.-]+\.[A-Za-z0-9]+\b/\<close>, with as
  many directories as possible.
\<close>

function fileAt :: "string \<Rightarrow> string option" where
  "fileAt s =
     (let seg = takeWhile fileChar s
      in case dropWhile fileChar s of
           [] \<Rightarrow> None
         | c # cs \<Rightarrow>
             if seg = [] \<or> \<not> fileSep c then None
             else (case fileAt cs of
                     Some m \<Rightarrow> Some (seg @ (c # m))
                   | None \<Rightarrow> map_option (\<lambda>m. seg @ (c # m)) (fileTail (takeWhile fileChar cs))))"
  by pat_completeness auto
termination
proof (relation "measure length", goal_cases)
  case (2 s seg c cs)
  have "length (dropWhile fileChar s) \<le> length s" by (rule length_dropWhile_le)
  with 2 show ?case by simp
qed simp

declare fileAt.simps [simp del]

text \<open>
  A reference to an interface that starts here:
  \<open>/[A-Z][A-Za-z0-9]*API\b|[A-Z][A-Za-z0-9]*Api\b|[A-Za-z0-9_.-]+\s+API\b/\<close>.
\<close>

definition namedApi :: "string \<Rightarrow> string \<Rightarrow> string option" where
  "namedApi suffix1 s =
     (let w = takeWhile is_alnum s
      in if w \<noteq> [] \<and> char_in 65 90 (hd w) \<and> length suffix1 < length w \<and> drop (length w - length suffix1) w = suffix1
            \<and> (case dropWhile is_alnum s of d # _ \<Rightarrow> d \<noteq> CHR ''_'' | [] \<Rightarrow> True)
         then Some w else None)"

definition apiAt :: "string \<Rightarrow> string option" where
  "apiAt s =
     (case namedApi ''API'' s of
        Some m \<Rightarrow> Some m
      | None \<Rightarrow>
          (case namedApi ''Api'' s of
             Some m \<Rightarrow> Some m
           | None \<Rightarrow>
               let w = takeWhile fileChar s; sp = takeWhile js_space (dropWhile fileChar s)
               in if w \<noteq> [] \<and> sp \<noteq> [] \<and> startsWord ''API'' (dropWhile js_space (dropWhile fileChar s))
                  then Some (w @ sp @ ''API'') else None))"

text \<open>
  \<open>text.matchAll(pattern)\<close> for a pattern that starts with \<open>\b\<close> and whose matches are not empty;
  \<open>pw\<close> tells whether a word character comes before.
\<close>

function matchesFrom :: "(string \<Rightarrow> string option) \<Rightarrow> bool \<Rightarrow> string \<Rightarrow> string list" where
  "matchesFrom at1 pw [] = []"
| "matchesFrom at1 pw (c # cs) =
     (case (if pw \<noteq> is_word c then at1 (c # cs) else None) of
        Some (m # ms) \<Rightarrow> [m # ms] @ matchesFrom at1 (is_word (last (m # ms))) (drop (length ms) cs)
      | _ \<Rightarrow> matchesFrom at1 (is_word c) cs)"
  by pat_completeness auto
termination by (relation "measure (\<lambda>(at1, pw, s). length s)") auto

definition fileReferences :: "string \<Rightarrow> string list" where
  "fileReferences s = matchesFrom fileAt False s"

definition apiReferences :: "string \<Rightarrow> string list" where
  "apiReferences s = matchesFrom apiAt False s"

end
