(* ===== verification/Task_Decomposer.thy ===== *)
theory Task_Decomposer
  imports Sandbox_Executor JS_Strings Word_Patterns
begin

text \<open>
  Sub-goals, \<open>src/orchestration/taskDecomposer.ts\<close>: splitting a text into sub-goals with inferred
  dependencies, normalisation of sub-goal graphs, and their execution in rounds with bounded
  concurrency. A Zod error is \<open>None\<close>. The decomposition by a model is left out.
\<close>

section \<open>Data\<close>

record sub_goal =
  sg_id :: string
  sg_goal :: string
  sg_dependencies :: "string list"
  sg_expectedArtifacts :: "string list"
  sg_validation :: "string list"
  sg_parallelizable :: bool

record goal_dependency =
  gd_from :: string
  gd_to :: string
  gd_reason :: "string option"

record goal_graph =
  gg_subGoals :: "sub_goal list"
  gg_dependencies :: "goal_dependency list"
  gg_maxConcurrency :: int
  gg_trace :: "string list"

record goal_result =
  gr_subGoal :: string
  gr_artifact :: "string option"
  gr_command :: "string option"
  gr_summary :: string
  gr_status :: string

definition GoalDependencySchema :: "goal_dependency \<Rightarrow> bool" where
  "GoalDependencySchema d = (gd_from d \<noteq> [] \<and> gd_to d \<noteq> [] \<and> optNonEmpty (gd_reason d))"

definition SubGoalSchema :: "sub_goal \<Rightarrow> bool" where
  "SubGoalSchema g =
     (sg_id g \<noteq> [] \<and> sg_goal g \<noteq> [] \<and> nonEmptyAll (sg_dependencies g) \<and> nonEmptyAll (sg_expectedArtifacts g)
      \<and> nonEmptyAll (sg_validation g))"

definition SubGoalGraphSchema :: "goal_graph \<Rightarrow> bool" where
  "SubGoalGraphSchema g =
     (length (gg_subGoals g) \<le> 12 \<and> list_all SubGoalSchema (gg_subGoals g) \<and> list_all GoalDependencySchema (gg_dependencies g)
      \<and> 0 < gg_maxConcurrency g \<and> gg_maxConcurrency g \<le> 8)"

definition DEFAULT_MAX_SUB_GOALS :: int where
  "DEFAULT_MAX_SUB_GOALS = 4"

definition DEFAULT_MAX_CONCURRENCY :: int where
  "DEFAULT_MAX_CONCURRENCY = 2"

section \<open>Guesses from words\<close>

definition expectedArtifactsFor :: "string \<Rightarrow> string list" where
  "expectedArtifactsFor goal =
     (let lower = toLowerCase goal
      in if hasWord [''test'', ''validate'', ''verify''] lower then [''Validation evidence'']
         else if hasWord [''doc'', ''docs'', ''documentation'', ''readme''] lower then [''Documentation update'']
         else if hasWord [''inspect'', ''review'', ''audit'', ''analyze''] lower then [''Inspection notes'']
         else if hasWord [''code'', ''implement'', ''update'', ''fix'', ''refactor'', ''change''] lower then [''Updated source files'']
         else [''Sub-goal result''])"

definition validationFor :: "string \<Rightarrow> string list" where
  "validationFor goal =
     (''Confirm sub-goal completed: '' @ take 80 (redactString goal))
     # (if hasWord [''test'', ''validate'', ''verify''] (toLowerCase goal) then [''Relevant checks pass or failures are reported''] else [])
     @ (if hasWord [''update'', ''fix'', ''implement'', ''code'', ''refactor''] (toLowerCase goal)
        then [''Changes stay within requested scope''] else [])"

definition subId :: "nat \<Rightarrow> string" where
  "subId i = ''sub-'' @ show_nat i"

definition inferDependencies :: "string \<Rightarrow> nat \<Rightarrow> string list \<Rightarrow> string list" where
  "inferDependencies goal index allGoals =
     (if index = 0 then []
      else let lower = toLowerCase goal; before = subId (index - 1);
               previous = (if index - 1 < length allGoals then toLowerCase (allGoals ! (index - 1)) else [])
           in if hasWord [''in parallel'', ''independently'', ''meanwhile''] lower then []
              else if list_ex (\<lambda>w. startsWord w lower)
                     [''then'', ''next'', ''after'', ''afterwards'', ''once'', ''finally'', ''validate'', ''test'', ''verify'', ''deploy'', ''document'']
              then [before]
              else if hasWord [''after'', ''once'', ''following''] lower then [before]
              else if hasWord [''inspect'', ''review'', ''design'', ''plan''] previous
                     \<and> hasWord [''update'', ''implement'', ''fix'', ''change'', ''write''] lower then [before]
              else if hasWord [''update'', ''implement'', ''fix'', ''change'', ''write''] previous
                     \<and> hasWord [''test'', ''validate'', ''verify''] lower then [before]
              else [])"

section \<open>Parsing a text\<close>

fun splitOn :: "(char \<Rightarrow> bool) \<Rightarrow> string \<Rightarrow> string list" where
  "splitOn sep [] = [[]]"
| "splitOn sep (x # xs) =
     (if sep x then [] # splitOn sep xs else (case splitOn sep xs of [] \<Rightarrow> [[x]] | w # ws \<Rightarrow> (x # w) # ws))"

fun cleanFrom :: "string list \<Rightarrow> string list \<Rightarrow> string list" where
  "cleanFrom seen [] = []"
| "cleanFrom seen (item # items) =
     (let goal = js_trim (collapseSpaces item); key = toLowerCase goal
      in if length goal \<le> 10 \<or> key \<in> set seen then cleanFrom seen items else goal # cleanFrom (key # seen) items)"

definition cleanGoals :: "string list \<Rightarrow> string list" where
  "cleanGoals items = cleanFrom [] items"

text \<open>What is left of a line behind a bullet, a number or a check box.\<close>

definition is_digit :: "char \<Rightarrow> bool" where
  "is_digit c = char_in 48 57 c"

definition afterMarker :: "string \<Rightarrow> string option" where
  "afterMarker line =
     (case line of
        [] \<Rightarrow> None
      | c # rest \<Rightarrow>
          if c \<in> set ''-*+'' then Some rest
          else if is_digit c
          then (case dropWhile is_digit line of d # tail \<Rightarrow> if d \<in> set ''.)'' then Some tail else None | [] \<Rightarrow> None)
          else if c = CHR ''['' then (case rest of x # y # tail \<Rightarrow> if x \<in> set '' xX'' \<and> y = CHR '']'' then Some tail else None | _ \<Rightarrow> None)
          else None)"

definition bulletItem :: "string \<Rightarrow> string option" where
  "bulletItem line =
     (case afterMarker line of
        None \<Rightarrow> None
      | Some rest \<Rightarrow>
          let content = dropWhile js_space rest
          in if content = rest \<or> content = [] \<or> CHR 0x0D \<in> set content then None else Some (js_trim content))"

datatype goal_source = Bullets | Sentences

definition parseCandidateSubGoals :: "string \<Rightarrow> string list \<times> goal_source" where
  "parseCandidateSubGoals distilled =
     (let lines = filter (\<lambda>l. l \<noteq> []) (map js_trim (split_char (CHR 0x0A) distilled));
          bulletItems = filter (\<lambda>l. l \<noteq> []) (List.map_filter bulletItem lines)
      in if 2 \<le> length bulletItems then (cleanGoals bulletItems, Bullets)
         else (cleanGoals (filter (\<lambda>p. 10 < length p)
                 (map js_trim (splitOn (\<lambda>c. c = CHR ''.'' \<or> c = CHR '';'' \<or> c = CHR 0x0A) distilled))), Sentences))"

section \<open>Graphs\<close>

definition boundedMaxSubGoals :: "string list \<Rightarrow> int option \<Rightarrow> int" where
  "boundedMaxSubGoals riskFlags configured =
     (let base = over configured DEFAULT_MAX_SUB_GOALS;
          riskCap = (if ''destructive_change'' \<in> set riskFlags then 3 else DEFAULT_MAX_SUB_GOALS)
      in max 1 (min 8 (min base riskCap)))"

text \<open>The concurrency settings are integers, on which \<open>Math.trunc\<close> is the identity.\<close>

definition boundedConcurrency :: "int \<Rightarrow> int" where
  "boundedConcurrency v = max 1 (min 8 v)"

definition unique :: "string list \<Rightarrow> string list" where
  "unique values = js_set_of (filter (\<lambda>s. s \<noteq> []) (map js_trim values))"

fun uniqueFrom :: "string list \<Rightarrow> goal_dependency list \<Rightarrow> goal_dependency list" where
  "uniqueFrom seen [] = []"
| "uniqueFrom seen (d # ds) =
     (let key = gd_from d @ ''->'' @ gd_to d
      in if \<not> GoalDependencySchema d \<or> key \<in> set seen then uniqueFrom seen ds else d # uniqueFrom (key # seen) ds)"

definition uniqueDependencies :: "goal_dependency list \<Rightarrow> goal_dependency list" where
  "uniqueDependencies ds = uniqueFrom [] ds"

fun normalizeGoals :: "nat \<Rightarrow> string list \<Rightarrow> sub_goal list \<Rightarrow> sub_goal list" where
  "normalizeGoals i ids [] = []"
| "normalizeGoals i ids (g # gs) =
     (let ident = (if sg_id g \<noteq> [] \<and> sg_id g \<notin> set ids then sg_id g else subId i)
      in \<lparr>sg_id = ident, sg_goal = redactString (sg_goal g),
          sg_dependencies = filter (\<lambda>d. d \<noteq> ident) (unique (sg_dependencies g)),
          sg_expectedArtifacts = (if sg_expectedArtifacts g \<noteq> [] then map redactString (sg_expectedArtifacts g)
                                  else expectedArtifactsFor (sg_goal g)),
          sg_validation = (if sg_validation g \<noteq> [] then map redactString (sg_validation g) else validationFor (sg_goal g)),
          sg_parallelizable = (sg_dependencies g = [])\<rparr>
         # normalizeGoals (Suc i) (ident # ids) gs)"

definition goalEdges :: "sub_goal list \<Rightarrow> goal_dependency list" where
  "goalEdges gs = concat (map (\<lambda>g. map (\<lambda>d. \<lparr>gd_from = d, gd_to = sg_id g, gd_reason = None\<rparr>) (sg_dependencies g)) gs)"

definition linkGoal :: "goal_dependency list \<Rightarrow> sub_goal \<Rightarrow> sub_goal" where
  "linkGoal ds g =
     g\<lparr>sg_dependencies := map gd_from (filter (\<lambda>d. gd_to d = sg_id g) ds),
       sg_parallelizable := list_all (\<lambda>d. gd_to d \<noteq> sg_id g) ds\<rparr>"

definition normalizeSubGoalGraph :: "goal_graph \<Rightarrow> goal_graph option" where
  "normalizeSubGoalGraph input =
     (let goals = normalizeGoals 0 [] (gg_subGoals input);
          validIds = map sg_id goals;
          ds = filter (\<lambda>d. gd_from d \<in> set validIds \<and> gd_to d \<in> set validIds \<and> gd_from d \<noteq> gd_to d)
                 (uniqueDependencies (gg_dependencies input @ goalEdges goals));
          g = \<lparr>gg_subGoals = map (linkGoal ds) goals, gg_dependencies = ds,
               gg_maxConcurrency = boundedConcurrency (gg_maxConcurrency input), gg_trace = map redactString (gg_trace input)\<rparr>
      in if list_all SubGoalSchema goals \<and> SubGoalGraphSchema g then Some g else None)"

definition graphFromSubGoalStrings :: "string list \<Rightarrow> int option \<Rightarrow> goal_graph option" where
  "graphFromSubGoalStrings subGoals maxConcurrency =
     normalizeSubGoalGraph
       \<lparr>gg_subGoals = map (\<lambda>(i, goal). \<lparr>sg_id = subId i, sg_goal = goal, sg_dependencies = [],
            sg_expectedArtifacts = expectedArtifactsFor goal, sg_validation = validationFor goal, sg_parallelizable = True\<rparr>)
            (List.enumerate 0 subGoals),
        gg_dependencies = [], gg_maxConcurrency = boundedConcurrency (over maxConcurrency DEFAULT_MAX_CONCURRENCY),
        gg_trace = [''legacy string[] input converted to SubGoalGraph'']\<rparr>"

definition inferredGoal :: "string list \<Rightarrow> nat \<times> string \<Rightarrow> sub_goal" where
  "inferredGoal items = (\<lambda>(i, goal).
     let ds = inferDependencies goal i items
     in \<lparr>sg_id = subId i, sg_goal = redactString goal, sg_dependencies = ds, sg_expectedArtifacts = expectedArtifactsFor goal,
         sg_validation = validationFor goal, sg_parallelizable = (ds = [])\<rparr>)"

definition decomposeIntoSubGoalGraph :: "string \<Rightarrow> string list \<Rightarrow> int option \<Rightarrow> int option \<Rightarrow> goal_graph option" where
  "decomposeIntoSubGoalGraph distilled riskFlags maxSubGoals maxConcurrency =
     (let cap = boundedMaxSubGoals riskFlags maxSubGoals;
          (parsed, source) = parseCandidateSubGoals distilled;
          items = take (nat cap) parsed;
          subGoals = map (inferredGoal items) (List.enumerate 0 items);
          trace = [case source of Bullets \<Rightarrow> ''parsed explicit bullet/numbered list'' | Sentences \<Rightarrow> ''parsed sentence boundaries'',
                   ''capped sub-goals at '' @ show_nat (nat cap)]
      in if list_all SubGoalSchema subGoals
         then normalizeSubGoalGraph
                \<lparr>gg_subGoals = subGoals,
                 gg_dependencies = concat (map (\<lambda>g. map (\<lambda>d. \<lparr>gd_from = d, gd_to = sg_id g,
                     gd_reason = Some ''inferred sequential dependency''\<rparr>) (sg_dependencies g)) subGoals),
                 gg_maxConcurrency = boundedConcurrency (over maxConcurrency DEFAULT_MAX_CONCURRENCY), gg_trace = trace\<rparr>
         else None)"

section \<open>Execution\<close>

definition skippedGoal :: "sub_goal \<Rightarrow> string \<Rightarrow> goal_result" where
  "skippedGoal goal reason =
     \<lparr>gr_subGoal = redactString (sg_goal goal), gr_artifact = Some (sg_id goal), gr_command = None,
      gr_summary = redactString (''skipped: '' @ reason), gr_status = ''SKIPPED''\<rparr>"

definition dependenciesSucceeded :: "(string, goal_result) js_map \<Rightarrow> sub_goal \<Rightarrow> bool" where
  "dependenciesSucceeded results goal =
     list_all (\<lambda>d. map_option gr_status (js_get results d) = Some ''SUCCESS'') (sg_dependencies goal)"

text \<open>
  The order in which bounded workers complete items: \<open>running\<close> are the items in flight, at most as many
  as there are workers; a worker that completes an item takes the next one. \<open>pick\<close> chooses which of the
  running items completes next.
\<close>

function completions :: "(nat \<Rightarrow> nat) \<Rightarrow> 'a list \<Rightarrow> 'a list \<Rightarrow> 'a list" where
  "completions pick waiting running =
     (if running = [] then []
      else let i = pick (length waiting + length running) mod length running;
               rest = take i running @ drop (Suc i) running
           in running ! i # (case waiting of [] \<Rightarrow> completions pick [] rest | x # xs \<Rightarrow> completions pick xs (rest @ [x])))"
  by pat_completeness auto
termination
  by (relation "measure (\<lambda>(pick, waiting, running). length waiting + length running)") (auto simp: Suc_le_eq)

definition runBounded :: "(nat \<Rightarrow> nat) \<Rightarrow> int \<Rightarrow> 'a list \<Rightarrow> 'a list" where
  "runBounded pick maxConcurrency items =
     (let workers = min (nat maxConcurrency) (length items) in completions pick (drop workers items) (take workers items))"

text \<open>
  The rounds. \<open>gave goal index\<close> is what the execution of a sub-goal returned, \<open>pick n\<close> the order of
  completion in round \<open>n\<close>; \<open>pending\<close> holds the values of the map of the code in their order.
\<close>

definition goalReady :: "(string, goal_result) js_map \<Rightarrow> sub_goal \<times> nat \<Rightarrow> bool" where
  "goalReady results gi = list_all (js_has results) (sg_dependencies (fst gi))"

definition blockedReason :: "sub_goal \<Rightarrow> string" where
  "blockedReason goal = ''dependency did not complete: '' @ joinWith '', '' (sg_dependencies goal)"

definition goalRound ::
  "(nat \<Rightarrow> nat) \<Rightarrow> int \<Rightarrow> (sub_goal \<Rightarrow> nat \<Rightarrow> goal_result) \<Rightarrow> (sub_goal \<times> nat) list \<Rightarrow> (string, goal_result) js_map
     \<Rightarrow> (string, goal_result) js_map" where
  "goalRound pick maxConcurrency gave ready results =
     (let executable = filter (\<lambda>gi. dependenciesSucceeded results (fst gi)) ready;
          skipped = filter (\<lambda>gi. \<not> dependenciesSucceeded results (fst gi)) ready;
          results1 = fold (\<lambda>gi. js_set (sg_id (fst gi)) (skippedGoal (fst gi) (blockedReason (fst gi)))) skipped results
      in fold (\<lambda>gi. js_set (sg_id (fst gi)) (gave (fst gi) (snd gi))) (runBounded pick maxConcurrency executable) results1)"

function goalRounds ::
  "nat \<Rightarrow> (nat \<Rightarrow> nat \<Rightarrow> nat) \<Rightarrow> int \<Rightarrow> (sub_goal \<Rightarrow> nat \<Rightarrow> goal_result) \<Rightarrow> (sub_goal \<times> nat) list
     \<Rightarrow> (string, goal_result) js_map \<Rightarrow> (string, goal_result) js_map" where
  "goalRounds n pick maxConcurrency gave pending results =
     (let ready = filter (goalReady results) pending
      in if pending = [] then results
         else if ready = []
         then fold (\<lambda>gi. js_set (sg_id (fst gi)) (skippedGoal (fst gi) ''dependency cycle or unresolved dependency'')) pending results
         else goalRounds (Suc n) pick maxConcurrency gave
                (filter (\<lambda>gi. sg_id (fst gi) \<notin> set (map (sg_id \<circ> fst) ready)) pending)
                (goalRound (pick n) maxConcurrency gave ready results))"
  by pat_completeness auto
termination
proof (relation "measure (\<lambda>(n, pick, m, gave, pending, results). length pending)", goal_cases)
  case (2 n pick m gave pending results ready)
  then obtain gi where gi: "gi \<in> set ready" by (meson list.set_sel(1))
  with 2 have "gi \<in> set pending" by simp
  moreover from gi have "\<not> sg_id (fst gi) \<notin> set (map (sg_id \<circ> fst) ready)" by force
  ultimately show ?case by (auto intro!: length_filter_less)
qed simp

declare completions.simps [simp del] goalRounds.simps [simp del]

definition executeGraph ::
  "(nat \<Rightarrow> nat \<Rightarrow> nat) \<Rightarrow> int \<Rightarrow> (sub_goal \<Rightarrow> nat \<Rightarrow> goal_result) \<Rightarrow> goal_graph \<Rightarrow> goal_result list" where
  "executeGraph pick maxConcurrency gave graph =
     (let pending = js_values (js_map_of_list (map (\<lambda>(i, g). (sg_id g, (g, i))) (List.enumerate 0 (gg_subGoals graph))));
          results = goalRounds 0 pick maxConcurrency gave pending []
      in map (\<lambda>g. over (js_get results (sg_id g)) (skippedGoal g ''missing result'')) (gg_subGoals graph))"

datatype sub_goal_input = GoalStrings "string list" | GoalGraph goal_graph

definition executeDecomposedSubGoals ::
  "(nat \<Rightarrow> nat \<Rightarrow> nat) \<Rightarrow> (sub_goal \<Rightarrow> nat \<Rightarrow> goal_result) \<Rightarrow> int option \<Rightarrow> sub_goal_input \<Rightarrow> goal_result list option" where
  "executeDecomposedSubGoals pick gave maxConcurrency input =
     (case (case input of
              GoalStrings subGoals \<Rightarrow> graphFromSubGoalStrings subGoals maxConcurrency
            | GoalGraph g \<Rightarrow> normalizeSubGoalGraph (g\<lparr>gg_maxConcurrency := over maxConcurrency (gg_maxConcurrency g)\<rparr>)) of
        None \<Rightarrow> None
      | Some graph \<Rightarrow> Some (executeGraph pick (boundedConcurrency (over maxConcurrency (gg_maxConcurrency graph))) gave graph))"

text \<open>
  The execution of one sub-goal when the caller passes no executor: a graph of one node goes through the
  sandbox. \<open>None\<close> is a thrown error.
\<close>

definition subGoalDag :: "string \<Rightarrow> string \<Rightarrow> sub_goal \<Rightarrow> nat \<Rightarrow> dag" where
  "subGoalDag runId createdAt goal index =
     \<lparr>dag_id = ''subdag-'' @ runId @ ''-'' @ show_nat index, dag_runId = runId, dag_version = ''0.1.0'',
      dag_nodes = [\<lparr>nd_id = ''sub-node-'' @ show_nat index, nd_type = LLM_EXECUTION,
          nd_label = Some (redactString (take 120 (sg_goal goal))), nd_dependsOn = [], nd_provider = None, nd_toolPermissions = [],
          nd_input = Some [(''subGoal'', JStr (redactString (sg_goal goal))), (''validation'', jstrs (sg_validation goal))],
          nd_expectedOutputs = sg_expectedArtifacts goal, nd_retryPolicy = None, nd_timeoutMs = None,
          nd_metadata = Some [(''decomposed'', JBool True), (''subGoalIndex'', jnat index), (''subGoalId'', JStr (sg_id goal))]\<rparr>],
      dag_edges = [], dag_validationPolicy = None, dag_budgetPolicy = None, dag_metadata = None, dag_createdAt = createdAt\<rparr>"

definition goalSummary :: "dag_result \<Rightarrow> string" where
  "goalSummary r =
     (case dr_nodeResults r of
        [] \<Rightarrow> ''failed: '' @ dagStatusName (dr_status r)
      | n # _ \<Rightarrow>
          if nr_status n = NodeSuccess then ''completed ('' @ dagStatusName (dr_status r) @ '')''
          else ''failed: '' @ (case nr_error n of Some e \<Rightarrow> xe_message e | None \<Rightarrow> dagStatusName (dr_status r)))"

definition executeOneSubGoal ::
  "schema_env \<Rightarrow> (dag \<Rightarrow> string list) \<Rightarrow> tool_env \<Rightarrow> sx_deps \<Rightarrow> string \<Rightarrow> string \<Rightarrow> sub_goal \<Rightarrow> nat \<Rightarrow> host_state tool_world
     \<Rightarrow> goal_result option \<times> host_state tool_world" where
  "executeOneSubGoal E issues N D runId createdAt goal index w =
     (case executeDagThroughSandbox E issues N D (subGoalDag runId createdAt goal index) w None of
        (Inl e, st) \<Rightarrow> (None, xs_world st)
      | (Inr r, st) \<Rightarrow>
          (Some \<lparr>gr_subGoal = redactString (sg_goal goal), gr_artifact = Some (''sub-goal-'' @ show_nat index), gr_command = None,
                 gr_summary = redactString (goalSummary r), gr_status = dagStatusName (dr_status r)\<rparr>, xs_world st))"

text \<open>The bullet character is outside the alphabet of the model.\<close>

definition stitchResults :: "string \<Rightarrow> goal_result list \<Rightarrow> string" where
  "stitchResults bullet results =
     joinWith [CHR 0x0A] (map (\<lambda>r. bullet @ '' ''
       @ (if over (gr_artifact r) [] \<noteq> [] then over (gr_artifact r) []
          else if over (gr_command r) [] \<noteq> [] then over (gr_command r) [] else ''result'')
       @ '' ['' @ gr_status r @ '']: '' @ gr_summary r) results)"

end
