(* ===== verification/Tool_Correct.thy ===== *)
theory Tool_Correct
  imports Builtin_Tools
begin

text \<open>
  What the middleware chain around a tool call guarantees, and the round trip of the operations that are
  handed to the built-in tools as open records.
\<close>

section \<open>The chain\<close>

text \<open>The test of \<open>policyMiddleware\<close>, as one predicate.\<close>

definition policyAllows :: "tool_env \<Rightarrow> json_record option \<Rightarrow> string \<Rightarrow> bool" where
  "policyAllows N policy name \<longleftrightarrow>
     (let allowed = stringArrayFrom (en_numStr N) (optField policy ''allowed'')
      in allowed = [] \<or> name \<in> set allowed \<or> (\<exists>p \<in> set allowed. permissionMatchesTool p name))
     \<and> name \<notin> set (stringArrayFrom (en_numStr N) (optField policy ''denied''))"

definition same_host :: "'w mw_state \<Rightarrow> 'w mw_state \<Rightarrow> bool" where
  "same_host s s' \<longleftrightarrow> tw_host (ms_world s') = tw_host (ms_world s) \<and> tw_turnBudget (ms_world s') = tw_turnBudget (ms_world s)"

lemma same_host_simps [simp]:
  "same_host s (pushTrace t s)" "same_host s (emitToolEvent rq e s)" "same_host s (s\<lparr>ms_redactedArgs := a\<rparr>)" "same_host s (s\<lparr>ms_next := n\<rparr>)" "same_host s s"
  by (simp_all add: same_host_def pushTrace_def emitToolEvent_def)

lemma same_host_emit [simp]: "same_host s (emitToolEvent rq e (pushTrace t s))"
  by (simp add: same_host_def pushTrace_def emitToolEvent_def)

lemma same_host_trans: "same_host s s1 \<Longrightarrow> same_host s1 s2 \<Longrightarrow> same_host s s2"
  by (simp add: same_host_def)

lemma pushTrace_next [simp]: "ms_next (pushTrace t s) = ms_next s" "ms_next (emitToolEvent rq e s) = ms_next s" "ms_world (pushTrace t s) = ms_world s"
  by (simp_all add: pushTrace_def emitToolEvent_def)

lemma parseToolResult_Inr: "parseToolResult N r = Inr r' \<longleftrightarrow> ToolResultSchema r \<and> r' = r"
  by (auto simp: parseToolResult_def)

lemma toolError_schema: "toolError N n c m eo = Inr r \<Longrightarrow> ToolResultSchema r" "toolSuccess N n out md = Inr r \<Longrightarrow> ToolResultSchema r"
  by (auto simp: toolError_def toolSuccess_def parseToolResult_Inr)

lemma policy_step:
  assumes "policyMiddleware N rq next s = (out, s')"
  shows "same_host s s' \<or> (policyAllows N (cx_toolPolicy (rq_context rq)) (rq_toolName rq) \<and> next (pushTrace ''policy'' s) = (out, s'))"
  using assms by (auto simp: policyMiddleware_def policyAllows_def Let_def list_ex_iff split: if_splits)

lemma approval_step:
  assumes "approvalMiddleware N rq next s = (out, s')"
  shows "same_host s s' \<or> ((requiresPreApproval rq \<longrightarrow> hasToolApproval (cx_approvals (rq_context rq)) FILE_WRITE (approvalTargetFor (rq_args rq)))
      \<and> next (pushTrace ''approval'' s) = (out, s'))"
  using assms by (auto simp: approvalMiddleware_def Let_def split: if_splits)

lemma budget_step:
  assumes "budgetMiddleware N rq next s = (out, s')"
  shows "(same_host (s\<lparr>ms_world := (ms_world s)\<lparr>tw_turnBudget := map_option (snd \<circ> consumeToolCall) (tw_turnBudget (ms_world s))\<rparr>\<rparr>) s')
    \<or> ((\<forall>tb. tw_turnBudget (ms_world s) = Some tb \<longrightarrow> fst (consumeToolCall tb))
       \<and> (\<exists>s1. same_host (s\<lparr>ms_world := (ms_world s)\<lparr>tw_turnBudget := map_option (snd \<circ> consumeToolCall) (tw_turnBudget (ms_world s))\<rparr>\<rparr>) s1
             \<and> ms_next s1 = ms_next s \<and> next s1 = (out, s')))"
proof (cases "tw_turnBudget (ms_world s)")
  case None
  let ?s0 = "s\<lparr>ms_world := (ms_world s)\<lparr>tw_turnBudget := map_option (snd \<circ> consumeToolCall) (tw_turnBudget (ms_world s))\<rparr>\<rparr>"
  have "same_host ?s0 (pushTrace ''budget'' s)" using None by (simp add: same_host_def)
  then have "same_host ?s0 s' \<or> (\<exists>s1. same_host ?s0 s1 \<and> ms_next s1 = ms_next s \<and> next s1 = (out, s'))"
    using assms None by (cases "cx_budget (rq_context rq)") (auto simp: budgetMiddleware_def Let_def split: if_splits)
  with None show ?thesis by simp
next
  case (Some tb)
  obtain ok tb' where c: "consumeToolCall tb = (ok, tb')" by force
  show ?thesis
  proof (cases ok)
    case True
    let ?s1 = "(pushTrace ''budget'' s)\<lparr>ms_world := (ms_world s)\<lparr>tw_turnBudget := Some tb'\<rparr>\<rparr>"
    have "same_host (s\<lparr>ms_world := (ms_world s)\<lparr>tw_turnBudget := map_option (snd \<circ> consumeToolCall) (tw_turnBudget (ms_world s))\<rparr>\<rparr>) ?s1"
      using Some c by (simp add: same_host_def)
    then show ?thesis using assms Some c True
      by (auto simp: budgetMiddleware_def Let_def split: option.splits if_splits)
  next
    case False
    with assms Some c show ?thesis
      by (auto simp: budgetMiddleware_def Let_def same_host_def consumeToolCall_def emitToolEvent_def split: if_splits)
  qed
qed

lemma redactionOutput_step:
  assumes "redactionOutputMiddleware N rq next s = (out, s')"
  shows "\<exists>out1 s1. next s = (out1, s1) \<and> same_host s1 s'"
  using assms by (auto simp: redactionOutputMiddleware_def split: prod.splits sum.splits)

lemma trace_step:
  assumes "traceMiddleware N rq next s = (out, s')"
  shows "\<exists>out1 s0 s1. same_host s s0 \<and> ms_next s0 = ms_next s \<and> next s0 = (out1, s1) \<and> same_host s1 s'
     \<and> (\<forall>r. out = Inr r \<longrightarrow> ToolResultSchema r)"
proof -
  obtain out1 s1 where n: "next (emitToolEvent rq (invokedEvent rq s) s) = (out1, s1)" by force
  have "same_host s1 s' \<and> (\<forall>r. out = Inr r \<longrightarrow> ToolResultSchema r)"
    using assms n by (auto simp: traceMiddleware_def Let_def parseToolResult_Inr split: sum.splits)
  with n show ?thesis by (intro exI [of _ out1] exI [of _ "emitToolEvent rq (invokedEvent rq s) s"] exI [of _ s1]) simp
qed

lemma dispatch_budget: "dispatchTool N ttl entries name args ctx w = (out, w') \<Longrightarrow> tw_turnBudget w' = tw_turnBudget w"
  by (auto simp: dispatchTool_def checkAvailability_def Let_def split: option.splits prod.splits sum.splits if_splits bool.splits)

text \<open>
  A call changes the host only through one dispatch to the handler, after a tool call was taken from the
  turn budget, the policy let the tool pass and an approval was found where one is required.
\<close>

lemma default_chain:
  assumes "runToolWithMiddleware N ttl entries DEFAULT_TOOL_MIDDLEWARE name args ctx w = (out, w')"
  shows "(\<forall>r. out = Inr r \<longrightarrow> ToolResultSchema r) \<and> tw_turnBudget w' = map_option (snd \<circ> consumeToolCall) (tw_turnBudget w)
    \<and> (tw_host w' = tw_host w
       \<or> policyAllows N (cx_toolPolicy ctx) name \<and> (\<forall>tb. tw_turnBudget w = Some tb \<longrightarrow> fst (consumeToolCall tb))
         \<and> (\<exists>out1 w1 w2. tw_host w1 = tw_host w \<and> dispatchTool N ttl entries name args ctx w1 = (out1, w2) \<and> tw_host w' = tw_host w2))"
proof -
  define rq where "rq = \<lparr>rq_toolName = name, rq_args = args, rq_context = ctx, rq_definition = map_option rg_definition (js_get entries name)\<rparr>"
  define s where "s = \<lparr>ms_world = w, ms_redactedArgs = None, ms_trace = [], ms_next = 0\<rparr>"
  let ?spend = "map_option (snd \<circ> consumeToolCall) (tw_turnBudget w)"
  have rq: "rq_toolName rq = name" "rq_args rq = args" "rq_context rq = ctx" by (simp_all add: rq_def)
  let ?d = "dispatchFrom N ttl entries rq"
  obtain s' where run: "?d 0 DEFAULT_TOOL_MIDDLEWARE s = (out, s')" "w' = ms_world s'"
    using assms by (auto simp: runToolWithMiddleware_def rq_def s_def split: prod.splits)
  have s: "ms_next s = 0" "ms_world s = w" by (simp_all add: s_def)
  from run(1) s(1) have "traceMiddleware N rq (?d (Suc 0) (tl DEFAULT_TOOL_MIDDLEWARE)) (s\<lparr>ms_next := Suc 0\<rparr>) = (out, s')"
    by (simp add: DEFAULT_TOOL_MIDDLEWARE_def)
  from trace_step [OF this] obtain out1 s0 s1 where t: "same_host (s\<lparr>ms_next := Suc 0\<rparr>) s0" "ms_next s0 = Suc 0"
    "?d (Suc 0) (tl DEFAULT_TOOL_MIDDLEWARE) s0 = (out1, s1)" "same_host s1 s'" "\<forall>r. out = Inr r \<longrightarrow> ToolResultSchema r" by auto
  have h0: "tw_host (ms_world s0) = tw_host w" "tw_turnBudget (ms_world s0) = tw_turnBudget w" using t(1) s by (simp_all add: same_host_def)
  have "budgetMiddleware N rq (?d 2 [redactionInputMiddleware, approvalMiddleware, policyMiddleware, redactionOutputMiddleware]) (s0\<lparr>ms_next := 2\<rparr>) = (out1, s1)"
    using t(2,3) by (simp add: DEFAULT_TOOL_MIDDLEWARE_def numeral_eq_Suc)
  from budget_step [OF this] consider
      (stop) "tw_host (ms_world s1) = tw_host w" "tw_turnBudget (ms_world s1) = ?spend"
    | (go) s2 where "\<forall>tb. tw_turnBudget w = Some tb \<longrightarrow> fst (consumeToolCall tb)" "tw_host (ms_world s2) = tw_host w"
        "tw_turnBudget (ms_world s2) = ?spend" "ms_next s2 = 2"
        "?d 2 [redactionInputMiddleware, approvalMiddleware, policyMiddleware, redactionOutputMiddleware] s2 = (out1, s1)"
    by (auto simp: same_host_def h0)
  then show ?thesis
  proof cases
    case stop
    then show ?thesis using t(4,5) run(2) by (simp add: same_host_def)
  next
    case go
    let ?s3 = "(pushTrace ''redactionInput'' (s2\<lparr>ms_next := 3\<rparr>))\<lparr>ms_redactedArgs := Some (redactRecord args)\<rparr>"
    have "?d 3 [approvalMiddleware, policyMiddleware, redactionOutputMiddleware] ?s3 = (out1, s1)"
      using go(4,5) rq by (simp add: redactionInputMiddleware_def numeral_eq_Suc)
    then have ap: "approvalMiddleware N rq (?d 4 [policyMiddleware, redactionOutputMiddleware]) (?s3\<lparr>ms_next := 4\<rparr>) = (out1, s1)"
      by (simp add: numeral_eq_Suc)
    have idle: "tw_host (ms_world s1) = tw_host w \<Longrightarrow> tw_turnBudget (ms_world s1) = ?spend \<Longrightarrow> ?thesis"
      using t(4,5) run(2) by (simp add: same_host_def)
    from approval_step [OF ap] consider "same_host (?s3\<lparr>ms_next := 4\<rparr>) s1"
      | (pass) "?d 4 [policyMiddleware, redactionOutputMiddleware] (pushTrace ''approval'' (?s3\<lparr>ms_next := 4\<rparr>)) = (out1, s1)" by blast
    then show ?thesis
    proof cases
      case 1
      then show ?thesis using idle go(2,3) by (simp add: same_host_def)
    next
      case pass
      let ?s4 = "(pushTrace ''approval'' (?s3\<lparr>ms_next := 4\<rparr>))\<lparr>ms_next := 5\<rparr>"
      have po: "policyMiddleware N rq (?d 5 [redactionOutputMiddleware]) ?s4 = (out1, s1)"
        using pass by (simp add: numeral_eq_Suc)
      from policy_step [OF po] consider "same_host ?s4 s1"
        | (ok) "policyAllows N (cx_toolPolicy ctx) name" "?d 5 [redactionOutputMiddleware] (pushTrace ''policy'' ?s4) = (out1, s1)"
        using rq by auto
      then show ?thesis
      proof cases
        case 1
        then show ?thesis using idle go(2,3) by (simp add: same_host_def)
      next
        case ok
        let ?s5 = "(pushTrace ''policy'' ?s4)\<lparr>ms_next := 6\<rparr>"
        have "redactionOutputMiddleware N rq (?d 6 []) ?s5 = (out1, s1)" using ok(2) by (simp add: numeral_eq_Suc)
        from redactionOutput_step [OF this] obtain out2 s6 where r: "?d 6 [] ?s5 = (out2, s6)" "same_host s6 s1" by blast
        obtain w2 where w2: "dispatchTool N ttl entries name args ctx (ms_world ?s5) = (out2, w2)" "ms_world s6 = w2"
          using r(1) rq by (auto simp: Let_def split: prod.splits)
        have "tw_turnBudget w2 = ?spend" using dispatch_budget [OF w2(1)] go(3) by simp
        moreover have "tw_host (ms_world ?s5) = tw_host w" using go(2) by simp
        ultimately have "tw_turnBudget w' = ?spend" "tw_host w' = tw_host w2" "tw_host (ms_world ?s5) = tw_host w"
          using w2(2) r(2) t(4) run(2) by (simp_all add: same_host_def)
        with w2(1) t(5) ok(1) go(1) show ?thesis by blast
      qed
    qed
  qed
qed

section \<open>Operations as open records\<close>

lemma all_some_map [simp]: "all_some (map Some xs) = Some xs"
  by (induction xs) simp_all

lemma parse_kindName [simp]: "parseKind (JStr (kindName k)) = Some k"
  by (cases k) simp_all

lemma parse_optText [simp]: "optNonEmpty s \<Longrightarrow> parseOptText (optText s) = Some s"
  by (cases s) (simp_all add: optText_def optNonEmpty_def)

lemma parse_optContent [simp]: "parseOptContent (optText s) = Some s"
  by (cases s) (simp_all add: optText_def)

lemma parse_optPatch [simp]: "parseOptPatch (optText (map_option patchName p)) = Some p"
  by (cases p; cases "the p") (simp_all add: optText_def)

lemma parse_jstrs [simp]: "parseArgs (jstrs xs) = Some xs"
proof -
  have "map parseText (map JStr xs) = map Some xs" by simp
  then show ?thesis by (simp add: jstrs_def comp_def)
qed

lemma parse_operationJson: "SandboxOperationSchema o1 \<Longrightarrow> parseOperation (operationJson o1) = Some o1"
  by (cases o1; cases "op_kind o1"; cases "op_timeoutMs o1")
    (simp_all add: parseOperation_def operationJson_def jfield_def SandboxOperationSchema_def jint_def)

lemma parsed_operation_schema: "parseOperation r = Some o1 \<Longrightarrow> SandboxOperationSchema o1"
proof -
  have words: "parseOptText v = Some s \<Longrightarrow> optNonEmpty s" for v s
    by (cases v) (auto simp: optNonEmpty_def split: if_splits)
  have time: "parseOptTimeout v = Some t \<Longrightarrow> (case t of None \<Rightarrow> True | Some t \<Rightarrow> 1 \<le> t \<and> t \<le> 3600000)" for v t
  proof (induction v rule: parseOptTimeout.induct)
    case (2 q)
    then have "t = Some \<lfloor>q\<rfloor>" "1 \<le> q" "q \<le> 3600000" by (auto split: if_splits)
    then show ?case by (simp add: floor_le_iff le_floor_iff)
  qed auto
  have timed: "parseOptTimeout v = Some (Some t) \<Longrightarrow> 1 \<le> t \<and> t \<le> 3600000" for v t
    using time [of v "Some t"] by simp
  show "parseOperation r = Some o1 \<Longrightarrow> SandboxOperationSchema o1"
    using words timed by (auto simp: parseOperation_def SandboxOperationSchema_def split: option.splits)
qed

end
