(* ===== verification/Sandbox_Safety.thy ===== *)
theory Sandbox_Safety
  imports Sandbox_Adapters
begin

text \<open>
  What the sandbox may do to the host: every effect of an operation is covered by a policy and, where one
  is needed, by an approval; files stay inside the workspace; captured output is bounded.
\<close>

section \<open>Streams\<close>

lemma byteLength_append: "byteLength (s @ t) = byteLength s + byteLength t"
  by (simp add: byteLength_def)

lemma byteLength_bounds: "length s \<le> byteLength s \<and> byteLength s \<le> 2 * length s"
  by (induction s) (auto simp: byteLength_def)

lemma truncateLoop_step:
  assumes "maxBytes < byteLength s" and "s \<noteq> []" and "d = (byteLength s - maxBytes + 3) div 4"
  shows "truncateLoop maxBytes s = truncateLoop maxBytes (take (length s - d) s) \<and> 1 \<le> d"
  using assms by (simp add: truncateLoop.simps [of maxBytes s] max_def)

lemma truncateLoop_bounded: "byteLength (truncateLoop maxBytes s) \<le> maxBytes \<and> prefix (truncateLoop maxBytes s) s"
proof (induction maxBytes s rule: truncateLoop.induct)
  case (1 maxBytes s)
  show ?case
  proof (cases "maxBytes < byteLength s \<and> s \<noteq> []")
    case True
    define d where "d = (byteLength s - maxBytes + 3) div 4"
    have step: "truncateLoop maxBytes s = truncateLoop maxBytes (take (length s - d) s)" "1 \<le> d"
      using truncateLoop_step [of maxBytes s d] True d_def by auto
    have "max 1 ((byteLength s - maxBytes + 3) div 4) = d" using step(2) by (simp add: d_def)
    with "1" True have "byteLength (truncateLoop maxBytes (take (length s - d) s)) \<le> maxBytes
        \<and> prefix (truncateLoop maxBytes (take (length s - d) s)) (take (length s - d) s)" by simp
    then show ?thesis unfolding step(1) using prefix_order.trans take_is_prefix by blast
  next
    case False
    then show ?thesis by (auto simp: truncateLoop.simps [of maxBytes s] byteLength_def)
  qed
qed

text \<open>Little more is dropped than is needed: the loop stops within one byte of the bound.\<close>

lemma truncateLoop_close: "maxBytes \<le> byteLength s \<Longrightarrow> maxBytes \<le> Suc (byteLength (truncateLoop maxBytes s))"
proof (induction maxBytes s rule: truncateLoop.induct)
  case (1 maxBytes s)
  show ?case
  proof (cases "maxBytes < byteLength s \<and> s \<noteq> []")
    case True
    define d where "d = (byteLength s - maxBytes + 3) div 4"
    have step: "truncateLoop maxBytes s = truncateLoop maxBytes (take (length s - d) s)" "1 \<le> d"
      using truncateLoop_step [of maxBytes s d] True d_def by auto
    have d: "max 1 ((byteLength s - maxBytes + 3) div 4) = d" using step(2) by (simp add: d_def)
    let ?t = "take (length s - d) s"
    have "byteLength s = byteLength ?t + byteLength (drop (length s - d) s)"
      by (metis append_take_drop_id byteLength_append)
    moreover have "byteLength (drop (length s - d) s) \<le> 2 * d" using byteLength_bounds [of "drop (length s - d) s"] by auto
    moreover have "2 * d \<le> byteLength s - maxBytes + 1" unfolding d_def using True by arith
    ultimately have t: "maxBytes \<le> Suc (byteLength ?t)" using True by linarith
    show ?thesis
    proof (cases "maxBytes \<le> byteLength ?t")
      case True
      with "1" \<open>maxBytes < byteLength s \<and> s \<noteq> []\<close> d show ?thesis unfolding step(1) by simp
    next
      case False
      then have "truncateLoop maxBytes ?t = ?t" by (simp add: truncateLoop.simps [of maxBytes ?t])
      with t show ?thesis unfolding step(1) by simp
    qed
  next
    case False
    then show ?thesis using "1"(2) by (auto simp: truncateLoop.simps [of maxBytes s])
  qed
qed

section \<open>Authorised effects\<close>

abbreviation sandboxRoot :: "sandbox \<Rightarrow> abs_path" where
  "sandboxRoot S \<equiv> realRoot (sb_realpath S) (sb_cwd S) (sb_workspaceRoot S)"

fun authorised :: "sandbox \<Rightarrow> sandbox_operation \<Rightarrow> sandbox_effect \<Rightarrow> bool" where
  "authorised S o1 (ReadFile p) = (op_kind o1 = READ_FILE \<and> prefix (sandboxRoot S) p)"
| "authorised S o1 (ListDir p) = (op_kind o1 = LIST_DIR \<and> prefix (sandboxRoot S) p)"
| "authorised S o1 (WriteFile p content) =
     (op_kind o1 = PROPOSE_PATCH \<and> prefix (sandboxRoot S) p
      \<and> (\<exists>a path. op_path o1 = Some path \<and> a \<in> set (sb_approvals S) \<and> sa_scope a = FILE_WRITE \<and> sa_target a \<in> {path, pathText p}))"
| "authorised S o1 (RunProcess command args cwd timeoutMs) =
     (op_kind o1 = RUN_COMMAND \<and> op_command o1 = Some command \<and> args = op_args o1 \<and> cwd = sb_workspaceRoot S
      \<and> command \<in> set (sp_allowedCommands (sb_policy S)) \<and> \<not> matchesDestructiveDenylist command args
      \<and> (\<not> sp_allowShellOperators (sb_policy S) \<longrightarrow> (\<forall>t \<in> set (command # args). \<forall>c \<in> set t. \<not> shellMeta c))
      \<and> (\<forall>p \<in> set (sp_deniedCommandPatterns (sb_policy S)). \<not> p (join_with '' '' (command # args)))
      \<and> (isRisky S o1 \<longrightarrow> (\<exists>a \<in> set (sb_approvals S). sa_scope a = COMMAND_SCOPE \<and> sa_target a = command))
      \<and> (\<exists>base \<in> set (sp_allowedCwdRoots (sb_policy S)). prefix base (resolvePath (sb_cwd S) cwd))
      \<and> 1 \<le> timeoutMs \<and> timeoutMs \<le> sp_maxRuntimeMs (sb_policy S))"

lemma runtime_allowed:
  assumes "1 \<le> t" and "sd_status (evaluateSandboxRuntimeSafety f (JNum (Fin (of_int t))) (JNum (Fin (of_int m))) a) \<noteq> BudgetDenied"
  shows "t \<le> m"
  using assms by (auto simp: evaluateSandboxRuntimeSafety_def nonNegativeIntFrom_def isNegativeFinite_def Let_def split: if_splits)

lemma schema_timeout: "SandboxOperationSchema o1 \<Longrightarrow> 1 \<le> (case op_timeoutMs o1 of Some t \<Rightarrow> t | None \<Rightarrow> WORKSPACE_COMMAND_TIMEOUT_MS)"
  by (auto simp: SandboxOperationSchema_def WORKSPACE_COMMAND_TIMEOUT_MS_def split: option.splits)

lemma allowed_commands_named: "uniqueStrings cs = xs \<Longrightarrow> [] \<notin> set xs"
  by (auto simp: uniqueStrings_def)

lemma runCommand_authorised:
  assumes "op_kind o1 = RUN_COMMAND" and "SandboxOperationSchema o1" and "[] \<notin> set (sp_allowedCommands (sb_policy S))"
    and "e \<in> set (fst (runCommand S a o1))"
  shows "authorised S o1 e"
proof -
  let ?t = "case op_timeoutMs o1 of Some t \<Rightarrow> t | None \<Rightarrow> WORKSPACE_COMMAND_TIMEOUT_MS"
  let ?gate = "evaluateSandboxRuntimeSafety (sb_numStr S) (JNum (Fin (of_int ?t))) (JNum (Fin (of_int (sp_maxRuntimeMs (sb_policy S)))))
      (JNum (Fin (of_int (sp_approvalRequiredAboveRuntimeMs (sb_policy S)))))"
  have run: "e = RunProcess (commandOf o1) (op_args o1) (sb_workspaceRoot S) ?t" "\<not> matchesDestructiveDenylist (commandOf o1) (op_args o1)"
    "\<not> isShellInvocation o1 (sp_allowShellOperators (sb_policy S))"
    "\<not> matchesDeniedCommandPattern (commandOf o1) (op_args o1) (sp_deniedCommandPatterns (sb_policy S))"
    "commandOf o1 \<in> set (sp_allowedCommands (sb_policy S))" "isCwdAllowed S"
    "isRisky S o1 \<longrightarrow> hasApproval S COMMAND_SCOPE (commandOf o1) None" "sd_status ?gate \<noteq> BudgetDenied"
    using assms(4) unfolding runCommand_def Let_def by (auto split: if_splits)
  have "op_command o1 = Some (commandOf o1)"
    using run(5) assms(3) by (cases "op_command o1") (auto simp: commandOf_def)
  moreover have "?t \<le> sp_maxRuntimeMs (sb_policy S)" using runtime_allowed [OF schema_timeout [OF assms(2)] run(8)] .
  moreover have "\<exists>base \<in> set (sp_allowedCwdRoots (sb_policy S)). prefix base (resolvePath (sb_cwd S) (sb_workspaceRoot S))"
    using run(6) contained_prefix by (auto simp: isCwdAllowed_def list_ex_iff)
  ultimately show ?thesis
    using run assms(1) schema_timeout [OF assms(2)]
    by (auto simp: isShellInvocation_def matchesDeniedCommandPattern_def hasApproval_def list_ex_iff)
qed

lemma proposePatch_authorised:
  assumes "op_kind o1 = PROPOSE_PATCH" and "op_path o1 = Some path" and "prefix (sandboxRoot S) p" and "e \<in> set (fst (proposePatch S o1 p))"
  shows "authorised S o1 e"
proof -
  have "e = WriteFile p (case op_content o1 of Some c \<Rightarrow> c | None \<Rightarrow> [])" "hasApproval S FILE_WRITE path (Some (pathText p))"
    using assms(2,4) unfolding proposePatch_def Let_def by (auto split: if_splits)
  with assms show ?thesis by (auto simp: hasApproval_def list_ex_iff)
qed

lemma operate_authorised:
  assumes "[] \<notin> set (sp_allowedCommands (sb_policy S))" and "e \<in> set (fst (operate S before after o1))"
  shows "authorised S o1 e"
proof -
  from assms(2) have schema: "SandboxOperationSchema o1" and "\<not> before" by (auto simp: operate_def split: if_splits)
  show ?thesis
  proof (cases "op_kind o1 = RUN_COMMAND")
    case True
    then have "e \<in> set (fst (runCommand S after o1))" using assms(2) schema \<open>\<not> before\<close> by (simp add: operate_def)
    with True schema assms(1) show ?thesis by (intro runCommand_authorised)
  next
    case False
    obtain p where p: "resolveWithinWorkspace (sb_realpath S) (sb_cwd S) (sb_workspaceRoot S) (case op_path o1 of Some p \<Rightarrow> p | None \<Rightarrow> []) = Inr p"
      using assms(2) schema \<open>\<not> before\<close> False by (auto simp: operate_def split: sum.splits)
    then obtain path where path: "op_path o1 = Some path"
      by (cases "op_path o1") (auto simp: resolveWithinWorkspace_def js_trim_def)
    note inside = resolve_contained(1) [OF p]
    show ?thesis
    proof (cases "op_kind o1")
      case PROPOSE_PATCH
      then have "e \<in> set (fst (proposePatch S o1 p))" using assms(2) schema \<open>\<not> before\<close> p by (simp add: operate_def)
      with PROPOSE_PATCH path inside show ?thesis by (intro proposePatch_authorised)
    qed (use assms(2) schema \<open>\<not> before\<close> p inside False in \<open>auto simp: operate_def\<close>)
  qed
qed

lemma operate_result:
  assumes "operate S before after o1 = (fx, out)"
  shows "length fx \<le> 1" and "out = Inr r \<Longrightarrow> or_status r = SB_DENIED \<Longrightarrow> or_resolvedPath r = None"
    and "out = Inr r \<Longrightarrow> or_status r = SB_DENIED \<or> or_status r = SB_NEEDS_APPROVAL \<Longrightarrow> fx = [] \<or> op_kind o1 = RUN_COMMAND"
proof -
  note defs = runCommand_def proposePatch_def commandResult_def denied_def plain_result_def Let_def
  have run: "length (fst (runCommand S a o1)) \<le> 1" "snd (runCommand S a o1) = Inr r \<Longrightarrow> or_resolvedPath r = None" for a r
    by (auto simp: defs split: if_splits option.splits prod.splits)
  have patch: "length (fst (proposePatch S o1 p)) \<le> 1"
    "snd (proposePatch S o1 p) = Inr r \<Longrightarrow> or_status r \<noteq> SB_DENIED \<and> (or_status r = SB_NEEDS_APPROVAL \<longrightarrow> fst (proposePatch S o1 p) = [])" for p r
    by (auto simp: defs split: if_splits)
  show "length fx \<le> 1" using assms run(1) [of after] patch(1)
    by (auto simp: operate_def split: if_splits sum.splits operation_kind.splits) (metis fst_conv)+
  show "or_resolvedPath r = None" if "out = Inr r" "or_status r = SB_DENIED"
    using assms that run(2) [of after r] patch(2)
    by (auto simp: operate_def denied_def plain_result_def split: if_splits sum.splits operation_kind.splits option.splits) (metis snd_conv)+
  show "fx = [] \<or> op_kind o1 = RUN_COMMAND" if "out = Inr r" "or_status r = SB_DENIED \<or> or_status r = SB_NEEDS_APPROVAL"
    using assms that patch(2) [of _ r]
    by (auto simp: operate_def denied_def plain_result_def split: if_splits sum.splits operation_kind.splits option.splits) (metis fst_conv snd_conv)+
qed

section \<open>Properties\<close>


text \<open>
  The containment check is sound and loses nothing. A path that is let through is relative, has no
  parent segment and leads to a place at or below the real workspace root, whatever links exist; where
  there are no links, an ordinary relative path is let through and leads to its segments below the root.
\<close>

lemma workspace_paths_contained:
  "(\<forall>p. resolveWithinWorkspace realpath cwd workspaceRoot path = Inr p \<longrightarrow>
       prefix (realRoot realpath cwd workspaceRoot) p \<and> \<not> isAbsolutePath path \<and> \<not> hasParentTraversalSegment path)
   \<and> ((\<forall>q r. realpath q = Some r \<longrightarrow> r = q) \<and> isSafeRelativePath path \<and> CHR 0x5C \<notin> set path \<and> js_trim path \<noteq> [] \<and> \<not> startsWith path ''..'' \<longrightarrow>
       resolveWithinWorkspace realpath cwd workspaceRoot path = Inr (realRoot realpath cwd workspaceRoot @ split_char (CHR ''/'') path))"
  using resolve_contained [of realpath cwd workspaceRoot path] resolve_plain [of realpath path cwd workspaceRoot] by simp

text \<open>
  Captured output is bounded and honest: what is kept is a beginning of the stream of at most the
  allowed number of bytes, the loop that cuts it ends, at most one byte that would have fitted is lost,
  and the stream is reported as cut exactly when it was longer.
\<close>

lemma captured_streams_bounded:
  "byteLength (fst (captureStream stream maxBytes)) \<le> maxBytes \<and> prefix (fst (captureStream stream maxBytes)) stream
   \<and> min maxBytes (byteLength stream) \<le> Suc (byteLength (fst (captureStream stream maxBytes)))
   \<and> (snd (captureStream stream maxBytes) \<longleftrightarrow> maxBytes < byteLength stream)"
proof (cases "byteLength stream \<le> maxBytes")
  case True
  then show ?thesis by (simp add: captureStream_def truncateToBytes_def Let_def)
next
  case False
  then have "captureStream stream maxBytes = (truncateLoop maxBytes stream, truncateLoop maxBytes stream \<noteq> stream)"
    by (simp add: captureStream_def truncateToBytes_def Let_def)
  moreover have "truncateLoop maxBytes stream \<noteq> stream" using truncateLoop_bounded [of maxBytes stream] False by auto
  ultimately show ?thesis using truncateLoop_bounded [of maxBytes stream] truncateLoop_close [of maxBytes stream] False by auto
qed

definition sample_sandbox_policy :: policy_input where
  "sample_sandbox_policy = \<lparr>pi_allowedCommands = Some [''npm''], pi_deniedCommandPatterns = None, pi_allowedCwdRoots = None,
     pi_maxStdoutBytes = None, pi_maxStderrBytes = None, pi_maxRuntimeMs = None, pi_approvalRequiredAboveRuntimeMs = None,
     pi_networkAllowed = None, pi_secretsInjectionAllowed = None, pi_allowShellOperators = None\<rparr>"

definition sample_sandbox :: sandbox where
  "sample_sandbox =
     \<lparr>sb_workspaceRoot = ''/w'', sb_cwd = [],
      sb_policy = createSandboxPolicy [] sample_sandbox_policy ''/w'' None,
      sb_riskyCommands = [], sb_approvals = [\<lparr>sa_id = ''a'', sa_scope = FILE_WRITE, sa_target = ''f'', sa_approvedBy = ''u''\<rparr>],
      sb_now = ''t'', sb_realpath = Some, sb_readFile = (\<lambda>_. None), sb_readdir = (\<lambda>_. None), sb_writable = (\<lambda>_. True),
      sb_commandRunner = (\<lambda>_ _ _ _. None), sb_numStr = (\<lambda>_. ''n'')\<rparr>"

definition sample_patch :: sandbox_operation where
  "sample_patch = \<lparr>op_kind = PROPOSE_PATCH, op_path = Some ''f'', op_operation = Some PatchDelete, op_content = None, op_command = None,
     op_args = [], op_timeoutMs = None, op_approvalId = None, op_metadata = []\<rparr>"

text \<open>An approved patch that deletes a file writes it instead, empty when it has no content.\<close>

lemma approved_delete_writes: "fst (operate sample_sandbox False False sample_patch) = [WriteFile [''w'', ''f''] []]"
  by code_simp


end
