(* ===== verification/Sandbox_Executor_Correct.thy ===== *)
theory Sandbox_Executor_Correct
  imports Sandbox_Executor Tool_Correct Dag_Executor_Correct Sandbox_Safety
begin

text \<open>
  What a graph does when it is run through the sandbox: it always ends with one result for each node, in
  dependency order, and whatever it did to the host was done by operations of nodes whose dependencies
  had succeeded, that the tool policy of the node admitted, within the budget of tool calls.
\<close>

section \<open>One call\<close>

text \<open>One operation on the host.\<close>

definition perform :: "(nat \<Rightarrow> host_step) \<Rightarrow> sandbox_operation \<Rightarrow> host_state \<Rightarrow> host_state" where
  "perform host o1 h =
     (let s = host (ho_count h)
      in \<lparr>ho_count = Suc (ho_count h), ho_effects = ho_effects h @ fst (operate (hs_sandbox s) (hs_abortedBefore s) (hs_abortedAfter s) o1)\<rparr>)"

text \<open>
  A registry that holds the built-in tools. The default registry does, and so does every registry made
  from it by registering more tools, since a name that is taken is refused.
\<close>

definition has_builtins :: "tool_env \<Rightarrow> (nat \<Rightarrow> host_step) \<Rightarrow> host_state tool_registry \<Rightarrow> bool" where
  "has_builtins N host entries \<longleftrightarrow> (\<forall>e \<in> set (builtinToolEntries N host). js_get entries (td_name (rg_definition e)) = Some e)"

lemma default_registry:
  "createDefaultToolRegistry N host = Inr (map (\<lambda>e. (td_name (rg_definition e), e)) (builtinToolEntries N host))"
  by (simp add: createDefaultToolRegistry_def builtinToolEntries_def builtinEntry_def register_def ToolSchemaDefinitionSchema_def js_has_def)

lemma default_has_builtins: "createDefaultToolRegistry N host = Inr entries \<Longrightarrow> has_builtins N host entries"
  by (auto simp: default_registry has_builtins_def builtinToolEntries_def builtinEntry_def)

lemma register_keeps_builtins: "register e entries = Inr entries' \<Longrightarrow> has_builtins N host entries \<Longrightarrow> has_builtins N host entries'"
  by (fastforce simp: register_def has_builtins_def js_has_def split: if_splits)

definition node_tools :: "string set" where
  "node_tools = {''sandbox.execute'', ''workspace.read_file'', ''workspace.list_dir'', ''workspace.apply_patch''}"

lemma node_tool_name: "mapSandboxOperationToToolName op \<in> node_tools"
  by (simp add: mapSandboxOperationToToolName_def node_tools_def Let_def)

lemma default_registry_entry:
  assumes "has_builtins N host entries" and "name \<in> node_tools"
  obtains entry kind where "js_get entries name = Some entry" and "rg_handler entry = runSandboxOperation N host name kind"
    and "rg_checkFn entry = None" and "\<not> rg_module entry"
  using assms unfolding has_builtins_def node_tools_def
  by (auto simp: builtinToolEntries_def builtinEntry_def)

lemma run_operation_host:
  assumes "runSandboxOperation N host name kind [(''operation'', JObj op)] ctx h = (out, h')"
  shows "h' = h \<or> (\<exists>o1. parseOperation op = Some o1 \<and> h' = perform host o1 h)"
  using assms
  by (auto simp: runSandboxOperation_def operationFromArgs_def jfield_def perform_def Let_def split: option.splits prod.splits sum.splits)

lemma dispatch_host:
  assumes "has_builtins N host entries" and "name \<in> node_tools"
    and "dispatchTool N ttl entries name [(''operation'', JObj op)] ctx w = (out, w')"
  shows "tw_host w' = tw_host w \<or> (\<exists>o1. parseOperation op = Some o1 \<and> tw_host w' = perform host o1 (tw_host w))"
proof -
  obtain entry kind where e: "js_get entries name = Some entry" "rg_handler entry = runSandboxOperation N host name kind"
    "rg_checkFn entry = None" "\<not> rg_module entry"
    by (rule default_registry_entry [OF assms(1,2)])
  obtain r h where h: "runSandboxOperation N host name kind [(''operation'', JObj op)] ctx (tw_host w) = (r, h)" by force
  have "tw_host w' = h" using assms(3) e h by (auto simp: dispatchTool_def checkAvailability_def Let_def)
  with run_operation_host [OF h] show ?thesis by simp
qed

text \<open>What is left of the budget of tool calls.\<close>

definition calls_left :: "host_state tool_world \<Rightarrow> int option" where
  "calls_left w = map_option toolCallsRemaining (tw_turnBudget w)"

definition node_policy :: "dag_node \<Rightarrow> json_record option" where
  "node_policy node = recordFrom (optField (nd_metadata node) ''toolPolicy'')"

definition callAdmitted :: "tool_env \<Rightarrow> sx_deps \<Rightarrow> dag_node \<Rightarrow> sandbox_operation \<Rightarrow> bool" where
  "callAdmitted N D node o1 \<longleftrightarrow> (\<exists>op. nodeMapping N D node = Some op \<and> parseOperation op = Some o1
     \<and> policyAllows N (node_policy node) (mapSandboxOperationToToolName op))"

definition call_effect :: "tool_env \<Rightarrow> sx_deps \<Rightarrow> (nat \<Rightarrow> host_step) \<Rightarrow> dag_node \<Rightarrow> sandbox_operation option
    \<Rightarrow> host_state tool_world \<Rightarrow> host_state tool_world \<Rightarrow> bool" where
  "call_effect N D host node call w w' \<longleftrightarrow>
     (case call of None \<Rightarrow> tw_host w' = tw_host w | Some o1 \<Rightarrow> callAdmitted N D node o1 \<and> tw_host w' = perform host o1 (tw_host w))
     \<and> (case calls_left w of None \<Rightarrow> calls_left w' = None
        | Some k \<Rightarrow> \<exists>k'. calls_left w' = Some k' \<and> k' + (if call = None then 0 else 1) \<le> k \<and> 0 \<le> k')"

lemma consumed_left:
  "toolCallsRemaining (snd (consumeToolCall b)) + (if fst (consumeToolCall b) then 1 else 0) = toolCallsRemaining b"
  by (auto simp: consumeToolCall_def toolCallsRemaining_def)

lemma calls_left_consumed:
  assumes "tw_turnBudget w' = map_option (snd \<circ> consumeToolCall) (tw_turnBudget w)"
    and "c \<noteq> None \<Longrightarrow> (\<forall>tb. tw_turnBudget w = Some tb \<longrightarrow> fst (consumeToolCall tb))"
  shows "case calls_left w of None \<Rightarrow> calls_left w' = None
    | Some k \<Rightarrow> \<exists>k'. calls_left w' = Some k' \<and> k' + (if c = None then 0 else 1) \<le> k \<and> 0 \<le> k'"
proof (cases "tw_turnBudget w")
  case None
  then show ?thesis using assms(1) by (simp add: calls_left_def)
next
  case (Some tb)
  have "0 \<le> toolCallsRemaining (snd (consumeToolCall tb))" by (simp add: toolCallsRemaining_def)
  with Some assms consumed_left [of tb] show ?thesis by (cases c) (auto simp: calls_left_def split: if_splits)
qed

text \<open>What the execution of one node leaves behind.\<close>

lemma execute_node_effect:
  assumes reg: "has_builtins N host (sx_registry D)"
    and run: "executeNodeThroughSandbox E N D runId i node deps st = (r, st')"
  shows "xs_core st' = xs_core st" and "\<exists>call. call_effect N D host node call (xs_world st) (xs_world st')"
proof -
  show "xs_core st' = xs_core st"
    using run by (auto simp: executeNodeThroughSandbox_def readClock_def Let_def split: option.splits prod.splits sum.splits)
  show "\<exists>call. call_effect N D host node call (xs_world st) (xs_world st')"
  proof (cases "nodeMapping N D node")
    case None
    then have "xs_world st' = xs_world st" using run by (auto simp: executeNodeThroughSandbox_def mapDagNodeToToolCall_def readClock_def)
    then show ?thesis by (auto simp: call_effect_def calls_left_def toolCallsRemaining_def intro!: exI [of _ None] split: option.split)
  next
    case (Some op)
    let ?name = "mapSandboxOperationToToolName op"
    obtain hint where "\<exists>out. runToolWithMiddleware N (sx_ttl D) (sx_registry D) DEFAULT_TOOL_MIDDLEWARE ?name [(''operation'', JObj op)]
        (nodeContext D runId i node hint) (xs_world st) = (out, xs_world st')"
      using run Some by (fastforce simp: executeNodeThroughSandbox_def mapDagNodeToToolCall_def readClock_def Let_def
          split: option.splits prod.splits sum.splits)
    then obtain out where tool: "runToolWithMiddleware N (sx_ttl D) (sx_registry D) DEFAULT_TOOL_MIDDLEWARE ?name [(''operation'', JObj op)]
        (nodeContext D runId i node hint) (xs_world st) = (out, xs_world st')" by blast
    note chain = default_chain [OF tool]
    have policy: "cx_toolPolicy (nodeContext D runId i node hint) = node_policy node" by (simp add: nodeContext_def node_policy_def)
    note left = calls_left_consumed [OF conjunct1 [OF conjunct2 [OF chain]]]
    from chain consider (idle) "tw_host (xs_world st') = tw_host (xs_world st)"
      | (called) w1 w2 out1 where "policyAllows N (node_policy node) ?name" "\<forall>tb. tw_turnBudget (xs_world st) = Some tb \<longrightarrow> fst (consumeToolCall tb)"
        "tw_host w1 = tw_host (xs_world st)" "tw_host (xs_world st') = tw_host w2"
        "dispatchTool N (sx_ttl D) (sx_registry D) ?name [(''operation'', JObj op)] (nodeContext D runId i node hint) w1 = (out1, w2)"
      unfolding policy by metis
    then show ?thesis
    proof cases
      case idle
      then show ?thesis using left [of None] by (intro exI [of _ None]) (simp add: call_effect_def)
    next
      case called
      from dispatch_host [OF reg node_tool_name called(5)] consider "tw_host w2 = tw_host w1"
        | o1 where "parseOperation op = Some o1" "tw_host w2 = perform host o1 (tw_host w1)" by blast
      then show ?thesis
      proof cases
        case 1
        then show ?thesis using left [of None] called(3,4) by (intro exI [of _ None]) (simp add: call_effect_def)
      next
        case 2
        then show ?thesis using left [of "Some o1"] called Some by (intro exI [of _ "Some o1"]) (auto simp: call_effect_def callAdmitted_def)
      qed
    qed
  qed
qed

section \<open>The loop\<close>

definition attempted :: "node_result \<Rightarrow> bool" where
  "attempted r \<longleftrightarrow> nr_status r = NodeSuccess \<or> nr_status r = NodeFailed"

definition made_for :: "dag_node \<Rightarrow> string list \<Rightarrow> node_result \<Rightarrow> bool" where
  "made_for node deps r \<longleftrightarrow> nr_nodeId r = nd_id node \<and> nr_dependencies r = deps \<and> attempted r"

lemma nodeResult_made [simp]: "made_for node deps (nodeResult node deps status t1 t2 out err) \<longleftrightarrow> status = NodeSuccess \<or> status = NodeFailed"
  by (simp add: made_for_def nodeResult_def attempted_def)

lemma validation_made: "validationNodeResultWithoutSandbox numStr node deps m now = Some r \<Longrightarrow> made_for node deps r"
  by (auto simp: validationNodeResultWithoutSandbox_def Let_def split: if_splits option.splits)

lemma noop_made: "made_for node deps (noopNodeResult N D node deps m now)"
  unfolding noopNodeResult_def Let_def using validation_made by (auto split: option.split)

lemma other_made:
  "made_for node deps (thrownNodeResult node deps msg now)" "made_for node deps (nodeResultFromToolResult node deps name tool now)"
  "made_for node deps (nodeResultFromOperation node deps t name tool)"
  by (simp_all add: thrownNodeResult_def nodeResultFromToolResult_def nodeResultFromOperation_def Let_def)

lemma execute_node_result: "executeNodeThroughSandbox E N D runId i node deps st = (r, st') \<Longrightarrow> made_for node deps r"
  by (auto simp: executeNodeThroughSandbox_def readClock_def Let_def noop_made other_made split: option.splits prod.splits sum.splits)

text \<open>One entry of the report: the result of the node and the operation it performed on the host, if any.\<close>

definition sandbox_entry :: "tool_env \<Rightarrow> sx_deps \<Rightarrow> deps_map \<Rightarrow> node_result list \<Rightarrow> dag_node \<Rightarrow> node_result \<Rightarrow> sandbox_operation option \<Rightarrow> bool" where
  "sandbox_entry N D deps before node r call \<longleftrightarrow>
     nr_nodeId r = nd_id node \<and> nr_dependencies r = sortedDeps deps node
     \<and> (if blockedBy (sortedDeps deps node) (indexed before) \<noteq> [] then nr_status r = NodeSkipped else nr_status r = NodeSkipped \<or> attempted r)
     \<and> (case call of None \<Rightarrow> True | Some o1 \<Rightarrow> attempted r \<and> callAdmitted N D node o1)"

fun sandbox_report :: "tool_env \<Rightarrow> sx_deps \<Rightarrow> deps_map \<Rightarrow> node_result list \<Rightarrow> dag_node list \<Rightarrow> (node_result \<times> sandbox_operation option) list \<Rightarrow> bool" where
  "sandbox_report N D deps before [] es = (es = [])"
| "sandbox_report N D deps before (n # ns) es =
     (case es of [] \<Rightarrow> False | (r, call) # es' \<Rightarrow> sandbox_entry N D deps before n r call \<and> sandbox_report N D deps (before @ [r]) ns es')"

definition calls_of :: "(node_result \<times> sandbox_operation option) list \<Rightarrow> sandbox_operation list" where
  "calls_of es = List.map_filter snd es"

lemma calls_of_simps [simp]:
  "calls_of [] = []" "calls_of ((r, None) # es) = calls_of es" "calls_of ((r, Some o1) # es) = o1 # calls_of es"
  by (simp_all add: calls_of_def map_filter_def)

definition host_effect :: "(nat \<Rightarrow> host_step) \<Rightarrow> sandbox_operation list \<Rightarrow> host_state tool_world \<Rightarrow> host_state tool_world \<Rightarrow> bool" where
  "host_effect host os w w' \<longleftrightarrow> tw_host w' = fold (perform host) os (tw_host w)
     \<and> (case calls_left w of None \<Rightarrow> calls_left w' = None
        | Some k \<Rightarrow> \<exists>k'. calls_left w' = Some k' \<and> k' + int (length os) \<le> k \<and> 0 \<le> k')"

lemma host_effect_refl [simp]: "host_effect host [] w w"
  by (auto simp: host_effect_def calls_left_def toolCallsRemaining_def split: option.split)

lemma host_effect_step:
  assumes "call_effect N D host node call w w1" and "host_effect host os w1 w2"
  shows "host_effect host (case call of None \<Rightarrow> os | Some o1 \<Rightarrow> o1 # os) w w2"
  using assms by (cases call; cases "calls_left w") (auto simp: host_effect_def call_effect_def)

lemma append_event_core [simp]:
  "st_nodeResults (xs_core (appendEventAt D b st)) = st_nodeResults (xs_core st)"
  "st_resultsByNode (xs_core (appendEventAt D b st)) = st_resultsByNode (xs_core st)"
  "xs_world (appendEventAt D b st) = xs_world st"
  by (simp_all add: appendEventAt_def readClock_def appendExecEvent_def)

lemma readClock_core: "readClock D st = (now, st') \<Longrightarrow> xs_core st' = xs_core st \<and> xs_world st' = xs_world st"
  by (auto simp: readClock_def)

lemma addResult_world [simp]: "xs_world (addResult r st) = xs_world st"
  "st_nodeResults (xs_core (addResult r st)) = st_nodeResults (xs_core st) @ [r]"
  by (simp_all add: addResult_def recordResult_def)

lemma consistent_append [simp]: "consistent (xs_core (appendEventAt D b st)) \<longleftrightarrow> consistent (xs_core st)"
  by (simp add: consistent_def)

lemma addResult_consistent:
  "consistent (xs_core st) \<Longrightarrow> nr_nodeId r \<notin> nr_nodeId ` set (st_nodeResults (xs_core st)) \<Longrightarrow> consistent (xs_core (addResult r st))"
  by (simp add: addResult_def recordResult_consistent)

lemma sandbox_node_entry:
  assumes reg: "has_builtins N host (sx_registry D)" and con: "consistent (xs_core st)"
    and fresh: "nd_id node \<notin> nr_nodeId ` set (st_nodeResults (xs_core st))"
  obtains r call where "sandbox_entry N D deps (st_nodeResults (xs_core st)) node r call"
    and "st_nodeResults (xs_core (sandboxNode E N D runId deps i node st)) = st_nodeResults (xs_core st) @ [r]"
    and "consistent (xs_core (sandboxNode E N D runId deps i node st))"
    and "call_effect N D host node call (xs_world st) (xs_world (sandboxNode E N D runId deps i node st))"
proof -
  let ?ds = "sortedDeps deps node" and ?st' = "sandboxNode E N D runId deps i node st"
  have idx: "st_resultsByNode (xs_core st) = indexed (st_nodeResults (xs_core st))" using con by (simp add: consistent_def)
  show thesis
  proof (cases "blockedBy ?ds (st_resultsByNode (xs_core st)) = []")
    case False
    let ?error = "blockedError node (blockedBy ?ds (st_resultsByNode (xs_core st)))"
    obtain now st1 where clock: "readClock D st = (now, st1)" by force
    let ?r = "skippedResult node ?ds now ?error"
    have st': "?st' = appendEventAt D (skip_event node ?error) (addResult ?r st1)"
      using False clock by (simp add: sandboxNode_def Let_def)
    have core: "xs_core st1 = xs_core st" "xs_world st1 = xs_world st" using readClock_core [OF clock] by simp_all
    show thesis
    proof (rule that [of ?r None])
      show "sandbox_entry N D deps (st_nodeResults (xs_core st)) node ?r None"
        using False idx by (simp add: sandbox_entry_def skippedResult_def)
      show "consistent (xs_core ?st')"
        unfolding st' using con fresh core by (simp add: addResult_consistent skippedResult_def)
      show "call_effect N D host node None (xs_world st) (xs_world ?st')"
        unfolding st' using core by (auto simp: call_effect_def calls_left_def toolCallsRemaining_def split: option.split)
    qed (use st' core in simp)
  next
    case True
    let ?st0 = "appendEventAt D (callEvent N D node NodeStarted False None None None) st"
    obtain r st1 where run: "executeNodeThroughSandbox E N D runId i node ?ds ?st0 = (r, st1)" by force
    have st': "?st' = appendEventAt D (resultEvent N D node r) (addResult r st1)"
      using True run by (simp add: sandboxNode_def Let_def)
    obtain call where call: "call_effect N D host node call (xs_world st) (xs_world st1)"
      using execute_node_effect(2) [OF reg run] by auto
    note core = execute_node_effect(1) [OF reg run]
    have result: "nr_nodeId r = nd_id node" "nr_dependencies r = ?ds" "attempted r"
      using execute_node_result [OF run] by (simp_all add: made_for_def)
    show thesis
    proof (rule that [of r call])
      show "sandbox_entry N D deps (st_nodeResults (xs_core st)) node r call"
        using True idx result call by (auto simp: sandbox_entry_def call_effect_def split: option.splits)
      show "consistent (xs_core ?st')"
        unfolding st' using con fresh core result(1) by (simp add: addResult_consistent)
    qed (use st' core call in simp_all)
  qed
qed

lemma abort_node_entry:
  assumes con: "consistent (xs_core st)" and fresh: "nd_id node \<notin> nr_nodeId ` set (st_nodeResults (xs_core st))"
  obtains r where "sandbox_entry N D deps (st_nodeResults (xs_core st)) node r None"
    and "st_nodeResults (xs_core (abortSandboxNode D deps node st)) = st_nodeResults (xs_core st) @ [r]"
    and "consistent (xs_core (abortSandboxNode D deps node st))" and "xs_world (abortSandboxNode D deps node st) = xs_world st"
proof -
  obtain now st1 where clock: "readClock D st = (now, st1)" by force
  let ?error = "abortExecutionError (nd_id node)"
  let ?r = "(skippedResult node (sortedDeps deps node) now ?error)\<lparr>nr_output := Some (abortedOutput node)\<rparr>"
  have st': "abortSandboxNode D deps node st = appendEventAt D (skip_event node ?error) (addResult ?r st1)"
    using clock by (simp add: abortSandboxNode_def Let_def)
  have core: "xs_core st1 = xs_core st" "xs_world st1 = xs_world st" using readClock_core [OF clock] by simp_all
  show thesis
  proof (rule that [of ?r])
    show "consistent (xs_core (abortSandboxNode D deps node st))"
      unfolding st' using con fresh core by (simp add: addResult_consistent skippedResult_def)
  qed (use st' core in \<open>simp_all add: sandbox_entry_def skippedResult_def attempted_def\<close>)
qed

lemma abort_nodes_report:
  assumes "consistent (xs_core st)" and "distinct (map nd_id ns)"
    and "nr_nodeId ` set (st_nodeResults (xs_core st)) \<inter> nd_id ` set ns = {}"
  shows "\<exists>es. sandbox_report N D deps (st_nodeResults (xs_core st)) ns es
    \<and> st_nodeResults (xs_core (fold (abortSandboxNode D deps) ns st)) = st_nodeResults (xs_core st) @ map fst es
    \<and> calls_of es = [] \<and> consistent (xs_core (fold (abortSandboxNode D deps) ns st)) \<and> xs_world (fold (abortSandboxNode D deps) ns st) = xs_world st"
  using assms
proof (induction ns arbitrary: st)
  case Nil
  then show ?case by simp
next
  case (Cons n ns)
  obtain r where r: "sandbox_entry N D deps (st_nodeResults (xs_core st)) n r None"
    "st_nodeResults (xs_core (abortSandboxNode D deps n st)) = st_nodeResults (xs_core st) @ [r]"
    "consistent (xs_core (abortSandboxNode D deps n st))" "xs_world (abortSandboxNode D deps n st) = xs_world st"
    by (rule abort_node_entry [OF Cons.prems(1)]) (use Cons.prems(3) in auto)
  have "nr_nodeId r = nd_id n" using r(1) by (simp add: sandbox_entry_def)
  then have "nr_nodeId ` set (st_nodeResults (xs_core (abortSandboxNode D deps n st))) \<inter> nd_id ` set ns = {}"
    using Cons.prems(2,3) r(2) by auto
  from Cons.IH [OF r(3) _ this] Cons.prems(2) obtain es where
    "sandbox_report N D deps (st_nodeResults (xs_core st) @ [r]) ns es"
    "st_nodeResults (xs_core (fold (abortSandboxNode D deps) ns (abortSandboxNode D deps n st))) = st_nodeResults (xs_core st) @ r # map fst es"
    "calls_of es = []" "consistent (xs_core (fold (abortSandboxNode D deps) ns (abortSandboxNode D deps n st)))"
    "xs_world (fold (abortSandboxNode D deps) ns (abortSandboxNode D deps n st)) = xs_world st"
    using r(2,4) by auto
  with r(1) show ?case by (intro exI [of _ "(r, None) # es"]) simp
qed

lemma sandbox_nodes_report:
  assumes reg: "has_builtins N host (sx_registry D)"
    and "sandboxNodes E N D runId deps i ns st = (st', aborted)" and "consistent (xs_core st)" and "distinct (map nd_id ns)"
    and "nr_nodeId ` set (st_nodeResults (xs_core st)) \<inter> nd_id ` set ns = {}"
  shows "\<exists>es. sandbox_report N D deps (st_nodeResults (xs_core st)) ns es \<and> st_nodeResults (xs_core st') = st_nodeResults (xs_core st) @ map fst es
    \<and> host_effect host (calls_of es) (xs_world st) (xs_world st')"
  using assms(2-)
proof (induction ns arbitrary: st i)
  case Nil
  then show ?case by simp
next
  case (Cons n ns)
  let ?st0 = "interfere D i st"
  have core: "xs_core ?st0 = xs_core st" "xs_world ?st0 = xs_world st" by (simp_all add: interfere_def)
  show ?case
  proof (cases "interruptSeen D i ?st0")
    case True
    then have st': "st' = fold (abortSandboxNode D deps) (n # ns) ?st0" using Cons.prems(1) by (simp add: Let_def)
    from abort_nodes_report [of ?st0 "n # ns" N D deps] Cons.prems(2-4) core obtain es where
      "sandbox_report N D deps (st_nodeResults (xs_core st)) (n # ns) es"
      "st_nodeResults (xs_core st') = st_nodeResults (xs_core st) @ map fst es" "calls_of es = []" "xs_world st' = xs_world st"
      unfolding st' by auto
    then show ?thesis by (intro exI [of _ es]) simp
  next
    case False
    let ?st1 = "sandboxNode E N D runId deps i n ?st0"
    obtain r call where r: "sandbox_entry N D deps (st_nodeResults (xs_core st)) n r call"
      "st_nodeResults (xs_core ?st1) = st_nodeResults (xs_core st) @ [r]" "consistent (xs_core ?st1)"
      "call_effect N D host n call (xs_world st) (xs_world ?st1)"
      using sandbox_node_entry [OF reg, of ?st0 n deps E runId i] Cons.prems(2,4) core by auto
    have "nr_nodeId r = nd_id n" using r(1) by (simp add: sandbox_entry_def)
    then have "nr_nodeId ` set (st_nodeResults (xs_core ?st1)) \<inter> nd_id ` set ns = {}" using Cons.prems(3,4) r(2) by auto
    moreover have "sandboxNodes E N D runId deps (Suc i) ns ?st1 = (st', aborted)" using Cons.prems(1) False by (simp add: Let_def)
    ultimately obtain es where es: "sandbox_report N D deps (st_nodeResults (xs_core st) @ [r]) ns es"
      "st_nodeResults (xs_core st') = st_nodeResults (xs_core st) @ r # map fst es" "host_effect host (calls_of es) (xs_world ?st1) (xs_world st')"
      using Cons.IH [of "Suc i" ?st1] r(2,3) Cons.prems(3) by auto
    have "calls_of ((r, call) # es) = (case call of None \<Rightarrow> calls_of es | Some o1 \<Rightarrow> o1 # calls_of es)" by (cases call) simp_all
    with host_effect_step [OF r(4) es(3)] es r(1) show ?thesis by (intro exI [of _ "(r, call) # es"]) simp
  qed
qed

end
