(* ===== verification/Sandbox_Runs.thy ===== *)
theory Sandbox_Runs
  imports Sandbox_Executor_Correct Dag_Compiler_Correct
begin

text \<open>
  Properties of graphs that run through the sandbox, and of the graphs of accepted plans among them.
\<close>

section \<open>The report is well formed\<close>

definition body_ok :: "event_body \<Rightarrow> bool" where
  "body_ok b \<longleftrightarrow> optNonEmpty (xb_nodeId b) \<and> optNonEmpty (xb_toolName b) \<and> optNonEmpty (xb_approvalGateId b)
     \<and> xb_attempt b \<noteq> Some 0 \<and> optError (xb_error b)"

definition core_ok :: "exec_state \<Rightarrow> bool" where
  "core_ok c \<longleftrightarrow> 1 \<le> st_sequence c \<and> list_all NodeExecutionResultSchema (st_nodeResults c) \<and> list_all ExecutionEventSchema (st_events c)"

lemma append_ok: "core_ok (xs_core st) \<Longrightarrow> body_ok b \<Longrightarrow> core_ok (xs_core (appendEventAt D b st))"
  by (simp add: core_ok_def body_ok_def appendEventAt_def readClock_def appendExecEvent_def ExecutionEventSchema_def)

lemma add_ok: "core_ok (xs_core st) \<Longrightarrow> NodeExecutionResultSchema r \<Longrightarrow> core_ok (xs_core (addResult r st))"
  by (simp add: core_ok_def addResult_def recordResult_def)

lemma nodeResult_schema [simp]:
  "NodeExecutionResultSchema (nodeResult node deps status t1 t2 out err) \<longleftrightarrow> nd_id node \<noteq> [] \<and> optError err \<and> nonEmptyAll deps"
  by (simp add: NodeExecutionResultSchema_def nodeResult_def)

lemma optError_simps [simp]: "optError None" "optError (Some e) \<longleftrightarrow> xe_message e \<noteq> [] \<and> optNonEmpty (xe_nodeId e)"
  by (simp_all add: optError_def ExecutionErrorSchema_def)

lemma optNonEmpty_simps [simp]: "optNonEmpty None" "optNonEmpty (Some s) \<longleftrightarrow> s \<noteq> []"
  by (simp_all add: optNonEmpty_def)

lemma first_error_from: "first_error f xs = Some e \<Longrightarrow> \<exists>x \<in> set xs. f x = Some e"
  by (induction xs) (auto split: option.splits)

lemma inspect_ok: "nd_id node \<noteq> [] \<Longrightarrow> inspectTarget numStr node arts m t = Some e \<Longrightarrow> optError (Some e)"
  by (auto simp: inspectTarget_def validation_error_def Let_def split: option.splits if_splits)

lemma upstream_ok: "nd_id node \<noteq> [] \<Longrightarrow> optError (validateUpstreamOutputsForNode numStr node ts m)"
proof (cases "validateUpstreamOutputsForNode numStr node ts m")
  case (Some e)
  assume id: "nd_id node \<noteq> []"
  show ?thesis
  proof (cases "ts = []")
    case True
    then show ?thesis using Some id by (auto simp: validateUpstreamOutputsForNode_def validation_error_def)
  next
    case False
    then obtain t where "inspectTarget numStr node (stringArrayFrom numStr (optField (nd_input node) ''expectedArtifacts'')) m t = Some e"
      using Some first_error_from by (fastforce simp: validateUpstreamOutputsForNode_def)
    from inspect_ok [OF id this] Some show ?thesis by simp
  qed
qed simp

lemma noop_schema: "nd_id node \<noteq> [] \<Longrightarrow> nonEmptyAll deps \<Longrightarrow> NodeExecutionResultSchema (noopNodeResult N D node deps m now)"
proof -
  assume ok: "nd_id node \<noteq> []" "nonEmptyAll deps"
  have "NodeExecutionResultSchema r" if "validationNodeResultWithoutSandbox (en_numStr N) node deps m now = Some r" for r
    using that ok upstream_ok [OF ok(1)]
    by (auto simp: validationNodeResultWithoutSandbox_def Let_def split: if_splits option.splits) (metis optError_simps(2))+
  moreover have "optError (operationMappingErrorFor node)" using ok(1) by (simp add: operationMappingErrorFor_def Let_def)
  ultimately show ?thesis using ok by (auto simp: noopNodeResult_def Let_def split: option.split)
qed

lemma operation_error_ok: "nodeId \<noteq> [] \<Longrightarrow> optError (executionErrorFromResult nodeId r)"
  by (simp add: Let_def)

lemma tool_error_ok: "ToolResultSchema tool \<Longrightarrow> nodeId \<noteq> [] \<Longrightarrow> optError (executionErrorFromToolResult nodeId tool)"
  by (auto simp: executionErrorFromToolResult_def ToolResultSchema_def split: option.splits)

lemma execute_node_schema:
  assumes "nd_id node \<noteq> []" and "nonEmptyAll deps" and "executeNodeThroughSandbox E N D runId i node deps st = (r, st')"
  shows "NodeExecutionResultSchema r \<and> xs_core st' = xs_core st"
proof (cases "nodeMapping N D node")
  case None
  with assms noop_schema [OF assms(1,2)] show ?thesis
    by (auto simp: executeNodeThroughSandbox_def mapDagNodeToToolCall_def readClock_def)
next
  case (Some op)
  have tool: "ToolResultSchema tool" if "runToolWithMiddleware N ttl reg DEFAULT_TOOL_MIDDLEWARE n args ctx w = (Inr tool, w')" for ttl reg n args ctx w w' tool
    using default_chain [OF that] by blast
  show ?thesis
    using assms Some
    by (auto simp: executeNodeThroughSandbox_def mapDagNodeToToolCall_def readClock_def Let_def thrownNodeResult_def
        nodeResultFromToolResult_def nodeResultFromOperation_def
        simp del: executionErrorFromResult.simps
        dest!: tool intro: tool_error_ok operation_error_ok split: option.splits prod.splits sum.splits)
qed

lemma call_event_ok:
  assumes "nd_id node \<noteq> []" and "optError err" and "optNonEmpty gate"
  shows "body_ok (callEvent N D node type halt gate status err)"
  using assms node_tool_name
  by (auto simp: callEvent_def body_ok_def mapDagNodeToToolCall_def option.map_comp comp_def node_tools_def optNonEmpty_def
      mapSandboxOperationToToolName_def Let_def split: option.split)

lemma result_event_ok:
  assumes "nd_id node \<noteq> []" and "NodeExecutionResultSchema r"
  shows "body_ok (resultEvent N D node r)"
proof -
  have "optNonEmpty (stringOrUndefined v)" for v by (cases v) (simp_all add: stringOrUndefined_def)
  with assms show ?thesis by (auto simp: resultEvent_def Let_def NodeExecutionResultSchema_def intro!: call_event_ok)
qed

lemma skip_ok:
  assumes "nd_id node \<noteq> []" and "xe_message error \<noteq> []" and "xe_nodeId error = Some (nd_id node)" and "nonEmptyAll deps"
  shows "body_ok (skip_event node error)" and "NodeExecutionResultSchema ((skippedResult node deps now error)\<lparr>nr_output := out\<rparr>)"
    and "NodeExecutionResultSchema (skippedResult node deps now error)"
  using assms by (simp_all add: skip_event_def body_ok_def NodeExecutionResultSchema_def skippedResult_def)

lemma sandbox_node_ok:
  assumes "core_ok (xs_core st)" and "nd_id node \<noteq> []" and "nonEmptyAll (sortedDeps deps node)"
  shows "core_ok (xs_core (sandboxNode E N D runId deps i node st))"
proof (cases "blockedBy (sortedDeps deps node) (st_resultsByNode (xs_core st)) = []")
  case True
  obtain r st1 where run: "executeNodeThroughSandbox E N D runId i node (sortedDeps deps node)
      (appendEventAt D (callEvent N D node NodeStarted False None None None) st) = (r, st1)" by force
  note schema = execute_node_schema [OF assms(2,3) run]
  have "core_ok (xs_core st1)" using schema append_ok [OF assms(1) call_event_ok] assms(2) by simp
  then show ?thesis using True run schema result_event_ok [OF assms(2)] by (simp add: sandboxNode_def Let_def append_ok add_ok)
next
  case False
  let ?error = "blockedError node (blockedBy (sortedDeps deps node) (st_resultsByNode (xs_core st)))"
  have "xe_message ?error \<noteq> []" "xe_nodeId ?error = Some (nd_id node)" by (simp_all add: blockedError_def)
  note ok = skip_ok [OF assms(2) this assms(3)]
  show ?thesis using False assms(1) ok by (simp add: sandboxNode_def readClock_def Let_def append_ok add_ok)
qed

lemma abort_node_ok:
  assumes "core_ok (xs_core st)" and "nd_id node \<noteq> []" and "nonEmptyAll (sortedDeps deps node)"
  shows "core_ok (xs_core (abortSandboxNode D deps node st))"
proof -
  let ?error = "abortExecutionError (nd_id node)"
  have "xe_message ?error \<noteq> []" "xe_nodeId ?error = Some (nd_id node)" by (simp_all add: abortExecutionError_def)
  note ok = skip_ok [OF assms(2) this assms(3)]
  show ?thesis using assms(1) ok by (simp add: abortSandboxNode_def readClock_def Let_def append_ok add_ok)
qed

lemma sandbox_nodes_ok:
  assumes "sandboxNodes E N D runId deps i ns st = (st', aborted)" and "core_ok (xs_core st)"
    and "\<And>n. n \<in> set ns \<Longrightarrow> nd_id n \<noteq> [] \<and> nonEmptyAll (sortedDeps deps n)"
  shows "core_ok (xs_core st') \<and> optNonEmpty aborted"
  using assms
proof (induction ns arbitrary: st i)
  case Nil
  then show ?case by simp
next
  case (Cons n ns)
  have fold: "core_ok (xs_core (fold (abortSandboxNode D deps) ms s))"
    if "core_ok (xs_core s)" "\<And>n. n \<in> set ms \<Longrightarrow> nd_id n \<noteq> [] \<and> nonEmptyAll (sortedDeps deps n)" for ms s
    using that by (induction ms arbitrary: s) (simp_all add: abort_node_ok)
  have core: "xs_core (interfere D i st) = xs_core st" by (simp add: interfere_def)
  show ?case
  proof (cases "interruptSeen D i (interfere D i st)")
    case True
    then show ?thesis using Cons.prems core fold [of "interfere D i st" "n # ns"] by (auto simp: Let_def)
  next
    case False
    then have "sandboxNodes E N D runId deps (Suc i) ns (sandboxNode E N D runId deps i n (interfere D i st)) = (st', aborted)"
      using Cons.prems(1) by (simp add: Let_def)
    from Cons.IH [OF this] show ?thesis using sandbox_node_ok Cons.prems(2,3) core by simp
  qed
qed

section \<open>The whole run\<close>

lemma sandbox_report_ids: "sandbox_report N D deps before ns es \<Longrightarrow> map nr_nodeId (map fst es) = map nd_id ns"
  by (induction ns arbitrary: before es) (auto simp: sandbox_entry_def split: list.splits prod.splits)

lemma sandbox_report_nth:
  assumes "sandbox_report N D deps before ns es" and "i < length es"
  shows "sandbox_entry N D deps (before @ take i (map fst es)) (ns ! i) (fst (es ! i)) (snd (es ! i))"
  using assms
proof (induction ns arbitrary: before es i)
  case Nil
  then show ?case by simp
next
  case (Cons n ns)
  then obtain r call es' where "es = (r, call) # es'" "sandbox_entry N D deps before n r call" "sandbox_report N D deps (before @ [r]) ns es'"
    by (auto split: list.splits)
  with Cons.IH [of "before @ [r]" es'] Cons.prems(2) show ?case by (cases i) auto
qed

lemma deps_nonempty:
  assumes "DagSchema E g" and "dag_well_formed g" and "n \<in> set (dag_nodes g)"
  shows "nd_id n \<noteq> []" and "nonEmptyAll (sortedDeps (dependencyMap g) n)"
proof -
  have ids: "d \<noteq> []" if "d \<in> set (dag_ids g)" for d
    using that assms(1) by (auto simp: DagSchema_def dag_ids_def list_all_iff DagNodeSchema_def)
  show "nd_id n \<noteq> []" using assms(3) ids by (simp add: dag_ids_def)
  show "nonEmptyAll (sortedDeps (dependencyMap g) n)"
    using ids assms(2) dependencyMap_facts(2) [OF assms(2)] unfolding dag_well_formed_def
    by (auto simp: nonEmptyAll_def list_all_iff sortedDeps_def)
qed

lemma start_core: "xs_core (sandboxStart D w control) = appendExecEvent (dag_event DagStarted None None)
    \<lparr>st_events = [], st_sequence = 1, st_cursorMs = sx_now D 1, st_nodeResults = [], st_resultsByNode = []\<rparr>"
  "xs_world (sandboxStart D w control) = w"
  by (simp_all add: sandboxStart_def appendEventAt_def readClock_def appendExecEvent_def)

lemma complete_ok:
  assumes "core_ok (xs_core st)" and "dag_id g \<noteq> []" and "dag_runId g \<noteq> []" and "optError error"
  shows "\<exists>r st'. completeSandboxDag D g status t0 error st = (Inr r, st') \<and> dr_nodeResults r = st_nodeResults (xs_core st)
     \<and> dr_status r = status \<and> dr_error r = error \<and> xs_world st' = xs_world st"
proof -
  let ?st = "appendEventAt D (dag_event DagCompleted (Some status) error) st"
  have "core_ok (xs_core ?st)" using assms by (intro append_ok) (simp_all add: body_ok_def dag_event_def)
  then show ?thesis using assms(2-)
    by (simp add: completeSandboxDag_def readClock_def buildSandboxResult_def DagExecutionResultSchema_def core_ok_def Let_def)
qed

lemma sandbox_execution:
  assumes valid: "fst (validateDag E issues g)" and reg: "has_builtins N host (sx_registry D)"
    and run: "executeDagThroughSandbox E issues N D g w control = (res, st)"
  obtains ns es r where "set ns = set (dag_nodes g)" and "distinct (map nd_id ns)" and "dep_closed_order (dependencyMap g) (map nd_id ns)"
    and "sandbox_report N D (dependencyMap g) [] ns es" and "res = Inr r" and "dr_nodeResults r = map fst es"
    and "dr_status r = dagStatus (map fst es)" and "host_effect host (calls_of es) w (xs_world st)"
proof -
  have g: "DagSchema E g" "dag_well_formed g" using valid by (simp_all add: validateDag_accepts)
  obtain ns where ns: "topologicalNodes (dag_nodes g) (dependencyMap g) = ns" "set ns = set (dag_nodes g)"
    "distinct (map nd_id ns)" "dep_closed_order (dependencyMap g) (map nd_id ns)"
    by (rule topologicalNodes_order [OF g(2)])
  let ?s0 = "sandboxStart D w control"
  obtain s1 aborted where s1: "sandboxNodes E N D (dag_runId g) (dependencyMap g) 0 ns ?s0 = (s1, aborted)" by force
  have core: "core_ok (xs_core ?s0)" "consistent (xs_core ?s0)" "st_nodeResults (xs_core ?s0) = []" "xs_world ?s0 = w"
    by (simp_all add: start_core core_ok_def consistent_def indexed_def)
      (simp add: appendExecEvent_def ExecutionEventSchema_def dag_event_def)
  obtain es where es: "sandbox_report N D (dependencyMap g) [] ns es" "st_nodeResults (xs_core s1) = map fst es"
    "host_effect host (calls_of es) w (xs_world s1)"
    using sandbox_nodes_report [OF reg s1 core(2) ns(3)] core by auto
  have "core_ok (xs_core s1)" "optNonEmpty aborted"
    using sandbox_nodes_ok [OF s1 core(1)] deps_nonempty [OF g] ns(2) by auto
  moreover have "dag_id g \<noteq> []" "dag_runId g \<noteq> []" using g(1) by (simp_all add: DagSchema_def)
  moreover have "optError (map_option abortExecutionError aborted)"
    using \<open>optNonEmpty aborted\<close> by (cases aborted) (simp_all add: abortExecutionError_def)
  ultimately obtain r st' where r: "completeSandboxDag D g (dagStatus (map fst es)) (sx_now D 0) (map_option abortExecutionError aborted) s1 = (Inr r, st')"
    "dr_nodeResults r = map fst es" "dr_status r = dagStatus (map fst es)" "xs_world st' = xs_world s1"
    using complete_ok [of s1 g "map_option abortExecutionError aborted" D "dagStatus (map fst es)" "sx_now D 0"] es(2) by auto
  have "res = Inr r" "st = st'" using run valid g(1) ns(1) s1 r(1) es(2) by (simp_all add: executeDagThroughSandbox_def Let_def)
  with that [OF ns(2-4) es(1) _ r(2,3)] es(3) r(4) show thesis by simp
qed

lemma performed_effects:
  "\<exists>new. ho_effects (fold (perform host) os h) = ho_effects h @ new
     \<and> (\<forall>e \<in> set new. \<exists>i o1. o1 \<in> set os
          \<and> e \<in> set (fst (operate (hs_sandbox (host i)) (hs_abortedBefore (host i)) (hs_abortedAfter (host i)) o1)))"
proof (induction os arbitrary: h)
  case Nil
  then show ?case by simp
next
  case (Cons o1 os)
  let ?s = "host (ho_count h)"
  let ?fx = "fst (operate (hs_sandbox ?s) (hs_abortedBefore ?s) (hs_abortedAfter ?s) o1)"
  obtain new where "ho_effects (fold (perform host) os (perform host o1 h)) = ho_effects (perform host o1 h) @ new"
    and from_new: "\<forall>e \<in> set new. \<exists>i o2. o2 \<in> set os
        \<and> e \<in> set (fst (operate (hs_sandbox (host i)) (hs_abortedBefore (host i)) (hs_abortedAfter (host i)) o2))"
    using Cons.IH [of "perform host o1 h"] by blast
  moreover have "ho_effects (perform host o1 h) = ho_effects h @ ?fx" by (simp add: perform_def Let_def)
  ultimately have "ho_effects (fold (perform host) (o1 # os) h) = ho_effects h @ ?fx @ new" by simp
  moreover have "\<exists>i o2. o2 \<in> set (o1 # os)
        \<and> e \<in> set (fst (operate (hs_sandbox (host i)) (hs_abortedBefore (host i)) (hs_abortedAfter (host i)) o2))"
    if "e \<in> set (?fx @ new)" for e
    using that from_new by (metis Un_iff list.set_intros set_append)
  ultimately show ?case by blast
qed

lemma calls_of_set: "o1 \<in> set (calls_of es) \<longleftrightarrow> (\<exists>i < length es. snd (es ! i) = Some o1)"
proof -
  have "o1 \<in> set (calls_of es) \<longleftrightarrow> (\<exists>x \<in> set es. snd x = Some o1)"
    by (force simp: calls_of_def map_filter_def)
  then show ?thesis by (metis in_set_conv_nth)
qed

lemma unblocked_succeeded:
  assumes "blockedBy (sortedDeps (dependencyMap g) n) (indexed rs) = []" and "dag_well_formed g" and "distinct (map nr_nodeId rs)"
    and "(nd_id n, nr_nodeId f) \<in> dag_dep g" and "f \<in> set rs"
  shows "succeeded f"
proof -
  have "nr_nodeId f \<in> set (sortedDeps (dependencyMap g) n)" using assms(2,4) by (simp add: sortedDeps_def dependencyMap_facts(2))
  moreover have "js_get (indexed rs) (nr_nodeId f) = Some f" using indexed_get [OF assms(3)] assms(5) by simp
  ultimately show ?thesis using assms(1) blockedBy_iff [of "sortedDeps (dependencyMap g) n" "indexed rs"] by blast
qed

text \<open>A node that performed an operation had all its dependencies completed.\<close>

lemma call_dependencies:
  assumes wf: "dag_well_formed g" and ord: "dep_closed_order (dependencyMap g) (map nd_id ns)" and dist: "distinct (map nd_id ns)"
    and rep: "sandbox_report N D (dependencyMap g) [] ns es" and i: "i < length es" and call: "snd (es ! i) = Some o1"
    and d: "(nr_nodeId (fst (es ! i)), d) \<in> dag_dep g"
  shows "\<exists>j < i. nr_nodeId (fst (es ! j)) = d \<and> succeeded (fst (es ! j))"
proof -
  let ?rs = "map fst es"
  note ids = sandbox_report_ids [OF rep]
  have entry: "sandbox_entry N D (dependencyMap g) (take i ?rs) (ns ! i) (fst (es ! i)) (Some o1)"
    using sandbox_report_nth [OF rep i] call by simp
  obtain j where j: "j < i" "nr_nodeId (?rs ! j) = d"
    using ordered_dependency_before [OF wf ord ids, of i d] i d by auto
  have mem: "?rs ! j \<in> set (take i ?rs)" using j(1) i by (auto simp: in_set_conv_nth)
  have dist': "distinct (map nr_nodeId (take i ?rs))" using dist ids by (metis distinct_take take_map)
  have "succeeded (?rs ! j)"
  proof (rule unblocked_succeeded [OF _ wf dist' _ mem])
    show "blockedBy (sortedDeps (dependencyMap g) (ns ! i)) (indexed (take i ?rs)) = []"
      using entry by (auto simp: sandbox_entry_def attempted_def split: if_splits)
    show "(nd_id (ns ! i), nr_nodeId (?rs ! j)) \<in> dag_dep g" using entry d j(2) by (simp add: sandbox_entry_def)
  qed
  with j i show ?thesis by auto
qed

section \<open>The graphs of accepted plans\<close>

lemma compiled_nodes:
  assumes "compileAcceptedPlanToDag E issues numStr input = Inr g" and "n \<in> set (dag_nodes g)"
  obtains (task) t i ds where "n = taskDagNode t i ds" | (validation) t i k where "n = validationDagNode t i k"
proof -
  obtain plan deps tasks where "g = compiledDag input plan deps tasks"
    using assms(1) by (auto simp: compileAcceptedPlanToDag_def Let_def case_prod_beta split: if_splits option.splits)
  with assms(2) that show thesis by (auto simp: compiledDag_def taskNodes_def validationNodes_def)
qed

lemma hint_field: "jfield (spread [] r) k = (case map_of (rev r) k of None \<Rightarrow> JUndef | Some v \<Rightarrow> v)"
  using spread_get [of "[]" r k] by (simp add: jfield_def split: option.splits)

lemma task_operation:
  assumes "mapDagNodeToOperation numStr (taskDagNode t i ds) = Some op"
  obtains p where "parseOperation op = Some \<lparr>op_kind = PROPOSE_PATCH, op_path = Some p, op_operation = Some PatchUpdate, op_content = Some [],
      op_command = None, op_args = [], op_timeoutMs = None, op_approvalId = None, op_metadata = []\<rparr>"
    and "p \<in> set (pt_expectedArtifacts t)" and "isSafeRelativePath p"
proof -
  let ?n = "taskDagNode t i ds"
  have input: "readOperationHint ?n = spread [] (the (nd_input ?n))"
    by (simp add: readOperationHint_def taskDagNode_def Let_def optField_def jfield_def recordFrom_def orElse_def)
  have hints: "jfield (readOperationHint ?n) ''operationKind'' = JUndef" "jfield (readOperationHint ?n) ''kind'' = JUndef"
    "jfield (readOperationHint ?n) ''approvalId'' = JUndef" "jfield (readOperationHint ?n) ''path'' = JUndef"
    "jfield (readOperationHint ?n) ''content'' = JUndef" "jfield (readOperationHint ?n) ''operation'' = JUndef"
    unfolding input hint_field by (simp_all add: taskDagNode_def Let_def)
  have type: "nd_type ?n = nodeTypeForTask t" "nd_expectedOutputs ?n = pt_expectedArtifacts t" by (simp_all add: taskDagNode_def Let_def)
  have "nodeTypeForTask t = FILE_OPERATION \<or> nodeTypeForTask t = LLM_EXECUTION" using nodeTypeForTask_cases [of t] by auto
  then have fileTask: "nodeTypeForTask t = FILE_OPERATION"
    using assms by (auto simp: mapDagNodeToOperation_def Let_def coalesce_def orElse_def hints type)
  have "mapDagNodeToOperation numStr ?n = map_option (\<lambda>p. [(''kind'', JStr ''PROPOSE_PATCH''), (''path'', JStr p), (''operation'', JStr ''update''),
      (''content'', JStr []), (''approvalId'', JUndef)]) (find isSafeRelativePath (pt_expectedArtifacts t))"
    by (simp add: mapDagNodeToOperation_def Let_def coalesce_def orElse_def stringOrUndefined_def firstSafePath_def patchHint_def optText_def
        hints type fileTask)
  then obtain p where p: "find isSafeRelativePath (pt_expectedArtifacts t) = Some p"
    "op = [(''kind'', JStr ''PROPOSE_PATCH''), (''path'', JStr p), (''operation'', JStr ''update''), (''content'', JStr []), (''approvalId'', JUndef)]"
    using assms by (cases "find isSafeRelativePath (pt_expectedArtifacts t)") auto
  from p(1) have safe: "p \<in> set (pt_expectedArtifacts t)" "isSafeRelativePath p" by (auto simp: find_Some_iff)
  then have "p \<noteq> []" by (auto simp: isSafeRelativePath_def)
  with p(2) that [of p] safe show thesis by (simp add: parseOperation_def jfield_def)
qed

lemma validation_no_operation: "mapDagNodeToOperation numStr (validationDagNode t i k) = None"
proof -
  let ?n = "validationDagNode t i k"
  have "jfield (readOperationHint ?n) f = JUndef" if "f \<in> {''operationKind'', ''kind'', ''command''}" for f
    using that by (auto simp: readOperationHint_def validationDagNode_def Let_def optField_def jfield_def recordFrom_def orElse_def
        hint_field [unfolded jfield_def])
  then show ?thesis
    by (simp add: mapDagNodeToOperation_def Let_def coalesce_def orElse_def stringOrUndefined_def validationDagNode_def)
qed

lemma compiled_operation:
  assumes "compileAcceptedPlanToDag E issues numStr input = Inr g" and "n \<in> set (dag_nodes g)" and "sx_mapNode D = None"
    and "callAdmitted N D n o1"
  shows "op_kind o1 = PROPOSE_PATCH \<and> op_content o1 = Some []"
proof -
  obtain op where op: "mapDagNodeToOperation (en_numStr N) n = Some op" "parseOperation op = Some o1"
    using assms(3,4) by (auto simp: callAdmitted_def nodeMapping_def)
  from assms(1,2) show ?thesis
  proof (cases rule: compiled_nodes)
    case (task t i ds)
    from op(1) [unfolded task] obtain p where "parseOperation op = Some \<lparr>op_kind = PROPOSE_PATCH, op_path = Some p, op_operation = Some PatchUpdate,
        op_content = Some [], op_command = None, op_args = [], op_timeoutMs = None, op_approvalId = None, op_metadata = []\<rparr>"
      by (rule task_operation)
    with op(2) show ?thesis by auto
  next
    case (validation t i k)
    with op(1) show ?thesis by (simp add: validation_no_operation)
  qed
qed

lemma empty_patch_effect:
  assumes "op_kind o1 = PROPOSE_PATCH" and "op_content o1 = Some []" and "e \<in> set (fst (operate S before after o1))"
  shows "\<exists>p. e = WriteFile p []"
  using assms by (auto simp: operate_def proposePatch_def Let_def split: if_splits sum.splits)

lemma rejected_graph_world:
  assumes "\<not> fst (validateDag E issues g)"
  shows "xs_world (snd (executeDagThroughSandbox E issues N D g w control)) = w"
proof -
  have "xs_world (snd (completeSandboxDag D g status t0 error st)) = xs_world st" for status t0 error st
    by (simp add: completeSandboxDag_def readClock_def appendEventAt_def)
  with assms show ?thesis by (simp add: executeDagThroughSandbox_def Let_def start_core)
qed

lemma compiled_effects:
  assumes "compileAcceptedPlanToDag E issues numStr input = Inr g" and "has_builtins N host (sx_registry D)" and "sx_mapNode D = None"
    and "executeDagThroughSandbox E issues' N D g w control = (res, st)" and "fst (validateDag E issues' g)"
  shows "\<exists>new. ho_effects (tw_host (xs_world st)) = ho_effects (tw_host w) @ new \<and> (\<forall>e \<in> set new. \<exists>p. e = WriteFile p [])"
proof -
  obtain ns es where x: "set ns = set (dag_nodes g)" "sandbox_report N D (dependencyMap g) [] ns es"
    "host_effect host (calls_of es) w (xs_world st)"
    by (rule sandbox_execution [OF assms(5,2,4)])
  have len: "length es = length ns" using sandbox_report_ids [OF x(2)] by (metis length_map)
  have "op_kind o1 = PROPOSE_PATCH \<and> op_content o1 = Some []" if call: "o1 \<in> set (calls_of es)" for o1
  proof -
    obtain i where i: "i < length es" "snd (es ! i) = Some o1" using call by (auto simp: calls_of_set)
    then have "callAdmitted N D (ns ! i) o1" using sandbox_report_nth [OF x(2) i(1)] by (auto simp: sandbox_entry_def)
    moreover have "ns ! i \<in> set (dag_nodes g)" using i(1) len x(1) by (metis nth_mem)
    ultimately show ?thesis using compiled_operation [OF assms(1) _ assms(3)] by blast
  qed
  moreover have "tw_host (xs_world st) = fold (perform host) (calls_of es) (tw_host w)" using x(3) by (simp add: host_effect_def)
  ultimately show ?thesis using performed_effects [of host "calls_of es" "tw_host w"] empty_patch_effect by metis
qed

section \<open>Properties\<close>

definition sample_tools :: tool_env where
  "sample_tools = \<lparr>en_numStr = (\<lambda>_. []), en_iso = (\<lambda>_. ''now''), en_zod = ''invalid''\<rparr>"

definition sample_host :: "nat \<Rightarrow> host_step" where
  "sample_host _ = \<lparr>hs_sandbox = sample_sandbox, hs_abortedBefore = False, hs_abortedAfter = False, hs_startedAt = 0, hs_completedAt = 0,
     hs_errorText = ''e''\<rparr>"

definition sample_sx :: sx_deps where
  "sample_sx = \<lparr>sx_registry = map (\<lambda>e. (td_name (rg_definition e), e)) (builtinToolEntries sample_tools sample_host),
     sx_ttl = DEFAULT_CHECK_CACHE_TTL_MS,
     sx_conversationId = None, sx_toolEventPhase = None, sx_budget = None, sx_sink = False, sx_mapNode = None, sx_now = int, sx_nowMs = int,
     sx_signal = (\<lambda>_. False), sx_interfere = (\<lambda>_ c. c)\<rparr>"

definition sample_tool_world :: "host_state tool_world" where
  "sample_tool_world = \<lparr>tw_host = \<lparr>ho_count = 0, ho_effects = []\<rparr>, tw_events = [], tw_turnBudget = None, tw_checkCache = []\<rparr>"

lemma sample_builtins: "has_builtins sample_tools sample_host (sx_registry sample_sx)"
  by (rule default_has_builtins) (simp add: default_registry sample_sx_def)

definition file_dag :: dag where
  "file_dag = sample_dag\<lparr>dag_nodes := [(sample_node ''a'' FILE_OPERATION [])\<lparr>nd_input := Some [(''path'', JStr ''f''), (''content'', JStr ''x'')]\<rparr>]\<rparr>"

definition file_plan :: planner_output where
  "file_plan = sample_plan\<lparr>po_tasks := [(sample_task ''edit'' [])\<lparr>pt_expectedArtifacts := [''f'']\<rparr>]\<rparr>"

lemma file_dag_valid: "fst (validateDag sample_env (\<lambda>_. []) file_dag)"
  by code_simp

lemma file_plan_compiles: "\<exists>g. compileAcceptedPlanToDag sample_env (\<lambda>_. [''issue'']) (\<lambda>_. []) (sample_compile file_plan) = Inr g"
proof (rule acyclic_plan_compiles)
  show "PlannerOutputSchema file_plan" by code_simp
  show "acyclic (plan_dep file_plan)" unfolding plan_dep_code by (simp add: file_plan_def sample_plan_def sample_task_def acyclic_def)
qed

text \<open>
  C12: A graph that validation accepts, run through the sandbox with the built-in tools, always returns a
  report, whatever the tools, the host, the budget and interruptions do: one entry per node, after the
  entries of the nodes it depends on, with a status computed from them.
\<close>

theorem sandboxed_graph_reports:
  assumes "fst (validateDag E issues g)" and "has_builtins N host (sx_registry D)"
  shows "\<exists>r. fst (executeDagThroughSandbox E issues N D g w control) = Inr r
     \<and> distinct (map nr_nodeId (dr_nodeResults r)) \<and> set (map nr_nodeId (dr_nodeResults r)) = set (dag_ids g)
     \<and> (\<forall>i d. i < length (dr_nodeResults r) \<and> (nr_nodeId (dr_nodeResults r ! i), d) \<in> dag_dep g
            \<longrightarrow> (\<exists>j < i. nr_nodeId (dr_nodeResults r ! j) = d))
     \<and> dr_status r = dagStatus (dr_nodeResults r)"
proof -
  obtain res st where run: "executeDagThroughSandbox E issues N D g w control = (res, st)" by force
  obtain ns es r where x: "set ns = set (dag_nodes g)" "distinct (map nd_id ns)" "dep_closed_order (dependencyMap g) (map nd_id ns)"
    "sandbox_report N D (dependencyMap g) [] ns es" "res = Inr r" "dr_nodeResults r = map fst es" "dr_status r = dagStatus (map fst es)"
    by (rule sandbox_execution [OF assms run])
  have ids: "map nr_nodeId (dr_nodeResults r) = map nd_id ns" using sandbox_report_ids [OF x(4)] x(6) by simp
  have wf: "dag_well_formed g" using assms(1) by (simp add: validateDag_accepts)
  have "\<forall>i d. i < length (dr_nodeResults r) \<and> (nr_nodeId (dr_nodeResults r ! i), d) \<in> dag_dep g
            \<longrightarrow> (\<exists>j < i. nr_nodeId (dr_nodeResults r ! j) = d)"
    using ordered_dependency_before [OF wf x(3) ids] by blast
  moreover have "set (map nr_nodeId (dr_nodeResults r)) = set (dag_ids g)" unfolding ids using x(1) by (simp add: dag_ids_def)
  moreover have "distinct (map nr_nodeId (dr_nodeResults r))" unfolding ids by (rule x(2))
  ultimately show ?thesis using run x(5-7) by (intro exI [of _ r]) simp
qed

theorem sandboxed_graph_reports_witness:
  "\<exists>r. fst (executeDagThroughSandbox sample_env (\<lambda>_. []) sample_tools sample_sx sample_dag sample_tool_world None) = Inr r
     \<and> set (map nr_nodeId (dr_nodeResults r)) = {''a'', ''b''}"
  using sandboxed_graph_reports [OF sample_dag_valid sample_builtins, of "\<lambda>_. []" sample_tool_world None] sample_dag_nodes(1) by metis

text \<open>
  C11: Whatever such a run did to the host was done by sandbox operations, at most one per node. The node
  of each operation had all its dependencies completed before, its tool policy admits the tool, and the
  operation is the one its input asks for; each effect is authorised by the sandbox it met; and there
  are no more operations than the turn budget had tool calls.
\<close>

theorem sandboxed_graph_effects:
  assumes "fst (validateDag E issues g)" and "has_builtins N host (sx_registry D)"
    and "\<forall>i. sb_policy (hs_sandbox (host i)) = createSandboxPolicy (sb_cwd (hs_sandbox (host i))) (input i) (sb_workspaceRoot (hs_sandbox (host i))) (defaults i)"
    and "executeDagThroughSandbox E issues N D g w control = (Inr r, st)"
  shows "\<exists>calls new. length calls = length (dr_nodeResults r)
    \<and> tw_host (xs_world st) = fold (perform host) (List.map_filter (\<lambda>c. c) calls) (tw_host w)
    \<and> (\<forall>i o1. i < length calls \<and> calls ! i = Some o1 \<longrightarrow>
         (\<exists>n \<in> set (dag_nodes g). nd_id n = nr_nodeId (dr_nodeResults r ! i) \<and> callAdmitted N D n o1)
         \<and> (\<forall>d. (nr_nodeId (dr_nodeResults r ! i), d) \<in> dag_dep g \<longrightarrow>
              (\<exists>j < i. nr_nodeId (dr_nodeResults r ! j) = d \<and> succeeded (dr_nodeResults r ! j))))
    \<and> ho_effects (tw_host (xs_world st)) = ho_effects (tw_host w) @ new
    \<and> (\<forall>e \<in> set new. \<exists>i o1. Some o1 \<in> set calls \<and> authorised (hs_sandbox (host i)) o1 e)
    \<and> (\<forall>b. tw_turnBudget w = Some b \<longrightarrow> int (length (List.map_filter (\<lambda>c. c) calls)) \<le> toolCallsRemaining b)"
proof -
  obtain ns es r' where x: "set ns = set (dag_nodes g)" "distinct (map nd_id ns)" "dep_closed_order (dependencyMap g) (map nd_id ns)"
    "sandbox_report N D (dependencyMap g) [] ns es" "r = r'" "dr_nodeResults r' = map fst es" "dr_status r' = dagStatus (map fst es)"
    "host_effect host (calls_of es) w (xs_world st)"
    by (rule sandbox_execution [OF assms(1,2,4)]) auto
  have wf: "dag_well_formed g" using assms(1) by (simp add: validateDag_accepts)
  let ?calls = "map snd es"
  have calls: "List.map_filter (\<lambda>c. c) ?calls = calls_of es" by (simp add: calls_of_def map_filter_def filter_map comp_def)
  have rs: "dr_nodeResults r ! i = fst (es ! i)" if "i < length es" for i using that x(5,6) by simp
  have host: "tw_host (xs_world st) = fold (perform host) (calls_of es) (tw_host w)" using x(8) by (simp add: host_effect_def)
  from performed_effects [of host "calls_of es" "tw_host w"] obtain new where new:
    "ho_effects (tw_host (xs_world st)) = ho_effects (tw_host w) @ new"
    "\<forall>e \<in> set new. \<exists>i o1. o1 \<in> set (calls_of es)
        \<and> e \<in> set (fst (operate (hs_sandbox (host i)) (hs_abortedBefore (host i)) (hs_abortedAfter (host i)) o1))"
    unfolding host by blast
  have named: "[] \<notin> set (sp_allowedCommands (sb_policy (hs_sandbox (host i))))" for i
    unfolding assms(3) [rule_format] createSandboxPolicy_def using allowed_commands_named by simp
  have len: "length es = length ns" using sandbox_report_ids [OF x(4)] by (metis length_map)
  have "(\<exists>n \<in> set (dag_nodes g). nd_id n = nr_nodeId (dr_nodeResults r ! i) \<and> callAdmitted N D n o1)
      \<and> (\<forall>d. (nr_nodeId (dr_nodeResults r ! i), d) \<in> dag_dep g \<longrightarrow>
           (\<exists>j < i. nr_nodeId (dr_nodeResults r ! j) = d \<and> succeeded (dr_nodeResults r ! j)))"
    if i: "i < length ?calls" "?calls ! i = Some o1" for i o1
  proof -
    have "sandbox_entry N D (dependencyMap g) (take i (map fst es)) (ns ! i) (fst (es ! i)) (Some o1)"
      using sandbox_report_nth [OF x(4), of i] i by simp
    moreover have "ns ! i \<in> set (dag_nodes g)" using i len x(1) by (metis length_map nth_mem)
    ultimately have "\<exists>n \<in> set (dag_nodes g). nd_id n = nr_nodeId (fst (es ! i)) \<and> callAdmitted N D n o1"
      by (auto simp: sandbox_entry_def)
    moreover have "\<exists>j < i. nr_nodeId (fst (es ! j)) = d \<and> succeeded (fst (es ! j))" if "(nr_nodeId (fst (es ! i)), d) \<in> dag_dep g" for d
      using call_dependencies [OF wf x(3,2,4) _ _ that] i by simp
    ultimately show ?thesis using rs i by (metis length_map order_less_trans)
  qed
  moreover have "\<exists>i o1. Some o1 \<in> set ?calls \<and> authorised (hs_sandbox (host i)) o1 e" if "e \<in> set new" for e
    using new(2) that operate_authorised [OF named] unfolding calls_of_set by (metis length_map nth_map nth_mem)
  moreover have "int (length (calls_of es)) \<le> toolCallsRemaining b" if "tw_turnBudget w = Some b" for b
    using x(8) that by (auto simp: host_effect_def calls_left_def)
  moreover have "length ?calls = length (dr_nodeResults r)" using x(5,6) by simp
  ultimately show ?thesis unfolding calls [symmetric] host [unfolded calls [symmetric]] using new(1) host
    by (intro exI [of _ ?calls] exI [of _ new]) (simp only: calls, blast)
qed

theorem sandboxed_graph_effects_witness:
  "\<exists>r st new. executeDagThroughSandbox sample_env (\<lambda>_. []) sample_tools sample_sx file_dag sample_tool_world None = (Inr r, st)
     \<and> ho_effects (tw_host (xs_world st)) = new \<and> (\<forall>e \<in> set new. \<exists>o1. authorised sample_sandbox o1 e)"
proof -
  obtain res st where run: "executeDagThroughSandbox sample_env (\<lambda>_. []) sample_tools sample_sx file_dag sample_tool_world None = (res, st)" by force
  obtain r where r: "res = Inr r" by (rule sandbox_execution [OF file_dag_valid sample_builtins run])
  have policy: "\<forall>i. sb_policy (hs_sandbox (sample_host i)) = createSandboxPolicy (sb_cwd (hs_sandbox (sample_host i))) sample_sandbox_policy
      (sb_workspaceRoot (hs_sandbox (sample_host i))) None"
    by (simp add: sample_host_def sample_sandbox_def)
  from sandboxed_graph_effects [OF file_dag_valid sample_builtins policy run [unfolded r]]
  obtain new where "ho_effects (tw_host (xs_world st)) = ho_effects (tw_host sample_tool_world) @ new"
    "\<forall>e \<in> set new. \<exists>i o1. authorised (hs_sandbox (sample_host i)) o1 e" by blast
  then show ?thesis using run r by (auto simp: sample_tool_world_def sample_host_def)
qed



end
