(* ===== verification/Task_Decomposer_Correct.thy ===== *)
theory Task_Decomposer_Correct
  imports Task_Decomposer Sandbox_Runs "HOL-Library.Multiset"
begin

text \<open>
  Execution of sub-goals: which sub-goals are executed, whatever the executor returns and however the
  workers are interleaved; and what the executor of the product does.
\<close>

section \<open>Workers\<close>

lemma completions_mset: "(running = [] \<Longrightarrow> waiting = []) \<Longrightarrow> mset (completions pick waiting running) = mset waiting + mset running"
proof (induction pick waiting running rule: completions.induct)
  case (1 pick waiting running)
  show ?case
  proof (cases "running = []")
    case True
    then show ?thesis using 1(3) by (subst completions.simps) simp
  next
    case False
    let ?i = "pick (length waiting + length running) mod length running"
    let ?rest = "take ?i running @ drop (Suc ?i) running"
    have i: "?i < length running" using False by simp
    have "mset running = mset (take ?i running @ running ! ?i # drop (Suc ?i) running)"
      using id_take_nth_drop [OF i] by (rule arg_cong)
    also have "\<dots> = add_mset (running ! ?i) (mset ?rest)" by simp
    finally have "mset running = add_mset (running ! ?i) (mset ?rest)" .
    moreover have "completions pick waiting running
        = running ! ?i # (case waiting of [] \<Rightarrow> completions pick [] ?rest | x # xs \<Rightarrow> completions pick xs (?rest @ [x]))"
      using False by (subst completions.simps) (simp add: Let_def)
    ultimately show ?thesis using 1(1) [OF False refl refl] 1(2) [OF False refl refl] by (cases waiting) simp_all
  qed
qed

lemma runBounded_mset: "0 < m \<Longrightarrow> mset (runBounded pick m items) = mset items"
proof -
  assume m: "0 < m"
  let ?w = "min (nat m) (length items)"
  have "take ?w items = [] \<Longrightarrow> drop ?w items = []" using m by (cases items) (auto simp: min_def split: if_splits)
  then have "mset (runBounded pick m items) = mset (drop ?w items) + mset (take ?w items)"
    unfolding runBounded_def Let_def by (rule completions_mset)
  then show ?thesis by (metis add.commute append_take_drop_id mset_append)
qed

section \<open>Rounds\<close>

lemma fold_set_other: "x \<notin> k ` set gis \<Longrightarrow> js_get (fold (\<lambda>gi. js_set (k gi) (v gi)) gis m) x = js_get m x"
  by (induction gis arbitrary: m) auto

lemma fold_set_in:
  "distinct (map k gis) \<Longrightarrow> gi \<in> set gis \<Longrightarrow> js_get (fold (\<lambda>gi. js_set (k gi) (v gi)) gis m) (k gi) = Some (v gi)"
  by (induction gis arbitrary: m) (auto simp: fold_set_other)

lemma skipped_status [simp]: "gr_status (skippedGoal g reason) = ''SKIPPED''"
  by (simp add: skippedGoal_def)

definition goalId :: "sub_goal \<times> nat \<Rightarrow> string" where
  "goalId gi = sg_id (fst gi)"

text \<open>The result a sub-goal must have, given the results of the sub-goals it depends on.\<close>

definition settled :: "(sub_goal \<Rightarrow> nat \<Rightarrow> goal_result) \<Rightarrow> (string, goal_result) js_map \<Rightarrow> sub_goal \<times> nat \<Rightarrow> goal_result \<Rightarrow> bool" where
  "settled gave results gi r \<longleftrightarrow>
     (if dependenciesSucceeded results (fst gi) then r = gave (fst gi) (snd gi) else \<exists>reason. r = skippedGoal (fst gi) reason)"

definition resultsInv :: "(sub_goal \<Rightarrow> nat \<Rightarrow> goal_result) \<Rightarrow> (sub_goal \<times> nat) list \<Rightarrow> (sub_goal \<times> nat) list \<Rightarrow> (string, goal_result) js_map \<Rightarrow> bool" where
  "resultsInv gave goals pending results \<longleftrightarrow> distinct (map goalId pending) \<and> set pending \<subseteq> set goals
     \<and> (\<forall>gi \<in> set pending. js_get results (goalId gi) = None)
     \<and> (\<forall>gi \<in> set goals - set pending. \<exists>r. js_get results (goalId gi) = Some r \<and> settled gave results gi r \<and> goalReady results gi)"

lemma has_get: "js_has m k \<longleftrightarrow> js_get m k \<noteq> None"
  by (simp add: js_has_def)

lemma ready_stable:
  assumes "goalReady results gi" and "\<And>k. js_has results k \<Longrightarrow> js_get results' k = js_get results k"
  shows "goalReady results' gi" and "dependenciesSucceeded results' (fst gi) = dependenciesSucceeded results (fst gi)"
  using assms by (auto simp: goalReady_def dependenciesSucceeded_def list_all_iff has_get)

lemma settled_stable:
  assumes "goalReady results gi" and "\<And>k. js_has results k \<Longrightarrow> js_get results' k = js_get results k"
  shows "settled gave results' gi r = settled gave results gi r"
  using ready_stable(2) [OF assms] by (simp add: settled_def)

lemma round_results:
  assumes m: "0 < m" and dist: "distinct (map goalId ready)"
  shows "x \<notin> goalId ` set ready \<Longrightarrow> js_get (goalRound pick m gave ready results) x = js_get results x"
    and "gi \<in> set ready \<Longrightarrow> \<exists>r. js_get (goalRound pick m gave ready results) (goalId gi) = Some r \<and> settled gave results gi r"
proof -
  let ?ex = "filter (\<lambda>gi. dependenciesSucceeded results (fst gi)) ready"
  let ?sk = "filter (\<lambda>gi. \<not> dependenciesSucceeded results (fst gi)) ready"
  let ?r1 = "fold (\<lambda>gi. js_set (goalId gi) (skippedGoal (fst gi) (blockedReason (fst gi)))) ?sk results"
  let ?b = "runBounded pick m ?ex"
  have round: "goalRound pick m gave ready results = fold (\<lambda>gi. js_set (goalId gi) (gave (fst gi) (snd gi))) ?b ?r1"
    by (simp add: goalRound_def goalId_def Let_def)
  have mset_b: "mset ?b = mset ?ex" using m by (rule runBounded_mset)
  then have b: "set ?b = set ?ex" by (rule mset_eq_setD)
  have "distinct (map goalId ?ex)" using dist by (rule distinct_map_filter)
  then have dist_b: "distinct (map goalId ?b)" using mset_b by (metis mset_eq_imp_distinct_iff mset_map)
  show "x \<notin> goalId ` set ready \<Longrightarrow> js_get (goalRound pick m gave ready results) x = js_get results x"
  proof -
    assume "x \<notin> goalId ` set ready"
    then have "x \<notin> goalId ` set ?b" "x \<notin> goalId ` set ?sk" using b by auto
    then show ?thesis unfolding round by (simp add: fold_set_other del: set_filter)
  qed
  show "gi \<in> set ready \<Longrightarrow> \<exists>r. js_get (goalRound pick m gave ready results) (goalId gi) = Some r \<and> settled gave results gi r"
  proof -
    assume gi: "gi \<in> set ready"
    show ?thesis
    proof (cases "dependenciesSucceeded results (fst gi)")
      case True
      then have "gi \<in> set ?b" using gi b by simp
      then show ?thesis unfolding round using fold_set_in [OF dist_b] True by (fastforce simp: settled_def)
    next
      case False
      then have "gi \<in> set ?sk" using gi by simp
      then have "js_get ?r1 (goalId gi) = Some (skippedGoal (fst gi) (blockedReason (fst gi)))"
        by (rule fold_set_in [OF distinct_map_filter [OF dist]])
      moreover have "goalId gi \<notin> goalId ` set ?b"
        using gi b False dist by (auto simp: distinct_map dest!: inj_onD)
      ultimately show ?thesis unfolding round using False by (auto simp: fold_set_other settled_def)
    qed
  qed
qed

lemma goalRounds_settle:
  assumes "0 < m" and "resultsInv gave goals pending results"
  shows "\<forall>gi \<in> set goals. \<exists>r. js_get (goalRounds n pick m gave pending results) (goalId gi) = Some r
     \<and> settled gave (goalRounds n pick m gave pending results) gi r"
  using assms
proof (induction n pick m gave pending results rule: goalRounds.induct)
  case (1 n pick m gave pending results)
  let ?ready = "filter (goalReady results) pending"
  note inv = 1(3) [unfolded resultsInv_def]
  note settled_inv = inv [THEN conjunct2, THEN conjunct2, THEN conjunct2]
  consider (finished) "pending = []" | (stuck) "pending \<noteq> []" "?ready = []" | (go) "pending \<noteq> []" "?ready \<noteq> []" by blast
  then show ?case
  proof cases
    case finished
    then show ?thesis using inv by (auto simp: goalRounds.simps)
  next
    case stuck
    let ?F = "fold (\<lambda>gi. js_set (goalId gi) (skippedGoal (fst gi) ''dependency cycle or unresolved dependency'')) pending results"
    have F: "goalRounds n pick m gave pending results = ?F" using stuck by (simp add: goalRounds.simps goalId_def)
    have old: "js_get ?F k = js_get results k" if "js_has results k" for k
    proof (rule fold_set_other)
      show "k \<notin> goalId ` set pending" using that inv by (auto simp: has_get)
    qed
    show ?thesis
    proof
      fix gi assume gi: "gi \<in> set goals"
      show "\<exists>r. js_get (goalRounds n pick m gave pending results) (goalId gi) = Some r
          \<and> settled gave (goalRounds n pick m gave pending results) gi r"
      proof (cases "gi \<in> set pending")
        case True
        then have "\<not> goalReady results gi" using stuck(2) by (simp add: filter_empty_conv)
        then obtain d where d: "d \<in> set (sg_dependencies (fst gi))" "\<not> js_has results d" by (auto simp: goalReady_def list_all_iff)
        have "js_get ?F d \<noteq> Some r \<or> gr_status r = ''SKIPPED''" for r
        proof (cases "d \<in> goalId ` set pending")
          case True
          then obtain gj where "gj \<in> set pending" "d = goalId gj" by blast
          then have "js_get ?F d = Some (skippedGoal (fst gj) ''dependency cycle or unresolved dependency'')"
            using fold_set_in [of goalId pending gj "\<lambda>gi. skippedGoal (fst gi) ''dependency cycle or unresolved dependency''" results] inv by simp
          then show ?thesis by auto
        next
          case False
          then have "js_get ?F d = js_get results d" by (rule fold_set_other)
          then show ?thesis using d(2) by (simp add: has_get)
        qed
        then have "\<not> dependenciesSucceeded ?F (fst gi)" using d(1) by (fastforce simp: dependenciesSucceeded_def list_all_iff)
        moreover have "js_get ?F (goalId gi) = Some (skippedGoal (fst gi) ''dependency cycle or unresolved dependency'')"
          by (rule fold_set_in) (use True inv in simp_all)
        ultimately show ?thesis unfolding F by (auto simp: settled_def)
      next
        case False
        then obtain r where r: "js_get results (goalId gi) = Some r" "settled gave results gi r" "goalReady results gi" using gi inv by blast
        then show ?thesis unfolding F using old settled_stable [OF r(3) old] by (auto simp: has_get)
      qed
    qed
  next
    case go
    let ?R = "goalRound (pick n) m gave ?ready results"
    let ?rest = "filter (\<lambda>gi. sg_id (fst gi) \<notin> set (map (sg_id \<circ> fst) ?ready)) pending"
    have unfold: "goalRounds n pick m gave pending results = goalRounds (Suc n) pick m gave ?rest ?R"
      using go by (subst goalRounds.simps) (simp add: Let_def)
    have dist: "distinct (map goalId ?ready)" using inv by (simp add: distinct_map_filter)
    note res = round_results [OF 1(2) dist]
    have rest: "gi \<in> set ?rest \<longleftrightarrow> gi \<in> set pending \<and> goalId gi \<notin> goalId ` set ?ready" for gi
      by (auto simp: goalId_def)
    have old: "js_get ?R k = js_get results k" if "js_has results k" for k
    proof (rule res(1))
      show "k \<notin> goalId ` set ?ready" using that inv by (auto simp: has_get)
    qed
    have "resultsInv gave goals ?rest ?R" unfolding resultsInv_def
    proof (intro conjI ballI)
      show "distinct (map goalId ?rest)" using inv by (simp add: distinct_map_filter)
      show "set ?rest \<subseteq> set goals" using inv by auto
      show "js_get ?R (goalId gi) = None" if "gi \<in> set ?rest" for gi
        using that [unfolded rest] res(1) inv by auto
      show "\<exists>r. js_get ?R (goalId gi) = Some r \<and> settled gave ?R gi r \<and> goalReady ?R gi" if "gi \<in> set goals - set ?rest" for gi
      proof (cases "gi \<in> set pending")
        case True
        then have "goalId gi \<in> goalId ` set ?ready" using that rest by blast
        then have "gi \<in> set ?ready" using True inv by (auto simp: distinct_map dest!: inj_onD)
        then obtain r where r: "js_get ?R (goalId gi) = Some r" "settled gave results gi r" using res(2) by blast
        have ready: "goalReady results gi" using \<open>gi \<in> set ?ready\<close> by simp
        show ?thesis using r ready_stable(1) [OF ready old] settled_stable [OF ready old] by blast
      next
        case False
        then have "gi \<in> set goals - set pending" using that by blast
        from bspec [OF settled_inv this] obtain r where r: "js_get results (goalId gi) = Some r" "settled gave results gi r" "goalReady results gi"
          by blast
        have "js_has results (goalId gi)" using r(1) by (simp add: has_get)
        from old [OF this] r(1) have "js_get ?R (goalId gi) = Some r" by simp
        then show ?thesis using r(2) ready_stable(1) [OF r(3) old] settled_stable [OF r(3) old] by blast
      qed
    qed
    with 1(1) [OF refl go(1,2) 1(2)] unfold show ?thesis by simp
  qed
qed

lemma goalRounds_keys:
  "0 < m \<Longrightarrow> js_has (goalRounds n pick m gave pending results) k \<Longrightarrow> k \<in> goalId ` set pending \<or> js_has results k"
proof (induction n pick m gave pending results rule: goalRounds.induct)
  case (1 n pick m gave pending results)
  let ?ready = "filter (goalReady results) pending"
  have fold: "js_has (fold (\<lambda>gi. js_set (goalId gi) (v gi)) gis r) k \<Longrightarrow> k \<in> goalId ` set gis \<or> js_has r k" for v gis r
    using fold_set_other [of k goalId gis v r] by (cases "k \<in> goalId ` set gis") (simp_all add: has_get)
  consider (finished) "pending = []" | (stuck) "pending \<noteq> []" "?ready = []" | (go) "pending \<noteq> []" "?ready \<noteq> []" by blast
  then show ?case
  proof cases
    case stuck
    then have "goalRounds n pick m gave pending results
        = fold (\<lambda>gi. js_set (goalId gi) (skippedGoal (fst gi) ''dependency cycle or unresolved dependency'')) pending results"
      by (subst goalRounds.simps) (simp add: goalId_def)
    then show ?thesis using 1(3) fold by simp
  next
    case go
    let ?R = "goalRound (pick n) m gave ?ready results"
    have "js_has ?R k \<Longrightarrow> k \<in> goalId ` set ?ready \<or> js_has results k"
    proof -
      assume has: "js_has ?R k"
      have "set (runBounded (pick n) m (filter (\<lambda>gi. dependenciesSucceeded results (fst gi)) ?ready))
          = set (filter (\<lambda>gi. dependenciesSucceeded results (fst gi)) ?ready)"
        by (rule mset_eq_setD, rule runBounded_mset [OF 1(2)])
      with has show ?thesis unfolding goalRound_def Let_def goalId_def [symmetric] by (auto dest!: fold)
    qed
    with go 1(1) [OF refl go 1(2)] 1(3) show ?thesis by (subst (asm) goalRounds.simps) (auto simp: Let_def goalId_def)
  next
    case finished
    then have "goalRounds n pick m gave pending results = results" by (subst goalRounds.simps) simp
    then show ?thesis using 1(3) by simp
  qed
qed

lemma executeGraph_settled:
  assumes m: "0 < m" and dist: "distinct (map sg_id gs)" and gs: "gs = gg_subGoals graph"
  obtains F where "executeGraph pick m gave graph = map (\<lambda>g. the (js_get F (sg_id g))) gs"
    and "\<And>i. i < length gs \<Longrightarrow> \<exists>r. js_get F (sg_id (gs ! i)) = Some r \<and> settled gave F (gs ! i, i) r"
    and "\<And>k. js_has F k \<Longrightarrow> k \<in> sg_id ` set gs"
proof -
  let ?pending = "map (\<lambda>(i, g). (g, i)) (List.enumerate 0 gs)"
  let ?F = "goalRounds 0 pick m gave ?pending []"
  have ids: "map goalId ?pending = map sg_id gs"
    by (rule nth_equalityI) (simp_all add: goalId_def nth_enumerate_eq)
  have vals: "js_values (js_map_of_list (map (\<lambda>(i, g). (sg_id g, (g, i))) (List.enumerate 0 gs))) = ?pending"
  proof (subst js_map_of_list_distinct)
    have "map fst (map (\<lambda>(i, g). (sg_id g, (g, i))) (List.enumerate 0 gs)) = map sg_id gs"
      by (rule nth_equalityI) (simp_all add: nth_enumerate_eq)
    then show "distinct (map fst (map (\<lambda>(i, g). (sg_id g, (g, i))) (List.enumerate 0 gs)))" using dist by simp
  qed (simp add: case_prod_beta comp_def)
  have "resultsInv gave ?pending ?pending []" using dist ids by (simp add: resultsInv_def)
  from goalRounds_settle [OF m this] have settle: "\<exists>r. js_get ?F (goalId gi) = Some r \<and> settled gave ?F gi r" if "gi \<in> set ?pending" for gi
    using that by blast
  have nth: "(gs ! i, i) \<in> set ?pending" if "i < length gs" for i
    using that by (force simp: in_set_conv_nth nth_enumerate_eq)
  show thesis
  proof (rule that [of ?F])
    show each: "\<exists>r. js_get ?F (sg_id (gs ! i)) = Some r \<and> settled gave ?F (gs ! i, i) r" if "i < length gs" for i
      using settle [OF nth [OF that]] by (simp add: goalId_def)
    have "js_get ?F (sg_id g) \<noteq> None" if "g \<in> set gs" for g using each that by (metis in_set_conv_nth option.distinct(1))
    then show "executeGraph pick m gave graph = map (\<lambda>g. the (js_get ?F (sg_id g))) gs"
      unfolding executeGraph_def gs [symmetric] vals Let_def by (intro map_cong refl) (fastforce simp: over_def)
    show "k \<in> sg_id ` set gs" if "js_has ?F k" for k
    proof -
      have "k \<in> goalId ` set ?pending" using goalRounds_keys [OF m that] by (simp add: has_get)
      then have "k \<in> set (map goalId ?pending)" by (simp only: set_map)
      then show ?thesis unfolding ids by simp
    qed
  qed
qed

lemma goal_results:
  assumes "0 < m" and dist: "distinct (map sg_id gs)" and gs: "gs = gg_subGoals graph" and rs: "rs = executeGraph pick m gave graph"
  shows "length rs = length gs"
    and "i < length gs \<Longrightarrow> if \<forall>d \<in> set (sg_dependencies (gs ! i)). \<exists>j < length gs. sg_id (gs ! j) = d \<and> gr_status (rs ! j) = ''SUCCESS''
      then rs ! i = gave (gs ! i) i else \<exists>reason. rs ! i = skippedGoal (gs ! i) reason"
proof -
  obtain F where F: "rs = map (\<lambda>g. the (js_get F (sg_id g))) gs"
    "\<And>i. i < length gs \<Longrightarrow> \<exists>r. js_get F (sg_id (gs ! i)) = Some r \<and> settled gave F (gs ! i, i) r"
    "\<And>k. js_has F k \<Longrightarrow> k \<in> sg_id ` set gs"
    unfolding rs by (rule executeGraph_settled [OF assms(1) dist gs, where pick = pick and gave = gave]) blast
  show "length rs = length gs" using F(1) by simp
  have status: "map_option gr_status (js_get F d) = Some ''SUCCESS'' \<longleftrightarrow> (\<exists>j < length gs. sg_id (gs ! j) = d \<and> gr_status (rs ! j) = ''SUCCESS'')" for d
  proof
    assume l: "map_option gr_status (js_get F d) = Some ''SUCCESS''"
    then have "js_has F d" by (auto simp: has_get)
    then obtain j where "j < length gs" "sg_id (gs ! j) = d" using F(3) by (force simp: in_set_conv_nth)
    then show "\<exists>j < length gs. sg_id (gs ! j) = d \<and> gr_status (rs ! j) = ''SUCCESS''" using l F(1) by auto
  next
    assume "\<exists>j < length gs. sg_id (gs ! j) = d \<and> gr_status (rs ! j) = ''SUCCESS''"
    then show "map_option gr_status (js_get F d) = Some ''SUCCESS''" using F(1,2) by fastforce
  qed
  show "i < length gs \<Longrightarrow> if \<forall>d \<in> set (sg_dependencies (gs ! i)). \<exists>j < length gs. sg_id (gs ! j) = d \<and> gr_status (rs ! j) = ''SUCCESS''
      then rs ! i = gave (gs ! i) i else \<exists>reason. rs ! i = skippedGoal (gs ! i) reason"
  proof -
    assume i: "i < length gs"
    obtain r where r: "js_get F (sg_id (gs ! i)) = Some r" "settled gave F (gs ! i, i) r" using F(2) [OF i] by blast
    then have "rs ! i = r" using F(1) i by simp
    moreover have "dependenciesSucceeded F (gs ! i) \<longleftrightarrow>
        (\<forall>d \<in> set (sg_dependencies (gs ! i)). \<exists>j < length gs. sg_id (gs ! j) = d \<and> gr_status (rs ! j) = ''SUCCESS'')"
      unfolding dependenciesSucceeded_def list_all_iff status ..
    ultimately show ?thesis using r(2) unfolding settled_def fst_conv snd_conv by metis
  qed
qed

section \<open>The executor of the product\<close>

lemma mapsNothing:
  assumes "n \<in> set (dag_nodes (subGoalDag runId createdAt goal index))"
  shows "mapDagNodeToOperation numStr n = None" and "noopNodeResult N D n deps m now = nodeResult n deps NodeSuccess now now
    [(''sandbox'', JBool False), (''noop'', JBool True), (''nodeType'', JStr ''LLM_EXECUTION''),
     (''expectedOutputs'', jstrs (nd_expectedOutputs n))] None"
proof -
  have n: "nd_type n = LLM_EXECUTION" "nd_input n = Some [(''subGoal'', JStr (redactString (sg_goal goal))), (''validation'', jstrs (sg_validation goal))]"
    "nd_metadata n = Some [(''decomposed'', JBool True), (''subGoalIndex'', jnat index), (''subGoalId'', JStr (sg_id goal))]"
    using assms by (simp_all add: subGoalDag_def)
  have "jfield (readOperationHint n) ''operationKind'' = JUndef" "jfield (readOperationHint n) ''kind'' = JUndef"
    by (simp_all add: readOperationHint_def n optField_def jfield_def recordFrom_def orElse_def spread_def)
  then show "mapDagNodeToOperation numStr n = None"
    by (simp add: mapDagNodeToOperation_def Let_def coalesce_def orElse_def n)
  have "\<not> hasExplicitSandboxOperationHint n"
    by (simp add: hasExplicitSandboxOperationHint_def hasSandboxOperationFields_def n jfield_def recordFrom_def)
  then show "noopNodeResult N D n deps m now = nodeResult n deps NodeSuccess now now
    [(''sandbox'', JBool False), (''noop'', JBool True), (''nodeType'', JStr ''LLM_EXECUTION''),
     (''expectedOutputs'', jstrs (nd_expectedOutputs n))] None"
    by (simp add: noopNodeResult_def Let_def validationNodeResultWithoutSandbox_def operationMappingErrorFor_def n)
qed

lemma subGoalDag_valid:
  assumes "SubGoalSchema goal" and "runId \<noteq> []" and "isDatetime E createdAt"
  shows "fst (validateDag E issues (subGoalDag runId createdAt goal index))"
proof -
  let ?g = "subGoalDag runId createdAt goal index"
  have "DagSchema E ?g"
    using assms by (simp add: DagSchema_def subGoalDag_def DagNodeSchema_def SubGoalSchema_def optNonEmpty_def nonEmptyAll_def)
  moreover have "dag_dep ?g = {}" by (auto simp: dag_dep_def subGoalDag_def)
  then have "dag_well_formed ?g" by (simp add: dag_well_formed_def dag_ids_def subGoalDag_def backoff_ordered_def acyclic_def)
  ultimately show ?thesis by (simp add: validateDag_accepts)
qed

lemma executeOneSubGoal_result:
  assumes "SubGoalSchema goal" and "runId \<noteq> []" and "isDatetime E createdAt" and "sx_mapNode D = None" and "sx_signal D = (\<lambda>_. False)"
  shows "executeOneSubGoal E issues N D runId createdAt goal index w =
    (Some \<lparr>gr_subGoal = redactString (sg_goal goal), gr_artifact = Some (''sub-goal-'' @ show_nat index), gr_command = None,
           gr_summary = ''completed (SUCCESS)'', gr_status = ''SUCCESS''\<rparr>, w)"
proof -
  let ?g = "subGoalDag runId createdAt goal index"
  obtain n where n: "dag_nodes ?g = [n]" by (simp add: subGoalDag_def)
  have valid: "fst (validateDag E issues ?g)" using assms(1-3) by (rule subGoalDag_valid)
  have g: "DagSchema E ?g" "dag_well_formed ?g" using valid by (simp_all add: validateDag_accepts)
  obtain ns where ns: "topologicalNodes (dag_nodes ?g) (dependencyMap ?g) = ns" "set ns = set (dag_nodes ?g)" "distinct (map nd_id ns)"
    by (rule topologicalNodes_order [OF g(2)])
  have "ns = [n]" using ns(2,3) n by (cases ns; cases "tl ns") auto
  have "dag_dep ?g = {}" by (auto simp: dag_dep_def subGoalDag_def)
  then have "set (depsOf (dependencyMap ?g) (nd_id n)) = {}" by (intro equals0I) (simp add: dependencyMap_facts(2) [OF g(2)])
  then have "depsOf (dependencyMap ?g) (nd_id n) = []" by (simp only: set_empty)
  then have deps: "sortedDeps (dependencyMap ?g) n = []" by (simp add: sortedDeps_def)
  let ?s0 = "sandboxStart D w None"
  have s0: "interfere D 0 ?s0 = ?s0" "\<not> interruptSeen D 0 ?s0" "st_nodeResults (xs_core ?s0) = []" "xs_world ?s0 = w"
    "core_ok (xs_core ?s0)"
    by (simp_all add: interfere_def interruptSeen_def assms(5) sandboxStart_def appendEventAt_def readClock_def appendExecEvent_def
        core_ok_def ExecutionEventSchema_def dag_event_def)
  have map_n: "nodeMapping N D n = None" using mapsNothing(1) [of n runId createdAt goal index] n assms(4) by (simp add: nodeMapping_def)
  let ?s1 = "sandboxNode E N D (dag_runId ?g) (dependencyMap ?g) 0 n ?s0"
  obtain r where r: "st_nodeResults (xs_core ?s1) = [r]" "nr_status r = NodeSuccess" "xs_world ?s1 = w"
    using mapsNothing(2) [of n runId createdAt goal index N D] n s0 map_n
    by (auto simp: sandboxNode_def deps blockedBy_def executeNodeThroughSandbox_def mapDagNodeToToolCall_def readClock_def Let_def nodeResult_def)
  have "nd_id n \<noteq> []" using n by (auto simp: subGoalDag_def)
  then have core: "core_ok (xs_core ?s1)" using sandbox_node_ok [OF s0(5)] deps by (simp add: nonEmptyAll_def)
  have run: "sandboxNodes E N D (dag_runId ?g) (dependencyMap ?g) 0 [n] ?s0 = (?s1, None)" using s0 by (simp add: Let_def)
  have "dag_id ?g \<noteq> []" "dag_runId ?g \<noteq> []" using assms(2) by (simp_all add: subGoalDag_def)
  from complete_ok [OF core this, of None D "dagStatus [r]" "sx_now D 0"] obtain res st where res:
    "completeSandboxDag D ?g (dagStatus [r]) (sx_now D 0) None ?s1 = (Inr res, st)" "dr_nodeResults res = [r]"
    "dr_status res = dagStatus [r]" "xs_world st = w" using r by auto
  have "executeDagThroughSandbox E issues N D ?g w None = (Inr res, st)"
    using valid g(1) ns(1) \<open>ns = [n]\<close> run r(1) res(1) by (simp add: executeDagThroughSandbox_def Let_def)
  moreover have "dagStatus [r] = DagSuccess" using r(2) by (simp add: dagStatus_def)
  moreover have "redactString ''completed (SUCCESS)'' = ''completed (SUCCESS)''" by code_simp
  ultimately show ?thesis using res r(2) by (simp add: executeOneSubGoal_def goalSummary_def)
qed

section \<open>Graphs of sub-goals from a text\<close>

lemma subId_simps [simp]: "subId i = subId j \<longleftrightarrow> i = j" "subId i \<noteq> []" "js_trim (subId i) = subId i"
proof -
  show "subId i = subId j \<longleftrightarrow> i = j" "subId i \<noteq> []" by (simp_all add: subId_def)
  have first: "\<not> js_space (CHR ''s'')" by code_simp
  have "\<not> js_space c" if "c \<in> set (show_nat i)" for c
  proof -
    have "list_all (\<lambda>c. \<not> js_space c) ''0123456789''" by code_simp
    then show ?thesis using show_nat_digits [OF that] by (auto simp: list_all_iff)
  qed
  then have "\<not> js_space (last (subId i))" by (simp add: subId_def)
  then have "dropWhile js_space (rev (subId i)) = rev (subId i)"
    by (metis \<open>subId i \<noteq> []\<close> dropWhile_eq_self_iff hd_rev)
  moreover have "dropWhile js_space (subId i) = subId i" using first by (simp add: subId_def)
  ultimately show "js_trim (subId i) = subId i" by (simp add: js_trim_def)
qed

definition normGoal :: "sub_goal \<Rightarrow> sub_goal" where
  "normGoal g =
     \<lparr>sg_id = sg_id g, sg_goal = redactString (sg_goal g),
      sg_dependencies = filter (\<lambda>d. d \<noteq> sg_id g) (unique (sg_dependencies g)),
      sg_expectedArtifacts = (if sg_expectedArtifacts g \<noteq> [] then map redactString (sg_expectedArtifacts g)
                              else expectedArtifactsFor (sg_goal g)),
      sg_validation = (if sg_validation g \<noteq> [] then map redactString (sg_validation g) else validationFor (sg_goal g)),
      sg_parallelizable = (sg_dependencies g = [])\<rparr>"

lemma normalizeGoals_distinct:
  "distinct (map sg_id gs) \<Longrightarrow> (\<And>g. g \<in> set gs \<Longrightarrow> sg_id g \<noteq> [] \<and> sg_id g \<notin> set ids) \<Longrightarrow> normalizeGoals k ids gs = map normGoal gs"
proof (induction gs arbitrary: k ids)
  case (Cons g gs)
  have "normalizeGoals (Suc k) (sg_id g # ids) gs = map normGoal gs"
  proof (rule Cons.IH)
    fix x assume x: "x \<in> set gs"
    then have "sg_id x \<noteq> sg_id g" using Cons.prems(1) by (force simp: image_iff)
    then show "sg_id x \<noteq> [] \<and> sg_id x \<notin> set (sg_id g # ids)" using Cons.prems(2) [of x] x by simp
  qed (use Cons.prems(1) in simp)
  then show ?case using Cons.prems(2) [of g] by (simp add: normGoal_def Let_def)
qed simp

lemma normGoal_schema: "SubGoalSchema g \<Longrightarrow> SubGoalSchema (normGoal g)"
  by (auto simp: SubGoalSchema_def normGoal_def nonEmptyAll_def list_all_iff unique_def expectedArtifactsFor_def validationFor_def Let_def)

lemma goal_edge_source:
  assumes "e \<in> set (concat (map (\<lambda>g. map (\<lambda>d. \<lparr>gd_from = d, gd_to = sg_id g, gd_reason = reason\<rparr>) (sg_dependencies g)) gs))"
  obtains g where "g \<in> set gs" and "gd_from e \<in> set (sg_dependencies g)" and "gd_to e = sg_id g"
  using assms by auto

lemma uniqueFrom_sub: "d \<in> set (uniqueFrom seen ds) \<Longrightarrow> d \<in> set ds \<and> GoalDependencySchema d"
  by (induction seen ds rule: uniqueFrom.induct) (auto simp: Let_def split: if_splits)

text \<open>A graph whose sub-goals are numbered and depend on earlier ones only.\<close>

definition earlier_only :: "goal_graph \<Rightarrow> bool" where
  "earlier_only g \<longleftrightarrow> map sg_id (gg_subGoals g) = map subId [0..<length (gg_subGoals g)]
     \<and> (\<forall>i < length (gg_subGoals g). \<forall>d \<in> set (sg_dependencies (gg_subGoals g ! i)). \<exists>j < i. d = subId j)
     \<and> (\<forall>d \<in> set (gg_dependencies g). \<exists>i j. i < j \<and> gd_from d = subId i \<and> gd_to d = subId j)"

lemma numbered_id: "map sg_id gs = map subId [0..<length gs] \<Longrightarrow> i < length gs \<Longrightarrow> sg_id (gs ! i) = subId i"
  by (metis add_0 length_map nth_map nth_upt)

lemma numbered_distinct: "map sg_id gs = map subId [0..<length gs] \<Longrightarrow> distinct (map sg_id gs)"
  by (simp add: distinct_map inj_on_def)

lemma normalize_earlier:
  assumes g: "earlier_only g" and schema: "list_all SubGoalSchema (gg_subGoals g)" and len: "length (gg_subGoals g) \<le> 12"
  obtains g' where "normalizeSubGoalGraph g = Some g'" and "earlier_only g'" and "list_all SubGoalSchema (gg_subGoals g')"
    and "length (gg_subGoals g') = length (gg_subGoals g)" and "0 < gg_maxConcurrency g'"
proof -
  let ?gs = "gg_subGoals g" and ?ns = "map normGoal (gg_subGoals g)"
  have num: "map sg_id ?gs = map subId [0..<length ?gs]" using g by (simp add: earlier_only_def)
  have id: "sg_id (?gs ! i) = subId i" if "i < length ?gs" for i using numbered_id [OF num that] .
  have "sg_id x \<noteq> []" if "x \<in> set ?gs" for x using that id by (auto simp: in_set_conv_nth)
  then have norm: "normalizeGoals 0 [] ?gs = ?ns" using numbered_distinct [OF num] by (intro normalizeGoals_distinct) auto
  define ds where "ds = filter (\<lambda>d. gd_from d \<in> set (map sg_id ?ns) \<and> gd_to d \<in> set (map sg_id ?ns) \<and> gd_from d \<noteq> gd_to d)
      (uniqueDependencies (gg_dependencies g @ goalEdges ?ns))"
  let ?g' = "\<lparr>gg_subGoals = map (linkGoal ds) ?ns, gg_dependencies = ds,
      gg_maxConcurrency = boundedConcurrency (gg_maxConcurrency g), gg_trace = map redactString (gg_trace g)\<rparr>"
  have edge: "GoalDependencySchema d \<and> (\<exists>i j. i < j \<and> gd_from d = subId i \<and> gd_to d = subId j)" if "d \<in> set ds" for d
  proof -
    have d: "d \<in> set (gg_dependencies g) \<union> set (goalEdges ?ns)" "GoalDependencySchema d"
      using that uniqueFrom_sub [of d] by (auto simp: ds_def uniqueDependencies_def dest: uniqueFrom_sub)
    have "\<exists>i j. i < j \<and> gd_from d = subId i \<and> gd_to d = subId j" if edges: "d \<in> set (goalEdges ?ns)"
    proof -
      obtain n where n: "n \<in> set ?ns" "gd_from d \<in> set (sg_dependencies n)" "gd_to d = sg_id n"
        by (rule goal_edge_source [OF edges [unfolded goalEdges_def]])
      then obtain i where i: "i < length ?gs" "n = normGoal (?gs ! i)" by (auto simp: in_set_conv_nth)
      with n obtain x where x: "x \<in> set (sg_dependencies (?gs ! i))" "gd_from d = js_trim x" "gd_to d = subId i"
        using id [OF i(1)] by (auto simp: normGoal_def unique_def)
      moreover obtain j where "j < i" "x = subId j" using g [unfolded earlier_only_def, THEN conjunct2, THEN conjunct1] x(1) i(1) by blast
      ultimately show ?thesis by auto
    qed
    with d g show ?thesis by (auto simp: earlier_only_def)
  qed
  have ids: "map sg_id (map (linkGoal ds) ?ns) = map sg_id ?gs" by (simp add: linkGoal_def normGoal_def)
  have schema': "list_all SubGoalSchema (map (linkGoal ds) ?ns)"
    unfolding list_all_iff
  proof
    fix x assume "x \<in> set (map (linkGoal ds) ?ns)"
    then obtain y where y: "y \<in> set ?gs" "x = linkGoal ds (normGoal y)" by auto
    have "SubGoalSchema (normGoal y)" using schema y(1) normGoal_schema by (simp add: list_all_iff)
    moreover have "nonEmptyAll (map gd_from (filter P ds))" for P
      using edge by (auto simp: nonEmptyAll_def list_all_iff GoalDependencySchema_def)
    ultimately show "SubGoalSchema x" unfolding y(2) by (simp add: linkGoal_def SubGoalSchema_def)
  qed
  have deps: "\<exists>j < i. d = subId j" if "i < length ?gs" "d \<in> set (sg_dependencies (map (linkGoal ds) ?ns ! i))" for i d
  proof -
    have "sg_id (normGoal (?gs ! i)) = subId i" using id [OF that(1)] by (simp add: normGoal_def)
    then have "d \<in> gd_from ` {e \<in> set ds. gd_to e = subId i}" using that by (simp add: linkGoal_def)
    then obtain e where "e \<in> set ds" "gd_from e = d" "gd_to e = subId i" by blast
    with edge [of e] show ?thesis by auto
  qed
  show thesis
  proof (rule that [of ?g'])
    have "list_all SubGoalSchema ?ns" using schema normGoal_schema by (auto simp: list_all_iff)
    moreover have "SubGoalGraphSchema ?g'"
      using len schema' edge by (auto simp: SubGoalGraphSchema_def list_all_iff boundedConcurrency_def)
    ultimately show "normalizeSubGoalGraph g = Some ?g'"
      unfolding normalizeSubGoalGraph_def norm Let_def ds_def [symmetric] by (simp only: simp_thms if_True)
    show "earlier_only ?g'" using num ids deps edge by (auto simp: earlier_only_def comp_def)
  qed (use schema' in \<open>simp_all add: boundedConcurrency_def\<close>)
qed

lemma inferred_earlier: "d \<in> set (inferDependencies goal i items) \<Longrightarrow> \<exists>j < i. d = subId j"
  by (cases i) (auto simp: inferDependencies_def Let_def split: if_splits)

text \<open>The sub-goals a text is decomposed into, before the graph is normalised.\<close>

definition candidate_goals :: "string \<Rightarrow> string list \<Rightarrow> int option \<Rightarrow> sub_goal list" where
  "candidate_goals distilled riskFlags maxSubGoals =
     (let items = take (nat (boundedMaxSubGoals riskFlags maxSubGoals)) (fst (parseCandidateSubGoals distilled))
      in map (inferredGoal items) (List.enumerate 0 items))"

lemma decomposition:
  assumes "list_all SubGoalSchema (candidate_goals distilled riskFlags maxSubGoals)"
  obtains g where "decomposeIntoSubGoalGraph distilled riskFlags maxSubGoals maxConcurrency = Some g" and "earlier_only g"
    and "list_all SubGoalSchema (gg_subGoals g)" and "length (gg_subGoals g) = length (candidate_goals distilled riskFlags maxSubGoals)"
    and "length (gg_subGoals g) \<le> 8"
proof -
  let ?items = "take (nat (boundedMaxSubGoals riskFlags maxSubGoals)) (fst (parseCandidateSubGoals distilled))"
  let ?subGoals = "map (inferredGoal ?items) (List.enumerate 0 ?items)"
  have cand: "candidate_goals distilled riskFlags maxSubGoals = ?subGoals" by (simp add: candidate_goals_def Let_def)
  have all: "list_all SubGoalSchema ?subGoals" using assms unfolding cand .
  obtain trace where g: "decomposeIntoSubGoalGraph distilled riskFlags maxSubGoals maxConcurrency
    = normalizeSubGoalGraph \<lparr>gg_subGoals = ?subGoals,
      gg_dependencies = concat (map (\<lambda>g. map (\<lambda>d. \<lparr>gd_from = d, gd_to = sg_id g,
                     gd_reason = Some ''inferred sequential dependency''\<rparr>) (sg_dependencies g)) ?subGoals),
      gg_maxConcurrency = boundedConcurrency (over maxConcurrency DEFAULT_MAX_CONCURRENCY), gg_trace = trace\<rparr>"
    (is "_ = normalizeSubGoalGraph ?in")
    using all by (auto simp: decomposeIntoSubGoalGraph_def case_prod_beta Let_def)
  have nth: "?subGoals ! i = inferredGoal ?items (i, ?items ! i)" if "i < length ?items" for i
    using that by (simp add: nth_enumerate_eq)
  have "boundedMaxSubGoals riskFlags maxSubGoals \<le> 8" by (simp add: boundedMaxSubGoals_def Let_def)
  then have len: "length ?subGoals \<le> 8" by simp
  have num: "map sg_id ?subGoals = map subId [0..<length ?subGoals]"
    by (rule nth_equalityI) (simp_all add: nth_enumerate_eq inferredGoal_def Let_def)
  have deps: "\<exists>j < i. d = subId j" if "i < length ?subGoals" "d \<in> set (sg_dependencies (?subGoals ! i))" for i d
    using that nth [of i] inferred_earlier by (auto simp: inferredGoal_def Let_def)
  have "\<exists>i j. i < j \<and> gd_from e = subId i \<and> gd_to e = subId j" if "e \<in> set (gg_dependencies ?in)" for e
  proof -
    note mem = that [unfolded goal_graph.select_convs]
    obtain x where x: "x \<in> set ?subGoals" "gd_from e \<in> set (sg_dependencies x)" "gd_to e = sg_id x" by (rule goal_edge_source [OF mem])
    then obtain i where i: "i < length ?subGoals" "x = ?subGoals ! i" by (auto simp: in_set_conv_nth)
    then show ?thesis using deps [of i "gd_from e"] x numbered_id [OF num i(1)] by auto
  qed
  with num deps have earlier: "earlier_only ?in" by (simp add: earlier_only_def)
  note thesis_rule = that
  show thesis
  proof (rule normalize_earlier [OF earlier])
    fix g' assume "normalizeSubGoalGraph ?in = Some g'" "earlier_only g'" "list_all SubGoalSchema (gg_subGoals g')"
      "length (gg_subGoals g') = length (gg_subGoals ?in)"
    then show thesis using thesis_rule [of g'] g len cand by simp
  qed (use all len in simp_all)
qed

lemma decomposed_earlier:
  assumes "decomposeIntoSubGoalGraph distilled riskFlags maxSubGoals maxConcurrency = Some g"
  shows "earlier_only g \<and> list_all SubGoalSchema (gg_subGoals g) \<and> length (gg_subGoals g) \<le> 8"
proof -
  have "list_all SubGoalSchema (candidate_goals distilled riskFlags maxSubGoals)"
    using assms by (auto simp: decomposeIntoSubGoalGraph_def candidate_goals_def case_prod_beta Let_def split: if_splits)
  then obtain g' where "decomposeIntoSubGoalGraph distilled riskFlags maxSubGoals maxConcurrency = Some g'" "earlier_only g'"
    "list_all SubGoalSchema (gg_subGoals g')" "length (gg_subGoals g') \<le> 8" by (rule decomposition)
  then show ?thesis using assms by simp
qed

lemma inferred_schema: "redactString goal \<noteq> [] \<Longrightarrow> SubGoalSchema (inferredGoal items (i, goal))"
  by (cases i) (auto simp: SubGoalSchema_def inferredGoal_def inferDependencies_def nonEmptyAll_def subId_def
      expectedArtifactsFor_def validationFor_def Let_def)

section \<open>Properties\<close>

definition sample_goal :: "nat \<Rightarrow> string list \<Rightarrow> sub_goal" where
  "sample_goal i ds = \<lparr>sg_id = subId i, sg_goal = ''goal'', sg_dependencies = ds, sg_expectedArtifacts = [''a''], sg_validation = [''v''],
     sg_parallelizable = (ds = [])\<rparr>"

definition sample_goals :: goal_graph where
  "sample_goals = \<lparr>gg_subGoals = [sample_goal 0 [], sample_goal 1 [subId 0], sample_goal 2 [subId 3], sample_goal 3 [subId 2]],
     gg_dependencies = [], gg_maxConcurrency = 2, gg_trace = []\<rparr>"

definition sample_gave :: "sub_goal \<Rightarrow> nat \<Rightarrow> goal_result" where
  "sample_gave g i = \<lparr>gr_subGoal = ''goal'', gr_artifact = None, gr_command = None, gr_summary = ''s'', gr_status = ''SUCCESS''\<rparr>"



text \<open>
  C34: The sub-goals of a complex request are never worked on. Whatever the text that is decomposed, every
  sub-goal is reported as completed with success, and its execution leaves the host, the tool events and
  the budgets untouched: the graph made for a sub-goal has one node, of a kind that performs no operation.
\<close>

theorem decomposed_goals_simulated:
  assumes "decomposeIntoSubGoalGraph distilled riskFlags maxSubGoals maxConcurrency = Some g"
    and "runId \<noteq> []" and "isDatetime E createdAt" and "sx_mapNode D = None" and "sx_signal D = (\<lambda>_. False)"
  shows "\<exists>rs. executeDecomposedSubGoals pick (\<lambda>goal i. the (fst (executeOneSubGoal E issues N D runId createdAt goal i w))) None (GoalGraph g) = Some rs
     \<and> length rs = length (gg_subGoals g)
     \<and> (\<forall>r \<in> set rs. gr_status r = ''SUCCESS'' \<and> gr_summary r = ''completed (SUCCESS)'')
     \<and> (\<forall>goal \<in> set (gg_subGoals g). \<forall>i. snd (executeOneSubGoal E issues N D runId createdAt goal i w) = w)"
proof -
  let ?gave = "\<lambda>goal i. the (fst (executeOneSubGoal E issues N D runId createdAt goal i w))"
  have g: "earlier_only g" "list_all SubGoalSchema (gg_subGoals g)" "length (gg_subGoals g) \<le> 8"
    using decomposed_earlier [OF assms(1)] by blast+
  have one: "executeOneSubGoal E issues N D runId createdAt goal i w =
      (Some \<lparr>gr_subGoal = redactString (sg_goal goal), gr_artifact = Some (''sub-goal-'' @ show_nat i), gr_command = None,
           gr_summary = ''completed (SUCCESS)'', gr_status = ''SUCCESS''\<rparr>, w)" if "SubGoalSchema goal" for goal i
    using executeOneSubGoal_result [OF that assms(2-5)] .
  obtain g' where g': "normalizeSubGoalGraph g = Some g'" "earlier_only g'" "list_all SubGoalSchema (gg_subGoals g')"
    "length (gg_subGoals g') = length (gg_subGoals g)" "0 < gg_maxConcurrency g'"
    by (rule normalize_earlier [OF g(1,2)]) (use g(3) in auto)
  let ?gs = "gg_subGoals g'" and ?m = "boundedConcurrency (gg_maxConcurrency g')"
  have m: "0 < ?m" by (simp add: boundedConcurrency_def)
  have num: "map sg_id ?gs = map subId [0..<length ?gs]" using g'(2) by (simp add: earlier_only_def)
  let ?rs = "executeGraph pick ?m ?gave g'"
  note res = goal_results [OF m numbered_distinct [OF num] refl refl, where pick = pick and gave = ?gave]
  have each: "gr_status (?rs ! i) = ''SUCCESS'' \<and> gr_summary (?rs ! i) = ''completed (SUCCESS)''" if "i < length ?gs" for i
    using that
  proof (induction i rule: less_induct)
    case (less i)
    have "\<exists>j < length ?gs. sg_id (?gs ! j) = d \<and> gr_status (?rs ! j) = ''SUCCESS''" if d: "d \<in> set (sg_dependencies (?gs ! i))" for d
    proof -
      obtain j where j: "j < i" "d = subId j"
        using g'(2) [unfolded earlier_only_def, THEN conjunct2, THEN conjunct1] less.prems d by blast
      then show ?thesis using less.IH [of j] less.prems numbered_id [OF num, of j] by (intro exI [of _ j]) simp
    qed
    then have "?rs ! i = ?gave (?gs ! i) i" using res(2) [OF less.prems] by (simp split: if_splits)
    moreover have "SubGoalSchema (?gs ! i)" using g'(3) less.prems by (simp add: list_all_iff)
    ultimately show ?case using one by simp
  qed
  have "executeDecomposedSubGoals pick ?gave None (GoalGraph g) = Some ?rs" using g'(1) by (simp add: executeDecomposedSubGoals_def)
  moreover have "\<forall>r \<in> set ?rs. gr_status r = ''SUCCESS'' \<and> gr_summary r = ''completed (SUCCESS)''"
    using each res(1) by (metis in_set_conv_nth)
  moreover have "\<forall>goal \<in> set (gg_subGoals g). \<forall>i. snd (executeOneSubGoal E issues N D runId createdAt goal i w) = w"
    using one g(2) by (simp add: list_all_iff)
  ultimately show ?thesis using res(1) g'(4) by (intro exI [of _ ?rs]) simp
qed

definition sample_request :: string where
  "sample_request = ''- Inspect the parser'' @ [CHR 0x0A] @ ''- Update the parser''"

lemma sample_request_items: "fst (parseCandidateSubGoals sample_request) = [''Inspect the parser'', ''Update the parser'']"
  by code_simp

lemma sample_request_goals:
  "list_all SubGoalSchema (candidate_goals sample_request [] None) \<and> length (candidate_goals sample_request [] None) = 2"
proof -
  have "redactString ''Inspect the parser'' = ''Inspect the parser''" "redactString ''Update the parser'' = ''Update the parser''"
    by code_simp+
  then show ?thesis
    by (simp add: candidate_goals_def sample_request_items boundedMaxSubGoals_def DEFAULT_MAX_SUB_GOALS_def inferred_schema Let_def)
qed

theorem decomposed_goals_simulated_witness:
  "\<exists>g rs. decomposeIntoSubGoalGraph sample_request [] None None = Some g \<and> length rs = 2 \<and> (\<forall>r \<in> set rs. gr_status r = ''SUCCESS'')
     \<and> executeDecomposedSubGoals (\<lambda>_ n. n)
         (\<lambda>goal i. the (fst (executeOneSubGoal sample_env (\<lambda>_. []) sample_tools sample_sx ''run-1'' ''now'' goal i sample_tool_world)))
         None (GoalGraph g) = Some rs"
proof -
  obtain g where g: "decomposeIntoSubGoalGraph sample_request [] None None = Some g" and len: "length (gg_subGoals g) = 2"
    by (rule decomposition [of sample_request "[]" None None]) (use sample_request_goals in simp_all)
  have env: "''run-1'' \<noteq> []" "isDatetime sample_env ''now''" "sx_mapNode sample_sx = None" "sx_signal sample_sx = (\<lambda>_. False)"
    by (simp_all add: sample_env_def sample_sx_def)
  obtain rs where "executeDecomposedSubGoals (\<lambda>_ n. n)
       (\<lambda>goal i. the (fst (executeOneSubGoal sample_env (\<lambda>_. []) sample_tools sample_sx ''run-1'' ''now'' goal i sample_tool_world)))
       None (GoalGraph g) = Some rs" "length rs = 2" "\<forall>r \<in> set rs. gr_status r = ''SUCCESS''"
    using decomposed_goals_simulated [OF g env, where pick = "\<lambda>_ n. n" and issues = "\<lambda>_. []" and N = sample_tools and w = sample_tool_world]
    unfolding len by blast
  with g show ?thesis by (intro exI conjI)
qed

end
