(* ===== verification/Live_Calls.thy ===== *)
theory Live_Calls
  imports Budget_Gate Crucible_Review
begin

text \<open>
  The provider calls of the live steps. Planner, skeptic, synthesizer and task decomposer share one
  pattern (\<open>src/orchestration/planner.ts\<close>, \<open>skeptic.ts\<close>, \<open>synthesizer.ts\<close>): before each call the
  projected usage passes two budget gates, the call checks the budget again (\<open>invokeWithBudget\<close> of
  \<open>src/providers/llm.ts\<close>), its usage is added up, and an answer that does not validate is sent back once
  with a repair prompt. Providers are parameters: \<open>pv_invoke P n\<close> is the answer to the call after \<open>n\<close>
  others, \<open>pv_slow P n\<close> whether it takes longer than the time limit of the skeptic.
\<close>

section \<open>Providers\<close>

record llm_usage =
  lu_inputTokens :: nat
  lu_outputTokens :: nat
  lu_totalTokens :: nat
  lu_estimatedUsd :: rat
  lu_modelCalls :: nat

type_synonym llm_messages = "(string \<times> string) list"

record llm_request =
  lr_messages :: llm_messages
  lr_modelRoute :: string
  lr_model :: "string option"
  lr_responseFormat :: string
  lr_task :: string

record llm_response =
  lp_provider :: string
  lp_model :: string
  lp_content :: string
  lp_usage :: llm_usage

record llm_provider =
  pv_id :: string
  pv_models :: "(string, string) js_map"
  pv_estimate :: "llm_request \<Rightarrow> llm_usage"
  pv_invoke :: "nat \<Rightarrow> llm_request \<Rightarrow> string + llm_response"
  pv_slow :: "nat \<Rightarrow> bool"

definition LLMMessageSchema :: "string \<times> string \<Rightarrow> bool" where
  "LLMMessageSchema m = (fst m \<in> set [''system'', ''user'', ''assistant'', ''tool''])"

definition MODEL_ROUTES :: "string list" where
  "MODEL_ROUTES = [''cheap'', ''fast'', ''flagship'', ''research'', ''fake'']"

definition LLMRequestSchema :: "llm_request \<Rightarrow> bool" where
  "LLMRequestSchema q =
     (lr_messages q \<noteq> [] \<and> list_all LLMMessageSchema (lr_messages q) \<and> lr_modelRoute q \<in> set MODEL_ROUTES
      \<and> lr_model q \<noteq> Some [] \<and> lr_responseFormat q \<in> set [''text'', ''json_object''] \<and> lr_task q \<noteq> [])"

definition LLMUsageSchema :: "llm_usage \<Rightarrow> bool" where
  "LLMUsageSchema u = (0 \<le> lu_estimatedUsd u)"

definition ZERO_USAGE :: llm_usage where
  "ZERO_USAGE = \<lparr>lu_inputTokens = 0, lu_outputTokens = 0, lu_totalTokens = 0, lu_estimatedUsd = 0, lu_modelCalls = 0\<rparr>"

definition addUsage :: "llm_usage \<Rightarrow> llm_usage \<Rightarrow> llm_usage" where
  "addUsage l r =
     \<lparr>lu_inputTokens = lu_inputTokens l + lu_inputTokens r, lu_outputTokens = lu_outputTokens l + lu_outputTokens r,
      lu_totalTokens = lu_totalTokens l + lu_totalTokens r, lu_estimatedUsd = lu_estimatedUsd l + lu_estimatedUsd r,
      lu_modelCalls = lu_modelCalls l + lu_modelCalls r\<rparr>"

definition flagshipModel :: "llm_provider \<Rightarrow> string" where
  "flagshipModel P =
     over (js_get (pv_models P) ''flagship'') (over (js_get (pv_models P) ''fast'') (over (js_get (pv_models P) ''research'')
       (over (js_get (pv_models P) ''cheap'') (case js_values (pv_models P) of v # _ \<Rightarrow> v | [] \<Rightarrow> pv_id P))))"

section \<open>Usage\<close>

fun committedNumber :: "json \<Rightarrow> json \<Rightarrow> rat" where
  "committedNumber (JNum (Fin q)) _ = q"
| "committedNumber _ (JNum (Fin q)) = q"
| "committedNumber _ _ = 0"

definition committedCost :: "run \<Rightarrow> string \<Rightarrow> rat" where
  "committedCost r k = committedNumber (optField (run_actualCost r) k) (jfield (run_costEstimate r) k)"

definition committedTokens :: "run \<Rightarrow> string \<Rightarrow> rat" where
  "committedTokens r k = committedNumber (optField (run_actualTokens r) k) (jfield (run_tokenEstimate r) k)"

definition buildPreflightUsage :: "llm_provider \<Rightarrow> llm_usage \<Rightarrow> run \<Rightarrow> llm_usage \<Rightarrow> budget_usage" where
  "buildPreflightUsage P estimate r spent =
     (let num = (\<lambda>q. JNum (Fin q))
      in no_usage\<lparr>bu_provider := Some (pv_id P),
           bu_estimatedUsd := num (committedCost r ''usd'' + lu_estimatedUsd spent + lu_estimatedUsd estimate),
           bu_inputTokens := num (committedTokens r ''input'' + of_nat (lu_inputTokens spent) + of_nat (lu_inputTokens estimate)),
           bu_outputTokens := num (committedTokens r ''output'' + of_nat (lu_outputTokens spent) + of_nat (lu_outputTokens estimate)),
           bu_modelCalls := num (committedCost r ''modelCalls'' + of_nat (lu_modelCalls spent) + of_nat (lu_modelCalls estimate)),
           bu_runtimeMs := num (committedCost r ''runtimeMs''),
           bu_healingAttempts := num (of_nat (run_healingAttempts r))\<rparr>)"

definition providerBudgetUsage :: "llm_provider \<Rightarrow> llm_usage \<Rightarrow> run \<Rightarrow> budget_usage" where
  "providerBudgetUsage P estimate r = buildPreflightUsage P estimate r ZERO_USAGE"

definition accumulatedRunUsage :: "run \<Rightarrow> llm_usage \<Rightarrow> projection" where
  "accumulatedRunUsage r spent =
     \<lparr>bp_estimatedUsd = JNum (Fin (committedCost r ''usd'' + lu_estimatedUsd spent)),
      bp_modelCalls = JNum (Fin (committedCost r ''modelCalls'' + of_nat (lu_modelCalls spent)))\<rparr>"

definition estimateProjection :: "llm_usage \<Rightarrow> projection" where
  "estimateProjection u =
     \<lparr>bp_estimatedUsd = JNum (Fin (lu_estimatedUsd u)), bp_modelCalls = JNum (Fin (of_nat (lu_modelCalls u)))\<rparr>"

section \<open>One call\<close>

text \<open>
  \<open>made\<close> lists the requests that reached the provider, the oldest first. The message of a Zod error is
  a parameter of no consequence here and left empty.
\<close>

definition invokeWithBudget ::
  "(jsnum \<Rightarrow> string) \<Rightarrow> llm_provider \<Rightarrow> run \<Rightarrow> llm_request \<Rightarrow> llm_request list \<Rightarrow> (string + llm_response) \<times> llm_request list" where
  "invokeWithBudget numStr P r request made =
     (if \<not> LLMRequestSchema request then (Inl [], made)
      else let decision = evaluateBudget numStr r (providerBudgetUsage P (pv_estimate P request) r)
           in if bd_status decision \<noteq> BudgetAllowed
              then (Inl (''Provider invocation denied by budget: '' @ joinWith ''; '' (bd_reasons decision)), made)
              else (pv_invoke P (length made) request, made @ [request]))"

section \<open>Two attempts\<close>

text \<open>
  A live step gives the request for a prompt, the check of an answer (a failure or what was asked for),
  the repair prompt, and whether a call is bounded in time. A failure is the summary for the repair
  prompt and the names of the offending fields.
\<close>

type_synonym live_failure = "string \<times> string list"

record 'a live_step =
  ls_request :: "llm_messages \<Rightarrow> llm_request"
  ls_validate :: "string \<Rightarrow> live_failure + 'a"
  ls_repair :: "string \<Rightarrow> string \<Rightarrow> llm_messages"
  ls_bounded :: bool

datatype 'a live_end =
    LiveOk 'a string
  | LiveDenied "string list"
  | LiveTimeout
  | LiveError string
  | LiveInvalid live_failure

record 'a live_outcome =
  lo_end :: "'a live_end"
  lo_usage :: llm_usage
  lo_attempt :: nat
  lo_made :: "llm_request list"

definition preflight :: "(jsnum \<Rightarrow> string) \<Rightarrow> llm_provider \<Rightarrow> run \<Rightarrow> llm_request \<Rightarrow> llm_usage \<Rightarrow> budget_decision \<times> budget_decision" where
  "preflight numStr P r request spent =
     (let estimate = pv_estimate P request
      in (evaluateBudget numStr r (buildPreflightUsage P estimate r spent),
          enforceMaxPerRunBudget numStr r (accumulatedRunUsage r spent) (estimateProjection estimate)))"

text \<open>\<open>left\<close> counts the attempts that remain; attempts are numbered from one.\<close>

fun live_attempts ::
  "(jsnum \<Rightarrow> string) \<Rightarrow> llm_provider \<Rightarrow> run \<Rightarrow> 'a live_step \<Rightarrow> nat \<Rightarrow> nat \<Rightarrow> llm_messages \<Rightarrow> llm_usage \<Rightarrow> llm_request list \<Rightarrow> live_failure
     \<Rightarrow> 'a live_outcome" where
  "live_attempts numStr P r L 0 attempt prompts spent made failure =
     \<lparr>lo_end = LiveInvalid failure, lo_usage = spent, lo_attempt = attempt - 1, lo_made = made\<rparr>"
| "live_attempts numStr P r L (Suc left) attempt prompts spent made failure =
     (let request = ls_request L prompts; (decision, ceiling) = preflight numStr P r request spent
      in if bd_status decision \<noteq> BudgetAllowed \<or> bd_status ceiling \<noteq> BudgetAllowed
         then \<lparr>lo_end = LiveDenied (bd_reasons decision @ bd_reasons ceiling), lo_usage = spent, lo_attempt = attempt - 1, lo_made = made\<rparr>
         else case invokeWithBudget numStr P r request made of
                (answer, made1) \<Rightarrow>
                  if ls_bounded L \<and> made1 \<noteq> made \<and> pv_slow P (length made)
                  then \<lparr>lo_end = LiveTimeout, lo_usage = spent, lo_attempt = attempt, lo_made = made1\<rparr>
                  else case answer of
                         Inl message \<Rightarrow> \<lparr>lo_end = LiveError message, lo_usage = spent, lo_attempt = attempt, lo_made = made1\<rparr>
                       | Inr response \<Rightarrow>
                           let spent1 = addUsage spent (lp_usage response)
                           in case ls_validate L (lp_content response) of
                                Inr x \<Rightarrow> \<lparr>lo_end = LiveOk x (lp_model response), lo_usage = spent1, lo_attempt = attempt, lo_made = made1\<rparr>
                              | Inl failed \<Rightarrow>
                                  live_attempts numStr P r L left (Suc attempt) (ls_repair L (lp_content response) (fst failed)) spent1 made1 failed)"

definition live_calls :: "(jsnum \<Rightarrow> string) \<Rightarrow> llm_provider \<Rightarrow> run \<Rightarrow> 'a live_step \<Rightarrow> llm_messages \<Rightarrow> live_failure \<Rightarrow> 'a live_outcome" where
  "live_calls numStr P r L prompts failure = live_attempts numStr P r L 2 1 prompts ZERO_USAGE [] failure"

end
