(* ===== verification/Skeptic_Review.thy ===== *)
theory Skeptic_Review
  imports Crucible_Review Word_Patterns
begin

text \<open>
  The skeptic's own review of a plan, \<open>src/orchestration/skeptic.ts\<close>. The code takes an unknown value;
  the model takes the plans of the planner's schema, which carry no identifier of their own.
  \<open>jsonText\<close> is \<open>JSON.stringify\<close>. A Zod error is \<open>None\<close>.
\<close>

section \<open>Context packs\<close>

text \<open>
  The result of triage (\<open>orchestration/triage.ts\<close>) and the parts of a context pack
  (\<open>orchestration/contextBuilder.ts\<close>) that planner and review read.
\<close>

datatype triage_route = DIRECT_ANSWER | PLAN_ONLY | CODE_EDIT | RESEARCH | LONG_RUNNING | NEEDS_CLARIFICATION

datatype triage_complexity = ComplexityLow | ComplexityMedium | ComplexityHigh

record triage_result =
  tg_route :: triage_route
  tg_confidence :: jsnum
  tg_complexity :: triage_complexity
  tg_reasons :: "string list"
  tg_riskFlags :: "string list"

record artifact_handle =
  ah_artifactId :: string
  ah_kind :: string
  ah_uri :: string
  ah_summary :: string

record inline_context =
  ic_kind :: string
  ic_summary :: string
  ic_content :: string

record context_pack =
  cp_id :: string
  cp_createdAt :: string
  cp_userIntentSummary :: string
  cp_triage :: triage_result
  cp_constraints :: "string list"
  cp_configured :: "string list"
  cp_unavailable :: "string list"
  cp_providerNotes :: "string list"
  cp_toolNames :: "string list"
  cp_toolNotes :: "string list"
  cp_artifactHandles :: "artifact_handle list"
  cp_relevantDocs :: "artifact_handle list"
  cp_relevantMemory :: "artifact_handle list"
  cp_inlineContext :: "inline_context list"

definition contextPackText :: "context_pack \<Rightarrow> string" where
  "contextPackText c =
     (let handle = (\<lambda>a. [ah_artifactId a, ah_kind a, ah_uri a, ah_summary a])
      in joinWith [CHR 0x0A]
           ([cp_id c, cp_userIntentSummary c] @ cp_constraints c @ cp_configured c @ cp_unavailable c @ cp_providerNotes c
            @ cp_toolNames c @ cp_toolNotes c @ concat (map handle (cp_artifactHandles c)) @ concat (map handle (cp_relevantDocs c))
            @ concat (map handle (cp_relevantMemory c))
            @ concat (map (\<lambda>i. [ic_kind i, ic_summary i, ic_content i]) (cp_inlineContext c))))"

section \<open>Reading a plan\<close>

definition stringValue :: "string \<Rightarrow> string option" where
  "stringValue s = (if js_trim s \<noteq> [] then Some s else None)"

definition stringArray :: "string list \<Rightarrow> string list" where
  "stringArray xs = filter (\<lambda>s. s \<noteq> []) xs"

definition hasValidationArray :: "string list \<Rightarrow> bool" where
  "hasValidationArray xs = (stringArray xs \<noteq> [])"

definition hasValidation :: "planner_validation \<Rightarrow> bool" where
  "hasValidation v = (stringValue (pv_summary v) \<noteq> None \<and> hasValidationArray (pv_checks v))"

definition hasClarificationGate :: "planner_output \<Rightarrow> context_pack option \<Rightarrow> bool" where
  "hasClarificationGate p c =
     (map_option (tg_route \<circ> cp_triage) c = Some NEEDS_CLARIFICATION
      \<or> list_ex (\<lambda>g. ag_type g = GateClarification \<and> ag_required g) (po_approvalGates p))"

definition isUnsafeTask :: "planner_task \<Rightarrow> bool" where
  "isUnsafeTask t = (isHighRisk (pt_risk t) \<or> pt_approvalRequired t)"

definition hasRequiredGateForTask :: "planner_output \<Rightarrow> string option \<Rightarrow> bool" where
  "hasRequiredGateForTask p taskId =
     list_ex (\<lambda>g. ag_required g \<and> (let ids = stringArray (ag_taskIds g) in ids = [] \<or> (\<exists>t \<in> set ids. taskId = Some t)))
       (po_approvalGates p)"

definition taskText :: "planner_task \<Rightarrow> string" where
  "taskText t =
     joinWith [CHR 0x0A] (filter (\<lambda>s. s \<noteq> [])
       [over (stringValue (pt_id t)) [], over (stringValue (pt_title t)) [], over (stringValue (pt_description t)) [],
        joinWith [CHR 0x0A] (stringArray (pt_expectedArtifacts t)), joinWith [CHR 0x0A] (stringArray (pt_validation t))])"

definition planText :: "planner_output \<Rightarrow> string" where
  "planText p =
     joinWith [CHR 0x0A] (filter (\<lambda>s. s \<noteq> [])
       [over (stringValue (po_goal p)) [], joinWith [CHR 0x0A] (stringArray (po_assumptions p)),
        joinWith [CHR 0x0A] (map taskText (po_tasks p))])"

definition RISKY_LANGUAGE :: "string list" where
  "RISKY_LANGUAGE = [''modify'', ''write'', ''delete'', ''remove'', ''drop'', ''wipe'', ''destroy'', ''overwrite'', ''deploy'',
     ''deployment'', ''production'', ''migrate'', ''migration'']"

definition riskyLanguage :: "string \<Rightarrow> bool" where
  "riskyLanguage s = hasWord RISKY_LANGUAGE (toLowerCase s)"

definition unsupportedContextReferences :: "planner_output \<Rightarrow> context_pack option \<Rightarrow> string list" where
  "unsupportedContextReferences p c =
     (case c of
        None \<Rightarrow> []
      | Some pack \<Rightarrow>
          let corpus = toLowerCase (contextPackText pack);
              candidate = joinWith [CHR 0x0A] (joinWith [CHR 0x0A] (stringArray (po_assumptions p)) # map taskText (po_tasks p))
          in filter (\<lambda>r. \<not> js_includes corpus (toLowerCase r)) (js_set_of (fileReferences candidate @ apiReferences candidate)))"

definition stringsJson :: "string list \<Rightarrow> json" where
  "stringsJson xs = JArr (map JStr xs)"

definition validationJson :: "planner_validation \<Rightarrow> json" where
  "validationJson v = JObj [(''summary'', JStr (pv_summary v)), (''checks'', stringsJson (pv_checks v))]"

section \<open>Findings\<close>

text \<open>A finding before it is numbered.\<close>

definition draftFinding :: "finding_severity \<Rightarrow> string option \<Rightarrow> string \<Rightarrow> string \<Rightarrow> string \<Rightarrow> string \<Rightarrow> skeptic_finding" where
  "draftFinding severity taskId category message evidence recommendation =
     \<lparr>sf_id = [], sf_severity = severity, sf_taskId = taskId, sf_category = category, sf_message = message, sf_evidence = evidence,
      sf_recommendation = recommendation\<rparr>"

definition planTaskIds :: "planner_output \<Rightarrow> string list" where
  "planTaskIds p = js_set_of (filter (\<lambda>s. js_trim s \<noteq> []) (map pt_id (po_tasks p)))"

definition validationFindings :: "(json \<Rightarrow> string) \<Rightarrow> planner_output \<Rightarrow> skeptic_finding list" where
  "validationFindings jsonText p =
     (if hasValidation (po_validation p) then []
      else [draftFinding MAJOR None ''validation'' ''Plan is missing top-level validation criteria.''
              (jsonText (validationJson (po_validation p)))
              ''Add a top-level validation summary and at least one concrete validation check.''])
     @ concat (map (\<lambda>t. if hasValidationArray (pt_validation t) then []
         else [draftFinding MAJOR (stringValue (pt_id t)) ''validation'' ''Task is missing validation criteria.''
                 (jsonText (stringsJson (pt_validation t))) ''Add at least one concrete validation check for this task.'']) (po_tasks p))"

definition dependencyFindings :: "planner_output \<Rightarrow> skeptic_finding list" where
  "dependencyFindings p =
     (let known = set (planTaskIds p);
          dangling = (\<lambda>s message recommendation. if js_trim s \<noteq> [] \<and> s \<notin> known
                        then [draftFinding BLOCKER None ''dependency'' message s recommendation] else [])
      in concat (map (\<lambda>d.
           dangling (pd_from d) ''Plan dependency references a missing source task.''
             ''Remove the dangling dependency or add the referenced source task.''
           @ dangling (pd_to d) ''Plan dependency references a missing target task.''
               ''Remove the dangling dependency or add the referenced target task.'') (po_dependencies p))
         @ concat (map (\<lambda>t. map (\<lambda>d. draftFinding BLOCKER (stringValue (pt_id t)) ''dependency'' ''Task dependency references a missing task.'' d
               ''Remove the dangling task dependency or add the referenced task.'')
             (filter (\<lambda>d. d \<notin> known) (stringArray (pt_dependencies t)))) (po_tasks p)))"

definition clarificationFindings :: "planner_output \<Rightarrow> context_pack option \<Rightarrow> skeptic_finding list" where
  "clarificationFindings p c =
     (if po_tasks p = [] \<and> \<not> hasClarificationGate p c
      then [draftFinding BLOCKER None ''clarification'' ''Plan has no tasks but does not include a clarification gate.'' ''tasks=[]''
              ''Add executable tasks or include a required clarification gate before execution.''] else [])"

definition approvalFindings :: "planner_output \<Rightarrow> skeptic_finding list" where
  "approvalFindings p =
     concat (map (\<lambda>t. if isUnsafeTask t \<and> \<not> hasRequiredGateForTask p (stringValue (pt_id t))
       then [draftFinding BLOCKER (stringValue (pt_id t)) ''approval'' ''High-risk or destructive task lacks a required approval gate.''
               (''risk='' @ riskName (pt_risk t) @ ''; approvalRequired='' @ (if pt_approvalRequired t then ''true'' else ''false''))
               ''Add a required approval/checkpoint gate for this task before execution.''] else []) (po_tasks p))"

definition riskFindings :: "planner_output \<Rightarrow> skeptic_finding list" where
  "riskFindings p =
     (if po_riskLevel p = RiskLow \<and> riskyLanguage (planText p)
      then [draftFinding MAJOR None ''risk'' ''Plan-level risk appears underestimated for implementation or destructive language.''
              (''riskLevel='' @ riskName (po_riskLevel p))
              ''Raise the plan risk level or remove implementation/deployment/destructive actions from the plan.''] else [])
     @ concat (map (\<lambda>t. if pt_risk t = RiskLow \<and> riskyLanguage (taskText t)
         then [draftFinding MAJOR (stringValue (pt_id t)) ''risk''
                 ''Task risk appears underestimated for implementation or destructive language.''
                 (''risk='' @ riskName (pt_risk t))
                 ''Raise the task risk level or narrow the task to non-implementation work.''] else []) (po_tasks p))"

definition contextFindings :: "planner_output \<Rightarrow> context_pack option \<Rightarrow> skeptic_finding list" where
  "contextFindings p c =
     map (\<lambda>r. draftFinding MAJOR None ''context'' ''Plan assumes a file or API that is absent from the context pack.'' r
       ''Inspect or retrieve the referenced file/API before relying on it in the plan.'') (unsupportedContextReferences p c)"

definition numberFindings :: "skeptic_finding list \<Rightarrow> skeptic_finding list" where
  "numberFindings fs = map (\<lambda>(i, f). f\<lparr>sf_id := ''skeptic.'' @ sf_category f @ ''.'' @ show_nat (Suc i)\<rparr>) (List.enumerate 0 fs)"

definition planFindings :: "(json \<Rightarrow> string) \<Rightarrow> planner_output \<Rightarrow> context_pack option \<Rightarrow> skeptic_finding list" where
  "planFindings jsonText p c =
     numberFindings (validationFindings jsonText p @ dependencyFindings p @ clarificationFindings p c @ approvalFindings p
       @ riskFindings p @ contextFindings p c)"

section \<open>Duplicates and verdict\<close>

text \<open>
  \<open>redactSecrets\<close> on a finding: no field has a sensitive name, and the severities are not changed by
  redaction.
\<close>

definition sanitizeFinding :: "skeptic_finding \<Rightarrow> skeptic_finding" where
  "sanitizeFinding f =
     f\<lparr>sf_id := redactString (sf_id f), sf_taskId := map_option redactString (sf_taskId f), sf_category := redactString (sf_category f),
       sf_message := redactString (sf_message f), sf_evidence := redactString (sf_evidence f),
       sf_recommendation := redactString (sf_recommendation f)\<rparr>"

fun severityName :: "finding_severity \<Rightarrow> string" where
  "severityName BLOCKER = ''BLOCKER''"
| "severityName MAJOR = ''MAJOR''"
| "severityName MINOR = ''MINOR''"
| "severityName INFO = ''INFO''"

fun severityRank :: "finding_severity \<Rightarrow> nat" where
  "severityRank BLOCKER = 4"
| "severityRank MAJOR = 3"
| "severityRank MINOR = 2"
| "severityRank INFO = 1"

definition findingKey :: "skeptic_finding \<Rightarrow> string" where
  "findingKey f = joinWith [CHR 0x00] [severityName (sf_severity f), over (sf_taskId f) [], sf_category f, sf_message f, sf_evidence f]"

definition addFinding :: "skeptic_finding \<Rightarrow> (string, skeptic_finding) js_map \<Rightarrow> (string, skeptic_finding) js_map" where
  "addFinding f m =
     (case js_get m (findingKey f) of
        None \<Rightarrow> js_set (findingKey f) f m
      | Some existing \<Rightarrow> if severityRank (sf_severity existing) < severityRank (sf_severity f) then js_set (findingKey f) f m else m)"

definition renameFinding :: "nat \<times> skeptic_finding \<Rightarrow> skeptic_finding" where
  "renameFinding = (\<lambda>(i, f). f\<lparr>sf_id := (if js_trim (sf_id f) \<noteq> [] then js_trim (sf_id f) else ''skeptic.finding.'' @ show_nat (Suc i))\<rparr>)"

definition deduplicateSkepticFindings :: "skeptic_finding list \<Rightarrow> skeptic_finding list option" where
  "deduplicateSkepticFindings findings =
     (let clean = map sanitizeFinding findings
      in if list_all SkepticFindingSchema clean
         then Some (map renameFinding (List.enumerate 0 (js_values (fold addFinding clean []))))
         else None)"

definition verdictForFindings :: "skeptic_finding list \<Rightarrow> review_verdict" where
  "verdictForFindings fs =
     (if list_ex (\<lambda>f. sf_severity f = BLOCKER) fs then REVIEW_BLOCKED
      else if list_ex (\<lambda>f. sf_severity f = MAJOR \<or> sf_severity f = MINOR) fs then REVIEW_NEEDS_REVISION else REVIEW_SOUND)"

definition reviewPlanWithSkeptic ::
  "schema_env \<Rightarrow> (json \<Rightarrow> string) \<Rightarrow> planner_output \<Rightarrow> context_pack option \<Rightarrow> skeptic_review option" where
  "reviewPlanWithSkeptic E jsonText p c =
     (case (if list_all SkepticFindingSchema (planFindings jsonText p c)
            then deduplicateSkepticFindings (planFindings jsonText p c) else None) of
        None \<Rightarrow> None
      | Some findings \<Rightarrow>
          let review = \<lparr>sr_verdict = verdictForFindings findings, sr_findings = findings, sr_reviewedPlanId = None,
                 sr_planGoal = Some (over (stringValue (po_goal p)) ''unknown plan''),
                 sr_createdAt = (case c of Some pack \<Rightarrow> cp_createdAt pack | None \<Rightarrow> ''1970-01-01T00:00:00.000Z'')\<rparr>
          in if SkepticReviewSchema E review then Some review else None)"

end
