(* ===== verification/Planner_Plans.thy ===== *)
theory Planner_Plans
  imports Skeptic_Review
begin

text \<open>
  The planner without a model, \<open>src/orchestration/planner.ts\<close>: the plan for each route and the
  normalisation that every plan passes. Inputs are those that passed \<open>PlannerInputSchema\<close>. The ellipsis
  (outside the alphabet of the model), \<open>toFixed\<close> and \<open>localeCompare\<close> are parameters. A Zod error is
  \<open>None\<close>.
\<close>

section \<open>Normalisation\<close>

text \<open>\<open>sort()\<close> without a comparator: by code units.\<close>

fun codeUnitCompare :: "string \<Rightarrow> string \<Rightarrow> int" where
  "codeUnitCompare [] [] = 0"
| "codeUnitCompare [] (_ # _) = - 1"
| "codeUnitCompare (_ # _) [] = 1"
| "codeUnitCompare (c # cs) (d # ds) =
     (if (of_char c :: nat) < of_char d then - 1 else if (of_char d :: nat) < of_char c then 1 else codeUnitCompare cs ds)"

definition uniquePlanStrings :: "string list \<Rightarrow> string list" where
  "uniquePlanStrings values = js_set_of (filter (\<lambda>s. s \<noteq> []) (map js_trim values))"

definition dependencyKey :: "planner_dependency \<Rightarrow> string" where
  "dependencyKey d = pd_from d @ [CHR 0x00] @ pd_to d @ [CHR 0x00] @ over (pd_reason d) []"

fun uniquePlanDependencies :: "string list \<Rightarrow> planner_dependency list \<Rightarrow> planner_dependency list" where
  "uniquePlanDependencies seen [] = []"
| "uniquePlanDependencies seen (d # ds) =
     (if dependencyKey d \<in> set seen then uniquePlanDependencies seen ds
      else d # uniquePlanDependencies (dependencyKey d # seen) ds)"

definition normalTask :: "planner_task \<Rightarrow> planner_task" where
  "normalTask t =
     t\<lparr>pt_dependencies := sort_by codeUnitCompare (uniquePlanStrings (pt_dependencies t)),
       pt_expectedArtifacts := uniquePlanStrings (pt_expectedArtifacts t), pt_validation := uniquePlanStrings (pt_validation t)\<rparr>"

definition normalGate :: "approval_gate \<Rightarrow> approval_gate" where
  "normalGate g = g\<lparr>ag_taskIds := sort_by codeUnitCompare (uniquePlanStrings (ag_taskIds g))\<rparr>"

definition normalPlan :: "(string \<Rightarrow> string \<Rightarrow> int) \<Rightarrow> planner_output \<Rightarrow> planner_output" where
  "normalPlan locale p =
     p\<lparr>po_assumptions := uniquePlanStrings (po_assumptions p), po_tasks := map normalTask (po_tasks p),
       po_dependencies := sort_by (\<lambda>l r. locale (dependencyKey l) (dependencyKey r)) (uniquePlanDependencies [] (po_dependencies p)),
       po_validation := (po_validation p)\<lparr>pv_checks := uniquePlanStrings (pv_checks (po_validation p))\<rparr>,
       po_approvalGates := map normalGate (po_approvalGates p),
       po_requestedSkills := map_option (\<lambda>s. sort_by codeUnitCompare (uniquePlanStrings s)) (po_requestedSkills p)\<rparr>"

definition normalizePlannerOutput :: "(string \<Rightarrow> string \<Rightarrow> int) \<Rightarrow> planner_output \<Rightarrow> planner_output option" where
  "normalizePlannerOutput locale p = (if PlannerOutputSchema (normalPlan locale p) then Some (normalPlan locale p) else None)"

definition validatePlannerOutput :: "(string \<Rightarrow> string \<Rightarrow> int) \<Rightarrow> planner_output \<Rightarrow> planner_output option" where
  "validatePlannerOutput locale p = (if PlannerOutputSchema p then normalizePlannerOutput locale p else None)"

section \<open>Plans by route\<close>

record planner_input =
  pi_triage :: triage_result
  pi_contextPack :: context_pack
  pi_messageContent :: "string option"
  pi_intent :: "string option"

record plan_env =
  pe_localeCompare :: "string \<Rightarrow> string \<Rightarrow> int"
  pe_toFixed :: "jsnum \<Rightarrow> string"
  pe_ellipsis :: string

definition summarize :: "string \<Rightarrow> string \<Rightarrow> nat \<Rightarrow> string" where
  "summarize ellipsis content maxChars =
     (let normalized = js_trim (collapseSpaces content)
      in if length normalized \<le> maxChars then normalized else take (maxChars - 1) normalized @ ellipsis)"

fun routeName :: "triage_route \<Rightarrow> string" where
  "routeName DIRECT_ANSWER = ''DIRECT_ANSWER''"
| "routeName PLAN_ONLY = ''PLAN_ONLY''"
| "routeName CODE_EDIT = ''CODE_EDIT''"
| "routeName RESEARCH = ''RESEARCH''"
| "routeName LONG_RUNNING = ''LONG_RUNNING''"
| "routeName NEEDS_CLARIFICATION = ''NEEDS_CLARIFICATION''"

definition hasDestructiveRisk :: "triage_result \<Rightarrow> string \<Rightarrow> bool" where
  "hasDestructiveRisk t intent =
     (''destructive_change'' \<in> set (tg_riskFlags t) \<or> ''deployment_risk'' \<in> set (tg_riskFlags t)
      \<or> hasWord [''delete'', ''remove'', ''drop'', ''wipe'', ''destroy'', ''overwrite'', ''production'', ''deploy''] (toLowerCase intent))"

definition riskFromTriage :: "triage_result \<Rightarrow> risk_level" where
  "riskFromTriage t =
     (if hasDestructiveRisk t [] then RiskDestructive
      else if tg_complexity t = ComplexityHigh \<or> ''deployment_risk'' \<in> set (tg_riskFlags t) then RiskHigh
      else if tg_complexity t = ComplexityMedium \<or> tg_riskFlags t \<noteq> [] then RiskMedium
      else RiskLow)"

definition planTask ::
  "string \<Rightarrow> string \<Rightarrow> string \<Rightarrow> string list \<Rightarrow> string list \<Rightarrow> string list \<Rightarrow> risk_level \<Rightarrow> bool \<Rightarrow> planner_task" where
  "planTask ident title description deps produced checks risk approval =
     \<lparr>pt_id = ident, pt_title = title, pt_description = description, pt_dependencies = deps, pt_expectedArtifacts = produced,
      pt_validation = checks, pt_risk = risk, pt_approvalRequired = approval\<rparr>"

definition planEdge :: "string \<Rightarrow> string \<Rightarrow> planner_dependency" where
  "planEdge a b = \<lparr>pd_from = a, pd_to = b, pd_reason = None\<rparr>"

definition planValidation :: "string \<Rightarrow> string list \<Rightarrow> planner_validation" where
  "planValidation summary checks = \<lparr>pv_summary = summary, pv_checks = checks\<rparr>"

definition basePlan :: "plan_env \<Rightarrow> string \<Rightarrow> triage_result \<Rightarrow> context_pack \<Rightarrow> planner_output" where
  "basePlan X intent t c =
     \<lparr>po_goal = ''Plan for: '' @ (if intent \<noteq> [] then intent else cp_userIntentSummary c),
      po_assumptions = [''Triage route is '' @ routeName (tg_route t) @ '' with '' @ pe_toFixed X (tg_confidence t) @ '' confidence.'',
        ''Context pack '' @ cp_id c @ '' is the planning source of truth.''],
      po_tasks = [], po_dependencies = [],
      po_validation = planValidation ''Default planner validation'' [''Planner output schema parses''],
      po_riskLevel = riskFromTriage t, po_approvalGates = [], po_requestedSkills = None\<rparr>"

definition assuming :: "string \<Rightarrow> planner_output \<Rightarrow> planner_output" where
  "assuming a p = p\<lparr>po_assumptions := po_assumptions p @ [a]\<rparr>"

definition directAnswerPlan :: "planner_output \<Rightarrow> planner_output" where
  "directAnswerPlan base =
     (assuming ''User expects a concise answer or synthesis, not file changes.'' base)
       \<lparr>po_tasks := [planTask ''answer.synthesize'' ''Synthesize direct answer''
            ''Use available conversation context to produce a concise response.'' [] [''Assistant answer'']
            [''Answer addresses the stated question'', ''No file edits or external calls are planned''] RiskLow False],
        po_validation := planValidation ''Direct answer plan has exactly one synthesis task and no execution side effects''
          [''Confirm response is grounded in provided context'', ''Confirm no edit, tool, or provider execution tasks are included''],
        po_riskLevel := RiskLow\<rparr>"

definition planOnlyPlan :: "planner_output \<Rightarrow> planner_output" where
  "planOnlyPlan base =
     (assuming ''User requested planning only; no file edits should be executed.'' base)
       \<lparr>po_tasks := [planTask ''plan.inspect'' ''Inspect planning inputs''
            ''Review request constraints and available context before drafting the plan.'' [] [''Constraint summary'']
            [''Constraints are captured'', ''No executable code-change steps are started''] RiskLow False,
          planTask ''plan.document'' ''Document implementation plan'' ''Draft a sequenced plan with validation and risk notes.''
            [''plan.inspect''] [''Planning document or response'']
            [''Plan includes ordered steps'', ''Plan includes validation and risk notes''] RiskLow False],
        po_dependencies := [planEdge ''plan.inspect'' ''plan.document''],
        po_validation := planValidation ''Planning-only output stays non-executing and documents validation criteria''
          [''Confirm no edit task is marked executable'', ''Confirm the plan includes validation criteria''],
        po_riskLevel := RiskLow\<rparr>"

definition codeEditPlan :: "bool \<Rightarrow> triage_complexity \<Rightarrow> planner_output \<Rightarrow> planner_output" where
  "codeEditPlan destructive complexity base =
     (let editRisk = (if destructive then RiskDestructive else if complexity = ComplexityHigh then RiskHigh else RiskMedium);
          approvalRequired = isHighRisk editRisk
      in (assuming ''User expects code inspection, focused edits, and validation.'' base)
           \<lparr>po_tasks := [planTask ''code.inspect'' ''Inspect target code and tests''
                ''Identify relevant files, existing patterns, and safe edit boundaries.'' [] [''Inspection notes'']
                [''Relevant files are identified'', ''Existing project patterns are noted''] RiskLow False,
              planTask ''code.edit'' ''Apply focused code changes''
                (if destructive then ''Apply requested code changes only after explicit approval for destructive actions.''
                 else ''Apply focused code changes according to the inspected scope.'')
                [''code.inspect''] [''Updated source files'']
                [''Changes match requested scope'', ''No unrelated files are changed''] editRisk approvalRequired,
              planTask ''code.validate'' ''Validate changes'' ''Run targeted tests or checks appropriate for the edit.''
                [''code.edit''] [''Validation evidence'']
                [''Relevant tests or build checks are executed'', ''Failures are reported explicitly''] RiskMedium False],
            po_dependencies := [planEdge ''code.inspect'' ''code.edit'', planEdge ''code.edit'' ''code.validate''],
            po_validation := planValidation ''Code-edit plan inspects before editing and validates after editing''
              [''Confirm inspect precedes edit'', ''Confirm edit precedes validation'',
               ''Confirm destructive/high-risk edits have an approval gate''],
            po_riskLevel := editRisk,
            po_approvalGates := (if approvalRequired
              then [\<lparr>ag_id = (if destructive then ''gate.destructive-code-edit'' else ''gate.high-risk-code-edit''),
                      ag_type = GateApproval,
                      ag_reason = (if destructive then ''Request includes destructive or irreversible code-change indicators.''
                                   else ''High-complexity code changes require explicit approval before editing.''),
                      ag_required = True, ag_taskIds = [''code.edit'']\<rparr>]
              else [])\<rparr>)"

definition researchPlan :: "planner_output \<Rightarrow> planner_output" where
  "researchPlan base =
     (assuming ''User expects research synthesis with source citation.'' base)
       \<lparr>po_tasks := [planTask ''research.gather'' ''Gather research inputs''
            ''Collect relevant evidence from allowed docs, memory, or future research tools.'' [] [''Research notes'']
            [''Sources are relevant to the request'', ''Source limitations are captured''] RiskMedium False,
          planTask ''research.synthesize'' ''Synthesize findings'' ''Compare evidence and produce an answer aligned to the user goal.''
            [''research.gather''] [''Research synthesis'']
            [''Claims are supported by gathered evidence'', ''Uncertainty is stated''] RiskMedium False,
          planTask ''research.cite'' ''Attach citations'' ''List cited sources and connect key claims to evidence.''
            [''research.synthesize''] [''Cited source list'']
            [''Every source has a stable reference'', ''Citation list is present in final output''] RiskLow False],
        po_dependencies := [planEdge ''research.gather'' ''research.synthesize'', planEdge ''research.synthesize'' ''research.cite''],
        po_validation := planValidation ''Research plan gathers, synthesizes, and cites evidence''
          [''Confirm cited source list is planned'', ''Confirm unsupported claims are avoided or labeled''],
        po_riskLevel := RiskMedium\<rparr>"

definition longRunningPlan :: "planner_output \<Rightarrow> planner_output" where
  "longRunningPlan base =
     (assuming ''User request likely needs staged execution and checkpoints.'' base)
       \<lparr>po_tasks := [planTask ''long.scope'' ''Define staged scope''
            ''Break the request into bounded stages with budgets and stop conditions.'' [] [''Stage breakdown'']
            [''Stages are independently verifiable'', ''Stop conditions are explicit''] RiskMedium False,
          planTask ''long.checkpoint'' ''Request checkpoint approval''
            ''Pause for approval before extended, costly, or deployment-affecting work.'' [''long.scope''] [''Checkpoint decision'']
            [''Approval gate is recorded'', ''Next stage is not executed before approval''] RiskHigh True,
          planTask ''long.execute-stage'' ''Execute approved stage''
            ''Run only the approved stage and collect validation evidence.'' [''long.checkpoint'']
            [''Stage output'', ''Validation evidence'']
            [''Work stays within approved stage'', ''Evidence is captured before next checkpoint''] RiskHigh True],
        po_dependencies := [planEdge ''long.scope'' ''long.checkpoint'', planEdge ''long.checkpoint'' ''long.execute-stage''],
        po_validation := planValidation ''Long-running plan includes explicit checkpoints before execution''
          [''Confirm checkpoint gate exists'', ''Confirm high-risk stage execution requires approval''],
        po_riskLevel := RiskHigh,
        po_approvalGates := [\<lparr>ag_id = ''gate.long-running-checkpoint'', ag_type = GateCheckpoint,
          ag_reason = ''Long-running work requires explicit checkpoint approval before execution continues.'',
          ag_required = True, ag_taskIds = [''long.checkpoint'', ''long.execute-stage'']\<rparr>]\<rparr>"

definition clarificationPlan :: "planner_output \<Rightarrow> planner_output" where
  "clarificationPlan base =
     (assuming ''Request lacks enough detail for safe executable tasks.'' base)
       \<lparr>po_tasks := [],
        po_validation := planValidation ''Clarification plan has no executable tasks and waits for user input''
          [''Wait for explicit user clarification before execution'', ''Do not infer missing scope silently''],
        po_riskLevel := RiskLow,
        po_approvalGates := [\<lparr>ag_id = ''gate.clarification-required'', ag_type = GateClarification,
          ag_reason = ''The request needs a user decision or clarification before planning executable work.'',
          ag_required = True, ag_taskIds = []\<rparr>]\<rparr>"

definition routePlan :: "plan_env \<Rightarrow> planner_input \<Rightarrow> planner_output" where
  "routePlan X input =
     (let t = pi_triage input; c = pi_contextPack input;
          intent = summarize (pe_ellipsis X)
            (over (pi_messageContent input) (over (pi_intent input) (cp_userIntentSummary c))) 180;
          base = basePlan X intent t c
      in case tg_route t of
           DIRECT_ANSWER \<Rightarrow> directAnswerPlan base
         | PLAN_ONLY \<Rightarrow> planOnlyPlan base
         | CODE_EDIT \<Rightarrow> codeEditPlan (hasDestructiveRisk t intent) (tg_complexity t) base
         | RESEARCH \<Rightarrow> researchPlan base
         | LONG_RUNNING \<Rightarrow> longRunningPlan base
         | NEEDS_CLARIFICATION \<Rightarrow> clarificationPlan base)"

definition createFakePlan :: "plan_env \<Rightarrow> planner_input \<Rightarrow> planner_output option" where
  "createFakePlan X input = validatePlannerOutput (pe_localeCompare X) (routePlan X input)"

end
