(* ===== verification/Live_Planning.thy ===== *)
theory Live_Planning
  imports Live_Calls Planner_Plans
begin

text \<open>
  The live planner and the live skeptic, \<open>runLivePlanner\<close> of \<open>src/orchestration/planner.ts\<close> and
  \<open>runLiveSkeptic\<close> of \<open>src/orchestration/skeptic.ts\<close>. Prompts, \<open>JSON.parse\<close> and the shape checks of Zod
  are parameters: \<open>decode\<close> gives a typed draft or the failure that the code reports for it.
\<close>

section \<open>Blockers\<close>

datatype blocker_code = BlockedByBudget | BlockedByProvider | BlockedInvalid

record live_blocker =
  lb_code :: blocker_code
  lb_message :: string
  lb_issues :: "string list option"

definition makeBlocker :: "(blocker_code \<Rightarrow> string) \<Rightarrow> blocker_code \<Rightarrow> string \<Rightarrow> string list option \<Rightarrow> live_blocker" where
  "makeBlocker name code message issues =
     (let redacted = js_trim (redactString message)
      in \<lparr>lb_code = code, lb_message = (if redacted \<noteq> [] then redacted else name code), lb_issues = map_option (map redactString) issues\<rparr>)"

definition invalidMessage :: "string \<Rightarrow> string list \<Rightarrow> string" where
  "invalidMessage subject issues =
     (if issues = [] then subject @ '' was invalid after one repair attempt''
      else subject @ '' failed validation after one repair attempt at fields: '' @ joinWith '', '' issues)"

definition deniedMessage :: "string \<Rightarrow> string list \<Rightarrow> string" where
  "deniedMessage subject reasons =
     subject @ '' call denied by budget preflight: ''
     @ (let reason = joinWith ''; '' reasons
        in if reason \<noteq> [] then reason else ''budget preflight denied the '' @ toLowerCase subject @ '' call'')"

definition flagshipRequest :: "string \<Rightarrow> string option \<Rightarrow> llm_messages \<Rightarrow> llm_request" where
  "flagshipRequest task model prompts =
     \<lparr>lr_messages = prompts, lr_modelRoute = ''flagship'', lr_model = (if model = Some [] then None else model),
      lr_responseFormat = ''json_object'', lr_task = task\<rparr>"

section \<open>The planner\<close>

fun plannerCode :: "blocker_code \<Rightarrow> string" where
  "plannerCode BlockedByBudget = ''BUDGET_DENIED''"
| "plannerCode BlockedByProvider = ''PROVIDER_ERROR''"
| "plannerCode BlockedInvalid = ''PLANNER_INVALID''"

record planner_live_env =
  pq_numStr :: "jsnum \<Rightarrow> string"
  pq_plan :: plan_env
  pq_model :: "string option"
  pq_prompt :: llm_messages
  pq_repair :: "string \<Rightarrow> string \<Rightarrow> llm_messages"
  pq_decode :: "string \<Rightarrow> live_failure + planner_output"
  pq_normalFailure :: "planner_output \<Rightarrow> live_failure"

record live_planner_result =
  lq_plan :: "planner_output option"
  lq_blocker :: "live_blocker option"
  lq_usage :: llm_usage
  lq_provider :: string
  lq_model :: string
  lq_attempts :: nat
  lq_fallbackReason :: "string option"
  lq_fallbackPlan :: "planner_output option"

text \<open>
  \<open>safeValidatePlannerOutput\<close>: a draft of the right shape (\<open>decode\<close> reports the failures of the schema)
  is validated and normalised; \<open>pq_normalFailure\<close> is the failure when the normalised plan does not pass.
\<close>

definition safeValidatePlannerOutput :: "planner_live_env \<Rightarrow> string \<Rightarrow> live_failure + planner_output" where
  "safeValidatePlannerOutput X content =
     (case pq_decode X content of
        Inl failed \<Rightarrow> Inl failed
      | Inr draft \<Rightarrow>
          (case validatePlannerOutput (pe_localeCompare (pq_plan X)) draft of
             Some plan \<Rightarrow> Inr plan | None \<Rightarrow> Inl (pq_normalFailure X draft)))"

definition plannerStep :: "planner_live_env \<Rightarrow> planner_output live_step" where
  "plannerStep X =
     \<lparr>ls_request = flagshipRequest ''planner'' (pq_model X), ls_validate = safeValidatePlannerOutput X, ls_repair = pq_repair X,
      ls_bounded = False\<rparr>"

definition plannerBlocked ::
  "llm_provider \<Rightarrow> string \<Rightarrow> blocker_code \<Rightarrow> string \<Rightarrow> string list option \<Rightarrow> string \<Rightarrow> planner_output option \<Rightarrow> llm_usage \<Rightarrow> nat
     \<Rightarrow> live_planner_result" where
  "plannerBlocked P model code message issues reason fallback usage attempts =
     \<lparr>lq_plan = None, lq_blocker = Some (makeBlocker plannerCode code message issues), lq_usage = usage, lq_provider = pv_id P,
      lq_model = model, lq_attempts = attempts, lq_fallbackReason = Some (reason @ ''; deterministic fallback plan attached''),
      lq_fallbackPlan = fallback\<rparr>"

definition plannerResult :: "llm_provider \<Rightarrow> string \<Rightarrow> planner_output option \<Rightarrow> planner_output live_outcome \<Rightarrow> live_planner_result" where
  "plannerResult P model fallback out =
     (case lo_end out of
        LiveOk plan answered \<Rightarrow>
          \<lparr>lq_plan = Some plan, lq_blocker = None, lq_usage = lo_usage out, lq_provider = pv_id P, lq_model = answered,
           lq_attempts = lo_attempt out, lq_fallbackReason = None, lq_fallbackPlan = None\<rparr>
      | LiveDenied reasons \<Rightarrow>
          plannerBlocked P model BlockedByBudget (deniedMessage ''Planner'' reasons) None
            ''budget preflight denied live planner'' fallback (lo_usage out) (lo_attempt out)
      | LiveError message \<Rightarrow>
          plannerBlocked P model BlockedByProvider (''Provider call failed: '' @ message) None
            ''provider error during live planner'' fallback (lo_usage out) (lo_attempt out)
      | LiveTimeout \<Rightarrow>
          plannerBlocked P model BlockedByProvider ''Provider call failed: '' None
            ''provider error during live planner'' fallback (lo_usage out) (lo_attempt out)
      | LiveInvalid failed \<Rightarrow>
          plannerBlocked P model BlockedInvalid (invalidMessage ''Planner output'' (snd failed)) (Some (snd failed))
            ''live planner invalid after one repair'' fallback (lo_usage out) 2)"

text \<open>\<open>None\<close> when the fallback plan that a blocked result carries throws.\<close>

definition runLivePlanner ::
  "planner_live_env \<Rightarrow> llm_provider \<Rightarrow> run \<Rightarrow> planner_input \<Rightarrow> (live_planner_result \<times> llm_request list) option" where
  "runLivePlanner X P r input =
     (let model = over (pq_model X) (flagshipModel P);
          out = live_calls (pq_numStr X) P r (plannerStep X) (pq_prompt X) (''Planner output was not produced'', []);
          fallback = createFakePlan (pq_plan X) input
      in if fallback = None \<and> (case lo_end out of LiveOk plan answered \<Rightarrow> False | _ \<Rightarrow> True) then None
         else Some (plannerResult P model fallback out, lo_made out))"

section \<open>The skeptic\<close>

fun skepticCode :: "blocker_code \<Rightarrow> string" where
  "skepticCode BlockedByBudget = ''BUDGET_DENIED''"
| "skepticCode BlockedByProvider = ''PROVIDER_ERROR''"
| "skepticCode BlockedInvalid = ''SKEPTIC_INVALID''"

record skeptic_live_env =
  kq_schema :: schema_env
  kq_numStr :: "jsnum \<Rightarrow> string"
  kq_jsonText :: "json \<Rightarrow> string"
  kq_model :: "string option"
  kq_prompt :: llm_messages
  kq_repair :: "string \<Rightarrow> string \<Rightarrow> llm_messages"
  kq_decode :: "string \<Rightarrow> live_failure + skeptic_finding list"
  kq_reviewFailure :: "skeptic_review option \<Rightarrow> live_failure"
  kq_now :: "string \<Rightarrow> string"
  kq_timeoutText :: string

record live_skeptic_result =
  kr_review :: "skeptic_review option"
  kr_blocker :: "live_blocker option"
  kr_usage :: llm_usage
  kr_provider :: string
  kr_model :: string
  kr_attempts :: nat
  kr_fallbackReason :: "string option"

text \<open>
  \<open>assembleSkepticReview\<close>: the findings of the model join those of the skeptic's own review, the verdict
  is computed from all of them. A finding that fails its schema throws in the code, which no caller
  catches; here it is a failure like the others, since \<open>decode\<close> has checked the findings of the model.
\<close>

definition assembleSkepticReview ::
  "skeptic_live_env \<Rightarrow> planner_output \<Rightarrow> skeptic_finding list \<Rightarrow> string \<Rightarrow> live_failure + skeptic_review" where
  "assembleSkepticReview X plan own content =
     (case kq_decode X content of
        Inl failed \<Rightarrow> Inl failed
      | Inr findings \<Rightarrow>
          (case deduplicateSkepticFindings (own @ findings) of
             None \<Rightarrow> Inl (kq_reviewFailure X None)
           | Some merged \<Rightarrow>
               let review = \<lparr>sr_verdict = verdictForFindings merged, sr_findings = merged, sr_reviewedPlanId = None,
                      sr_planGoal = (if js_trim (po_goal plan) \<noteq> [] then Some (po_goal plan) else None),
                      sr_createdAt = kq_now X content\<rparr>
               in if SkepticReviewSchema (kq_schema X) review then Inr review else Inl (kq_reviewFailure X (Some review))))"

definition skepticStep :: "skeptic_live_env \<Rightarrow> planner_output \<Rightarrow> skeptic_finding list \<Rightarrow> skeptic_review live_step" where
  "skepticStep X plan own =
     \<lparr>ls_request = flagshipRequest ''skeptic'' (kq_model X), ls_validate = assembleSkepticReview X plan own, ls_repair = kq_repair X,
      ls_bounded = True\<rparr>"

definition skepticOk :: "llm_provider \<Rightarrow> string \<Rightarrow> skeptic_review \<Rightarrow> llm_usage \<Rightarrow> nat \<Rightarrow> live_skeptic_result" where
  "skepticOk P model review usage attempts =
     \<lparr>kr_review = Some review, kr_blocker = None, kr_usage = usage, kr_provider = pv_id P, kr_model = model, kr_attempts = attempts,
      kr_fallbackReason = None\<rparr>"

definition skepticBlocked ::
  "llm_provider \<Rightarrow> string \<Rightarrow> blocker_code \<Rightarrow> string \<Rightarrow> string list option \<Rightarrow> string \<Rightarrow> llm_usage \<Rightarrow> nat \<Rightarrow> live_skeptic_result" where
  "skepticBlocked P model code message issues reason usage attempts =
     \<lparr>kr_review = None, kr_blocker = Some (makeBlocker skepticCode code message issues), kr_usage = usage, kr_provider = pv_id P,
      kr_model = model, kr_attempts = attempts,
      kr_fallbackReason = Some (reason @ ''; deterministic findings remain authoritative'')\<rparr>"

definition skepticResult :: "skeptic_live_env \<Rightarrow> llm_provider \<Rightarrow> string \<Rightarrow> skeptic_review live_outcome \<Rightarrow> live_skeptic_result" where
  "skepticResult X P model out =
     (case lo_end out of
        LiveOk review answered \<Rightarrow> skepticOk P answered review (lo_usage out) (lo_attempt out)
      | LiveDenied reasons \<Rightarrow>
          skepticBlocked P model BlockedByBudget (deniedMessage ''Skeptic'' reasons) None
            ''budget preflight denied live skeptic'' (lo_usage out) (lo_attempt out)
      | LiveTimeout \<Rightarrow>
          skepticBlocked P model BlockedByProvider (''Provider call timed out after '' @ kq_timeoutText X @ ''ms'') None
            ''provider timeout during live skeptic'' (lo_usage out) (lo_attempt out)
      | LiveError message \<Rightarrow>
          skepticBlocked P model BlockedByProvider (''Provider call failed: '' @ message) None
            ''provider error during live skeptic'' (lo_usage out) (lo_attempt out)
      | LiveInvalid failed \<Rightarrow>
          skepticBlocked P model BlockedInvalid (invalidMessage ''Skeptic review'' (snd failed)) (Some (snd failed))
            ''live skeptic invalid after one repair'' (lo_usage out) 2)"

text \<open>\<open>None\<close> when the skeptic's own review throws.\<close>

definition runLiveSkeptic ::
  "skeptic_live_env \<Rightarrow> llm_provider \<Rightarrow> run \<Rightarrow> planner_output \<Rightarrow> context_pack \<Rightarrow> (live_skeptic_result \<times> llm_request list) option" where
  "runLiveSkeptic X P r plan pack =
     (let model = over (kq_model X) (flagshipModel P)
      in case reviewPlanWithSkeptic (kq_schema X) (kq_jsonText X) plan (Some pack) of
           None \<Rightarrow> None
         | Some review \<Rightarrow>
             if list_ex (\<lambda>f. sf_severity f = BLOCKER) (sr_findings review)
             then Some (skepticOk P model review ZERO_USAGE 0, [])
             else let out = live_calls (kq_numStr X) P r (skepticStep X plan (sr_findings review)) (kq_prompt X)
                        (''Skeptic review was not produced'', [])
                  in Some (skepticResult X P model out, lo_made out))"

end
