(* ===== verification/Synthesizer.thy ===== *)
theory Synthesizer
  imports Live_Planning Healing_Loop
begin

text \<open>
  The answer of a run: the deterministic synthesis and the live one, \<open>src/orchestration/synthesizer.ts\<close>,
  and the live direct answer, \<open>src/orchestration/liveDirectAnswer.ts\<close>. Numbers are rendered by
  \<open>numStr\<close>, the ellipsis is outside the alphabet of the model and a parameter, like the prompts and
  what \<open>JSON.parse\<close> and Zod make of a draft.
\<close>

section \<open>Data\<close>

datatype synthesis_status = SynthHealing heal_status | SynthSkipped | SynthBlocked

record obs_summary =
  os_spanCount :: jsnum
  os_durationMs :: jsnum
  os_modelCallCount :: jsnum
  os_estimatedCostUsd :: jsnum

record synthesis_input =
  si_traceId :: string
  si_triage :: triage_result
  si_contextPack :: context_pack
  si_plannerOutput :: planner_output
  si_skepticReview :: skeptic_review
  si_crucibleDecision :: crucible_decision
  si_compiledDag :: "dag option"
  si_executionResult :: "dag_result option"
  si_healing :: "heal_result option"
  si_observability :: "obs_summary option"
  si_decomposedResults :: "string option"

record synthesis =
  sy_status :: synthesis_status
  sy_route :: triage_route
  sy_traceId :: string
  sy_evidence :: "string list"
  sy_providerCalls :: nat
  sy_observability :: "obs_summary option"
  sy_response :: string

fun healName :: "heal_status \<Rightarrow> string" where
  "healName HealValidated = ''VALIDATED''"
| "healName HealHealed = ''HEALED''"
| "healName HealNeedsDecision = ''NEEDS_DECISION''"
| "healName HealFailed = ''FAILED''"

fun synthesisName :: "synthesis_status \<Rightarrow> string" where
  "synthesisName (SynthHealing s) = healName s"
| "synthesisName SynthSkipped = ''SKIPPED''"
| "synthesisName SynthBlocked = ''BLOCKED''"

fun complexityName :: "triage_complexity \<Rightarrow> string" where
  "complexityName ComplexityLow = ''low''"
| "complexityName ComplexityMedium = ''medium''"
| "complexityName ComplexityHigh = ''high''"

fun reviewName :: "review_verdict \<Rightarrow> string" where
  "reviewName REVIEW_SOUND = ''SOUND''"
| "reviewName REVIEW_NEEDS_REVISION = ''NEEDS_REVISION''"
| "reviewName REVIEW_BLOCKED = ''BLOCKED''"

fun actionName :: "heal_action_type \<Rightarrow> string" where
  "actionName RETRY_NODE = ''RETRY_NODE''"
| "actionName MARK_SKIPPED = ''MARK_SKIPPED''"
| "actionName REQUEST_DECISION = ''REQUEST_DECISION''"
| "actionName FAIL_RUN = ''FAIL_RUN''"
| "actionName NOOP = ''NOOP''"
| "actionName APPLY_PATCH = ''APPLY_PATCH''"

section \<open>The deterministic synthesis\<close>

definition synthesisStatus :: "synthesis_input \<Rightarrow> synthesis_status" where
  "synthesisStatus i =
     (case si_healing i of
        Some h \<Rightarrow> SynthHealing (hl_status h)
      | None \<Rightarrow>
          (case cd_verdict (si_crucibleDecision i) of
             VACCEPTED \<Rightarrow> if map_option dr_status (si_executionResult i) = Some DagFailed then SynthHealing HealFailed else SynthSkipped
           | VBLOCKED \<Rightarrow> SynthBlocked
           | VNEEDS_REVISION \<Rightarrow> SynthHealing HealNeedsDecision
           | VESCALATED \<Rightarrow> SynthHealing HealNeedsDecision))"

definition completedNodes :: "dag_result \<Rightarrow> node_result list" where
  "completedNodes r = filter (\<lambda>n. nr_status n = NodeSuccess \<or> nr_status n = NodeRetried) (dr_nodeResults r)"

definition attemptsText :: "nat \<Rightarrow> string" where
  "attemptsText n = show_nat n @ '' '' @ (if n = 1 then ''attempt'' else ''attempts'')"

definition synthesisEvidence :: "synthesis_input \<Rightarrow> string list" where
  "synthesisEvidence i =
     (let t = si_triage i;
          completed = (case si_executionResult i of None \<Rightarrow> 0 | Some r \<Rightarrow> length (completedNodes r));
          nodes = (case si_executionResult i of Some r \<Rightarrow> length (dr_nodeResults r)
                   | None \<Rightarrow> (case si_compiledDag i of Some g \<Rightarrow> length (dag_nodes g) | None \<Rightarrow> 0))
      in [''triage '' @ routeName (tg_route t) @ ''/'' @ complexityName (tg_complexity t),
          ''context '' @ cp_id (si_contextPack i),
          ''plan '' @ show_nat (length (po_tasks (si_plannerOutput i))) @ '' tasks'',
          ''skeptic '' @ reviewName (sr_verdict (si_skepticReview i)) @ '' ('' @ show_nat (length (sr_findings (si_skepticReview i))) @ '' findings)'',
          ''crucible '' @ verdictName (cd_verdict (si_crucibleDecision i)),
          (case si_compiledDag i of Some g \<Rightarrow> ''dag '' @ show_nat (length (dag_nodes g)) @ '' nodes'' | None \<Rightarrow> ''dag skipped''),
          (case si_executionResult i of
             Some r \<Rightarrow> ''execution '' @ dagStatusName (dr_status r) @ '' ('' @ show_nat completed @ ''/'' @ show_nat nodes @ '' nodes)''
           | None \<Rightarrow> ''execution skipped''),
          (case si_healing i of Some h \<Rightarrow> ''validation '' @ healName (hl_status h) | None \<Rightarrow> ''validation skipped'')]
         @ (case si_healing i of
              Some h \<Rightarrow> if 0 < hl_attempts h
                then [''healing '' @ healName (hl_status h) @ '' after '' @ attemptsText (hl_attempts h)] else []
            | None \<Rightarrow> []))"

definition DEFAULT_CLARIFICATION_RESPONSE :: string where
  "DEFAULT_CLARIFICATION_RESPONSE =
     ''What would you like me to help with? Share the task, repo area, or goal, and I'' @ [CHR 0x27]
       @ ''ll route it through the right Rector workflow.''"

definition deriveMissingDetailHint :: "triage_result \<Rightarrow> string option" where
  "deriveMissingDetailHint t =
     (let reasons = map toLowerCase (tg_reasons t)
      in if list_ex (\<lambda>r. js_includes r ''ambiguous'') reasons
         then Some ''That request is a little ambiguous, so I want to point my workflow at the right thing.''
         else if list_ex (\<lambda>r. js_includes r ''too little detail'') reasons
         then Some ''I need a bit more detail before I can route this safely.''
         else None)"

definition buildClarificationResponse :: "synthesis_input \<Rightarrow> string" where
  "buildClarificationResponse i =
     (case deriveMissingDetailHint (si_triage i) of
        None \<Rightarrow> DEFAULT_CLARIFICATION_RESPONSE
      | Some hint \<Rightarrow> hint @ '' Tell me the task, repo area, or goal, and I'' @ [CHR 0x27]
          @ ''ll route it through the right Rector workflow.'')"

definition buildDeterministicDirectAnswer :: string where
  "buildDeterministicDirectAnswer =
     joinWith '' '' [''Here is a direct answer from Rector.'',
       ''You'' @ [CHR 0x27] @ ''re running in provider-free local mode, so this reply is deterministic and stays on your machine.'',
       ''For a more detailed response, add more specifics or enable an external model for this kind of query.'']"

definition legacyStatusResponse :: "(jsnum \<Rightarrow> string) \<Rightarrow> synthesis_input \<Rightarrow> string" where
  "legacyStatusResponse numStr i =
     joinWith '' '' [''Status: '' @ synthesisName (synthesisStatus i) @ ''.'',
       ''Route: '' @ routeName (tg_route (si_triage i)) @ ''.'',
       ''Trace: '' @ si_traceId i @ ''.'',
       ''Evidence: '' @ joinWith ''; '' (synthesisEvidence i) @ ''.'',
       (case si_observability i of
          Some o1 \<Rightarrow> ''Observed: '' @ numStr (os_spanCount o1) @ '' spans, '' @ numStr (os_durationMs o1) @ ''ms, provider calls: ''
            @ numStr (os_modelCallCount o1) @ '', provider cost: $'' @ numStr (os_estimatedCostUsd o1) @ ''.''
        | None \<Rightarrow> ''Observed: pending.''),
       ''Local mode: provider calls: 0, API keys: not required.'']"

definition selectResponseText :: "(jsnum \<Rightarrow> string) \<Rightarrow> synthesis_input \<Rightarrow> string" where
  "selectResponseText numStr i =
     (case tg_route (si_triage i) of
        NEEDS_CLARIFICATION \<Rightarrow> buildClarificationResponse i
      | DIRECT_ANSWER \<Rightarrow> buildDeterministicDirectAnswer
      | _ \<Rightarrow> legacyStatusResponse numStr i)"

definition synthesizeChatBrainstemResponse :: "(jsnum \<Rightarrow> string) \<Rightarrow> synthesis_input \<Rightarrow> synthesis" where
  "synthesizeChatBrainstemResponse numStr i =
     \<lparr>sy_status = synthesisStatus i, sy_route = tg_route (si_triage i), sy_traceId = si_traceId i, sy_evidence = synthesisEvidence i,
      sy_providerCalls = 0, sy_observability = si_observability i, sy_response = selectResponseText numStr i\<rparr>"

section \<open>The live synthesis\<close>

record synthesis_citation =
  sc_kind :: string
  sc_ref :: string
  sc_detail :: string

record synthesis_draft =
  sd_response :: string
  sd_citations :: "synthesis_citation list"

definition MAX_NARRATIVE_ANSWER_CHARS :: nat where
  "MAX_NARRATIVE_ANSWER_CHARS = 2000"

definition SynthesisCitationSchema :: "synthesis_citation \<Rightarrow> bool" where
  "SynthesisCitationSchema c =
     (sc_kind c \<in> set [''file'', ''command'', ''test'', ''failure'', ''risk'', ''artifact''] \<and> sc_ref c \<noteq> [] \<and> sc_detail c \<noteq> [])"

definition SynthesisDraftSchema :: "synthesis_draft \<Rightarrow> bool" where
  "SynthesisDraftSchema d =
     (sd_response d \<noteq> [] \<and> length (sd_response d) \<le> MAX_NARRATIVE_ANSWER_CHARS \<and> list_all SynthesisCitationSchema (sd_citations d))"

record synthesizer_env =
  yq_numStr :: "jsnum \<Rightarrow> string"
  yq_ellipsis :: string
  yq_codeName :: "error_code \<Rightarrow> string"
  yq_model :: "string option"
  yq_prompt :: "synthesis_input \<Rightarrow> llm_messages option"
  yq_repair :: "string \<Rightarrow> string \<Rightarrow> llm_messages"
  yq_decode :: "string \<Rightarrow> live_failure + synthesis_draft"
  yq_draftFailure :: "synthesis_draft \<Rightarrow> live_failure"

record live_synthesis =
  ly_ok :: bool
  ly_synthesis :: synthesis
  ly_citations :: "synthesis_citation list"
  ly_usage :: llm_usage
  ly_provider :: string
  ly_model :: string
  ly_attempts :: nat
  ly_fallbackReason :: "string option"

definition hasExecutionOrValidationEvidence :: "synthesis_input \<Rightarrow> bool" where
  "hasExecutionOrValidationEvidence i =
     (0 < (case si_executionResult i of None \<Rightarrow> 0 | Some r \<Rightarrow> length (dr_nodeResults r)) \<or> si_healing i \<noteq> None)"

definition validateSynthesisDraft :: "synthesizer_env \<Rightarrow> bool \<Rightarrow> string \<Rightarrow> live_failure + synthesis_draft" where
  "validateSynthesisDraft X evidenceExists content =
     (case yq_decode X content of
        Inl failed \<Rightarrow> Inl failed
      | Inr draft \<Rightarrow>
          if \<not> SynthesisDraftSchema draft then Inl (yq_draftFailure X draft)
          else if evidenceExists \<and> sd_citations draft = []
          then Inl (''citations: at least one citation is required because the run carried execution or validation evidence'', [])
          else Inr draft)"

definition redactCitation :: "synthesis_citation \<Rightarrow> synthesis_citation" where
  "redactCitation c = c\<lparr>sc_ref := redactString (sc_ref c), sc_detail := redactString (sc_detail c)\<rparr>"

definition failedValidationEvidence :: "synthesizer_env \<Rightarrow> synthesis_input \<Rightarrow> string list" where
  "failedValidationEvidence X i =
     map (\<lambda>f. redactString (''validation failure '' @ over (vf_nodeId f) ''unknown-node'' @ '' ['' @ className (vf_class f) @ '']''
            @ (case vf_errorCode f of None \<Rightarrow> [] | Some c \<Rightarrow> '' '' @ yq_codeName X c) @ '': '' @ vf_message f))
       (case si_healing i of None \<Rightarrow> [] | Some h \<Rightarrow> hl_failures h)"

definition sectionText :: "string \<Rightarrow> string list \<Rightarrow> string" where
  "sectionText title ls =
     joinWith [CHR 0x0A] ((title @ '':'') # map (\<lambda>l. ''- '' @ redactString l) (if ls \<noteq> [] then ls else [''No additional details recorded.'']))"

definition liveActionLines :: "synthesis_input \<Rightarrow> string list" where
  "liveActionLines i =
     [(case si_executionResult i of
         Some r \<Rightarrow> ''Executed '' @ show_nat (length (completedNodes r)) @ ''/'' @ show_nat (length (dr_nodeResults r))
           @ '' DAG nodes with status '' @ dagStatusName (dr_status r) @ ''.''
       | None \<Rightarrow>
           (case si_compiledDag i of
              Some g \<Rightarrow> ''Compiled '' @ show_nat (length (dag_nodes g)) @ '' DAG nodes; execution did not run.''
            | None \<Rightarrow> ''No DAG execution was performed for this route.''))]
     @ (let actions = (case si_healing i of None \<Rightarrow> [] | Some h \<Rightarrow> hl_actions h)
        in if actions \<noteq> [] then [''Healing actions recorded: '' @ joinWith '', '' (map (actionName \<circ> ha_type) actions) @ ''.''] else [])"

definition liveValidationLines :: "synthesis_input \<Rightarrow> string list" where
  "liveValidationLines i =
     (case si_healing i of
        Some h \<Rightarrow> [''Validation/healing status: '' @ healName (hl_status h) @ '' after '' @ attemptsText (hl_attempts h) @ ''.'',
                  ''Failures recorded: '' @ show_nat (length (hl_failures h)) @ ''.'']
      | None \<Rightarrow>
          (case si_executionResult i of
             Some r \<Rightarrow> [''Execution status: '' @ dagStatusName (dr_status r) @ ''; no separate healing result was recorded.'']
           | None \<Rightarrow> [''Validation was not run.'']))"

definition statusRiskLine :: "synthesis_status \<Rightarrow> string option" where
  "statusRiskLine s =
     (if s \<in> {SynthHealing HealFailed, SynthHealing HealNeedsDecision, SynthBlocked}
      then Some (''Run ended with '' @ synthesisName s @ ''; user/operator review may be required.'') else None)"

definition liveRiskLines :: "synthesis_input \<Rightarrow> string list" where
  "liveRiskLines i =
     (let risks = (case statusRiskLine (synthesisStatus i) of None \<Rightarrow> [] | Some l \<Rightarrow> [l])
            @ (if map_option dr_status (si_executionResult i) = Some DagPartial
               then [''Execution was partial; at least one node failed or was skipped.''] else [])
            @ map (\<lambda>f. className (vf_class f) @ '' failure on '' @ over (vf_nodeId f) ''DAG'' @ '': '' @ vf_message f)
                (take 3 (case si_healing i of None \<Rightarrow> [] | Some h \<Rightarrow> hl_failures h))
            @ map (\<lambda>f. severityName (sf_severity f) @ '' skeptic finding''
                  @ (case sf_taskId f of None \<Rightarrow> [] | Some t \<Rightarrow> if t = [] then [] else '' on '' @ t) @ '': '' @ sf_message f)
                (take 2 (sr_findings (si_skepticReview i)))
      in if risks \<noteq> [] then risks else [''No unresolved risks were recorded in the run state.''])"

definition liveNextStepLines :: "synthesis_input \<Rightarrow> string list" where
  "liveNextStepLines i =
     (let s = synthesisStatus i
      in if s = SynthHealing HealNeedsDecision \<or> s = SynthBlocked
         then [''Review the cited blocker, approve or revise the blocked operation, then rerun the workflow.'']
         else if s = SynthHealing HealFailed
         then [''Inspect the cited failure output, adjust the plan or patch, and rerun validation.'']
         else [''Review the trace drawer for raw evidence and continue with the next requested change if needed.''])"

definition formatLiveNarrativeResponse :: "string \<Rightarrow> synthesis_input \<Rightarrow> string \<Rightarrow> string" where
  "formatLiveNarrativeResponse ellipsis i draftResponse =
     (let trimmed = js_trim (redactString draftResponse);
          summary = (if trimmed \<noteq> [] then trimmed else ''Rector completed synthesis from the recorded run state.'');
          response = joinWith [CHR 0x0A, CHR 0x0A]
            [sectionText ''Summary'' [summary], sectionText ''Actions'' (liveActionLines i), sectionText ''Validation'' (liveValidationLines i),
             sectionText ''Risks'' (liveRiskLines i), sectionText ''Next steps'' (liveNextStepLines i)];
          redacted = redactString response
      in if length redacted \<le> MAX_NARRATIVE_ANSWER_CHARS then redacted
         else take (MAX_NARRATIVE_ANSWER_CHARS - 1) redacted @ ellipsis)"

definition synthesisOkResult ::
  "synthesizer_env \<Rightarrow> llm_provider \<Rightarrow> synthesis_input \<Rightarrow> synthesis_draft \<Rightarrow> llm_usage \<Rightarrow> string \<Rightarrow> nat \<Rightarrow> live_synthesis" where
  "synthesisOkResult X P i draft usage model attempts =
     (let base = synthesizeChatBrainstemResponse (yq_numStr X) i;
          redacted = js_trim (redactString (sd_response draft))
      in \<lparr>ly_ok = True,
          ly_synthesis = base\<lparr>sy_evidence := sy_evidence base @ failedValidationEvidence X i, sy_providerCalls := attempts,
            sy_response := formatLiveNarrativeResponse (yq_ellipsis X) i (if redacted \<noteq> [] then redacted else sy_response base)\<rparr>,
          ly_citations = map redactCitation (sd_citations draft), ly_usage = usage, ly_provider = pv_id P, ly_model = model,
          ly_attempts = attempts, ly_fallbackReason = None\<rparr>)"

definition synthesisFallbackResult ::
  "synthesizer_env \<Rightarrow> llm_provider \<Rightarrow> synthesis_input \<Rightarrow> llm_usage \<Rightarrow> string \<Rightarrow> nat \<Rightarrow> string \<Rightarrow> live_synthesis" where
  "synthesisFallbackResult X P i usage model attempts reason =
     \<lparr>ly_ok = False, ly_synthesis = synthesizeChatBrainstemResponse (yq_numStr X) i, ly_citations = [], ly_usage = usage,
      ly_provider = pv_id P, ly_model = model, ly_attempts = attempts, ly_fallbackReason = Some (redactString reason)\<rparr>"

definition synthesizerStep :: "synthesizer_env \<Rightarrow> bool \<Rightarrow> synthesis_draft live_step" where
  "synthesizerStep X evidenceExists =
     \<lparr>ls_request = flagshipRequest ''synthesizer'' (yq_model X), ls_validate = validateSynthesisDraft X evidenceExists,
      ls_repair = yq_repair X, ls_bounded = False\<rparr>"

text \<open>
  The code counts a call once it has answered, so after a denied or failed call the attempts are one
  fewer than the number of the call.
\<close>

definition runLiveSynthesizer :: "synthesizer_env \<Rightarrow> llm_provider \<Rightarrow> run \<Rightarrow> synthesis_input \<Rightarrow> live_synthesis \<times> llm_request list" where
  "runLiveSynthesizer X P r i =
     (let model = over (yq_model X) (flagshipModel P); fallback = synthesisFallbackResult X P i
      in case yq_prompt X i of
           None \<Rightarrow> (fallback ZERO_USAGE model 0 ''synthesizer prompt assembly failed'', [])
         | Some prompts \<Rightarrow>
             let out = live_calls (yq_numStr X) P r (synthesizerStep X (hasExecutionOrValidationEvidence i)) prompts ([], [])
             in (case lo_end out of
                   LiveOk draft answered \<Rightarrow> synthesisOkResult X P i draft (lo_usage out) answered (lo_attempt out)
                 | LiveDenied _ \<Rightarrow> fallback (lo_usage out) model (lo_attempt out) ''synthesis budget preflight denied the provider call''
                 | LiveTimeout \<Rightarrow> fallback (lo_usage out) model (lo_attempt out - 1) ''synthesis provider invocation failed''
                 | LiveError _ \<Rightarrow> fallback (lo_usage out) model (lo_attempt out - 1) ''synthesis provider invocation failed''
                 | LiveInvalid _ \<Rightarrow> fallback (lo_usage out) model (lo_attempt out) ''synthesis draft validation failed after repair'',
                 lo_made out))"

section \<open>The live direct answer\<close>

datatype answer_fallback = AnswerDenied | AnswerProviderError | AnswerNoProvider

record direct_answer =
  da_response :: string
  da_providerCalls :: nat
  da_fallback :: "answer_fallback option"
  da_cost :: "(rat \<times> nat) option"

definition directFallback :: "answer_fallback \<Rightarrow> direct_answer" where
  "directFallback reason =
     \<lparr>da_response = buildDeterministicDirectAnswer, da_providerCalls = 0, da_fallback = Some reason, da_cost = None\<rparr>"

definition buildDirectAnswerRequest :: "string \<Rightarrow> string option \<Rightarrow> llm_request" where
  "buildDirectAnswerRequest userIntentSummary model =
     (let intent = redactString (js_trim userIntentSummary)
      in \<lparr>lr_messages =
           [(''system'', joinWith [CHR 0x0A]
               [''You are Rector answering a simple, self-contained user question directly.'',
                ''Reply with a concise, polite answer of at most 6 sentences.'',
                ''Do not include status, route, trace, or evidence prose.'',
                ''Never include secrets, API keys, credentials, tokens, or environment variable values.'']),
            (''user'', if intent \<noteq> [] then intent else ''Answer the user'' @ [CHR 0x27] @ ''s simple question directly.'')],
          lr_modelRoute = ''cheap'', lr_model = (if model = Some [] then None else model), lr_responseFormat = ''text'',
          lr_task = ''direct-answer''\<rparr>)"

text \<open>Here the provider is called directly, without the second check of the budget.\<close>

definition runLiveDirectAnswer ::
  "(jsnum \<Rightarrow> string) \<Rightarrow> llm_provider option \<Rightarrow> string option \<Rightarrow> run \<Rightarrow> synthesis_input \<Rightarrow> direct_answer \<times> llm_request list" where
  "runLiveDirectAnswer numStr provider model r i =
     (case provider of
        None \<Rightarrow> (directFallback AnswerNoProvider, [])
      | Some P \<Rightarrow>
          let request = buildDirectAnswerRequest (cp_userIntentSummary (si_contextPack i)) model
          in if bd_status (evaluateBudget numStr r (buildPreflightUsage P (pv_estimate P request) r ZERO_USAGE)) \<noteq> BudgetAllowed
             then (directFallback AnswerDenied, [])
             else (case pv_invoke P 0 request of
                     Inl _ \<Rightarrow> directFallback AnswerProviderError
                   | Inr response \<Rightarrow>
                       let answer = js_trim (redactString (lp_content response))
                       in if answer = [] then directFallback AnswerProviderError
                          else \<lparr>da_response = answer, da_providerCalls = 1, da_fallback = None,
                                da_cost = Some (lu_estimatedUsd (lp_usage response), lu_modelCalls (lp_usage response))\<rparr>,
                   [request]))"

end
