(* ===== verification/Run_Recording.thy ===== *)
theory Run_Recording
  imports Synthesizer Sandbox_Executor
begin

text \<open>
  How a chat run records what happened: provider usage and provider calls
  (\<open>src/orchestration/externalRunSupport.ts\<close>), and the sequences of transitions that
  \<open>src/orchestration/externalPostPlanning.ts\<close> and \<open>src/orchestration/chatRunner.ts\<close> make once their work
  is over. Each transition goes through \<open>transitionRun\<close>; what other work does to the store during call
  \<open>k\<close> is \<open>ch_interfere X k\<close>. Renderings of records as JSON are parameters.
\<close>

section \<open>Provider usage\<close>

definition DEFAULT_EXTERNAL_BUDGET :: budget where
  "DEFAULT_EXTERNAL_BUDGET =
     \<lparr>maxUsd = Fin 1, maxInputTokens = 200000, maxOutputTokens = 64000, maxModelCalls = 4, maxRuntimeMs = 60000,
      maxHealingAttempts = 2, allowedProviders = [], approvalRequiredAboveUsd = Fin 0\<rparr>"

text \<open>\<open>env\<close> is what other work does between the read of the run and the write.\<close>

definition addProviderUsageToRun ::
  "schema_env \<Rightarrow> (store \<Rightarrow> store) \<Rightarrow> string \<Rightarrow> run \<Rightarrow> llm_usage \<Rightarrow> string \<Rightarrow> run store_op" where
  "addProviderUsageToRun E env now r usage provider S =
     (let current = over (getRun (run_id r) S) r;
          usd = committedCost current ''usd'' + lu_estimatedUsd usage;
          calls = committedCost current ''modelCalls'' + of_nat (lu_modelCalls usage);
          inputs = committedTokens current ''input'' + of_nat (lu_inputTokens usage);
          outputs = committedTokens current ''output'' + of_nat (lu_outputTokens usage);
          cost = [(''usd'', JNum (Fin usd)), (''modelCalls'', JNum (Fin calls)), (''provider'', JStr provider)];
          tokens = [(''input'', JNum (Fin inputs)), (''output'', JNum (Fin outputs))]
      in case updateRun E now (run_id current)
                (empty_run_patch\<lparr>rp_costEstimate := Some (spread (run_costEstimate current) cost),
                   rp_actualCost := Some (Some (spread (over (run_actualCost current) []) cost)),
                   rp_tokenEstimate := Some (spread (run_tokenEstimate current) tokens),
                   rp_actualTokens := Some (Some (spread (over (run_actualTokens current) []) tokens))\<rparr>) (env S) of
           (S1, Inl e) \<Rightarrow> (S1, Inl e)
         | (S1, Inr updated) \<Rightarrow> (S1, Inr (over updated current)))"

record provider_call =
  pm_provider :: string
  pm_model :: string
  pm_modelRoute :: string
  pm_usage :: llm_usage
  pm_attempts :: nat
  pm_repaired :: bool

definition ProviderCallMetadataSchema :: "provider_call \<Rightarrow> bool" where
  "ProviderCallMetadataSchema m =
     (pm_provider m \<noteq> [] \<and> pm_model m \<noteq> [] \<and> pm_modelRoute m \<in> set MODEL_ROUTES \<and> LLMUsageSchema (pm_usage m) \<and> pm_attempts m \<le> 2)"

definition buildProviderCallMetadata :: "string \<Rightarrow> string \<Rightarrow> string \<Rightarrow> llm_usage \<Rightarrow> nat \<Rightarrow> provider_call option" where
  "buildProviderCallMetadata modelRoute provider model usage attempts =
     (let m = \<lparr>pm_provider = provider, pm_model = model, pm_modelRoute = modelRoute, pm_usage = usage, pm_attempts = attempts,
               pm_repaired = 1 < attempts\<rparr>
      in if ProviderCallMetadataSchema m then Some m else None)"

definition usageJson :: "llm_usage \<Rightarrow> json" where
  "usageJson u =
     JObj [(''inputTokens'', jnat (lu_inputTokens u)), (''outputTokens'', jnat (lu_outputTokens u)), (''totalTokens'', jnat (lu_totalTokens u)),
       (''estimatedUsd'', JNum (Fin (lu_estimatedUsd u))), (''modelCalls'', jnat (lu_modelCalls u))]"

definition providerCallJson :: "provider_call option \<Rightarrow> json" where
  "providerCallJson c =
     (case c of
        None \<Rightarrow> JUndef
      | Some m \<Rightarrow> JObj [(''mode'', JStr ''external''), (''provider'', JStr (pm_provider m)), (''model'', JStr (pm_model m)),
          (''modelRoute'', JStr (pm_modelRoute m)), (''usage'', usageJson (pm_usage m)), (''attempts'', jnat (pm_attempts m)),
          (''repaired'', JBool (pm_repaired m))])"

section \<open>Recording\<close>

record chat_env =
  ch_schema :: schema_env
  ch_traceId :: string
  ch_storeNow :: "nat \<Rightarrow> string"
  ch_now :: "nat \<Rightarrow> nat \<Rightarrow> string"
  ch_eventId :: "nat \<Rightarrow> nat \<Rightarrow> string"
  ch_uuid :: "nat \<Rightarrow> string"
  ch_nowIso :: "nat \<Rightarrow> string"
  ch_interfere :: "nat \<Rightarrow> nat \<Rightarrow> store \<Rightarrow> store"
  ch_observability :: "nat \<Rightarrow> run_phase \<Rightarrow> json"
  ch_triage :: "triage_result \<Rightarrow> json"
  ch_contextPack :: "context_pack \<Rightarrow> json"
  ch_plan :: "planner_output \<Rightarrow> json"
  ch_review :: "skeptic_review \<Rightarrow> json"
  ch_decision :: "crucible_decision \<Rightarrow> json"
  ch_dag :: "dag \<Rightarrow> json"
  ch_execution :: "dag_result \<Rightarrow> json"
  ch_artifacts :: "exec_artifact list \<Rightarrow> json"
  ch_healing :: "heal_result \<Rightarrow> json"
  ch_synthesis :: "synthesis \<Rightarrow> json"
  ch_numStr :: "jsnum \<Rightarrow> string"

record recording =
  rc_calls :: nat
  rc_appended :: nat
  rc_store :: store

type_synonym 'a recorded = "recording \<Rightarrow> recording \<times> (machine_error, 'a) result"

definition recordThen :: "'a recorded \<Rightarrow> ('a \<Rightarrow> 'b recorded) \<Rightarrow> 'b recorded" where
  "recordThen f g st = (case f st of (st1, Inl e) \<Rightarrow> (st1, Inl e) | (st1, Inr x) \<Rightarrow> g x st1)"

text \<open>The options of call \<open>k\<close>, with nothing but a payload.\<close>

definition payloadOptions :: "chat_env \<Rightarrow> json_record \<Rightarrow> nat \<Rightarrow> transition_options" where
  "payloadOptions X payload k =
     \<lparr>to_now = ch_now X k, to_eventId = ch_eventId X k, to_payload = Some payload, to_traceId = Some (ch_traceId X), to_attempts = None,
      to_healingAttempts = None, to_validationAttempts = None, to_lastError = None, to_decisionRequest = None, to_decision = JUndef\<rparr>"

definition recordTransition :: "chat_env \<Rightarrow> string \<Rightarrow> run_phase \<Rightarrow> (nat \<Rightarrow> transition_options) \<Rightarrow> run recorded" where
  "recordTransition X rid target opts st =
     (let k = rc_calls st
      in case transitionRun getRun (commitRunTransition (ch_schema X) (ch_storeNow X k)) (ch_interfere X k) rid target (opts k) (rc_store st) of
           (S, Inl e) \<Rightarrow> (st\<lparr>rc_calls := Suc k, rc_store := S\<rparr>, Inl e)
         | (S, Inr (r, ev)) \<Rightarrow> (st\<lparr>rc_calls := Suc k, rc_store := S\<rparr>, Inr r))"

definition recordDecision :: "chat_env \<Rightarrow> string \<Rightarrow> json_record \<Rightarrow> (nat \<Rightarrow> transition_options) \<Rightarrow> run recorded" where
  "recordDecision X rid request opts st =
     (let k = rc_calls st
      in case createDecisionRequest getRun (commitRunTransition (ch_schema X) (ch_storeNow X k)) (ch_interfere X k) rid request (opts k) (rc_store st) of
           (S, Inl e) \<Rightarrow> (st\<lparr>rc_calls := Suc k, rc_store := S\<rparr>, Inl e)
         | (S, Inr (r, ev)) \<Rightarrow> (st\<lparr>rc_calls := Suc k, rc_store := S\<rparr>, Inr r))"

definition recordAbort :: "chat_env \<Rightarrow> string \<Rightarrow> (nat \<Rightarrow> transition_options) \<Rightarrow> run recorded" where
  "recordAbort X rid opts st =
     (let k = rc_calls st
      in case abortRun getRun (commitRunTransition (ch_schema X) (ch_storeNow X k)) (ch_interfere X k) rid (opts k) (rc_store st) of
           (S, Inl e) \<Rightarrow> (st\<lparr>rc_calls := Suc k, rc_store := S\<rparr>, Inl e)
         | (S, Inr (r, ev)) \<Rightarrow> (st\<lparr>rc_calls := Suc k, rc_store := S\<rparr>, Inr r))"

fun recordPhases :: "chat_env \<Rightarrow> (nat \<Rightarrow> run_phase \<Rightarrow> json_record) \<Rightarrow> run_phase list \<Rightarrow> run \<Rightarrow> run recorded" where
  "recordPhases X payload [] current st = (st, Inr current)"
| "recordPhases X payload (phase # rest) current st =
     recordThen (recordTransition X (run_id current) phase (\<lambda>k. payloadOptions X (payload k phase) k)) (recordPhases X payload rest) st"

text \<open>The events of tools, kept back until the phase they belong to is recorded.\<close>

fun appendDeferredToolEvents :: "chat_env \<Rightarrow> run \<Rightarrow> tool_event list \<Rightarrow> unit recorded" where
  "appendDeferredToolEvents X r [] st = (st, Inr ())"
| "appendDeferredToolEvents X r (v # vs) st =
     (let k = rc_appended st
      in case appendEvent (ch_schema X) (runEvent (ch_uuid X k) (ch_nowIso X k) r (tv_type v) (tv_phase v) (tv_payload v)) (rc_store st) of
           (S, Inl e) \<Rightarrow> (st\<lparr>rc_appended := Suc k, rc_store := S\<rparr>, Inl (StoreFailure e))
         | (S, Inr _) \<Rightarrow> appendDeferredToolEvents X r vs (st\<lparr>rc_appended := Suc k, rc_store := S\<rparr>))"

definition phasePayload :: "chat_env \<Rightarrow> string \<Rightarrow> nat \<Rightarrow> run_phase \<Rightarrow> json_record \<Rightarrow> json_record" where
  "phasePayload X note k phase extra =
     spread [(''source'', JStr ''external-orchestrator''), (''note'', JStr note), (''observability'', ch_observability X k phase)] extra"

end
