(* ===== verification/Post_Planning.thy ===== *)
theory Post_Planning
  imports Run_Recording
begin

text \<open>
  What a chat run writes to the store after its work, \<open>src/orchestration/externalPostPlanning.ts\<close> and the
  blocked and timed out runs of \<open>src/orchestration/chatRunner.ts\<close>. All phases of a run are recorded at
  the end, after planning, execution, validation and synthesis are over.
\<close>

section \<open>The recorded outcome\<close>

record post_planning =
  pp_run :: run
  pp_triage :: triage_result
  pp_contextPack :: context_pack
  pp_plan :: planner_output
  pp_review :: skeptic_review
  pp_decision :: crucible_decision
  pp_planningCall :: provider_call
  pp_skepticCall :: provider_call
  pp_preprocessor :: json
  pp_pathsExplored :: "string list"

record post_outcome =
  xo_dagPayload :: json_record
  xo_executionPayload :: json_record
  xo_validationPayload :: json_record
  xo_healing :: "heal_result option"
  xo_proceed :: bool
  xo_synthesis :: synthesis
  xo_synthCall :: "provider_call option"
  xo_directFallback :: "answer_fallback option"
  xo_decomposed :: "string option"
  xo_artifacts :: "exec_artifact list"
  xo_executionEvents :: "tool_event list"
  xo_validationEvents :: "tool_event list"
  xo_control :: "control_state option"
  xo_abortAfter :: "run_phase option"

definition EXTERNAL_PREFIX_PHASES :: "run_phase list" where
  "EXTERNAL_PREFIX_PHASES =
     [TRIAGE, CONTEXT_BUILDING, PLANNING, SKEPTIC_REVIEW, CRUCIBLE, DAG_COMPILATION, EXECUTING, VALIDATING]"

fun fallbackName :: "answer_fallback \<Rightarrow> string" where
  "fallbackName AnswerDenied = ''denied''"
| "fallbackName AnswerProviderError = ''provider_error''"
| "fallbackName AnswerNoProvider = ''no_provider''"

definition healingJson :: "chat_env \<Rightarrow> heal_result option \<Rightarrow> json" where
  "healingJson X h = (case h of None \<Rightarrow> JUndef | Some r \<Rightarrow> ch_healing X r)"

definition externalPlanningPayload :: "chat_env \<Rightarrow> post_planning \<Rightarrow> json_record" where
  "externalPlanningPayload X p =
     [(''plannerOutput'', ch_plan X (pp_plan p)), (''providerCall'', providerCallJson (Some (pp_planningCall p))),
      (''preprocessor'', pp_preprocessor p)]
     @ (if pp_pathsExplored p \<noteq> [] then [(''pathsExplored'', jstrs (pp_pathsExplored p))] else [])"

fun externalPrefixPayload :: "chat_env \<Rightarrow> post_planning \<Rightarrow> post_outcome \<Rightarrow> run_phase \<Rightarrow> json_record" where
  "externalPrefixPayload X p out TRIAGE = [(''triage'', ch_triage X (pp_triage p))]"
| "externalPrefixPayload X p out CONTEXT_BUILDING = [(''contextPack'', ch_contextPack X (pp_contextPack p))]"
| "externalPrefixPayload X p out PLANNING = externalPlanningPayload X p"
| "externalPrefixPayload X p out SKEPTIC_REVIEW =
     [(''skepticReview'', ch_review X (pp_review p)), (''providerCall'', providerCallJson (Some (pp_skepticCall p)))]"
| "externalPrefixPayload X p out CRUCIBLE = [(''crucibleDecision'', ch_decision X (pp_decision p))]"
| "externalPrefixPayload X p out DAG_COMPILATION = xo_dagPayload out"
| "externalPrefixPayload X p out EXECUTING = xo_executionPayload out"
| "externalPrefixPayload X p out VALIDATING = xo_validationPayload out"
| "externalPrefixPayload X p out _ = []"

definition externalPrefixOptions :: "chat_env \<Rightarrow> post_planning \<Rightarrow> post_outcome \<Rightarrow> run_phase \<Rightarrow> nat \<Rightarrow> transition_options" where
  "externalPrefixOptions X p out phase k =
     (let options = payloadOptions X (phasePayload X ''External brainstem run advanced'' k phase (externalPrefixPayload X p out phase)) k
      in case (phase, xo_healing out) of
           (VALIDATING, Some h) \<Rightarrow> options\<lparr>to_validationAttempts := Some (hl_attempts h + 1), to_healingAttempts := Some (hl_attempts h)\<rparr>
         | _ \<Rightarrow> options)"

section \<open>The end of the run\<close>

definition transitionExternalAborted :: "chat_env \<Rightarrow> post_outcome \<Rightarrow> run \<Rightarrow> run recorded" where
  "transitionExternalAborted X out current =
     (let reason = (case xo_control out of None \<Rightarrow> None | Some c \<Rightarrow> cs_interruptReason c)
      in recordAbort X (run_id current) (\<lambda>k.
           (payloadOptions X (phasePayload X ''Run interrupted by request'' k ABORTED
              [(''runControl'', JObj [(''interruptRequested'', JBool (case xo_control out of None \<Rightarrow> False | Some c \<Rightarrow> cs_interruptRequested c)),
                  (''interruptReason'', case reason of None \<Rightarrow> JUndef | Some r \<Rightarrow> JStr r)]),
               (''executionArtifacts'', ch_artifacts X (xo_artifacts out)), (''synthesis'', ch_synthesis X (xo_synthesis out))]) k)
           \<lparr>to_lastError := Some (over reason ''Run interrupted by request'')\<rparr>))"

definition externalSynthesisPayload :: "chat_env \<Rightarrow> post_planning \<Rightarrow> post_outcome \<Rightarrow> json_record" where
  "externalSynthesisPayload X p out =
     [(''synthesis'', ch_synthesis X (xo_synthesis out)), (''providerCall'', providerCallJson (xo_synthCall out))]
     @ (case xo_decomposed out of Some d \<Rightarrow> if d \<noteq> [] then [(''decomposedResults'', JStr d)] else [] | None \<Rightarrow> [])
     @ (if tg_route (pp_triage p) = DIRECT_ANSWER
        then (''route'', JStr (routeName DIRECT_ANSWER)) #
          (case xo_directFallback out of Some f \<Rightarrow> [(''fallback'', JStr (fallbackName f))] | None \<Rightarrow> [])
        else [])"

definition transitionExternalSynthesisDone :: "chat_env \<Rightarrow> post_planning \<Rightarrow> post_outcome \<Rightarrow> run \<Rightarrow> run recorded" where
  "transitionExternalSynthesisDone X p out current =
     recordThen
       (recordTransition X (run_id current) SYNTHESIZING
          (\<lambda>k. payloadOptions X (phasePayload X ''External brainstem run advanced'' k SYNTHESIZING (externalSynthesisPayload X p out)) k))
       (\<lambda>next1. if xo_abortAfter out = Some SYNTHESIZING then transitionExternalAborted X out next1
          else recordTransition X (run_id next1) DONE (\<lambda>k. payloadOptions X (phasePayload X ''External brainstem run completed'' k DONE []) k))"

definition transitionExternalNeedsDecision :: "chat_env \<Rightarrow> post_outcome \<Rightarrow> run \<Rightarrow> run recorded" where
  "transitionExternalNeedsDecision X out current =
     recordDecision X (run_id current)
       [(''reason'', JStr ''HEALING_NEEDS_DECISION''), (''message'', JStr ''Healing requires an operator decision''),
        (''validationHealingResult'', healingJson X (xo_healing out))]
       (\<lambda>k. payloadOptions X (phasePayload X ''Healing requires an operator decision'' k NEEDS_DECISION
          [(''validationHealingResult'', healingJson X (xo_healing out)), (''executionArtifacts'', ch_artifacts X (xo_artifacts out)),
           (''synthesis'', ch_synthesis X (xo_synthesis out))]) k)"

definition transitionExternalFailed :: "chat_env \<Rightarrow> post_outcome \<Rightarrow> run \<Rightarrow> run recorded" where
  "transitionExternalFailed X out current =
     recordTransition X (run_id current) FAILED
       (\<lambda>k. (payloadOptions X (phasePayload X ''Healing exhausted; run failed with artifacts preserved'' k FAILED
          [(''validationHealingResult'', healingJson X (xo_healing out)), (''executionArtifacts'', ch_artifacts X (xo_artifacts out)),
           (''synthesis'', ch_synthesis X (xo_synthesis out))]) k)
          \<lparr>to_lastError := Some ''Healing failed to resolve execution failures within the bound''\<rparr>)"

definition finishExternalPostPlanningRun :: "chat_env \<Rightarrow> post_planning \<Rightarrow> post_outcome \<Rightarrow> run \<Rightarrow> run recorded" where
  "finishExternalPostPlanningRun X p out current =
     (if xo_proceed out then transitionExternalSynthesisDone X p out current
      else if map_option hl_status (xo_healing out) = Some HealNeedsDecision then transitionExternalNeedsDecision X out current
      else transitionExternalFailed X out current)"

definition deferredEvents :: "post_outcome \<Rightarrow> run_phase \<Rightarrow> tool_event list" where
  "deferredEvents out phase =
     (if phase = EXECUTING then xo_executionEvents out else if phase = VALIDATING then xo_validationEvents out else [])"

fun recordPrefix :: "chat_env \<Rightarrow> post_planning \<Rightarrow> post_outcome \<Rightarrow> run_phase list \<Rightarrow> run \<Rightarrow> run recorded" where
  "recordPrefix X p out [] current st = finishExternalPostPlanningRun X p out current st"
| "recordPrefix X p out (phase # rest) current st =
     recordThen (recordTransition X (run_id current) phase (externalPrefixOptions X p out phase))
       (\<lambda>r. recordThen (appendDeferredToolEvents X r (deferredEvents out phase))
          (\<lambda>_. if xo_abortAfter out = Some phase then transitionExternalAborted X out r else recordPrefix X p out rest r)) st"

definition transitionExternalPostPlanningRun :: "chat_env \<Rightarrow> post_planning \<Rightarrow> post_outcome \<Rightarrow> run recorded" where
  "transitionExternalPostPlanningRun X p out = recordPrefix X p out EXTERNAL_PREFIX_PHASES (pp_run p)"

section \<open>Syntheses of runs that end early\<close>

definition buildInterruptedSynthesis ::
  "string \<Rightarrow> triage_result \<Rightarrow> obs_summary option \<Rightarrow> dag_result option \<Rightarrow> heal_result option \<Rightarrow> string option \<Rightarrow> synthesis" where
  "buildInterruptedSynthesis traceId t summary execution healing reason =
     (let results = (case execution of None \<Rightarrow> [] | Some r \<Rightarrow> dr_nodeResults r);
          completed = map nr_nodeId (filter (\<lambda>n. nr_status n = NodeSuccess \<or> nr_status n = NodeRetried) results);
          waiting = map nr_nodeId (filter (\<lambda>n. nr_status n = NodeSkipped) results)
      in \<lparr>sy_status = SynthHealing HealFailed, sy_route = tg_route t, sy_traceId = traceId,
          sy_evidence =
            [''interrupted'' @ (case reason of None \<Rightarrow> [] | Some r \<Rightarrow> if r = [] then [] else '': '' @ r),
             ''completed nodes: '' @ show_nat (length completed), ''pending nodes: '' @ show_nat (length waiting)]
            @ (case healing of None \<Rightarrow> [] | Some h \<Rightarrow> [''validation status: '' @ healName (hl_status h)]),
          sy_providerCalls = 0, sy_observability = summary,
          sy_response = joinWith '' ''
            [''Run interrupted.'',
             (if completed \<noteq> [] then ''Completed: '' @ joinWith '', '' completed @ ''.'' else ''Completed: none.''),
             (if waiting \<noteq> [] then ''Pending: '' @ joinWith '', '' waiting @ ''.'' else ''Pending: none.''),
             ''Trace: '' @ traceId @ ''.'']\<rparr>)"

definition buildBlockedSynthesis ::
  "string \<Rightarrow> triage_result \<Rightarrow> obs_summary option \<Rightarrow> (blocker_code \<Rightarrow> string) \<Rightarrow> live_blocker \<Rightarrow> synthesis_status \<Rightarrow> synthesis" where
  "buildBlockedSynthesis traceId t summary name blocker status =
     \<lparr>sy_status = status, sy_route = tg_route t, sy_traceId = traceId,
      sy_evidence = [''triage '' @ routeName (tg_route t) @ ''/'' @ complexityName (tg_complexity t), ''planner blocked '' @ name (lb_code blocker)],
      sy_providerCalls = 0, sy_observability = summary,
      sy_response = joinWith '' ''
        [''Status: '' @ synthesisName status @ ''.'', ''Route: '' @ routeName (tg_route t) @ ''.'', ''Trace: '' @ traceId @ ''.'',
         ''Planner blocked ('' @ name (lb_code blocker) @ ''): '' @ lb_message blocker]\<rparr>"

section \<open>Blocked runs\<close>

definition blockerJson :: "(blocker_code \<Rightarrow> string) \<Rightarrow> live_blocker \<Rightarrow> json" where
  "blockerJson name b =
     JObj ([(''code'', JStr (name (lb_code b))), (''message'', JStr (lb_message b))]
       @ (case lb_issues b of None \<Rightarrow> [] | Some issues \<Rightarrow> [(''details'', JObj [(''issues'', jstrs issues)])]))"

definition resolvePlannerBlocker ::
  "chat_env \<Rightarrow> obs_summary option \<Rightarrow> triage_result \<Rightarrow> context_pack \<Rightarrow> run \<Rightarrow> live_blocker \<Rightarrow> (run \<times> synthesis) recorded" where
  "resolvePlannerBlocker X summary t pack r blocker =
     recordThen
       (recordPhases X (\<lambda>k phase. phasePayload X ''External brainstem run advanced'' k phase
          (if phase = TRIAGE then [(''triage'', ch_triage X t)] else [(''contextPack'', ch_contextPack X pack)])) [TRIAGE, CONTEXT_BUILDING] r)
       (\<lambda>current. if lb_code blocker = BlockedInvalid
          then recordThen (recordTransition X (run_id current) FAILED
              (\<lambda>k. (payloadOptions X (phasePayload X ''Planner output rejected after repair'' k FAILED [(''blocker'', blockerJson plannerCode blocker)]) k)
                 \<lparr>to_lastError := Some (lb_message blocker)\<rparr>))
            (\<lambda>failed st. (st, Inr (failed, buildBlockedSynthesis (ch_traceId X) t summary plannerCode blocker (SynthHealing HealFailed))))
          else recordThen (recordDecision X (run_id current)
              [(''reason'', JStr (plannerCode (lb_code blocker))), (''message'', JStr (lb_message blocker)), (''blocker'', blockerJson plannerCode blocker)]
              (\<lambda>k. payloadOptions X (phasePayload X ''Planner requires an operator decision'' k NEEDS_DECISION
                 [(''blocker'', blockerJson plannerCode blocker)]) k))
            (\<lambda>waiting st. (st, Inr (waiting, buildBlockedSynthesis (ch_traceId X) t summary plannerCode blocker (SynthHealing HealNeedsDecision)))))"

definition resolveSkepticBlocker ::
  "chat_env \<Rightarrow> obs_summary option \<Rightarrow> triage_result \<Rightarrow> context_pack \<Rightarrow> planner_output \<Rightarrow> provider_call \<Rightarrow> provider_call \<Rightarrow> run \<Rightarrow> live_blocker
     \<Rightarrow> (run \<times> synthesis) recorded" where
  "resolveSkepticBlocker X summary t pack plan planningCall skepticCall r blocker =
     recordThen
       (recordPhases X (\<lambda>k phase. phasePayload X ''External brainstem run advanced'' k phase
          (case phase of
             TRIAGE \<Rightarrow> [(''triage'', ch_triage X t)]
           | CONTEXT_BUILDING \<Rightarrow> [(''contextPack'', ch_contextPack X pack)]
           | PLANNING \<Rightarrow> [(''plannerOutput'', ch_plan X plan), (''providerCall'', providerCallJson (Some planningCall))]
           | _ \<Rightarrow> [(''providerCall'', providerCallJson (Some skepticCall)), (''blocker'', blockerJson skepticCode blocker)]))
          [TRIAGE, CONTEXT_BUILDING, PLANNING, SKEPTIC_REVIEW] r)
       (\<lambda>current. recordThen (recordTransition X (run_id current) FAILED
            (\<lambda>k. (payloadOptions X (phasePayload X ''Skeptic review blocked the run'' k FAILED [(''blocker'', blockerJson skepticCode blocker)]) k)
               \<lparr>to_lastError := Some (lb_message blocker)\<rparr>))
          (\<lambda>failed st. (st, Inr (failed, buildBlockedSynthesis (ch_traceId X) t summary skepticCode blocker (SynthHealing HealFailed)))))"

section \<open>Edits without a sandbox\<close>

definition dagRequiresRealSandbox :: "dag \<Rightarrow> bool" where
  "dagRequiresRealSandbox g = list_ex (\<lambda>n. nd_type n = FILE_OPERATION \<or> nd_type n = SHELL_COMMAND) (dag_nodes g)"

record sandbox_wiring =
  sw_configured :: bool
  sw_fsImpl :: bool
  sw_commandRunner :: bool
  sw_approvals :: "sandbox_approval list"

definition hasExplicitSandboxWiring :: "sandbox_wiring \<Rightarrow> bool" where
  "hasExplicitSandboxWiring w = (sw_fsImpl w \<or> sw_commandRunner w \<or> sw_approvals w \<noteq> [])"

definition shouldBlockCodeEditWithoutSandbox :: "triage_result \<Rightarrow> sandbox_wiring \<Rightarrow> dag option \<Rightarrow> bool" where
  "shouldBlockCodeEditWithoutSandbox t w compiled =
     (tg_route t = CODE_EDIT \<and> \<not> sw_configured w \<and> \<not> hasExplicitSandboxWiring w
      \<and> (case compiled of None \<Rightarrow> False | Some g \<Rightarrow> dagRequiresRealSandbox g))"

definition SANDBOX_MESSAGE :: string where
  "SANDBOX_MESSAGE =
     ''CODE_EDIT requires a configured sandbox (E2B). No real sandbox is configured; file execution is not simulated as success.''"

definition resolveCodeEditWithoutSandbox ::
  "chat_env \<Rightarrow> obs_summary option \<Rightarrow> post_planning \<Rightarrow> json_record \<Rightarrow> (run \<times> synthesis) recorded" where
  "resolveCodeEditWithoutSandbox X summary p dagPayload =
     (let answer = synthesizeChatBrainstemResponse (ch_numStr X)
            \<lparr>si_traceId = ch_traceId X, si_triage = pp_triage p, si_contextPack = pp_contextPack p, si_plannerOutput = pp_plan p,
             si_skepticReview = pp_review p, si_crucibleDecision = pp_decision p, si_compiledDag = None, si_executionResult = None,
             si_healing = None, si_observability = summary, si_decomposedResults = None\<rparr>
      in recordThen
           (recordPhases X (\<lambda>k phase. phasePayload X ''External brainstem run advanced'' k phase
              (case phase of
                 TRIAGE \<Rightarrow> [(''triage'', ch_triage X (pp_triage p))]
               | CONTEXT_BUILDING \<Rightarrow> [(''contextPack'', ch_contextPack X (pp_contextPack p))]
               | PLANNING \<Rightarrow> [(''plannerOutput'', ch_plan X (pp_plan p)), (''providerCall'', providerCallJson (Some (pp_planningCall p)))]
               | SKEPTIC_REVIEW \<Rightarrow> [(''skepticReview'', ch_review X (pp_review p)), (''providerCall'', providerCallJson (Some (pp_skepticCall p)))]
               | CRUCIBLE \<Rightarrow> [(''crucibleDecision'', ch_decision X (pp_decision p))]
               | _ \<Rightarrow> dagPayload))
              [TRIAGE, CONTEXT_BUILDING, PLANNING, SKEPTIC_REVIEW, CRUCIBLE, DAG_COMPILATION] (pp_run p))
           (\<lambda>current. recordThen
              (recordDecision X (run_id current)
                 [(''reason'', JStr ''SANDBOX_NOT_CONFIGURED''), (''message'', JStr SANDBOX_MESSAGE), (''route'', JStr (routeName (tg_route (pp_triage p))))]
                 (\<lambda>k. payloadOptions X (phasePayload X ''CODE_EDIT blocked: sandbox not configured'' k NEEDS_DECISION
                    [(''blocker'', JObj [(''code'', JStr ''SANDBOX_NOT_CONFIGURED''), (''message'', JStr SANDBOX_MESSAGE)]),
                     (''synthesis'', ch_synthesis X answer)]) k))
              (\<lambda>waiting st. (st, Inr (waiting, answer)))))"

section \<open>The timeout\<close>

text \<open>
  The run of the call is looked up by its identifier or as the last of its conversation. A failure of the
  transition is ignored; \<open>None\<close> is the error that no run was found.
\<close>

definition timeoutSynthesis :: "chat_env \<Rightarrow> obs_summary option \<Rightarrow> triage_result \<Rightarrow> string \<Rightarrow> synthesis" where
  "timeoutSynthesis X summary t limitMs =
     \<lparr>sy_status = SynthHealing HealFailed, sy_route = tg_route t, sy_traceId = ch_traceId X, sy_evidence = [''orchestration timeout exceeded''],
      sy_providerCalls = 0, sy_observability = summary,
      sy_response = ''Status: FAILED. Route: '' @ routeName (tg_route t) @ ''. Trace: '' @ ch_traceId X
        @ ''. Orchestration timeout exceeded ('' @ limitMs @ ''ms).''\<rparr>"

definition lastRun :: "store \<Rightarrow> string \<Rightarrow> run option" where
  "lastRun S conversationId = (let rs = listRuns S (Some conversationId) in if rs = [] then None else Some (last rs))"

definition findRun :: "store \<Rightarrow> string \<Rightarrow> string option \<Rightarrow> run option" where
  "findRun S conversationId known =
     (case (case known of None \<Rightarrow> None | Some rid \<Rightarrow> getRun rid S) of Some r \<Rightarrow> Some r | None \<Rightarrow> lastRun S conversationId)"

definition orchestrationTimeoutResult ::
  "chat_env \<Rightarrow> obs_summary option \<Rightarrow> triage_result \<Rightarrow> string \<Rightarrow> rat \<Rightarrow> string \<Rightarrow> string option \<Rightarrow> recording
     \<Rightarrow> recording \<times> (run \<times> synthesis) option" where
  "orchestrationTimeoutResult X summary t conversationId limitMs shown known st =
     (let answer = timeoutSynthesis X summary t shown;
          (st1, failed) =
            (case findRun (rc_store st) conversationId known of
               None \<Rightarrow> (st, None)
             | Some current \<Rightarrow>
                 if run_status current = ''failed'' \<or> run_status current = ''aborted'' then (st, None)
                 else case recordTransition X (run_id current) FAILED
                        (\<lambda>k. (payloadOptions X [(''source'', JStr ''orchestration-timeout''), (''maxRuntimeMs'', JNum (Fin limitMs)),
                            (''note'', JStr (''Orchestration exceeded '' @ shown @ ''ms wall-clock limit''))] k)
                          \<lparr>to_lastError := Some ''Orchestration timeout exceeded'',
                           to_decision := JObj [(''reason'', JStr ''timeout''), (''approved'', JBool False)]\<rparr>) st of
                        (st1, Inr r) \<Rightarrow> (st1, Some r)
                      | (st1, Inl e) \<Rightarrow> (st1, None))
      in (st1, map_option (\<lambda>r. (r, answer))
            (case failed of Some r \<Rightarrow> Some r | None \<Rightarrow> findRun (rc_store st1) conversationId known)))"

end
