(* ===== verification/Chat_Pipeline.thy ===== *)
theory Chat_Pipeline
  imports Post_Planning Task_Decomposer Dag_Compiler
begin

text \<open>
  The work of a chat run after planning, \<open>runExternalPostPlanningPhases\<close> of
  \<open>src/orchestration/externalPostPlanning.ts\<close>: compilation, execution, validation and healing, synthesis,
  and then the recording of all phases. The world holds what the phases share: the tools with the host
  and the turn budget, the control of the run, the run with its usage, the approvals (the repair agent
  adds to them) and the store. The prompt of a repair, the decoding of an answer, the outcome of a
  sub-goal and what the selected providers are, are parameters.
\<close>

section \<open>The world\<close>

record pipe_world =
  pw_tools :: "host_state tool_world"
  pw_control :: "control_state option"
  pw_run :: run
  pw_approvals :: "sandbox_approval list"
  pw_executions :: nat
  pw_made :: "llm_request list"
  pw_commits :: nat
  pw_recording :: recording

datatype pipe_error =
    CompilerThrew compiler_error
  | PhaseThrew executor_error
  | HealingThrew "heal_error option"
  | GoalsThrew
  | MetadataThrew
  | RecordingThrew machine_error

type_synonym 'a pipe_step = "pipe_world \<Rightarrow> pipe_world \<times> (pipe_error, 'a) result"

definition pipeThen :: "'a pipe_step \<Rightarrow> ('a \<Rightarrow> 'b pipe_step) \<Rightarrow> 'b pipe_step" where
  "pipeThen f g w = (case f w of (w1, Inl e) \<Rightarrow> (w1, Inl e) | (w1, Inr x) \<Rightarrow> g x w1)"

record live_selection =
  lv_provider :: llm_provider
  lv_modelRoute :: string
  lv_model :: string
  lv_live :: bool

text \<open>
  \<open>pd_executor n approvals\<close> gives the clocks, the registry and the signals of execution \<open>n\<close>; \<open>pd_patch\<close> the
  sandbox of a patch, and whether the run is aborted before and after it; \<open>pd_interrupts i\<close> is what other
  requests do to the control of the run before check \<open>i\<close>; \<open>pd_commitEnv\<close> and \<open>pd_commitNow\<close> are the work of
  others and the clock during the commit of usage.
\<close>

record pipe_deps =
  pd_issues :: "dag \<Rightarrow> string list"
  pd_tools :: tool_env
  pd_now :: string
  pd_conversationId :: string
  pd_wiring :: sandbox_wiring
  pd_executor :: "nat \<Rightarrow> sandbox_approval list \<Rightarrow> sx_deps"
  pd_patch :: "nat \<Rightarrow> sandbox_approval list \<Rightarrow> sandbox \<times> bool \<times> bool"
  pd_interrupts :: "nat \<Rightarrow> control_state \<Rightarrow> control_state"
  pd_summary :: "nat \<Rightarrow> obs_summary option"
  pd_executorOptions :: exec_options
  pd_maxHealingAttempts :: "jsnum option"
  pd_subGoals :: "string list"
  pd_subGoalGraph :: "goal_graph option"
  pd_pick :: "nat \<Rightarrow> nat \<Rightarrow> nat"
  pd_gave :: "sub_goal \<Rightarrow> nat \<Rightarrow> goal_result"
  pd_bullet :: string
  pd_repairAgent :: "(validation_failure \<Rightarrow> string \<Rightarrow> pipe_world \<Rightarrow> repair_proposal option \<times> pipe_world) option"
  pd_repairProvider :: llm_provider
  pd_repairModel :: "string option"
  pd_repairPrompt :: "validation_failure \<Rightarrow> string \<Rightarrow> llm_messages"
  pd_repairDecode :: "string \<Rightarrow> repair_proposal option"
  pd_cheap :: live_selection
  pd_flagship :: live_selection
  pd_synthesizer :: synthesizer_env
  pd_commitEnv :: "nat \<Rightarrow> store \<Rightarrow> store"
  pd_commitNow :: "nat \<Rightarrow> string"

section \<open>Interruption\<close>

definition interruptedControl :: "control_state option \<Rightarrow> bool" where
  "interruptedControl c = (case c of None \<Rightarrow> False | Some s \<Rightarrow> cs_aborted s \<noteq> None \<or> cs_interruptRequested s)"

text \<open>\<open>isInterrupted\<close>, after what other requests did meanwhile.\<close>

definition isInterrupted :: "pipe_deps \<Rightarrow> nat \<Rightarrow> pipe_world \<Rightarrow> bool \<times> pipe_world" where
  "isInterrupted D i w =
     (let c = map_option (pd_interrupts D i) (pw_control w) in (interruptedControl c, w\<lparr>pw_control := c\<rparr>))"

section \<open>Usage\<close>

definition commitUsage :: "chat_env \<Rightarrow> pipe_deps \<Rightarrow> llm_usage \<Rightarrow> string \<Rightarrow> unit pipe_step" where
  "commitUsage X D usage provider w =
     (let k = pw_commits w; rec1 = pw_recording w
      in case addProviderUsageToRun (ch_schema X) (pd_commitEnv D k) (pd_commitNow D k) (pw_run w) usage provider (rc_store rec1) of
           (S, out) \<Rightarrow>
             (let w1 = w\<lparr>pw_commits := Suc k, pw_recording := rec1\<lparr>rc_store := S\<rparr>\<rparr>
              in case out of Inl e \<Rightarrow> (w1, Inl (RecordingThrew (StoreFailure e))) | Inr r \<Rightarrow> (w1\<lparr>pw_run := r\<rparr>, Inr ())))"

section \<open>Execution\<close>

text \<open>One execution of a graph; the events of its tools are those at the end of \<open>tw_events\<close>.\<close>

definition runGraph :: "chat_env \<Rightarrow> pipe_deps \<Rightarrow> run_phase option \<Rightarrow> run \<Rightarrow> dag \<Rightarrow> pipe_world
     \<Rightarrow> (executor_error, dag_result) result \<times> exec_artifact list \<times> pipe_world" where
  "runGraph X D phase r g w =
     (let deps = (pd_executor D (pw_executions w) (pw_approvals w))
            \<lparr>sx_conversationId := Some (pd_conversationId D), sx_toolEventPhase := phase, sx_budget := Some (run_budget r), sx_sink := True\<rparr>
      in case executeDagThroughSandbox (ch_schema X) (pd_issues D) (pd_tools D) deps g (pw_tools w) (pw_control w) of
           (out, st) \<Rightarrow>
             (out, xs_artifacts st, w\<lparr>pw_tools := xs_world st, pw_control := xs_control st, pw_executions := Suc (pw_executions w)\<rparr>))"

definition clearEvents :: "pipe_world \<Rightarrow> pipe_world" where
  "clearEvents w = w\<lparr>pw_tools := (pw_tools w)\<lparr>tw_events := []\<rparr>\<rparr>"

definition shouldRunDecomposedExecution :: "pipe_deps \<Rightarrow> post_planning \<Rightarrow> bool" where
  "shouldRunDecomposedExecution D p =
     (tg_complexity (pp_triage p) = ComplexityHigh \<and> cd_verdict (pp_decision p) = VACCEPTED \<and> 1 < length (pd_subGoals D))"

definition runExternalDecomposedExecution :: "pipe_deps \<Rightarrow> post_planning \<Rightarrow> (string option) pipe_step" where
  "runExternalDecomposedExecution D p w =
     (if \<not> shouldRunDecomposedExecution D p then (w, Inr None)
      else let input = (case pd_subGoalGraph D of Some g \<Rightarrow> GoalGraph g | None \<Rightarrow> GoalStrings (pd_subGoals D))
           in case executeDecomposedSubGoals (pd_pick D) (pd_gave D) None input of
                None \<Rightarrow> (w, Inl GoalsThrew)
              | Some results \<Rightarrow> (w, Inr (Some (stitchResults (pd_bullet D) results))))"

record execution_phase =
  xp_result :: "dag_result option"
  xp_decomposed :: "string option"
  xp_artifacts :: "exec_artifact list"
  xp_payload :: json_record
  xp_events :: "tool_event list"

definition runExternalExecutionPhase :: "chat_env \<Rightarrow> pipe_deps \<Rightarrow> post_planning \<Rightarrow> dag option \<Rightarrow> execution_phase pipe_step" where
  "runExternalExecutionPhase X D p compiled w =
     (let executed = (case compiled of
            None \<Rightarrow> (w, Inr (None, [], []))
          | Some g \<Rightarrow>
              (case runGraph X D None (pw_run w) g (clearEvents w) of
                 (Inl e, arts, w1) \<Rightarrow> (w1, Inl (PhaseThrew e))
               | (Inr r, arts, w1) \<Rightarrow> (w1, Inr (Some r, arts, tw_events (pw_tools w1)))))
      in pipeThen (\<lambda>_. executed)
           (\<lambda>(result, arts, events). pipeThen (runExternalDecomposedExecution D p)
              (\<lambda>decomposed w2. (w2, Inr \<lparr>xp_result = result, xp_decomposed = decomposed, xp_artifacts = arts,
                 xp_payload = (case result of
                    Some r \<Rightarrow> [(''executionResult'', ch_execution X r), (''executionArtifacts'', ch_artifacts X arts)]
                  | None \<Rightarrow> [(''skippedReason'', JStr ''Execution skipped because no compiled DAG exists'')]),
                 xp_events = events\<rparr>))) w)"

section \<open>Repair\<close>

definition isSafeRelativeWorkspacePath :: "string \<Rightarrow> bool" where
  "isSafeRelativeWorkspacePath path =
     (path \<noteq> [] \<and> \<not> startsWith path ''/'' \<and> \<not> startsWith path [CHR 0x5C] \<and> \<not> windowsDrive path
      \<and> list_all (\<lambda>part. part \<noteq> [] \<and> part \<noteq> ''.'' \<and> part \<noteq> ''..'') (split_char (CHR ''/'') (slashed path)))"

definition RepairPatchProposalSchema :: "repair_proposal \<Rightarrow> bool" where
  "RepairPatchProposalSchema q =
     (isSafeRelativeWorkspacePath (rp_path q) \<and> rp_operation q \<in> set [''add'', ''update'', ''delete''] \<and> rp_rationale q \<noteq> [])"

definition approveRepair :: "repair_proposal \<Rightarrow> sandbox_approval list \<Rightarrow> sandbox_approval list" where
  "approveRepair q approvals =
     (if list_ex (\<lambda>a. sa_scope a = FILE_WRITE \<and> sa_target a = rp_path q) approvals then approvals
      else approvals @ [\<lparr>sa_id = ''approval:file-write:'' @ rp_path q, sa_scope = FILE_WRITE, sa_target = rp_path q,
                         sa_approvedBy = ''external-runner''\<rparr>])"

definition createLiveRepairAgent :: "chat_env \<Rightarrow> pipe_deps \<Rightarrow> validation_failure \<Rightarrow> string \<Rightarrow> pipe_world \<Rightarrow> repair_proposal option \<times> pipe_world" where
  "createLiveRepairAgent X D f failedOutput w =
     (let P = pd_repairProvider D; r = pw_run w;
          request = flagshipRequest ''repair'' (pd_repairModel D) (pd_repairPrompt D f failedOutput);
          (decision, ceiling) = preflight (ch_numStr X) P r request ZERO_USAGE
      in if bd_status decision \<noteq> BudgetAllowed \<or> bd_status ceiling \<noteq> BudgetAllowed then (None, w)
         else case invokeWithBudget (ch_numStr X) P r request (pw_made w) of
                (Inl _, made) \<Rightarrow> (None, w\<lparr>pw_made := made\<rparr>)
              | (Inr response, made) \<Rightarrow>
                  (case commitUsage X D (lp_usage response) (lp_provider response) (w\<lparr>pw_made := made\<rparr>) of
                     (w1, Inl _) \<Rightarrow> (None, w1)
                   | (w1, Inr _) \<Rightarrow>
                       (case pd_repairDecode D (lp_content response) of
                          None \<Rightarrow> (None, w1)
                        | Some q \<Rightarrow>
                            if \<not> RepairPatchProposalSchema q then (None, w1)
                            else (Some q, w1\<lparr>pw_approvals := approveRepair q (pw_approvals w1)\<rparr>))))"

text \<open>The patch of a proposal goes through the workspace adapter like the operations of the tools.\<close>

definition patchOperation :: "repair_proposal \<Rightarrow> nat \<Rightarrow> sandbox_operation" where
  "patchOperation q healingRound =
     \<lparr>op_kind = PROPOSE_PATCH, op_path = Some (rp_path q), op_operation = Some (parsePatchOperation (JStr (rp_operation q))),
      op_content = Some (rp_content q), op_command = None, op_args = [], op_timeoutMs = None,
      op_approvalId = Some (''approval:file-write:'' @ rp_path q), op_metadata = [(''healingRound'', jnat healingRound)]\<rparr>"

definition applyRepair :: "pipe_deps \<Rightarrow> repair_proposal \<Rightarrow> nat \<Rightarrow> pipe_world \<Rightarrow> patch_result option \<times> pipe_world" where
  "applyRepair D q healingRound w =
     (let host = tw_host (pw_tools w); (S, abortedBefore, abortedAfter) = pd_patch D (ho_count host) (pw_approvals w)
      in case operate S abortedBefore abortedAfter (patchOperation q healingRound) of
           (fx, out) \<Rightarrow>
             ((case out of
                 Inl _ \<Rightarrow> None
               | Inr r \<Rightarrow> Some \<lparr>pr_status = statusName (or_status r), pr_denialReason = map_option denialName (or_denialReason r),
                   pr_artifactIds = concat (map (\<lambda>a. case a of JObj o1 \<Rightarrow> (case jfield o1 ''id'' of JStr s \<Rightarrow> [s] | _ \<Rightarrow> []) | _ \<Rightarrow> []) (or_artifacts r))\<rparr>),
              w\<lparr>pw_tools := (pw_tools w)\<lparr>tw_host := \<lparr>ho_count = Suc (ho_count host), ho_effects = ho_effects host @ fx\<rparr>\<rparr>\<rparr>))"

section \<open>Validation\<close>

definition budgetExhaustedToolEvent :: "run_phase \<Rightarrow> turn_snapshot \<Rightarrow> string \<Rightarrow> tool_event" where
  "budgetExhaustedToolEvent phase snap reason =
     \<lparr>tv_type = RUN_BUDGET_EXHAUSTED, tv_phase = phase,
      tv_payload = [(''source'', JStr ''external-orchestrator''), (''reason'', JStr reason),
        (''iterationsUsed'', jint (ts_iterationsUsed snap)), (''toolCallsUsed'', jint (ts_toolCallsUsed snap)),
        (''iterationsRemaining'', jint (ts_iterationsRemaining snap)), (''toolCallsRemaining'', jint (ts_toolCallsRemaining snap))]\<rparr>"

definition pushToolEvent :: "tool_event \<Rightarrow> pipe_world \<Rightarrow> pipe_world" where
  "pushToolEvent v w = w\<lparr>pw_tools := (pw_tools w)\<lparr>tw_events := tw_events (pw_tools w) @ [v]\<rparr>\<rparr>"

definition healingEnv :: "chat_env \<Rightarrow> pipe_deps \<Rightarrow> run \<Rightarrow> dag \<Rightarrow> pipe_world heal_env" where
  "healingEnv X D r g =
     \<lparr>he_abortRequested = (\<lambda>w. interruptedControl (pw_control w)),
      he_execute = (\<lambda>_ w. case runGraph X D (Some VALIDATING) r g w of (out, _, w1) \<Rightarrow> (out, w1)),
      he_propose = over (pd_repairAgent D) (createLiveRepairAgent X D),
      he_operate = applyRepair D,
      he_onBudgetExhausted = (\<lambda>snap. pushToolEvent (budgetExhaustedToolEvent VALIDATING snap ''repair_attempt_budget_exhausted''))\<rparr>"

definition healingInput :: "pipe_deps \<Rightarrow> dag \<Rightarrow> dag_result \<Rightarrow> pipe_world \<Rightarrow> heal_input" where
  "healingInput D g result w =
     \<lparr>hi_dag = g, hi_executionResult = Some result, hi_executorOptions = pd_executorOptions D,
      hi_maxHealingAttempts = pd_maxHealingAttempts D, hi_liveRepair = True, hi_turnBudget = tw_turnBudget (pw_tools w)\<rparr>"

text \<open>\<open>validateAndHealExecution\<close> with the world it leaves behind.\<close>

definition healingOutcome :: "'w heal_outcome \<Rightarrow> ((heal_error, heal_result) result \<times> 'w) option" where
  "healingOutcome out =
     (case out of
        Return status st \<Rightarrow> Some (parseHealResult status st, hs_world st)
      | Throw e st \<Rightarrow> Some (Inl e, hs_world st)
      | Continue st \<Rightarrow> None)"

definition validateAndHealWorld ::
  "(jsnum \<Rightarrow> string) \<Rightarrow> 'w heal_env \<Rightarrow> heal_input \<Rightarrow> 'w \<Rightarrow> ((heal_error, heal_result) result \<times> 'w) option" where
  "validateAndHealWorld numStr env input w =
     (case initial_execution env input w of
        (Inl e, w1) \<Rightarrow> Some (Inl (ExecutorThrew e), w1)
      | (Inr r, w1) \<Rightarrow>
          let st = initial_heal_state input r w1
          in if dr_status r = DagSuccess then healingOutcome (Return HealValidated st)
             else healingOutcome (heal_loop (Suc (heal_bound input)) (heal_step numStr env input) st))"

lemma validateAndHealWorld_result:
  "map_option fst (validateAndHealWorld numStr env input w) = validateAndHealExecution numStr env input w"
  by (auto simp: validateAndHealWorld_def validateAndHealExecution_def healingOutcome_def Let_def
      simp del: heal_loop.simps split: prod.split sum.split heal_outcome.split)

definition runExternalValidationPhase ::
  "chat_env \<Rightarrow> pipe_deps \<Rightarrow> dag option \<Rightarrow> dag_result option \<Rightarrow> (heal_result option \<times> tool_event list) pipe_step" where
  "runExternalValidationPhase X D compiled result w =
     (case (compiled, result) of
        (Some g, Some r) \<Rightarrow>
          (let w0 = clearEvents w
           in case validateAndHealWorld (ch_numStr X) (healingEnv X D (pw_run w) g) (healingInput D g r w0) w0 of
                None \<Rightarrow> (w0, Inl (HealingThrew None))
              | Some (Inl e, w1) \<Rightarrow> (w1, Inl (HealingThrew (Some e)))
              | Some (Inr h, w1) \<Rightarrow> (w1, Inr (Some h, tw_events (pw_tools w1))))
      | _ \<Rightarrow> (w, Inr (None, [])))"

definition shouldProceedToSynthesis :: "heal_status option \<Rightarrow> bool" where
  "shouldProceedToSynthesis s = (s = None \<or> s = Some HealValidated \<or> s = Some HealHealed)"

section \<open>Synthesis\<close>

record synthesis_phase =
  xs_synthesis :: synthesis
  xs_synthCall :: "provider_call option"
  xs_directFallback :: "answer_fallback option"

definition buildExternalSynthesisInput ::
  "chat_env \<Rightarrow> obs_summary option \<Rightarrow> post_planning \<Rightarrow> dag option \<Rightarrow> dag_result option \<Rightarrow> heal_result option \<Rightarrow> string option \<Rightarrow> synthesis_input" where
  "buildExternalSynthesisInput X summary p compiled result healing decomposed =
     \<lparr>si_traceId = ch_traceId X, si_triage = pp_triage p, si_contextPack = pp_contextPack p, si_plannerOutput = pp_plan p,
      si_skepticReview = pp_review p, si_crucibleDecision = pp_decision p, si_compiledDag = compiled, si_executionResult = result,
      si_healing = healing, si_observability = summary, si_decomposedResults = decomposed\<rparr>"

text \<open>The metadata of the call, which is parsed, and its usage.\<close>

definition providerCallOf :: "live_selection \<Rightarrow> string \<Rightarrow> string \<Rightarrow> llm_usage \<Rightarrow> nat \<Rightarrow> provider_call pipe_step" where
  "providerCallOf s provider model usage attempts w =
     (case buildProviderCallMetadata (lv_modelRoute s) provider model usage attempts of
        None \<Rightarrow> (w, Inl MetadataThrew) | Some m \<Rightarrow> (w, Inr m))"

definition directUsage :: "direct_answer \<Rightarrow> llm_usage" where
  "directUsage a =
     ZERO_USAGE\<lparr>lu_estimatedUsd := (case da_cost a of None \<Rightarrow> 0 | Some c \<Rightarrow> fst c),
       lu_modelCalls := (case da_cost a of None \<Rightarrow> 0 | Some c \<Rightarrow> snd c)\<rparr>"

definition runExternalDirectAnswerSynthesis :: "chat_env \<Rightarrow> pipe_deps \<Rightarrow> synthesis_input \<Rightarrow> synthesis_phase pipe_step" where
  "runExternalDirectAnswerSynthesis X D i w =
     (let s = pd_cheap D; P = lv_provider s;
          (answer, made) = runLiveDirectAnswer (ch_numStr X) (Some P) (Some (lv_model s)) (pw_run w) i;
          given = (synthesizeChatBrainstemResponse (ch_numStr X) i)\<lparr>sy_response := da_response answer, sy_providerCalls := da_providerCalls answer\<rparr>
      in pipeThen (providerCallOf s (pv_id P) (lv_model s) (directUsage answer) (da_providerCalls answer))
           (\<lambda>m. pipeThen (if 0 < da_providerCalls answer then commitUsage X D (directUsage answer) (pv_id P) else (\<lambda>w. (w, Inr ())))
             (\<lambda>_ w1. (w1, Inr \<lparr>xs_synthesis = given, xs_synthCall = Some m, xs_directFallback = da_fallback answer\<rparr>))) w)"

definition runExternalFlagshipSynthesis :: "chat_env \<Rightarrow> pipe_deps \<Rightarrow> synthesis_input \<Rightarrow> synthesis_phase pipe_step" where
  "runExternalFlagshipSynthesis X D i w =
     (let s = pd_flagship D
      in if \<not> lv_live s
         then (w, Inr \<lparr>xs_synthesis = synthesizeChatBrainstemResponse (ch_numStr X) i, xs_synthCall = None, xs_directFallback = None\<rparr>)
         else let (out, made) = runLiveSynthesizer ((pd_synthesizer D)\<lparr>yq_model := Some (lv_model s)\<rparr>) (lv_provider s) (pw_run w) i
              in pipeThen (providerCallOf s (ly_provider out) (ly_model out) (ly_usage out) (ly_attempts out))
                   (\<lambda>m. pipeThen (commitUsage X D (ly_usage out) (ly_provider out))
                     (\<lambda>_ w1. (w1, Inr \<lparr>xs_synthesis = ly_synthesis out, xs_synthCall = Some m, xs_directFallback = None\<rparr>))) w)"

definition runExternalSynthesisPhase :: "chat_env \<Rightarrow> pipe_deps \<Rightarrow> synthesis_input \<Rightarrow> synthesis_phase pipe_step" where
  "runExternalSynthesisPhase X D i =
     (if tg_route (si_triage i) = DIRECT_ANSWER then runExternalDirectAnswerSynthesis X D i else runExternalFlagshipSynthesis X D i)"

section \<open>All phases\<close>

definition recordingStep :: "'a recorded \<Rightarrow> 'a pipe_step" where
  "recordingStep f w =
     (case f (pw_recording w) of
        (st, Inl e) \<Rightarrow> (w\<lparr>pw_recording := st\<rparr>, Inl (RecordingThrew e)) | (st, Inr x) \<Rightarrow> (w\<lparr>pw_recording := st\<rparr>, Inr x))"

definition compileForRun :: "chat_env \<Rightarrow> pipe_deps \<Rightarrow> (run \<Rightarrow> json_record) \<Rightarrow> post_planning \<Rightarrow> (compiler_error, dag option) result" where
  "compileForRun X D budgetOf p =
     (if cd_verdict (pp_decision p) \<noteq> VACCEPTED then Inr None
      else case compileAcceptedPlanToDag (ch_schema X) (pd_issues D) (ch_numStr X)
                  \<lparr>ki_runId = run_id (pp_run p), ki_decision = pp_decision p, ki_budgetPolicy = Some (budgetOf (pp_run p)), ki_now = pd_now D\<rparr> of
             Inl e \<Rightarrow> Inl e | Inr g \<Rightarrow> Inr (Some g))"

definition dagCompilationPayload :: "chat_env \<Rightarrow> crucible_decision \<Rightarrow> dag option \<Rightarrow> json_record" where
  "dagCompilationPayload X d compiled =
     (case compiled of
        Some g \<Rightarrow> [(''compiledDag'', ch_dag X g)]
      | None \<Rightarrow> [(''skippedReason'', JStr (''Crucible verdict '' @ verdictName (cd_verdict d) @ '' is not ACCEPTED''))])"

definition validationPayload :: "chat_env \<Rightarrow> heal_result option \<Rightarrow> bool \<Rightarrow> json_record" where
  "validationPayload X healing interrupted =
     (case healing of
        Some h \<Rightarrow> [(''validationHealingResult'', ch_healing X h)]
      | None \<Rightarrow> [(''skippedReason'', JStr (if interrupted then ''Run interrupted; validation and healing skipped''
                                         else ''Execution skipped or missing; validation and healing skipped''))])"

definition interruptReasonOf :: "control_state option \<Rightarrow> string option" where
  "interruptReasonOf c = (case c of None \<Rightarrow> None | Some s \<Rightarrow> cs_interruptReason s)"

text \<open>What is left once execution and validation are over: synthesis, the last check, the recording.\<close>

definition synthesizeAndRecord ::
  "chat_env \<Rightarrow> pipe_deps \<Rightarrow> post_planning \<Rightarrow> dag option \<Rightarrow> execution_phase \<Rightarrow> bool \<Rightarrow> heal_result option \<Rightarrow> tool_event list
     \<Rightarrow> (run \<times> synthesis) pipe_step" where
  "synthesizeAndRecord X D p compiled ex afterExecution healing validationEvents w2 =
     (let (stopped, w3) = (if afterExecution then (False, w2) else isInterrupted D 1 w2);
          proceed = (\<not> afterExecution \<and> \<not> stopped \<and> shouldProceedToSynthesis (map_option hl_status healing))
      in pipeThen
           (if proceed
            then runExternalSynthesisPhase X D
                   (buildExternalSynthesisInput X (pd_summary D 0) p compiled (xp_result ex) healing (xp_decomposed ex))
            else (\<lambda>w. (w, Inr \<lparr>xs_synthesis = buildInterruptedSynthesis (ch_traceId X) (pp_triage p) (pd_summary D 0) (xp_result ex) healing
                            (interruptReasonOf (pw_control w)), xs_synthCall = None, xs_directFallback = None\<rparr>)))
           (\<lambda>sy w4.
              let (late, w5) = (if proceed then isInterrupted D 2 w4 else (False, w4));
                  out = \<lparr>xo_dagPayload = dagCompilationPayload X (pp_decision p) compiled, xo_executionPayload = xp_payload ex,
                         xo_validationPayload = validationPayload X healing afterExecution, xo_healing = healing, xo_proceed = proceed,
                         xo_synthesis = xs_synthesis sy, xo_synthCall = xs_synthCall sy, xo_directFallback = xs_directFallback sy,
                         xo_decomposed = xp_decomposed ex, xo_artifacts = xp_artifacts ex, xo_executionEvents = xp_events ex,
                         xo_validationEvents = validationEvents, xo_control = pw_control w5,
                         xo_abortAfter = (if afterExecution then Some EXECUTING else if stopped then Some VALIDATING
                                          else if late then Some SYNTHESIZING else None)\<rparr>
              in pipeThen (recordingStep (transitionExternalPostPlanningRun X p out))
                   (\<lambda>r w6. (w6, Inr (r, xs_synthesis sy))) w5) w3)"

text \<open>\<open>budgetOf\<close> renders the budget policy of the run for the compiler.\<close>

definition runExternalPostPlanningPhases ::
  "chat_env \<Rightarrow> pipe_deps \<Rightarrow> (run \<Rightarrow> json_record) \<Rightarrow> post_planning \<Rightarrow> (run \<times> synthesis) pipe_step" where
  "runExternalPostPlanningPhases X D budgetOf p w =
     (case compileForRun X D budgetOf p of
        Inl e \<Rightarrow> (w, Inl (CompilerThrew e))
      | Inr compiled \<Rightarrow>
          if shouldBlockCodeEditWithoutSandbox (pp_triage p) (pd_wiring D) compiled
          then recordingStep (resolveCodeEditWithoutSandbox X (pd_summary D 0) p (dagCompilationPayload X (pp_decision p) compiled)) w
          else pipeThen (runExternalExecutionPhase X D p compiled)
                 (\<lambda>ex w1.
                    let (stopped, w2) = isInterrupted D 0 w1
                    in if stopped then synthesizeAndRecord X D p compiled ex True None [] w2
                       else pipeThen (runExternalValidationPhase X D compiled (xp_result ex))
                              (\<lambda>(healing, events). synthesizeAndRecord X D p compiled ex False healing events) w2)
                 (w\<lparr>pw_run := pp_run p, pw_approvals := sw_approvals (pd_wiring D)\<rparr>))"

end
