(* ===== verification/Live_Planning_Correct.thy ===== *)
theory Live_Planning_Correct
  imports Live_Planning
begin

text \<open>
  What the planning steps guarantee: bounded and budgeted provider calls, plans that always pass the
  schema, a review that a model cannot soften.
\<close>

section \<open>Calls within the budget\<close>

text \<open>
  A provider whose answers cost no more than it estimated, and a run whose committed costs are those of
  the accounting (whole numbers of calls, nothing negative).
\<close>

definition honest :: "llm_provider \<Rightarrow> bool" where
  "honest P \<longleftrightarrow> (\<forall>n q a. pv_invoke P n q = Inr a \<longrightarrow>
     0 \<le> lu_estimatedUsd (lp_usage a) \<and> lu_estimatedUsd (lp_usage a) \<le> lu_estimatedUsd (pv_estimate P q)
     \<and> lu_modelCalls (lp_usage a) \<le> lu_modelCalls (pv_estimate P q))"

definition accounted :: "run \<Rightarrow> nat \<Rightarrow> bool" where
  "accounted r m \<longleftrightarrow> 0 \<le> committedCost r ''usd'' \<and> committedCost r ''modelCalls'' = of_nat m"

definition withinRunBudget :: "run \<Rightarrow> nat \<Rightarrow> llm_usage \<Rightarrow> bool" where
  "withinRunBudget r m u \<longleftrightarrow>
     \<not> num_gt (Fin (committedCost r ''usd'' + lu_estimatedUsd u)) (maxUsd (run_budget r)) \<and> m + lu_modelCalls u \<le> maxModelCalls (run_budget r)"

lemma num_gt_mono: "num_gt (Fin x) M \<Longrightarrow> x \<le> y \<Longrightarrow> num_gt (Fin y) M"
  by (cases M) (auto simp: num_gt_def)

lemma enforce_live:
  assumes "accounted r m" and "0 \<le> lu_estimatedUsd spent"
    and "bd_status (enforceMaxPerRunBudget numStr r (accumulatedRunUsage r spent) (estimateProjection e)) = BudgetAllowed"
    and "lu_estimatedUsd u \<le> lu_estimatedUsd e" and "lu_modelCalls u \<le> lu_modelCalls e" and "0 \<le> lu_estimatedUsd u"
  shows "withinRunBudget r m (addUsage spent u)"
proof -
  have acc: "accumulatedRunUsage r spent =
      \<lparr>bp_estimatedUsd = JNum (Fin (committedCost r ''usd'' + lu_estimatedUsd spent)), bp_modelCalls = JNum (Fin (of_nat (m + lu_modelCalls spent)))\<rparr>"
    using assms(1) by (simp add: accumulatedRunUsage_def accounted_def)
  have "\<not> num_gt (Fin (committedCost r ''usd'' + lu_estimatedUsd spent + lu_estimatedUsd e)) (maxUsd (run_budget r))
      \<and> m + lu_modelCalls spent + lu_modelCalls e \<le> maxModelCalls (run_budget r)"
    using assms(3) enforce_allowed [of "committedCost r ''usd'' + lu_estimatedUsd spent" "lu_estimatedUsd e" numStr r "m + lu_modelCalls spent" "lu_modelCalls e"]
      assms(1,2,4,6) unfolding acc estimateProjection_def by (simp add: accounted_def)
  then show ?thesis
    using assms(4,5) num_gt_mono [of "committedCost r ''usd'' + (lu_estimatedUsd spent + lu_estimatedUsd u)" "maxUsd (run_budget r)"
        "committedCost r ''usd'' + lu_estimatedUsd spent + lu_estimatedUsd e"]
    by (auto simp: withinRunBudget_def addUsage_def)
qed

lemma invokeWithBudget_answer:
  "invokeWithBudget numStr P r q made = (Inr a, made1) \<Longrightarrow> pv_invoke P (length made) q = Inr a \<and> made1 = made @ [q]"
  by (auto simp: invokeWithBudget_def Let_def split: if_splits)

lemma invokeWithBudget_made: "length (snd (invokeWithBudget numStr P r q made)) \<le> Suc (length made)"
  by (simp add: invokeWithBudget_def Let_def)

lemma live_attempts_budget:
  assumes "honest P" and "accounted r m"
  shows "0 \<le> lu_estimatedUsd spent \<Longrightarrow> out = live_attempts numStr P r L left attempt prompts spent made failed \<Longrightarrow>
    (lo_usage out = spent \<or> withinRunBudget r m (lo_usage out)) \<and> length (lo_made out) \<le> length made + left"
proof (induction left arbitrary: attempt prompts spent made failed out)
  case 0
  then show ?case by simp
next
  case (Suc left)
  let ?q = "ls_request L prompts"
  obtain d c where gate: "preflight numStr P r ?q spent = (d, c)" by force
  obtain a made1 where inv: "invokeWithBudget numStr P r ?q made = (a, made1)" by force
  have made1: "length made1 \<le> Suc (length made)" using invokeWithBudget_made [of numStr P r ?q made] inv by simp
  show ?case
  proof (cases "bd_status d = BudgetAllowed \<and> bd_status c = BudgetAllowed \<and> \<not> (ls_bounded L \<and> made1 \<noteq> made \<and> pv_slow P (length made))")
    case False
    then show ?thesis using Suc.prems(2) gate inv made1 by auto
  next
    case True
    show ?thesis
    proof (cases a)
      case (Inl e)
      then show ?thesis using Suc.prems(2) gate inv made1 True by auto
    next
      case (Inr resp)
      let ?s = "addUsage spent (lp_usage resp)"
      from inv Inr have "pv_invoke P (length made) ?q = Inr resp" by (simp add: invokeWithBudget_answer)
      with assms(1) have u: "0 \<le> lu_estimatedUsd (lp_usage resp)" "lu_estimatedUsd (lp_usage resp) \<le> lu_estimatedUsd (pv_estimate P ?q)"
        "lu_modelCalls (lp_usage resp) \<le> lu_modelCalls (pv_estimate P ?q)" by (auto simp: honest_def)
      have "c = enforceMaxPerRunBudget numStr r (accumulatedRunUsage r spent) (estimateProjection (pv_estimate P ?q))"
        using gate by (simp add: preflight_def Let_def)
      with True have "bd_status (enforceMaxPerRunBudget numStr r (accumulatedRunUsage r spent) (estimateProjection (pv_estimate P ?q)))
          = BudgetAllowed" by simp
      from enforce_live [OF assms(2) Suc.prems(1) this u(2,3,1)] have within: "withinRunBudget r m ?s" .
      show ?thesis
      proof (cases "ls_validate L (lp_content resp)")
        case (Inl f)
        have "out = live_attempts numStr P r L left (Suc attempt) (ls_repair L (lp_content resp) (fst f)) ?s made1 f"
          using Suc.prems(2) gate inv True Inr Inl by (auto simp: Let_def)
        moreover have "0 \<le> lu_estimatedUsd ?s" using Suc.prems(1) u(1) by (simp add: addUsage_def)
        ultimately have "(lo_usage out = ?s \<or> withinRunBudget r m (lo_usage out)) \<and> length (lo_made out) \<le> length made1 + left"
          by (rule Suc.IH [rotated])
        with within made1 show ?thesis by auto
      next
        case (Inr x)
        then show ?thesis using Suc.prems(2) gate inv True \<open>a = Inr resp\<close> within made1 by (auto simp: Let_def)
      qed
    qed
  qed
qed

text \<open>An answer that was accepted passed the check.\<close>

lemma live_attempts_ok:
  "lo_end (live_attempts numStr P r L left attempt prompts spent made failed) = LiveOk x model \<Longrightarrow> \<exists>content. ls_validate L content = Inr x"
proof (induction left arbitrary: attempt prompts spent made failed)
  case 0
  then show ?case by simp
next
  case (Suc left)
  let ?q = "ls_request L prompts"
  obtain d c where gate: "preflight numStr P r ?q spent = (d, c)" by force
  obtain a made1 where inv: "invokeWithBudget numStr P r ?q made = (a, made1)" by force
  from Suc.prems gate inv show ?case
    by (auto simp: Let_def split: if_splits sum.splits intro: Suc.IH)
qed

lemma live_ok_validated:
  "lo_end (live_calls numStr P r L prompts failed) = LiveOk x model \<Longrightarrow> \<exists>content. ls_validate L content = Inr x"
  by (simp add: live_calls_def live_attempts_ok)

lemma live_calls_budget:
  assumes "honest P" and "accounted r m"
  shows "(lo_usage (live_calls numStr P r L prompts failed) = ZERO_USAGE
      \<or> withinRunBudget r m (lo_usage (live_calls numStr P r L prompts failed)))
    \<and> length (lo_made (live_calls numStr P r L prompts failed)) \<le> 2"
  using live_attempts_budget [OF assms, of ZERO_USAGE "live_calls numStr P r L prompts failed" numStr L 2 1 prompts "[]" failed]
  by (simp add: live_calls_def ZERO_USAGE_def)

section \<open>Findings\<close>

lemma sanitizeFinding_severity [simp]: "sf_severity (sanitizeFinding f) = sf_severity f"
  by (simp add: sanitizeFinding_def)

lemma sanitizeFinding_schema [simp]: "SkepticFindingSchema (sanitizeFinding f) = SkepticFindingSchema f"
  by (cases "sf_taskId f") (simp_all add: SkepticFindingSchema_def sanitizeFinding_def optNonEmpty_def)

lemma severityName_nul: "CHR 0x00 \<notin> set (severityName s)"
  by (cases s) simp_all

lemma findingKey_severity:
  assumes "findingKey f = findingKey g"
  shows "sf_severity f = sf_severity g"
proof -
  have "takeWhile (\<lambda>c. c \<noteq> CHR 0x00) (findingKey h) = severityName (sf_severity h)" for h
    unfolding findingKey_def joinWith_def using severityName_nul [of "sf_severity h"]
    by (simp add: takeWhile_append takeWhile_eq_all_conv [THEN iffD2])
  with assms have "severityName (sf_severity f) = severityName (sf_severity g)" by metis
  then show ?thesis by (cases "sf_severity f"; cases "sf_severity g") simp_all
qed

text \<open>The map of findings by key holds, for each finding so far, one with the same key.\<close>

definition findingMap :: "skeptic_finding list \<Rightarrow> (string, skeptic_finding) js_map \<Rightarrow> bool" where
  "findingMap fs m \<longleftrightarrow> distinct (js_keys m) \<and> (\<forall>k f. js_get m k = Some f \<longrightarrow> f \<in> set fs \<and> findingKey f = k)
     \<and> (\<forall>f \<in> set fs. js_get m (findingKey f) \<noteq> None)"

lemma addFinding_map: "findingMap fs m \<Longrightarrow> findingMap (fs @ [f]) (addFinding f m)"
  by (auto simp: findingMap_def addFinding_def distinct_js_set simp del: map_of_eq_Some_iff split: option.splits if_splits)

lemma fold_addFinding: "findingMap fs m \<Longrightarrow> findingMap (fs @ gs) (fold addFinding gs m)"
proof (induction gs arbitrary: fs m)
  case Nil
  then show ?case by simp
next
  case (Cons g gs)
  from Cons.IH [OF addFinding_map [OF Cons.prems]] show ?case by simp
qed

lemma findingMap_values:
  assumes "findingMap fs m"
  shows "set (js_values m) \<subseteq> set fs" and "f \<in> set fs \<Longrightarrow> \<exists>g \<in> set (js_values m). findingKey g = findingKey f"
proof -
  have get: "js_get m k = Some g \<Longrightarrow> g \<in> set fs \<and> findingKey g = k" for k g using assms by (simp add: findingMap_def)
  show "set (js_values m) \<subseteq> set fs"
  proof
    fix g assume "g \<in> set (js_values m)"
    then obtain k where "(k, g) \<in> set m" by auto
    with assms have "js_get m k = Some g" by (simp add: findingMap_def)
    with get show "g \<in> set fs" by blast
  qed
  assume "f \<in> set fs"
  with assms obtain g where g: "js_get m (findingKey f) = Some g" by (auto simp: findingMap_def)
  then have "(findingKey f, g) \<in> set m" by (rule map_of_SomeD)
  then have "g \<in> set (js_values m)" by force
  with get [OF g] show "\<exists>g \<in> set (js_values m). findingKey g = findingKey f" by blast
qed

lemma findingMap_clean: "findingMap fs (fold addFinding fs [])"
  using fold_addFinding [of "[]" "[]" fs] by (simp add: findingMap_def [of "[]" "[]"])

lemma deduplicated_severities:
  assumes "deduplicateSkepticFindings fs = Some gs"
  shows "sf_severity ` set gs = sf_severity ` set fs"
proof -
  define clean where "clean = map sanitizeFinding fs"
  note m = findingMap_values [OF findingMap_clean [of clean]]
  have gs: "gs = map renameFinding (List.enumerate 0 (js_values (fold addFinding clean [])))"
    using assms by (simp add: deduplicateSkepticFindings_def clean_def Let_def split: if_splits)
  have "map sf_severity gs = map sf_severity (js_values (fold addFinding clean []))" unfolding gs
    by (rule nth_equalityI) (simp_all add: nth_enumerate_eq renameFinding_def)
  then have "sf_severity ` set gs = sf_severity ` set (js_values (fold addFinding clean []))" by (metis list.set_map)
  also have "\<dots> = sf_severity ` set clean"
  proof (rule antisym)
    show "sf_severity ` set (js_values (fold addFinding clean [])) \<subseteq> sf_severity ` set clean" using m(1) by (rule image_mono)
    show "sf_severity ` set clean \<subseteq> sf_severity ` set (js_values (fold addFinding clean []))"
    proof
      fix x assume "x \<in> sf_severity ` set clean"
      then obtain f where f: "f \<in> set clean" "x = sf_severity f" by blast
      from m(2) [OF f(1)] obtain g where "g \<in> set (js_values (fold addFinding clean []))" "findingKey g = findingKey f" by blast
      then show "x \<in> sf_severity ` set (js_values (fold addFinding clean []))" using findingKey_severity [of g f] f(2) by (metis imageI)
    qed
  qed
  finally show ?thesis by (simp add: clean_def image_image)
qed

lemma deduplicate_total:
  assumes "list_all SkepticFindingSchema fs"
  shows "\<exists>gs. deduplicateSkepticFindings fs = Some gs \<and> list_all SkepticFindingSchema gs"
proof -
  define clean where "clean = map sanitizeFinding fs"
  have clean: "list_all SkepticFindingSchema clean" using assms by (simp add: clean_def list_all_iff)
  have "SkepticFindingSchema (renameFinding (i, f))" if "f \<in> set (js_values (fold addFinding clean []))" for i f
  proof -
    from that findingMap_values(1) [OF findingMap_clean] have "f \<in> set clean" by blast
    with clean have "SkepticFindingSchema f" by (simp only: list_all_iff)
    then show ?thesis by (simp add: renameFinding_def SkepticFindingSchema_def)
  qed
  then have "list_all SkepticFindingSchema (map renameFinding (List.enumerate 0 (js_values (fold addFinding clean []))))"
    by (auto simp: list_all_iff in_set_enumerate_eq)
  with clean show ?thesis by (simp add: deduplicateSkepticFindings_def clean_def [symmetric] Let_def)
qed

lemma verdict_iff:
  "verdictForFindings fs = (if BLOCKER \<in> sf_severity ` set fs then REVIEW_BLOCKED
     else if MAJOR \<in> sf_severity ` set fs \<or> MINOR \<in> sf_severity ` set fs then REVIEW_NEEDS_REVISION else REVIEW_SOUND)"
  by (simp add: verdictForFindings_def list_ex_iff image_iff) metis

lemma deduplicated_verdict: "deduplicateSkepticFindings fs = Some gs \<Longrightarrow> verdictForFindings gs = verdictForFindings fs"
  by (simp add: verdict_iff deduplicated_severities)

section \<open>The review of a valid plan\<close>

definition named_tasks :: "planner_output \<Rightarrow> bool" where
  "named_tasks p \<longleftrightarrow> (\<forall>t \<in> set (po_tasks p). js_trim (pt_id t) \<noteq> [])"

lemma known_tasks: "named_tasks p \<Longrightarrow> set (planTaskIds p) = set (taskIds p)"
  by (auto simp: planTaskIds_def taskIds_def named_tasks_def)

lemma valid_dependencies:
  assumes "PlannerOutputSchema p" and "named_tasks p"
  shows "dependencyFindings p = []"
proof -
  have "dependenciesResolve p" using assms(1) by (simp add: PlannerOutputSchema_def)
  then show ?thesis
    unfolding dependencyFindings_def dependenciesResolve_def known_tasks [OF assms(2)] Let_def
    by (auto simp: list_all_iff stringArray_def filter_empty_conv)
qed

lemma valid_approvals:
  assumes "PlannerOutputSchema p" and "named_tasks p"
  shows "approvalFindings p = []"
proof -
  have gated: "unsafeGated p" using assms(1) by (simp add: PlannerOutputSchema_def)
  have "hasRequiredGateForTask p (stringValue (pt_id t))" if t: "t \<in> set (po_tasks p)" "isUnsafeTask t" for t
  proof -
    have id: "stringValue (pt_id t) = Some (pt_id t)" using assms(2) t(1) by (simp add: stringValue_def named_tasks_def)
    have mem: "pt_id t \<in> set (unsafeTaskIds p)" using t by (auto simp: unsafeTaskIds_def isUnsafeTask_def)
    then have "unsafeTaskIds p \<noteq> []" by auto
    with gated mem consider (level) "\<exists>g \<in> set (po_approvalGates p). ag_required g \<and> ag_taskIds g = []"
      | (task) "\<exists>g \<in> set (po_approvalGates p). ag_required g \<and> pt_id t \<in> set (ag_taskIds g)"
      unfolding unsafeGated_def Let_def by (auto simp: list_ex_iff list_all_iff)
    then show ?thesis
    proof cases
      case level
      then show ?thesis by (auto simp: hasRequiredGateForTask_def list_ex_iff stringArray_def)
    next
      case task
      moreover have "pt_id t \<noteq> []" using assms(2) t(1) by (auto simp: named_tasks_def js_trim_def)
      ultimately show ?thesis unfolding id by (fastforce simp: hasRequiredGateForTask_def list_ex_iff stringArray_def Let_def)
    qed
  qed
  then show ?thesis by (auto simp: approvalFindings_def)
qed

lemma numbered_severities: "sf_severity ` set (numberFindings fs) = sf_severity ` set fs"
proof -
  have "map sf_severity (numberFindings fs) = map sf_severity fs"
    by (rule nth_equalityI) (simp_all add: numberFindings_def nth_enumerate_eq)
  then show ?thesis by (metis list.set_map)
qed

lemma major_findings:
  "BLOCKER \<notin> sf_severity ` set (validationFindings J p)" "BLOCKER \<notin> sf_severity ` set (riskFindings p)"
  "BLOCKER \<notin> sf_severity ` set (contextFindings p c)"
  by (auto simp: validationFindings_def riskFindings_def contextFindings_def draftFinding_def split: if_splits)

lemma valid_plan_blockers:
  assumes "PlannerOutputSchema p" and "named_tasks p"
  shows "BLOCKER \<in> sf_severity ` set (planFindings J p c) \<longleftrightarrow> po_tasks p = [] \<and> \<not> hasClarificationGate p c"
  unfolding planFindings_def numbered_severities set_append image_Un valid_dependencies [OF assms] valid_approvals [OF assms]
  using major_findings(1) [of J p] major_findings(2) [of p] major_findings(3) [of p c] by (auto simp: clarificationFindings_def draftFinding_def)

lemma draft_schema:
  "SkepticFindingSchema ((draftFinding s t c m e r)\<lparr>sf_id := i\<rparr>) \<longleftrightarrow> i \<noteq> [] \<and> optNonEmpty t \<and> c \<noteq> [] \<and> m \<noteq> [] \<and> e \<noteq> [] \<and> r \<noteq> []"
  by (simp add: SkepticFindingSchema_def draftFinding_def)

definition goodDraft :: "skeptic_finding \<Rightarrow> bool" where
  "goodDraft f \<longleftrightarrow> SkepticFindingSchema (f\<lparr>sf_id := ''skeptic''\<rparr>)"

lemma goodDraft_simps [simp]: "goodDraft (draftFinding s t c m e r) \<longleftrightarrow> optNonEmpty t \<and> c \<noteq> [] \<and> m \<noteq> [] \<and> e \<noteq> [] \<and> r \<noteq> []"
  by (simp add: goodDraft_def draft_schema)

lemma stringValue_nonEmpty [simp]: "optNonEmpty (stringValue s)"
  by (auto simp: stringValue_def optNonEmpty_def js_trim_def)

lemma matches_nonEmpty: "[] \<notin> set (matchesFrom at1 pw s)"
  by (induction at1 pw s rule: matchesFrom.induct) (auto split: option.splits list.splits)

lemma good_drafts:
  assumes "\<forall>j. jsonText j \<noteq> []" and "PlannerOutputSchema p"
  shows "\<forall>f \<in> set (validationFindings jsonText p @ dependencyFindings p @ clarificationFindings p c @ approvalFindings p
       @ riskFindings p @ contextFindings p c). goodDraft f"
proof -
  have refs: "r \<noteq> []" if "r \<in> set (unsupportedContextReferences p c)" for r
    using that matches_nonEmpty by (auto simp: unsupportedContextReferences_def fileReferences_def apiReferences_def Let_def split: option.splits)
  have "\<forall>f \<in> set (validationFindings jsonText p). goodDraft f" using assms(1) by (auto simp: validationFindings_def optNonEmpty_def [of None])
  moreover have "\<forall>f \<in> set (dependencyFindings p). goodDraft f"
    by (auto simp: dependencyFindings_def stringArray_def js_trim_def optNonEmpty_def [of None] Let_def split: if_splits)
  moreover have "\<forall>f \<in> set (clarificationFindings p c). goodDraft f" by (simp add: clarificationFindings_def optNonEmpty_def [of None])
  moreover have "\<forall>f \<in> set (approvalFindings p). goodDraft f" by (auto simp: approvalFindings_def split: if_splits)
  moreover have "\<forall>f \<in> set (riskFindings p). goodDraft f" by (auto simp: riskFindings_def optNonEmpty_def [of None] split: if_splits)
  moreover have "\<forall>f \<in> set (contextFindings p c). goodDraft f" using refs by (auto simp: contextFindings_def optNonEmpty_def [of None])
  ultimately show ?thesis by auto
qed

lemma numbered_schema:
  assumes "\<forall>f \<in> set fs. goodDraft f"
  shows "list_all SkepticFindingSchema (numberFindings fs)"
  using assms by (auto simp: list_all_iff numberFindings_def in_set_enumerate_eq goodDraft_def SkepticFindingSchema_def)

lemma review_total:
  assumes "\<forall>j. jsonText j \<noteq> []" and "PlannerOutputSchema p"
    and "isDatetime E (case c of Some pack \<Rightarrow> cp_createdAt pack | None \<Rightarrow> ''1970-01-01T00:00:00.000Z'')"
  shows "\<exists>rv. reviewPlanWithSkeptic E jsonText p c = Some rv"
proof -
  have ok: "list_all SkepticFindingSchema (planFindings jsonText p c)"
    unfolding planFindings_def by (rule numbered_schema [OF good_drafts [OF assms(1,2)]])
  from deduplicate_total [OF this] obtain gs
    where gs: "deduplicateSkepticFindings (planFindings jsonText p c) = Some gs" "list_all SkepticFindingSchema gs" by blast
  have "optNonEmpty (Some (over (stringValue (po_goal p)) ''unknown plan''))"
    by (auto simp: optNonEmpty_def stringValue_def js_trim_def)
  with ok gs assms(3) show ?thesis
    by (auto simp: reviewPlanWithSkeptic_def SkepticReviewSchema_def optNonEmpty_def Let_def)
qed

lemma review_verdict:
  assumes "reviewPlanWithSkeptic E J p c = Some rv"
  shows "sf_severity ` set (sr_findings rv) = sf_severity ` set (planFindings J p c)"
    and "sr_verdict rv = verdictForFindings (sr_findings rv)"
proof -
  obtain gs where gs: "deduplicateSkepticFindings (planFindings J p c) = Some gs" "sr_findings rv = gs" "sr_verdict rv = verdictForFindings gs"
    using assms by (auto simp: reviewPlanWithSkeptic_def Let_def split: option.splits if_splits)
  then show "sf_severity ` set (sr_findings rv) = sf_severity ` set (planFindings J p c)"
    and "sr_verdict rv = verdictForFindings (sr_findings rv)" using deduplicated_severities by simp_all
qed

section \<open>Plans by route\<close>

text \<open>The schema looks at goal, assumptions and edges only through their texts and the set of edges.\<close>

lemma schema_change:
  assumes "PlannerOutputSchema p" and "g \<noteq> []" and "allNonEmpty as" and "set ds = set (po_dependencies p)"
  shows "PlannerOutputSchema (p\<lparr>po_goal := g, po_assumptions := as, po_dependencies := ds\<rparr>)"
proof -
  let ?q = "p\<lparr>po_goal := g, po_assumptions := as, po_dependencies := ds\<rparr>"
  have ids: "taskIds ?q = taskIds p" "unsafeTaskIds ?q = unsafeTaskIds p" by (simp_all add: taskIds_def unsafeTaskIds_def)
  have "dependenciesResolve ?q = dependenciesResolve p" using assms(4) by (simp add: dependenciesResolve_def ids list_all_iff)
  moreover have "riskyTasksApproved ?q = riskyTasksApproved p" by (simp add: riskyTasksApproved_def)
  moreover have "gatesResolve ?q = gatesResolve p" by (simp add: gatesResolve_def ids)
  moreover have "unsafeGated ?q = unsafeGated p" by (simp add: unsafeGated_def ids)
  moreover have "list_all PlannerDependencySchema ds = list_all PlannerDependencySchema (po_dependencies p)"
    using assms(4) by (simp add: list_all_iff)
  ultimately show ?thesis using assms(1-3) unfolding PlannerOutputSchema_def by simp
qed

text \<open>A plan on which normalisation changes at most the assumptions and the order of the edges.\<close>

definition steadyPlan :: "planner_output \<Rightarrow> bool" where
  "steadyPlan p \<longleftrightarrow> map normalTask (po_tasks p) = po_tasks p \<and> map normalGate (po_approvalGates p) = po_approvalGates p
     \<and> uniquePlanDependencies [] (po_dependencies p) = po_dependencies p
     \<and> uniquePlanStrings (pv_checks (po_validation p)) = pv_checks (po_validation p) \<and> po_requestedSkills p = None"

lemma uniquePlanStrings_nonEmpty: "allNonEmpty (uniquePlanStrings xs)"
  by (auto simp: uniquePlanStrings_def allNonEmpty_def list_all_iff)

lemma steady_validated:
  assumes "PlannerOutputSchema p" and "steadyPlan p"
  shows "validatePlannerOutput locale p = Some (normalPlan locale p) \<and> PlannerOutputSchema (normalPlan locale p)
    \<and> po_tasks (normalPlan locale p) = po_tasks p \<and> po_approvalGates (normalPlan locale p) = po_approvalGates p"
proof -
  have eq: "normalPlan locale p = p\<lparr>po_goal := po_goal p, po_assumptions := uniquePlanStrings (po_assumptions p),
      po_dependencies := sort_by (\<lambda>l r. locale (dependencyKey l) (dependencyKey r)) (po_dependencies p)\<rparr>"
    using assms(2) by (simp add: normalPlan_def steadyPlan_def)
  have "PlannerOutputSchema (normalPlan locale p)"
    unfolding eq using assms(1) uniquePlanStrings_nonEmpty by (intro schema_change) (simp_all add: PlannerOutputSchema_def)
  moreover have "po_tasks (normalPlan locale p) = po_tasks p" "po_approvalGates (normalPlan locale p) = po_approvalGates p"
    unfolding eq by simp_all
  ultimately show ?thesis using assms(1) by (simp add: validatePlannerOutput_def normalizePlannerOutput_def)
qed

definition emptyBase :: planner_output where
  "emptyBase = \<lparr>po_goal = ''g'', po_assumptions = [], po_tasks = [], po_dependencies = [],
     po_validation = \<lparr>pv_summary = [], pv_checks = []\<rparr>, po_riskLevel = RiskLow, po_approvalGates = [], po_requestedSkills = None\<rparr>"

lemma route_schemas:
  "PlannerOutputSchema (directAnswerPlan emptyBase)" "PlannerOutputSchema (planOnlyPlan emptyBase)"
  "PlannerOutputSchema (codeEditPlan d k emptyBase)" "PlannerOutputSchema (researchPlan emptyBase)"
  "PlannerOutputSchema (longRunningPlan emptyBase)" "PlannerOutputSchema (clarificationPlan emptyBase)"
proof -
  show "PlannerOutputSchema (codeEditPlan d k emptyBase)"
    by (cases d; cases k) (simp_all only:, code_simp+)
qed code_simp+

lemma route_steady:
  "steadyPlan (directAnswerPlan emptyBase)" "steadyPlan (planOnlyPlan emptyBase)" "steadyPlan (codeEditPlan d k emptyBase)"
  "steadyPlan (researchPlan emptyBase)" "steadyPlan (longRunningPlan emptyBase)" "steadyPlan (clarificationPlan emptyBase)"
proof -
  show "steadyPlan (codeEditPlan d k emptyBase)"
    by (cases d; cases k) (simp_all only:, code_simp+)
qed code_simp+

lemma route_cases:
  obtains q where "PlannerOutputSchema q" and "steadyPlan q" and "po_tasks q = [] \<longleftrightarrow> tg_route (pi_triage input) = NEEDS_CLARIFICATION"
    and "po_tasks q = [] \<Longrightarrow> hasClarificationGate q c"
    and "\<forall>t \<in> set (po_tasks q). js_trim (pt_id t) \<noteq> []"
    and "\<exists>as. routePlan X input = q\<lparr>po_goal := po_goal (routePlan X input), po_assumptions := as, po_dependencies := po_dependencies q\<rparr>"
proof -
  let ?t = "pi_triage input" and ?c = "pi_contextPack input"
  let ?i = "summarize (pe_ellipsis X) (over (pi_messageContent input) (over (pi_intent input) (cp_userIntentSummary ?c))) 180"
  let ?b = "basePlan X ?i ?t ?c"
  note plans = directAnswerPlan_def planOnlyPlan_def codeEditPlan_def researchPlan_def longRunningPlan_def clarificationPlan_def
    assuming_def emptyBase_def basePlan_def routePlan_def Let_def planTask_def
  have ids: "\<forall>i \<in> {''answer.synthesize'', ''plan.inspect'', ''plan.document'', ''code.inspect'', ''code.edit'', ''code.validate'',
      ''research.gather'', ''research.synthesize'', ''research.cite'', ''long.scope'', ''long.checkpoint'', ''long.execute-stage''}.
      js_trim i \<noteq> []" by code_simp
  show thesis
  proof (cases "tg_route ?t")
    case DIRECT_ANSWER
    show ?thesis by (rule that [OF route_schemas(1) route_steady(1)]) (use DIRECT_ANSWER ids in \<open>auto simp: plans\<close>)
  next
    case PLAN_ONLY
    show ?thesis by (rule that [OF route_schemas(2) route_steady(2)]) (use PLAN_ONLY ids in \<open>auto simp: plans\<close>)
  next
    case CODE_EDIT
    show ?thesis
      by (rule that [OF route_schemas(3) route_steady(3), of "hasDestructiveRisk ?t ?i" "tg_complexity ?t"]) (use CODE_EDIT ids in \<open>auto simp: plans\<close>)
  next
    case RESEARCH
    show ?thesis by (rule that [OF route_schemas(4) route_steady(4)]) (use RESEARCH ids in \<open>auto simp: plans\<close>)
  next
    case LONG_RUNNING
    show ?thesis by (rule that [OF route_schemas(5) route_steady(5)]) (use LONG_RUNNING ids in \<open>auto simp: plans\<close>)
  next
    case NEEDS_CLARIFICATION
    show ?thesis by (rule that [OF route_schemas(6) route_steady(6)])
        (use NEEDS_CLARIFICATION in \<open>auto simp: plans hasClarificationGate_def\<close>)
  qed
qed

lemma fallback_plan:
  obtains p where "createFakePlan X input = Some p" and "PlannerOutputSchema p" and "named_tasks p"
    and "po_tasks p = [] \<longleftrightarrow> tg_route (pi_triage input) = NEEDS_CLARIFICATION"
    and "BLOCKER \<notin> sf_severity ` set (planFindings J p c)"
proof -
  let ?p = "routePlan X input"
  obtain q as where q: "PlannerOutputSchema q" "steadyPlan q" "po_tasks q = [] \<longleftrightarrow> tg_route (pi_triage input) = NEEDS_CLARIFICATION"
    "po_tasks q = [] \<Longrightarrow> hasClarificationGate q c" "\<forall>t \<in> set (po_tasks q). js_trim (pt_id t) \<noteq> []"
    and p: "?p = q\<lparr>po_goal := po_goal ?p, po_assumptions := as, po_dependencies := po_dependencies q\<rparr>"
    by (rule route_cases [of input c X]) blast
  have "as = po_assumptions ?p" by (subst p) simp
  moreover have "allNonEmpty (po_assumptions ?p)" "po_goal ?p \<noteq> []"
    by (simp_all add: routePlan_def basePlan_def directAnswerPlan_def planOnlyPlan_def codeEditPlan_def researchPlan_def longRunningPlan_def
        clarificationPlan_def assuming_def allNonEmpty_def Let_def split: triage_route.split)
  ultimately have schema: "PlannerOutputSchema ?p" by (subst p) (intro schema_change, use q(1) in simp_all)
  have tasks: "po_tasks ?p = po_tasks q" by (subst p) simp
  have gates: "po_approvalGates ?p = po_approvalGates q" by (subst p) simp
  have steady: "steadyPlan ?p" using q(2) by (subst p) (simp add: steadyPlan_def)
  define n where "n = normalPlan (pe_localeCompare X) ?p"
  note n = steady_validated [OF schema steady, of "pe_localeCompare X", folded n_def]
  have named: "named_tasks n" using n q(5) tasks by (simp add: named_tasks_def)
  have "hasClarificationGate n c = hasClarificationGate q c" using n gates by (simp add: hasClarificationGate_def)
  then have "BLOCKER \<notin> sf_severity ` set (planFindings J n c)"
    using valid_plan_blockers [of n J c] n named q(4) tasks by simp
  with n named q(3) tasks show ?thesis by (intro that [of n]) (simp_all add: createFakePlan_def)
qed

section \<open>Properties\<close>

definition sample_llm :: llm_provider where
  "sample_llm = \<lparr>pv_id = ''llm'', pv_models = [], pv_estimate = (\<lambda>_. ZERO_USAGE\<lparr>lu_modelCalls := 1\<rparr>),
     pv_invoke = (\<lambda>_ _. Inr \<lparr>lp_provider = ''llm'', lp_model = ''m'', lp_content = [], lp_usage = ZERO_USAGE\<lparr>lu_modelCalls := 1\<rparr>\<rparr>),
     pv_slow = (\<lambda>_. False)\<rparr>"

definition sample_pack :: "triage_route \<Rightarrow> context_pack" where
  "sample_pack route = \<lparr>cp_id = ''c'', cp_createdAt = ''now'', cp_userIntentSummary = ''intent'',
     cp_triage = \<lparr>tg_route = route, tg_confidence = Fin 1, tg_complexity = ComplexityLow, tg_reasons = [], tg_riskFlags = []\<rparr>,
     cp_constraints = [], cp_configured = [], cp_unavailable = [], cp_providerNotes = [], cp_toolNames = [], cp_toolNotes = [],
     cp_artifactHandles = [], cp_relevantDocs = [], cp_relevantMemory = [], cp_inlineContext = []\<rparr>"

definition sample_planner_env :: planner_live_env where
  "sample_planner_env = \<lparr>pq_numStr = (\<lambda>_. []), pq_plan = \<lparr>pe_localeCompare = codeUnitCompare, pe_toFixed = (\<lambda>_. ''1.00''), pe_ellipsis = ''...''\<rparr>,
     pq_model = None, pq_prompt = [(''user'', ''plan'')], pq_repair = (\<lambda>_ _. [(''user'', ''again'')]), pq_decode = (\<lambda>_. Inl ([], [])),
     pq_normalFailure = (\<lambda>_. ([], []))\<rparr>"

definition sample_skeptic_env :: skeptic_live_env where
  "sample_skeptic_env = \<lparr>kq_schema = sample_env, kq_numStr = (\<lambda>_. []), kq_jsonText = (\<lambda>_. ''{}''), kq_model = None,
     kq_prompt = [(''user'', ''review'')], kq_repair = (\<lambda>_ _. [(''user'', ''again'')]), kq_decode = (\<lambda>_. Inr []),
     kq_reviewFailure = (\<lambda>_. ([], [])), kq_now = (\<lambda>_. ''now''), kq_timeoutText = ''60000''\<rparr>"

text \<open>
  C36: The live planner always returns: with a plan that satisfies the plan schema, or with a blocker and a
  fallback plan that satisfies the schema, names its tasks and gives the skeptic no reason to block,
  whatever the route, the texts and the answers of the provider are.
\<close>

theorem live_planner_total:
  "\<exists>res made. runLivePlanner X P r input = Some (res, made)
     \<and> (case lq_plan res of
          Some p \<Rightarrow> PlannerOutputSchema p \<and> lq_blocker res = None
        | None \<Rightarrow> lq_blocker res \<noteq> None
            \<and> (\<exists>p. lq_fallbackPlan res = Some p \<and> PlannerOutputSchema p \<and> named_tasks p
                 \<and> BLOCKER \<notin> sf_severity ` set (planFindings jsonText p c)))"
proof -
  let ?out = "live_calls (pq_numStr X) P r (plannerStep X) (pq_prompt X) (''Planner output was not produced'', [])"
  obtain p where p: "createFakePlan (pq_plan X) input = Some p" "PlannerOutputSchema p" "named_tasks p"
    "BLOCKER \<notin> sf_severity ` set (planFindings jsonText p c)" by (rule fallback_plan)
  have valid: "PlannerOutputSchema plan" if "safeValidatePlannerOutput X content = Inr plan" for content plan
    using that by (auto simp: safeValidatePlannerOutput_def validatePlannerOutput_def normalizePlannerOutput_def
        split: sum.splits option.splits if_splits)
  have ok: "PlannerOutputSchema plan" if "lo_end ?out = LiveOk plan model" for plan model
  proof -
    note ended = that
    obtain content where "ls_validate (plannerStep X) content = Inr plan" using live_ok_validated [OF ended] by blast
    then show ?thesis using valid by (simp add: plannerStep_def)
  qed
  show ?thesis
    using p ok by (cases "lo_end ?out") (auto simp: runLivePlanner_def plannerResult_def plannerBlocked_def Let_def)
qed

text \<open>
  C37: A model cannot soften the skeptic's own review. A live review has every severity that the own review
  has, its verdict is computed from its findings, and a plan that the own review blocks is blocked
  without a call.
\<close>

theorem live_skeptic_not_softened:
  assumes "runLiveSkeptic X P r plan pack = Some (res, made)" and "kr_review res = Some rv"
  shows "\<exists>own. reviewPlanWithSkeptic (kq_schema X) (kq_jsonText X) plan (Some pack) = Some own
     \<and> sr_verdict rv = verdictForFindings (sr_findings rv)
     \<and> sf_severity ` set (sr_findings own) \<subseteq> sf_severity ` set (sr_findings rv)
     \<and> (sr_verdict own = REVIEW_BLOCKED \<longrightarrow> rv = own \<and> made = [])
     \<and> (sr_verdict own \<noteq> REVIEW_SOUND \<longrightarrow> sr_verdict rv \<noteq> REVIEW_SOUND)"
proof -
  obtain own where own: "reviewPlanWithSkeptic (kq_schema X) (kq_jsonText X) plan (Some pack) = Some own"
    using assms(1) by (auto simp: runLiveSkeptic_def Let_def split: option.splits)
  note v = review_verdict(2) [OF own]
  show ?thesis
  proof (cases "list_ex (\<lambda>f. sf_severity f = BLOCKER) (sr_findings own)")
    case True
    with assms own have "rv = own" "made = []" by (auto simp: runLiveSkeptic_def skepticOk_def Let_def)
    with own v show ?thesis by simp
  next
    case False
    let ?out = "live_calls (kq_numStr X) P r (skepticStep X plan (sr_findings own)) (kq_prompt X) (''Skeptic review was not produced'', [])"
    have "res = skepticResult X P (over (kq_model X) (flagshipModel P)) ?out" using assms(1) own False by (simp add: runLiveSkeptic_def Let_def)
    with assms(2) obtain model where "lo_end ?out = LiveOk rv model"
      by (cases "lo_end ?out") (simp_all add: skepticResult_def skepticBlocked_def skepticOk_def)
    then obtain content where "assembleSkepticReview X plan (sr_findings own) content = Inr rv"
      using live_ok_validated by (fastforce simp: skepticStep_def)
    then obtain fs merged where m: "deduplicateSkepticFindings (sr_findings own @ fs) = Some merged" "sr_findings rv = merged"
      "sr_verdict rv = verdictForFindings merged"
      by (auto simp: assembleSkepticReview_def Let_def split: sum.splits option.splits if_splits)
    have sub: "sf_severity ` set (sr_findings own) \<subseteq> sf_severity ` set (sr_findings rv)"
      using deduplicated_severities [OF m(1)] m(2) by auto
    have "sr_verdict own \<noteq> REVIEW_BLOCKED" using False v by (auto simp: verdictForFindings_def)
    moreover have "sr_verdict own \<noteq> REVIEW_SOUND \<longrightarrow> sr_verdict rv \<noteq> REVIEW_SOUND"
      using sub v m(2,3) by (auto simp: verdict_iff split: if_splits)
    ultimately show ?thesis using own m(2,3) sub by simp
  qed
qed

text \<open>
  C38: On plans that satisfy the plan schema and whose tasks have names that are not blank, the skeptic's own
  review never throws, and it blocks exactly the plans without tasks that ask for no clarification: its
  checks of dependencies and approvals repeat the schema.
\<close>

theorem skeptic_blocks_valid_plan_iff:
  assumes "PlannerOutputSchema p" and "named_tasks p" and "\<forall>j. jsonText j \<noteq> []"
    and "isDatetime E (case c of Some pack \<Rightarrow> cp_createdAt pack | None \<Rightarrow> ''1970-01-01T00:00:00.000Z'')"
  shows "\<exists>rv. reviewPlanWithSkeptic E jsonText p c = Some rv
     \<and> (sr_verdict rv = REVIEW_BLOCKED \<longleftrightarrow> po_tasks p = [] \<and> \<not> hasClarificationGate p c)"
proof -
  obtain rv where rv: "reviewPlanWithSkeptic E jsonText p c = Some rv" using review_total [OF assms(3,1,4)] by blast
  have "sr_verdict rv = REVIEW_BLOCKED \<longleftrightarrow> BLOCKER \<in> sf_severity ` set (planFindings jsonText p c)"
    unfolding review_verdict(2) [OF rv] verdict_iff review_verdict(1) [OF rv] by simp
  with rv valid_plan_blockers [OF assms(1,2), of jsonText c] show ?thesis by simp
qed

lemma sample_answer_plan:
  obtains p where "PlannerOutputSchema p" and "named_tasks p" and "po_tasks p \<noteq> []"
proof -
  define input where "input = \<lparr>pi_triage = cp_triage (sample_pack DIRECT_ANSWER), pi_contextPack = sample_pack DIRECT_ANSWER,
      pi_messageContent = None, pi_intent = None\<rparr>"
  obtain p where "PlannerOutputSchema p" "named_tasks p" "po_tasks p = [] \<longleftrightarrow> tg_route (pi_triage input) = NEEDS_CLARIFICATION"
    by (rule fallback_plan [of "pq_plan sample_planner_env" input])
  moreover have "tg_route (pi_triage input) \<noteq> NEEDS_CLARIFICATION" by (simp add: input_def sample_pack_def)
  ultimately show thesis using that by blast
qed

theorem skeptic_blocks_valid_plan_iff_witness:
  "\<exists>p rv. po_tasks p \<noteq> [] \<and> reviewPlanWithSkeptic sample_env (\<lambda>_. ''{}'') p (Some (sample_pack DIRECT_ANSWER)) = Some rv
     \<and> sr_verdict rv \<noteq> REVIEW_BLOCKED"
proof -
  obtain p where p: "PlannerOutputSchema p" "named_tasks p" "po_tasks p \<noteq> []" by (rule sample_answer_plan)
  have "isDatetime sample_env (case Some (sample_pack DIRECT_ANSWER) of Some pack \<Rightarrow> cp_createdAt pack | None \<Rightarrow> ''1970-01-01T00:00:00.000Z'')"
    by (simp add: sample_env_def sample_pack_def)
  from skeptic_blocks_valid_plan_iff [OF p(1,2) _ this, of "\<lambda>_. ''{}''"] p(3) show ?thesis by auto
qed

definition bare_plan :: planner_output where
  "bare_plan = emptyBase\<lparr>po_validation := \<lparr>pv_summary = ''s'', pv_checks = [''c'']\<rparr>\<rparr>"

lemma bare_review:
  obtains own where "reviewPlanWithSkeptic sample_env (\<lambda>_. ''{}'') bare_plan (Some (sample_pack DIRECT_ANSWER)) = Some own"
    and "BLOCKER \<in> sf_severity ` set (sr_findings own)"
proof -
  have bare: "PlannerOutputSchema bare_plan" "named_tasks bare_plan" by code_simp+
  have "isDatetime sample_env (case Some (sample_pack DIRECT_ANSWER) of Some pack \<Rightarrow> cp_createdAt pack | None \<Rightarrow> ''1970-01-01T00:00:00.000Z'')"
    by (simp add: sample_env_def sample_pack_def)
  with review_total [OF _ bare(1)] obtain own
    where own: "reviewPlanWithSkeptic sample_env (\<lambda>_. ''{}'') bare_plan (Some (sample_pack DIRECT_ANSWER)) = Some own"
    by (metis list.distinct(1))
  moreover have "BLOCKER \<in> sf_severity ` set (sr_findings own)"
    unfolding review_verdict(1) [OF own] valid_plan_blockers [OF bare]
    by (simp add: bare_plan_def emptyBase_def hasClarificationGate_def sample_pack_def)
  ultimately show thesis by (rule that)
qed

theorem live_skeptic_not_softened_witness:
  "\<exists>rv. runLiveSkeptic sample_skeptic_env sample_llm sample_run bare_plan (sample_pack DIRECT_ANSWER)
       = Some (skepticOk sample_llm ''llm'' rv ZERO_USAGE 0, [])
     \<and> sr_verdict rv = verdictForFindings (sr_findings rv)"
proof -
  obtain own where own: "reviewPlanWithSkeptic sample_env (\<lambda>_. ''{}'') bare_plan (Some (sample_pack DIRECT_ANSWER)) = Some own"
    "BLOCKER \<in> sf_severity ` set (sr_findings own)" by (rule bare_review)
  then obtain f where "f \<in> set (sr_findings own)" "sf_severity f = BLOCKER" by force
  then have "list_ex (\<lambda>f. sf_severity f = BLOCKER) (sr_findings own)" by (auto simp: list_ex_iff)
  with own have run: "runLiveSkeptic sample_skeptic_env sample_llm sample_run bare_plan (sample_pack DIRECT_ANSWER)
      = Some (skepticOk sample_llm ''llm'' own ZERO_USAGE 0, [])"
    by (simp add: runLiveSkeptic_def sample_skeptic_env_def sample_llm_def flagshipModel_def)
  from live_skeptic_not_softened [OF run] show ?thesis using run by (auto simp: skepticOk_def)
qed

end
