(* ===== verification/Post_Planning_Correct.thy ===== *)
theory Post_Planning_Correct
  imports Post_Planning Live_Planning_Correct Run_Properties
begin

text \<open>
  The recording of a run: where it ends whatever is interleaved, that it goes through when nothing
  interferes and every report fits, and what is left of a run whose report does not fit or whose time is
  over.
\<close>

section \<open>Where recordings end\<close>

lemma recordThen_Inr [simp]: "recordThen f g st = (st2, Inr y) \<longleftrightarrow> (\<exists>st1 x. f st = (st1, Inr x) \<and> g x st1 = (st2, Inr y))"
  by (auto simp: recordThen_def split: prod.splits sum.splits)

lemma transition_ends:
  assumes "transitionRun getRun (commitRunTransition E now) env rid target opts S = (S', Inr (r, e))"
  shows "run_phase r = target \<and> run_status r = statusForPhase target"
proof -
  from mem_runs.transition_loop_success [OF assms [unfolded transitionRun_def]] obtain i read s2 where
    "commitRunTransition E now rid (attempt_patch target opts read) (buildRunEvent read (run_phase read) target opts i) s2 = (S', Inr (r, e))"
    by blast
  from mem_runs.commit_ok [OF this] show ?thesis by (auto simp: attempt_patch_def buildRunPatch_def over_def)
qed

definition endsAt :: "run_phase \<Rightarrow> run \<Rightarrow> bool" where
  "endsAt phase r \<longleftrightarrow> run_phase r = phase \<and> run_status r = statusForPhase phase"

lemma recordTransition_ends: "recordTransition X rid target opts st = (st', Inr r) \<Longrightarrow> endsAt target r"
  by (auto simp: recordTransition_def endsAt_def Let_def dest: transition_ends split: prod.splits sum.splits)

lemma recordDecision_ends: "recordDecision X rid request opts st = (st', Inr r) \<Longrightarrow> endsAt NEEDS_DECISION r"
  by (auto simp: recordDecision_def createDecisionRequest_def endsAt_def Let_def dest: transition_ends split: prod.splits sum.splits)

lemma recordAbort_ends: "recordAbort X rid opts st = (st', Inr r) \<Longrightarrow> endsAt ABORTED r"
  by (auto simp: recordAbort_def abortRun_def endsAt_def Let_def dest: transition_ends split: prod.splits sum.splits)

text \<open>The phase an outcome asks for.\<close>

definition finalPhase :: "post_outcome \<Rightarrow> run_phase" where
  "finalPhase out =
     (if xo_abortAfter out \<in> Some ` {EXECUTING, VALIDATING} \<or> xo_abortAfter out = Some SYNTHESIZING \<and> xo_proceed out then ABORTED
      else if xo_proceed out then DONE
      else if map_option hl_status (xo_healing out) = Some HealNeedsDecision then NEEDS_DECISION else FAILED)"

lemma finish_ends:
  assumes "finishExternalPostPlanningRun X p out current st = (st', Inr r)"
    and "xo_abortAfter out \<notin> Some ` {EXECUTING, VALIDATING}"
  shows "endsAt (finalPhase out) r"
proof -
  note ends = recordTransition_ends recordDecision_ends recordAbort_ends
  show ?thesis
    using assms
    by (auto simp: finishExternalPostPlanningRun_def transitionExternalSynthesisDone_def transitionExternalAborted_def
        transitionExternalNeedsDecision_def transitionExternalFailed_def finalPhase_def Let_def dest!: ends split: if_splits)
qed

lemma recordPrefix_ends:
  assumes "recordPrefix X p out phases current st = (st', Inr r)"
    and "\<forall>q. xo_abortAfter out = Some q \<longrightarrow> q \<in> {EXECUTING, VALIDATING, SYNTHESIZING}"
    and "xo_abortAfter out \<in> Some ` {EXECUTING, VALIDATING} \<Longrightarrow> the (xo_abortAfter out) \<in> set phases"
    and "SYNTHESIZING \<notin> set phases"
  shows "endsAt (finalPhase out) r"
  using assms
proof (induction phases arbitrary: current st)
  case Nil
  then show ?case by (auto intro: finish_ends)
next
  case (Cons phase rest)
  from Cons.prems(1) obtain st1 cur1 st2 where step:
    "(if xo_abortAfter out = Some phase then transitionExternalAborted X out cur1 else recordPrefix X p out rest cur1) st2 = (st', Inr r)"
    by auto
  show ?case
  proof (cases "xo_abortAfter out = Some phase")
    case True
    with Cons.prems(2,4) have "finalPhase out = ABORTED" by (auto simp: finalPhase_def)
    with step True show ?thesis by (auto simp: transitionExternalAborted_def Let_def dest: recordAbort_ends)
  next
    case False
    with step have "recordPrefix X p out rest cur1 st2 = (st', Inr r)" by simp
    moreover have "xo_abortAfter out \<in> Some ` {EXECUTING, VALIDATING} \<Longrightarrow> the (xo_abortAfter out) \<in> set rest"
      using Cons.prems(3) False by auto
    ultimately show ?thesis using Cons.IH Cons.prems(2,4) by auto
  qed
qed

lemma recorded_outcome_ends:
  assumes "transitionExternalPostPlanningRun X p out st = (st', Inr r)"
    and "\<forall>q. xo_abortAfter out = Some q \<longrightarrow> q \<in> {EXECUTING, VALIDATING, SYNTHESIZING}"
  shows "endsAt (finalPhase out) r"
  by (rule recordPrefix_ends [OF assms(1) [unfolded transitionExternalPostPlanningRun_def] assms(2)])
    (auto simp: EXTERNAL_PREFIX_PHASES_def)

section \<open>Recording undisturbed\<close>

text \<open>
  Nothing else touches the store, timestamps are valid, and the identifiers of events are new.
\<close>

definition quietChat :: "chat_env \<Rightarrow> bool" where
  "quietChat X \<longleftrightarrow> (\<forall>k i S. ch_interfere X k i S = S)
     \<and> (\<forall>k. isDatetime (ch_schema X) (ch_storeNow X k) \<and> isDatetime (ch_schema X) (ch_now X k 0) \<and> isDatetime (ch_schema X) (ch_nowIso X k))
     \<and> (\<forall>k. ch_eventId X k 0 \<noteq> []) \<and> inj (\<lambda>k. ch_eventId X k 0) \<and> inj (ch_uuid X)
     \<and> (\<forall>k j. ch_eventId X k 0 \<noteq> ''evt-'' @ ch_uuid X j) \<and> ch_traceId X \<noteq> []"

definition freshIds :: "chat_env \<Rightarrow> recording \<Rightarrow> bool" where
  "freshIds X st \<longleftrightarrow> (\<forall>k \<ge> rc_calls st. \<not> js_has (events (rc_store st)) (ch_eventId X k 0))
     \<and> (\<forall>j \<ge> rc_appended st. \<not> js_has (events (rc_store st)) (''evt-'' @ ch_uuid X j))"

definition payloadFits :: "schema_env \<Rightarrow> json_record \<Rightarrow> bool" where
  "payloadFits E payload \<longleftrightarrow> length payload \<le> 50 \<and> list_all (\<lambda>(k, v). length k \<le> 128) payload \<and> jsonLength E (cleanPayload payload) \<le> 100000"

definition storedAt :: "run_phase \<Rightarrow> string \<Rightarrow> chat_env \<Rightarrow> recording \<Rightarrow> run \<Rightarrow> bool" where
  "storedAt phase rid X st r \<longleftrightarrow> getRun rid (rc_store st) = Some r \<and> RunSchema (ch_schema X) r \<and> run_id r = rid
     \<and> run_phase r = phase \<and> freshIds X st"

definition plainOptions :: "chat_env \<Rightarrow> (nat \<Rightarrow> transition_options) \<Rightarrow> bool" where
  "plainOptions X opts \<longleftrightarrow> (\<forall>k. to_now (opts k) = ch_now X k \<and> to_eventId (opts k) = ch_eventId X k \<and> to_traceId (opts k) = Some (ch_traceId X))"

definition transitionFits :: "chat_env \<Rightarrow> run_phase \<Rightarrow> run_phase \<Rightarrow> transition_options \<Rightarrow> bool" where
  "transitionFits X fromPhase toPhase opts \<longleftrightarrow> payloadFits (ch_schema X) (redactRecord (transition_payload fromPhase toPhase opts))"

lemma js_has_update: "js_has (js_set k v m) k' \<longleftrightarrow> k' = k \<or> js_has m k'"
  by (simp add: js_has_def)

lemma merge_run_id [simp]: "run_id (merge_run r p now) = run_id r"
  by (simp add: merge_run_def)

lemma transition_event_parse:
  assumes "quietChat X" and "plainOptions X opts" and "run_id r \<noteq> []" and "e = buildRunEvent r p target (opts k) 0"
  shows "RunEventSchema_parse (ch_schema X) e
    = (if transitionFits X p target (opts k) then Some (e\<lparr>ev_payload := cleanPayload (ev_payload e)\<rparr>) else None)"
  using assms
  by (simp add: RunEventSchema_parse_def buildRunEvent_def quietChat_def plainOptions_def transitionFits_def payloadFits_def
      optNonEmpty_def over_def)

lemma quiet_transition_step:
  assumes "quietChat X" and "plainOptions X opts" and "storedAt p rid X st r"
    and "isAllowedRunPhaseTransition p target" and "p \<noteq> NEEDS_DECISION" and "transitionFits X p target (opts (rc_calls st))"
  shows "\<exists>st' r'. recordTransition X rid target opts st = (st', Inr r') \<and> storedAt target rid X st' r'
     \<and> run_status r' = statusForPhase target \<and> run_version r' = Suc (run_version r)"
proof -
  let ?k = "rc_calls st" and ?S = "rc_store st"
  let ?e = "(buildRunEvent r p target (opts ?k) 0)\<lparr>ev_payload := cleanPayload (ev_payload (buildRunEvent r p target (opts ?k) 0))\<rparr>"
  let ?r = "merge_run r (attempt_patch target (opts ?k) r) (ch_storeNow X ?k)"
  from assms(3) have r: "getRun rid ?S = Some r" "RunSchema (ch_schema X) r" "run_id r = rid" "run_phase r = p" "freshIds X st"
    by (simp_all add: storedAt_def)
  have "run_id r \<noteq> []" using r(2) by (simp add: RunSchema_def)
  with assms(1,2,6) have parse: "RunEventSchema_parse (ch_schema X) (buildRunEvent r (run_phase r) target (opts ?k) 0) = Some ?e"
    using transition_event_parse [OF _ _ _ refl, of X opts r p target ?k] r(4) by simp
  have env: "ch_interfere X ?k = (\<lambda>_ S. S)" using assms(1) by (intro ext) (simp add: quietChat_def)
  have eid: "ev_id ?e = ch_eventId X ?k 0" using assms(2) by (simp add: buildRunEvent_def plainOptions_def)
  have new: "\<not> js_has (events ?S) (ev_id ?e)" using r(5) eid by (simp add: freshIds_def)
  have now: "isDatetime (ch_schema X) (ch_storeNow X ?k)" using assms(1) by (simp add: quietChat_def)
  have run: "transitionRun getRun (commitRunTransition (ch_schema X) (ch_storeNow X ?k)) (ch_interfere X ?k) rid target (opts ?k) ?S
      = (?S\<lparr>runs := js_set rid ?r (runs ?S), events := js_set (ev_id ?e) ?e (events ?S)\<rparr>, Inr (?r, ?e))"
    unfolding env using quiet_transition [OF r(2,1) _ _ now parse new] assms(4,5) r(4) by simp
  let ?st = "st\<lparr>rc_calls := Suc ?k, rc_store := ?S\<lparr>runs := js_set rid ?r (runs ?S), events := js_set (ev_id ?e) ?e (events ?S)\<rparr>\<rparr>"
  have step: "recordTransition X rid target opts st = (?st, Inr ?r)" using run by (simp add: recordTransition_def Let_def)
  have inj: "ch_eventId X k 0 = ch_eventId X ?k 0 \<longleftrightarrow> k = ?k" for k
    using assms(1) by (auto simp: quietChat_def inj_def)
  have apart: "''evt-'' @ ch_uuid X j \<noteq> ch_eventId X ?k 0" for j using assms(1) unfolding quietChat_def by metis
  have "freshIds X ?st"
    using r(5) inj apart unfolding freshIds_def by (auto simp: eid js_has_update simp del: append.simps)
  moreover have "RunSchema (ch_schema X) ?r" using r(2) now by (rule RunSchema_attempt)
  moreover have "run_phase ?r = target" "run_status ?r = statusForPhase target" "run_version ?r = Suc (run_version r)"
    by (simp_all add: attempt_patch_def buildRunPatch_def over_def)
  ultimately show ?thesis using step r(3)
    by (intro exI [of _ ?st] exI [of _ ?r]) (simp add: storedAt_def getRun_def)
qed

text \<open>A report that does not fit is refused by the store, which stays as it was.\<close>

lemma unfit_transition_step:
  assumes "quietChat X" and "plainOptions X opts" and "storedAt p rid X st r"
    and "isAllowedRunPhaseTransition p target" and "p \<noteq> NEEDS_DECISION" and "\<not> transitionFits X p target (opts (rc_calls st))"
  shows "recordTransition X rid target opts st = (st\<lparr>rc_calls := Suc (rc_calls st)\<rparr>, Inl (StoreFailure (ZodError ''RunEvent'')))"
proof -
  let ?k = "rc_calls st" and ?S = "rc_store st"
  from assms(3) have r: "getRun rid ?S = Some r" "RunSchema (ch_schema X) r" "run_phase r = p" by (simp_all add: storedAt_def)
  have "run_id r \<noteq> []" using r(2) by (simp add: RunSchema_def)
  with assms(1,2,6) have parse: "RunEventSchema_parse (ch_schema X) (buildRunEvent r p target (opts ?k) 0) = None"
    using transition_event_parse [OF _ _ _ refl, of X opts r p target ?k] by simp
  have env: "ch_interfere X ?k = (\<lambda>_ S. S)" using assms(1) by (intro ext) (simp add: quietChat_def)
  have "isDatetime (ch_schema X) (ch_storeNow X ?k)" using assms(1) by (simp add: quietChat_def)
  with r(2) have "RunSchema (ch_schema X) (merge_run r (attempt_patch target (opts ?k) r) (ch_storeNow X ?k))" by (rule RunSchema_attempt)
  then have "commitRunTransition (ch_schema X) (ch_storeNow X ?k) rid (attempt_patch target (opts ?k) r) (buildRunEvent r p target (opts ?k) 0) ?S
      = (?S, Inl (ZodError ''RunEvent''))"
    using r parse by (simp add: commitRunTransition_def getRun_def attempt_patch_def Let_def)
  moreover have "validateTransition p target (opts ?k) = None" using assms(4,5) by (simp add: validateTransition_def)
  ultimately have "transitionRun getRun (commitRunTransition (ch_schema X) (ch_storeNow X ?k)) (ch_interfere X ?k) rid target (opts ?k) ?S
      = (?S, Inl (StoreFailure (ZodError ''RunEvent'')))"
    unfolding transitionRun_Suc env using r by (simp add: Let_def)
  then show ?thesis by (simp add: recordTransition_def Let_def)
qed

lemma recordDecision_transition:
  "recordDecision X rid request opts = recordTransition X rid NEEDS_DECISION (\<lambda>k. (opts k)\<lparr>to_decisionRequest := Some request\<rparr>)"
  by (intro ext) (simp add: recordDecision_def recordTransition_def createDecisionRequest_def)

lemma recordAbort_transition:
  "recordAbort X rid opts = recordTransition X rid ABORTED
     (\<lambda>k. (opts k)\<lparr>to_lastError := Some (redactString (over (to_lastError (opts k)) ''Run interrupted by request''))\<rparr>)"
  by (intro ext) (simp add: recordAbort_def recordTransition_def abortRun_def)

lemma deferred_events_step:
  assumes "quietChat X" and "\<forall>v \<in> set vs. payloadFits (ch_schema X) (redactRecord (tv_payload v))"
  shows "storedAt p rid X st r \<Longrightarrow> \<exists>st'. appendDeferredToolEvents X r vs st = (st', Inr ()) \<and> storedAt p rid X st' r"
  using assms(2)
proof (induction vs arbitrary: st)
  case Nil
  then show ?case by simp
next
  case (Cons v vs)
  let ?k = "rc_appended st" and ?S = "rc_store st"
  define e where "e = runEvent (ch_uuid X ?k) (ch_nowIso X ?k) r (tv_type v) (tv_phase v) (tv_payload v)"
  define e1 where "e1 = e\<lparr>ev_payload := cleanPayload (ev_payload e)\<rparr>"
  have r: "RunSchema (ch_schema X) r" "freshIds X st" "getRun rid ?S = Some r" "run_id r = rid" "run_phase r = p"
    using Cons.prems(1) by (simp_all add: storedAt_def)
  then have "run_id r \<noteq> []" "run_traceId r \<noteq> []" by (simp_all add: RunSchema_def)
  with assms(1) Cons.prems(2) have "RunEventSchema_parse (ch_schema X) e = Some e1"
    by (simp add: RunEventSchema_parse_def e_def e1_def runEvent_def payloadFits_def quietChat_def optNonEmpty_def)
  moreover have id: "ev_id e1 = ''evt-'' @ ch_uuid X ?k" by (simp add: e1_def e_def runEvent_def)
  moreover have "\<not> js_has (events ?S) (''evt-'' @ ch_uuid X ?k)" using r(2) by (simp add: freshIds_def)
  ultimately have app: "appendEvent (ch_schema X) e ?S = (?S\<lparr>events := js_set (ev_id e1) e1 (events ?S)\<rparr>, Inr e1)"
    by (simp add: appendEvent_def)
  let ?st = "st\<lparr>rc_appended := Suc ?k, rc_store := ?S\<lparr>events := js_set (ev_id e1) e1 (events ?S)\<rparr>\<rparr>"
  have "ch_uuid X j = ch_uuid X ?k \<longleftrightarrow> j = ?k" for j using assms(1) by (auto simp: quietChat_def inj_def)
  moreover have "ch_eventId X k 0 \<noteq> ''evt-'' @ ch_uuid X ?k" for k using assms(1) by (simp add: quietChat_def)
  ultimately have "freshIds X ?st" using r(2) unfolding freshIds_def by (auto simp: id js_has_update)
  with r have "storedAt p rid X ?st r" by (simp add: storedAt_def getRun_def)
  from Cons.IH [OF this] Cons.prems(2) obtain st' where "appendDeferredToolEvents X r vs ?st = (st', Inr ())" "storedAt p rid X st' r" by auto
  then show ?case using app by (simp add: e_def [symmetric] Let_def)
qed

text \<open>What has to fit so that the phases of a list are recorded, from a run in phase \<open>a\<close>.\<close>

definition prefixFits :: "chat_env \<Rightarrow> post_planning \<Rightarrow> post_outcome \<Rightarrow> run_phase \<Rightarrow> run_phase list \<Rightarrow> bool" where
  "prefixFits X p out a phases \<longleftrightarrow>
     (\<forall>(b, c) \<in> set (zip (a # phases) phases). isAllowedRunPhaseTransition b c \<and> b \<noteq> NEEDS_DECISION
        \<and> (\<forall>k. transitionFits X b c (externalPrefixOptions X p out c k)))
     \<and> (\<forall>c \<in> set phases. \<forall>v \<in> set (deferredEvents out c). payloadFits (ch_schema X) (redactRecord (tv_payload v)))"

lemma payloadOptions_fields [simp]:
  "to_now (payloadOptions X payload k) = ch_now X k" "to_eventId (payloadOptions X payload k) = ch_eventId X k"
  "to_traceId (payloadOptions X payload k) = Some (ch_traceId X)"
  by (simp_all add: payloadOptions_def)

lemma prefix_options_plain: "plainOptions X (externalPrefixOptions X p out c)"
  by (auto simp: plainOptions_def externalPrefixOptions_def Let_def split: run_phase.split option.split)

lemma quiet_prefix:
  assumes "quietChat X" and "\<forall>q. xo_abortAfter out = Some q \<longrightarrow> q \<notin> set phases"
  shows "storedAt a rid X st cur \<Longrightarrow> prefixFits X p out a phases \<Longrightarrow>
    \<exists>st' r. recordPrefix X p out (phases @ rest) cur st = recordPrefix X p out rest r st' \<and> storedAt (last (a # phases)) rid X st' r
      \<and> run_version r = run_version cur + length phases \<and> (if phases = [] then r = cur else run_status r = statusForPhase (last phases))"
  using assms(2)
proof (induction phases arbitrary: a st cur)
  case Nil
  then show ?case by auto
next
  case (Cons c cs)
  have fits: "isAllowedRunPhaseTransition a c" "a \<noteq> NEEDS_DECISION" "transitionFits X a c (externalPrefixOptions X p out c (rc_calls st))"
    "\<forall>v \<in> set (deferredEvents out c). payloadFits (ch_schema X) (redactRecord (tv_payload v))" and rest: "prefixFits X p out c cs"
    using Cons.prems(2) by (auto simp: prefixFits_def)
  from quiet_transition_step [OF assms(1) prefix_options_plain Cons.prems(1) fits(1-3)] obtain st1 r1 where
    one: "recordTransition X rid c (externalPrefixOptions X p out c) st = (st1, Inr r1)" "storedAt c rid X st1 r1"
      "run_status r1 = statusForPhase c" "run_version r1 = Suc (run_version cur)" by blast
  from deferred_events_step [OF assms(1) fits(4) one(2)] obtain st2 where
    two: "appendDeferredToolEvents X r1 (deferredEvents out c) st1 = (st2, Inr ())" "storedAt c rid X st2 r1" by blast
  from Cons.IH [OF two(2) rest] Cons.prems(3) obtain st' r where
    three: "recordPrefix X p out (cs @ rest) r1 st2 = recordPrefix X p out rest r st'" "storedAt (last (c # cs)) rid X st' r"
      "run_version r = run_version r1 + length cs" "if cs = [] then r = r1 else run_status r = statusForPhase (last cs)" by auto
  have "run_id cur = rid" "xo_abortAfter out \<noteq> Some c" using Cons.prems(1,3) by (auto simp: storedAt_def)
  then have "recordPrefix X p out ((c # cs) @ rest) cur st = recordPrefix X p out rest r st'"
    using one(1) two(1) three(1) by (simp add: recordThen_def)
  then show ?case using three one by (intro exI [of _ st'] exI [of _ r]) (auto split: if_splits)
qed

text \<open>A run whose reports fit is recorded completely.\<close>

lemma recording_completes:
  assumes "quietChat X" and "storedAt CHAT_RECEIVED rid X st (pp_run p)"
    and "prefixFits X p out CHAT_RECEIVED EXTERNAL_PREFIX_PHASES"
    and "\<forall>k. transitionFits X VALIDATING SYNTHESIZING
           (payloadOptions X (phasePayload X ''External brainstem run advanced'' k SYNTHESIZING (externalSynthesisPayload X p out)) k)
         \<and> transitionFits X SYNTHESIZING DONE (payloadOptions X (phasePayload X ''External brainstem run completed'' k DONE []) k)"
    and "xo_proceed out" and "xo_abortAfter out = None"
  shows "\<exists>st' r. transitionExternalPostPlanningRun X p out st = (st', Inr r) \<and> getRun rid (rc_store st') = Some r
     \<and> run_phase r = DONE \<and> run_status r = ''completed'' \<and> run_version r = run_version (pp_run p) + 10"
proof -
  have "\<forall>q. xo_abortAfter out = Some q \<longrightarrow> q \<notin> set EXTERNAL_PREFIX_PHASES" using assms(6) by simp
  from quiet_prefix [OF assms(1) this assms(2,3), of "[]"] obtain st1 r1 where
    eight: "recordPrefix X p out EXTERNAL_PREFIX_PHASES (pp_run p) st = finishExternalPostPlanningRun X p out r1 st1"
      "storedAt VALIDATING rid X st1 r1" "run_version r1 = run_version (pp_run p) + 8"
    by (auto simp: EXTERNAL_PREFIX_PHASES_def simp del: recordPrefix.simps(2))
  have plain: "plainOptions X (\<lambda>k. payloadOptions X (f k) k)" for f by (simp add: plainOptions_def)
  let ?synth = "\<lambda>k. payloadOptions X (phasePayload X ''External brainstem run advanced'' k SYNTHESIZING (externalSynthesisPayload X p out)) k"
    and ?done = "\<lambda>k. payloadOptions X (phasePayload X ''External brainstem run completed'' k DONE []) k"
  obtain st2 r2 where nine: "recordTransition X rid SYNTHESIZING ?synth st1 = (st2, Inr r2)" "storedAt SYNTHESIZING rid X st2 r2"
      "run_version r2 = Suc (run_version r1)"
    using quiet_transition_step [OF assms(1) plain eight(2), of SYNTHESIZING
        "\<lambda>k. phasePayload X ''External brainstem run advanced'' k SYNTHESIZING (externalSynthesisPayload X p out)"] assms(4)
    by (auto simp: isAllowedRunPhaseTransition_def)
  obtain st3 r3 where ten: "recordTransition X rid DONE ?done st2 = (st3, Inr r3)" "storedAt DONE rid X st3 r3"
      "run_status r3 = ''completed''" "run_version r3 = Suc (run_version r2)"
    using quiet_transition_step [OF assms(1) plain nine(2), of DONE "\<lambda>k. phasePayload X ''External brainstem run completed'' k DONE []"] assms(4)
    by (auto simp: isAllowedRunPhaseTransition_def)
  have "run_id r1 = rid" "run_id r2 = rid" using eight(2) nine(2) by (simp_all add: storedAt_def)
  then have "transitionExternalPostPlanningRun X p out st = (st3, Inr r3)"
    using eight(1) nine(1) ten(1) assms(5,6)
    by (simp add: transitionExternalPostPlanningRun_def finishExternalPostPlanningRun_def transitionExternalSynthesisDone_def recordThen_def)
  with ten nine(3) eight(3) show ?thesis by (simp add: storedAt_def)
qed

section \<open>Samples\<close>

definition sample_verdict :: "crucible_verdict \<Rightarrow> crucible_decision" where
  "sample_verdict v = \<lparr>cd_verdict = v, cd_reason = ''r'', cd_acceptedPlan = None, cd_revisionRequest = None, cd_escalation = None,
     cd_blockerFindings = [], cd_round = 0, cd_maxRounds = 2, cd_createdAt = ''now'', cd_trace = None\<rparr>"

definition sample_provider_call :: provider_call where
  "sample_provider_call = \<lparr>pm_provider = ''llm'', pm_model = ''m'', pm_modelRoute = ''flagship'', pm_usage = ZERO_USAGE, pm_attempts = 0,
     pm_repaired = False\<rparr>"

definition sample_post :: post_planning where
  "sample_post = \<lparr>pp_run = sample_run, pp_triage = cp_triage (sample_pack RESEARCH), pp_contextPack = sample_pack RESEARCH, pp_plan = bare_plan,
     pp_review = sample_review REVIEW_SOUND, pp_decision = sample_verdict VBLOCKED, pp_planningCall = sample_provider_call,
     pp_skepticCall = sample_provider_call, pp_preprocessor = JNull, pp_pathsExplored = []\<rparr>"

definition sample_answer :: synthesis where
  "sample_answer = \<lparr>sy_status = SynthSkipped, sy_route = RESEARCH, sy_traceId = ''t'', sy_evidence = [], sy_providerCalls = 0,
     sy_observability = None, sy_response = ''r''\<rparr>"

text \<open>An outcome whose report of the execution is the given one.\<close>

definition sample_post_outcome :: "json_record \<Rightarrow> post_outcome" where
  "sample_post_outcome report = \<lparr>xo_dagPayload = [], xo_executionPayload = report, xo_validationPayload = [], xo_healing = None, xo_proceed = True,
     xo_synthesis = sample_answer, xo_synthCall = None, xo_directFallback = None, xo_decomposed = None, xo_artifacts = [],
     xo_executionEvents = [], xo_validationEvents = [], xo_control = None, xo_abortAfter = None\<rparr>"

text \<open>Payloads with a field \<open>executionResult\<close> are longer than the limit, all others are empty.\<close>

definition sample_limits :: schema_env where
  "sample_limits = \<lparr>isDatetime = (\<lambda>s. s \<noteq> []), jsonLength = (\<lambda>p. if js_has p ''executionResult'' then 100001 else 2)\<rparr>"

definition sample_chat :: chat_env where
  "sample_chat = \<lparr>ch_schema = sample_limits, ch_traceId = ''t'', ch_storeNow = (\<lambda>_. ''now''), ch_now = (\<lambda>_ _. ''now''),
     ch_eventId = (\<lambda>k _. replicate (Suc k) (CHR ''a'')), ch_uuid = (\<lambda>j. replicate j (CHR ''u'')), ch_nowIso = (\<lambda>_. ''now''),
     ch_interfere = (\<lambda>_ _ S. S), ch_observability = (\<lambda>_ _. JNull), ch_triage = (\<lambda>_. JNull), ch_contextPack = (\<lambda>_. JNull),
     ch_plan = (\<lambda>_. JNull), ch_review = (\<lambda>_. JNull), ch_decision = (\<lambda>_. JNull), ch_dag = (\<lambda>_. JNull), ch_execution = (\<lambda>_. JNull),
     ch_artifacts = (\<lambda>_. JNull), ch_healing = (\<lambda>_. JNull), ch_synthesis = (\<lambda>_. JNull), ch_numStr = (\<lambda>_. [])\<rparr>"

definition sample_recording :: recording where
  "sample_recording = \<lparr>rc_calls = 0, rc_appended = 0, rc_store = sample_store\<rparr>"

lemma sample_chat_quiet: "quietChat sample_chat"
  by (auto simp: quietChat_def sample_chat_def sample_limits_def inj_def)

lemma sample_recording_stored: "storedAt CHAT_RECEIVED ''run-1'' sample_chat sample_recording sample_run"
proof -
  have "RunSchema sample_env sample_run" using sample_store_inv sample_store_run by (rule stored_run_schema)
  then have "RunSchema sample_limits sample_run" by (simp add: RunSchema_def sample_limits_def sample_env_def)
  then show ?thesis
    using sample_store_run by (simp add: storedAt_def sample_recording_def sample_chat_def sample_run_def freshIds_def sample_store_def
        empty_store_def js_has_def)
qed

lemma spread_keys: "fst ` set (spread a b) \<subseteq> fst ` set a \<union> fst ` set b"
proof (induction b arbitrary: a)
  case Nil
  then show ?case by (simp add: spread_def)
next
  case (Cons x b)
  have "spread a (x # b) = spread (js_set (fst x) (snd x) a) b" by (simp add: spread_def split_beta)
  then show ?case using Cons [of "js_set (fst x) (snd x) a"] js_keys_set_dom [of "fst x" "snd x" a] by auto
qed

lemma js_set_length: "length (js_set k v m) \<le> Suc (length m)"
  by (induction m) auto

lemma spread_length: "length (spread a b) \<le> length a + length b"
proof (induction b arbitrary: a)
  case Nil
  then show ?case by (simp add: spread_def)
next
  case (Cons x b)
  have "spread a (x # b) = spread (js_set (fst x) (snd x) a) b" by (simp add: spread_def split_beta)
  then show ?case using Cons [of "js_set (fst x) (snd x) a"] js_set_length [of "fst x" "snd x" a] by simp
qed

text \<open>A transition with a payload of a phase has few fields besides those of the phase.\<close>

lemma phase_payload_keys:
  assumes "to_payload opts = Some (phasePayload X note k phase extra)" and "to_decision opts = JUndef" and "to_lastError opts = None"
    and "b \<noteq> NEEDS_DECISION"
  shows "fst ` set (transition_payload a b opts)
      \<subseteq> {''fromPhase'', ''toPhase'', ''source'', ''note'', ''observability''} \<union> fst ` set extra"
    and "length (transition_payload a b opts) \<le> 5 + length extra"
proof -
  let ?base = "[(''fromPhase'', JStr (phaseName a)), (''toPhase'', JStr (phaseName b))]"
    and ?phase = "phasePayload X note k phase extra"
    and ?three = "[(''source'', JStr ''external-orchestrator''), (''note'', JStr note), (''observability'', ch_observability X k phase)]"
  have p: "transition_payload a b opts = spread ?base ?phase" using assms by (simp add: transition_payload_def Let_def)
  have phase: "fst ` set ?phase \<subseteq> {''source'', ''note'', ''observability''} \<union> fst ` set extra" "length ?phase \<le> 3 + length extra"
    using spread_keys [of ?three extra] spread_length [of ?three extra] unfolding phasePayload_def by simp_all
  show "fst ` set (transition_payload a b opts) \<subseteq> {''fromPhase'', ''toPhase'', ''source'', ''note'', ''observability''} \<union> fst ` set extra"
  proof -
    have "fst ` set (spread ?base ?phase) \<subseteq> {''fromPhase'', ''toPhase''} \<union> fst ` set ?phase" using spread_keys [of ?base ?phase] by simp
    with phase(1) show ?thesis unfolding p by blast
  qed
  show "length (transition_payload a b opts) \<le> 5 + length extra" using spread_length [of ?base ?phase] phase(2) unfolding p by simp
qed

text \<open>Payloads of few short fields fit in the sample, unless they hold a report of an execution.\<close>

lemma sample_fits:
  assumes "to_payload opts = Some (phasePayload X note k phase extra)" and "to_decision opts = JUndef" and "to_lastError opts = None"
    and "b \<noteq> NEEDS_DECISION"
    and "length extra \<le> 10" and "\<forall>n \<in> fst ` set extra. length n \<le> 128" and "''executionResult'' \<notin> fst ` set extra"
  shows "transitionFits sample_chat a b opts"
proof -
  let ?t = "transition_payload a b opts"
  note keys = phase_payload_keys [OF assms(1-4), of a]
  have same: "fst ` set (redactRecord ?t) = fst ` set ?t" by (metis redactRecord_keys set_map)
  define few :: "string \<Rightarrow> bool" where "few = (\<lambda>n. length n \<le> 128 \<and> n \<noteq> ''executionResult'')"
  define N where "N = {''fromPhase'', ''toPhase'', ''source'', ''note'', ''observability''}"
  have few: "\<forall>n \<in> N. few n" unfolding N_def by (simp add: few_def)
  have sub: "fst ` set ?t \<subseteq> N \<union> fst ` set extra" using keys(1) unfolding N_def .
  have "\<forall>n \<in> fst ` set extra. few n" using assms(6,7) unfolding few_def by blast
  then have "\<forall>n \<in> fst ` set ?t. few n" using few sub by blast
  then have names: "\<forall>n \<in> fst ` set (redactRecord ?t). few n" unfolding same .
  have "list_all (\<lambda>(n, v). length n \<le> 128) (redactRecord ?t)"
    unfolding list_all_iff
  proof (rule ballI, clarify)
    fix n v assume "(n, v) \<in> set (redactRecord ?t)"
    then have "n \<in> fst ` set (redactRecord ?t)" by (rule image_eqI [rotated]) simp
    with names show "length n \<le> 128" unfolding few_def by blast
  qed
  moreover have "fst ` set (cleanPayload (redactRecord ?t)) \<subseteq> fst ` set (redactRecord ?t)" unfolding cleanPayload_def by (rule image_mono) simp
  with names have "\<not> js_has (cleanPayload (redactRecord ?t)) ''executionResult''" unfolding js_has_iff few_def by blast
  moreover have "length (redactRecord ?t) \<le> 50" using keys(2) assms(5) by simp
  moreover have "jsonLength (ch_schema sample_chat) p = (if js_has p ''executionResult'' then 100001 else 2)" for p
    by (simp add: sample_chat_def sample_limits_def)
  ultimately show ?thesis unfolding transitionFits_def payloadFits_def by simp
qed

lemma prefix_options_payload:
  "to_payload (externalPrefixOptions X p out c k) = Some (phasePayload X ''External brainstem run advanced'' k c (externalPrefixPayload X p out c))"
  "to_decision (externalPrefixOptions X p out c k) = JUndef" "to_lastError (externalPrefixOptions X p out c k) = None"
  by (cases c; cases "xo_healing out"; simp add: externalPrefixOptions_def payloadOptions_def)+

lemma sample_prefix_fits:
  "prefixFits sample_chat sample_post (sample_post_outcome report) CHAT_RECEIVED
     [TRIAGE, CONTEXT_BUILDING, PLANNING, SKEPTIC_REVIEW, CRUCIBLE, DAG_COMPILATION]"
  "prefixFits sample_chat sample_post (sample_post_outcome []) CHAT_RECEIVED EXTERNAL_PREFIX_PHASES"
proof -
  have early: "transitionFits sample_chat a b (externalPrefixOptions sample_chat sample_post (sample_post_outcome rep1) b k)"
    if "b \<in> {TRIAGE, CONTEXT_BUILDING, PLANNING, SKEPTIC_REVIEW, CRUCIBLE, DAG_COMPILATION, VALIDATING} \<or> b = EXECUTING \<and> rep1 = []"
    for a b k rep1
  proof -
    from that have b: "b \<noteq> NEEDS_DECISION" by auto
    show ?thesis
      by (rule sample_fits [OF prefix_options_payload b]; use that in
          \<open>auto simp: externalPlanningPayload_def sample_post_def sample_post_outcome_def\<close>)
  qed
  show "prefixFits sample_chat sample_post (sample_post_outcome report) CHAT_RECEIVED
     [TRIAGE, CONTEXT_BUILDING, PLANNING, SKEPTIC_REVIEW, CRUCIBLE, DAG_COMPILATION]"
    using early by (simp add: prefixFits_def isAllowedRunPhaseTransition_def deferredEvents_def)
  have "deferredEvents (sample_post_outcome []) c = []" for c by (simp add: deferredEvents_def sample_post_outcome_def)
  then show "prefixFits sample_chat sample_post (sample_post_outcome []) CHAT_RECEIVED EXTERNAL_PREFIX_PHASES"
    using early by (simp add: prefixFits_def isAllowedRunPhaseTransition_def EXTERNAL_PREFIX_PHASES_def)
qed

lemma sample_report_unfit:
  "\<not> transitionFits sample_chat DAG_COMPILATION EXECUTING
     (externalPrefixOptions sample_chat sample_post (sample_post_outcome [(''executionResult'', JNull)]) EXECUTING k)"
proof -
  let ?t = "transition_payload DAG_COMPILATION EXECUTING
     (externalPrefixOptions sample_chat sample_post (sample_post_outcome [(''executionResult'', JNull)]) EXECUTING k)"
  have "map_of ?t ''executionResult'' = Some JNull" by code_simp
  then have "map_of (redactRecord ?t) ''executionResult'' = Some (redactEntry ''executionResult'' JNull)" unfolding redactRecord_get by simp
  moreover have "redactEntry ''executionResult'' JNull \<noteq> JUndef" by simp
  ultimately have "(''executionResult'', redactEntry ''executionResult'' JNull) \<in> set (cleanPayload (redactRecord ?t))"
    unfolding cleanPayload_def by (simp only: set_filter mem_Collect_eq case_prod_conv) (blast dest: map_of_SomeD)
  then have "js_has (cleanPayload (redactRecord ?t)) ''executionResult''" unfolding js_has_iff by (rule image_eqI [rotated]) simp
  then show ?thesis by (simp add: transitionFits_def payloadFits_def sample_chat_def sample_limits_def)
qed

section \<open>Properties\<close>

text \<open>
  C17: A report that does not fit strands its run. All work of a run is over before its first phase is
  recorded; when the report of the execution is longer than the schema of events admits, the
  transition to \<open>EXECUTING\<close> throws, and the run stays in \<open>DAG_COMPILATION\<close> with status running
  although nothing works on it any more.
\<close>

theorem oversized_report_strands_run:
  assumes "quietChat X" and "storedAt CHAT_RECEIVED rid X st (pp_run p)"
    and "prefixFits X p out CHAT_RECEIVED [TRIAGE, CONTEXT_BUILDING, PLANNING, SKEPTIC_REVIEW, CRUCIBLE, DAG_COMPILATION]"
    and "\<forall>k. \<not> transitionFits X DAG_COMPILATION EXECUTING (externalPrefixOptions X p out EXECUTING k)"
    and "\<forall>q. xo_abortAfter out = Some q \<longrightarrow> q \<in> {EXECUTING, VALIDATING, SYNTHESIZING}"
  shows "\<exists>st' r. transitionExternalPostPlanningRun X p out st = (st', Inl (StoreFailure (ZodError ''RunEvent'')))
     \<and> getRun rid (rc_store st') = Some r \<and> run_phase r = DAG_COMPILATION \<and> run_status r = ''running''"
proof -
  let ?first = "[TRIAGE, CONTEXT_BUILDING, PLANNING, SKEPTIC_REVIEW, CRUCIBLE, DAG_COMPILATION]"
  have "\<forall>q. xo_abortAfter out = Some q \<longrightarrow> q \<notin> set ?first" using assms(5) by auto
  from quiet_prefix [OF assms(1) this assms(2,3), of "[EXECUTING, VALIDATING]"] obtain st1 r where
    six: "recordPrefix X p out (?first @ [EXECUTING, VALIDATING]) (pp_run p) st = recordPrefix X p out [EXECUTING, VALIDATING] r st1"
      "storedAt DAG_COMPILATION rid X st1 r" "run_status r = ''running''" by auto
  have "recordTransition X rid EXECUTING (externalPrefixOptions X p out EXECUTING) st1
      = (st1\<lparr>rc_calls := Suc (rc_calls st1)\<rparr>, Inl (StoreFailure (ZodError ''RunEvent'')))"
    using unfit_transition_step [OF assms(1) prefix_options_plain six(2)] assms(4) by (simp add: isAllowedRunPhaseTransition_def)
  moreover have "run_id r = rid" using six(2) by (simp add: storedAt_def)
  ultimately have "transitionExternalPostPlanningRun X p out st
      = (st1\<lparr>rc_calls := Suc (rc_calls st1)\<rparr>, Inl (StoreFailure (ZodError ''RunEvent'')))"
    using six(1) by (simp add: transitionExternalPostPlanningRun_def EXTERNAL_PREFIX_PHASES_def recordThen_def del: recordPrefix.simps)
      (simp add: recordThen_def)
  with six show ?thesis by (auto simp: storedAt_def)
qed

theorem oversized_report_strands_run_witness:
  "\<exists>st' r. transitionExternalPostPlanningRun sample_chat sample_post (sample_post_outcome [(''executionResult'', JNull)]) sample_recording
       = (st', Inl (StoreFailure (ZodError ''RunEvent'')))
     \<and> getRun ''run-1'' (rc_store st') = Some r \<and> run_status r = ''running''"
proof -
  have "storedAt CHAT_RECEIVED ''run-1'' sample_chat sample_recording (pp_run sample_post)"
    using sample_recording_stored by (simp add: sample_post_def)
  moreover have "\<forall>q. xo_abortAfter (sample_post_outcome report) = Some q \<longrightarrow> q \<in> {EXECUTING, VALIDATING, SYNTHESIZING}" for report
    by (simp add: sample_post_outcome_def)
  moreover have "\<forall>k. \<not> transitionFits sample_chat DAG_COMPILATION EXECUTING
     (externalPrefixOptions sample_chat sample_post (sample_post_outcome [(''executionResult'', JNull)]) EXECUTING k)"
    using sample_report_unfit by blast
  ultimately show ?thesis
    using oversized_report_strands_run [OF sample_chat_quiet _ sample_prefix_fits(1)] by blast
qed

text \<open>
  C16: A run that nobody disturbs, that is not interrupted and whose reports fit is recorded completely. It
  goes through ten transitions, from the first phase to the last, and ends done and completed.
\<close>

theorem quiet_run_completes:
  assumes "quietChat X" and "storedAt CHAT_RECEIVED rid X st (pp_run p)"
    and "prefixFits X p out CHAT_RECEIVED EXTERNAL_PREFIX_PHASES"
    and "\<forall>k. transitionFits X VALIDATING SYNTHESIZING
           (payloadOptions X (phasePayload X ''External brainstem run advanced'' k SYNTHESIZING (externalSynthesisPayload X p out)) k)
         \<and> transitionFits X SYNTHESIZING DONE (payloadOptions X (phasePayload X ''External brainstem run completed'' k DONE []) k)"
    and "xo_proceed out" and "xo_abortAfter out = None"
  shows "\<exists>st' r. transitionExternalPostPlanningRun X p out st = (st', Inr r) \<and> getRun rid (rc_store st') = Some r
     \<and> run_phase r = DONE \<and> run_status r = ''completed'' \<and> run_version r = run_version (pp_run p) + 10"
  by (rule recording_completes [OF assms])

theorem quiet_run_completes_witness:
  "\<exists>st' r. transitionExternalPostPlanningRun sample_chat sample_post (sample_post_outcome []) sample_recording = (st', Inr r)
     \<and> run_status r = ''completed'' \<and> run_version r = 10"
proof -
  let ?synth = "externalSynthesisPayload sample_chat sample_post (sample_post_outcome [])"
  have synth: "length ?synth \<le> 10" "\<forall>n \<in> fst ` set ?synth. length n \<le> 128" "''executionResult'' \<notin> fst ` set ?synth"
    by (auto simp: externalSynthesisPayload_def sample_post_outcome_def sample_post_def)
  have opts: "to_payload (payloadOptions sample_chat q k) = Some q" "to_decision (payloadOptions sample_chat q k) = JUndef"
    "to_lastError (payloadOptions sample_chat q k) = None" for q k by (simp_all add: payloadOptions_def)
  have last: "\<forall>k. transitionFits sample_chat VALIDATING SYNTHESIZING
           (payloadOptions sample_chat (phasePayload sample_chat ''External brainstem run advanced'' k SYNTHESIZING ?synth) k)
         \<and> transitionFits sample_chat SYNTHESIZING DONE
           (payloadOptions sample_chat (phasePayload sample_chat ''External brainstem run completed'' k DONE []) k)"
    using sample_fits [OF opts _ synth, where b = SYNTHESIZING] sample_fits [OF opts, where b = DONE and extra = "[]"] by simp
  have "storedAt CHAT_RECEIVED ''run-1'' sample_chat sample_recording (pp_run sample_post)" "run_version (pp_run sample_post) = 0"
    using sample_recording_stored by (simp_all add: sample_post_def sample_run_def)
  moreover have "xo_proceed (sample_post_outcome [])" "xo_abortAfter (sample_post_outcome []) = None" by (simp_all add: sample_post_outcome_def)
  ultimately show ?thesis using quiet_run_completes [OF sample_chat_quiet _ sample_prefix_fits(2) last] by fastforce
qed

text \<open>
  The timeout cannot move a run out of \<open>CHAT_RECEIVED\<close> or \<open>DONE\<close>. No phase is recorded before the work is
  over, so a run whose work ended with an error because its time was over is in \<open>CHAT_RECEIVED\<close>, from
  where the table does not allow \<open>FAILED\<close>: the caller is answered that the run failed, the run in the
  store is untouched and still running. A run that is done when its time is found to be over stays
  done as well, under an answer that says it failed.
\<close>

lemma timeout_leaves_run_behind:
  assumes "quietChat X" and "getRun rid (rc_store st) = Some r" and "run_id r = rid" and "run_phase r \<in> {CHAT_RECEIVED, DONE}"
  shows "\<exists>st'. orchestrationTimeoutResult X summary t conversationId limitMs shown (Some rid) st
       = (st', Some (r, timeoutSynthesis X summary t shown))
     \<and> rc_store st' = rc_store st \<and> sy_status (timeoutSynthesis X summary t shown) = SynthHealing HealFailed"
proof -
  have found: "findRun (rc_store st) conversationId (Some rid) = Some r" using assms(2) by (simp add: findRun_def)
  have env: "ch_interfere X k = (\<lambda>_ S. S)" for k using assms(1) by (intro ext) (simp add: quietChat_def)
  have "validateTransition (run_phase r) FAILED opts = Some (InvalidTransition (run_phase r) FAILED)" for opts
    using assms(4) by (auto simp: validateTransition_def isAllowedRunPhaseTransition_def)
  then have "recordTransition X rid FAILED opts st = (st\<lparr>rc_calls := Suc (rc_calls st)\<rparr>, Inl (InvalidTransition (run_phase r) FAILED))" for opts
    using assms(2) unfolding recordTransition_def transitionRun_Suc env by (simp add: Let_def)
  then show ?thesis using found assms(3) by (simp add: orchestrationTimeoutResult_def timeoutSynthesis_def Let_def)
qed

end
