(* ===== verification/Synthesizer_Correct.thy ===== *)
theory Synthesizer_Correct
  imports Live_Planning_Correct Synthesizer
begin

text \<open>
  What the answer of a run guarantees: calls within the budget, an answer that keeps the record of the
  run, and what a direct answer reports of its call.
\<close>

section \<open>The live answer\<close>

lemma synthesisOk_fields [simp]:
  "ly_ok (synthesisOkResult X P i draft usage model attempts)"
  "ly_usage (synthesisOkResult X P i draft usage model attempts) = usage"
  "ly_citations (synthesisOkResult X P i draft usage model attempts) = map redactCitation (sd_citations draft)"
  by (simp_all add: synthesisOkResult_def Let_def)

lemma synthesisFallback_fields [simp]:
  "\<not> ly_ok (synthesisFallbackResult X P i usage model attempts reason)"
  "ly_usage (synthesisFallbackResult X P i usage model attempts reason) = usage"
  "ly_synthesis (synthesisFallbackResult X P i usage model attempts reason) = synthesizeChatBrainstemResponse (yq_numStr X) i"
  by (simp_all add: synthesisFallbackResult_def)

lemma validated_citations:
  "validateSynthesisDraft X evidence content = Inr draft \<Longrightarrow> evidence \<Longrightarrow> sd_citations draft \<noteq> []"
  by (auto simp: validateSynthesisDraft_def split: sum.splits if_splits)

lemma live_synthesizer_cases:
  obtains (answered) draft usage model attempts where
      "fst (runLiveSynthesizer X P r i) = synthesisOkResult X P i draft usage model attempts"
      "hasExecutionOrValidationEvidence i \<Longrightarrow> sd_citations draft \<noteq> []"
  | (fallback) usage model attempts reason where
      "fst (runLiveSynthesizer X P r i) = synthesisFallbackResult X P i usage model attempts reason"
proof (cases "yq_prompt X i")
  case None
  note fallback
  then show thesis using None by (simp add: runLiveSynthesizer_def Let_def)
next
  case (Some prompts)
  let ?out = "live_calls (yq_numStr X) P r (synthesizerStep X (hasExecutionOrValidationEvidence i)) prompts ([], [])"
  note answered = answered and fallback = fallback
  show thesis
  proof (cases "lo_end ?out")
    case (LiveOk draft model)
    obtain content where "ls_validate (synthesizerStep X (hasExecutionOrValidationEvidence i)) content = Inr draft"
      using live_ok_validated [OF LiveOk] by blast
    then have "hasExecutionOrValidationEvidence i \<Longrightarrow> sd_citations draft \<noteq> []"
      by (auto simp: synthesizerStep_def dest: validated_citations)
    moreover have "fst (runLiveSynthesizer X P r i) = synthesisOkResult X P i draft (lo_usage ?out) model (lo_attempt ?out)"
      using LiveOk Some by (simp add: runLiveSynthesizer_def Let_def)
    ultimately show thesis by (intro answered)
  qed (use Some in \<open>auto simp: runLiveSynthesizer_def Let_def intro: fallback\<close>)
qed

section \<open>Properties\<close>

text \<open>
  C35: When a provider charges no more than it estimates, planner, skeptic and synthesizer make at most two
  calls each, and what they spend, if anything, leaves the run within its cost limit and its limit of
  model calls.
\<close>

theorem live_calls_within_budget:
  assumes "honest P" and "accounted r m"
  shows "(\<forall>X input res made. runLivePlanner X P r input = Some (res, made) \<longrightarrow>
        length made \<le> 2 \<and> (lq_usage res = ZERO_USAGE \<or> withinRunBudget r m (lq_usage res)))
     \<and> (\<forall>X plan pack res made. runLiveSkeptic X P r plan pack = Some (res, made) \<longrightarrow>
        length made \<le> 2 \<and> (kr_usage res = ZERO_USAGE \<or> withinRunBudget r m (kr_usage res)))
     \<and> (\<forall>X i res made. runLiveSynthesizer X P r i = (res, made) \<longrightarrow>
        length made \<le> 2 \<and> (ly_usage res = ZERO_USAGE \<or> withinRunBudget r m (ly_usage res)))"
proof -
  have planner: "lq_usage (plannerResult P model fallback out) = lo_usage out" for model fallback out
    by (cases "lo_end out") (simp_all add: plannerResult_def plannerBlocked_def)
  have skeptic: "kr_usage (skepticResult X P model out) = lo_usage out" for X model out
    by (cases "lo_end out") (simp_all add: skepticResult_def skepticBlocked_def skepticOk_def)
  show ?thesis
  proof (intro conjI [where P = "\<forall>X input res made. _ X input res made"]
      conjI [where P = "\<forall>X plan pack res made. _ X plan pack res made"] allI impI)
    fix X input res made assume run: "runLivePlanner X P r input = Some (res, made)"
    show "length made \<le> 2 \<and> (lq_usage res = ZERO_USAGE \<or> withinRunBudget r m (lq_usage res))"
      using run live_calls_budget [OF assms, of "pq_numStr X" "plannerStep X" "pq_prompt X" "(''Planner output was not produced'', [])"]
      by (auto simp: runLivePlanner_def planner Let_def split: if_splits)
  next
    fix X plan pack res made assume run: "runLiveSkeptic X P r plan pack = Some (res, made)"
    show "length made \<le> 2 \<and> (kr_usage res = ZERO_USAGE \<or> withinRunBudget r m (kr_usage res))"
    proof (cases "reviewPlanWithSkeptic (kq_schema X) (kq_jsonText X) plan (Some pack)")
      case None
      with run show ?thesis by (simp add: runLiveSkeptic_def Let_def)
    next
      case (Some own)
      with run live_calls_budget [OF assms, of "kq_numStr X" "skepticStep X plan (sr_findings own)" "kq_prompt X" "(''Skeptic review was not produced'', [])"]
      show ?thesis by (auto simp: runLiveSkeptic_def skeptic skepticOk_def Let_def split: if_splits)
    qed
  next
    fix X i res made assume run: "runLiveSynthesizer X P r i = (res, made)"
    show "length made \<le> 2 \<and> (ly_usage res = ZERO_USAGE \<or> withinRunBudget r m (ly_usage res))"
    proof (cases "yq_prompt X i")
      case None
      with run show ?thesis by (auto simp: runLiveSynthesizer_def Let_def)
    next
      case (Some prompts)
      with run live_calls_budget [OF assms, of "yq_numStr X" "synthesizerStep X (hasExecutionOrValidationEvidence i)" prompts "([], [])"]
      show ?thesis by (auto simp: runLiveSynthesizer_def Let_def split: live_end.splits)
    qed
  qed
qed

theorem live_calls_within_budget_witness:
  "\<forall>input. length (case runLivePlanner sample_planner_env sample_llm sample_run input of None \<Rightarrow> [] | Some (res, made) \<Rightarrow> made) \<le> 2"
proof -
  have "honest sample_llm" by (simp add: honest_def sample_llm_def ZERO_USAGE_def)
  moreover have "accounted sample_run 0"
    by (simp add: accounted_def committedCost_def sample_run_def optField_def jfield_def)
  ultimately show ?thesis using live_calls_within_budget [of sample_llm sample_run 0] by (auto split: option.split)
qed

text \<open>
  C39: The live answer keeps the record of the run. Whatever the model writes, its status, route and trace are
  those of the deterministic synthesis and its evidence begins with the deterministic evidence; an accepted
  answer adds a line for every failure of the validation and has a citation when the run was executed or
  validated, and an answer that is not accepted is the deterministic one.
\<close>

theorem live_answer_keeps_record:
  "let out = fst (runLiveSynthesizer X P r i)
   in sy_status (ly_synthesis out) = synthesisStatus i \<and> sy_route (ly_synthesis out) = tg_route (si_triage i)
     \<and> sy_traceId (ly_synthesis out) = si_traceId i
     \<and> (if ly_ok out
        then sy_evidence (ly_synthesis out) = synthesisEvidence i @ failedValidationEvidence X i
          \<and> length (failedValidationEvidence X i) = (case si_healing i of None \<Rightarrow> 0 | Some h \<Rightarrow> length (hl_failures h))
          \<and> \<not> (hasExecutionOrValidationEvidence i \<and> ly_citations out = [])
        else ly_synthesis out = synthesizeChatBrainstemResponse (yq_numStr X) i)"
proof (cases rule: live_synthesizer_cases [of X P r i])
  case (answered draft usage model attempts)
  then show ?thesis
    by (auto simp: synthesisOkResult_def synthesizeChatBrainstemResponse_def failedValidationEvidence_def Let_def split: option.splits)
next
  case (fallback usage model attempts reason)
  then show ?thesis by (simp add: synthesizeChatBrainstemResponse_def Let_def)
qed


end
