(* ===== verification/Chat_Pipeline_Correct.thy ===== *)
theory Chat_Pipeline_Correct
  imports Chat_Pipeline Post_Planning_Correct Synthesizer_Correct
begin

text \<open>
  What holds of a whole chat run after planning, whatever the model, the tools, other requests and other
  writers of the store do: where it ends, what it answers, and what it did to the host.
\<close>

section \<open>Steps\<close>

lemma pipeThen_Inr [simp]: "pipeThen f g w = (w2, Inr y) \<longleftrightarrow> (\<exists>w1 x. f w = (w1, Inr x) \<and> g x w1 = (w2, Inr y))"
  by (auto simp: pipeThen_def split: prod.splits sum.splits)

lemma recordingStep_Inr:
  "recordingStep f w = (w', Inr x) \<longleftrightarrow> (\<exists>st. f (pw_recording w) = (st, Inr x) \<and> w' = w\<lparr>pw_recording := st\<rparr>)"
  by (auto simp: recordingStep_def split: prod.splits sum.splits)

lemma commitUsage_tools: "commitUsage X D usage provider w = (w', out) \<Longrightarrow> pw_tools w' = pw_tools w \<and> pw_control w' = pw_control w"
  by (auto simp: commitUsage_def Let_def split: prod.splits sum.splits)

lemma isInterrupted_tools: "isInterrupted D i w = (b, w') \<Longrightarrow> pw_tools w' = pw_tools w"
  by (auto simp: isInterrupted_def Let_def)

lemma live_answer_status: "sy_status (ly_synthesis (fst (runLiveSynthesizer X P r i))) = synthesisStatus i"
  by (cases rule: live_synthesizer_cases [of X P r i])
    (simp_all add: synthesisOkResult_def synthesizeChatBrainstemResponse_def Let_def)

text \<open>The synthesis reports the outcome of the run and touches neither the tools nor the host.\<close>

lemma synthesis_phase:
  assumes "runExternalSynthesisPhase X D i w = (w', Inr out)"
  shows "sy_status (xs_synthesis out) = synthesisStatus i" and "pw_tools w' = pw_tools w"
proof -
  have "sy_status (xs_synthesis out) = synthesisStatus i \<and> pw_tools w' = pw_tools w"
  proof (cases "tg_route (si_triage i) = DIRECT_ANSWER")
    case True
    with assms show ?thesis
      by (auto simp: runExternalSynthesisPhase_def runExternalDirectAnswerSynthesis_def providerCallOf_def synthesizeChatBrainstemResponse_def Let_def
          split: prod.splits option.splits if_splits dest: commitUsage_tools)
  next
    case False
    note status = live_answer_status [of "(pd_synthesizer D)\<lparr>yq_model := Some (lv_model (pd_flagship D))\<rparr>" "lv_provider (pd_flagship D)" "pw_run w" i]
    from False assms status show ?thesis
      by (auto simp: runExternalSynthesisPhase_def runExternalFlagshipSynthesis_def providerCallOf_def synthesizeChatBrainstemResponse_def Let_def
          split: prod.splits option.splits if_splits dest: commitUsage_tools)
  qed
  then show "sy_status (xs_synthesis out) = synthesisStatus i" and "pw_tools w' = pw_tools w" by simp_all
qed

lemma interrupted_synthesis:
  "sy_status (buildInterruptedSynthesis traceId t summary execution healing reason) = SynthHealing HealFailed"
  "startsWith (sy_response (buildInterruptedSynthesis traceId t summary execution healing reason)) ''Run interrupted.''"
  by (simp_all add: buildInterruptedSynthesis_def Let_def joinWith_def startsWith_def)

lemma synthesize_and_record:
  assumes "synthesizeAndRecord X D p compiled ex afterExecution healing vs w = (w', Inr (r, sy))"
  shows "pw_tools w' = pw_tools w" and "\<exists>phase \<in> {DONE, NEEDS_DECISION, FAILED, ABORTED}. endsAt phase r"
    and "run_phase r = DONE \<Longrightarrow> \<not> afterExecution \<and> shouldProceedToSynthesis (map_option hl_status healing)
      \<and> (\<exists>i. sy_status sy = synthesisStatus i \<and> si_healing i = healing \<and> si_crucibleDecision i = pp_decision p)"
    and "run_phase r \<in> {NEEDS_DECISION, FAILED} \<Longrightarrow> healing \<noteq> None \<and> sy_status sy = SynthHealing HealFailed \<and> startsWith (sy_response sy) ''Run interrupted.''"
proof -
  obtain stopped w3 where one: "(if afterExecution then (False, w) else isInterrupted D 1 w) = (stopped, w3)" by force
  define proceed where "proceed = (\<not> afterExecution \<and> \<not> stopped \<and> shouldProceedToSynthesis (map_option hl_status healing))"
  define i where "i = buildExternalSynthesisInput X (pd_summary D 0) p compiled (xp_result ex) healing (xp_decomposed ex)"
  define synth :: "synthesis_phase pipe_step" where "synth = (if proceed then runExternalSynthesisPhase X D i
      else (\<lambda>w. (w, Inr \<lparr>xs_synthesis = buildInterruptedSynthesis (ch_traceId X) (pp_triage p) (pd_summary D 0) (xp_result ex) healing
                  (interruptReasonOf (pw_control w)), xs_synthCall = None, xs_directFallback = None\<rparr>)))"
  define given :: "synthesis_phase \<Rightarrow> bool \<Rightarrow> pipe_world \<Rightarrow> post_outcome" where "given sy1 late w5 = \<lparr>xo_dagPayload = dagCompilationPayload X (pp_decision p) compiled, xo_executionPayload = xp_payload ex,
      xo_validationPayload = validationPayload X healing afterExecution, xo_healing = healing, xo_proceed = proceed,
      xo_synthesis = xs_synthesis sy1, xo_synthCall = xs_synthCall sy1, xo_directFallback = xs_directFallback sy1,
      xo_decomposed = xp_decomposed ex, xo_artifacts = xp_artifacts ex, xo_executionEvents = xp_events ex,
      xo_validationEvents = vs, xo_control = pw_control w5,
      xo_abortAfter = (if afterExecution then Some EXECUTING else if stopped then Some VALIDATING else if late then Some SYNTHESIZING else None)\<rparr>"
    for sy1 late w5
  have "pipeThen synth (\<lambda>sy1 w4. case if proceed then isInterrupted D 2 w4 else (False, w4) of (late, w5) \<Rightarrow>
        pipeThen (recordingStep (transitionExternalPostPlanningRun X p (given sy1 late w5))) (\<lambda>r (w6::pipe_world). (w6, Inr (r, xs_synthesis sy1))) w5) w3
      = (w', Inr (r, sy))"
    using assms unfolding synthesizeAndRecord_def one Let_def given_def synth_def proceed_def i_def by simp
  then obtain w4 phase where two: "synth w3 = (w4, Inr phase)"
    and rest: "(case if proceed then isInterrupted D 2 w4 else (False, w4) of (late, w5) \<Rightarrow>
        pipeThen (recordingStep (transitionExternalPostPlanningRun X p (given phase late w5))) (\<lambda>r w6. (w6, Inr (r, xs_synthesis phase))) w5)
      = (w', Inr (r, sy))" by auto
  obtain late w5 where three: "(if proceed then isInterrupted D 2 w4 else (False, w4)) = (late, w5)" by force
  obtain st where recorded: "transitionExternalPostPlanningRun X p (given phase late w5) (pw_recording w5) = (st, Inr r)"
    "w' = w5\<lparr>pw_recording := st\<rparr>" and sy: "sy = xs_synthesis phase"
    using rest unfolding three by (auto simp: recordingStep_Inr)
  define out where "out = given phase late w5"
  have out: "transitionExternalPostPlanningRun X p out (pw_recording w5) = (st, Inr r)" "w' = w5\<lparr>pw_recording := st\<rparr>" "xo_proceed out = proceed"
    "xo_healing out = healing"
    "xo_abortAfter out = (if afterExecution then Some EXECUTING else if stopped then Some VALIDATING else if late then Some SYNTHESIZING else None)"
    using recorded by (simp_all add: out_def given_def)
  have ends: "endsAt (finalPhase out) r" by (rule recorded_outcome_ends [OF out(1)]) (auto simp: out(5) split: if_splits)
  have "pw_tools w3 = pw_tools w" using one isInterrupted_tools by (auto split: if_splits)
  moreover have "pw_tools w4 = pw_tools w3" using two synthesis_phase(2) by (auto simp: synth_def split: if_splits)
  moreover have "pw_tools w5 = pw_tools w4" using three isInterrupted_tools by (auto split: if_splits)
  ultimately show "pw_tools w' = pw_tools w" using out(2) by simp
  show "\<exists>phase \<in> {DONE, NEEDS_DECISION, FAILED, ABORTED}. endsAt phase r"
    using ends by (intro bexI [of _ "finalPhase out"]) (auto simp: finalPhase_def)
  have late: "late \<Longrightarrow> proceed" using three by (auto split: if_splits)
  have final: "run_phase r = finalPhase out" using ends by (simp add: endsAt_def)
  show "\<not> afterExecution \<and> shouldProceedToSynthesis (map_option hl_status healing)
      \<and> (\<exists>i. sy_status sy = synthesisStatus i \<and> si_healing i = healing \<and> si_crucibleDecision i = pp_decision p)"
    if "run_phase r = DONE"
  proof -
    have proceed using that final out(3,5) late by (auto simp: finalPhase_def split: if_splits)
    then have "sy_status sy = synthesisStatus i" using two sy synthesis_phase(1) by (auto simp: synth_def)
    then show ?thesis using \<open>proceed\<close> unfolding proceed_def
      by (intro conjI exI [of _ i]) (simp_all add: i_def buildExternalSynthesisInput_def)
  qed
  show "healing \<noteq> None \<and> sy_status sy = SynthHealing HealFailed \<and> startsWith (sy_response sy) ''Run interrupted.''"
    if "run_phase r \<in> {NEEDS_DECISION, FAILED}"
  proof -
    have np: "\<not> proceed" "\<not> afterExecution" "\<not> stopped"
      using that final out(3,5) by (auto simp: finalPhase_def split: if_splits)
    then have "healing \<noteq> None" by (auto simp: proceed_def shouldProceedToSynthesis_def)
    moreover have "xs_synthesis phase = buildInterruptedSynthesis (ch_traceId X) (pp_triage p) (pd_summary D 0) (xp_result ex) healing
        (interruptReasonOf (pw_control w3))" using two np(1) by (auto simp: synth_def)
    ultimately show ?thesis using sy interrupted_synthesis by simp
  qed
qed

text \<open>The phases before it: an accepted plan is compiled, executed and validated, a refused one is not.\<close>

lemma compileForRun_verdict:
  "compileForRun X D budgetOf p = Inr compiled \<Longrightarrow> (compiled = None \<longleftrightarrow> cd_verdict (pp_decision p) \<noteq> VACCEPTED)"
  by (auto simp: compileForRun_def split: if_splits sum.splits)

lemma refused_compilation: "cd_verdict (pp_decision p) \<noteq> VACCEPTED \<Longrightarrow> compileForRun X D budgetOf p = Inr None"
  by (simp add: compileForRun_def)

lemma refused_execution:
  assumes "cd_verdict (pp_decision p) \<noteq> VACCEPTED"
  shows "runExternalExecutionPhase X D p None w = (w, Inr \<lparr>xp_result = None, xp_decomposed = None, xp_artifacts = [],
    xp_payload = [(''skippedReason'', JStr ''Execution skipped because no compiled DAG exists'')], xp_events = []\<rparr>)"
  using assms
  by (simp add: runExternalExecutionPhase_def runExternalDecomposedExecution_def shouldRunDecomposedExecution_def pipeThen_def)

lemma compiled_execution: "runExternalExecutionPhase X D p (Some g) w = (w', Inr ex) \<Longrightarrow> xp_result ex \<noteq> None"
  by (auto simp: runExternalExecutionPhase_def Let_def split: prod.splits sum.splits)

lemma validation_healing:
  "runExternalValidationPhase X D compiled result w = (w', Inr (healing, vs)) \<Longrightarrow> healing = None \<longleftrightarrow> compiled = None \<or> result = None"
  by (auto simp: runExternalValidationPhase_def Let_def split: prod.splits sum.splits option.splits)

lemma blocked_edit_ends:
  "resolveCodeEditWithoutSandbox X summary p dagPayload st = (st', Inr (r, sy)) \<Longrightarrow> endsAt NEEDS_DECISION r"
  by (auto simp: resolveCodeEditWithoutSandbox_def Let_def recordThen_def split: prod.splits sum.splits dest: recordDecision_ends)

text \<open>A result of the pipeline comes from the block of an edit without sandbox or from the recording.\<close>

lemma pipeline_result:
  assumes "runExternalPostPlanningPhases X D budgetOf p w = (w', Inr (r, sy))"
  obtains (blocked) "tg_route (pp_triage p) = CODE_EDIT" "\<not> sw_configured (pd_wiring D)" "\<not> hasExplicitSandboxWiring (pd_wiring D)"
      "cd_verdict (pp_decision p) = VACCEPTED" "endsAt NEEDS_DECISION r"
  | (recorded) compiled ex afterExecution healing vs w2 where
      "synthesizeAndRecord X D p compiled ex afterExecution healing vs w2 = (w', Inr (r, sy))"
      "compiled = None \<longleftrightarrow> cd_verdict (pp_decision p) \<noteq> VACCEPTED" "healing = None \<longleftrightarrow> compiled = None \<or> afterExecution"
proof -
  obtain compiled where compiled: "compileForRun X D budgetOf p = Inr compiled"
    using assms by (auto simp: runExternalPostPlanningPhases_def split: sum.splits)
  note verdict = compileForRun_verdict [OF compiled]
  show thesis
  proof (cases "shouldBlockCodeEditWithoutSandbox (pp_triage p) (pd_wiring D) compiled")
    case True
    with assms compiled have "endsAt NEEDS_DECISION r"
      by (auto simp: runExternalPostPlanningPhases_def recordingStep_Inr dest: blocked_edit_ends)
    with True verdict show thesis by (intro blocked) (auto simp: shouldBlockCodeEditWithoutSandbox_def split: option.splits)
  next
    case False
    let ?w = "w\<lparr>pw_run := pp_run p, pw_approvals := sw_approvals (pd_wiring D)\<rparr>"
    from False assms compiled obtain w1 ex where executed: "runExternalExecutionPhase X D p compiled ?w = (w1, Inr ex)"
      and rest: "(let (stopped, w2) = isInterrupted D 0 w1
          in if stopped then synthesizeAndRecord X D p compiled ex True None [] w2
             else pipeThen (runExternalValidationPhase X D compiled (xp_result ex))
                    (\<lambda>(healing, events). synthesizeAndRecord X D p compiled ex False healing events) w2) = (w', Inr (r, sy))"
      by (auto simp: runExternalPostPlanningPhases_def)
    obtain stopped w2 where two: "isInterrupted D 0 w1 = (stopped, w2)" by force
    show thesis
    proof (cases stopped)
      case True
      with rest two show thesis by (intro recorded [of compiled ex True None "[]" w2] verdict) simp_all
    next
      case False
      with rest two obtain w3 healing events where
        validated: "runExternalValidationPhase X D compiled (xp_result ex) w2 = (w3, Inr (healing, events))"
        and final: "synthesizeAndRecord X D p compiled ex False healing events w3 = (w', Inr (r, sy))" by auto
      have "healing = None \<longleftrightarrow> compiled = None"
        using validation_healing [OF validated] compiled_execution executed by (cases compiled) auto
      then show thesis by (intro recorded [OF final verdict]) simp
    qed
  qed
qed

text \<open>Synthesis and recording leave the tools alone, however they end.\<close>

lemma tools_then:
  "pw_tools (fst (f w)) = T \<Longrightarrow> (\<And>w1 x. pw_tools w1 = T \<Longrightarrow> pw_tools (fst (g x w1)) = T) \<Longrightarrow> pw_tools (fst (pipeThen f g w)) = T"
  by (auto simp: pipeThen_def split: prod.splits sum.splits)

lemma tools_check:
  "pw_tools w = T \<Longrightarrow> (\<And>b w1. pw_tools w1 = T \<Longrightarrow> pw_tools (fst (f b w1)) = T)
    \<Longrightarrow> pw_tools (fst (case isInterrupted D i w of (b, w1) \<Rightarrow> f b w1)) = T"
  by (auto split: prod.split dest: isInterrupted_tools)

lemma tools_usage: "pw_tools w = T \<Longrightarrow> pw_tools (fst (commitUsage X D usage provider w)) = T"
  by (metis commitUsage_tools prod.collapse)

lemma tools_call: "pw_tools w = T \<Longrightarrow> pw_tools (fst (providerCallOf s provider model usage attempts w)) = T"
  by (simp add: providerCallOf_def split: option.splits)

lemma tools_recording: "pw_tools w = T \<Longrightarrow> pw_tools (fst (recordingStep f w)) = T"
  by (simp add: recordingStep_def split: prod.splits sum.splits)

lemma tools_synthesis: "pw_tools w = T \<Longrightarrow> pw_tools (fst (runExternalSynthesisPhase X D i w)) = T"
  unfolding runExternalSynthesisPhase_def runExternalDirectAnswerSynthesis_def runExternalFlagshipSynthesis_def Let_def
  by (auto split: prod.split intro!: tools_then tools_usage tools_call)

lemma tools_record:
  assumes "pw_tools w = T"
  shows "pw_tools (fst (synthesizeAndRecord X D p compiled ex afterExecution healing vs w)) = T"
  unfolding synthesizeAndRecord_def Let_def
  by (cases afterExecution; cases "shouldProceedToSynthesis (map_option hl_status healing)")
    (auto simp: assms intro!: tools_check tools_then tools_synthesis tools_recording)

section \<open>The sample\<close>

definition sample_offline :: live_selection where
  "sample_offline = \<lparr>lv_provider = sample_llm, lv_modelRoute = ''flagship'', lv_model = ''m'', lv_live = False\<rparr>"

lemma sample_refused: "cd_verdict (pp_decision sample_post) = VBLOCKED"
  by (simp add: sample_post_def sample_verdict_def)

text \<open>What a refused plan leaves to record, and that the sample takes it.\<close>

definition sample_refused_outcome :: "synthesis \<Rightarrow> post_outcome" where
  "sample_refused_outcome answer =
     \<lparr>xo_dagPayload = [(''skippedReason'', JStr ''Crucible verdict BLOCKED is not ACCEPTED'')],
      xo_executionPayload = [(''skippedReason'', JStr ''Execution skipped because no compiled DAG exists'')],
      xo_validationPayload = [(''skippedReason'', JStr ''Execution skipped or missing; validation and healing skipped'')],
      xo_healing = None, xo_proceed = True, xo_synthesis = answer, xo_synthCall = None, xo_directFallback = None, xo_decomposed = None,
      xo_artifacts = [], xo_executionEvents = [], xo_validationEvents = [], xo_control = None, xo_abortAfter = None\<rparr>"

lemma sample_refused_fits: "prefixFits sample_chat sample_post (sample_refused_outcome answer) CHAT_RECEIVED EXTERNAL_PREFIX_PHASES"
proof -
  have "transitionFits sample_chat a b (externalPrefixOptions sample_chat sample_post (sample_refused_outcome answer) b k)"
    if "b \<in> set EXTERNAL_PREFIX_PHASES" for a b k
  proof -
    from that have b: "b \<noteq> NEEDS_DECISION" by (auto simp: EXTERNAL_PREFIX_PHASES_def)
    show ?thesis
      by (rule sample_fits [OF prefix_options_payload b]; use that in
          \<open>auto simp: EXTERNAL_PREFIX_PHASES_def externalPlanningPayload_def sample_post_def sample_refused_outcome_def\<close>)
  qed
  moreover have "deferredEvents (sample_refused_outcome answer) c = []" for c by (simp add: deferredEvents_def sample_refused_outcome_def)
  ultimately show ?thesis
    by (simp add: prefixFits_def isAllowedRunPhaseTransition_def EXTERNAL_PREFIX_PHASES_def)
qed

lemma sample_refused_recorded:
  "\<exists>st' r. transitionExternalPostPlanningRun sample_chat sample_post (sample_refused_outcome answer) sample_recording = (st', Inr r)
     \<and> run_phase r = DONE"
proof -
  let ?synth = "externalSynthesisPayload sample_chat sample_post (sample_refused_outcome answer)"
  have synth: "length ?synth \<le> 10" "\<forall>n \<in> fst ` set ?synth. length n \<le> 128" "''executionResult'' \<notin> fst ` set ?synth"
    by (auto simp: externalSynthesisPayload_def sample_refused_outcome_def sample_post_def)
  have opts: "to_payload (payloadOptions sample_chat q k) = Some q" "to_decision (payloadOptions sample_chat q k) = JUndef"
    "to_lastError (payloadOptions sample_chat q k) = None" for q k by (simp_all add: payloadOptions_def)
  have last: "\<forall>k. transitionFits sample_chat VALIDATING SYNTHESIZING
           (payloadOptions sample_chat (phasePayload sample_chat ''External brainstem run advanced'' k SYNTHESIZING ?synth) k)
         \<and> transitionFits sample_chat SYNTHESIZING DONE
           (payloadOptions sample_chat (phasePayload sample_chat ''External brainstem run completed'' k DONE []) k)"
    using sample_fits [OF opts _ synth, where b = SYNTHESIZING] sample_fits [OF opts, where b = DONE and extra = "[]"] by simp
  have "storedAt CHAT_RECEIVED ''run-1'' sample_chat sample_recording (pp_run sample_post)"
    using sample_recording_stored by (simp add: sample_post_def)
  moreover have "xo_proceed (sample_refused_outcome answer)" "xo_abortAfter (sample_refused_outcome answer) = None"
    by (simp_all add: sample_refused_outcome_def)
  ultimately obtain st' r where "transitionExternalPostPlanningRun sample_chat sample_post (sample_refused_outcome answer) sample_recording = (st', Inr r)"
      "run_phase r = DONE"
    using recording_completes [OF sample_chat_quiet _ sample_refused_fits last] by blast
  then show ?thesis by blast
qed

lemma sample_refused_run:
  "\<exists>w' r sy. runExternalPostPlanningPhases sample_chat (D\<lparr>pd_flagship := sample_offline\<rparr>) budgetOf sample_post
      (w\<lparr>pw_control := None, pw_recording := sample_recording\<rparr>) = (w', Inr (r, sy)) \<and> run_phase r = DONE"
proof -
  have sample: "tg_route (pp_triage sample_post) = RESEARCH" "pp_decision sample_post = sample_verdict VBLOCKED"
    "cd_verdict (sample_verdict VBLOCKED) = VBLOCKED" by (simp_all add: sample_post_def sample_verdict_def sample_pack_def)
  define i where "i = buildExternalSynthesisInput sample_chat (pd_summary D 0) sample_post None None None None"
  define answer where "answer = synthesizeChatBrainstemResponse (ch_numStr sample_chat) i"
  obtain st' r where recorded: "transitionExternalPostPlanningRun sample_chat sample_post (sample_refused_outcome answer) sample_recording = (st', Inr r)"
      "run_phase r = DONE" using sample_refused_recorded by blast
  have free: "cd_verdict (pp_decision sample_post) \<noteq> VACCEPTED" using sample by simp
  have "synthesizeAndRecord sample_chat (D\<lparr>pd_flagship := sample_offline\<rparr>) sample_post None
      \<lparr>xp_result = None, xp_decomposed = None, xp_artifacts = [],
       xp_payload = [(''skippedReason'', JStr ''Execution skipped because no compiled DAG exists'')], xp_events = []\<rparr> False None [] w1
      = (w1\<lparr>pw_recording := st'\<rparr>, Inr (r, answer))" if "pw_control w1 = None" "pw_recording w1 = sample_recording" for w1
  proof -
    have one: "isInterrupted E k w1 = (False, w1)" for E k using that(1) by (simp add: isInterrupted_def interruptedControl_def)
    have two: "runExternalSynthesisPhase sample_chat (D\<lparr>pd_flagship := sample_offline\<rparr>) i w1
        = (w1, Inr \<lparr>xs_synthesis = answer, xs_synthCall = None, xs_directFallback = None\<rparr>)"
      using sample by (simp add: runExternalSynthesisPhase_def runExternalFlagshipSynthesis_def sample_offline_def answer_def i_def
          buildExternalSynthesisInput_def)
    show ?thesis
      using recorded two that one sample
      by (simp add: synthesizeAndRecord_def shouldProceedToSynthesis_def i_def [symmetric] pipeThen_def recordingStep_def
          sample_refused_outcome_def dagCompilationPayload_def validationPayload_def)
  qed
  moreover have "isInterrupted E k w1 = (False, w1)" if "pw_control w1 = None" for E k w1
    using that by (simp add: isInterrupted_def interruptedControl_def)
  ultimately show ?thesis using recorded(2)
    by (simp add: runExternalPostPlanningPhases_def refused_compilation [OF free] refused_execution [OF free] pipeThen_def
        shouldBlockCodeEditWithoutSandbox_def runExternalValidationPhase_def)
qed

section \<open>Properties\<close>

text \<open>
  C14: A plan that was not accepted never reaches the host. Whatever providers, tools, other requests and
  the store do, and whether the work after planning ends with an answer or throws, the tools with the host and the
  turn budget are as before, and a run that comes back ended in \<open>DONE\<close> or \<open>ABORTED\<close>.
\<close>

theorem refused_plan_touches_nothing:
  assumes "cd_verdict (pp_decision p) \<noteq> VACCEPTED"
  shows "pw_tools (fst (runExternalPostPlanningPhases X D budgetOf p w)) = pw_tools w
    \<and> (case snd (runExternalPostPlanningPhases X D budgetOf p w) of Inl _ \<Rightarrow> True | Inr (r, _) \<Rightarrow> endsAt DONE r \<or> endsAt ABORTED r)"
proof
  have unblocked: "\<not> shouldBlockCodeEditWithoutSandbox (pp_triage p) (pd_wiring D) None"
    by (simp add: shouldBlockCodeEditWithoutSandbox_def)
  show "pw_tools (fst (runExternalPostPlanningPhases X D budgetOf p w)) = pw_tools w"
    using unblocked
    by (auto simp: runExternalPostPlanningPhases_def refused_compilation [OF assms] refused_execution [OF assms] runExternalValidationPhase_def
        intro!: tools_then tools_check tools_record)
  show "case snd (runExternalPostPlanningPhases X D budgetOf p w) of Inl _ \<Rightarrow> True | Inr (r, _) \<Rightarrow> endsAt DONE r \<or> endsAt ABORTED r"
  proof (cases "runExternalPostPlanningPhases X D budgetOf p w")
    case (Pair w' out)
    show ?thesis
    proof (cases out)
      case (Inr result)
      obtain r sy where "result = (r, sy)" by force
      with Pair Inr have "runExternalPostPlanningPhases X D budgetOf p w = (w', Inr (r, sy))" by simp
      then have "endsAt DONE r \<or> endsAt ABORTED r"
      proof (cases rule: pipeline_result)
        case (recorded compiled ex afterExecution healing vs w2)
        then have "healing = None" using assms by simp
        with synthesize_and_record(2,4) [OF recorded(1)] show ?thesis by (auto simp: endsAt_def)
      qed (use assms in simp)
      with Pair Inr \<open>result = (r, sy)\<close> show ?thesis by simp
    qed (use Pair in simp)
  qed
qed

theorem refused_plan_touches_nothing_witness:
  "\<forall>D budgetOf w. pw_tools (fst (runExternalPostPlanningPhases sample_chat D budgetOf sample_post w)) = pw_tools w"
  using refused_plan_touches_nothing [of sample_post] sample_refused by simp

text \<open>
  C15: The end of a run and its answer agree. A run that comes back from the work after planning is done, asks for a
  decision, failed or was aborted, with the status of that phase; when it is done, an accepted plan was
  validated or healed and the answer says so, and for a plan that was refused the answer says blocked or
  undecided although the run is completed; when it is not done for want of validation, the answer says failed and starts with
  the words of an interruption.
\<close>

theorem chat_outcome_agrees:
  assumes "runExternalPostPlanningPhases X D budgetOf p w = (w', Inr (r, sy))"
  shows "(\<exists>phase \<in> {DONE, NEEDS_DECISION, FAILED, ABORTED}. endsAt phase r)
    \<and> (run_phase r = DONE \<longrightarrow> sy_status sy \<in> (if cd_verdict (pp_decision p) = VACCEPTED
         then {SynthHealing HealValidated, SynthHealing HealHealed} else {SynthBlocked, SynthHealing HealNeedsDecision}))
    \<and> (run_phase r \<in> {NEEDS_DECISION, FAILED} \<longrightarrow> cd_verdict (pp_decision p) = VACCEPTED
         \<and> (sy_status sy = SynthHealing HealFailed \<and> startsWith (sy_response sy) ''Run interrupted.''
            \<or> tg_route (pp_triage p) = CODE_EDIT \<and> \<not> sw_configured (pd_wiring D)))"
  using assms
proof (cases rule: pipeline_result)
  case blocked
  then show ?thesis by (simp add: endsAt_def)
next
  case (recorded compiled ex afterExecution healing vs w2)
  note final = synthesize_and_record [OF recorded(1)]
  have accepted: "healing \<noteq> None \<Longrightarrow> cd_verdict (pp_decision p) = VACCEPTED" using recorded(2,3) by blast
  have "sy_status sy \<in> (if cd_verdict (pp_decision p) = VACCEPTED
         then {SynthHealing HealValidated, SynthHealing HealHealed} else {SynthBlocked, SynthHealing HealNeedsDecision})"
    if ended: "run_phase r = DONE"
  proof -
    from final(3) [OF ended] obtain i where i: "sy_status sy = synthesisStatus i" "si_healing i = healing"
        "si_crucibleDecision i = pp_decision p" "\<not> afterExecution" "shouldProceedToSynthesis (map_option hl_status healing)" by blast
    show ?thesis
    proof (cases healing)
      case None
      then have "cd_verdict (pp_decision p) \<noteq> VACCEPTED" using i(4) recorded(2,3) by blast
      with None i show ?thesis by (auto simp: synthesisStatus_def split: crucible_verdict.splits)
    next
      case (Some h)
      then show ?thesis using i accepted by (auto simp: synthesisStatus_def shouldProceedToSynthesis_def)
    qed
  qed
  then show ?thesis using final(2,4) accepted by (auto simp: endsAt_def)
qed

theorem chat_outcome_agrees_witness:
  "\<forall>D budgetOf w. \<exists>w' r sy. runExternalPostPlanningPhases sample_chat (D\<lparr>pd_flagship := sample_offline\<rparr>) budgetOf sample_post
      (w\<lparr>pw_control := None, pw_recording := sample_recording\<rparr>) = (w', Inr (r, sy)) \<and> run_phase r = DONE
      \<and> sy_status sy \<in> {SynthBlocked, SynthHealing HealNeedsDecision}"
proof (intro allI)
  fix D budgetOf and w :: pipe_world
  obtain w' r sy where given: "runExternalPostPlanningPhases sample_chat (D\<lparr>pd_flagship := sample_offline\<rparr>) budgetOf sample_post
      (w\<lparr>pw_control := None, pw_recording := sample_recording\<rparr>) = (w', Inr (r, sy))" "run_phase r = DONE"
    using sample_refused_run by blast
  then have "sy_status sy \<in> {SynthBlocked, SynthHealing HealNeedsDecision}"
    using chat_outcome_agrees [OF given(1)] sample_refused by simp
  with given show "\<exists>w' r sy. runExternalPostPlanningPhases sample_chat (D\<lparr>pd_flagship := sample_offline\<rparr>) budgetOf sample_post
      (w\<lparr>pw_control := None, pw_recording := sample_recording\<rparr>) = (w', Inr (r, sy)) \<and> run_phase r = DONE
      \<and> sy_status sy \<in> {SynthBlocked, SynthHealing HealNeedsDecision}" by blast
qed

end
