(* ===== verification/Spec2Isabelle.thy ===== *)
theory Spec2Isabelle
  imports Run_Properties Store_Properties Memory_Pruning Dag_Compiler_Correct Plan_Execution
    Healing_Correct Budget_Approvals Approval_Safety Run_Control_Correct Rate_Limiter_Correct
    Access_Correct Quotas Ssrf_Protection Failover_Correct Task_Decomposer_Correct Chat_Pipeline_Correct
begin

text \<open>
  Rector is a local orchestration server for AI coding runs. A chat message becomes a run; the run
  is triaged, planned, reviewed by a skeptic and arbitrated by the crucible; the accepted plan is
  compiled into a graph of nodes, executed, validated and, where that is safe, repaired. Runs live
  in a store with an event log; every change of phase is an optimistic, versioned commit. Around
  this core stand gates: budgets, approvals of single operations, interrupts, rate limits.

  \<^bold>\<open>Theories and sources\<close> (paths under \<open>src/src\<close>):

  \<^item> \<open>Rector_Prelude\<close>: JavaScript strings, insertion-ordered maps (locale \<open>map_interface\<close>), sets,
    numbers and JSON-shaped values; results \<open>'e + 'a\<close> for calls that may throw.
  \<^item> \<open>Run_Phases\<close> (\<open>protocol/phases.ts\<close>, \<open>protocol/events.ts\<close>), \<open>Redaction\<close>
    (\<open>security/redaction.ts\<close>: the four patterns as scanners, redaction of trees).
  \<^item> \<open>Store_Schemas\<close>, \<open>Conversation_Lineage\<close>, \<open>Rector_Store\<close>, \<open>Store_Invariants\<close>,
    \<open>Store_Properties\<close>, \<open>Memory_Pruning\<close> (\<open>store/schemas.ts\<close>, \<open>store/lineage.ts\<close>,
    \<open>store/inMemoryRectorStore.ts\<close>, \<open>memory/entryUtils.ts\<close>): the records, every operation that
    changes the store as a function from the store to the new store and its outcome, the invariant
    of reachable stores, lineage, pruning and redaction of memories, colliding identifiers of
    overlapping creations. Where a method awaits in the middle it is split at the await.
  \<^item> \<open>Run_Machine\<close>, \<open>Run_Safety\<close>, \<open>Run_Properties\<close> (\<open>orchestration/runStateMachine.ts\<close>): the
    transition table and the commit loop over an abstract store (locale \<open>versioned_runs\<close>,
    interpreted on the in-memory store); other work between two steps of a call is an argument.
    Safety, atomic failure, liveness of single calls; interleavings of many calls as the step
    relation \<open>machine_step\<close>, with phase histories as its consequence.
  \<^item> \<open>Dag_Protocol\<close>, \<open>Topological_Order\<close> (\<open>protocol/dag.ts\<close>): graphs, the cycle search proved
    equivalent to acyclicity, topological sorting shared by compiler and executor.
  \<^item> \<open>Planner_Schema\<close>, \<open>Crucible_Review\<close> (\<open>orchestration/planner.ts\<close> and \<open>skeptic.ts\<close>: schemas,
    \<open>memory/skillSchema.ts\<close>, \<open>orchestration/crucible.ts\<close>): arbitration and skill activation.
  \<^item> \<open>Dag_Compiler\<close>, \<open>Dag_Compiler_Correct\<close> (\<open>orchestration/dagCompiler.ts\<close>): compilation and
    validation of compiled graphs (locale \<open>task_sorter\<close>).
  \<^item> \<open>Dag_Executor\<close>, \<open>Dag_Executor_Correct\<close> (\<open>orchestration/executorSimulator.ts\<close>): execution with
    policies, injected failures, aborts, the event log. \<open>Plan_Execution\<close> composes crucible,
    compiler and executor.
  \<^item> \<open>Turn_Budget\<close> (\<open>orchestration/turnBudget.ts\<close>, locale \<open>purse\<close>), \<open>Healing_Loop\<close>,
    \<open>Healing_Correct\<close> (\<open>orchestration/validationHealing.ts\<close>, locale \<open>healing_rounds\<close> for the retry
    loop and the repair loop).
  \<^item> \<open>Budget_Gate\<close>, \<open>Budget_Approvals\<close> (\<open>security/budget.ts\<close>): the gates and the registry of
    approvals with its waiters and timers as a step relation.
  \<^item> \<open>Approval_Flow\<close>, \<open>Approval_Safety\<close> (\<open>api/approvalFlow.ts\<close>): presenting operations and recording
    decisions over the run state machine.
  \<^item> \<open>Run_Control\<close>, \<open>Run_Control_Correct\<close> (\<open>orchestration/runControl.ts\<close>, \<open>runEvent\<close> of
    \<open>externalRunSupport.ts\<close>): control states shared by reference, as a store of objects with a
    registry of addresses (locale \<open>lossy_queue\<close>).
  \<^item> \<open>Rate_Limiter\<close>, \<open>Rate_Limiter_Correct\<close> (\<open>security/rateLimiter.ts\<close>, locale \<open>rate_limiter\<close>).
  \<^item> \<open>Access_Control\<close>, \<open>Workspace_Routes\<close>, \<open>Access_Correct\<close> (\<open>security/rbac.ts\<close>,
    \<open>security/workspaces.ts\<close>, \<open>security/userDataPaths.ts\<close>, the authorisation of \<open>api/server.ts\<close> and
    the membership routes of \<open>api/routes/commercial.ts\<close>): roles, the workspace directory, requests.
  \<^item> \<open>Quotas\<close> (\<open>security/quotas.ts\<close>, \<open>enforceRunQuota\<close> of \<open>api/server.ts\<close>): usage per workspace.
  \<^item> \<open>JS_Strings\<close>: split, join and hexadecimal numbers. \<open>Ssrf_Protection\<close>
    (\<open>security/ssrfProtection.ts\<close>): addresses, ranges, validation of provider URLs.
  \<^item> \<open>Provider_Failover\<close>, \<open>Failover_Correct\<close> (\<open>providers/failover.ts\<close>, \<open>credentialPool.ts\<close>,
    \<open>turnRetryState.ts\<close>): resilient calls as a chain of stages, the pool of credentials.
  \<^item> \<open>Sandbox_Paths\<close>, \<open>Sandbox_Operations\<close>, \<open>Sandbox_Adapters\<close>, \<open>Sandbox_Safety\<close>
    (\<open>sandbox/index.ts\<close>): containment of paths, operations with their effects on the host, adapters.
  \<^item> \<open>Tool_Dispatch\<close>, \<open>Builtin_Tools\<close>, \<open>Tool_Correct\<close> (\<open>tools/types.ts\<close>, \<open>tools/registry.ts\<close>,
    \<open>tools/middleware.ts\<close>, \<open>tools/builtinTools.ts\<close>): the registry, the chain of middlewares and the
    handlers of the built-in tools, which drive the sandbox; parsing of operations.
  \<^item> \<open>Sandbox_Executor\<close>, \<open>Sandbox_Executor_Correct\<close>, \<open>Sandbox_Runs\<close>
    (\<open>orchestration/sandboxExecutor.ts\<close>): execution of graphs through the tools and the sandbox, its
    report and its effects on the host, also for graphs compiled from accepted plans.
  \<^item> \<open>Task_Decomposer\<close>, \<open>Task_Decomposer_Correct\<close> (\<open>orchestration/taskDecomposer.ts\<close>): splitting a
    text into sub-goals, normalisation of their graph, rounds of execution with bounded workers.
  \<^item> \<open>Word_Patterns\<close>: word and reference patterns of the heuristics as scanners. \<open>Skeptic_Review\<close>
    (\<open>orchestration/skeptic.ts\<close>, data of \<open>contextBuilder.ts\<close> and \<open>triage.ts\<close>), \<open>Planner_Plans\<close>
    (\<open>orchestration/planner.ts\<close>): the review of a plan without a model, the deterministic plans of
    every route, normalisation. \<open>Live_Calls\<close> (\<open>providers/llm.ts\<close> and the attempts shared by the
    live steps), \<open>Live_Planning\<close>, \<open>Live_Planning_Correct\<close>: the planner and the skeptic that ask a
    model, with two attempts, budget checks before each call, blockers and fallback plans.
  \<^item> \<open>Synthesizer\<close>, \<open>Synthesizer_Correct\<close> (\<open>orchestration/synthesizer.ts\<close>,
    \<open>orchestration/liveDirectAnswer.ts\<close>): the answer of a run, written by a model or not.
  \<^item> \<open>Run_Recording\<close> (\<open>orchestration/externalRunSupport.ts\<close>: usage, metadata of calls, calls of the
    state machine in a row), \<open>Post_Planning\<close>, \<open>Post_Planning_Correct\<close>
    (\<open>orchestration/externalPostPlanning.ts\<close>: the phases recorded at the end of a run, decisions, failures,
    aborts; \<open>orchestration/chatRunner.ts\<close>: blocked and timed out runs). \<open>Chat_Pipeline\<close>,
    \<open>Chat_Pipeline_Correct\<close>: the work of a run after planning, composed of compiler, sandboxed executor,
    healing loop with the repair agent, decomposer and synthesizer over one world (the host, the
    control of the run, its usage, the store).
  \<^item> \<open>Sample_Data\<close>: concrete records for the witnesses.

  \<^bold>\<open>What the lemmas show.\<close> The store keeps its records well-formed and its links acyclic under every
  operation. A run changes phase only along the table, whatever is interleaved; a finished run stays
  finished; execution is reached only through review; failed transitions leave no trace. The
  crucible decides every well-formed input, accepts nothing with blockers and ends its rounds. An
  accepted plan without circular dependencies compiles to a graph that passes validation, denies
  shells, and executes to success; circular plans are refused. The executor reports every node once,
  skips exactly the nodes with a failed or skipped dependency and writes an ordered log. Healing ends
  within its bound, reports truthfully and leaves unsafe nodes to people. Budgets are never exceeded
  by gated calls; waiters of an approval agree with its record. Approvals execute only when fresh and
  matching, except for a race that is exhibited. Steering keeps order, interrupts are final. Callers
  do not share rate limit quotas. Nobody gains a permission in a workspace except through somebody who
  manages its members; run quotas hold up to the number of overlapping requests.
  Provider URLs are refused exactly on reserved addresses, mapped ones excepted, which is exhibited;
  resilient calls are bounded over the life of a selection and the pool is fair. Every effect of the
  sandbox is authorised, stays in the workspace, and captured output is bounded. A graph run through
  the tools and the sandbox always returns a report of every node; what it did to the host was done by
  operations of nodes whose dependencies had completed and whose policy admits the tool, within the
  budget of tool calls; for a compiled plan these operations write nothing but empty files.
  Sub-goals run exactly when all they depend on succeeded, in whatever order workers finish; those of
  a decomposed request are reported as successful without any work, which is proved.
  The live steps make two calls at most and stay within the budget when providers charge what they
  estimate; the planner always ends with a valid plan or a blocker and a valid fallback; a model
  cannot soften the skeptic's own review nor change the recorded outcome in the answer. Of a whole run after planning: a plan that was not accepted
  never touches the host; where the run ends and what its answer says agree, except that a refused plan
  ends completed and unfinished healing is answered as an interruption; an undisturbed recording goes
  through all phases to the end, and a report that does not fit strands the run, which is exhibited.

  \<^bold>\<open>Bounds and fuel.\<close> Transition attempts are bounded by the source (four). The lineage walks use
  the source's depth limit. The healing loop gets one unit of fuel more than its attempt bound, which
  is proved to be enough. All other loops are structural or have a termination proof.

  \<^bold>\<open>Abstractions.\<close> Strings are 8-bit; numbers are rationals with the non-finite doubles, so
  rounding is not modelled; object graphs are trees. \<open>Date.parse\<close>, \<open>localeCompare\<close>, JSON length,
  datetime syntax, number rendering, clocks and random identifiers are parameters. So are the model
  services, the sandbox, the express middleware and the Redis client.

  \<^bold>\<open>Not modelled.\<close> The HTTP server and its other routes, the browser client and the SQL stores (input and
  output); the rules of triage, context building and prompts (text heuristics around model calls);
  the clients of model providers and their settings, cartographer, templates, modules, evaluation and
  deployment checks. \<open>searchConversations\<close> of the store. Of the chat runner the phases before planning
  (preprocessing, compression of the context, hooks of modules, waiting for budget approvals).
\<close>

end
